(* ===== verification/Prelude.thy ===== *)
theory Prelude
  imports Main "HOL-Library.Char_ord" "HOL-Library.List_Lexorder" "HOL-Library.Sublist"
    "HOL-Library.Multiset" "HOL-Library.Word"
begin

text \<open>
  Shared vocabulary of the development: Rust's ordered containers.

  A \<open>BTreeMap\<close> is an association list whose keys are strictly increasing and a
  \<open>BTreeSet\<close> a strictly increasing list, so that equality of models is equality of
  containers and iteration order is list order. \<open>keyed_store\<close> is the contract the
  clients of a map rely on (what a lookup returns after an insertion); the counting
  and last-write lemmas are proved once against it and reach the model through the
  interpretation \<open>bt\<close>.

  \<open>Vec::sort_by_key\<close> is the stable \<open>sort_key\<close>, \<open>Vec::dedup\<close> (consecutive equal
  elements) is \<open>remdups_adj\<close>. Strings are lists of UTF-8 bytes and compare
  lexicographically by byte, as \<open>str\<close> does in Rust.
\<close>

named_theorems container_simps \<open>rewriting of ordered maps, sets and counters\<close>
named_theorems str_simps \<open>rewriting of Rust string operations\<close>
named_theorems evidence_simps \<open>rewriting of runtime evidence predicates\<close>

section \<open>Ordered maps\<close>

type_synonym ('k, 'v) btree_map = "('k \<times> 'v) list"

fun bt_insert :: "'k::linorder \<Rightarrow> 'v \<Rightarrow> ('k, 'v) btree_map \<Rightarrow> ('k, 'v) btree_map" where
  "bt_insert k v [] = [(k, v)]"
| "bt_insert k v (e # m) =
     (if k < fst e then (k, v) # e # m
      else if fst e < k then e # bt_insert k v m
      else (k, v) # m)"

definition bt_get :: "('k, 'v) btree_map \<Rightarrow> 'k \<Rightarrow> 'v option" where
  "bt_get m k = map_of m k"

definition bt_wf :: "('k::linorder, 'v) btree_map \<Rightarrow> bool" where
  "bt_wf m \<longleftrightarrow> sorted_wrt (<) (map fst m)"

definition bt_keys :: "('k, 'v) btree_map \<Rightarrow> 'k list" where
  "bt_keys m = map fst m"

text \<open>\<open>*m.entry(k).or_default() += 1\<close>, the counting idiom of the sources.\<close>

definition bt_bump :: "'k::linorder \<Rightarrow> ('k, nat) btree_map \<Rightarrow> ('k, nat) btree_map" where
  "bt_bump k m = bt_insert k (Suc (case bt_get m k of None \<Rightarrow> 0 | Some n \<Rightarrow> n)) m"

definition bt_count :: "'k::linorder list \<Rightarrow> ('k, nat) btree_map" where
  "bt_count ks = foldl (\<lambda>m k. bt_bump k m) [] ks"

text \<open>\<open>entries.into_iter().collect::<BTreeMap<_, _>>()\<close>: later entries win.\<close>

definition bt_collect :: "('k::linorder \<times> 'v) list \<Rightarrow> ('k, 'v) btree_map" where
  "bt_collect es = foldl (\<lambda>m e. bt_insert (fst e) (snd e) m) [] es"

definition bs_collect :: "'a::linorder list \<Rightarrow> 'a list" where
  "bs_collect xs = sort (remdups xs)"

subsection \<open>The contract of a keyed store\<close>

locale keyed_store =
  fixes empty :: 'm
    and put :: "'k \<Rightarrow> 'v \<Rightarrow> 'm \<Rightarrow> 'm"
    and get :: "'m \<Rightarrow> 'k \<Rightarrow> 'v option"
    and ok :: "'m \<Rightarrow> bool"
  assumes get_empty: "get empty k = None"
    and get_put: "ok m \<Longrightarrow> get (put k v m) k' = (if k' = k then Some v else get m k')"
    and ok_empty: "ok empty"
    and ok_put: "ok m \<Longrightarrow> ok (put k v m)"
begin

lemma ok_collect: "ok m \<Longrightarrow> ok (foldl (\<lambda>m e. put (fst e) (snd e) m) m es)"
  by (induction es arbitrary: m) (auto intro: ok_put)

lemma get_collect:
  "ok m \<Longrightarrow> get (foldl (\<lambda>m e. put (fst e) (snd e) m) m es) k =
     (case map_of (rev es) k of None \<Rightarrow> get m k | Some v \<Rightarrow> Some v)"
  by (induction es arbitrary: m)
    (auto simp: get_put ok_put map_add_def split: option.splits)

lemma get_update_same: "ok m \<Longrightarrow> get (put k (f (get m k)) m) k = Some (f (get m k))"
  by (simp add: get_put)

end

locale counting_store = keyed_store empty put get ok
  for empty :: 'm and put :: "'k \<Rightarrow> nat \<Rightarrow> 'm \<Rightarrow> 'm"
    and get :: "'m \<Rightarrow> 'k \<Rightarrow> nat option" and ok :: "'m \<Rightarrow> bool" +
  fixes bump :: "'k \<Rightarrow> 'm \<Rightarrow> 'm"
  assumes bump_put: "bump k m = put k (Suc (case get m k of None \<Rightarrow> 0 | Some n \<Rightarrow> n)) m"
begin

lemma ok_count: "ok m \<Longrightarrow> ok (foldl (\<lambda>m k. bump k m) m ks)"
  by (induction ks arbitrary: m) (auto simp: bump_put intro: ok_put)

lemma get_count_from:
  "ok m \<Longrightarrow> get (foldl (\<lambda>m k. bump k m) m ks) k =
     (if k \<in> set ks then Some (count_list ks k + (case get m k of None \<Rightarrow> 0 | Some n \<Rightarrow> n))
      else get m k)"
proof (induction ks arbitrary: m)
  case Nil
  then show ?case by simp
next
  case (Cons a ks)
  have "ok (bump a m)" using Cons.prems by (simp add: bump_put ok_put)
  note IH = Cons.IH [OF this]
  show ?case using Cons.prems IH
    by (auto simp: bump_put get_put count_list_0_iff split: option.splits)
qed

lemma get_count:
  "get (foldl (\<lambda>m k. bump k m) empty ks) k =
     (if k \<in> set ks then Some (count_list ks k) else None)"
  by (simp add: get_count_from ok_empty get_empty)

lemma get_count_one:
  "get (foldl (\<lambda>m k. bump k m) empty ks) k = Some 1 \<longleftrightarrow> count_list ks k = 1"
  by (auto simp: get_count count_list_0_iff)

end

lemma set_bt_insert: "set (map fst (bt_insert k v m)) = insert k (set (map fst m))"
  by (induction m) auto

lemma bt_wf_insert: "bt_wf m \<Longrightarrow> bt_wf (bt_insert k v m)"
  unfolding bt_wf_def
proof (induction m)
  case Nil
  then show ?case by simp
next
  case (Cons e m)
  then have IH: "sorted_wrt (<) (map fst (bt_insert k v m))" by simp
  show ?case
    using Cons.prems IH set_bt_insert [of k v m]
    by (cases "k < fst e"; cases "fst e < k") (auto intro: less_trans)
qed

lemma bt_get_insert:
  "bt_wf m \<Longrightarrow> bt_get (bt_insert k v m) k' = (if k' = k then Some v else bt_get m k')"
  unfolding bt_wf_def bt_get_def
proof (induction m)
  case Nil
  then show ?case by simp
next
  case (Cons e m)
  then show ?case by (cases e) (auto simp: map_of_eq_None_iff)
qed

interpretation bt: keyed_store "[]" bt_insert bt_get bt_wf
  by unfold_locales (simp_all add: bt_get_insert bt_wf_insert, simp_all add: bt_get_def bt_wf_def)

interpretation btc: counting_store "[]" bt_insert bt_get bt_wf bt_bump
  by unfold_locales (simp add: bt_bump_def)

lemma bt_get_count [container_simps]:
  "bt_get (bt_count ks) k = (if k \<in> set ks then Some (count_list ks k) else None)"
  unfolding bt_count_def by (rule btc.get_count)

lemma bt_get_count_one [container_simps]: "bt_get (bt_count ks) k = Some 1 \<longleftrightarrow> count_list ks k = 1"
  unfolding bt_count_def by (rule btc.get_count_one)

lemma bt_get_count_Suc0 [container_simps]:
  "bt_get (bt_count ks) k = Some (Suc 0) \<longleftrightarrow> count_list ks k = 1"
  using bt_get_count_one [of ks k] by simp

lemma bt_wf_count: "bt_wf (bt_count ks)"
  unfolding bt_count_def by (rule btc.ok_count) (rule bt.ok_empty)

lemma bt_wf_collect: "bt_wf (bt_collect es)"
  unfolding bt_collect_def by (rule bt.ok_collect) (rule bt.ok_empty)

lemma bt_get_collect [container_simps]: "bt_get (bt_collect es) k = map_of (rev es) k"
  unfolding bt_collect_def by (simp add: bt.get_collect bt.ok_empty bt.get_empty split: option.splits)

text \<open>Ordered maps with the same lookups are equal.\<close>

lemma bt_eqI:
  assumes "bt_wf m" "bt_wf m'" "\<And>k. bt_get m k = bt_get m' k"
  shows "m = m'"
proof (rule map_sorted_distinct_set_unique [of fst])
  have "map_of m = map_of m'" using assms(3) by (auto simp: bt_get_def)
  moreover have "distinct (map fst m)" "distinct (map fst m')"
    using assms(1,2) by (auto simp: bt_wf_def strict_sorted_iff)
  ultimately show "set m = set m'" using map_of_inject_set by blast
  show "sorted (map fst m)" "sorted (map fst m')" "distinct (map fst m)" "distinct (map fst m')"
    using assms(1,2) by (auto simp: bt_wf_def strict_sorted_iff)
  show "inj_on fst (set m \<union> set m')"
    using \<open>set m = set m'\<close> \<open>distinct (map fst m)\<close> by (simp add: distinct_map)
qed

lemma bt_count_perm: "mset ks = mset ks' \<Longrightarrow> bt_count ks = bt_count ks'"
  by (rule bt_eqI) (auto simp: bt_wf_count bt_get_count count_mset [symmetric] dest: mset_eq_setD)

lemma set_bs_collect [simp]: "set (bs_collect xs) = set xs"
  by (simp add: bs_collect_def)

lemma sorted_bs_collect [simp]: "sorted_wrt (<) (bs_collect xs)"
  by (simp add: bs_collect_def strict_sorted_iff)

lemma bs_collect_Nil_iff [simp]: "bs_collect xs = [] \<longleftrightarrow> xs = []"
  using set_bs_collect [of xs] by (metis set_empty)

lemma bs_collect_cong: "set xs = set ys \<Longrightarrow> bs_collect xs = bs_collect ys"
  using sorted_list_of_set_sort_remdups [of xs] sorted_list_of_set_sort_remdups [of ys]
  by (simp add: bs_collect_def)

section \<open>Vectors\<close>

lemma count_list_filter_one:
  assumes "count_list (map f (filter P xs)) k = 1" "x \<in> set xs" "P x" "f x = k"
    and "y \<in> set xs" "P y" "f y = k"
  shows "x = y"
proof (rule ccontr)
  assume ne: "x \<noteq> y"
  have "count_list (map f (filter P xs)) k = length (filter (\<lambda>z. f z = k) (filter P xs))"
    by (induction xs) auto
  moreover have "{x, y} \<subseteq> set (filter (\<lambda>z. f z = k) (filter P xs))" using assms by auto
  then have "card {x, y} \<le> length (filter (\<lambda>z. f z = k) (filter P xs))"
    by (meson card_length card_mono finite_set le_trans)
  ultimately show False using assms(1) ne by simp
qed

lemma count_list_one_unique:
  "count_list (map f xs) k = 1 \<Longrightarrow> x \<in> set xs \<Longrightarrow> f x = k \<Longrightarrow> y \<in> set xs \<Longrightarrow> f y = k \<Longrightarrow> x = y"
  using count_list_filter_one [of f "\<lambda>_. True" xs k x y] by simp

lemma sorted_map_remdups_adj: "sorted (map f xs) \<Longrightarrow> sorted (map f (remdups_adj xs))"
proof (induction xs rule: remdups_adj.induct)
  case (3 x y xs)
  then have IH: "sorted (map f (remdups_adj (y # xs)))" by (cases "x = y") simp_all
  have "\<forall>z \<in> set (remdups_adj (y # xs)). f x \<le> f z"
    using "3.prems" by (simp only: remdups_adj_set) simp
  then show ?case using IH by (cases "x = y") simp_all
qed auto

lemma set_remdups_sort_key [simp]: "set (remdups_adj (sort_key f xs)) = set xs"
  by simp

text \<open>
  Sorting by an injective key and then dropping consecutive duplicates removes every
  duplicate: equal elements have equal keys and so are neighbours.
\<close>

lemma distinct_remdups_adj_sorted:
  "inj_on f (set xs) \<Longrightarrow> sorted (map f xs) \<Longrightarrow> distinct (remdups_adj xs)"
proof (induction xs rule: remdups_adj.induct)
  case (3 x y xs)
  show ?case
  proof (cases "x = y")
    case True
    then show ?thesis using 3 by simp
  next
    case False
    have IH: "distinct (remdups_adj (y # xs))"
      using 3 False by (auto intro: inj_on_subset)
    have "x \<notin> set (y # xs)"
    proof
      assume x: "x \<in> set (y # xs)"
      then have "f y \<le> f x" using "3.prems"(2) by auto
      moreover have "f x \<le> f y" using "3.prems"(2) by simp
      ultimately have "f x = f y" by simp
      with "3.prems"(1) False show False by (auto simp: inj_on_def)
    qed
    then have "x \<notin> set (remdups_adj (y # xs))" by (simp only: remdups_adj_set) simp
    then show ?thesis using IH False by simp
  qed
qed auto

lemma distinct_remdups_adj_sort_key:
  "inj f \<Longrightarrow> distinct (remdups_adj (sort_key f xs))"
  by (rule distinct_remdups_adj_sorted [of f]) (auto intro: inj_on_subset)

lemma count_list_one_index:
  "count_list xs k = 1 \<Longrightarrow> i < length xs \<Longrightarrow> xs ! i = k \<Longrightarrow> j < length xs \<Longrightarrow> xs ! j = k \<Longrightarrow> i = j"
proof (induction xs arbitrary: i j)
  case (Cons x xs)
  show ?case
  proof (cases "x = k")
    case True
    then have "k \<notin> set xs" using Cons.prems(1) by (simp add: count_list_0_iff)
    then show ?thesis using Cons.prems by (cases i; cases j) auto
  next
    case False
    then show ?thesis using Cons by (cases i; cases j) auto
  qed
qed simp

lemma count_list_pos_iff: "0 < count_list xs k \<longleftrightarrow> k \<in> set xs"
  using count_list_0_iff [of xs k] by auto

lemma count_list_filter_nonempty: "k \<noteq> [] \<Longrightarrow> count_list (filter (\<lambda>i. i \<noteq> []) xs) k = count_list xs k"
  by (induction xs) auto

lemma count_list_map_filter: "count_list (map f (filter P xs)) k = length (filter (\<lambda>x. P x \<and> f x = k) xs)"
  by (induction xs) auto

text \<open>A search with at most one hit does not depend on the order of the list.\<close>

lemma find_filter: "find P xs = (case filter P xs of [] \<Rightarrow> None | x # _ \<Rightarrow> Some x)"
  by (induction xs) auto

lemma find_unique_perm:
  assumes "mset xs = mset ys" "length (filter P xs) \<le> 1"
  shows "find P xs = find P ys"
proof -
  have m: "mset (filter P xs) = mset (filter P ys)" using assms(1) by (metis mset_filter)
  show ?thesis
  proof (cases "filter P xs")
    case Nil
    then show ?thesis using m by (simp add: find_filter)
  next
    case (Cons x zs)
    then have "filter P xs = [x]" using assms(2) by simp
    moreover have "filter P ys = [x]" using m calculation by (metis mset_single_iff)
    ultimately show ?thesis by (simp add: find_filter)
  qed
qed

lemma mset_concat_map_cong:
  assumes "mset xs = mset ys" "\<And>x. x \<in> set xs \<Longrightarrow> mset (f x) = mset (g x)"
  shows "mset (concat (map f xs)) = mset (concat (map g ys))"
proof -
  have "mset (concat (map f zs)) = sum_mset (image_mset (\<lambda>x. mset (f x)) (mset zs))" for f :: "'a \<Rightarrow> 'b list" and zs
    by (induction zs) auto
  moreover have "image_mset (\<lambda>x. mset (f x)) (mset xs) = image_mset (\<lambda>x. mset (g x)) (mset xs)"
    using assms(2) by (intro image_mset_cong) simp
  ultimately show ?thesis using assms(1) by metis
qed

text \<open>If at most one element of each key produces output, each key has at most one output.\<close>

lemma concat_map_once:
  assumes "\<And>x. x \<in> set xs \<Longrightarrow> g x \<noteq> [] \<Longrightarrow>
      Q x \<and> length (filter (\<lambda>y. Q y \<and> h y = h x) xs) \<le> 1"
    and "\<And>x. length (g x) \<le> 1" and "\<And>x y. y \<in> set (g x) \<Longrightarrow> k y = h x"
  shows "length (filter (\<lambda>y. k y = p) (concat (map g xs))) \<le> 1"
proof -
  have le: "length (filter (\<lambda>y. k y = p) (concat (map g zs)))
      \<le> length (filter (\<lambda>x. g x \<noteq> [] \<and> h x = p) zs)" for zs
  proof (induction zs)
    case (Cons z zs)
    have "length (filter (\<lambda>y. k y = p) (g z)) \<le> (if g z \<noteq> [] \<and> h z = p then 1 else 0)"
      using assms(2) [of z] assms(3) [of _ z] length_filter_le [of "\<lambda>y. k y = p" "g z"]
      by (cases "g z") auto
    then show ?case using Cons by auto
  qed simp
  show ?thesis
  proof (cases "\<exists>x \<in> set xs. g x \<noteq> [] \<and> h x = p")
    case True
    then obtain x where x: "x \<in> set xs" "g x \<noteq> []" "h x = p" by blast
    have "length (filter (\<lambda>x. g x \<noteq> [] \<and> h x = p) zs) \<le> length (filter (\<lambda>y. Q y \<and> h y = h x) zs)"
      if "set zs \<subseteq> set xs" for zs
      using that assms(1) x(3) by (induction zs) auto
    then show ?thesis using le [of xs] assms(1) [OF x(1,2)] by fastforce
  next
    case False
    then have "filter (\<lambda>x. g x \<noteq> [] \<and> h x = p) xs = []" by (auto simp: filter_empty_conv)
    then show ?thesis using le [of xs] by simp
  qed
qed

section \<open>Subsequences\<close>

lemma subseq_set: "subseq xs ys \<Longrightarrow> set xs \<subseteq> set ys"
  by (induction rule: list_emb.induct) auto

lemma count_list_subseq: "subseq xs ys \<Longrightarrow> count_list xs k \<le> count_list ys k"
  by (induction rule: list_emb.induct) auto

lemma sorted_wrt_subseq: "subseq xs ys \<Longrightarrow> sorted_wrt R ys \<Longrightarrow> sorted_wrt R xs"
  by (induction rule: list_emb.induct) (auto dest: subseq_set)

end
