(* ===== verification/Rust_Str.thy ===== *)
theory Rust_Str
  imports Prelude
begin

text \<open>
  The operations of Rust's \<open>str\<close> and integer parsing that the sources use.

  A \<open>str\<close> is its UTF-8 byte sequence (\<open>string\<close>): \<open>len\<close>, comparison, \<open>starts_with\<close>,
  \<open>contains\<close>, \<open>split_once\<close> on an ASCII delimiter and the ASCII predicates work on bytes.
  \<open>chars\<close> decodes the Unicode scalar values (as \<open>nat\<close>), \<open>of_chars\<close> encodes them;
  \<open>trim\<close>, \<open>split_whitespace\<close> and \<open>chars().count()\<close> go through them. Every Rust \<open>str\<close> is
  valid UTF-8 (\<open>valid_utf8\<close>); on other byte lists the decoder drops a truncated tail.
\<close>

section \<open>Bytes\<close>

definition byte :: "char \<Rightarrow> nat" where
  "byte c = of_char c"

definition is_ascii_digit :: "char \<Rightarrow> bool" where
  "is_ascii_digit c \<longleftrightarrow> 48 \<le> byte c \<and> byte c \<le> 57"

definition is_ascii_alphabetic :: "char \<Rightarrow> bool" where
  "is_ascii_alphabetic c \<longleftrightarrow> 65 \<le> byte c \<and> byte c \<le> 90 \<or> 97 \<le> byte c \<and> byte c \<le> 122"

definition is_ascii_alphanumeric :: "char \<Rightarrow> bool" where
  "is_ascii_alphanumeric c \<longleftrightarrow> is_ascii_alphabetic c \<or> is_ascii_digit c"

definition is_lower_hex :: "char \<Rightarrow> bool" where
  "is_lower_hex c \<longleftrightarrow> is_ascii_digit c \<or> 97 \<le> byte c \<and> byte c \<le> 102"

definition ascii_lower :: "char \<Rightarrow> char" where
  "ascii_lower c = (if 65 \<le> byte c \<and> byte c \<le> 90 then char_of (byte c + 32) else c)"

definition to_ascii_lowercase :: "string \<Rightarrow> string" where
  "to_ascii_lowercase s = map ascii_lower s"

definition eq_ignore_ascii_case :: "string \<Rightarrow> string \<Rightarrow> bool" where
  "eq_ignore_ascii_case a b \<longleftrightarrow> to_ascii_lowercase a = to_ascii_lowercase b"

lemma byte_less_256 [simp]: "byte c < 256"
  by (simp add: byte_def)

lemma byte_char_of: "byte (char_of n) = n mod 256"
  by (simp add: byte_def)

lemma byte_char_of_small [simp]: "n < 256 \<Longrightarrow> byte (char_of n) = n"
  by (simp add: byte_char_of)

lemma char_of_byte [simp]: "char_of (byte c) = c"
  by (simp add: byte_def)

lemma byte_eq_iff: "byte c = byte d \<longleftrightarrow> c = d"
  by (simp add: byte_def)

lemma ascii_lower_idem [simp]: "ascii_lower (ascii_lower c) = ascii_lower c"
  by (auto simp: ascii_lower_def)

lemma to_ascii_lowercase_idem [simp]: "to_ascii_lowercase (to_ascii_lowercase s) = to_ascii_lowercase s"
  by (simp add: to_ascii_lowercase_def)

lemma length_to_ascii_lowercase [simp]: "length (to_ascii_lowercase s) = length s"
  by (simp add: to_ascii_lowercase_def)

section \<open>Searching and splitting\<close>

definition starts_with :: "string \<Rightarrow> string \<Rightarrow> bool" where
  "starts_with s p \<longleftrightarrow> prefix p s"

definition ends_with :: "string \<Rightarrow> string \<Rightarrow> bool" where
  "ends_with s p \<longleftrightarrow> suffix p s"

fun str_contains :: "string \<Rightarrow> string \<Rightarrow> bool" where
  "str_contains [] p \<longleftrightarrow> p = []"
| "str_contains (c # s) p \<longleftrightarrow> prefix p (c # s) \<or> str_contains s p"

lemma str_contains_iff: "str_contains s p \<longleftrightarrow> (\<exists>u v. s = u @ p @ v)"
proof (induction s)
  case (Cons c s)
  show ?case
  proof
    assume "str_contains (c # s) p"
    then consider "prefix p (c # s)" | "str_contains s p" by auto
    then show "\<exists>u v. c # s = u @ p @ v"
    proof cases
      case 1
      then obtain v where "c # s = p @ v" by (auto simp: prefix_def)
      then have "c # s = [] @ p @ v" by simp
      then show ?thesis by blast
    next
      case 2
      then obtain u v where "s = u @ p @ v" using Cons by auto
      then have "c # s = (c # u) @ p @ v" by simp
      then show ?thesis by blast
    qed
  next
    assume "\<exists>u v. c # s = u @ p @ v"
    then obtain u v where eq: "c # s = u @ p @ v" by auto
    show "str_contains (c # s) p"
    proof (cases u)
      case Nil
      with eq have "prefix p (c # s)" by (simp add: prefix_def)
      then show ?thesis by simp
    next
      case (Cons d u')
      with eq have "s = u' @ p @ v" by simp
      then show ?thesis using Cons.IH by auto
    qed
  qed
qed auto

lemma str_contains_append: "str_contains s p \<Longrightarrow> str_contains (a @ s @ b) p"
proof -
  assume "str_contains s p"
  then obtain u v where "s = u @ p @ v" by (auto simp: str_contains_iff)
  then have "a @ s @ b = (a @ u) @ p @ (v @ b)" by simp
  then show ?thesis unfolding str_contains_iff by blast
qed

lemma str_contains_char: "str_contains s [c] \<longleftrightarrow> c \<in> set s"
  by (induction s) auto

fun split_once :: "string \<Rightarrow> char \<Rightarrow> (string \<times> string) option" where
  "split_once [] d = None"
| "split_once (c # s) d =
     (if c = d then Some ([], s)
      else map_option (\<lambda>(a, b). (c # a, b)) (split_once s d))"

lemma split_once_Some: "split_once s d = Some (a, b) \<longleftrightarrow> s = a @ d # b \<and> d \<notin> set a"
proof (induction s arbitrary: a)
  case (Cons c s)
  then show ?case by (cases a) auto
qed simp

lemma split_once_None: "split_once s d = None \<longleftrightarrow> d \<notin> set s"
  by (induction s) auto

lemma split_once_append [simp]: "d \<notin> set a \<Longrightarrow> split_once (a @ d # b) d = Some (a, b)"
  by (simp add: split_once_Some)

definition strip_prefix :: "string \<Rightarrow> string \<Rightarrow> string option" where
  "strip_prefix s p = (if prefix p s then Some (drop (length p) s) else None)"

definition strip_suffix :: "string \<Rightarrow> string \<Rightarrow> string option" where
  "strip_suffix s p = (if suffix p s then Some (take (length s - length p) s) else None)"

lemma strip_prefix_Some: "strip_prefix s p = Some r \<longleftrightarrow> s = p @ r"
  by (auto simp: strip_prefix_def prefix_def)

lemma strip_suffix_Some: "strip_suffix s p = Some r \<longleftrightarrow> s = r @ p"
  by (auto simp: strip_suffix_def suffix_def)

lemma starts_with_append [simp]: "starts_with (p @ s) p"
  by (simp add: starts_with_def)

section \<open>Unicode scalar values\<close>

fun utf8_enc :: "nat \<Rightarrow> nat list" where
  "utf8_enc c =
     (if c < 128 then [c]
      else if c < 2048 then [192 + c div 64, 128 + c mod 64]
      else if c < 65536 then [224 + c div 4096, 128 + c div 64 mod 64, 128 + c mod 64]
      else [240 + c div 262144, 128 + c div 4096 mod 64, 128 + c div 64 mod 64, 128 + c mod 64])"

fun utf8_dec :: "nat list \<Rightarrow> nat list" where
  "utf8_dec [] = []"
| "utf8_dec (b # bs) =
     (if b < 128 then b # utf8_dec bs
      else if b < 224 then
        (case bs of c # r \<Rightarrow> ((b mod 32) * 64 + c mod 64) # utf8_dec r | _ \<Rightarrow> [])
      else if b < 240 then
        (case bs of c # d # r \<Rightarrow> ((b mod 16) * 4096 + (c mod 64) * 64 + d mod 64) # utf8_dec r
         | _ \<Rightarrow> [])
      else
        (case bs of c # d # e # r \<Rightarrow>
           ((b mod 8) * 262144 + (c mod 64) * 4096 + (d mod 64) * 64 + e mod 64) # utf8_dec r
         | _ \<Rightarrow> []))"

definition chars :: "string \<Rightarrow> nat list" where
  "chars s = utf8_dec (map byte s)"

definition of_chars :: "nat list \<Rightarrow> string" where
  "of_chars cs = map char_of (concat (map utf8_enc cs))"

text \<open>A Unicode scalar value: a code point that is not a surrogate.\<close>

definition is_scalar :: "nat \<Rightarrow> bool" where
  "is_scalar c \<longleftrightarrow> c < 55296 \<or> 57344 \<le> c \<and> c < 1114112"

definition valid_utf8 :: "string \<Rightarrow> bool" where
  "valid_utf8 s \<longleftrightarrow> list_all is_scalar (chars s) \<and> of_chars (chars s) = s"

definition char_count :: "string \<Rightarrow> nat" where
  "char_count s = length (chars s)"

lemma utf8_enc_bytes: "c < 2097152 \<Longrightarrow> \<forall>b \<in> set (utf8_enc c). b < 256"
proof -
  assume c: "c < 2097152"
  have "c div 262144 < 8" using c by (simp add: less_mult_imp_div_less)
  moreover have "c < 2048 \<Longrightarrow> c div 64 < 32" by (simp add: less_mult_imp_div_less)
  moreover have "c < 65536 \<Longrightarrow> c div 4096 < 16" by (simp add: less_mult_imp_div_less)
  moreover have "x mod 64 < 64" for x :: nat by simp
  ultimately show ?thesis by (auto simp: trans_less_add1)
qed

lemma split64: "(n::nat) = n div 64 * 64 + n mod 64"
  by simp

lemma div_4096: "(n::nat) div 4096 = n div 64 div 64"
  using div_mult2_eq [of n 64 64] by simp

lemma div_262144: "(n::nat) div 262144 = n div 4096 div 64"
  using div_mult2_eq [of n 4096 64] by simp

lemma lead_byte_mod:
  "(q::nat) < 32 \<Longrightarrow> (192 + q) mod 32 = q"
  "(q::nat) < 16 \<Longrightarrow> (224 + q) mod 16 = q"
  "(q::nat) < 8 \<Longrightarrow> (240 + q) mod 8 = q"
  "(q::nat) < 64 \<Longrightarrow> (128 + q) mod 64 = q"
proof -
  have "(q + 6 * 32) mod 32 = q mod 32" "(q + 14 * 16) mod 16 = q mod 16"
    "(q + 30 * 8) mod 8 = q mod 8" "(q + 2 * 64) mod 64 = q mod 64"
    by (rule mod_mult_self1)+
  then show "q < 32 \<Longrightarrow> (192 + q) mod 32 = q" "q < 16 \<Longrightarrow> (224 + q) mod 16 = q"
    "q < 8 \<Longrightarrow> (240 + q) mod 8 = q" "q < 64 \<Longrightarrow> (128 + q) mod 64 = q"
    by (simp_all add: add.commute)
qed

lemma utf8_dec_enc:
  assumes "c < 2097152"
  shows "utf8_dec (utf8_enc c @ r) = c # utf8_dec r"
proof -
  consider "c < 128" | "128 \<le> c" "c < 2048" | "2048 \<le> c" "c < 65536" | "65536 \<le> c" by linarith
  then show ?thesis
  proof cases
    case 2
    then have q: "c div 64 < 32" by (simp add: less_mult_imp_div_less)
    then show ?thesis using 2 by (simp add: lead_byte_mod)
  next
    case 3
    then have q: "c div 4096 < 16" by (simp add: less_mult_imp_div_less)
    have "c div 4096 * 4096 + c div 64 mod 64 * 64 + c mod 64 = c"
      using split64 [of c] split64 [of "c div 64"] div_4096 [of c] by linarith
    then show ?thesis using 3 q by (simp add: lead_byte_mod)
  next
    case 4
    then have q: "c div 262144 < 8" using assms by (simp add: less_mult_imp_div_less)
    have "c div 262144 * 262144 + c div 4096 mod 64 * 4096 + c div 64 mod 64 * 64 + c mod 64 = c"
      using split64 [of c] split64 [of "c div 64"] split64 [of "c div 4096"]
        div_4096 [of c] div_262144 [of c] by linarith
    then show ?thesis using 4 q by (simp add: lead_byte_mod)
  qed simp
qed

lemma utf8_dec_enc_list:
  "\<forall>c \<in> set cs. c < 2097152 \<Longrightarrow> utf8_dec (concat (map utf8_enc cs)) = cs"
  by (induction cs) (simp_all add: utf8_dec_enc del: utf8_enc.simps)

text \<open>Encoding and decoding are inverse on scalar values.\<close>

lemma chars_of_chars:
  assumes "\<forall>c \<in> set cs. c < 2097152"
  shows "chars (of_chars cs) = cs"
proof -
  have "\<forall>b \<in> set (concat (map utf8_enc cs)). b < 256"
    using assms utf8_enc_bytes by (auto simp del: utf8_enc.simps)
  then have "map byte (of_chars cs) = concat (map utf8_enc cs)"
    unfolding of_chars_def by (simp add: map_idI del: utf8_enc.simps set_concat)
  then show ?thesis using assms by (simp add: chars_def utf8_dec_enc_list)
qed

lemma scalar_bound: "is_scalar c \<Longrightarrow> c < 2097152"
  by (auto simp: is_scalar_def)

lemma chars_of_chars_scalar: "list_all is_scalar cs \<Longrightarrow> chars (of_chars cs) = cs"
  by (rule chars_of_chars) (auto simp: list_all_iff intro: scalar_bound)

lemma valid_of_chars: "list_all is_scalar cs \<Longrightarrow> valid_utf8 (of_chars cs)"
  by (simp add: valid_utf8_def chars_of_chars_scalar)

lemma chars_ascii: "\<forall>c \<in> set s. byte c < 128 \<Longrightarrow> chars s = map byte s"
  unfolding chars_def by (induction s) auto

lemma of_chars_Nil [simp]: "of_chars [] = []"
  by (simp add: of_chars_def)

lemma chars_Nil [simp]: "chars [] = []"
  by (simp add: chars_def)

lemma of_chars_append: "of_chars (a @ b) = of_chars a @ of_chars b"
  by (simp add: of_chars_def)

lemma of_chars_ascii: "\<forall>c \<in> set s. byte c < 128 \<Longrightarrow> of_chars (map byte s) = s"
  unfolding of_chars_def by (induction s) auto

subsection \<open>Whitespace and control characters\<close>

text \<open>The Unicode \<open>White_Space\<close> property and the control category \<open>Cc\<close>.\<close>

definition is_whitespace :: "nat \<Rightarrow> bool" where
  "is_whitespace c \<longleftrightarrow>
     9 \<le> c \<and> c \<le> 13 \<or> c = 32 \<or> c = 133 \<or> c = 160 \<or> c = 5760 \<or> 8192 \<le> c \<and> c \<le> 8202
     \<or> c = 8232 \<or> c = 8233 \<or> c = 8239 \<or> c = 8287 \<or> c = 12288"

definition is_control :: "nat \<Rightarrow> bool" where
  "is_control c \<longleftrightarrow> c \<le> 31 \<or> 127 \<le> c \<and> c \<le> 159"

definition trim_start :: "string \<Rightarrow> string" where
  "trim_start s = of_chars (dropWhile is_whitespace (chars s))"

definition trim :: "string \<Rightarrow> string" where
  "trim s = of_chars (rev (dropWhile is_whitespace (rev (dropWhile is_whitespace (chars s)))))"

function split_ws :: "nat list \<Rightarrow> nat list list" where
  "split_ws [] = []"
| "split_ws (c # cs) =
     (if is_whitespace c then split_ws cs
      else (c # takeWhile (\<lambda>x. \<not> is_whitespace x) cs)
        # split_ws (dropWhile (\<lambda>x. \<not> is_whitespace x) cs))"
  by pat_completeness auto
termination
  by (relation "measure length") (auto simp: length_dropWhile_le le_imp_less_Suc)

definition split_whitespace :: "string \<Rightarrow> string list" where
  "split_whitespace s = map of_chars (split_ws (chars s))"

lemma chars_trim:
  assumes "valid_utf8 s"
  shows "chars (trim s) = rev (dropWhile is_whitespace (rev (dropWhile is_whitespace (chars s))))"
proof -
  have "set (rev (dropWhile is_whitespace (rev (dropWhile is_whitespace (chars s))))) \<subseteq> set (chars s)"
    by (auto dest!: set_dropWhileD)
  then show ?thesis
    unfolding trim_def using assms
    by (intro chars_of_chars_scalar) (auto simp: valid_utf8_def list_all_iff)
qed

lemma split_ws_tokens: "t \<in> set (split_ws cs) \<Longrightarrow> t \<noteq> [] \<and> (\<forall>c \<in> set t. \<not> is_whitespace c)"
proof (induction cs rule: split_ws.induct)
  case (2 c cs)
  show ?case
  proof (cases "is_whitespace c")
    case True
    then have "t \<in> set (split_ws cs)" using "2.prems" by simp
    then show ?thesis by (rule "2.IH"(1) [OF True])
  next
    case False
    then consider "t = c # takeWhile (\<lambda>x. \<not> is_whitespace x) cs"
      | "t \<in> set (split_ws (dropWhile (\<lambda>x. \<not> is_whitespace x) cs))" using "2.prems" by auto
    then show ?thesis
    proof cases
      case 1
      then show ?thesis using False by (auto dest: set_takeWhileD)
    next
      case 2
      then show ?thesis using "2.IH"(2) [OF False] by blast
    qed
  qed
qed simp

section \<open>Decimal numbers\<close>

definition digit_val :: "char \<Rightarrow> nat" where
  "digit_val c = byte c - 48"

fun dec_value :: "nat \<Rightarrow> string \<Rightarrow> nat option" where
  "dec_value acc [] = Some acc"
| "dec_value acc (c # cs) =
     (if is_ascii_digit c then dec_value (acc * 10 + digit_val c) cs else None)"

text \<open>
  \<open>str::parse::<uN>()\<close>: one leading \<open>+\<close> is accepted when digits follow, the empty
  string, any other character and a value of \<open>2\<close> to the \<open>w\<close> or more are errors.
\<close>

definition parse_uint :: "nat \<Rightarrow> string \<Rightarrow> nat option" where
  "parse_uint w s =
     (case s of [] \<Rightarrow> None
      | c # cs \<Rightarrow>
          (case dec_value 0 (if c = CHR ''+'' \<and> cs \<noteq> [] then cs else s) of
             None \<Rightarrow> None
           | Some n \<Rightarrow> if n < 2 ^ w then Some n else None))"

fun show_nat :: "nat \<Rightarrow> string" where
  "show_nat n = (if n < 10 then [char_of (48 + n)]
     else show_nat (n div 10) @ [char_of (48 + n mod 10)])"

declare show_nat.simps [simp del]

lemma dec_value_append:
  "dec_value acc (a @ b) = (case dec_value acc a of None \<Rightarrow> None | Some n \<Rightarrow> dec_value n b)"
  by (induction a arbitrary: acc) auto

lemma digit_char:
  assumes "n < 10"
  shows "is_ascii_digit (char_of (48 + n :: nat))" "digit_val (char_of (48 + n :: nat)) = n"
proof -
  have "byte (char_of (48 + n)) = 48 + n" using assms by (intro byte_char_of_small) simp
  then show "is_ascii_digit (char_of (48 + n :: nat))" "digit_val (char_of (48 + n :: nat)) = n"
    using assms unfolding is_ascii_digit_def digit_val_def by simp_all
qed

lemma dec_value_digit: "n < 10 \<Longrightarrow> dec_value acc [char_of (48 + n)] = Some (acc * 10 + n)"
  using digit_char [of n] by simp

lemma dec_value_show_nat: "dec_value 0 (show_nat n) = Some n"
proof (induction n rule: show_nat.induct)
  case (1 n)
  show ?case
  proof (cases "n < 10")
    case True
    then show ?thesis by (simp add: show_nat.simps [of n] dec_value_digit del: dec_value.simps)
  next
    case False
    with 1 have IH: "dec_value 0 (show_nat (n div 10)) = Some (n div 10)" by simp
    have "n mod 10 < 10" by simp
    then show ?thesis using False
      by (simp add: show_nat.simps [of n] dec_value_append IH dec_value_digit del: dec_value.simps)
  qed
qed

lemma show_nat_digits: "\<forall>c \<in> set (show_nat n). is_ascii_digit c"
proof (induction n rule: show_nat.induct)
  case (1 n)
  have d: "is_ascii_digit (char_of (48 + k))" if "k < 10" for k :: nat
    using that by (rule digit_char)
  show ?case
  proof (cases "n < 10")
    case True
    then show ?thesis using d [of n] by (subst show_nat.simps) simp
  next
    case False
    then show ?thesis using 1 d [of "n mod 10"] by (subst show_nat.simps) auto
  qed
qed

lemma show_nat_nonempty: "show_nat n \<noteq> []"
  by (subst show_nat.simps) simp

lemma parse_show_nat:
  assumes "n < 2 ^ w"
  shows "parse_uint w (show_nat n) = Some n"
proof -
  obtain c cs where s: "show_nat n = c # cs" using show_nat_nonempty by (cases "show_nat n") auto
  then have "is_ascii_digit c" using show_nat_digits [of n] by auto
  then have "c \<noteq> CHR ''+''" by (auto simp: is_ascii_digit_def byte_def)
  then show ?thesis using assms s dec_value_show_nat [of n] by (simp add: parse_uint_def)
qed

lemma digit_not_colon: "is_ascii_digit c \<Longrightarrow> c \<noteq> CHR '':''"
  by (auto simp: is_ascii_digit_def byte_def)

lemma show_nat_no_colon: "CHR '':'' \<notin> set (show_nat n)"
  using show_nat_digits [of n] digit_not_colon by blast

lemma parse_uint_bound: "parse_uint w s = Some n \<Longrightarrow> n < 2 ^ w"
  by (auto simp: parse_uint_def split: list.splits option.splits if_splits)

section \<open>Hexadecimal digests\<close>

definition hex_digit :: "nat \<Rightarrow> char" where
  "hex_digit n = char_of (if n < 10 then 48 + n else 87 + n)"

text \<open>\<open>format!("{byte:02x}")\<close> over the bytes of a digest.\<close>

definition hex_byte :: "8 word \<Rightarrow> string" where
  "hex_byte b = [hex_digit (unat b div 16), hex_digit (unat b mod 16)]"

definition hex_string :: "8 word list \<Rightarrow> string" where
  "hex_string bs = concat (map hex_byte bs)"

lemma length_hex_string [simp]: "length (hex_string bs) = 2 * length bs"
  unfolding hex_string_def by (induction bs) (auto simp: hex_byte_def)

lemma hex_digit_lower_hex: "n < 16 \<Longrightarrow> is_lower_hex (hex_digit n)"
  by (auto simp: hex_digit_def is_lower_hex_def is_ascii_digit_def)

lemma hex_string_lower_hex: "\<forall>c \<in> set (hex_string bs). is_lower_hex c"
proof -
  have "is_lower_hex (hex_digit (unat b div 16)) \<and> is_lower_hex (hex_digit (unat b mod 16))"
    for b :: "8 word"
  proof -
    have "unat b < 256" using unsigned_less [of b, where ?'a = nat] by simp
    then have "unat b div 16 < 16" by (simp add: less_mult_imp_div_less)
    then show ?thesis by (simp add: hex_digit_lower_hex)
  qed
  then show ?thesis by (auto simp: hex_string_def hex_byte_def)
qed

lemma hex_digit_inj: "m < 16 \<Longrightarrow> n < 16 \<Longrightarrow> hex_digit m = hex_digit n \<Longrightarrow> m = n"
proof -
  assume mn: "m < 16" "n < 16" and eq: "hex_digit m = hex_digit n"
  from eq have "byte (hex_digit m) = byte (hex_digit n)" by simp
  then show "m = n" using mn by (auto simp: hex_digit_def split: if_splits)
qed

lemma hex_byte_inj: "hex_byte a = hex_byte b \<Longrightarrow> a = b"
proof -
  assume eq: "hex_byte a = hex_byte b"
  have lt: "unat x div 16 < 16" for x :: "8 word"
    using unsigned_less [of x, where ?'a = nat] by (simp add: less_mult_imp_div_less)
  from eq have "unat a div 16 = unat b div 16" "unat a mod 16 = unat b mod 16"
    using hex_digit_inj lt by (auto simp: hex_byte_def)
  then have "unat a = unat b" by (metis div_mult_mod_eq)
  then show "a = b" by (simp add: word_unat_eq_iff)
qed

lemma hex_string_inj: "hex_string a = hex_string b \<Longrightarrow> a = b"
proof (induction a arbitrary: b)
  case Nil
  then show ?case by (cases b) (auto simp: hex_string_def hex_byte_def)
next
  case (Cons x a)
  then obtain y b' where b: "b = y # b'" by (cases b) (auto simp: hex_string_def hex_byte_def)
  with Cons.prems have "hex_byte x @ hex_string a = hex_byte y @ hex_string b'"
    by (simp add: hex_string_def)
  then have "hex_byte x = hex_byte y" "hex_string a = hex_string b'"
    by (auto simp: hex_byte_def)
  then show ?case using Cons.IH b hex_byte_inj by blast
qed

lemma lower_hex_not_sep: "is_lower_hex c \<Longrightarrow> c \<noteq> CHR ''-'' \<and> c \<noteq> CHR ''_''"
  by (auto simp: is_lower_hex_def is_ascii_digit_def byte_def)

lemma is_ascii_digit_lower_hex: "is_ascii_digit c \<Longrightarrow> is_lower_hex c"
  by (simp add: is_lower_hex_def)

end
