(* ===== verification/Text.thy ===== *)
theory Text
  imports Rust_Str
begin

text \<open>
  More of Rust's \<open>str\<close>: the first and last occurrence of a pattern, \<open>split\<close>, \<open>lines\<close> and
  \<open>join\<close>; and how a search for an ASCII pattern in the UTF-8 bytes relates to the scalar values,
  which is what the proofs about redaction and parsing need.
\<close>

section \<open>Searching and splitting\<close>

text \<open>What comes before and after the first occurrence of a pattern: \<open>find\<close> and the two slices.\<close>

fun find_split :: "'a list \<Rightarrow> 'a list \<Rightarrow> ('a list \<times> 'a list) option" where
  "find_split [] p = (if p = [] then Some ([], []) else None)"
| "find_split (c # s) p =
     (if prefix p (c # s) then Some ([], drop (length p) (c # s))
      else map_option (\<lambda>(a, b). (c # a, b)) (find_split s p))"

definition rsplit_once :: "'a list \<Rightarrow> 'a list \<Rightarrow> ('a list \<times> 'a list) option" where
  "rsplit_once s p = map_option (\<lambda>(b, a). (rev a, rev b)) (find_split (rev s) (rev p))"

fun split_char :: "char \<Rightarrow> string \<Rightarrow> string list" where
  "split_char d [] = [[]]"
| "split_char d (c # s) =
     (if c = d then [] # split_char d s
      else (c # hd (split_char d s)) # tl (split_char d s))"

definition LF :: char where "LF = CHR 0x0A"
definition CR :: char where "CR = CHR 0x0D"

definition strip_cr :: "string \<Rightarrow> string" where
  "strip_cr l = (case strip_suffix l [CR] of Some l' \<Rightarrow> l' | None \<Rightarrow> l)"

text \<open>\<open>str::lines\<close>: a carriage return is dropped only before a line feed, an empty last line is none.\<close>

definition str_lines :: "string \<Rightarrow> string list" where
  "str_lines s = (let ps = split_char LF s
     in map strip_cr (butlast ps) @ (if last ps = [] then [] else [last ps]))"

fun str_join :: "string \<Rightarrow> string list \<Rightarrow> string" where
  "str_join sep [] = []"
| "str_join sep [s] = s"
| "str_join sep (s # t # ss) = s @ sep @ str_join sep (t # ss)"

lemma split_char_nonempty [simp]: "split_char d s \<noteq> []"
  by (cases s) auto

lemma find_split_Some: "find_split s p = Some (a, b) \<Longrightarrow> s = a @ p @ b"
proof (induction s arbitrary: a)
  case (Cons c s)
  then show ?case by (auto simp: prefix_def split: if_splits)
qed (auto split: if_splits)

lemma find_split_prefix: "find_split (p @ r) p = Some ([], r)"
proof (cases "p @ r")
  case (Cons c s)
  have "prefix p (p @ r)" "drop (length p) (p @ r) = r" by simp_all
  then show ?thesis unfolding Cons by simp
qed simp

lemma str_contains_find: "str_contains s p \<longleftrightarrow> find_split s p \<noteq> None"
  by (induction s) auto

lemma find_split_skip:
  "p \<noteq> [] \<Longrightarrow> hd p \<notin> set a \<Longrightarrow>
     find_split (a @ s) p = map_option (\<lambda>(x, y). (a @ x, y)) (find_split s p)"
proof (induction a)
  case (Cons c a)
  then have "\<not> prefix p (c # a @ s)" by (cases p) auto
  then show ?case using Cons by (simp add: option.map_comp comp_def case_prod_beta)
qed (cases "find_split s p"; simp)

section \<open>Bytes and scalar values\<close>

definition ascii :: "string \<Rightarrow> bool" where
  "ascii s \<longleftrightarrow> list_all (\<lambda>c. byte c < 128) s"

lemma of_chars_Cons: "of_chars (c # cs) = map char_of (utf8_enc c) @ of_chars cs"
  by (simp add: of_chars_def)

lemma enc_ascii: "c < 128 \<Longrightarrow> map char_of (utf8_enc c) = [char_of c]"
  by simp

lemma enc_not_ascii:
  assumes "128 \<le> c" and "is_scalar c" and "b \<in> set (map char_of (utf8_enc c) :: string)"
  shows "128 \<le> byte b"
proof -
  obtain n where n: "n \<in> set (utf8_enc c)" "b = char_of n" using assms(3) by auto
  have "n < 256" using utf8_enc_bytes n(1) scalar_bound [OF assms(2)] by blast
  moreover have "128 \<le> n" using n(1) assms(1) by (auto split: if_splits)
  ultimately show ?thesis by (simp add: n(2))
qed

lemma prefix_of_chars:
  "ascii p \<Longrightarrow> list_all is_scalar cs \<Longrightarrow> prefix p (of_chars cs) \<longleftrightarrow> prefix (map byte p) cs"
proof (induction p arbitrary: cs)
  case (Cons x p)
  have p: "byte x < 128" "ascii p" using Cons.prems(1) by (auto simp: ascii_def)
  show ?case
  proof (cases cs)
    case Nil
    then show ?thesis by simp
  next
    case (Cons c ds)
    show ?thesis
    proof (cases "c < 128")
      case True
      have "x = char_of c \<longleftrightarrow> byte x = c" using True by (auto simp: byte_char_of)
      then show ?thesis using Cons.prems(2) Cons.IH [OF p(2), of ds] True
        by (simp add: \<open>cs = c # ds\<close> of_chars_Cons enc_ascii del: utf8_enc.simps)
    next
      case False
      have ne: "utf8_enc c \<noteq> []" by simp
      have "x \<noteq> hd (map char_of (utf8_enc c))"
        using enc_not_ascii [of c x] False Cons.prems(2) p(1) ne hd_in_set [of "map char_of (utf8_enc c) :: string"]
        by (auto simp: \<open>cs = c # ds\<close> simp del: utf8_enc.simps)
      then have "\<not> prefix (x # p) (of_chars cs)"
        using ne by (cases "utf8_enc c") (auto simp: \<open>cs = c # ds\<close> of_chars_Cons simp del: utf8_enc.simps)
      then show ?thesis using False p(1) by (auto simp: \<open>cs = c # ds\<close>)
    qed
  qed
qed simp

lemma find_split_of_chars:
  assumes "p \<noteq> []" and "ascii p"
  shows "list_all is_scalar cs \<Longrightarrow>
    find_split (of_chars cs) p = map_option (\<lambda>(a, b). (of_chars a, of_chars b)) (find_split cs (map byte p))"
proof (induction cs)
  case (Cons c cs)
  show ?case
  proof (cases "prefix p (of_chars (c # cs))")
    case True
    then obtain r where r: "of_chars (c # cs) = p @ r" by (auto simp: prefix_def)
    have pc: "prefix (map byte p) (c # cs)" using True prefix_of_chars [OF assms(2) Cons.prems] by simp
    then obtain ds where ds: "c # cs = map byte p @ ds" by (auto simp: prefix_def)
    have "of_chars (map byte p) = p" using assms(2) by (intro of_chars_ascii) (auto simp: ascii_def list_all_iff)
    then have "r = of_chars ds" using r by (simp add: ds of_chars_append)
    moreover have "find_split (of_chars (c # cs)) p = Some ([], r)"
      by (simp only: r find_split_prefix)
    ultimately show ?thesis using find_split_prefix [of "map byte p" ds] by (simp add: ds)
  next
    case False
    then have pc: "\<not> prefix (map byte p) (c # cs)" using prefix_of_chars [OF assms(2) Cons.prems] by simp
    have IH: "find_split (of_chars cs) p = map_option (\<lambda>(a, b). (of_chars a, of_chars b)) (find_split cs (map byte p))"
      using Cons by simp
    have "find_split (of_chars (c # cs)) p
        = map_option (\<lambda>(x, y). (map char_of (utf8_enc c) @ x, y)) (find_split (of_chars cs) p)"
    proof (cases "c < 128")
      case True
      then show ?thesis using False by (simp add: of_chars_Cons enc_ascii del: utf8_enc.simps)
    next
      case c: False
      have "byte (hd p) < 128" using assms by (cases p) (auto simp: ascii_def)
      then have "hd p \<notin> set (map char_of (utf8_enc c))"
        using enc_not_ascii [of c "hd p"] c Cons.prems by (auto simp del: utf8_enc.simps)
      then show ?thesis unfolding of_chars_Cons by (rule find_split_skip [OF assms(1)])
    qed
    then show ?thesis using pc IH
      by (simp add: option.map_comp comp_def case_prod_beta of_chars_Cons del: utf8_enc.simps)
  qed
qed (use assms in simp)

lemma str_contains_of_chars:
  "p \<noteq> [] \<Longrightarrow> ascii p \<Longrightarrow> list_all is_scalar cs \<Longrightarrow>
     str_contains (of_chars cs) p \<longleftrightarrow> find_split cs (map byte p) \<noteq> None"
  by (simp add: str_contains_find find_split_of_chars)

text \<open>A map that fixes the scalars of the pattern, and maps no other scalar to them.\<close>

definition keeps :: "('a \<Rightarrow> 'a) \<Rightarrow> 'a list \<Rightarrow> bool" where
  "keeps f q \<longleftrightarrow> (\<forall>c. c \<in> set q \<longrightarrow> (\<forall>d. f d = c \<longleftrightarrow> d = c))"

lemma prefix_map_keeps: "keeps f q \<Longrightarrow> prefix q (map f cs) \<longleftrightarrow> prefix q cs"
proof (induction q arbitrary: cs)
  case (Cons x q)
  then have "keeps f q" and eq: "f d = x \<longleftrightarrow> d = x" for d by (simp_all add: keeps_def)
  then have "x = f d \<longleftrightarrow> x = d" for d by metis
  note this [simp]
  then show ?case using Cons.IH \<open>keeps f q\<close> by (cases cs) simp_all
qed simp

lemma find_split_map:
  "keeps f q \<Longrightarrow> q \<noteq> [] \<Longrightarrow>
     find_split (map f cs) q = map_option (\<lambda>(a, b). (map f a, map f b)) (find_split cs q)"
proof (induction cs)
  case (Cons c cs)
  then show ?case using prefix_map_keeps [of f q "c # cs"] drop_map [of "length q" f "c # cs"]
    by (auto simp: option.map_comp comp_def case_prod_beta)
qed simp

end
