(* ===== verification/Utf8.thy ===== *)
theory Utf8
  imports Text
begin

text \<open>
  Decoding of bytes that need not be UTF-8: \<open>String::from_utf8_lossy\<close> of the standard library, which
  the daemon applies to everything it reads from other programs. \<open>utf8_step\<close> reads one character of
  the input, or the longest prefix of a character that is broken off; each such prefix becomes one
  U+FFFD. The result is always a text, and a text is unchanged.
\<close>

definition byte_or_zero :: "string \<Rightarrow> nat \<Rightarrow> nat" where
  "byte_or_zero s i = (if i < length s then byte (s ! i) else 0)"

definition is_continuation :: "nat \<Rightarrow> bool" where
  "is_continuation b \<longleftrightarrow> 128 \<le> b \<and> b < 192"

text \<open>Which second bytes may follow a first byte: no overlong form, no surrogate, no value above U+10FFFF.\<close>

definition second_of_three :: "nat \<Rightarrow> nat \<Rightarrow> bool" where
  "second_of_three b c \<longleftrightarrow>
     (if b = 224 then 160 \<le> c \<and> c < 192 else if b = 237 then 128 \<le> c \<and> c < 160 else is_continuation c)"

definition second_of_four :: "nat \<Rightarrow> nat \<Rightarrow> bool" where
  "second_of_four b c \<longleftrightarrow>
     (if b = 240 then 144 \<le> c \<and> c < 192 else if b = 244 then 128 \<le> c \<and> c < 144 else is_continuation c)"

text \<open>How many bytes one step takes, and whether they are a character.\<close>

definition utf8_step :: "string \<Rightarrow> nat \<times> bool" where
  "utf8_step s =
     (let b = byte_or_zero s 0; c = byte_or_zero s 1; d = byte_or_zero s 2; e = byte_or_zero s 3
      in if b < 128 then (1, True)
         else if 194 \<le> b \<and> b < 224 then (if is_continuation c then (2, True) else (1, False))
         else if 224 \<le> b \<and> b < 240 then
           (if \<not> second_of_three b c then (1, False) else if is_continuation d then (3, True) else (2, False))
         else if 240 \<le> b \<and> b < 245 then
           (if \<not> second_of_four b c then (1, False) else if \<not> is_continuation d then (2, False)
            else if is_continuation e then (4, True) else (3, False))
         else (1, False))"

definition REPLACEMENT :: string where
  "REPLACEMENT = of_chars [65533]"

lemma utf8_step_pos: "0 < fst (utf8_step s)"
  by (simp add: utf8_step_def Let_def)

function from_utf8_lossy :: "string \<Rightarrow> string" where
  "from_utf8_lossy s =
     (if s = [] then []
      else (if snd (utf8_step s) then take (fst (utf8_step s)) s else REPLACEMENT)
             @ from_utf8_lossy (drop (fst (utf8_step s)) s))"
  by auto
termination
  by (relation "measure length") (use utf8_step_pos in auto)

declare from_utf8_lossy.simps [simp del]

lemma from_utf8_lossy_Nil [simp]: "from_utf8_lossy [] = []"
  by (simp add: from_utf8_lossy.simps)

section \<open>A step reads a character\<close>

lemma offset: "(k::nat) \<le> b \<Longrightarrow> \<exists>q. b = k + q"
  by (simp add: le_iff_add)

lemma two_bytes:
  assumes "194 \<le> b" and "b < 224" and "is_continuation c"
  shows "\<exists>x. is_scalar x \<and> utf8_enc x = [b, c]"
proof -
  obtain q m where b: "b = 192 + q" and c: "c = 128 + m"
    using offset [of 192 b] offset [of 128 c] assms by (auto simp: is_continuation_def)
  have q: "2 \<le> q" "q < 32" and m: "m < 64" using assms by (auto simp: b c is_continuation_def)
  have "utf8_enc (q * 64 + m) = [b, c]" "is_scalar (q * 64 + m)"
    using q m by (auto simp: b c is_scalar_def)
  then show ?thesis by blast
qed

lemma three_bytes:
  assumes "224 \<le> b" and "b < 240" and "second_of_three b c" and "is_continuation d"
  shows "\<exists>x. is_scalar x \<and> utf8_enc x = [b, c, d]"
proof -
  have c128: "128 \<le> c" "c < 192" using assms(3) by (auto simp: second_of_three_def is_continuation_def split: if_splits)
  obtain q m k where b: "b = 224 + q" and c: "c = 128 + m" and d: "d = 128 + k"
    using offset [of 224 b] offset [of 128 c] offset [of 128 d] assms c128 by (auto simp: is_continuation_def)
  have q: "q < 16" and m: "m < 64" and k: "k < 64" using assms c128 by (auto simp: b c d is_continuation_def)
  have edge: "q = 0 \<Longrightarrow> 32 \<le> m" "q = 13 \<Longrightarrow> m < 32"
    using assms(3) by (auto simp: b c second_of_three_def)
  let ?x = "q * 4096 + (m * 64 + k)"
  have lo: "m * 64 + k < 4096" using m k by linarith
  have "?x div 4096 = q" using lo by simp
  moreover have "?x div 64 = q * 64 + m" using k by simp
  moreover have "?x mod 64 = k" using k by (simp add: mod_add_eq [symmetric])
  moreover have "2048 \<le> ?x" "?x < 65536" using q m k edge(1) by (cases "q = 0"; linarith)+
  moreover have "is_scalar ?x"
  proof -
    consider "q < 13" | "q = 13" | "13 < q" by linarith
    moreover have "m < 32 \<Longrightarrow> m * 64 + k < 2048" using k by linarith
    ultimately show ?thesis using edge(2) lo \<open>?x < 65536\<close> by cases (auto simp: is_scalar_def)
  qed
  ultimately have "utf8_enc ?x = [b, c, d]" "is_scalar ?x" using m by (simp_all add: b c d)
  then show ?thesis by blast
qed

lemma four_bytes:
  assumes "240 \<le> b" and "b < 245" and "second_of_four b c" and "is_continuation d" and "is_continuation e"
  shows "\<exists>x. is_scalar x \<and> utf8_enc x = [b, c, d, e]"
proof -
  have c128: "128 \<le> c" "c < 192" using assms(3) by (auto simp: second_of_four_def is_continuation_def split: if_splits)
  obtain q m k j where b: "b = 240 + q" and c: "c = 128 + m" and d: "d = 128 + k" and e: "e = 128 + j"
    using offset [of 240 b] offset [of 128 c] offset [of 128 d] offset [of 128 e] assms c128
    by (auto simp: is_continuation_def)
  have q: "q < 5" and m: "m < 64" and k: "k < 64" and j: "j < 64"
    using assms c128 by (auto simp: b c d e is_continuation_def)
  have edge: "q = 0 \<Longrightarrow> 16 \<le> m" "q = 4 \<Longrightarrow> m < 16"
    using assms(3) by (auto simp: b c second_of_four_def)
  let ?x = "q * 262144 + (m * 4096 + (k * 64 + j))"
  have lo: "m * 4096 + (k * 64 + j) < 262144" "k * 64 + j < 4096" using m k j by linarith+
  have "?x div 262144 = q" using lo by simp
  moreover have "?x div 4096 = q * 64 + m" using lo by simp
  moreover have "?x div 64 mod 64 = k"
  proof -
    have "?x div 64 = k + (q * 64 + m) * 64" using j by simp
    then have "?x div 64 mod 64 = k mod 64" by (simp only: mod_mult_self1)
    then show ?thesis using k by simp
  qed
  moreover have "?x mod 64 = j" using j by (simp add: mod_add_eq [symmetric])
  moreover have "65536 \<le> ?x" using edge(1) by (cases "q = 0"; linarith)
  moreover have "?x < 1114112" using edge(2) lo q by (cases "q = 4"; linarith)
  ultimately have "utf8_enc ?x = [b, c, d, e]" "is_scalar ?x" using m k by (simp_all add: b c d e is_scalar_def)
  then show ?thesis by blast
qed

section \<open>Decoding gives a text, and keeps a text\<close>

lemma step_character:
  assumes "s \<noteq> []" and "snd (utf8_step s)"
  shows "\<exists>x. is_scalar x \<and> take (fst (utf8_step s)) s = of_chars [x]"
proof -
  let ?b = "byte_or_zero s 0" let ?c = "byte_or_zero s 1" let ?d = "byte_or_zero s 2" let ?e = "byte_or_zero s 3"
  have present: "is_continuation (byte_or_zero s i) \<Longrightarrow> i < length s" for i
    by (auto simp: byte_or_zero_def is_continuation_def split: if_splits)
  have taken: "\<exists>x. is_scalar x \<and> take n s = of_chars [x]"
    if ex: "\<exists>x. is_scalar x \<and> utf8_enc x = map (byte_or_zero s) [0..<n]" and n: "n \<le> length s" for n
  proof -
    obtain x where x: "is_scalar x" "utf8_enc x = map (byte_or_zero s) [0..<n]" using ex by blast
    have "take n s = of_chars [x]"
      unfolding of_chars_def using n x(2)
      by (intro nth_equalityI) (auto simp: byte_or_zero_def byte_def simp del: utf8_enc.simps)
    then show ?thesis using x(1) by blast
  qed
  have upt: "[0..<1] = [0]" "[0..<2] = [0, 1]" "[0..<3] = [0, 1, 2]" "[0..<4] = [0, 1, 2, 3::nat]"
    by (simp_all add: upt_rec)
  have cont: "second_of_three b c \<Longrightarrow> is_continuation c" "second_of_four b c \<Longrightarrow> is_continuation c" for b c
    by (auto simp: second_of_three_def second_of_four_def is_continuation_def split: if_splits)
  consider (one) "?b < 128" "fst (utf8_step s) = 1"
    | (two) "194 \<le> ?b" "?b < 224" "is_continuation ?c" "fst (utf8_step s) = 2"
    | (three) "224 \<le> ?b" "?b < 240" "second_of_three ?b ?c" "is_continuation ?d" "fst (utf8_step s) = 3"
    | (four) "240 \<le> ?b" "?b < 245" "second_of_four ?b ?c" "is_continuation ?d" "is_continuation ?e" "fst (utf8_step s) = 4"
    using assms(2) by (auto simp: utf8_step_def Let_def split: if_splits)
  then show ?thesis
  proof cases
    case one
    have "1 \<le> length s" using assms(1) by (cases s) auto
    moreover have "is_scalar ?b \<and> utf8_enc ?b = [?b]" using one(1) by (simp add: is_scalar_def)
    ultimately show ?thesis unfolding one(2) by (intro taken) (auto simp only: upt list.map)
  next
    case two
    then show ?thesis using two_bytes [of ?b ?c] Suc_leI [OF present [of 1]] unfolding two(4)
      by (intro taken) (simp_all add: upt numeral_eq_Suc del: utf8_enc.simps)
  next
    case three
    then show ?thesis using three_bytes [of ?b ?c ?d] Suc_leI [OF present [of 2]] unfolding three(5)
      by (intro taken) (simp_all add: upt numeral_eq_Suc del: utf8_enc.simps)
  next
    case four
    then show ?thesis using four_bytes [of ?b ?c ?d ?e] Suc_leI [OF present [of 3]] unfolding four(6)
      by (intro taken) (simp_all add: upt numeral_eq_Suc del: utf8_enc.simps)
  qed
qed

lemma byte_or_zero_Cons [simp]:
  "byte_or_zero (x # s) 0 = byte x" "byte_or_zero (x # s) (Suc i) = byte_or_zero s i"
  by (simp_all add: byte_or_zero_def)

lemma step_of_encoding:
  assumes "is_scalar c"
  shows "utf8_step (of_chars [c] @ r) = (length (of_chars [c]), True)"
proof -
  have num: "(1::nat) = Suc 0" "(2::nat) = Suc (Suc 0)" "(3::nat) = Suc (Suc (Suc 0))" by simp_all
  have tail: "is_continuation (128 + n mod 64)" for n by (simp add: is_continuation_def)
  consider "c < 128" | "128 \<le> c" "c < 2048" | "2048 \<le> c" "c < 65536" | "65536 \<le> c" by linarith
  then show ?thesis
  proof cases
    case 1
    then show ?thesis by (simp add: of_chars_def utf8_step_def byte_char_of)
  next
    case 2
    have q: "2 \<le> c div 64" "c div 64 < 32" using 2 by (auto simp: less_mult_imp_div_less)
    then show ?thesis using 2 tail [of c]
      by (simp add: of_chars_def utf8_step_def byte_char_of num)
  next
    case 3
    have q: "c div 4096 < 16" using 3 by (auto simp: less_mult_imp_div_less)
    have "c div 64 mod 64 < 32" if "c div 4096 = 13" and "c < 55296"
    proof -
      have "c div 64 < 864" using that(2) by (simp add: less_mult_imp_div_less)
      then show ?thesis using that(1) split64 [of "c div 64"] div_4096 [of c] by linarith
    qed
    then have "second_of_three (224 + c div 4096) (128 + c div 64 mod 64)"
      using 3 assms by (auto simp: second_of_three_def is_continuation_def is_scalar_def)
    then show ?thesis using 3 q tail [of c] tail [of "c div 64"]
      by (simp add: of_chars_def utf8_step_def byte_char_of num)
  next
    case 4
    have c: "c < 1114112" using 4 assms by (auto simp: is_scalar_def)
    have q: "c div 262144 < 5" using c by (auto simp: less_mult_imp_div_less)
    have "c div 4096 mod 64 < 16" if "c div 262144 = 4"
    proof -
      have "c div 4096 < 272" using c by (simp add: less_mult_imp_div_less)
      then show ?thesis using that split64 [of "c div 4096"] div_262144 [of c] by linarith
    qed
    then have "second_of_four (240 + c div 262144) (128 + c div 4096 mod 64)"
      using 4 c by (auto simp: second_of_four_def is_continuation_def)
    then show ?thesis using 4 q tail [of c] tail [of "c div 64"] tail [of "c div 4096"]
      by (simp add: of_chars_def utf8_step_def byte_char_of num)
  qed
qed

lemma of_chars_singleton_nonempty: "of_chars [c] \<noteq> []"
  by (simp add: of_chars_def)

lemma lossy_character:
  "is_scalar c \<Longrightarrow> from_utf8_lossy (of_chars [c] @ r) = of_chars [c] @ from_utf8_lossy r"
  by (subst from_utf8_lossy.simps) (simp add: step_of_encoding of_chars_singleton_nonempty)

lemma lossy_of_chars: "list_all is_scalar cs \<Longrightarrow> from_utf8_lossy (of_chars cs) = of_chars cs"
proof (induction cs)
  case (Cons c cs)
  then show ?case using lossy_character [of c "of_chars cs"] of_chars_append [of "[c]" cs] by simp
qed simp

lemma lossy_valid_id: "valid_utf8 s \<Longrightarrow> from_utf8_lossy s = s"
  using lossy_of_chars [of "chars s"] by (simp add: valid_utf8_def)

lemma lossy_is_text: "\<exists>cs. list_all is_scalar cs \<and> from_utf8_lossy s = of_chars cs"
proof (induction s rule: from_utf8_lossy.induct)
  case (1 s)
  show ?case
  proof (cases "s = []")
    case True
    then show ?thesis by (auto intro: exI [of _ "[]"])
  next
    case False
    let ?n = "fst (utf8_step s)"
    obtain cs where cs: "list_all is_scalar cs" "from_utf8_lossy (drop ?n s) = of_chars cs"
      using 1 [OF False] by blast
    obtain x where x: "is_scalar x" "(if snd (utf8_step s) then take ?n s else REPLACEMENT) = of_chars [x]"
    proof (cases "snd (utf8_step s)")
      case True
      then show ?thesis using step_character [OF False] that by auto
    next
      case False
      then show ?thesis using that [of 65533] by (simp add: REPLACEMENT_def is_scalar_def)
    qed
    have "from_utf8_lossy s = of_chars (x # cs)"
      using False x(2) cs(2) of_chars_append [of "[x]" cs] by (subst from_utf8_lossy.simps) simp
    then show ?thesis using x(1) cs(1) by (metis list.pred_inject(2))
  qed
qed

text \<open>What lossy decoding returns is valid, whatever the bytes; on valid bytes nothing is replaced.\<close>

lemma lossy_valid: "valid_utf8 (from_utf8_lossy s)"
  using lossy_is_text [of s] valid_of_chars by metis

lemma lossy_fixed_iff: "from_utf8_lossy s = s \<longleftrightarrow> valid_utf8 s"
  using lossy_valid [of s] lossy_valid_id by metis

end
