(* ===== verification/Models.thy ===== *)
theory Models
  imports Rust_Str
begin

text \<open>
  The public domain model of \<open>crates/dockermap-core/src/models.rs\<close>: every struct as a
  record and every enum as a datatype, in the order of the source. Field names carry a
  two-letter prefix of their record and constructors a prefix of their enum where the
  source relies on Rust's namespaces.

  \<open>u64\<close>, \<open>usize\<close> and \<open>u8\<close> fields are natural numbers (no arithmetic is done on them in
  this file); the \<open>u32\<close> counters are 32-bit words. The JSON renaming attributes and the
  schema derives have no counterpart.
\<close>

type_synonym u64 = nat
type_synonym u32 = "32 word"
type_synonym metadata = "(string, string) btree_map"

section \<open>Docker inventory\<close>

datatype node_kind = NK_Container | NK_Network | NK_Volume

datatype relationship_kind = RK_ConnectedTo | RK_Mounts

record graph_node =
  gn_id :: string
  gn_kind :: node_kind
  gn_label :: string

record graph_edge =
  ge_source :: string
  ge_target :: string
  ge_relationship :: relationship_kind

record graph_response =
  gr_nodes :: "graph_node list"
  gr_edges :: "graph_edge list"

datatype compose_mount_kind = CMK_Bind | CMK_NamedVolume | CMK_AnonymousVolume | CMK_Unsupported

record container_mount =
  cm_id :: string
  cm_kind :: compose_mount_kind
  cm_source :: "string option"
  cm_target :: string
  cm_read_only :: bool

record container_record =
  ct_id :: string
  ct_name :: string
  ct_image :: string
  ct_status :: string
  ct_role :: string
  ct_networks :: "string list"
  ct_ports :: "string list"
  ct_publishes_on_unspecified_address :: bool
  ct_mounts :: "container_mount list"
  ct_depends_on :: "string list"

record image_record =
  im_image :: string
  im_containers :: "string list"
  im_status :: string

record network_record =
  nw_id :: string
  nw_name :: string
  nw_driver :: string
  nw_internal :: bool
  nw_members :: "string list"

record volume_record =
  vl_id :: string
  vl_name :: string
  vl_attached_to :: "string list"

datatype runtime_mode = Mode_Docker | Mode_Mock

record docker_snapshot =
  sn_containers :: "container_record list"
  sn_images :: "image_record list"
  sn_networks :: "network_record list"
  sn_volumes :: "volume_record list"
  sn_last_updated :: u64
  sn_model_revision :: string
  sn_source :: "runtime_mode option"

section \<open>Observed change history\<close>

datatype observed_change_kind =
  ContainerAppeared | ContainerDisappeared | ContainerStatusChanged

datatype observed_container_status = OCS_Running | OCS_Stopped | OCS_Other

record observed_change_event =
  oe_id :: string
  oe_kind :: observed_change_kind
  oe_observed_at_ms :: u64
  oe_container_id :: string
  oe_previous_status :: "observed_container_status option"
  oe_current_status :: "observed_container_status option"

record observed_change_event_wire =
  ow_id :: string
  ow_kind :: observed_change_kind
  ow_observed_at_ms :: u64
  ow_container_id :: string
  ow_previous_status :: "observed_container_status option"
  ow_current_status :: "observed_container_status option"

record observed_change_history_response =
  oh_source :: runtime_mode
  oh_baseline_established :: bool
  oh_current_model_revision :: "string option"
  oh_observed_revision :: "string option"
  oh_events :: "observed_change_event list"

record observed_change_history_response_wire =
  hw_source :: runtime_mode
  hw_baseline_established :: bool
  hw_current_model_revision :: "string option"
  hw_observed_revision :: "string option"
  hw_events :: "observed_change_event list"

definition is_observed_event_id :: "string \<Rightarrow> bool" where
  "is_observed_event_id value \<longleftrightarrow>
     (case split_once value (CHR ''-'') of
        None \<Rightarrow> False
      | Some (boot, sequence) \<Rightarrow>
          length boot = 32 \<and> list_all is_lower_hex boot
          \<and> sequence \<noteq> [] \<and> \<not> starts_with sequence ''0''
          \<and> list_all is_ascii_digit sequence
          \<and> parse_uint 64 sequence \<noteq> None)"

definition is_observed_container_id :: "string \<Rightarrow> bool" where
  "is_observed_container_id value \<longleftrightarrow>
     (case strip_prefix value ''docker_container_'' of
        None \<Rightarrow> False
      | Some digest \<Rightarrow> length digest = 64 \<and> list_all is_lower_hex digest)"

datatype observed_event_error =
    EventIdNotOpaque
  | ContainerIdNotOpaque
  | IncoherentTransition

definition coherent_transition ::
  "observed_change_kind \<Rightarrow> observed_container_status option \<Rightarrow> observed_container_status option \<Rightarrow> bool"
where
  "coherent_transition kind previous current \<longleftrightarrow>
     (case kind of
        ContainerAppeared \<Rightarrow> previous = None \<and> current \<noteq> None
      | ContainerDisappeared \<Rightarrow> previous \<noteq> None \<and> current = None
      | ContainerStatusChanged \<Rightarrow> previous \<noteq> None \<and> current \<noteq> None \<and> previous \<noteq> current)"

definition observed_change_event_try_from ::
  "observed_change_event_wire \<Rightarrow> observed_event_error + observed_change_event"
where
  "observed_change_event_try_from wire =
     (if \<not> is_observed_event_id (ow_id wire) then Inl EventIdNotOpaque
      else if \<not> is_observed_container_id (ow_container_id wire) then Inl ContainerIdNotOpaque
      else if \<not> coherent_transition (ow_kind wire) (ow_previous_status wire)
                (ow_current_status wire) then Inl IncoherentTransition
      else Inr \<lparr>oe_id = ow_id wire, oe_kind = ow_kind wire,
        oe_observed_at_ms = ow_observed_at_ms wire, oe_container_id = ow_container_id wire,
        oe_previous_status = ow_previous_status wire,
        oe_current_status = ow_current_status wire\<rparr>)"

definition observed_event_id_parts :: "string \<Rightarrow> (string \<times> nat) option" where
  "observed_event_id_parts value =
     (if is_observed_event_id value then
        (case split_once value (CHR ''-'') of
           None \<Rightarrow> None
         | Some (boot, sequence) \<Rightarrow> map_option (\<lambda>n. (boot, n)) (parse_uint 64 sequence))
      else None)"

datatype observed_history_error =
    HistoryIncoherent
  | HistoryTooLong
  | HistoryEventIdInvalid
  | HistoryEventIdDuplicate
  | HistoryNotNewestFirst

text \<open>The loop over \<open>wire.events\<close>: \<open>ids\<close> are the identifiers already seen, \<open>previous\<close>
  the time, boot token and sequence of the event before.\<close>

fun check_history_events ::
  "string list \<Rightarrow> (u64 \<times> string \<times> nat) option \<Rightarrow> observed_change_event list
     \<Rightarrow> observed_history_error option"
where
  "check_history_events ids previous [] = None"
| "check_history_events ids previous (event # events) =
     (case observed_event_id_parts (oe_id event) of
        None \<Rightarrow> Some HistoryEventIdInvalid
      | Some (boot, sequence) \<Rightarrow>
          if oe_id event \<in> set ids then Some HistoryEventIdDuplicate
          else if (case previous of
                     None \<Rightarrow> False
                   | Some (previous_at, previous_boot, previous_sequence) \<Rightarrow>
                       oe_observed_at_ms event > previous_at \<or> boot \<noteq> previous_boot
                       \<or> sequence \<ge> previous_sequence)
          then Some HistoryNotNewestFirst
          else check_history_events (oe_id event # ids)
                 (Some (oe_observed_at_ms event, boot, sequence)) events)"

definition revision_present :: "string option \<Rightarrow> bool" where
  "revision_present r \<longleftrightarrow> (case r of None \<Rightarrow> False | Some v \<Rightarrow> v \<noteq> [] \<and> length v \<le> 64)"

definition history_source_coherent :: "observed_change_history_response_wire \<Rightarrow> bool" where
  "history_source_coherent wire \<longleftrightarrow>
     (case hw_source wire of
        Mode_Mock \<Rightarrow> \<not> hw_baseline_established wire \<and> hw_current_model_revision wire = None
          \<and> hw_observed_revision wire = None \<and> hw_events wire = []
      | Mode_Docker \<Rightarrow> hw_baseline_established wire
          \<and> revision_present (hw_current_model_revision wire)
          \<and> revision_present (hw_observed_revision wire))"

definition observed_change_history_response_try_from ::
  "observed_change_history_response_wire
     \<Rightarrow> observed_history_error + observed_change_history_response"
where
  "observed_change_history_response_try_from wire =
     (if \<not> history_source_coherent wire then Inl HistoryIncoherent
      else if length (hw_events wire) > 64 then Inl HistoryTooLong
      else (case check_history_events [] None (hw_events wire) of
        Some e \<Rightarrow> Inl e
      | None \<Rightarrow> Inr \<lparr>oh_source = hw_source wire,
          oh_baseline_established = hw_baseline_established wire,
          oh_current_model_revision = hw_current_model_revision wire,
          oh_observed_revision = hw_observed_revision wire,
          oh_events = hw_events wire\<rparr>))"

section \<open>Provider slots and health\<close>

datatype provider_slot =
    Slot_NetworkInfrastructure
  | Slot_HostScoped
  | Slot_Tmux
  | Slot_Cron
  | Slot_Systemd
  | Slot_PythonProcesses
  | Slot_NativeProcesses
  | Slot_ProjectNpm

text \<open>The derived order of the slots is their declaration order.\<close>

primrec slot_index :: "provider_slot \<Rightarrow> nat" where
  "slot_index Slot_NetworkInfrastructure = 0"
| "slot_index Slot_HostScoped = 1"
| "slot_index Slot_Tmux = 2"
| "slot_index Slot_Cron = 3"
| "slot_index Slot_Systemd = 4"
| "slot_index Slot_PythonProcesses = 5"
| "slot_index Slot_NativeProcesses = 6"
| "slot_index Slot_ProjectNpm = 7"

lemma slot_index_inj: "slot_index a = slot_index b \<Longrightarrow> a = b"
proof -
  define all_slots where "all_slots = [Slot_NetworkInfrastructure, Slot_HostScoped, Slot_Tmux,
    Slot_Cron, Slot_Systemd, Slot_PythonProcesses, Slot_NativeProcesses, Slot_ProjectNpm]"
  have inv: "all_slots ! slot_index x = x" for x
    by (cases x) (simp_all add: all_slots_def)
  show "slot_index a = slot_index b \<Longrightarrow> a = b" using inv by metis
qed

instantiation provider_slot :: linorder
begin

definition less_eq_provider_slot :: "provider_slot \<Rightarrow> provider_slot \<Rightarrow> bool" where
  "less_eq_provider_slot a b \<longleftrightarrow> slot_index a \<le> slot_index b"

definition less_provider_slot :: "provider_slot \<Rightarrow> provider_slot \<Rightarrow> bool" where
  "less_provider_slot a b \<longleftrightarrow> slot_index a < slot_index b"

instance
proof
  fix a b :: provider_slot
  show "a \<le> b \<Longrightarrow> b \<le> a \<Longrightarrow> a = b"
    using slot_index_inj by (simp add: less_eq_provider_slot_def)
qed (auto simp: less_eq_provider_slot_def less_provider_slot_def)

end

datatype provider_state_kind =
  PSK_Fresh | PSK_Stale | PSK_Collecting | PSK_Unavailable | PSK_TimedOut | PSK_Disabled

datatype provider_status_reason =
    PSR_Initial
  | PSR_Refreshing
  | PSR_CollectionFailed
  | PSR_CollectionTimedOut
  | PSR_SourceReset
  | PSR_Disabled

record provider_state =
  ps_slot :: provider_slot
  ps_state :: provider_state_kind
  ps_last_attempt_ms :: "u64 option"
  ps_last_success_ms :: "u64 option"
  ps_last_duration_ms :: "u64 option"
  ps_consecutive_failure_count :: u32
  ps_data_revision :: "string option"
  ps_status_reason :: "provider_status_reason option"

datatype health_state = HS_Ok | HS_Degraded

record health_response =
  hr_status :: health_state
  hr_mode :: runtime_mode
  hr_docker_reachable :: bool
  hr_last_updated :: u64
  hr_snapshot_version :: string
  hr_model_revision :: string
  hr_message :: "string option"

section \<open>Logs\<close>

datatype log_level = LL_Info | LL_Warn | LL_Error

record log_entry =
  lg_id :: string
  lg_timestamp :: u64
  lg_container :: string
  lg_level :: log_level
  lg_message :: string

record logs_response =
  lr_service :: "string option"
  lr_entries :: "log_entry list"
  lr_next_cursor :: "string option"
  lr_source :: "runtime_mode option"

section \<open>Compose declarations\<close>

datatype diagnostic_severity = DS_Info | DS_Warning | DS_Error | DS_Blocked

record compose_file_origin =
  og_file :: string
  og_service :: "string option"
  og_field :: string

record compose_diagnostic =
  cd_id :: string
  cd_severity :: diagnostic_severity
  cd_message :: string
  cd_origin :: compose_file_origin

record compose_mount =
  mt_id :: string
  mt_service :: string
  mt_kind :: compose_mount_kind
  mt_source :: "string option"
  mt_resolved_source :: "string option"
  mt_target :: string
  mt_read_only :: bool
  mt_origin :: compose_file_origin

record compose_service =
  cs_name :: string
  cs_image :: "string option"
  cs_environment :: metadata
  cs_depends_on :: "string list"

datatype mount_correlation_status = MCS_Matched | MCS_Missing | MCS_Extra

record mount_correlation =
  mc_id :: string
  mc_service :: string
  mc_container :: "string option"
  mc_compose_mount_id :: "string option"
  mc_kind :: compose_mount_kind
  mc_target :: string
  mc_declared_source :: "string option"
  mc_runtime_source :: "string option"
  mc_status :: mount_correlation_status

record compose_scan =
  sc_files :: "string list"
  sc_project_root :: string
  sc_services :: "compose_service list"
  sc_mounts :: "compose_mount list"
  sc_correlations :: "mount_correlation list"
  sc_diagnostics :: "compose_diagnostic list"

datatype compose_node_kind =
  CNK_Service | CNK_HostPath | CNK_ContainerPath | CNK_NamedVolume | CNK_AnonymousVolume

datatype compose_relationship_kind = DeclaresMount | MountedAt

record compose_graph_node =
  xn_id :: string
  xn_kind :: compose_node_kind
  xn_label :: string

record compose_graph_edge =
  xe_source :: string
  xe_target :: string
  xe_relationship :: compose_relationship_kind

record compose_graph =
  xg_nodes :: "compose_graph_node list"
  xg_edges :: "compose_graph_edge list"

record compose_edit_plan =
  ep_file :: string
  ep_service :: string
  ep_mount_id :: string
  ep_original_source :: "string option"
  ep_original_target :: string
  ep_new_source :: "string option"
  ep_new_target :: "string option"
  ep_unified_diff :: string
  ep_diagnostics :: "compose_diagnostic list"
  ep_will_write :: bool

section \<open>Runtime topology\<close>

datatype service_entity_kind =
    SEK_Service | SEK_NodeApplication | SEK_PythonApplication | SEK_AiAgent | SEK_Session
  | SEK_Host | SEK_Storage | SEK_ExternalApi | SEK_DnsProvider | SEK_ReverseProxy
  | SEK_PackageDependency

primrec service_entity_kind_name :: "service_entity_kind \<Rightarrow> string" where
  "service_entity_kind_name SEK_Service = ''service''"
| "service_entity_kind_name SEK_NodeApplication = ''node_application''"
| "service_entity_kind_name SEK_PythonApplication = ''python_application''"
| "service_entity_kind_name SEK_AiAgent = ''ai_agent''"
| "service_entity_kind_name SEK_Session = ''session''"
| "service_entity_kind_name SEK_Host = ''host''"
| "service_entity_kind_name SEK_Storage = ''storage''"
| "service_entity_kind_name SEK_ExternalApi = ''external_api''"
| "service_entity_kind_name SEK_DnsProvider = ''dns_provider''"
| "service_entity_kind_name SEK_ReverseProxy = ''reverse_proxy''"
| "service_entity_kind_name SEK_PackageDependency = ''package_dependency''"

datatype runtime_provider_kind =
    RPK_Docker | RPK_Compose | RPK_Host | RPK_Systemd | RPK_ScheduledJob | RPK_Npm | RPK_Pm2
  | RPK_Tmux | RPK_Tailscale | RPK_Headscale | RPK_Cloudflare | RPK_Caddy | RPK_ReverseProxy
  | RPK_LocalDns | RPK_DnsProvider | RPK_ExternalApi | RPK_Process | RPK_Python | RPK_Network
  | RPK_Kubernetes | RPK_Other

datatype runtime_node_kind =
    RNK_Container | RNK_DockerNetwork | RNK_DockerVolume | RNK_Host | RNK_HostRisk | RNK_Service
  | RNK_SystemdService | RNK_ScheduledJob | RNK_Pm2App | RNK_TmuxSession | RNK_TailnetNode
  | RNK_ReverseProxy | RNK_LocalDnsResolver | RNK_DnsProvider | RNK_NodeApplication
  | RNK_PythonApplication | RNK_AiAgent | RNK_Package | RNK_Storage | RNK_ExternalApi
  | RNK_PackageDependency | RNK_Database | RNK_Worker | RNK_Process | RNK_NetworkListener
  | RNK_OrchestratorWorkload | RNK_IntegrityScope

datatype runtime_relationship_kind =
    RRK_ConnectedTo | RRK_DependsOn | RRK_RequiredBy | RRK_Requires | RRK_Wants | RRK_After
  | RRK_Before | RRK_PartOf | RRK_BindsTo | RRK_ConflictsWith | RRK_Mounts | RRK_Manages
  | RRK_Exposes | RRK_ExposesDaemonState | RRK_RunsOn | RRK_Uses | RRK_Calls | RRK_ResolvesVia
  | RRK_ProxiesTo | RRK_Contains | RRK_Owns | RRK_RelatedTo

datatype runtime_node_layer =
    RNL_Edge | RNL_Host | RNL_Service | RNL_Container | RNL_Process | RNL_Session
  | RNL_Package | RNL_Network | RNL_Storage | RNL_Advisory

datatype runtime_health_state = RHS_Healthy | RHS_Degraded | RHS_Unhealthy | RHS_Unknown

datatype runtime_log_level = RLL_Debug | RLL_Info | RLL_Warn | RLL_Error

datatype runtime_ownership_kind = ROK_Person | ROK_Team | ROK_System | ROK_Automation | ROK_Vendor

datatype runtime_location_kind =
    RLK_Host | RLK_Container | RLK_Path | RLK_Cluster | RLK_Region | RLK_Workspace | RLK_Tailnet

datatype runtime_service_status =
    RSS_Running | RSS_Starting | RSS_Stopping | RSS_Stopped | RSS_Degraded | RSS_Failed | RSS_Unknown

definition from_status_text :: "string \<Rightarrow> runtime_service_status" where
  "from_status_text value =
     (let lower = to_ascii_lowercase value in
      if starts_with lower ''up'' \<or> lower = ''running'' then RSS_Running
      else if lower = ''starting'' \<or> lower = ''created'' \<or> lower = ''restarting'' then RSS_Starting
      else if lower = ''stopping'' then RSS_Stopping
      else if lower = ''stopped'' \<or> lower = ''exited'' \<or> starts_with lower ''exited''
        \<or> lower = ''dead'' \<or> lower = ''paused'' \<or> lower = ''removing'' then RSS_Stopped
      else if lower = ''degraded'' then RSS_Degraded
      else if lower = ''failed'' \<or> lower = ''error'' then RSS_Failed
      else RSS_Unknown)"

datatype runtime_package_manager =
    RPM_Npm | RPM_Pnpm | RPM_Yarn | RPM_Pip | RPM_Apt | RPM_Apk | RPM_Brew | RPM_Cargo | RPM_System

datatype runtime_advisory_severity = RAS_Low | RAS_Moderate | RAS_High | RAS_Critical

record runtime_health =
  rh_state :: runtime_health_state
  rh_checked_at :: "u64 option"
  rh_source :: "string option"
  rh_message :: "string option"

record runtime_log_ref =
  rl_id :: string
  rl_source :: string
  rl_level :: "runtime_log_level option"

record runtime_ownership =
  ro_kind :: runtime_ownership_kind
  ro_name :: string
  ro_id :: "string option"

record runtime_location =
  rc_kind :: runtime_location_kind
  rc_value :: string
  rc_detail :: "string option"

record runtime_service_entity =
  se_name :: string
  se_status :: runtime_service_status
  se_dependencies :: "string list"
  se_dependents :: "string list"
  se_health :: "runtime_health option"
  se_logs :: "runtime_log_ref list"
  se_owner :: "runtime_ownership option"
  se_location :: "runtime_location option"

definition service_entity_minimal :: "string \<Rightarrow> runtime_service_status \<Rightarrow> runtime_service_entity" where
  "service_entity_minimal name status =
     \<lparr>se_name = name, se_status = status, se_dependencies = [], se_dependents = [],
      se_health = None, se_logs = [], se_owner = None, se_location = None\<rparr>"

record runtime_package_advisory =
  pa_id :: string
  pa_source :: string
  pa_title :: string
  pa_severity :: runtime_advisory_severity
  pa_fixed_version :: "string option"
  pa_url :: "string option"
  pa_published_at :: "u64 option"

record runtime_package_update =
  pu_current_version :: string
  pu_latest_version :: "string option"
  pu_available :: bool
  pu_advisories :: "runtime_package_advisory list"

record runtime_package_entity =
  pe_name :: string
  pe_manager :: runtime_package_manager
  pe_version :: string
  pe_dependencies :: "string list"
  pe_dependents :: "string list"
  pe_update :: "runtime_package_update option"
  pe_owner :: "runtime_ownership option"
  pe_location :: "runtime_location option"

definition package_entity_minimal :: "string \<Rightarrow> string \<Rightarrow> runtime_package_entity" where
  "package_entity_minimal name version =
     \<lparr>pe_name = name, pe_manager = RPM_Npm, pe_version = version, pe_dependencies = [],
      pe_dependents = [], pe_update = None, pe_owner = None, pe_location = None\<rparr>"

record runtime_map_node =
  rn_id :: string
  rn_provider :: runtime_provider_kind
  rn_kind :: runtime_node_kind
  rn_label :: string
  rn_status :: "string option"
  rn_layer :: "runtime_node_layer option"
  rn_metadata :: metadata
  rn_service :: "runtime_service_entity option"
  rn_package :: "runtime_package_entity option"

section \<open>The history validator against its specification\<close>

text \<open>
  What an accepted history promises: all events come from one daemon boot and are strictly
  newest-first by sequence number, with times that never increase along the list.
\<close>

definition event_seq :: "observed_change_event \<Rightarrow> nat" where
  "event_seq e = (case observed_event_id_parts (oe_id e) of None \<Rightarrow> 0 | Some (_, n) \<Rightarrow> n)"

definition newer_than :: "observed_change_event \<Rightarrow> observed_change_event \<Rightarrow> bool" where
  "newer_than a b \<longleftrightarrow> oe_observed_at_ms b \<le> oe_observed_at_ms a \<and> event_seq b < event_seq a"

definition from_boot :: "string \<Rightarrow> observed_change_event \<Rightarrow> bool" where
  "from_boot boot e \<longleftrightarrow>
     (case observed_event_id_parts (oe_id e) of None \<Rightarrow> False | Some (b, _) \<Rightarrow> b = boot)"

definition newest_first_epoch :: "observed_change_event list \<Rightarrow> bool" where
  "newest_first_epoch events \<longleftrightarrow>
     (\<exists>boot. \<forall>e \<in> set events. from_boot boot e) \<and> sorted_wrt newer_than events"

lemma check_history_events_after:
  assumes "\<forall>i \<in> set ids. \<exists>n. observed_event_id_parts i = Some (pb, n) \<and> ps \<le> n"
  shows "check_history_events ids (Some (pa, pb, ps)) events = None \<longleftrightarrow>
     (\<forall>e \<in> set events. from_boot pb e \<and> event_seq e < ps \<and> oe_observed_at_ms e \<le> pa)
     \<and> sorted_wrt newer_than events"
  using assms
proof (induction events arbitrary: ids pa ps)
  case Nil
  then show ?case by simp
next
  case (Cons e events)
  show ?case
  proof (cases "observed_event_id_parts (oe_id e)")
    case None
    then show ?thesis by (simp add: from_boot_def)
  next
    case (Some p)
    obtain b n where p: "p = (b, n)" by (cases p)
    have e: "event_seq e = n" "\<And>x. from_boot x e \<longleftrightarrow> b = x"
      using Some p by (simp_all add: event_seq_def from_boot_def)
    show ?thesis
    proof (cases "b = pb \<and> n < ps \<and> oe_observed_at_ms e \<le> pa")
      case True
      have fresh: "oe_id e \<notin> set ids" using Cons.prems Some p True by fastforce
      have "\<forall>i \<in> set (oe_id e # ids). \<exists>m. observed_event_id_parts i = Some (pb, m) \<and> n \<le> m"
        using Cons.prems Some p True by fastforce
      note IH = Cons.IH [OF this, of "oe_observed_at_ms e"]
      have en: "from_boot pb e" "event_seq e = n" using e True by simp_all
      have "check_history_events ids (Some (pa, pb, ps)) (e # events) = None \<longleftrightarrow>
        check_history_events (oe_id e # ids) (Some (oe_observed_at_ms e, pb, n)) events = None"
        using Some p True fresh by simp
      also have "\<dots> \<longleftrightarrow> (\<forall>x \<in> set events. from_boot pb x \<and> newer_than e x) \<and> sorted_wrt newer_than events"
        unfolding IH newer_than_def en(2) by meson
      also have "\<dots> \<longleftrightarrow> (\<forall>x \<in> set (e # events). from_boot pb x \<and> event_seq x < ps
          \<and> oe_observed_at_ms x \<le> pa) \<and> sorted_wrt newer_than (e # events)"
        using True en by (fastforce simp: newer_than_def)
      finally show ?thesis .
    next
      case False
      then show ?thesis using Some p e by (auto simp: not_less)
    qed
  qed
qed

lemma check_history_events_iff: "check_history_events [] None events = None \<longleftrightarrow> newest_first_epoch events"
proof (cases events)
  case Nil
  then show ?thesis by (simp add: newest_first_epoch_def)
next
  case (Cons e es)
  show ?thesis
  proof (cases "observed_event_id_parts (oe_id e)")
    case None
    then show ?thesis using Cons by (auto simp: newest_first_epoch_def from_boot_def)
  next
    case (Some p)
    obtain b n where p: "p = (b, n)" by (cases p)
    have e: "event_seq e = n" "\<And>x. from_boot x e \<longleftrightarrow> b = x"
      using Some p by (simp_all add: event_seq_def from_boot_def)
    have "check_history_events [] None events = None \<longleftrightarrow>
      check_history_events [oe_id e] (Some (oe_observed_at_ms e, b, n)) es = None"
      using Some p Cons by simp
    also have "\<dots> \<longleftrightarrow> (\<forall>x \<in> set es. from_boot b x \<and> event_seq x < n
        \<and> oe_observed_at_ms x \<le> oe_observed_at_ms e) \<and> sorted_wrt newer_than es"
      using Some p by (intro check_history_events_after) simp
    also have "\<dots> \<longleftrightarrow> newest_first_epoch events"
      by (simp add: newest_first_epoch_def Cons newer_than_def e ball_conj_distrib conj_ac)
    finally show ?thesis .
  qed
qed

lemma newest_first_epoch_distinct: "newest_first_epoch events \<Longrightarrow> distinct (map oe_id events)"
proof -
  assume "newest_first_epoch events"
  then have "sorted_wrt newer_than events" by (simp add: newest_first_epoch_def)
  then show ?thesis
    by (induction events) (auto simp: newer_than_def event_seq_def)
qed

text \<open>
  The wire validator accepts a change history exactly when its source, baseline and
  revisions are coherent, it has at most 64 events and the events are strictly newest-first
  from one daemon boot; what it accepts it returns unchanged. The source's separate check
  that identifiers are unique is implied by the strict order.
\<close>

lemma history_accepted_iff:
  "observed_change_history_response_try_from w = Inr r \<longleftrightarrow>
     history_source_coherent w \<and> length (hw_events w) \<le> 64 \<and> newest_first_epoch (hw_events w)
     \<and> r = \<lparr>oh_source = hw_source w, oh_baseline_established = hw_baseline_established w,
            oh_current_model_revision = hw_current_model_revision w,
            oh_observed_revision = hw_observed_revision w, oh_events = hw_events w\<rparr>"
  unfolding observed_change_history_response_try_from_def
  by (auto simp: check_history_events_iff [symmetric] split: option.splits)

end
