(* ===== verification/Logs.thy ===== *)
theory Logs
  imports Models
begin

text \<open>
  Log cursors, pagination and timestamp parsing (\<open>crates/dockermap-core/src/logs.rs\<close>).

  A cursor names a boundary millisecond and how many entries of that millisecond were
  emitted; the pagination theorem says that following the cursors from the first page
  delivers the matching entries, newest first, each exactly once, and stops. The date part
  compares Hinnant's \<open>days_from_civil\<close> with a day count summed over the calendar.
\<close>

section \<open>Cursor\<close>

definition MAX_LOG_PAGE_SIZE :: nat where
  "MAX_LOG_PAGE_SIZE = 500"

definition DEFAULT_LOG_PAGE_SIZE :: nat where
  "DEFAULT_LOG_PAGE_SIZE = 100"

record log_cursor =
  lc_millis :: u64
  lc_offset :: nat

definition log_cursor_parse :: "string \<Rightarrow> log_cursor option" where
  "log_cursor_parse value =
     (let (millis, offset) =
        (case split_once value (CHR '':'') of None \<Rightarrow> (value, []) | Some p \<Rightarrow> p)
      in case parse_uint 64 millis of
           None \<Rightarrow> None
         | Some ms \<Rightarrow>
             if offset = [] then Some \<lparr>lc_millis = ms, lc_offset = 0\<rparr>
             else (case parse_uint 64 offset of
                     None \<Rightarrow> None
                   | Some n \<Rightarrow> Some \<lparr>lc_millis = ms, lc_offset = n\<rparr>))"

definition log_cursor_to_string :: "log_cursor \<Rightarrow> string" where
  "log_cursor_to_string c = show_nat (lc_millis c) @ '':'' @ show_nat (lc_offset c)"

section \<open>Pagination\<close>

text \<open>The \<open>filter\<close> closure of the source with its counter \<open>same_timestamp_seen\<close>.\<close>

fun skip_emitted :: "log_cursor \<Rightarrow> nat \<Rightarrow> log_entry list \<Rightarrow> log_entry list" where
  "skip_emitted c seen [] = []"
| "skip_emitted c seen (e # es) =
     (if lg_timestamp e < lc_millis c then e # skip_emitted c seen es
      else if lg_timestamp e > lc_millis c then skip_emitted c seen es
      else if lc_offset c \<le> seen then e # skip_emitted c (Suc seen) es
      else skip_emitted c (Suc seen) es)"

fun position :: "('a \<Rightarrow> bool) \<Rightarrow> 'a list \<Rightarrow> nat option" where
  "position P [] = None"
| "position P (x # xs) = (if P x then Some 0 else map_option Suc (position P xs))"

definition clamp_limit :: "nat \<Rightarrow> nat" where
  "clamp_limit limit = max 1 (min limit MAX_LOG_PAGE_SIZE)"

definition matches_query :: "string option \<Rightarrow> log_entry \<Rightarrow> bool" where
  "matches_query query e =
     (case map_option to_ascii_lowercase query of
        None \<Rightarrow> True
      | Some needle \<Rightarrow> str_contains (to_ascii_lowercase (lg_message e)) needle)"

text \<open>The stable sort by descending timestamp.\<close>

definition newest_first :: "log_entry list \<Rightarrow> log_entry list" where
  "newest_first es = sort_key (\<lambda>e. - int (lg_timestamp e)) es"

definition next_cursor_of :: "log_entry list \<Rightarrow> log_cursor option \<Rightarrow> nat \<Rightarrow> log_cursor" where
  "next_cursor_of entries cursor limit =
     (let boundary = entries ! (limit - 1);
          first_at_boundary =
            (case position (\<lambda>e. lg_timestamp e = lg_timestamp boundary) (take limit entries) of
               None \<Rightarrow> limit - 1 | Some i \<Rightarrow> i);
          previously_emitted =
            (case cursor of
               None \<Rightarrow> 0
             | Some c \<Rightarrow> if lc_millis c = lg_timestamp boundary then lc_offset c else 0)
      in \<lparr>lc_millis = lg_timestamp boundary,
          lc_offset = previously_emitted + limit - first_at_boundary\<rparr>)"

definition page_log_entries ::
  "log_entry list \<Rightarrow> string option \<Rightarrow> log_cursor option \<Rightarrow> nat \<Rightarrow> log_entry list \<times> string option"
where
  "page_log_entries entries query cursor limit0 =
     (let limit = clamp_limit limit0;
          sorted_entries = newest_first (filter (matches_query query) entries);
          kept = (case cursor of None \<Rightarrow> sorted_entries | Some c \<Rightarrow> skip_emitted c 0 sorted_entries);
          has_more = length kept > limit;
          next_cursor = (if has_more
            then Some (log_cursor_to_string (next_cursor_of kept cursor limit)) else None)
      in (take limit kept, next_cursor))"

section \<open>Timestamps\<close>

definition trunc_div :: "int \<Rightarrow> int \<Rightarrow> int" where
  "trunc_div a b = sgn a * sgn b * (\<bar>a\<bar> div \<bar>b\<bar>)"

definition days_from_civil :: "nat \<Rightarrow> nat \<Rightarrow> nat \<Rightarrow> int option" where
  "days_from_civil year0 month0 day0 =
     (if \<not> (1 \<le> month0 \<and> month0 \<le> 12) \<or> \<not> (1 \<le> day0 \<and> day0 \<le> 31)
         \<or> 2 ^ 63 \<le> year0 then None
      else
        (let year = int year0; month = int month0; day = int day0;
             adjusted_year = year - (if month \<le> 2 then 1 else 0);
             era = trunc_div (if adjusted_year \<ge> 0 then adjusted_year else adjusted_year - 399) 400;
             year_of_era = adjusted_year - era * 400;
             month_adjusted = month + (if month > 2 then - 3 else 9);
             day_of_year = trunc_div (153 * month_adjusted + 2) 5 + day - 1;
             day_of_era = year_of_era * 365 + trunc_div year_of_era 4 - trunc_div year_of_era 100
               + day_of_year
         in Some (era * 146097 + day_of_era - 719468)))"

text \<open>The loop over the fractional digits: value so far, multiplier and digits consumed.\<close>

fun fraction_loop :: "string \<Rightarrow> nat \<Rightarrow> nat \<Rightarrow> nat \<Rightarrow> nat \<times> nat" where
  "fraction_loop [] fraction_ms multiplier consumed = (fraction_ms, consumed)"
| "fraction_loop (c # cs) fraction_ms multiplier consumed =
     (if \<not> is_ascii_digit c then (fraction_ms, consumed)
      else if consumed < 3 then
        fraction_loop cs (fraction_ms + digit_val c * multiplier) (multiplier div 10) (consumed + 1)
      else fraction_loop cs fraction_ms multiplier (consumed + 1))"

definition byte_at :: "string \<Rightarrow> nat \<Rightarrow> char option" where
  "byte_at s i = (if i < length s then Some (s ! i) else None)"

definition digit_at :: "string \<Rightarrow> nat \<Rightarrow> nat option" where
  "digit_at s i =
     (case byte_at s i of
        None \<Rightarrow> None
      | Some c \<Rightarrow> if is_ascii_digit c then Some (digit_val c) else None)"

text \<open>\<open>10 * digit(i)? + digit(i + 1)?\<close> and its four-digit variant.\<close>

definition two_digits :: "string \<Rightarrow> nat \<Rightarrow> nat option" where
  "two_digits s i =
     (case (digit_at s i, digit_at s (i + 1)) of
        (Some a, Some b) \<Rightarrow> Some (10 * a + b)
      | _ \<Rightarrow> None)"

definition four_digits :: "string \<Rightarrow> nat \<Rightarrow> nat option" where
  "four_digits s i =
     (case (digit_at s i, digit_at s (i + 1), digit_at s (i + 2), digit_at s (i + 3)) of
        (Some a, Some b, Some c, Some d) \<Rightarrow> Some (1000 * a + 100 * b + 10 * c + d)
      | _ \<Rightarrow> None)"

definition parse_rfc3339_nano_millis :: "string \<Rightarrow> u64 option" where
  "parse_rfc3339_nano_millis value =
     (if length value < 20 \<or> \<not> ends_with value ''Z'' then None
      else
        (case (four_digits value 0, two_digits value 5, two_digits value 8,
               two_digits value 11, two_digits value 14, two_digits value 17) of
           (Some year, Some month, Some day, Some hour, Some minute, Some second) \<Rightarrow>
             if byte_at value 4 \<noteq> Some (CHR ''-'') \<or> byte_at value 7 \<noteq> Some (CHR ''-'')
                \<or> byte_at value 10 \<noteq> Some (CHR ''T'') \<or> byte_at value 13 \<noteq> Some (CHR '':'')
                \<or> byte_at value 16 \<noteq> Some (CHR '':'') then None
             else if \<not> (1 \<le> month \<and> month \<le> 12) \<or> \<not> (1 \<le> day \<and> day \<le> 31)
                \<or> hour > 23 \<or> minute > 59 \<or> second > 60 then None
             else
               (let (fraction_ms, consumed) =
                  (if byte_at value 19 = Some (CHR ''.'')
                   then fraction_loop (drop 20 value) 0 100 0 else (0, 1))
                in if consumed = 0 then None
                   else (case days_from_civil year month day of
                     None \<Rightarrow> None
                   | Some days \<Rightarrow>
                       (let seconds = days * 86400 + int hour * 3600 + int minute * 60 + int second
                        in if seconds < 0 then None
                           else if nat seconds * 1000 \<ge> 2 ^ 64 then None
                           else if nat seconds * 1000 + fraction_ms \<ge> 2 ^ 64 then None
                           else Some (nat seconds * 1000 + fraction_ms))))
         | _ \<Rightarrow> None))"

section \<open>Cursor round trip\<close>

lemma parse_cursor_parts:
  assumes "CHR '':'' \<notin> set a" and "b \<noteq> []"
  shows "log_cursor_parse (a @ CHR '':'' # b) =
     (case parse_uint 64 a of None \<Rightarrow> None
      | Some ms \<Rightarrow> map_option (\<lambda>n. \<lparr>lc_millis = ms, lc_offset = n\<rparr>) (parse_uint 64 b))"
  using assms by (auto simp: log_cursor_parse_def split: option.splits)

lemma cursor_roundtrip_aux:
  assumes "lc_millis c < 2 ^ 64" and "lc_offset c < 2 ^ 64"
  shows "log_cursor_parse (log_cursor_to_string c) = Some c"
  unfolding log_cursor_to_string_def
  using assms by (simp add: parse_cursor_parts show_nat_no_colon show_nat_nonempty parse_show_nat)

text \<open>
  A cursor printed by the server and sent back by the client parses to the same cursor,
  for every pair of 64-bit components.
\<close>

lemma log_cursor_roundtrip:
  assumes "lc_millis c < 2 ^ 64" and "lc_offset c < 2 ^ 64"
  shows "log_cursor_parse (log_cursor_to_string c) = Some c"
  using assms by (rule cursor_roundtrip_aux)

section \<open>Following the cursors\<close>

text \<open>What a client does with \<open>next_cursor\<close>: fetch pages until none is returned.\<close>

fun fetch_all :: "nat \<Rightarrow> log_entry list \<Rightarrow> string option \<Rightarrow> log_cursor option \<Rightarrow> nat
    \<Rightarrow> log_entry list option" where
  "fetch_all 0 entries query cursor limit = None"
| "fetch_all (Suc fuel) entries query cursor limit =
     (case page_log_entries entries query cursor limit of
        (page, None) \<Rightarrow> Some page
      | (page, Some text) \<Rightarrow>
          (case log_cursor_parse text of
             None \<Rightarrow> None
           | Some c \<Rightarrow> map_option ((@) page) (fetch_all fuel entries query (Some c) limit)))"

definition desc :: "log_entry list \<Rightarrow> bool" where
  "desc es \<longleftrightarrow> sorted_wrt (\<lambda>a b. lg_timestamp b \<le> lg_timestamp a) es"

definition n_newer :: "log_entry list \<Rightarrow> nat \<Rightarrow> nat" where
  "n_newer es t = length (filter (\<lambda>e. lg_timestamp e > t) es)"

definition n_at :: "log_entry list \<Rightarrow> nat \<Rightarrow> nat" where
  "n_at es t = length (filter (\<lambda>e. lg_timestamp e = t) es)"

lemma desc_newest_first: "desc (newest_first es)"
proof -
  have "sorted_wrt (\<le>) (map (\<lambda>e. - int (lg_timestamp e)) (newest_first es))"
    unfolding newest_first_def by simp
  then show ?thesis unfolding desc_def sorted_wrt_map by (rule sorted_wrt_mono_rel [rotated]) simp
qed

lemma desc_split:
  "desc es \<Longrightarrow> es = filter (\<lambda>e. lg_timestamp e > t) es @ filter (\<lambda>e. lg_timestamp e = t) es
     @ filter (\<lambda>e. lg_timestamp e < t) es"
proof (induction es)
  case (Cons e es)
  then have IH: "es = filter (\<lambda>e. lg_timestamp e > t) es @ filter (\<lambda>e. lg_timestamp e = t) es
     @ filter (\<lambda>e. lg_timestamp e < t) es" and le: "\<forall>x \<in> set es. lg_timestamp x \<le> lg_timestamp e"
    by (auto simp: desc_def)
  consider "lg_timestamp e > t" | "lg_timestamp e = t" | "lg_timestamp e < t" by linarith
  then show ?case
  proof cases
    case 1
    then show ?thesis using IH by simp
  next
    case 2
    then have "filter (\<lambda>e. lg_timestamp e > t) es = []" using le by (auto simp: filter_empty_conv)
    then show ?thesis using IH 2 by simp
  next
    case 3
    then have "filter (\<lambda>e. lg_timestamp e > t) es = []" "filter (\<lambda>e. lg_timestamp e = t) es = []"
      using le by (auto simp: filter_empty_conv)
    then show ?thesis using IH 3 by simp
  qed
qed simp

text \<open>In a descending list the entries of one millisecond occupy one interval.\<close>

lemma desc_at_iff:
  assumes "desc es" and "i < length es"
  shows "lg_timestamp (es ! i) = t \<longleftrightarrow> n_newer es t \<le> i \<and> i < n_newer es t + n_at es t"
proof -
  define A where "A = filter (\<lambda>e. lg_timestamp e > t) es"
  define B where "B = filter (\<lambda>e. lg_timestamp e = t) es"
  define C where "C = filter (\<lambda>e. lg_timestamp e < t) es"
  have es: "es = A @ B @ C" unfolding A_def B_def C_def by (rule desc_split [OF assms(1)])
  have len: "n_newer es t = length A" "n_at es t = length B"
    by (simp_all add: n_newer_def n_at_def A_def B_def)
  have P: "\<forall>x \<in> set A. lg_timestamp x > t" "\<forall>x \<in> set B. lg_timestamp x = t"
    "\<forall>x \<in> set C. lg_timestamp x < t" by (auto simp: A_def B_def C_def)
  consider "i < length A" | "length A \<le> i" "i < length A + length B" | "length A + length B \<le> i"
    by linarith
  then show ?thesis
  proof cases
    case 1
    then have "es ! i \<in> set A" using es by (simp add: nth_append)
    then show ?thesis using P 1 len by auto
  next
    case 2
    then have "es ! i = B ! (i - length A)" using es by (simp add: nth_append)
    moreover have "i - length A < length B" using 2 by linarith
    ultimately have "es ! i \<in> set B" by simp
    then show ?thesis using P 2 len by auto
  next
    case 3
    then have "es ! i = C ! (i - length A - length B)" using es by (simp add: nth_append)
    moreover have "i - length A - length B < length C"
      using 3 assms(2) es by (metis diff_diff_left length_append less_diff_conv2 add.commute add.left_commute
          le_add_diff_inverse nat_add_left_cancel_less)
    ultimately have "es ! i \<in> set C" by simp
    then show ?thesis using P 3 len by fastforce
  qed
qed

lemma skip_newer:
  "\<forall>x \<in> set es. lg_timestamp x > lc_millis c \<Longrightarrow> skip_emitted c seen (es @ r) = skip_emitted c seen r"
  by (induction es) auto

lemma skip_same:
  "\<forall>x \<in> set es. lg_timestamp x = lc_millis c \<Longrightarrow>
   \<forall>x \<in> set r. lg_timestamp x < lc_millis c \<Longrightarrow>
   skip_emitted c seen (es @ r) = drop (lc_offset c - seen) es @ r"
proof (induction es arbitrary: seen)
  case Nil
  then show ?case by (induction r) auto
next
  case (Cons e es)
  then have IH: "skip_emitted c (Suc seen) (es @ r) = drop (lc_offset c - Suc seen) es @ r" by simp
  show ?case
  proof (cases "lc_offset c \<le> seen")
    case True
    then show ?thesis using IH Cons.prems by simp
  next
    case False
    then have "lc_offset c - seen = Suc (lc_offset c - Suc seen)" by simp
    then show ?thesis using IH Cons.prems False by simp
  qed
qed

definition cursor_pos :: "log_entry list \<Rightarrow> log_cursor option \<Rightarrow> nat" where
  "cursor_pos es cursor = (case cursor of None \<Rightarrow> 0 | Some c \<Rightarrow> n_newer es (lc_millis c) + lc_offset c)"

definition cursor_ok :: "log_entry list \<Rightarrow> log_cursor option \<Rightarrow> bool" where
  "cursor_ok es cursor \<longleftrightarrow> (case cursor of None \<Rightarrow> True | Some c \<Rightarrow> lc_offset c \<le> n_at es (lc_millis c))"

lemma n_newer_n_at_le: "n_newer es t + n_at es t \<le> length es"
  unfolding n_newer_def n_at_def by (induction es) auto

lemma kept_eq_drop:
  assumes "desc es" and "cursor_ok es cursor"
  shows "(case cursor of None \<Rightarrow> es | Some c \<Rightarrow> skip_emitted c 0 es) = drop (cursor_pos es cursor) es"
proof (cases cursor)
  case None
  then show ?thesis by (simp add: cursor_pos_def)
next
  case (Some c)
  let ?t = "lc_millis c"
  let ?A = "filter (\<lambda>e. lg_timestamp e > ?t) es"
  let ?B = "filter (\<lambda>e. lg_timestamp e = ?t) es"
  let ?C = "filter (\<lambda>e. lg_timestamp e < ?t) es"
  have es: "es = ?A @ ?B @ ?C" by (rule desc_split [OF assms(1)])
  have "skip_emitted c 0 es = skip_emitted c 0 (?A @ ?B @ ?C)" using es by (rule arg_cong)
  also have "\<dots> = skip_emitted c 0 (?B @ ?C)" by (rule skip_newer) simp
  also have "\<dots> = drop (lc_offset c) ?B @ ?C" by (subst skip_same) simp_all
  also have "\<dots> = drop (cursor_pos es cursor) (?A @ ?B @ ?C)"
    using assms(2) Some by (simp add: cursor_pos_def cursor_ok_def n_newer_def n_at_def)
  also have "\<dots> = drop (cursor_pos es cursor) es" using es by (rule arg_cong [OF sym])
  finally show ?thesis using Some by simp
qed

lemma position_first:
  "i < length xs \<Longrightarrow> P (xs ! i) \<Longrightarrow> \<forall>j < i. \<not> P (xs ! j) \<Longrightarrow> position P xs = Some i"
proof (induction xs arbitrary: i)
  case (Cons x xs)
  show ?case
  proof (cases i)
    case 0
    then show ?thesis using Cons.prems by simp
  next
    case (Suc k)
    have "position P xs = Some k"
    proof (rule Cons.IH)
      show "k < length xs" "P (xs ! k)" using Cons.prems Suc by simp_all
      show "\<forall>j < k. \<not> P (xs ! j)" using Cons.prems(3) Suc by fastforce
    qed
    moreover have "\<not> P x" using Cons.prems(3) Suc by force
    ultimately show ?thesis using Suc by simp
  qed
qed simp

lemma n_newer_mono: "t < u \<Longrightarrow> n_newer es u + n_at es u \<le> n_newer es t"
  unfolding n_newer_def n_at_def by (induction es) auto

text \<open>The position arithmetic behind \<open>previously_emitted\<close>: at a boundary timestamp whose
  run begins at \<open>N\<close>, the incoming cursor has emitted exactly the part of the run before
  its own position.\<close>

lemma previously_emitted_pos:
  assumes "cursor_ok es cursor" and p: "p = cursor_pos es cursor"
    and "n_newer es t \<le> q" "q < n_newer es t + n_at es t" "p \<le> q"
  shows "(case cursor of None \<Rightarrow> 0 | Some c \<Rightarrow> if lc_millis c = t then lc_offset c else 0)
         = p - n_newer es t"
proof (cases cursor)
  case None
  then show ?thesis using p by (simp add: cursor_pos_def)
next
  case (Some c)
  have pos: "p = n_newer es (lc_millis c) + lc_offset c" and le: "lc_offset c \<le> n_at es (lc_millis c)"
    using Some p assms(1) by (simp_all add: cursor_pos_def cursor_ok_def)
  consider "lc_millis c = t" | "t < lc_millis c" | "lc_millis c < t" by linarith
  then show ?thesis
  proof cases
    case 1
    then show ?thesis using Some pos by simp
  next
    case 2
    then have "p \<le> n_newer es t" using n_newer_mono [OF 2, of es] pos le by linarith
    then show ?thesis using Some 2 by simp
  next
    case 3
    then have "n_newer es t + n_at es t \<le> p" using n_newer_mono [OF 3, of es] pos by linarith
    then show ?thesis using assms(4,5) by linarith
  qed
qed

lemma next_cursor_position:
  assumes d: "desc es" and ok: "cursor_ok es cursor" and p: "p = cursor_pos es cursor"
    and lim: "1 \<le> limit" and more: "length (drop p es) > limit"
  defines "c' \<equiv> next_cursor_of (drop p es) cursor limit"
  shows "cursor_pos es (Some c') = p + limit \<and> cursor_ok es (Some c')
    \<and> lc_millis c' \<in> lg_timestamp ` set es"
proof -
  let ?b = "drop p es ! (limit - 1)"
  define t where "t = lg_timestamp ?b"
  define q where "q = p + (limit - 1)"
  have q: "q < length es" "?b = es ! q" using more lim by (simp_all add: q_def)
  have run: "n_newer es t \<le> q" "q < n_newer es t + n_at es t"
    using desc_at_iff [OF d q(1), of t] q(2) by (simp_all add: t_def)
  have at: "lg_timestamp (take limit (drop p es) ! i) = t \<longleftrightarrow>
      n_newer es t \<le> p + i \<and> p + i < n_newer es t + n_at es t" if "i < limit" for i
    using that more desc_at_iff [OF d, of "p + i" t] by simp
  define f where "f = n_newer es t - p"
  have f: "f < limit" "f \<le> limit - 1" using run(1) lim by (auto simp: f_def q_def)
  have posn: "position (\<lambda>e. lg_timestamp e = t) (take limit (drop p es)) = Some f"
  proof (rule position_first)
    show "f < length (take limit (drop p es))" using f more by simp
    show "lg_timestamp (take limit (drop p es) ! f) = t"
    proof -
      have "n_newer es t \<le> p + f" "p + f < n_newer es t + n_at es t"
        using run f lim unfolding f_def q_def by arith+
      then show ?thesis using at [OF f(1)] by simp
    qed
    show "\<forall>j < f. \<not> lg_timestamp (take limit (drop p es) ! j) = t"
      using at f by (auto simp: f_def)
  qed
  have prev: "(case cursor of None \<Rightarrow> 0 | Some c \<Rightarrow> if lc_millis c = t then lc_offset c else 0)
      = p - n_newer es t"
    by (rule previously_emitted_pos [OF ok p run]) (simp add: q_def)
  have c': "lc_millis c' = t" "lc_offset c' = p - n_newer es t + limit - f"
    unfolding c'_def next_cursor_of_def Let_def t_def [symmetric] prev posn by simp_all
  have "n_newer es t + lc_offset c' = p + limit" using c' f lim by (simp add: f_def)
  moreover have "lc_offset c' \<le> n_at es t" using calculation run lim by (simp add: q_def)
  moreover have "t \<in> lg_timestamp ` set es" using q by (simp add: t_def)
  ultimately show ?thesis using c' by (simp add: cursor_pos_def cursor_ok_def)
qed

lemma page_log_entries_pos:
  fixes entries query limit
  defines "S \<equiv> newest_first (filter (matches_query query) entries)"
    and "m \<equiv> clamp_limit limit"
  assumes "cursor_ok S cursor"
  shows "page_log_entries entries query cursor limit =
     (take m (drop (cursor_pos S cursor) S),
      if m < length (drop (cursor_pos S cursor) S)
      then Some (log_cursor_to_string (next_cursor_of (drop (cursor_pos S cursor) S) cursor m))
      else None)"
  using kept_eq_drop [OF desc_newest_first, of "filter (matches_query query) entries" cursor] assms(3)
  unfolding page_log_entries_def Let_def S_def m_def by simp

lemma length_newest_first [simp]: "length (newest_first es) = length es"
  by (simp add: newest_first_def)

lemma set_newest_first [simp]: "set (newest_first es) = set es"
  by (simp add: newest_first_def)

lemma clamp_limit_pos: "1 \<le> clamp_limit limit"
  by (simp add: clamp_limit_def)

text \<open>Pagination from any position of the sorted list delivers the rest of it.\<close>

lemma fetch_all_from:
  fixes entries query limit
  defines "S \<equiv> newest_first (filter (matches_query query) entries)"
  assumes ts: "\<forall>e \<in> set entries. lg_timestamp e < 2 ^ 64" and len: "length entries < 2 ^ 64"
  shows "cursor_ok S cursor \<Longrightarrow> length S - cursor_pos S cursor < fuel \<Longrightarrow>
     fetch_all fuel entries query cursor limit = Some (drop (cursor_pos S cursor) S)"
proof (induction fuel arbitrary: cursor)
  case 0
  then show ?case by simp
next
  case (Suc fuel)
  let ?p = "cursor_pos S cursor" and ?m = "clamp_limit limit"
  note page = page_log_entries_pos [where entries = entries and query = query and cursor = cursor
      and limit = limit, folded S_def, OF Suc.prems(1)]
  show ?case
  proof (cases "?m < length (drop ?p S)")
    case False
    then show ?thesis using page by simp
  next
    case True
    define c' where "c' = next_cursor_of (drop ?p S) cursor ?m"
    have "desc S" unfolding S_def by (rule desc_newest_first)
    note nx = next_cursor_position [OF this Suc.prems(1) refl clamp_limit_pos True, folded c'_def]
    have sub: "set S \<subseteq> set entries" "length S \<le> length entries" by (auto simp: S_def)
    have "lc_millis c' < 2 ^ 64" using nx ts sub by auto
    moreover have "lc_offset c' \<le> length S"
      using nx n_newer_n_at_le [of S "lc_millis c'"] by (simp add: cursor_ok_def)
    then have "lc_offset c' < 2 ^ 64" using sub len by linarith
    ultimately have rt: "log_cursor_parse (log_cursor_to_string c') = Some c'"
      by (rule cursor_roundtrip_aux)
    have "length S - cursor_pos S (Some c') < fuel"
      using nx Suc.prems(2) True clamp_limit_pos [of limit] by simp
    then have "fetch_all fuel entries query (Some c') limit = Some (drop (?p + ?m) S)"
      using Suc.IH [of "Some c'"] nx by simp
    then show ?thesis using page True rt
      by (simp add: c'_def) (metis add.commute append_take_drop_id drop_drop)
  qed
qed

text \<open>
  Following the returned cursors from the first page terminates and delivers exactly the
  matching entries, newest first and in stream order within a millisecond: none is lost at
  a page boundary, none is repeated, whatever the page size.
\<close>

lemma pagination_complete:
  assumes "\<forall>e \<in> set entries. lg_timestamp e < 2 ^ 64" and "length entries < fuel"
    and "length entries < 2 ^ 64"
  shows "fetch_all fuel entries query None limit
    = Some (newest_first (filter (matches_query query) entries))"
proof -
  let ?S = "newest_first (filter (matches_query query) entries)"
  have "length (filter (matches_query query) entries) < fuel"
    using assms(2) le_less_trans length_filter_le by blast
  then have "length ?S - cursor_pos ?S None < fuel" by (simp add: cursor_pos_def)
  then show ?thesis
    using fetch_all_from [OF assms(1,3), of query None fuel limit]
    by (simp add: cursor_ok_def cursor_pos_def)
qed

definition example_log :: "nat \<Rightarrow> nat \<Rightarrow> log_entry" where
  "example_log i t = \<lparr>lg_id = show_nat i, lg_timestamp = t, lg_container = ''web'',
     lg_level = LL_Info, lg_message = ''GET /''\<rparr>"

text \<open>
  One page never exceeds the requested limit nor the server's maximum, is in descending
  time order, holds only entries of the stream that match the query, and carries a cursor
  only when it is full.
\<close>

lemma page_log_entries_bounds:
  "length (fst (page_log_entries entries query cursor limit)) \<le> max 1 (min limit MAX_LOG_PAGE_SIZE)
   \<and> desc (fst (page_log_entries entries query cursor limit))
   \<and> set (fst (page_log_entries entries query cursor limit))
       \<subseteq> set (filter (matches_query query) entries)
   \<and> (snd (page_log_entries entries query cursor limit) = None
      \<or> length (fst (page_log_entries entries query cursor limit)) = max 1 (min limit MAX_LOG_PAGE_SIZE))"
proof -
  let ?S = "newest_first (filter (matches_query query) entries)"
  let ?K = "case cursor of None \<Rightarrow> ?S | Some c \<Rightarrow> skip_emitted c 0 ?S"
  have sub: "subseq (skip_emitted c n es) es" for c n es
    by (induction c n es rule: skip_emitted.induct) (auto intro: list_emb_Cons)
  then have "subseq ?K ?S" by (cases cursor) simp_all
  then have K: "subseq (take (clamp_limit limit) ?K) ?S"
    using subseq_order.trans [OF prefix_imp_subseq [OF take_is_prefix]] by blast
  have "desc (take (clamp_limit limit) ?K)"
    using desc_newest_first [of "filter (matches_query query) entries"] K
    unfolding desc_def using sorted_wrt_subseq by blast
  moreover have "set (take (clamp_limit limit) ?K) \<subseteq> set (filter (matches_query query) entries)"
    using subseq_set [OF K] by simp
  ultimately show ?thesis
    unfolding page_log_entries_def Let_def by (simp add: clamp_limit_def)
qed

section \<open>The calendar\<close>

text \<open>The reference: days counted year by year and month by month from 0000-01-01.\<close>

definition leap :: "nat \<Rightarrow> bool" where
  "leap y \<longleftrightarrow> 4 dvd y \<and> (\<not> 100 dvd y \<or> 400 dvd y)"

definition month_lengths :: "nat \<Rightarrow> nat list" where
  "month_lengths y = [31, if leap y then 29 else 28, 31, 30, 31, 30, 31, 31, 30, 31, 30, 31]"

fun days_before_year :: "nat \<Rightarrow> nat" where
  "days_before_year 0 = 0"
| "days_before_year (Suc y) = days_before_year y + (if leap y then 366 else 365)"

definition days_before_month :: "nat \<Rightarrow> nat \<Rightarrow> nat" where
  "days_before_month y m = sum_list (take (m - 1) (month_lengths y))"

text \<open>Day number of a date with 1970-01-01 as day zero.\<close>

definition calendar_day :: "nat \<Rightarrow> nat \<Rightarrow> nat \<Rightarrow> int" where
  "calendar_day y m d =
     int (days_before_year y) + int (days_before_month y m) + int d - 1 - 719528"

lemma trunc_div_nonneg: "0 \<le> a \<Longrightarrow> 0 < b \<Longrightarrow> trunc_div a b = a div b"
proof -
  assume "0 \<le> a" "0 < b"
  then show ?thesis by (cases "a = 0") (simp_all add: trunc_div_def)
qed

lemma trunc_era:
  assumes "- 1 \<le> (a::int)"
  shows "trunc_div (if a \<ge> 0 then a else a - 399) 400 = a div 400"
proof (cases "a \<ge> 0")
  case True
  then show ?thesis by (simp add: trunc_div_nonneg)
next
  case False
  then have "a = - 1" using assms by simp
  then show ?thesis by (simp add: trunc_div_def)
qed

text \<open>Leap days before a year: one more at each step past a multiple.\<close>

lemma leap_step:
  fixes n y :: nat
  assumes "0 < n"
  shows "int (y + n) div int n = int (y + n - 1) div int n + (if n dvd y then 1 else 0)"
proof -
  obtain k where n: "n = Suc k" using assms by (cases n) auto
  have "(y + n) div n = Suc (y + k) div Suc k" by (simp add: n)
  also have "\<dots> = (y + k) div Suc k + (if Suc k dvd Suc (y + k) then 1 else 0)"
    by (auto simp: div_Suc dvd_eq_mod_eq_0)
  finally have "(y + n) div n = (y + n - 1) div n + (if n dvd y + n then 1 else 0)" by (simp add: n)
  then have "int ((y + n) div n) = int ((y + n - 1) div n) + (if n dvd y then 1 else 0)" by simp
  then show ?thesis by (simp only: zdiv_int)
qed

lemma year_length_terms:
  "(if leap y then 366 else 365 :: int) = 365 + (if 4 dvd y then 1 else 0)
     - (if 100 dvd y then 1 else 0) + (if 400 dvd y then 1 else 0)"
proof -
  have dv: "400 dvd y \<Longrightarrow> 100 dvd y" "100 dvd y \<Longrightarrow> 4 dvd y"
    using dvd_trans [of 100 400 y] dvd_trans [of 4 100 y] by simp_all
  show ?thesis
  proof (cases "100 dvd y")
    case True
    then show ?thesis using dv(2) by (simp add: leap_def)
  next
    case False
    then have "\<not> 400 dvd y" using dv(1) by blast
    then show ?thesis using False by (simp add: leap_def)
  qed
qed

lemma days_before_year_closed:
  "int (days_before_year y) = 365 * int y + (int y + 3) div 4 - (int y + 99) div 100
     + (int y + 399) div 400"
proof (induction y)
  case (Suc y)
  have l: "(int y + 4) div 4 = (int y + 3) div 4 + (if 4 dvd y then 1 else 0)"
    "(int y + 100) div 100 = (int y + 99) div 100 + (if 100 dvd y then 1 else 0)"
    "(int y + 400) div 400 = (int y + 399) div 400 + (if 400 dvd y then 1 else 0)"
    using leap_step [of 4 y] leap_step [of 100 y] leap_step [of 400 y]
    by (simp_all add: of_nat_diff algebra_simps)
  have "int (days_before_year (Suc y)) = int (days_before_year y) + (if leap y then 366 else 365)"
    by simp
  also have "\<dots> = 365 * int (Suc y) + (int y + 4) div 4 - (int y + 100) div 100 + (int y + 400) div 400"
    unfolding Suc.IH l year_length_terms by simp
  finally show ?case by (simp add: algebra_simps)
qed simp

lemma era_sum:
  fixes a :: int
  shows "a div 400 * 146097 + (a - a div 400 * 400) * 365 + (a - a div 400 * 400) div 4
    - (a - a div 400 * 400) div 100 = 365 * a + a div 4 - a div 100 + a div 400"
proof -
  define e r where "e = a div 400" and "r = a mod 400"
  have a: "a = 400 * e + r" by (simp add: e_def r_def)
  have r: "a - a div 400 * 400 = r" by (simp add: r_def minus_div_mult_eq_mod)
  have "a div 4 = 100 * e + r div 4" unfolding a using div_mult_self3 [of 4 r "100 * e"]
    by (simp add: algebra_simps)
  moreover have "a div 100 = 4 * e + r div 100" unfolding a using div_mult_self3 [of 100 r "4 * e"]
    by (simp add: algebra_simps)
  ultimately show ?thesis unfolding r e_def [symmetric] by (simp add: a)
qed

lemma month_cases:
  assumes "1 \<le> m" "m \<le> (12::nat)"
  obtains "m = 1" | "m = 2" | "m = 3" | "m = 4" | "m = 5" | "m = 6" | "m = 7" | "m = 8"
    | "m = 9" | "m = 10" | "m = 11" | "m = 12"
proof -
  have "m = 1 \<or> m = 2 \<or> m = 3 \<or> m = 4 \<or> m = 5 \<or> m = 6 \<or> m = 7 \<or> m = 8
    \<or> m = 9 \<or> m = 10 \<or> m = 11 \<or> m = 12" using assms by arith
  then show thesis using that by blast
qed

lemma month_offset_early:
  "1 \<le> m \<Longrightarrow> m \<le> 2 \<Longrightarrow> trunc_div (153 * (int m + 9) + 2) 5 = int (days_before_month y m) + 306"
proof -
  assume "1 \<le> m" "m \<le> 2"
  then have "m = 1 \<or> m = 2" by linarith
  then show ?thesis by (auto simp: days_before_month_def month_lengths_def trunc_div_def)
qed

lemma month_offset_late:
  assumes "3 \<le> m" "m \<le> 12"
  shows "trunc_div (153 * (int m - 3) + 2) 5 = int (days_before_month y m) - 59 - (if leap y then 1 else 0)"
proof -
  have "1 \<le> m" using assms by simp
  then show ?thesis using assms(2)
    by (rule month_cases) (use assms in
      \<open>simp_all add: days_before_month_def month_lengths_def trunc_div_def\<close>)
qed

lemma civil_sum_early:
  "365 * (int y - 1) + (int y - 1) div 4 - (int y - 1) div 100 + (int y - 1) div 400
     = int (days_before_year y) - 366"
proof -
  have "(int y + 3) div 4 = (int y - 1) div 4 + 1"
    using div_add_self2 [of 4 "int y - 1"] by simp
  moreover have "(int y + 99) div 100 = (int y - 1) div 100 + 1"
    using div_add_self2 [of 100 "int y - 1"] by simp
  moreover have "(int y + 399) div 400 = (int y - 1) div 400 + 1"
    using div_add_self2 [of 400 "int y - 1"] by simp
  ultimately show ?thesis unfolding days_before_year_closed by simp
qed

lemma civil_sum_late:
  "365 * int y + int y div 4 - int y div 100 + int y div 400
     = int (days_before_year y) - 1 + (if leap y then 1 else 0)"
proof -
  have "int y div 4 + 1 = (int y + 3) div 4 + (if 4 dvd y then 1 else 0)"
    using leap_step [of 4 y] div_add_self2 [of 4 "int y"] by (simp add: of_nat_diff add.commute)
  moreover have "int y div 100 + 1 = (int y + 99) div 100 + (if 100 dvd y then 1 else 0)"
    using leap_step [of 100 y] div_add_self2 [of 100 "int y"] by (simp add: of_nat_diff add.commute)
  moreover have "int y div 400 + 1 = (int y + 399) div 400 + (if 400 dvd y then 1 else 0)"
    using leap_step [of 400 y] div_add_self2 [of 400 "int y"] by (simp add: of_nat_diff add.commute)
  moreover have "(if leap y then 1 else 0 :: int) = (if 4 dvd y then 1 else 0)
     - (if 100 dvd y then 1 else 0) + (if 400 dvd y then 1 else 0)"
    using year_length_terms [of y] by (simp split: if_splits)
  ultimately show ?thesis unfolding days_before_year_closed by linarith
qed

lemma days_from_civil_eq:
  assumes "1 \<le> m" "m \<le> 12" "1 \<le> d" "d \<le> 31" "y < 2 ^ 63"
  shows "days_from_civil y m d = Some (calendar_day y m d)"
proof -
  define a where "a = int y - (if int m \<le> 2 then 1 else 0)"
  define e where "e = a div 400"
  have a: "- 1 \<le> a" by (simp add: a_def)
  have r: "0 \<le> a - e * 400" by (simp add: e_def minus_div_mult_eq_mod)
  have era: "trunc_div (if a \<ge> 0 then a else a - 399) 400 = e" using trunc_era [OF a] by (simp add: e_def)
  have "days_from_civil y m d = Some (e * 146097 + ((a - e * 400) * 365 + (a - e * 400) div 4
      - (a - e * 400) div 100 + (trunc_div (153 * (int m + (if int m > 2 then - 3 else 9)) + 2) 5
      + int d - 1)) - 719468)"
    unfolding days_from_civil_def Let_def a_def [symmetric] era
    using assms r by (simp add: trunc_div_nonneg not_le)
  also have "\<dots> = Some (365 * a + a div 4 - a div 100 + a div 400
      + trunc_div (153 * (int m + (if int m > 2 then - 3 else 9)) + 2) 5 + int d - 1 - 719468)"
    unfolding option.inject e_def [symmetric] using era_sum [of a, folded e_def] by linarith
  also have "\<dots> = Some (calendar_day y m d)"
  proof (cases "m \<le> 2")
    case True
    then show ?thesis
      using civil_sum_early [of y] month_offset_early [OF assms(1) True, of y]
      by (simp add: a_def calendar_day_def)
  next
    case False
    then have "3 \<le> m" by simp
    then show ?thesis
      using civil_sum_late [of y] month_offset_late [OF _ assms(2), of y] False
      by (simp add: a_def calendar_day_def)
  qed
  finally show ?thesis .
qed

text \<open>
  The era arithmetic of \<open>days_from_civil\<close> agrees with counting the days of the Gregorian
  calendar one year and one month at a time, for every month, every day number up to 31 and
  every year of a 64-bit signed integer.
\<close>

lemma days_from_civil_calendar:
  assumes "1 \<le> m" "m \<le> 12" "1 \<le> d" "d \<le> 31" "y < 2 ^ 63"
  shows "days_from_civil y m d = Some (calendar_day y m d)"
  using assms by (rule days_from_civil_eq)

text \<open>What the parser computes from the six numeric fields.\<close>

definition fields_millis :: "nat \<Rightarrow> nat \<Rightarrow> nat \<Rightarrow> nat \<Rightarrow> nat \<Rightarrow> nat \<Rightarrow> nat option" where
  "fields_millis year month day hour minute second =
     (if \<not> (1 \<le> month \<and> month \<le> 12) \<or> \<not> (1 \<le> day \<and> day \<le> 31)
         \<or> hour > 23 \<or> minute > 59 \<or> second > 60 then None
      else
        (let seconds = calendar_day year month day * 86400 + int hour * 3600 + int minute * 60
           + int second
         in if seconds < 0 then None
            else if nat seconds * 1000 \<ge> 2 ^ 64 then None
            else Some (nat seconds * 1000)))"

abbreviation dec2 :: "char \<Rightarrow> char \<Rightarrow> nat" where
  "dec2 a b \<equiv> 10 * digit_val a + digit_val b"

abbreviation dec4 :: "char \<Rightarrow> char \<Rightarrow> char \<Rightarrow> char \<Rightarrow> nat" where
  "dec4 a b c d \<equiv> 1000 * digit_val a + 100 * digit_val b + 10 * digit_val c + digit_val d"

lemma digit_val_le: "is_ascii_digit c \<Longrightarrow> digit_val c \<le> 9"
  unfolding is_ascii_digit_def digit_val_def by linarith

lemma parse_layout:
  assumes dig: "list_all is_ascii_digit [y1, y2, y3, y4, m1, m2, d1, d2, h1, h2, i1, i2, s1, s2]"
    and rest: "\<not> starts_with rest ''.''"
  shows "parse_rfc3339_nano_millis
     (y1 # y2 # y3 # y4 # CHR ''-'' # m1 # m2 # CHR ''-'' # d1 # d2 # CHR ''T'' # h1 # h2
       # CHR '':'' # i1 # i2 # CHR '':'' # s1 # s2 # rest @ ''Z'')
   = fields_millis (dec4 y1 y2 y3 y4) (dec2 m1 m2) (dec2 d1 d2) (dec2 h1 h2) (dec2 i1 i2) (dec2 s1 s2)"
    (is "parse_rfc3339_nano_millis ?v = _")
proof -
  have len: "length ?v = 20 + length rest" by simp
  have sfx: "ends_with ?v ''Z''" by (simp add: ends_with_def suffix_def)
  have dot: "byte_at ?v 19 \<noteq> Some (CHR ''.'')"
    using rest by (cases rest) (simp_all add: byte_at_def starts_with_def)
  have at: "byte_at ?v 4 = Some (CHR ''-'')" "byte_at ?v 7 = Some (CHR ''-'')"
    "byte_at ?v 10 = Some (CHR ''T'')" "byte_at ?v 13 = Some (CHR '':'')" "byte_at ?v 16 = Some (CHR '':'')"
    by (simp_all add: byte_at_def)
  have num: "four_digits ?v 0 = Some (dec4 y1 y2 y3 y4)" "two_digits ?v 5 = Some (dec2 m1 m2)"
    "two_digits ?v 8 = Some (dec2 d1 d2)" "two_digits ?v 11 = Some (dec2 h1 h2)"
    "two_digits ?v 14 = Some (dec2 i1 i2)" "two_digits ?v 17 = Some (dec2 s1 s2)"
    using dig by (simp_all add: four_digits_def two_digits_def digit_at_def byte_at_def)
  have small: "dec4 y1 y2 y3 y4 < 2 ^ 63"
    using dig digit_val_le [of y1] digit_val_le [of y2] digit_val_le [of y3] digit_val_le [of y4]
    by simp
  let ?Y = "dec4 y1 y2 y3 y4" and ?M = "dec2 m1 m2" and ?D = "dec2 d1 d2"
  show ?thesis
  proof (cases "1 \<le> ?M \<and> ?M \<le> 12 \<and> 1 \<le> ?D \<and> ?D \<le> 31")
    case True
    then have "days_from_civil ?Y ?M ?D = Some (calendar_day ?Y ?M ?D)"
      using small by (intro days_from_civil_eq) simp_all
    then show ?thesis
      unfolding parse_rfc3339_nano_millis_def num using len sfx dot at
      by (simp add: fields_millis_def Let_def del: byte_at_def)
  next
    case False
    then show ?thesis
      unfolding parse_rfc3339_nano_millis_def num using len sfx dot at
      by (auto simp: fields_millis_def)
  qed
qed

text \<open>The text Docker prints for a whole second, with zero-padded fields.\<close>

definition digit_chr :: "nat \<Rightarrow> char" where
  "digit_chr n = char_of (48 + n mod 10)"

definition rfc3339_text :: "nat \<Rightarrow> nat \<Rightarrow> nat \<Rightarrow> nat \<Rightarrow> nat \<Rightarrow> nat \<Rightarrow> string" where
  "rfc3339_text y m d h i s =
     digit_chr (y div 1000) # digit_chr (y div 100) # digit_chr (y div 10) # digit_chr y
     # CHR ''-'' # digit_chr (m div 10) # digit_chr m
     # CHR ''-'' # digit_chr (d div 10) # digit_chr d
     # CHR ''T'' # digit_chr (h div 10) # digit_chr h
     # CHR '':'' # digit_chr (i div 10) # digit_chr i
     # CHR '':'' # digit_chr (s div 10) # digit_chr s # ''Z''"

lemma digit_chr_digit [simp]: "is_ascii_digit (digit_chr n)" "digit_val (digit_chr n) = n mod 10"
  unfolding digit_chr_def by (rule digit_char; simp)+

lemma dec2_digit_chr: "n < 100 \<Longrightarrow> dec2 (digit_chr (n div 10)) (digit_chr n) = n"
  by (simp add: div_less_dividend less_mult_imp_div_less)

lemma dec4_digit_chr:
  assumes "n < 10000"
  shows "dec4 (digit_chr (n div 1000)) (digit_chr (n div 100)) (digit_chr (n div 10)) (digit_chr n) = n"
proof -
  have "n div 1000 < 10" using assms by (simp add: less_mult_imp_div_less)
  then have "n div 1000 mod 10 = n div 1000" by simp
  moreover have "n div 1000 = n div 100 div 10" using div_mult2_eq [of n 100 10] by simp
  moreover have "n div 100 = n div 10 div 10" using div_mult2_eq [of n 10 10] by simp
  moreover have "n div 100 div 10 * 10 + n div 100 mod 10 = n div 100" by (rule div_mult_mod_eq)
  moreover have "n div 10 div 10 * 10 + n div 10 mod 10 = n div 10" by (rule div_mult_mod_eq)
  moreover have "n div 10 * 10 + n mod 10 = n" by (rule div_mult_mod_eq)
  ultimately show ?thesis unfolding digit_chr_digit by linarith
qed

lemma parse_rfc3339_text:
  assumes "y < 10000" "m < 100" "d < 100" "h < 100" "i < 100" "s < 100"
  shows "parse_rfc3339_nano_millis (rfc3339_text y m d h i s) = fields_millis y m d h i s"
proof -
  have "parse_rfc3339_nano_millis (rfc3339_text y m d h i s)
    = fields_millis
       (dec4 (digit_chr (y div 1000)) (digit_chr (y div 100)) (digit_chr (y div 10)) (digit_chr y))
       (dec2 (digit_chr (m div 10)) (digit_chr m)) (dec2 (digit_chr (d div 10)) (digit_chr d))
       (dec2 (digit_chr (h div 10)) (digit_chr h)) (dec2 (digit_chr (i div 10)) (digit_chr i))
       (dec2 (digit_chr (s div 10)) (digit_chr s))"
    unfolding rfc3339_text_def
    by (rule parse_layout [where rest = "[]", simplified]) (simp_all add: starts_with_def)
  then show ?thesis using assms by (simp only: dec4_digit_chr dec2_digit_chr)
qed

lemma days_before_year_mono: "y \<le> z \<Longrightarrow> days_before_year y \<le> days_before_year z"
  by (induction z) (auto simp: le_Suc_eq)

lemma days_before_year_le: "days_before_year y \<le> 366 * y"
  by (induction y) auto

lemma days_before_month_le: "days_before_month y m \<le> 366"
proof -
  have "sum_list (take n xs) \<le> sum_list xs" for n and xs :: "nat list"
    by (metis append_take_drop_id le_add1 sum_list.append)
  then have "days_before_month y m \<le> sum_list (month_lengths y)" unfolding days_before_month_def .
  also have "\<dots> \<le> 366" by (simp add: month_lengths_def)
  finally show ?thesis .
qed

lemma calendar_day_nonneg: "1970 \<le> y \<Longrightarrow> 1 \<le> d \<Longrightarrow> 0 \<le> calendar_day y m d"
proof -
  assume y: "1970 \<le> y" and d: "1 \<le> d"
  have "int (days_before_year 1970) = 719528" unfolding days_before_year_closed by simp
  then have "719528 \<le> int (days_before_year y)" using days_before_year_mono [OF y] by linarith
  then show ?thesis using d by (simp add: calendar_day_def)
qed

text \<open>
  For every date from 1970 to 9999 the text Docker prints is parsed to the milliseconds
  since the epoch given by the calendar: no valid timestamp is rejected or misread.
\<close>

lemma rfc3339_roundtrip:
  assumes "1970 \<le> y" "y \<le> 9999" "1 \<le> m" "m \<le> 12" "1 \<le> d" "d \<le> 31"
    and "h \<le> 23" "i \<le> 59" "s \<le> 60"
  shows "parse_rfc3339_nano_millis (rfc3339_text y m d h i s)
    = Some (nat (calendar_day y m d * 86400 + int h * 3600 + int i * 60 + int s) * 1000)"
proof -
  let ?sec = "calendar_day y m d * 86400 + int h * 3600 + int i * 60 + int s"
  have nn: "0 \<le> ?sec" using calendar_day_nonneg [OF assms(1,5), of m] by simp
  have "calendar_day y m d \<le> 366 * 9999 + 366 + 31"
    using days_before_year_le [of y] days_before_month_le [of y m] assms by (simp add: calendar_day_def)
  then have "?sec < 2 ^ 40" using assms by simp
  then have "nat ?sec * 1000 < 2 ^ 64" using nn by (simp add: nat_less_iff)
  moreover have "parse_rfc3339_nano_millis (rfc3339_text y m d h i s) = fields_millis y m d h i s"
    using assms by (intro parse_rfc3339_text) simp_all
  ultimately show ?thesis using assms nn by (simp add: fields_millis_def Let_def)
qed

text \<open>
  The parser checks the day against 31 only, not against the month, so a date that does
  not exist is accepted and read as a day of the following month: 31 February 2026 is the
  same instant as 3 March 2026.
\<close>

lemma nonexistent_date_accepted:
  "parse_rfc3339_nano_millis (rfc3339_text 2026 2 31 0 0 0) = Some 1772496000000
   \<and> parse_rfc3339_nano_millis (rfc3339_text 2026 3 3 0 0 0) = Some 1772496000000"
proof -
  have "calendar_day 2026 2 31 = 20515" "calendar_day 2026 3 3 = 20515"
    by (simp_all add: calendar_day_def days_before_year_closed days_before_month_def
        month_lengths_def leap_def)
  then show ?thesis by (simp add: parse_rfc3339_text fields_millis_def)
qed

text \<open>
  Bytes between the seconds and the final Z are ignored unless they begin with a dot: any
  such text, a numeric UTC offset for instance, is dropped and the value is read as UTC.
\<close>

lemma text_before_z_ignored:
  assumes "list_all is_ascii_digit [y1, y2, y3, y4, m1, m2, d1, d2, h1, h2, i1, i2, s1, s2]"
    and "\<not> starts_with rest ''.''"
  shows "parse_rfc3339_nano_millis
     ([y1, y2, y3, y4, CHR ''-'', m1, m2, CHR ''-'', d1, d2, CHR ''T'', h1, h2, CHR '':'', i1, i2,
       CHR '':'', s1, s2] @ rest @ ''Z'')
   = parse_rfc3339_nano_millis
     ([y1, y2, y3, y4, CHR ''-'', m1, m2, CHR ''-'', d1, d2, CHR ''T'', h1, h2, CHR '':'', i1, i2,
       CHR '':'', s1, s2] @ ''Z'')"
proof -
  have "\<not> starts_with [] ''.''" by (simp add: starts_with_def)
  from parse_layout [OF assms(1) this] show ?thesis
    using parse_layout [OF assms] by (simp only: append.simps)
qed

end
