(* ===== verification/Request_Query.thy ===== *)
theory Request_Query
  imports Utf8 Logs
begin

text \<open>
  Queries of the HTTP interface (\<open>daemon_api.rs\<close>, \<open>compose_api.rs\<close>): the strict check of the form
  encoding before the library parser reads it, and the parameters of the log and Compose routes. The
  parser \<open>url::form_urlencoded::parse\<close> is a parameter \<open>form_parse\<close>.
\<close>

record api_error =
  ae_status :: nat
  ae_message :: string

type_synonym 'a api_result = "api_error + 'a"
type_synonym form_parser = "string \<Rightarrow> (string \<times> string) list"

definition bad_request :: "string \<Rightarrow> api_error" where
  "bad_request message = \<lparr>ae_status = 400, ae_message = message\<rparr>"

section \<open>The strict form check\<close>

fun split_any :: "(char \<Rightarrow> bool) \<Rightarrow> string \<Rightarrow> string list" where
  "split_any P [] = [[]]"
| "split_any P (c # s) =
     (if P c then [] # split_any P s else (c # hd (split_any P s)) # tl (split_any P s))"

definition is_ascii_hexdigit :: "char \<Rightarrow> bool" where
  "is_ascii_hexdigit c \<longleftrightarrow> is_ascii_digit c \<or> 97 \<le> byte c \<and> byte c \<le> 102 \<or> 65 \<le> byte c \<and> byte c \<le> 70"

definition nibble :: "char \<Rightarrow> nat" where
  "nibble c = (if is_ascii_digit c then byte c - 48 else if 97 \<le> byte c then byte c - 87 else byte c - 55)"

text \<open>The loop over the bytes of a component; \<open>None\<close> is its early return at a broken escape.\<close>

fun percent_decode :: "string \<Rightarrow> string option" where
  "percent_decode [] = Some []"
| "percent_decode (c # s) =
     (if c = CHR ''+'' then map_option ((#) (CHR '' '')) (percent_decode s)
      else if c = CHR ''%'' then
        (case s of
           a # b # r \<Rightarrow> if is_ascii_hexdigit a \<and> is_ascii_hexdigit b
             then map_option ((#) (char_of (nibble a * 16 + nibble b))) (percent_decode r) else None
         | _ \<Rightarrow> None)
      else map_option ((#) c) (percent_decode s))"

definition form_delimiter :: "char \<Rightarrow> bool" where
  "form_delimiter c \<longleftrightarrow> c = CHR ''&'' \<or> c = CHR ''=''"

definition strict_form_urlencoded_utf8 :: "string \<Rightarrow> bool" where
  "strict_form_urlencoded_utf8 raw =
     list_all (\<lambda>component. case percent_decode component of None \<Rightarrow> False | Some decoded \<Rightarrow> valid_utf8 decoded)
       (split_any form_delimiter raw)"

definition malformed_query :: api_error where
  "malformed_query = bad_request ''invalid request query''"

fun validate_components :: "string list \<Rightarrow> unit api_result" where
  "validate_components [] = Inr ()"
| "validate_components (component # components) =
     (case percent_decode component of
        None \<Rightarrow> Inl malformed_query
      | Some decoded \<Rightarrow> if valid_utf8 decoded then validate_components components else Inl malformed_query)"

definition validate_strict_form_urlencoded :: "string \<Rightarrow> unit api_result" where
  "validate_strict_form_urlencoded raw = validate_components (split_any form_delimiter raw)"

section \<open>The values of a query\<close>

text \<open>The loop that admits each name once: \<open>None\<close> for an unknown or repeated name.\<close>

fun query_values :: "string list \<Rightarrow> (string, string) btree_map \<Rightarrow> (string \<times> string) list
    \<Rightarrow> (string, string) btree_map option" where
  "query_values names m [] = Some m"
| "query_values names m ((name, v) # pairs) =
     (if name \<notin> set names \<or> bt_get m name \<noteq> None then None
      else query_values names (bt_insert name v m) pairs)"

definition validate_optional_query :: "string option \<Rightarrow> string \<Rightarrow> nat \<Rightarrow> string option api_result" where
  "validate_optional_query query name max_chars =
     (case query of
        None \<Rightarrow> Inr None
      | Some raw \<Rightarrow>
          let v = trim raw in
          if v = [] then Inr None
          else if char_count v > max_chars \<or> CHR 0x00 \<in> set v
          then Inl (bad_request (''query parameter `'' @ name @ ''` must be '' @ show_nat max_chars
            @ '' characters or fewer''))
          else Inr (Some v))"

definition usize_digits :: "string \<Rightarrow> nat option" where
  "usize_digits s = (if list_all is_ascii_digit s then parse_uint 64 s else None)"

section \<open>The log route\<close>

definition MAX_LOG_QUERY_CHARS :: nat where "MAX_LOG_QUERY_CHARS = 256"
definition MAX_LOG_SERVICE_CHARS :: nat where "MAX_LOG_SERVICE_CHARS = 128"

record logs_query =
  lq_service :: "string option"
  lq_q :: "string option"
  lq_cursor :: "string option"
  lq_limit :: "nat option"

definition invalid_logs_query :: api_error where
  "invalid_logs_query = bad_request ''invalid log query''"

text \<open>A service is an ASCII alphanumeric followed by such characters, underscores, dots and dashes.\<close>

definition service_name_char :: "char \<Rightarrow> bool" where
  "service_name_char c \<longleftrightarrow> is_ascii_alphanumeric c \<or> c \<in> {CHR ''_'', CHR ''.'', CHR ''-''}"

definition log_service_rejected :: "string option \<Rightarrow> bool" where
  "log_service_rejected service =
     (case map_option trim service of
        None \<Rightarrow> False
      | Some v \<Rightarrow> v \<noteq> [] \<and> (\<not> is_ascii_alphanumeric (hd v) \<or> \<not> list_all service_name_char v))"

definition parse_logs_query :: "form_parser \<Rightarrow> string option \<Rightarrow> logs_query api_result" where
  "parse_logs_query form_parse query =
     (let raw = (case query of None \<Rightarrow> [] | Some r \<Rightarrow> r) in
      if \<not> strict_form_urlencoded_utf8 raw then Inl invalid_logs_query
      else (case query_values [''service'', ''q'', ''cursor'', ''limit''] [] (form_parse raw) of
        None \<Rightarrow> Inl invalid_logs_query
      | Some values \<Rightarrow>
          (case map_option usize_digits (bt_get values ''limit'') of
             Some None \<Rightarrow> Inl invalid_logs_query
           | limit \<Rightarrow>
               if log_service_rejected (bt_get values ''service'') then Inl invalid_logs_query
               else Inr \<lparr>lq_service = bt_get values ''service'', lq_q = bt_get values ''q'',
                      lq_cursor = bt_get values ''cursor'', lq_limit = Option.bind limit (\<lambda>n. n)\<rparr>)))"

definition parse_log_cursor :: "string option \<Rightarrow> log_cursor option api_result" where
  "parse_log_cursor query =
     (case validate_optional_query query ''cursor'' 32 of
        Inl e \<Rightarrow> Inl e
      | Inr None \<Rightarrow> Inr None
      | Inr (Some v) \<Rightarrow>
          (case log_cursor_parse v of
             None \<Rightarrow> Inl (bad_request ''query parameter `cursor` must be `millis` or `millis:offset`'')
           | Some c \<Rightarrow> Inr (Some c)))"

definition parse_log_limit :: "nat option \<Rightarrow> nat api_result" where
  "parse_log_limit query =
     (case query of
        None \<Rightarrow> Inr DEFAULT_LOG_PAGE_SIZE
      | Some n \<Rightarrow> if 1 \<le> n \<and> n \<le> MAX_LOG_PAGE_SIZE then Inr n
          else Inl (bad_request (''query parameter `limit` must be between 1 and '' @ show_nat MAX_LOG_PAGE_SIZE)))"

text \<open>What the handler of the log route works with after its four checks.\<close>

definition log_arguments :: "form_parser \<Rightarrow> string option
    \<Rightarrow> (string option \<times> string option \<times> log_cursor option \<times> nat) api_result" where
  "log_arguments form_parse query =
     (case parse_logs_query form_parse query of Inl e \<Rightarrow> Inl e | Inr lq \<Rightarrow>
      case validate_optional_query (lq_service lq) ''service'' MAX_LOG_SERVICE_CHARS of Inl e \<Rightarrow> Inl e | Inr service \<Rightarrow>
      case validate_optional_query (lq_q lq) ''q'' MAX_LOG_QUERY_CHARS of Inl e \<Rightarrow> Inl e | Inr q \<Rightarrow>
      case parse_log_cursor (lq_cursor lq) of Inl e \<Rightarrow> Inl e | Inr cursor \<Rightarrow>
      case parse_log_limit (lq_limit lq) of Inl e \<Rightarrow> Inl e | Inr limit \<Rightarrow> Inr (service, q, cursor, limit))"

section \<open>The Compose routes\<close>

definition MAX_COMPOSE_FILES :: nat where "MAX_COMPOSE_FILES = 8"
definition MAX_COMPOSE_FILE_CHARS :: nat where "MAX_COMPOSE_FILE_CHARS = 512"
definition MAX_COMPOSE_SERVICE_CHARS :: nat where "MAX_COMPOSE_SERVICE_CHARS = 128"

record compose_scan_query =
  sq_file :: "string list"

record compose_edit_plan_query =
  eq_file :: string
  eq_service :: string
  eq_mount :: nat
  eq_source :: "string option"
  eq_target :: "string option"

definition validate_compose_file :: "string \<Rightarrow> string api_result" where
  "validate_compose_file raw =
     (let v = trim raw in
      if v = [] then Inl (bad_request ''compose file query values must be non-empty strings'')
      else if length v > MAX_COMPOSE_FILE_CHARS \<or> CHR 0x00 \<in> set v
      then Inl (bad_request (''compose file query values must be '' @ show_nat MAX_COMPOSE_FILE_CHARS
        @ '' characters or fewer''))
      else Inr v)"

fun collect_results :: "('a \<Rightarrow> 'e + 'b) \<Rightarrow> 'a list \<Rightarrow> 'e + 'b list" where
  "collect_results f [] = Inr []"
| "collect_results f (x # xs) =
     (case f x of Inl e \<Rightarrow> Inl e
      | Inr y \<Rightarrow> (case collect_results f xs of Inl e \<Rightarrow> Inl e | Inr ys \<Rightarrow> Inr (y # ys)))"

definition validate_compose_files :: "string list \<Rightarrow> string list api_result" where
  "validate_compose_files files =
     (case collect_results validate_compose_file files of
        Inl e \<Rightarrow> Inl e
      | Inr validated \<Rightarrow>
          if length validated > MAX_COMPOSE_FILES
          then Inl (bad_request (''compose scan accepts at most '' @ show_nat MAX_COMPOSE_FILES @ '' files''))
          else Inr validated)"

definition decode_query :: "form_parser \<Rightarrow> string option \<Rightarrow> (string \<times> string) list api_result" where
  "decode_query form_parse query =
     (let raw = (case query of None \<Rightarrow> [] | Some r \<Rightarrow> r) in
      case validate_strict_form_urlencoded raw of Inl e \<Rightarrow> Inl e | Inr _ \<Rightarrow> Inr (form_parse raw))"

definition parse_compose_scan_query :: "form_parser \<Rightarrow> string option \<Rightarrow> compose_scan_query api_result" where
  "parse_compose_scan_query form_parse query =
     (case decode_query form_parse query of
        Inl e \<Rightarrow> Inl e
      | Inr pairs \<Rightarrow>
          if list_ex (\<lambda>(name, _). name \<noteq> ''file'') pairs then Inl malformed_query
          else (case validate_compose_files (map snd pairs) of
                  Inl e \<Rightarrow> Inl e | Inr files \<Rightarrow> Inr \<lparr>sq_file = files\<rparr>))"

definition validate_optional_raw_query :: "string \<Rightarrow> nat \<Rightarrow> string api_result" where
  "validate_optional_raw_query raw maximum =
     (let v = trim raw in
      if length v > maximum \<or> CHR 0x00 \<in> set v then Inl malformed_query else Inr v)"

definition validate_required_raw_query :: "string \<Rightarrow> nat \<Rightarrow> string api_result" where
  "validate_required_raw_query raw maximum =
     (case validate_optional_raw_query raw maximum of
        Inl e \<Rightarrow> Inl e | Inr v \<Rightarrow> if v = [] then Inl malformed_query else Inr v)"

definition required_value :: "(string, string) btree_map \<Rightarrow> string \<Rightarrow> nat \<Rightarrow> string api_result" where
  "required_value values name maximum =
     (case bt_get values name of
        None \<Rightarrow> Inl malformed_query
      | Some raw \<Rightarrow> (case validate_required_raw_query raw maximum of
          Inl _ \<Rightarrow> Inl malformed_query | Inr v \<Rightarrow> Inr v))"

definition optional_value :: "(string, string) btree_map \<Rightarrow> string \<Rightarrow> string option api_result" where
  "optional_value values name =
     (case bt_get values name of
        None \<Rightarrow> Inr None
      | Some raw \<Rightarrow> (case validate_optional_raw_query raw MAX_COMPOSE_FILE_CHARS of
          Inl e \<Rightarrow> Inl e | Inr v \<Rightarrow> Inr (Some v)))"

definition parse_compose_edit_plan_query :: "form_parser \<Rightarrow> string option \<Rightarrow> compose_edit_plan_query api_result" where
  "parse_compose_edit_plan_query form_parse query =
     (case decode_query form_parse query of Inl e \<Rightarrow> Inl e | Inr pairs \<Rightarrow>
      case query_values [''file'', ''service'', ''mount'', ''source'', ''target''] [] pairs of
        None \<Rightarrow> Inl malformed_query | Some values \<Rightarrow>
      case required_value values ''file'' MAX_COMPOSE_FILE_CHARS of Inl e \<Rightarrow> Inl e | Inr requested \<Rightarrow>
      case required_value values ''service'' MAX_COMPOSE_SERVICE_CHARS of Inl e \<Rightarrow> Inl e | Inr service \<Rightarrow>
      case required_value values ''mount'' 16 of Inl e \<Rightarrow> Inl e | Inr mount_text \<Rightarrow>
      case usize_digits mount_text of None \<Rightarrow> Inl malformed_query | Some mount \<Rightarrow>
      case optional_value values ''source'' of Inl e \<Rightarrow> Inl e | Inr source \<Rightarrow>
      case optional_value values ''target'' of Inl e \<Rightarrow> Inl e | Inr target \<Rightarrow>
        Inr \<lparr>eq_file = requested, eq_service = service, eq_mount = mount, eq_source = source, eq_target = target\<rparr>)"

definition validate_required_value :: "string \<Rightarrow> string \<Rightarrow> nat \<Rightarrow> string api_result" where
  "validate_required_value raw name max_chars =
     (case validate_optional_query (Some raw) name max_chars of
        Inl e \<Rightarrow> Inl e
      | Inr None \<Rightarrow> Inl (bad_request (''query parameter `'' @ name @ ''` is required''))
      | Inr (Some v) \<Rightarrow> Inr v)"

end
