(* ===== verification/Rust_Path.thy ===== *)
theory Rust_Path
  imports Text
begin

text \<open>
  \<open>std::path\<close> on Unix as the sources use it: the components of a path, \<open>join\<close>, \<open>parent\<close> and
  \<open>file_name\<close>. A path is its text; the paths of the program are valid UTF-8, so that
  \<open>to_string_lossy\<close> changes nothing.
\<close>

section \<open>Components\<close>

datatype path_component = RootDir | CurDir | ParentDir | Normal string

definition has_root :: "string \<Rightarrow> bool" where
  "has_root p \<longleftrightarrow> p \<noteq> [] \<and> hd p = CHR ''/''"

definition path_segments :: "string \<Rightarrow> string list" where
  "path_segments p = split_char (CHR ''/'') p"

definition segment_component :: "string \<Rightarrow> path_component list" where
  "segment_component s =
     (if s = [] \<or> s = ''.'' then [] else if s = ''..'' then [ParentDir] else [Normal s])"

text \<open>A single dot is a component only at the start of a relative path.\<close>

definition first_component :: "string \<Rightarrow> path_component list" where
  "first_component s = (if s = ''.'' then [CurDir] else segment_component s)"

definition components :: "string \<Rightarrow> path_component list" where
  "components p = (if has_root p then [RootDir] else [])
     @ first_component (hd (path_segments p)) @ concat (map segment_component (tl (path_segments p)))"

fun as_os_str :: "path_component \<Rightarrow> string" where
  "as_os_str RootDir = ''/''"
| "as_os_str CurDir = ''.''"
| "as_os_str ParentDir = ''..''"
| "as_os_str (Normal s) = s"

definition path_starts_with :: "string \<Rightarrow> string \<Rightarrow> bool" where
  "path_starts_with p base \<longleftrightarrow> prefix (components base) (components p)"

definition path_strip_prefix :: "string \<Rightarrow> string \<Rightarrow> path_component list option" where
  "path_strip_prefix p base =
     (if path_starts_with p base then Some (drop (length (components base)) (components p)) else None)"

definition path_file_name :: "string \<Rightarrow> string option" where
  "path_file_name p = (if components p = [] then None
     else case last (components p) of Normal s \<Rightarrow> Some s | _ \<Rightarrow> None)"

section \<open>Join and parent\<close>

definition path_join :: "string \<Rightarrow> string \<Rightarrow> string" where
  "path_join base p =
     (if has_root p then p
      else if base \<noteq> [] \<and> last base \<noteq> CHR ''/'' then base @ ''/'' @ p
      else base @ p)"

text \<open>The segments that are components, by their position: what \<open>parent\<close> cuts off is the last.\<close>

definition kept_segments :: "string \<Rightarrow> nat list" where
  "kept_segments p = filter (\<lambda>i. path_segments p ! i \<noteq> [] \<and> (path_segments p ! i \<noteq> ''.'' \<or> i = 0))
     [0..<length (path_segments p)]"

definition path_parent :: "string \<Rightarrow> string option" where
  "path_parent p =
     (if kept_segments p = [] then None
      else if butlast (kept_segments p) = [] then Some (if has_root p then ''/'' else [])
      else Some (str_join ''/'' (take (Suc (last (butlast (kept_segments p)))) (path_segments p))))"

definition path_pop :: "string \<Rightarrow> string" where
  "path_pop p = (case path_parent p of None \<Rightarrow> p | Some q \<Rightarrow> q)"

section \<open>Splitting and joining\<close>

lemma join_split: "str_join [d] (split_char d s) = s"
proof (induction s)
  case (Cons c s)
  obtain x xs where "split_char d s = x # xs" by (cases "split_char d s") auto
  then show ?case using Cons by (cases xs) auto
qed simp

lemma split_no_sep: "d \<notin> set s \<Longrightarrow> split_char d s = [s]"
  by (induction s) auto

lemma split_append: "d \<notin> set a \<Longrightarrow> split_char d (a @ d # s) = a # split_char d s"
  by (induction a) auto

lemma split_char_free: "x \<in> set (split_char d s) \<Longrightarrow> d \<notin> set x"
proof (induction s arbitrary: x)
  case (Cons c s)
  obtain y ys where split: "split_char d s = y # ys" by (cases "split_char d s") auto
  then show ?case using Cons.prems Cons.IH [of y] Cons.IH [of x] by (auto split: if_splits)
qed simp

lemma split_join:
  "ss \<noteq> [] \<Longrightarrow> list_all (\<lambda>s. d \<notin> set s) ss \<Longrightarrow> split_char d (str_join [d] ss) = ss"
proof (induction "[d]" ss rule: str_join.induct)
  case (3 s t ss)
  then show ?case using split_append [of d s] by simp
qed (auto simp: split_no_sep)

lemma str_join_snoc: "ss \<noteq> [] \<Longrightarrow> str_join sep (ss @ [s]) = str_join sep ss @ sep @ s"
  by (induction sep ss rule: str_join.induct) auto

section \<open>Plain paths\<close>

text \<open>A plain path consists of names only: no dots, no empty segment, no slash at its end.\<close>

definition plain_name :: "string \<Rightarrow> bool" where
  "plain_name s \<longleftrightarrow> s \<noteq> [] \<and> s \<noteq> ''.'' \<and> s \<noteq> ''..'' \<and> CHR ''/'' \<notin> set s"

definition plain_path :: "bool \<Rightarrow> string list \<Rightarrow> string" where
  "plain_path root names = (if root then ''/'' else []) @ str_join ''/'' names"

lemma join_names_hd:
  assumes "list_all plain_name ns" "ns \<noteq> []"
  shows "str_join sep ns \<noteq> []" "hd (str_join sep ns) \<noteq> CHR ''/''"
proof -
  obtain n ms where ns: "ns = n # ms" "n \<noteq> []" "CHR ''/'' \<notin> set n"
    using assms by (cases ns) (auto simp: plain_name_def)
  then have "hd n \<noteq> CHR ''/''" using hd_in_set [of n] by metis
  then show "str_join sep ns \<noteq> []" "hd (str_join sep ns) \<noteq> CHR ''/''" using ns by (cases ms; auto)+
qed

lemma join_names_last:
  "list_all plain_name ns \<Longrightarrow> ns \<noteq> [] \<Longrightarrow> last (str_join sep ns) \<noteq> CHR ''/''"
proof (induction ns rule: rev_induct)
  case (snoc n ns)
  then have n: "n \<noteq> []" "CHR ''/'' \<notin> set n" by (simp_all add: plain_name_def)
  then have "last n \<noteq> CHR ''/''" using last_in_set [of n] by metis
  with n show ?case by (cases "ns = []") (auto simp: str_join_snoc)
qed simp

lemma plain_segments:
  assumes "list_all plain_name ns"
  shows "path_segments (plain_path root ns) =
    (if root then [] # (if ns = [] then [[]] else ns) else if ns = [] then [[]] else ns)"
proof -
  have "split_char (CHR ''/'') (str_join ''/'' ns) = ns" if "ns \<noteq> []"
    using that assms split_join [of ns "CHR ''/''"] by (simp add: plain_name_def list_all_iff)
  then show ?thesis by (auto simp: path_segments_def plain_path_def)
qed

lemma plain_root: "list_all plain_name ns \<Longrightarrow> has_root (plain_path root ns) = root"
  using join_names_hd [of ns "''/''"] by (cases "ns = []") (auto simp: has_root_def plain_path_def)

lemma name_component: "plain_name s \<Longrightarrow> segment_component s = [Normal s]"
  "plain_name s \<Longrightarrow> first_component s = [Normal s]"
  by (auto simp: plain_name_def segment_component_def first_component_def)

lemma names_components: "list_all plain_name ns \<Longrightarrow> concat (map segment_component ns) = map Normal ns"
  by (induction ns) (auto simp: name_component)

lemma plain_components:
  assumes "list_all plain_name ns"
  shows "components (plain_path root ns) = (if root then [RootDir] else []) @ map Normal ns"
  using assms names_components [OF assms]
  by (cases ns) (auto simp: components_def plain_root plain_segments name_component names_components
      first_component_def segment_component_def)

lemma plain_join:
  assumes "list_all plain_name ns" "plain_name s"
  shows "path_join (plain_path root ns) s = plain_path root (ns @ [s])"
proof -
  have "\<not> has_root s" using assms(2) by (cases s) (auto simp: has_root_def plain_name_def)
  moreover have "last (plain_path root ns) \<noteq> CHR ''/''" if "ns \<noteq> []"
    using that join_names_last [OF assms(1)] join_names_hd(1) [OF assms(1)] by (auto simp: plain_path_def)
  moreover have "plain_path root ns \<noteq> []" if "ns \<noteq> []"
    using that join_names_hd(1) [OF assms(1)] by (auto simp: plain_path_def)
  ultimately show ?thesis by (cases "ns = []") (auto simp: path_join_def plain_path_def str_join_snoc)
qed

lemma kept_plain:
  assumes "list_all plain_name ns"
  shows "kept_segments (plain_path root ns) = [(if root then 1 else 0)..<(if root then 1 else 0) + length ns]"
proof -
  let ?s = "path_segments (plain_path root ns)"
  have all: "filter (\<lambda>i. ns ! i \<noteq> [] \<and> (ns ! i \<noteq> ''.'' \<or> P i)) [0..<length ns] = [0..<length ns]" for P
    using assms by (auto simp: filter_id_conv list_all_length plain_name_def)
  show ?thesis
  proof (cases root)
    case False
    then show ?thesis using all [of "\<lambda>i. i = 0"] assms
      by (cases ns) (simp_all add: kept_segments_def plain_segments)
  next
    case True
    have up: "[0..<Suc n] = 0 # map Suc [0..<n]" for n by (simp add: upt_conv_Cons map_Suc_upt del: upt_Suc)
    have s: "?s = [] # (if ns = [] then [[]] else ns)" using True assms by (simp add: plain_segments)
    have "filter (\<lambda>i. ?s ! i \<noteq> [] \<and> (?s ! i \<noteq> ''.'' \<or> i = 0)) [0..<length ?s] = map Suc [0..<length ns]"
    proof (cases "ns = []")
      case True
      then show ?thesis using s by simp
    next
      case False
      then show ?thesis using all [of "\<lambda>i. False"] unfolding s
        by (simp add: up filter_map comp_def del: upt_Suc)
    qed
    then show ?thesis using True by (simp add: kept_segments_def map_Suc_upt)
  qed
qed

lemma plain_pop:
  assumes "list_all plain_name ns"
  shows "path_pop (plain_path root ns) = plain_path root (butlast ns)"
proof (cases ns rule: rev_cases)
  case Nil
  then show ?thesis by (simp add: path_pop_def path_parent_def kept_plain)
next
  case (snoc ms m)
  let ?k = "if root then 1 else 0 :: nat"
  have k: "kept_segments (plain_path root ns) = [?k..<?k + length ms] @ [?k + length ms]"
    using kept_plain [OF assms, of root] snoc by simp
  show ?thesis
  proof (cases "ms = []")
    case True
    then show ?thesis using k snoc plain_root [OF assms, of root] by (simp add: path_pop_def path_parent_def plain_path_def)
  next
    case False
    obtain ks where ks: "ks = [?k..<?k + length ms]" by blast
    then have "ks \<noteq> []" "Suc (last ks) = ?k + length ms" using False by (cases ms; simp)+
    then have "path_parent (plain_path root ns)
        = Some (str_join ''/'' (take (?k + length ms) (path_segments (plain_path root ns))))"
      using k by (simp add: path_parent_def flip: ks)
    moreover have "take (?k + length ms) (path_segments (plain_path root ns)) = (if root then [] # ms else ms)"
      using snoc plain_segments [OF assms, of root] by simp
    moreover have "str_join ''/'' ([] # ms) = ''/'' @ str_join ''/'' ms" using False by (cases ms) auto
    ultimately show ?thesis using snoc by (simp add: path_pop_def plain_path_def)
  qed
qed

section \<open>The names of a component list\<close>

lemma component_name:
  assumes "Normal s \<in> set (components p)"
  shows "plain_name s"
proof -
  have "\<exists>x \<in> set (path_segments p). Normal s \<in> set (first_component x) \<union> set (segment_component x)"
    using assms list.set_sel(2) [of "path_segments p"] hd_in_set [of "path_segments p"]
    by (auto simp: components_def path_segments_def split: if_splits)
  then show ?thesis
    by (auto simp: plain_name_def path_segments_def first_component_def segment_component_def
        dest: split_char_free split: if_splits)
qed

lemma root_component: "has_root p \<longleftrightarrow> RootDir \<in> set (components p)"
  "components p = (if has_root p then [RootDir] else []) @ filter (\<lambda>c. c \<noteq> RootDir) (components p)"
  by (auto simp: components_def first_component_def segment_component_def filter_concat comp_def filter_empty_conv
      intro!: arg_cong [where f = concat])

end
