(* ===== verification/Evidence.thy ===== *)
theory Evidence
  imports Models
begin

text \<open>
  The evidence, edge and finding part of \<open>crates/dockermap-core/src/models.rs\<close>: the closed
  evidence vocabulary, the check that a reference has a valid versioned shape, the check
  that it attests the very edge it is attached to, the deserialisers that enforce both, and
  the finding vocabulary with its saturating summary counters.
\<close>

section \<open>Closed evidence vocabulary\<close>

datatype runtime_evidence_provider =
  REP_Docker | REP_Compose | REP_Systemd | REP_Npm | REP_Cron | REP_Tmux | REP_Dockermap

datatype runtime_evidence_assertion_kind = Observed | Declared

datatype runtime_evidence_kind =
    DockerNetworkMembership
  | DockerVolumeMount
  | DockerPortPublication
  | DockerUnspecifiedAddressPortPublication
  | DockerComposeDependsOn
  | DockerDaemonStateBindMount
  | SystemdRequires
  | SystemdWants
  | SystemdPartOf
  | NpmPackageManifestDependency
  | CronScheduleDeclaration
  | TmuxSessionListing
  | ComposeDeclaredMount
  | DockerComposeRuntimeBinding
  | RuntimeIdentityCollision

datatype runtime_evidence_freshness = EF_Fresh | EF_Stale | EF_TimedOut

record runtime_evidence_ref =
  ev_version :: nat
  ev_id :: string
  ev_provider :: runtime_evidence_provider
  ev_kind :: runtime_evidence_kind
  ev_assertion_kind :: runtime_evidence_assertion_kind
  ev_summary :: string
  ev_subject_ref :: string
  ev_collected_at :: u64
  ev_provider_revision :: string
  ev_provider_slot :: "provider_slot option"
  ev_freshness :: runtime_evidence_freshness

text \<open>One tuple pattern of the source's \<open>match\<close>: version, provider, kind, assertion,
  admitted freshness values and slot.\<close>

definition ev_is ::
  "runtime_evidence_ref \<Rightarrow> nat \<Rightarrow> runtime_evidence_provider \<Rightarrow> runtime_evidence_kind
     \<Rightarrow> runtime_evidence_assertion_kind \<Rightarrow> runtime_evidence_freshness list
     \<Rightarrow> provider_slot option \<Rightarrow> bool"
where
  "ev_is e v p k a fs sl \<longleftrightarrow>
     ev_version e = v \<and> ev_provider e = p \<and> ev_kind e = k \<and> ev_assertion_kind e = a
     \<and> ev_freshness e \<in> set fs \<and> ev_provider_slot e = sl"

abbreviation any_freshness :: "runtime_evidence_freshness list" where
  "any_freshness \<equiv> [EF_Fresh, EF_Stale, EF_TimedOut]"

definition has_valid_versioned_shape :: "runtime_evidence_ref \<Rightarrow> bool" where
  "has_valid_versioned_shape e \<longleftrightarrow>
     ev_is e 1 REP_Docker DockerNetworkMembership Observed [EF_Fresh] None
     \<or> ev_is e 1 REP_Docker DockerVolumeMount Observed [EF_Fresh] None
     \<or> ev_is e 1 REP_Docker DockerPortPublication Observed [EF_Fresh] None
     \<or> ev_is e 1 REP_Docker DockerUnspecifiedAddressPortPublication Observed [EF_Fresh] None
     \<or> ev_is e 1 REP_Docker DockerComposeDependsOn Observed [EF_Fresh] None
     \<or> ev_is e 1 REP_Docker DockerDaemonStateBindMount Observed [EF_Fresh] None
     \<or> ev_is e 2 REP_Systemd SystemdRequires Declared any_freshness (Some Slot_Systemd)
     \<or> ev_is e 2 REP_Systemd SystemdWants Declared any_freshness (Some Slot_Systemd)
     \<or> ev_is e 2 REP_Systemd SystemdPartOf Declared any_freshness (Some Slot_Systemd)
     \<or> ev_is e 3 REP_Npm NpmPackageManifestDependency Declared any_freshness (Some Slot_ProjectNpm)
     \<or> ev_is e 4 REP_Cron CronScheduleDeclaration Declared any_freshness (Some Slot_Cron)
     \<or> ev_is e 5 REP_Tmux TmuxSessionListing Observed any_freshness (Some Slot_Tmux)
     \<or> ev_is e 6 REP_Compose ComposeDeclaredMount Declared [EF_Fresh] None
     \<or> ev_is e 6 REP_Docker DockerComposeRuntimeBinding Observed [EF_Fresh] None
     \<or> ev_is e 7 REP_Dockermap RuntimeIdentityCollision Observed [EF_Fresh] None"

datatype model_error = InvalidEvidenceShape | EvidenceDoesNotAttestEdge

text \<open>\<open>Deserialize for RuntimeEvidenceRef\<close>: the wire struct has the same fields.\<close>

definition evidence_ref_deserialize ::
  "runtime_evidence_ref \<Rightarrow> model_error + runtime_evidence_ref"
where
  "evidence_ref_deserialize wire =
     (if has_valid_versioned_shape wire then Inr wire else Inl InvalidEvidenceShape)"

section \<open>Edges\<close>

record runtime_map_edge =
  re_source :: string
  re_target :: string
  re_relationship :: runtime_relationship_kind
  re_metadata :: metadata
  re_evidence_refs :: "runtime_evidence_ref list"

definition MAX_EVIDENCE_TEXT_CHARS :: nat where
  "MAX_EVIDENCE_TEXT_CHARS = 259"

definition evidence_ref_matches_edge :: "runtime_map_edge \<Rightarrow> runtime_evidence_ref \<Rightarrow> bool" where
  "evidence_ref_matches_edge edge e =
     (if ev_id e = [] \<or> ev_summary e = [] \<or> ev_provider_revision e = []
         \<or> char_count (ev_id e) > MAX_EVIDENCE_TEXT_CHARS
         \<or> char_count (ev_summary e) > MAX_EVIDENCE_TEXT_CHARS
         \<or> char_count (ev_provider_revision e) > MAX_EVIDENCE_TEXT_CHARS
         \<or> ev_subject_ref e \<noteq> re_source edge
      then False
      else if \<not> has_valid_versioned_shape e then False
      else if ev_is e 1 REP_Docker DockerNetworkMembership Observed [EF_Fresh] None then
        re_relationship edge = RRK_ConnectedTo
        \<and> starts_with (re_source edge) ''docker_container_''
        \<and> starts_with (re_target edge) ''docker_network_''
      else if ev_is e 1 REP_Docker DockerDaemonStateBindMount Observed [EF_Fresh] None then
        re_relationship edge = RRK_ExposesDaemonState
        \<and> starts_with (re_source edge) ''docker_container_''
        \<and> re_target edge = ''host_risk_docker_daemon_state''
      else if ev_is e 1 REP_Docker DockerVolumeMount Observed [EF_Fresh] None then
        re_relationship edge = RRK_Mounts
        \<and> starts_with (re_source edge) ''docker_container_''
        \<and> starts_with (re_target edge) ''docker_volume_''
      else if ev_is e 1 REP_Docker DockerPortPublication Observed [EF_Fresh] None then
        re_relationship edge = RRK_Exposes
        \<and> starts_with (re_source edge) ''docker_container_''
        \<and> starts_with (re_target edge) ''network_listener_''
      else if ev_is e 1 REP_Docker DockerUnspecifiedAddressPortPublication Observed [EF_Fresh] None then
        re_relationship edge = RRK_Exposes
        \<and> starts_with (re_source edge) ''docker_container_''
        \<and> re_target edge = ''host_risk_docker_unspecified_address_port''
      else if ev_is e 1 REP_Docker DockerComposeDependsOn Observed [EF_Fresh] None then
        re_relationship edge = RRK_DependsOn
        \<and> starts_with (re_source edge) ''docker_container_''
        \<and> starts_with (re_target edge) ''docker_container_''
        \<and> re_source edge \<noteq> re_target edge
      else if ev_is e 7 REP_Dockermap RuntimeIdentityCollision Observed [EF_Fresh] None then
        re_relationship edge = RRK_RelatedTo
        \<and> re_source edge = ''runtime_integrity_scope''
        \<and> re_target edge = ''runtime_integrity_risk_identity_collision''
      else if ev_is e 2 REP_Systemd SystemdRequires Declared any_freshness (Some Slot_Systemd) then
        re_relationship edge = RRK_Requires
        \<and> starts_with (re_source edge) ''systemd_service_''
        \<and> starts_with (re_target edge) ''systemd_service_''
        \<and> re_source edge \<noteq> re_target edge
      else if ev_is e 3 REP_Npm NpmPackageManifestDependency Declared any_freshness
                (Some Slot_ProjectNpm) then
        re_relationship edge = RRK_DependsOn
        \<and> starts_with (re_source edge) ''npm_project_''
        \<and> starts_with (re_target edge) ''npm_package_''
        \<and> re_source edge \<noteq> re_target edge
      else if ev_is e 4 REP_Cron CronScheduleDeclaration Declared any_freshness (Some Slot_Cron) then
        re_relationship edge = RRK_RunsOn
        \<and> starts_with (re_source edge) ''scheduled_job_''
        \<and> re_target edge = ''host_local''
        \<and> re_source edge \<noteq> re_target edge
      else if ev_is e 5 REP_Tmux TmuxSessionListing Observed any_freshness (Some Slot_Tmux)
           \<or> ev_is e 6 REP_Compose ComposeDeclaredMount Declared [EF_Fresh] None
           \<or> ev_is e 6 REP_Docker DockerComposeRuntimeBinding Observed [EF_Fresh] None then
        re_relationship edge = RRK_RunsOn
        \<and> starts_with (re_source edge) ''tmux_session_''
        \<and> re_target edge = ''host_local''
        \<and> re_source edge \<noteq> re_target edge
      else if ev_is e 2 REP_Systemd SystemdWants Declared any_freshness (Some Slot_Systemd) then
        re_relationship edge = RRK_Wants
        \<and> starts_with (re_source edge) ''systemd_service_''
        \<and> starts_with (re_target edge) ''systemd_service_''
        \<and> re_source edge \<noteq> re_target edge
      else if ev_is e 2 REP_Systemd SystemdPartOf Declared any_freshness (Some Slot_Systemd) then
        re_relationship edge = RRK_PartOf
        \<and> starts_with (re_source edge) ''systemd_service_''
        \<and> starts_with (re_target edge) ''systemd_service_''
        \<and> re_source edge \<noteq> re_target edge
      else False)"

definition has_valid_evidence_refs :: "runtime_map_edge \<Rightarrow> bool" where
  "has_valid_evidence_refs edge \<longleftrightarrow>
     list_all (evidence_ref_matches_edge edge) (re_evidence_refs edge)"

text \<open>\<open>Deserialize for RuntimeMapEdge\<close>: the evidence references are deserialised (and
  shape-checked) first, then the edge-level check runs.\<close>

fun evidence_refs_deserialize ::
  "runtime_evidence_ref list \<Rightarrow> model_error + runtime_evidence_ref list"
where
  "evidence_refs_deserialize [] = Inr []"
| "evidence_refs_deserialize (w # ws) =
     (case evidence_ref_deserialize w of
        Inl err \<Rightarrow> Inl err
      | Inr e \<Rightarrow>
          (case evidence_refs_deserialize ws of
             Inl err \<Rightarrow> Inl err
           | Inr es \<Rightarrow> Inr (e # es)))"

definition runtime_map_edge_deserialize :: "runtime_map_edge \<Rightarrow> model_error + runtime_map_edge" where
  "runtime_map_edge_deserialize wire =
     (case evidence_refs_deserialize (re_evidence_refs wire) of
        Inl err \<Rightarrow> Inl err
      | Inr refs \<Rightarrow>
          (let edge = wire\<lparr>re_evidence_refs := refs\<rparr> in
           if has_valid_evidence_refs edge then Inr edge else Inl EvidenceDoesNotAttestEdge))"

record runtime_map_diagnostic =
  rd_provider :: runtime_provider_kind
  rd_severity :: diagnostic_severity
  rd_message :: string

section \<open>Findings\<close>

datatype finding_severity = FS_Warning | FS_Advisory

datatype finding_rule =
    FR_SystemdRequiresTargetNotActive
  | FR_SystemdPartOfTargetNotActive
  | FR_DockerInternalNetworkMemberPublishesPort
  | FR_DockerPortPublishedOnUnspecifiedAddress
  | FR_DockerDaemonStateBindMount
  | FR_DockerDaemonStateBindMountPublishesPort
  | FR_DockerComposeDeclaredTargetNotActive
  | FR_DockerComposeMutualDependency
  | FR_ComposeDeclaredMountMissingAtBoundContainer
  | FR_RuntimeIdentityCollisionDetected
  | FR_RuntimeDeclaredRelationshipEvidenceNotCurrent

datatype finding_category =
  FC_DeclaredDependency | FC_DockerDaemonAuthority | FC_HostPortPublication | FC_EvidenceIntegrity

primrec category :: "finding_rule \<Rightarrow> finding_category" where
  "category FR_SystemdRequiresTargetNotActive = FC_DeclaredDependency"
| "category FR_SystemdPartOfTargetNotActive = FC_DeclaredDependency"
| "category FR_DockerComposeDeclaredTargetNotActive = FC_DeclaredDependency"
| "category FR_DockerComposeMutualDependency = FC_DeclaredDependency"
| "category FR_DockerDaemonStateBindMount = FC_DockerDaemonAuthority"
| "category FR_DockerInternalNetworkMemberPublishesPort = FC_HostPortPublication"
| "category FR_DockerDaemonStateBindMountPublishesPort = FC_HostPortPublication"
| "category FR_DockerPortPublishedOnUnspecifiedAddress = FC_HostPortPublication"
| "category FR_ComposeDeclaredMountMissingAtBoundContainer = FC_DeclaredDependency"
| "category FR_RuntimeIdentityCollisionDetected = FC_EvidenceIntegrity"
| "category FR_RuntimeDeclaredRelationshipEvidenceNotCurrent = FC_EvidenceIntegrity"

record finding =
  fi_id :: string
  fi_rule_id :: finding_rule
  fi_severity :: finding_severity
  fi_summary :: string
  fi_recommendation :: string
  fi_subject_ref :: string
  fi_target_ref :: string
  fi_evidence_refs :: "runtime_evidence_ref list"

record finding_summary =
  fs_warning_count :: u32
  fs_advisory_count :: u32
  fs_declared_dependency_count :: u32
  fs_docker_daemon_authority_count :: u32
  fs_host_port_publication_count :: u32
  fs_evidence_integrity_count :: u32

definition sat_add1 :: "u32 \<Rightarrow> u32" where
  "sat_add1 w = (if w = - 1 then - 1 else w + 1)"

definition summary_default :: finding_summary where
  "summary_default = \<lparr>fs_warning_count = 0, fs_advisory_count = 0,
     fs_declared_dependency_count = 0, fs_docker_daemon_authority_count = 0,
     fs_host_port_publication_count = 0, fs_evidence_integrity_count = 0\<rparr>"

definition summary_step :: "finding_summary \<Rightarrow> finding \<Rightarrow> finding_summary" where
  "summary_step summary f =
     (let s1 = (case fi_severity f of
                  FS_Warning \<Rightarrow> summary\<lparr>fs_warning_count := sat_add1 (fs_warning_count summary)\<rparr>
                | FS_Advisory \<Rightarrow> summary\<lparr>fs_advisory_count := sat_add1 (fs_advisory_count summary)\<rparr>)
      in case category (fi_rule_id f) of
           FC_DeclaredDependency \<Rightarrow>
             s1\<lparr>fs_declared_dependency_count := sat_add1 (fs_declared_dependency_count s1)\<rparr>
         | FC_DockerDaemonAuthority \<Rightarrow>
             s1\<lparr>fs_docker_daemon_authority_count := sat_add1 (fs_docker_daemon_authority_count s1)\<rparr>
         | FC_HostPortPublication \<Rightarrow>
             s1\<lparr>fs_host_port_publication_count := sat_add1 (fs_host_port_publication_count s1)\<rparr>
         | FC_EvidenceIntegrity \<Rightarrow>
             s1\<lparr>fs_evidence_integrity_count := sat_add1 (fs_evidence_integrity_count s1)\<rparr>)"

definition from_findings :: "finding list \<Rightarrow> finding_summary" where
  "from_findings findings = foldl summary_step summary_default findings"

record findings_response =
  fr_findings :: "finding list"
  fr_summary :: finding_summary
  fr_model_revision :: string
  fr_source :: "runtime_mode option"

record runtime_map =
  rm_nodes :: "runtime_map_node list"
  rm_edges :: "runtime_map_edge list"
  rm_diagnostics :: "runtime_map_diagnostic list"
  rm_last_updated :: u64
  rm_model_revision :: string
  rm_provider_states :: "provider_state list"
  rm_source :: "runtime_mode option"

section \<open>Properties of evidence\<close>

lemmas ev_is_simps [evidence_simps] = ev_is_def

text \<open>The relationship an evidence kind can attest.\<close>

primrec attested_relationship :: "runtime_evidence_kind \<Rightarrow> runtime_relationship_kind" where
  "attested_relationship DockerNetworkMembership = RRK_ConnectedTo"
| "attested_relationship DockerVolumeMount = RRK_Mounts"
| "attested_relationship DockerPortPublication = RRK_Exposes"
| "attested_relationship DockerUnspecifiedAddressPortPublication = RRK_Exposes"
| "attested_relationship DockerComposeDependsOn = RRK_DependsOn"
| "attested_relationship DockerDaemonStateBindMount = RRK_ExposesDaemonState"
| "attested_relationship SystemdRequires = RRK_Requires"
| "attested_relationship SystemdWants = RRK_Wants"
| "attested_relationship SystemdPartOf = RRK_PartOf"
| "attested_relationship NpmPackageManifestDependency = RRK_DependsOn"
| "attested_relationship CronScheduleDeclaration = RRK_RunsOn"
| "attested_relationship TmuxSessionListing = RRK_RunsOn"
| "attested_relationship ComposeDeclaredMount = RRK_RunsOn"
| "attested_relationship DockerComposeRuntimeBinding = RRK_RunsOn"
| "attested_relationship RuntimeIdentityCollision = RRK_RelatedTo"

lemma matches_edge_shape: "evidence_ref_matches_edge edge e \<Longrightarrow> has_valid_versioned_shape e"
  by (simp add: evidence_ref_matches_edge_def split: if_splits)

lemma matches_edge_subject: "evidence_ref_matches_edge edge e \<Longrightarrow> ev_subject_ref e = re_source edge"
  by (simp add: evidence_ref_matches_edge_def split: if_splits)

lemma matches_edge_bounds:
  "evidence_ref_matches_edge edge e \<Longrightarrow>
     ev_id e \<noteq> [] \<and> ev_summary e \<noteq> [] \<and> ev_provider_revision e \<noteq> []
     \<and> char_count (ev_id e) \<le> MAX_EVIDENCE_TEXT_CHARS
     \<and> char_count (ev_summary e) \<le> MAX_EVIDENCE_TEXT_CHARS
     \<and> char_count (ev_provider_revision e) \<le> MAX_EVIDENCE_TEXT_CHARS"
  by (simp add: evidence_ref_matches_edge_def not_less split: if_splits)

lemma matches_edge_relationship:
  "evidence_ref_matches_edge edge e \<Longrightarrow> re_relationship edge = attested_relationship (ev_kind e)"
  by (cases "ev_kind e") (simp_all add: evidence_ref_matches_edge_def ev_is_def split: if_splits)

lemma evidence_refs_deserialize_eq:
  "evidence_refs_deserialize ws =
     (if list_all has_valid_versioned_shape ws then Inr ws else Inl InvalidEvidenceShape)"
  by (induction ws) (simp_all add: evidence_ref_deserialize_def)

lemma valid_refs_shapes: "has_valid_evidence_refs edge \<Longrightarrow>
    list_all has_valid_versioned_shape (re_evidence_refs edge)"
  by (auto simp: has_valid_evidence_refs_def list_all_iff intro: matches_edge_shape)

lemma unat_sat_add1: "unat (sat_add1 w) = min (Suc (unat w)) (2 ^ 32 - 1)"
proof -
  have top: "unat (- 1 :: u32) = 2 ^ 32 - 1" by (simp add: unsigned_minus_1_eq_mask mask_eq_exp_minus_1)
  show ?thesis
  proof (cases "w = - 1")
    case True
    then show ?thesis by (simp add: sat_add1_def top)
  next
    case False
    then have "unat w \<noteq> 2 ^ 32 - 1" using top by (metis word_unat_eq_iff)
    then have "Suc (unat w) < 2 ^ 32" using unsigned_less [of w, where ?'a = nat] by simp
    then show ?thesis using False by (simp add: sat_add1_def unat_word_ariths)
  qed
qed

subsection \<open>Summary counters\<close>

text \<open>A saturating counter that has counted \<open>n\<close> findings shows \<open>min n (2\<^sup>32 - 1)\<close>.\<close>

definition shows_count :: "u32 \<Rightarrow> nat \<Rightarrow> bool" where
  "shows_count w n \<longleftrightarrow> unat w = min n (2 ^ 32 - 1)"

lemma shows_count_0: "shows_count 0 0"
  by (simp add: shows_count_def)

lemma shows_count_sat_add1: "shows_count w n \<Longrightarrow> shows_count (sat_add1 w) (Suc n)"
  by (simp add: shows_count_def unat_sat_add1)

definition n_severity :: "finding_severity \<Rightarrow> finding list \<Rightarrow> nat" where
  "n_severity sev fs = length (filter (\<lambda>f. fi_severity f = sev) fs)"

definition n_category :: "finding_category \<Rightarrow> finding list \<Rightarrow> nat" where
  "n_category cat fs = length (filter (\<lambda>f. category (fi_rule_id f) = cat) fs)"

definition summary_counts :: "finding_summary \<Rightarrow> finding list \<Rightarrow> bool" where
  "summary_counts s fs \<longleftrightarrow>
     shows_count (fs_warning_count s) (n_severity FS_Warning fs)
     \<and> shows_count (fs_advisory_count s) (n_severity FS_Advisory fs)
     \<and> shows_count (fs_declared_dependency_count s) (n_category FC_DeclaredDependency fs)
     \<and> shows_count (fs_docker_daemon_authority_count s) (n_category FC_DockerDaemonAuthority fs)
     \<and> shows_count (fs_host_port_publication_count s) (n_category FC_HostPortPublication fs)
     \<and> shows_count (fs_evidence_integrity_count s) (n_category FC_EvidenceIntegrity fs)"

lemma n_severity_snoc: "n_severity sev (fs @ [f]) = n_severity sev fs + (if fi_severity f = sev then 1 else 0)"
  by (simp add: n_severity_def)

lemma n_category_snoc:
  "n_category cat (fs @ [f]) = n_category cat fs + (if category (fi_rule_id f) = cat then 1 else 0)"
  by (simp add: n_category_def)

lemma summary_step_counts: "summary_counts s fs \<Longrightarrow> summary_counts (summary_step s f) (fs @ [f])"
  unfolding summary_counts_def summary_step_def Let_def n_severity_snoc n_category_snoc
  by (cases "fi_severity f"; cases "category (fi_rule_id f)") (simp_all add: shows_count_sat_add1)

lemma summary_default_counts: "summary_counts summary_default []"
  by (simp add: summary_counts_def summary_default_def n_severity_def n_category_def shows_count_0)

lemma from_findings_snoc: "from_findings (fs @ [f]) = summary_step (from_findings fs) f"
  by (simp add: from_findings_def)

lemma n_severity_total: "n_severity FS_Warning fs + n_severity FS_Advisory fs = length fs"
proof (induction fs rule: rev_induct)
  case (snoc f fs)
  then show ?case by (cases "fi_severity f") (simp_all add: n_severity_snoc)
qed (simp add: n_severity_def)

lemma n_category_total:
  "n_category FC_DeclaredDependency fs + n_category FC_DockerDaemonAuthority fs
   + n_category FC_HostPortPublication fs + n_category FC_EvidenceIntegrity fs = length fs"
proof (induction fs rule: rev_induct)
  case (snoc f fs)
  then show ?case by (cases "category (fi_rule_id f)") (simp_all add: n_category_snoc)
qed (simp add: n_category_def)

text \<open>
  The response summary counts every finding once by severity and once by category, and
  a counter that would pass the 32-bit maximum stays there instead of wrapping around.
\<close>

lemma from_findings_counts: "summary_counts (from_findings fs) fs"
proof (induction fs rule: rev_induct)
  case Nil
  show ?case by (simp add: from_findings_def summary_default_counts)
next
  case (snoc f fs)
  then show ?case by (simp add: from_findings_snoc summary_step_counts)
qed

subsection \<open>What an accepted edge promises\<close>

text \<open>
  Deserialising a runtime edge succeeds exactly when every attached evidence reference
  attests this very edge, and then returns the edge unchanged.
\<close>

lemma edge_deserialize_iff:
  "runtime_map_edge_deserialize w = Inr e \<longleftrightarrow> has_valid_evidence_refs w \<and> e = w"
  using valid_refs_shapes [of w]
  by (auto simp: runtime_map_edge_deserialize_def evidence_refs_deserialize_eq Let_def split: if_splits)

text \<open>
  One evidence reference can never attest two different relationships: two edges that
  both accept it start at the same node and have the same relationship.
\<close>

lemma evidence_single_relationship:
  assumes "evidence_ref_matches_edge a e" and "evidence_ref_matches_edge b e"
  shows "re_source a = re_source b \<and> re_relationship a = re_relationship b"
  using assms by (metis matches_edge_relationship matches_edge_subject)

definition example_tmux_evidence :: runtime_evidence_ref where
  "example_tmux_evidence = \<lparr>ev_version = 5, ev_id = ''tmux_evidence'', ev_provider = REP_Tmux,
     ev_kind = TmuxSessionListing, ev_assertion_kind = Observed, ev_summary = ''tmux listed a session'',
     ev_subject_ref = ''tmux_session_a'', ev_collected_at = 7, ev_provider_revision = ''r1'',
     ev_provider_slot = Some Slot_Tmux, ev_freshness = EF_Stale\<rparr>"

definition example_tmux_edge :: "runtime_evidence_ref list \<Rightarrow> runtime_map_edge" where
  "example_tmux_edge refs = \<lparr>re_source = ''tmux_session_a'', re_target = ''host_local'',
     re_relationship = RRK_RunsOn, re_metadata = [], re_evidence_refs = refs\<rparr>"

definition example_compose_evidence :: runtime_evidence_ref where
  "example_compose_evidence = example_tmux_evidence\<lparr>ev_version := 6, ev_provider := REP_Compose,
     ev_kind := ComposeDeclaredMount, ev_assertion_kind := Declared, ev_provider_slot := None,
     ev_freshness := EF_Fresh\<rparr>"

text \<open>
  The edge check shares one arm between tmux session listings and the two version-6
  Compose binding kinds, so a Compose mount declaration is accepted as the attestation of
  a tmux session running on the host, although it says nothing about tmux.
\<close>

lemma compose_evidence_attests_tmux_edge:
  "ev_kind example_compose_evidence = ComposeDeclaredMount
   \<and> starts_with (re_source (example_tmux_edge [example_compose_evidence])) ''tmux_session_''
   \<and> runtime_map_edge_deserialize (example_tmux_edge [example_compose_evidence])
     = Inr (example_tmux_edge [example_compose_evidence])"
  by code_simp

end
