(* ===== verification/Identity.thy ===== *)
theory Identity
  imports Rust_Str
begin

text \<open>
  Stable topology identifiers (\<open>crates/dockermap-core/src/identity.rs\<close>).

  SHA-256 comes from the \<open>sha2\<close> crate, which is not part of the repository: it is the
  parameter \<open>sha256\<close> of every definition that hashes. The only fact about it that the
  theorems use is its documented output length of 32 bytes.
\<close>

type_synonym digest = "8 word list \<Rightarrow> 8 word list"

definition as_bytes :: "string \<Rightarrow> 8 word list" where
  "as_bytes s = map of_char s"

definition hex_digest :: "digest \<Rightarrow> string \<Rightarrow> string" where
  "hex_digest sha256 value = hex_string (sha256 (as_bytes value))"

definition digest_len_32 :: "digest \<Rightarrow> bool" where
  "digest_len_32 sha256 \<longleftrightarrow> (\<forall>bs. length (sha256 bs) = 32)"

text \<open>The scalars that a readable slug keeps.\<close>

definition slug_safe :: "nat \<Rightarrow> bool" where
  "slug_safe c \<longleftrightarrow> c < 128 \<and> (is_ascii_alphanumeric (char_of c) \<or> char_of c \<in> set ''-_.'')"

fun slug_loop :: "bool \<Rightarrow> nat list \<Rightarrow> string" where
  "slug_loop emitted_separator [] = []"
| "slug_loop emitted_separator (c # cs) =
     (if slug_safe c then char_of c # slug_loop False cs
      else if \<not> emitted_separator then CHR ''-'' # slug_loop True cs
      else slug_loop emitted_separator cs)"

definition trim_matches :: "char \<Rightarrow> string \<Rightarrow> string" where
  "trim_matches c s = rev (dropWhile (\<lambda>x. x = c) (rev (dropWhile (\<lambda>x. x = c) s)))"

definition readable_slug :: "string \<Rightarrow> string" where
  "readable_slug value =
     (let slug = trim_matches (CHR ''-'') (slug_loop False (chars value))
      in if slug = [] then ''identity'' else take 48 slug)"

definition collision_resistant_id_component :: "digest \<Rightarrow> string \<Rightarrow> string" where
  "collision_resistant_id_component sha256 value =
     readable_slug value @ ''--'' @ hex_digest sha256 value"

section \<open>Properties\<close>

definition id_char :: "char \<Rightarrow> bool" where
  "id_char c \<longleftrightarrow> is_ascii_alphanumeric c \<or> c \<in> set ''-_.''"

lemma id_char_ascii: "id_char c \<Longrightarrow> byte c < 128"
  by (auto simp: id_char_def is_ascii_alphanumeric_def is_ascii_alphabetic_def is_ascii_digit_def byte_def)

lemma slug_loop_id_chars: "\<forall>c \<in> set (slug_loop b cs). id_char c"
  by (induction b cs rule: slug_loop.induct) (auto simp: slug_safe_def id_char_def)

lemma set_trim_matches: "set (trim_matches c s) \<subseteq> set s"
  unfolding trim_matches_def by (auto dest!: set_dropWhileD)

lemma readable_slug_id_chars: "\<forall>c \<in> set (readable_slug v). id_char c"
proof -
  let ?slug = "trim_matches (CHR ''-'') (slug_loop False (chars v))"
  have "\<forall>c \<in> set (take 48 ?slug). id_char c"
    using set_take_subset [of 48 ?slug] set_trim_matches slug_loop_id_chars by blast
  moreover have "\<forall>c \<in> set ''identity''. id_char c"
    by (simp add: id_char_def is_ascii_alphanumeric_def is_ascii_alphabetic_def byte_def)
  ultimately show ?thesis by (simp add: readable_slug_def Let_def)
qed

lemma lower_hex_id_char: "is_lower_hex c \<Longrightarrow> id_char c"
  by (auto simp: id_char_def is_lower_hex_def is_ascii_alphanumeric_def is_ascii_alphabetic_def)

lemma component_id_chars: "\<forall>c \<in> set (collision_resistant_id_component sha256 v). id_char c"
  using readable_slug_id_chars [of v] hex_string_lower_hex [of "sha256 (as_bytes v)"]
  by (auto simp: collision_resistant_id_component_def hex_digest_def id_char_def [of "CHR ''-''"]
      intro: lower_hex_id_char)

lemma length_readable_slug: "length (readable_slug v) \<le> 48"
  by (simp add: readable_slug_def Let_def)

lemma length_hex_digest: "digest_len_32 sha256 \<Longrightarrow> length (hex_digest sha256 v) = 64"
  by (simp add: digest_len_32_def hex_digest_def)

lemma length_component:
  "digest_len_32 sha256 \<Longrightarrow> length (collision_resistant_id_component sha256 v) \<le> 114"
  using length_readable_slug [of v]
  by (simp add: collision_resistant_id_component_def length_hex_digest)

lemma hex_digest_inj: "hex_digest sha256 a = hex_digest sha256 b \<Longrightarrow>
    sha256 (as_bytes a) = sha256 (as_bytes b)"
  unfolding hex_digest_def by (rule hex_string_inj)

lemma component_eq_digest_eq:
  assumes "digest_len_32 sha256"
    and eq: "collision_resistant_id_component sha256 a = collision_resistant_id_component sha256 b"
  shows "hex_digest sha256 a = hex_digest sha256 b"
proof -
  have "length (hex_digest sha256 a) = length (hex_digest sha256 b)"
    using assms(1) by (simp add: length_hex_digest)
  then show ?thesis using eq by (simp add: collision_resistant_id_component_def)
qed

text \<open>
  Two provider values get the same topology identifier only if their SHA-256 digests are
  equal: the readable slug, which drops punctuation and non-ASCII text, never causes a
  collision. Identifiers are short and made of a fixed ASCII alphabet.
\<close>

lemma id_component_collision_resistant:
  assumes "digest_len_32 sha256"
  shows "(collision_resistant_id_component sha256 a = collision_resistant_id_component sha256 b
            \<longrightarrow> sha256 (as_bytes a) = sha256 (as_bytes b))
    \<and> length (collision_resistant_id_component sha256 a) \<le> 114
    \<and> (\<forall>c \<in> set (collision_resistant_id_component sha256 a). id_char c)"
  using assms component_eq_digest_eq hex_digest_inj length_component component_id_chars by blast

definition toy_digest :: digest where
  "toy_digest bs = take 32 (bs @ replicate 32 0)"

lemma toy_digest_len: "digest_len_32 toy_digest"
  by (simp add: digest_len_32_def toy_digest_def min_def)

end
