(* ===== verification/Snapshot.thy ===== *)
theory Snapshot
  imports Evidence Identity
begin

text \<open>
  Projections of a Docker snapshot (\<open>crates/dockermap-core/src/snapshot_runtime.rs\<close>): the image
  list, the inventory graph and the runtime map.

  References into \<open>snapshot.containers\<close> (compared by \<open>std::ptr::eq\<close> in the source) are indices
  into the list. \<open>serde_json::to_string\<close> supplies the sort keys and is the parameter
  \<open>json_*\<close>; SHA-256 is the parameter \<open>sha256\<close>.
\<close>

section \<open>Images\<close>

definition derive_images :: "docker_snapshot \<Rightarrow> image_record list" where
  "derive_images snapshot =
     (let grouped = foldl (\<lambda>m c. bt_insert (ct_image c)
              (bs_collect (ct_name c # (case bt_get m (ct_image c) of None \<Rightarrow> [] | Some s \<Rightarrow> s))) m)
            [] (sn_containers snapshot);
          status_by_image = foldl (\<lambda>m c. case bt_get m (ct_image c) of
              None \<Rightarrow> bt_insert (ct_image c) (ct_status c) m | Some _ \<Rightarrow> m)
            [] (sn_containers snapshot)
      in map (\<lambda>(image, containers). \<lparr>im_image = image, im_containers = containers,
            im_status = (case bt_get status_by_image image of None \<Rightarrow> ''unknown'' | Some s \<Rightarrow> s)\<rparr>)
           grouped)"

section \<open>Published ports\<close>

definition parse_port :: "string \<Rightarrow> bool" where
  "parse_port s \<longleftrightarrow> (case parse_uint 16 s of None \<Rightarrow> False | Some v \<Rightarrow> v > 0)"

definition is_host_published_docker_port :: "string \<Rightarrow> bool" where
  "is_host_published_docker_port port =
     (case split_once port (CHR '':'') of
        None \<Rightarrow> False
      | Some (host, private_and_protocol) \<Rightarrow>
          if host = [] \<or> \<not> list_all is_ascii_digit host \<or> \<not> parse_port host
             \<or> CHR '':'' \<in> set private_and_protocol
          then False
          else (case split_once private_and_protocol (CHR ''/'') of
            None \<Rightarrow> False
          | Some (private, protocol) \<Rightarrow>
              private \<noteq> [] \<and> list_all is_ascii_digit private \<and> parse_port private
              \<and> protocol \<in> {''tcp'', ''udp'', ''sctp''}))"

section \<open>Identity indices\<close>

record graph_identity_index =
  gi_node_ids :: "(string, nat) btree_map"
  gi_network_ids :: "(string, nat) btree_map"
  gi_container_ids :: "(string, nat) btree_map"

definition count_nonempty :: "string list \<Rightarrow> (string, nat) btree_map" where
  "count_nonempty ids = bt_count (filter (\<lambda>i. i \<noteq> []) ids)"

definition graph_index :: "docker_snapshot \<Rightarrow> graph_identity_index" where
  "graph_index snapshot =
     \<lparr>gi_node_ids = count_nonempty (map ct_id (sn_containers snapshot)
        @ map nw_id (sn_networks snapshot) @ map vl_id (sn_volumes snapshot)),
      gi_network_ids = count_nonempty (map nw_id (sn_networks snapshot)),
      gi_container_ids = count_nonempty (map ct_id (sn_containers snapshot))\<rparr>"

definition has_unique_node_id :: "graph_identity_index \<Rightarrow> string \<Rightarrow> bool" where
  "has_unique_node_id ix i \<longleftrightarrow> bt_get (gi_node_ids ix) i = Some 1"

definition has_unique_network_id :: "graph_identity_index \<Rightarrow> string \<Rightarrow> bool" where
  "has_unique_network_id ix i \<longleftrightarrow> bt_get (gi_network_ids ix) i = Some 1"

definition has_unique_container_id :: "graph_identity_index \<Rightarrow> container_record \<Rightarrow> bool" where
  "has_unique_container_id ix c \<longleftrightarrow>
     bt_get (gi_container_ids ix) (ct_id c) = Some 1 \<and> has_unique_node_id ix (ct_id c)"

type_synonym alias_map = "(string, nat option) btree_map"

record container_aliases =
  al_ids :: alias_map
  al_names :: alias_map
  al_roles :: alias_map

definition alias_insert :: "alias_map \<Rightarrow> string \<Rightarrow> nat \<Rightarrow> alias_map" where
  "alias_insert aliases alias i =
     (if alias = [] then aliases
      else case bt_get aliases alias of
        None \<Rightarrow> bt_insert alias (Some i) aliases
      | Some _ \<Rightarrow> bt_insert alias None aliases)"

definition alias_map_of :: "(container_record \<Rightarrow> string) \<Rightarrow> container_record list \<Rightarrow> alias_map" where
  "alias_map_of key cs = foldl (\<lambda>m (i, c). alias_insert m (key c) i) [] (enumerate 0 cs)"

definition aliases_from_containers :: "container_record list \<Rightarrow> container_aliases" where
  "aliases_from_containers cs =
     \<lparr>al_ids = alias_map_of ct_id cs, al_names = alias_map_of ct_name cs,
      al_roles = alias_map_of ct_role cs\<rparr>"

definition has_unique_name :: "container_aliases \<Rightarrow> nat \<Rightarrow> container_record \<Rightarrow> bool" where
  "has_unique_name al i c \<longleftrightarrow> ct_name c \<noteq> [] \<and> bt_get (al_names al) (ct_name c) = Some (Some i)"

text \<open>The loop over the flattened lookups: an ambiguous alias or two different containers
  end it without a result.\<close>

fun resolve_lookups :: "nat option \<Rightarrow> nat option list \<Rightarrow> nat option" where
  "resolve_lookups candidate [] = candidate"
| "resolve_lookups candidate (None # ls) = None"
| "resolve_lookups candidate (Some r # ls) =
     (case candidate of
        None \<Rightarrow> resolve_lookups (Some r) ls
      | Some existing \<Rightarrow> if existing \<noteq> r then None else resolve_lookups candidate ls)"

definition resolve_dependency :: "container_aliases \<Rightarrow> string \<Rightarrow> nat option" where
  "resolve_dependency al dependency =
     (if dependency = [] then None
      else
        (let name = (case strip_prefix dependency ''container_'' of None \<Rightarrow> dependency | Some r \<Rightarrow> r)
         in if name = [] then None
            else resolve_lookups None (map the (filter (\<lambda>l. l \<noteq> None)
              [bt_get (al_roles al) name, bt_get (al_names al) name, bt_get (al_ids al) dependency]))))"

section \<open>Inventory graph\<close>

definition graph_nodes_of :: "docker_snapshot \<Rightarrow> graph_node list" where
  "graph_nodes_of snapshot =
     map (\<lambda>c. \<lparr>gn_id = ct_id c, gn_kind = NK_Container, gn_label = ct_name c\<rparr>) (sn_containers snapshot)
     @ map (\<lambda>n. \<lparr>gn_id = nw_id n, gn_kind = NK_Network, gn_label = nw_name n\<rparr>) (sn_networks snapshot)
     @ map (\<lambda>v. \<lparr>gn_id = vl_id v, gn_kind = NK_Volume, gn_label = vl_name v\<rparr>) (sn_volumes snapshot)"

definition volumes_attached :: "docker_snapshot \<Rightarrow> string \<Rightarrow> volume_record list" where
  "volumes_attached snapshot name =
     concat (map (\<lambda>v. map (\<lambda>_. v) (filter (\<lambda>a. a = name) (vl_attached_to v))) (sn_volumes snapshot))"

definition container_graph_edges ::
  "docker_snapshot \<Rightarrow> container_aliases \<Rightarrow> graph_identity_index \<Rightarrow> nat \<times> container_record \<Rightarrow> graph_edge list"
where
  "container_graph_edges snapshot al ix ic =
     (let i = fst ic; c = snd ic in
      map (\<lambda>n. \<lparr>ge_source = ct_id c, ge_target = n, ge_relationship = RK_ConnectedTo\<rparr>)
        (filter (\<lambda>n. has_unique_container_id ix c \<and> has_unique_network_id ix n \<and> has_unique_node_id ix n)
          (ct_networks c))
      @ (if has_unique_name al i c then
           map (\<lambda>v. \<lparr>ge_source = ct_id c, ge_target = vl_id v, ge_relationship = RK_Mounts\<rparr>)
             (filter (\<lambda>v. has_unique_container_id ix c \<and> has_unique_node_id ix (vl_id v))
               (volumes_attached snapshot (ct_name c)))
         else [])
      @ concat (map (\<lambda>dependency.
           (case resolve_dependency al dependency of
              None \<Rightarrow> []
            | Some t \<Rightarrow>
                if \<not> has_unique_container_id ix c
                   \<or> \<not> has_unique_container_id ix (sn_containers snapshot ! t) \<or> i = t
                then []
                else [\<lparr>ge_source = ct_id c, ge_target = ct_id (sn_containers snapshot ! t),
                       ge_relationship = RK_ConnectedTo\<rparr>])) (ct_depends_on c)))"

definition graph_edges_of :: "docker_snapshot \<Rightarrow> graph_edge list" where
  "graph_edges_of snapshot =
     (let al = aliases_from_containers (sn_containers snapshot); ix = graph_index snapshot
      in concat (map (container_graph_edges snapshot al ix) (enumerate 0 (sn_containers snapshot))))"

definition derive_graph ::
  "(graph_node \<Rightarrow> string) \<Rightarrow> (graph_edge \<Rightarrow> string) \<Rightarrow> docker_snapshot \<Rightarrow> graph_response"
where
  "derive_graph json_node json_edge snapshot =
     \<lparr>gr_nodes = remdups_adj (sort_key json_node (graph_nodes_of snapshot)),
      gr_edges = remdups_adj (sort_key json_edge (graph_edges_of snapshot))\<rparr>"

section \<open>Runtime identities and evidence\<close>

definition duplicate_runtime_node_ids :: "runtime_map_node list \<Rightarrow> string list" where
  "duplicate_runtime_node_ids nodes =
     map fst (filter (\<lambda>(_, n). n > 1) (bt_count (map rn_id nodes)))"

definition runtime_container_id :: "digest \<Rightarrow> container_record \<Rightarrow> string" where
  "runtime_container_id sha256 c =
     ''docker_container_'' @ collision_resistant_id_component sha256 (ct_id c)"

definition runtime_identity_index :: "digest \<Rightarrow> container_record list \<Rightarrow> (string, nat) btree_map" where
  "runtime_identity_index sha256 cs =
     bt_count (map (runtime_container_id sha256) (filter (\<lambda>c. ct_id c \<noteq> []) cs))"

definition has_unique_id :: "digest \<Rightarrow> (string, nat) btree_map \<Rightarrow> container_record \<Rightarrow> bool" where
  "has_unique_id sha256 counts c \<longleftrightarrow>
     ct_id c \<noteq> [] \<and> bt_get counts (runtime_container_id sha256 c) = Some 1"

text \<open>The texts of the six Docker evidence kinds. The source panics (\<open>unreachable!\<close>) on the
  other kinds, which have no text here; \<open>derive_runtime_map\<close> passes only these six.\<close>

fun docker_kind_text :: "runtime_evidence_kind \<Rightarrow> (string \<times> string) option" where
  "docker_kind_text DockerNetworkMembership =
     Some (''network-membership'', ''Docker reported container network membership'')"
| "docker_kind_text DockerVolumeMount = Some (''volume-mount'', ''Docker reported volume attachment'')"
| "docker_kind_text DockerPortPublication =
     Some (''port-publication'', ''Docker reported container port publication'')"
| "docker_kind_text DockerUnspecifiedAddressPortPublication =
     Some (''unspecified-address-port-publication'',
       ''Docker reported a container port published on an unspecified host address'')"
| "docker_kind_text DockerComposeDependsOn =
     Some (''compose-depends-on'', ''Docker recorded Compose dependency declaration'')"
| "docker_kind_text DockerDaemonStateBindMount =
     Some (''daemon-state-bind-mount'', ''Docker reported a bind mount exposing Docker daemon state'')"
| "docker_kind_text _ = None"

definition unit_separator :: string where
  "unit_separator = [CHR 0x1F]"

definition docker_runtime_evidence ::
  "digest \<Rightarrow> docker_snapshot \<Rightarrow> string \<Rightarrow> string \<Rightarrow> runtime_evidence_kind \<Rightarrow> string \<Rightarrow> runtime_evidence_ref"
where
  "docker_runtime_evidence sha256 snapshot source target kind provider_revision =
     (let (kind_id, summary) = the (docker_kind_text kind)
      in \<lparr>ev_version = 1,
          ev_id = ''docker_evidence_'' @ kind_id @ ''_''
            @ collision_resistant_id_component sha256 (source @ unit_separator @ target),
          ev_provider = REP_Docker, ev_kind = kind, ev_assertion_kind = Observed,
          ev_summary = summary, ev_subject_ref = source,
          ev_collected_at = sn_last_updated snapshot, ev_provider_revision = provider_revision,
          ev_provider_slot = None, ev_freshness = EF_Fresh\<rparr>)"

definition is_docker_daemon_state_bind_source :: "string \<Rightarrow> bool" where
  "is_docker_daemon_state_bind_source resolved \<longleftrightarrow>
     resolved \<in> {''/var/run/docker.sock'', ''/run/docker.sock'', ''/var/lib/docker''}
     \<or> starts_with resolved ''/var/lib/docker/''"

section \<open>Runtime map\<close>

definition DOCKER_UNSPECIFIED_ADDRESS_PORT_RISK_ID :: string where
  "DOCKER_UNSPECIFIED_ADDRESS_PORT_RISK_ID = ''host_risk_docker_unspecified_address_port''"

definition DOCKER_DAEMON_STATE_RISK_ID :: string where
  "DOCKER_DAEMON_STATE_RISK_ID = ''host_risk_docker_daemon_state''"

fun join :: "string \<Rightarrow> string list \<Rightarrow> string" where
  "join sep [] = []"
| "join sep [x] = x"
| "join sep (x # y # xs) = x @ sep @ join sep (y # xs)"

definition container_runtime_node :: "digest \<Rightarrow> container_record \<Rightarrow> runtime_map_node" where
  "container_runtime_node sha256 c =
     (let m0 = bt_insert ''serviceEntityKind'' (service_entity_kind_name SEK_Service)
            (bt_insert ''role'' (ct_role c) (bt_insert ''image'' (ct_image c) []));
          m1 = (if ct_ports c \<noteq> [] then bt_insert ''ports'' (join '','' (ct_ports c)) m0 else m0)
      in \<lparr>rn_id = runtime_container_id sha256 c, rn_provider = RPK_Docker, rn_kind = RNK_Container,
          rn_label = ct_name c, rn_status = Some (ct_status c), rn_layer = Some RNL_Container,
          rn_metadata = m1,
          rn_service = Some (service_entity_minimal (ct_name c) (from_status_text (ct_status c))),
          rn_package = None\<rparr>)"

definition network_runtime_id :: "digest \<Rightarrow> string \<Rightarrow> string" where
  "network_runtime_id sha256 i = ''docker_network_'' @ collision_resistant_id_component sha256 i"

definition volume_runtime_id :: "digest \<Rightarrow> string \<Rightarrow> string" where
  "volume_runtime_id sha256 i = ''docker_volume_'' @ collision_resistant_id_component sha256 i"

definition listener_runtime_id :: "digest \<Rightarrow> container_record \<Rightarrow> string \<Rightarrow> string" where
  "listener_runtime_id sha256 c port =
     ''network_listener_'' @ collision_resistant_id_component sha256 (ct_id c) @ ''_''
     @ collision_resistant_id_component sha256 port"

definition listener_runtime_node :: "digest \<Rightarrow> container_record \<Rightarrow> string \<Rightarrow> runtime_map_node" where
  "listener_runtime_node sha256 c port =
     \<lparr>rn_id = listener_runtime_id sha256 c port, rn_provider = RPK_Network,
      rn_kind = RNK_NetworkListener, rn_label = port, rn_status = Some ''listening'',
      rn_layer = Some RNL_Host, rn_metadata = bt_insert ''port'' port [], rn_service = None,
      rn_package = None\<rparr>"

text \<open>An edge whose single evidence reference attests it.\<close>

definition attested_edge ::
  "digest \<Rightarrow> docker_snapshot \<Rightarrow> string \<Rightarrow> string \<Rightarrow> string \<Rightarrow> runtime_evidence_kind
     \<Rightarrow> runtime_relationship_kind \<Rightarrow> runtime_map_edge"
where
  "attested_edge sha256 snapshot revision source target kind relationship =
     \<lparr>re_source = source, re_target = target, re_relationship = relationship, re_metadata = [],
      re_evidence_refs = [docker_runtime_evidence sha256 snapshot source target kind revision]\<rparr>"

definition network_runtime_edges ::
  "digest \<Rightarrow> docker_snapshot \<Rightarrow> string \<Rightarrow> container_record \<Rightarrow> runtime_map_edge list"
where
  "network_runtime_edges sha256 snapshot revision c =
     map (\<lambda>n. attested_edge sha256 snapshot revision (runtime_container_id sha256 c)
        (network_runtime_id sha256 n) DockerNetworkMembership RRK_ConnectedTo) (ct_networks c)"

definition port_runtime_edge ::
  "digest \<Rightarrow> docker_snapshot \<Rightarrow> string \<Rightarrow> container_record \<Rightarrow> string \<Rightarrow> runtime_map_edge"
where
  "port_runtime_edge sha256 snapshot revision c port =
     (let source = runtime_container_id sha256 c; target = listener_runtime_id sha256 c port
      in \<lparr>re_source = source, re_target = target, re_relationship = RRK_Exposes, re_metadata = [],
          re_evidence_refs =
            (if is_host_published_docker_port port
             then [docker_runtime_evidence sha256 snapshot source target DockerPortPublication revision]
             else [])\<rparr>)"

definition dependency_runtime_edges ::
  "digest \<Rightarrow> docker_snapshot \<Rightarrow> string \<Rightarrow> container_aliases \<Rightarrow> (string, nat) btree_map
     \<Rightarrow> nat \<times> container_record \<Rightarrow> runtime_map_edge list"
where
  "dependency_runtime_edges sha256 snapshot revision al counts ic =
     (let i = fst ic; c = snd ic in
      concat (map (\<lambda>dependency.
        (case resolve_dependency al dependency of
           None \<Rightarrow> []
         | Some t \<Rightarrow>
             (let target = sn_containers snapshot ! t;
                  source_id = runtime_container_id sha256 c;
                  target_id = runtime_container_id sha256 target
              in if \<not> has_unique_id sha256 counts c \<or> \<not> has_unique_id sha256 counts target \<or> i = t
                 then []
                 else if source_id = target_id then []
                 else [attested_edge sha256 snapshot revision source_id target_id
                        DockerComposeDependsOn RRK_DependsOn]))) (ct_depends_on c)))"

definition container_runtime_nodes :: "digest \<Rightarrow> container_record \<Rightarrow> runtime_map_node list" where
  "container_runtime_nodes sha256 c =
     container_runtime_node sha256 c # map (listener_runtime_node sha256 c) (ct_ports c)"

definition container_runtime_edges ::
  "digest \<Rightarrow> docker_snapshot \<Rightarrow> string \<Rightarrow> container_aliases \<Rightarrow> (string, nat) btree_map
     \<Rightarrow> nat \<times> container_record \<Rightarrow> runtime_map_edge list"
where
  "container_runtime_edges sha256 snapshot revision al counts ic =
     network_runtime_edges sha256 snapshot revision (snd ic)
     @ map (port_runtime_edge sha256 snapshot revision (snd ic)) (ct_ports (snd ic))
     @ dependency_runtime_edges sha256 snapshot revision al counts ic"

definition network_runtime_node :: "digest \<Rightarrow> network_record \<Rightarrow> runtime_map_node" where
  "network_runtime_node sha256 n =
     \<lparr>rn_id = network_runtime_id sha256 (nw_id n), rn_provider = RPK_Docker,
      rn_kind = RNK_DockerNetwork, rn_label = nw_name n, rn_status = None,
      rn_layer = Some RNL_Network,
      rn_metadata = bt_insert ''internal'' (if nw_internal n then ''true'' else ''false'')
        (bt_insert ''driver'' (nw_driver n) []),
      rn_service = None, rn_package = None\<rparr>"

definition volume_runtime_node :: "digest \<Rightarrow> volume_record \<Rightarrow> runtime_map_node" where
  "volume_runtime_node sha256 v =
     \<lparr>rn_id = volume_runtime_id sha256 (vl_id v), rn_provider = RPK_Docker,
      rn_kind = RNK_DockerVolume, rn_label = vl_name v, rn_status = None,
      rn_layer = Some RNL_Storage,
      rn_metadata = bt_insert ''serviceEntityKind'' (service_entity_kind_name SEK_Storage) [],
      rn_service = None, rn_package = None\<rparr>"

definition volume_runtime_edges ::
  "digest \<Rightarrow> docker_snapshot \<Rightarrow> string \<Rightarrow> volume_record \<Rightarrow> runtime_map_edge list"
where
  "volume_runtime_edges sha256 snapshot revision v =
     concat (map (\<lambda>attached.
       (case find (\<lambda>c. ct_name c = attached) (sn_containers snapshot) of
          None \<Rightarrow> []
        | Some c \<Rightarrow> [attested_edge sha256 snapshot revision (runtime_container_id sha256 c)
            (volume_runtime_id sha256 (vl_id v)) DockerVolumeMount RRK_Mounts])) (vl_attached_to v))"

definition host_risk_node :: "string \<Rightarrow> string \<Rightarrow> runtime_map_node" where
  "host_risk_node i label =
     \<lparr>rn_id = i, rn_provider = RPK_Docker, rn_kind = RNK_HostRisk, rn_label = label,
      rn_status = None, rn_layer = Some RNL_Host, rn_metadata = [], rn_service = None,
      rn_package = None\<rparr>"

text \<open>The shared shape of the two risk sections: add the risk node and one attested edge per
  unambiguous source, unless the reserved identifier is already taken.\<close>

definition add_host_risk ::
  "digest \<Rightarrow> docker_snapshot \<Rightarrow> string \<Rightarrow> string \<Rightarrow> string \<Rightarrow> runtime_evidence_kind
     \<Rightarrow> runtime_relationship_kind \<Rightarrow> string list
     \<Rightarrow> runtime_map_node list \<times> runtime_map_edge list \<Rightarrow> runtime_map_node list \<times> runtime_map_edge list"
where
  "add_host_risk sha256 snapshot revision risk_id label kind relationship sources ne =
     (let (nodes, edges) = ne in
      if sources \<noteq> [] \<and> \<not> list_ex (\<lambda>n. rn_id n = risk_id) nodes then
        (let nodes' = nodes @ [host_risk_node risk_id label]
         in (nodes', edges @ map (\<lambda>s. attested_edge sha256 snapshot revision s risk_id kind relationship)
              (filter (\<lambda>s. length (filter (\<lambda>n. rn_id n = s) nodes') = 1) sources)))
      else ne)"

definition unspecified_address_sources :: "digest \<Rightarrow> docker_snapshot \<Rightarrow> (string, nat) btree_map \<Rightarrow> string list" where
  "unspecified_address_sources sha256 snapshot counts =
     bs_collect (map (runtime_container_id sha256)
       (filter (\<lambda>c. has_unique_id sha256 counts c \<and> ct_publishes_on_unspecified_address c
          \<and> list_ex is_host_published_docker_port (ct_ports c)) (sn_containers snapshot)))"

definition daemon_state_sources :: "digest \<Rightarrow> docker_snapshot \<Rightarrow> (string, nat) btree_map \<Rightarrow> string list" where
  "daemon_state_sources sha256 snapshot counts =
     bs_collect (map (runtime_container_id sha256)
       (filter (\<lambda>c. has_unique_id sha256 counts c
          \<and> list_ex (\<lambda>m. cm_kind m = CMK_Bind
               \<and> (case cm_source m of None \<Rightarrow> False | Some s \<Rightarrow> is_docker_daemon_state_bind_source s))
             (ct_mounts c)) (sn_containers snapshot)))"

definition duplicate_id_diagnostic :: runtime_map_diagnostic where
  "duplicate_id_diagnostic = \<lparr>rd_provider = RPK_Other, rd_severity = DS_Warning,
     rd_message = ''Duplicate generated runtime topology ID; records remain visible and non-routable''\<rparr>"

text \<open>The nodes and edges before sorting; \<open>nodes\<close> and \<open>edges\<close> come from the providers.\<close>

definition runtime_map_parts ::
  "digest \<Rightarrow> docker_snapshot \<Rightarrow> runtime_map_node list \<Rightarrow> runtime_map_edge list \<Rightarrow> string
     \<Rightarrow> runtime_map_node list \<times> runtime_map_edge list"
where
  "runtime_map_parts sha256 snapshot nodes edges revision =
     (let cs = sn_containers snapshot;
          al = aliases_from_containers cs;
          counts = runtime_identity_index sha256 cs;
          nodes1 = nodes @ concat (map (container_runtime_nodes sha256) cs)
            @ map (network_runtime_node sha256) (sn_networks snapshot)
            @ map (volume_runtime_node sha256) (sn_volumes snapshot);
          edges1 = edges
            @ concat (map (container_runtime_edges sha256 snapshot revision al counts) (enumerate 0 cs))
            @ concat (map (volume_runtime_edges sha256 snapshot revision) (sn_volumes snapshot));
          step1 = add_host_risk sha256 snapshot revision DOCKER_UNSPECIFIED_ADDRESS_PORT_RISK_ID
            ''Unspecified-address Docker port publication'' DockerUnspecifiedAddressPortPublication
            RRK_Exposes (unspecified_address_sources sha256 snapshot counts) (nodes1, edges1)
      in add_host_risk sha256 snapshot revision DOCKER_DAEMON_STATE_RISK_ID
           ''Docker daemon state exposure'' DockerDaemonStateBindMount RRK_ExposesDaemonState
           (daemon_state_sources sha256 snapshot counts) step1)"

text \<open>\<open>None\<close> is the failed assertion on an empty observation token.\<close>

definition derive_runtime_map ::
  "digest \<Rightarrow> (runtime_map_node \<Rightarrow> string) \<Rightarrow> (runtime_map_edge \<Rightarrow> string) \<Rightarrow> docker_snapshot
     \<Rightarrow> runtime_map_node list \<Rightarrow> runtime_map_edge list \<Rightarrow> runtime_map_diagnostic list \<Rightarrow> string
     \<Rightarrow> runtime_map option"
where
  "derive_runtime_map sha256 json_node json_edge snapshot nodes edges diagnostics revision =
     (if revision = [] then None
      else
        (let (nodes', edges') = runtime_map_parts sha256 snapshot nodes edges revision
         in Some \<lparr>rm_nodes = sort_key json_node nodes',
              rm_edges = remdups_adj (sort_key json_edge edges'),
              rm_diagnostics = diagnostics
                @ map (\<lambda>_. duplicate_id_diagnostic) (duplicate_runtime_node_ids nodes'),
              rm_last_updated = sn_last_updated snapshot, rm_model_revision = [],
              rm_provider_states = [], rm_source = None\<rparr>))"

section \<open>Name resolution\<close>

lemma alias_map_of_snoc:
  "alias_map_of key (cs @ [c]) = alias_insert (alias_map_of key cs) (key c) (length cs)"
  by (simp add: alias_map_of_def enumerate_append_eq)

lemma alias_insert_wf: "bt_wf m \<Longrightarrow> bt_wf (alias_insert m a i)"
  by (auto simp: alias_insert_def bt_wf_insert split: option.splits)

lemma alias_map_of_wf: "bt_wf (alias_map_of key cs)"
proof (induction cs rule: rev_induct)
  case Nil
  show ?case by (simp add: alias_map_of_def bt_wf_def)
next
  case (snoc c cs)
  then show ?case by (simp add: alias_map_of_snoc alias_insert_wf)
qed

lemma alias_map_get:
  "(bt_get (alias_map_of key cs) a = None \<longleftrightarrow> a = [] \<or> (\<forall>j < length cs. key (cs ! j) \<noteq> a))
   \<and> (bt_get (alias_map_of key cs) a = Some (Some i) \<longleftrightarrow>
        a \<noteq> [] \<and> i < length cs \<and> key (cs ! i) = a \<and> (\<forall>j < length cs. key (cs ! j) = a \<longrightarrow> j = i))"
proof (induction cs arbitrary: i rule: rev_induct)
  case Nil
  show ?case by (simp add: alias_map_of_def bt_get_def)
next
  case (snoc c cs)
  note wf = alias_map_of_wf [of key cs]
  show ?case
  proof (cases "a = []")
    case True
    then show ?thesis using snoc.IH [of i] wf
      by (auto simp: alias_map_of_snoc alias_insert_def bt_get_insert split: option.splits)
  next
    case a: False
    show ?thesis
    proof (cases "key c = a")
      case False
      then have "bt_get (alias_map_of key (cs @ [c])) a = bt_get (alias_map_of key cs) a"
        using wf by (auto simp: alias_map_of_snoc alias_insert_def bt_get_insert split: option.splits)
      then show ?thesis using snoc.IH [of i] False by (auto simp: nth_append less_Suc_eq)
    next
      case True
      show ?thesis
      proof (cases "bt_get (alias_map_of key cs) a")
        case None
        then have "bt_get (alias_map_of key (cs @ [c])) a = Some (Some (length cs))"
          using wf True a by (simp add: alias_map_of_snoc alias_insert_def bt_get_insert)
        then show ?thesis using snoc.IH [of i] None True a by (auto simp: nth_append less_Suc_eq)
      next
        case (Some r)
        then have "bt_get (alias_map_of key (cs @ [c])) a = Some None"
          using wf True a by (simp add: alias_map_of_snoc alias_insert_def bt_get_insert)
        moreover obtain j where "j < length cs" "key (cs ! j) = a"
          using snoc.IH Some a by fastforce
        ultimately show ?thesis using True a by (auto simp: nth_append less_Suc_eq)
      qed
    qed
  qed
qed

lemmas alias_map_get_None = alias_map_get [THEN conjunct1]
lemmas alias_map_get_Some = alias_map_get [THEN conjunct2]

lemma alias_map_only:
  "a \<noteq> [] \<Longrightarrow> (bt_get (alias_map_of key cs) a = None \<or> bt_get (alias_map_of key cs) a = Some (Some t))
     \<longleftrightarrow> (\<forall>j < length cs. key (cs ! j) = a \<longrightarrow> j = t)"
  unfolding alias_map_get_None alias_map_get_Some by blast

lemma alias_map_present:
  "a \<noteq> [] \<Longrightarrow> bt_get (alias_map_of key cs) a \<noteq> None \<longleftrightarrow> (\<exists>j < length cs. key (cs ! j) = a)"
  unfolding alias_map_get_None by blast

lemma resolve_lookups_iff:
  "resolve_lookups candidate ls = Some t \<longleftrightarrow>
     (\<forall>l \<in> set ls. l = Some t) \<and> (candidate = Some t \<or> candidate = None \<and> ls \<noteq> [])"
  by (induction candidate ls rule: resolve_lookups.induct) (auto split: option.splits)

text \<open>A container answers to a reference by its role, its name or its raw identifier.\<close>

definition dependency_name :: "string \<Rightarrow> string" where
  "dependency_name d = (case strip_prefix d ''container_'' of None \<Rightarrow> d | Some r \<Rightarrow> r)"

definition answers_to :: "string \<Rightarrow> container_record \<Rightarrow> bool" where
  "answers_to d c \<longleftrightarrow> ct_role c = dependency_name d \<or> ct_name c = dependency_name d \<or> ct_id c = d"

lemma resolve_dependency_iff:
  "resolve_dependency (aliases_from_containers cs) d = Some t \<longleftrightarrow>
     d \<noteq> [] \<and> dependency_name d \<noteq> [] \<and> t < length cs \<and> answers_to d (cs ! t)
     \<and> (\<forall>j < length cs. answers_to d (cs ! j) \<longrightarrow> j = t)"
proof (cases "d = [] \<or> dependency_name d = []")
  case True
  then show ?thesis by (auto simp: resolve_dependency_def dependency_name_def Let_def)
next
  case False
  let ?n = "dependency_name d"
  let ?L = "[bt_get (alias_map_of ct_role cs) ?n, bt_get (alias_map_of ct_name cs) ?n,
    bt_get (alias_map_of ct_id cs) d]"
  have "resolve_dependency (aliases_from_containers cs) d
      = resolve_lookups None (map the (filter (\<lambda>l. l \<noteq> None) ?L))"
    using False
    by (simp add: resolve_dependency_def aliases_from_containers_def dependency_name_def Let_def)
  then have "resolve_dependency (aliases_from_containers cs) d = Some t \<longleftrightarrow>
      (\<forall>l \<in> set ?L. l = None \<or> l = Some (Some t)) \<and> (\<exists>l \<in> set ?L. l \<noteq> None)"
    by (auto simp: resolve_lookups_iff filter_empty_conv)
  also have "\<dots> \<longleftrightarrow> t < length cs \<and> answers_to d (cs ! t)
     \<and> (\<forall>j < length cs. answers_to d (cs ! j) \<longrightarrow> j = t)"
    using False unfolding answers_to_def
    by (simp add: alias_map_only alias_map_present del: not_None_eq) blast
  finally show ?thesis using False by simp
qed

text \<open>
  A declared dependency is resolved exactly when precisely one container of the snapshot
  answers to it by role, name or identifier, and then to that container: an ambiguous,
  unknown or empty reference never selects one.
\<close>

lemma dependency_resolution_exact:
  "resolve_dependency (aliases_from_containers cs) d = Some t \<longleftrightarrow>
     d \<noteq> [] \<and> dependency_name d \<noteq> [] \<and> t < length cs \<and> answers_to d (cs ! t)
     \<and> (\<forall>j < length cs. answers_to d (cs ! j) \<longrightarrow> j = t)"
  by (rule resolve_dependency_iff)

section \<open>Graph edges\<close>

definition node_ids_of :: "docker_snapshot \<Rightarrow> string list" where
  "node_ids_of snapshot = map gn_id (graph_nodes_of snapshot)"

lemma node_ids_of_eq:
  "node_ids_of s = map ct_id (sn_containers s) @ map nw_id (sn_networks s) @ map vl_id (sn_volumes s)"
  by (simp add: node_ids_of_def graph_nodes_of_def)

lemma count_nonempty_one: "bt_get (count_nonempty ids) i = Some 1 \<longleftrightarrow> i \<noteq> [] \<and> count_list ids i = 1"
proof (cases "i = []")
  case True
  have "count_list (filter (\<lambda>i. i \<noteq> []) ids) i = 0" using True by (auto simp: count_list_0_iff)
  then show ?thesis using True by (simp add: count_nonempty_def bt_get_count_Suc0)
next
  case False
  then show ?thesis by (simp add: count_nonempty_def bt_get_count_Suc0 count_list_filter_nonempty)
qed

lemma has_unique_node_id_iff: "has_unique_node_id (graph_index s) i \<longleftrightarrow> i \<noteq> [] \<and> count_list (node_ids_of s) i = 1"
  by (simp only: has_unique_node_id_def graph_index_def node_ids_of_eq
      graph_identity_index.simps count_nonempty_one)

lemma has_unique_container_id_iff:
  "has_unique_container_id (graph_index s) c \<longleftrightarrow>
     ct_id c \<noteq> [] \<and> count_list (map ct_id (sn_containers s)) (ct_id c) = 1
     \<and> count_list (node_ids_of s) (ct_id c) = 1"
  unfolding has_unique_container_id_def has_unique_node_id_iff
  by (simp only: graph_index_def graph_identity_index.simps count_nonempty_one) blast

lemma unique_node:
  assumes "count_list (node_ids_of s) i = 1"
  shows "\<exists>!n. n \<in> set (graph_nodes_of s) \<and> gn_id n = i"
proof -
  have "i \<in> set (node_ids_of s)" using assms count_list_0_iff [of "node_ids_of s" i] by fastforce
  then obtain n where "n \<in> set (graph_nodes_of s)" "gn_id n = i" by (auto simp: node_ids_of_def)
  then show ?thesis
    using count_list_one_unique [OF assms [unfolded node_ids_of_def]] by blast
qed

definition graph_edge_ok :: "docker_snapshot \<Rightarrow> graph_edge \<Rightarrow> bool" where
  "graph_edge_ok s e \<longleftrightarrow>
     count_list (node_ids_of s) (ge_source e) = 1 \<and> count_list (node_ids_of s) (ge_target e) = 1
     \<and> ge_source e \<noteq> ge_target e"

lemma count_node_ids:
  "count_list (node_ids_of s) i = count_list (map ct_id (sn_containers s)) i
     + count_list (map nw_id (sn_networks s)) i + count_list (map vl_id (sn_volumes s)) i"
  by (simp add: node_ids_of_eq count_list_append)

lemma container_graph_edges_ok:
  assumes "i < length (sn_containers s)" and c: "c = sn_containers s ! i"
    and e: "e \<in> set (container_graph_edges s (aliases_from_containers (sn_containers s)) (graph_index s) (i, c))"
  shows "graph_edge_ok s e"
proof -
  let ?ix = "graph_index s" and ?al = "aliases_from_containers (sn_containers s)"
  have src: "has_unique_container_id ?ix c" and s_eq: "ge_source e = ct_id c"
    using e by (auto simp: container_graph_edges_def Let_def split: if_splits option.splits)
  note cu = src [unfolded has_unique_container_id_iff]
  consider (net) "has_unique_network_id ?ix (ge_target e)" "has_unique_node_id ?ix (ge_target e)"
    | (vol) v where "v \<in> set (sn_volumes s)" "ge_target e = vl_id v" "has_unique_node_id ?ix (vl_id v)"
    | (dep) t d where "Some t = resolve_dependency ?al d" "i \<noteq> t"
        "has_unique_container_id ?ix (sn_containers s ! t)" "ge_target e = ct_id (sn_containers s ! t)"
    using e by (auto simp: container_graph_edges_def volumes_attached_def Let_def
        split: if_splits option.splits)
  then show ?thesis
  proof cases
    case net
    have "count_list (map nw_id (sn_networks s)) (ge_target e) = 1"
      using net(1) by (simp only: has_unique_network_id_def graph_index_def
          graph_identity_index.simps count_nonempty_one)
    then show ?thesis using net(2) cu s_eq count_node_ids [of s "ge_target e"]
      by (auto simp: graph_edge_ok_def has_unique_node_id_iff)
  next
    case vol
    have "0 < count_list (map vl_id (sn_volumes s)) (ge_target e)"
      unfolding count_list_pos_iff using vol by auto
    then show ?thesis using vol(2,3) cu s_eq count_node_ids [of s "ge_target e"]
      by (auto simp: graph_edge_ok_def has_unique_node_id_iff)
  next
    case dep
    have t: "t < length (sn_containers s)" using dep(1) [symmetric] by (simp add: resolve_dependency_iff)
    have "ct_id c \<noteq> ct_id (sn_containers s ! t)"
      using count_list_one_index [of "map ct_id (sn_containers s)" "ct_id c" i t] cu assms(1) c t dep(2)
      by auto
    then show ?thesis using dep cu s_eq by (simp add: graph_edge_ok_def has_unique_container_id_iff)
  qed
qed

text \<open>
  C23. Every edge of the inventory graph connects two different nodes, and each of its two
  identifiers names exactly one node of the graph, whatever duplicate, empty or colliding
  identifiers Docker reported.
\<close>

theorem graph_edges_unambiguous:
  "\<forall>e \<in> set (gr_edges (derive_graph json_node json_edge s)).
     (\<exists>!n. n \<in> set (gr_nodes (derive_graph json_node json_edge s)) \<and> gn_id n = ge_source e)
     \<and> (\<exists>!n. n \<in> set (gr_nodes (derive_graph json_node json_edge s)) \<and> gn_id n = ge_target e)
     \<and> ge_source e \<noteq> ge_target e"
proof
  fix e
  assume "e \<in> set (gr_edges (derive_graph json_node json_edge s))"
  then have "e \<in> set (graph_edges_of s)" by (simp add: derive_graph_def)
  then obtain i where "i < length (sn_containers s)"
    "e \<in> set (container_graph_edges s (aliases_from_containers (sn_containers s)) (graph_index s)
       (i, sn_containers s ! i))"
    by (auto simp: graph_edges_of_def Let_def in_set_enumerate_eq)
  then have "graph_edge_ok s e" using container_graph_edges_ok by blast
  then show "(\<exists>!n. n \<in> set (gr_nodes (derive_graph json_node json_edge s)) \<and> gn_id n = ge_source e)
     \<and> (\<exists>!n. n \<in> set (gr_nodes (derive_graph json_node json_edge s)) \<and> gn_id n = ge_target e)
     \<and> ge_source e \<noteq> ge_target e"
    using unique_node by (simp add: graph_edge_ok_def derive_graph_def)
qed

definition example_container :: "string \<Rightarrow> string \<Rightarrow> string list \<Rightarrow> container_record" where
  "example_container i role deps = \<lparr>ct_id = i, ct_name = ''app-'' @ role, ct_image = ''img'',
     ct_status = ''Up 3 hours'', ct_role = role, ct_networks = [''net1''], ct_ports = [''8080:80/tcp''],
     ct_publishes_on_unspecified_address = True, ct_mounts = [], ct_depends_on = deps\<rparr>"

definition example_snapshot :: docker_snapshot where
  "example_snapshot = \<lparr>sn_containers = [example_container ''c1'' ''web'' [''container_db''],
       example_container ''c2'' ''db'' []],
     sn_images = [], sn_networks = [\<lparr>nw_id = ''net1'', nw_name = ''front'', nw_driver = ''bridge'',
       nw_internal = False, nw_members = []\<rparr>],
     sn_volumes = [], sn_last_updated = 5, sn_model_revision = [], sn_source = None\<rparr>"

theorem graph_edges_unambiguous_witness:
  "\<exists>!n. n \<in> set (gr_nodes (derive_graph gn_id ge_source example_snapshot)) \<and> gn_id n = ''c2''"
proof -
  let ?e = "\<lparr>ge_source = ''c1'', ge_target = ''c2'', ge_relationship = RK_ConnectedTo\<rparr>"
  have "?e \<in> set (gr_edges (derive_graph gn_id ge_source example_snapshot))" by code_simp
  from bspec [OF graph_edges_unambiguous this] show ?thesis by simp
qed

section \<open>Derived evidence is valid\<close>

lemma char_count_ascii: "\<forall>c \<in> set s. byte c < 128 \<Longrightarrow> char_count s = length s"
  by (simp add: char_count_def chars_ascii)

definition valid_revision :: "string \<Rightarrow> bool" where
  "valid_revision r \<longleftrightarrow> r \<noteq> [] \<and> char_count r \<le> MAX_EVIDENCE_TEXT_CHARS"

text \<open>The targets each Docker evidence kind may attest.\<close>

definition target_ok :: "runtime_evidence_kind \<Rightarrow> string \<Rightarrow> string \<Rightarrow> bool" where
  "target_ok kind source target \<longleftrightarrow>
     (case kind of
        DockerNetworkMembership \<Rightarrow> starts_with target ''docker_network_''
      | DockerVolumeMount \<Rightarrow> starts_with target ''docker_volume_''
      | DockerPortPublication \<Rightarrow> starts_with target ''network_listener_''
      | DockerUnspecifiedAddressPortPublication \<Rightarrow> target = DOCKER_UNSPECIFIED_ADDRESS_PORT_RISK_ID
      | DockerComposeDependsOn \<Rightarrow> starts_with target ''docker_container_'' \<and> source \<noteq> target
      | DockerDaemonStateBindMount \<Rightarrow> target = DOCKER_DAEMON_STATE_RISK_ID
      | _ \<Rightarrow> False)"

lemma docker_kind_text_facts:
  "docker_kind_text kind = Some (kind_id, summary) \<Longrightarrow>
     length kind_id \<le> 40 \<and> summary \<noteq> [] \<and> length summary \<le> 100
     \<and> (\<forall>c \<in> set kind_id. byte c < 128) \<and> (\<forall>c \<in> set summary. byte c < 128)"
  by (cases kind) (auto simp: byte_def)

lemma docker_evidence_texts:
  fixes s source target tok
  assumes "digest_len_32 sha256" and "docker_kind_text kind = Some (kind_id, summary)"
  defines "e \<equiv> docker_runtime_evidence sha256 s source target kind tok"
  shows "ev_id e \<noteq> []" "char_count (ev_id e) \<le> MAX_EVIDENCE_TEXT_CHARS"
    "ev_summary e \<noteq> []" "char_count (ev_summary e) \<le> MAX_EVIDENCE_TEXT_CHARS"
proof -
  let ?comp = "collision_resistant_id_component sha256 (source @ unit_separator @ target)"
  note k = docker_kind_text_facts [OF assms(2)]
  have i: "ev_id e = ''docker_evidence_'' @ kind_id @ ''_'' @ ?comp" and sm: "ev_summary e = summary"
    using assms(2) by (simp_all add: e_def docker_runtime_evidence_def Let_def)
  have lit: "\<forall>c \<in> set ''docker_evidence_''. byte c < 128" "byte (CHR ''_'') < 128"
    by (simp_all add: byte_def)
  have "\<forall>c \<in> set (ev_id e). byte c < 128"
    unfolding i using k lit component_id_chars [of sha256] id_char_ascii by auto
  then have "char_count (ev_id e) = length (ev_id e)" by (rule char_count_ascii)
  also have "\<dots> \<le> 16 + 40 + 1 + 114"
    unfolding i using k length_component [OF assms(1), of "source @ unit_separator @ target"] by simp
  finally show "char_count (ev_id e) \<le> MAX_EVIDENCE_TEXT_CHARS" by (simp add: MAX_EVIDENCE_TEXT_CHARS_def)
  have "char_count summary = length summary" using k by (intro char_count_ascii) simp
  then show "char_count (ev_summary e) \<le> MAX_EVIDENCE_TEXT_CHARS"
    using k by (simp add: sm MAX_EVIDENCE_TEXT_CHARS_def)
  show "ev_id e \<noteq> []" "ev_summary e \<noteq> []" using i sm k by simp_all
qed

text \<open>A Docker evidence reference with bounded texts attests an edge of its kind.\<close>

lemma docker_evidence_matches:
  assumes "ev_version e = 1" "ev_provider e = REP_Docker" "ev_kind e = kind"
    "ev_assertion_kind e = Observed" "ev_provider_slot e = None" "ev_freshness e = EF_Fresh"
    and "ev_id e \<noteq> []" "char_count (ev_id e) \<le> MAX_EVIDENCE_TEXT_CHARS"
    and "ev_summary e \<noteq> []" "char_count (ev_summary e) \<le> MAX_EVIDENCE_TEXT_CHARS"
    and "valid_revision (ev_provider_revision e)" and "ev_subject_ref e = re_source edge"
    and "starts_with (re_source edge) ''docker_container_''"
    and "target_ok kind (re_source edge) (re_target edge)"
    and "re_relationship edge = attested_relationship kind"
  shows "evidence_ref_matches_edge edge e"
  using assms
  by (cases kind) (simp_all add: evidence_ref_matches_edge_def has_valid_versioned_shape_def
      ev_is_def valid_revision_def target_ok_def not_less
      DOCKER_UNSPECIFIED_ADDRESS_PORT_RISK_ID_def DOCKER_DAEMON_STATE_RISK_ID_def)

lemma docker_evidence_fields:
  "ev_version (docker_runtime_evidence sha256 s source target kind tok) = 1"
  "ev_provider (docker_runtime_evidence sha256 s source target kind tok) = REP_Docker"
  "ev_kind (docker_runtime_evidence sha256 s source target kind tok) = kind"
  "ev_assertion_kind (docker_runtime_evidence sha256 s source target kind tok) = Observed"
  "ev_subject_ref (docker_runtime_evidence sha256 s source target kind tok) = source"
  "ev_provider_revision (docker_runtime_evidence sha256 s source target kind tok) = tok"
  "ev_provider_slot (docker_runtime_evidence sha256 s source target kind tok) = None"
  "ev_freshness (docker_runtime_evidence sha256 s source target kind tok) = EF_Fresh"
  by (simp_all add: docker_runtime_evidence_def Let_def split_def)

lemma attested_edge_matches:
  assumes "digest_len_32 sha256" and "valid_revision tok"
    and "starts_with source ''docker_container_''" and t: "target_ok kind source target"
    and "re_source edge = source" "re_target edge = target"
    and "re_relationship edge = attested_relationship kind"
  shows "evidence_ref_matches_edge edge (docker_runtime_evidence sha256 s source target kind tok)"
proof -
  obtain kind_id summary where kt: "docker_kind_text kind = Some (kind_id, summary)"
    using t by (cases kind) (auto simp: target_ok_def)
  show ?thesis
    by (rule docker_evidence_matches [where kind = kind])
      (use docker_evidence_texts [OF assms(1) kt, of s source target tok] assms in
        \<open>simp_all add: docker_evidence_fields\<close>)
qed

lemma attested_edge_valid:
  assumes "digest_len_32 sha256" and "valid_revision tok"
    and "starts_with source ''docker_container_''" and "target_ok kind source target"
    and "rel = attested_relationship kind"
  shows "has_valid_evidence_refs (attested_edge sha256 s tok source target kind rel)"
  using attested_edge_matches [OF assms(1-4)] assms(5)
  by (simp add: has_valid_evidence_refs_def attested_edge_def)

lemma runtime_container_id_prefix: "starts_with (runtime_container_id sha256 c) ''docker_container_''"
  by (simp add: runtime_container_id_def starts_with_def)

lemma container_runtime_edges_valid:
  assumes "digest_len_32 sha256" and "valid_revision tok"
    and "e \<in> set (container_runtime_edges sha256 s tok al counts ic)"
  shows "has_valid_evidence_refs e"
proof -
  let ?c = "snd ic"
  let ?src = "runtime_container_id sha256 ?c"
  note valid = attested_edge_valid [OF assms(1,2) runtime_container_id_prefix]
  consider (net) n where "e = attested_edge sha256 s tok ?src (network_runtime_id sha256 n)
        DockerNetworkMembership RRK_ConnectedTo"
    | (port) p where "e = port_runtime_edge sha256 s tok ?c p"
    | (dep) c' where "?src \<noteq> runtime_container_id sha256 c'"
        "e = attested_edge sha256 s tok ?src (runtime_container_id sha256 c')
          DockerComposeDependsOn RRK_DependsOn"
    using assms(3)
    by (auto simp: container_runtime_edges_def network_runtime_edges_def dependency_runtime_edges_def
        Let_def split: option.splits if_splits)
  then show ?thesis
  proof cases
    case net
    then show ?thesis by (auto intro!: valid simp: target_ok_def network_runtime_id_def starts_with_def)
  next
    case port
    have "evidence_ref_matches_edge e (docker_runtime_evidence sha256 s ?src
        (listener_runtime_id sha256 ?c p) DockerPortPublication tok)"
      using port by (intro attested_edge_matches [OF assms(1,2) runtime_container_id_prefix])
        (simp_all add: port_runtime_edge_def Let_def target_ok_def listener_runtime_id_def starts_with_def)
    moreover have "re_evidence_refs e = [] \<or> re_evidence_refs e = [docker_runtime_evidence sha256 s ?src
        (listener_runtime_id sha256 ?c p) DockerPortPublication tok]"
      using port by (simp add: port_runtime_edge_def Let_def)
    ultimately show ?thesis by (auto simp: has_valid_evidence_refs_def)
  next
    case dep
    then show ?thesis by (auto intro!: valid simp: target_ok_def runtime_container_id_prefix)
  qed
qed

lemma volume_runtime_edges_valid:
  assumes "digest_len_32 sha256" and "valid_revision tok"
    and "e \<in> set (volume_runtime_edges sha256 s tok v)"
  shows "has_valid_evidence_refs e"
  using assms(3)
  by (auto simp: volume_runtime_edges_def target_ok_def volume_runtime_id_def starts_with_def
      split: option.splits intro!: attested_edge_valid [OF assms(1,2) runtime_container_id_prefix])

lemma add_host_risk_edges:
  "set (snd (add_host_risk sha256 s tok risk label kind rel sources ne)) \<subseteq>
     set (snd ne) \<union> (\<lambda>src. attested_edge sha256 s tok src risk kind rel) ` set sources"
  by (auto simp: add_host_risk_def Let_def split: prod.splits if_splits)

lemma risk_sources_prefix:
  "src \<in> set (unspecified_address_sources sha256 s counts) \<Longrightarrow> starts_with src ''docker_container_''"
  "src \<in> set (daemon_state_sources sha256 s counts) \<Longrightarrow> starts_with src ''docker_container_''"
  using runtime_container_id_prefix
  by (auto simp: unspecified_address_sources_def daemon_state_sources_def)

lemma add_host_risk_all:
  assumes "\<forall>e \<in> set (snd ne). P e"
    and "\<forall>src \<in> set sources. P (attested_edge sha256 s tok src risk kind rel)"
  shows "\<forall>e \<in> set (snd (add_host_risk sha256 s tok risk label kind rel sources ne)). P e"
  using assms add_host_risk_edges by fast

lemma runtime_map_parts_valid:
  assumes "digest_len_32 sha256" and "valid_revision tok"
    and "\<forall>e \<in> set edges. has_valid_evidence_refs e"
  shows "\<forall>e \<in> set (snd (runtime_map_parts sha256 s nodes edges tok)). has_valid_evidence_refs e"
  unfolding runtime_map_parts_def Let_def
proof (intro add_host_risk_all)
  note valid = attested_edge_valid [OF assms(1,2)]
  show "\<forall>src \<in> set (daemon_state_sources sha256 s (runtime_identity_index sha256 (sn_containers s))).
      has_valid_evidence_refs (attested_edge sha256 s tok src DOCKER_DAEMON_STATE_RISK_ID
        DockerDaemonStateBindMount RRK_ExposesDaemonState)"
    using risk_sources_prefix(2) by (auto intro!: valid simp: target_ok_def)
  show "\<forall>src \<in> set (unspecified_address_sources sha256 s
        (runtime_identity_index sha256 (sn_containers s))).
      has_valid_evidence_refs (attested_edge sha256 s tok src DOCKER_UNSPECIFIED_ADDRESS_PORT_RISK_ID
        DockerUnspecifiedAddressPortPublication RRK_Exposes)"
    using risk_sources_prefix(1) by (auto intro!: valid simp: target_ok_def)
qed (use assms container_runtime_edges_valid [OF assms(1,2)] volume_runtime_edges_valid [OF assms(1,2)]
  in \<open>auto\<close>)

text \<open>
  Everything the Docker derivation attests passes the model's own evidence check: if the
  provider edges carried valid evidence, then every edge of the derived runtime map does.
  The token is the daemon's opaque observation revision, nonempty and within the text bound.
\<close>

lemma derived_evidence_valid:
  assumes "digest_len_32 sha256" and "valid_revision tok"
    and "\<forall>e \<in> set edges. has_valid_evidence_refs e"
  shows "\<exists>m. derive_runtime_map sha256 json_node json_edge s nodes edges diags tok = Some m
    \<and> (\<forall>e \<in> set (rm_edges m). has_valid_evidence_refs e)"
proof -
  have "tok \<noteq> []" using assms(2) by (simp add: valid_revision_def)
  then show ?thesis
    using runtime_map_parts_valid [OF assms, of s nodes]
    by (auto simp: derive_runtime_map_def Let_def split: prod.splits)
qed

end
