(* ===== verification/Compose_Source.thy ===== *)
theory Compose_Source
  imports Rust_Path Models Snapshot
begin

text \<open>
  The source of a mount (\<open>compose.rs\<close>): the short syntax of a volume, the interpolation of
  defaults and of the home directory, the lexical normalisation of a bind source, and the sources
  that are unsafe to expose. The environment variable \<open>HOME\<close> is the argument \<open>home\<close>.
\<close>

section \<open>Texts of paths\<close>

definition is_windows_absolute_path :: "string \<Rightarrow> bool" where
  "is_windows_absolute_path s \<longleftrightarrow> length s \<ge> 3 \<and> is_ascii_alphabetic (s ! 0) \<and> s ! 1 = CHR '':''
     \<and> (s ! 2 = CHR 0x5C \<or> s ! 2 = CHR ''/'')"

definition looks_like_host_path :: "string \<Rightarrow> bool" where
  "looks_like_host_path s \<longleftrightarrow> starts_with s ''.'' \<or> starts_with s ''/'' \<or> starts_with s ''~''
     \<or> starts_with s [CHR 0x5C] \<or> is_windows_absolute_path s"

definition looks_like_container_path :: "string \<Rightarrow> bool" where
  "looks_like_container_path s \<longleftrightarrow> starts_with s ''/'' \<or> is_windows_absolute_path s"

definition has_parent_traversal :: "string \<Rightarrow> bool" where
  "has_parent_traversal path \<longleftrightarrow> list_ex (\<lambda>c. c = ParentDir) (components path)"

definition normalize_step :: "string \<Rightarrow> path_component \<Rightarrow> string" where
  "normalize_step normalized c = (case c of
       CurDir \<Rightarrow> normalized
     | ParentDir \<Rightarrow> path_pop normalized
     | _ \<Rightarrow> path_join normalized (as_os_str c))"

definition normalize_lexical :: "string \<Rightarrow> string" where
  "normalize_lexical path = foldl normalize_step [] (components path)"

section \<open>The short syntax\<close>

text \<open>The loop over the bytes: \<open>index\<close> is the position, \<open>part\<close> the current slice of \<open>raw\<close>.\<close>

fun split_volume_loop :: "bool \<Rightarrow> nat \<Rightarrow> string \<Rightarrow> string \<Rightarrow> string list" where
  "split_volume_loop drive index part [] = [part]"
| "split_volume_loop drive index part (c # s) =
     (if c \<noteq> CHR '':'' then split_volume_loop drive (index + 1) (part @ [c]) s
      else if index = 1 \<and> drive then split_volume_loop drive (index + 1) (part @ [c]) s
      else part # split_volume_loop drive (index + 1) [] s)"

definition split_short_volume :: "string \<Rightarrow> string list" where
  "split_short_volume raw =
     split_volume_loop (raw \<noteq> [] \<and> is_ascii_alphabetic (hd raw)) 0 [] raw"

definition classify_short_source :: "string option \<Rightarrow> compose_mount_kind" where
  "classify_short_source source = (case source of
       None \<Rightarrow> CMK_AnonymousVolume
     | Some s \<Rightarrow> if looks_like_host_path s then CMK_Bind else CMK_NamedVolume)"

section \<open>Resolving a bind source\<close>

definition expand_tilde :: "string option \<Rightarrow> string \<Rightarrow> string" where
  "expand_tilde home s = (case home of
       None \<Rightarrow> s
     | Some h \<Rightarrow> if h = [] then s
         else if s = ''~'' then h
         else case strip_prefix s ''~/'' of Some rest \<Rightarrow> h @ ''/'' @ rest | None \<Rightarrow> s)"

definition interpolate_default :: "string \<Rightarrow> string" where
  "interpolate_default s = (case find_split s ''${'' of
       None \<Rightarrow> s
     | Some (before, rest) \<Rightarrow> (case split_once rest (CHR ''}'') of
         None \<Rightarrow> s
       | Some (expression, after) \<Rightarrow>
           (case (case find_split expression '':-'' of
                    Some (_, d) \<Rightarrow> Some d
                  | None \<Rightarrow> map_option snd (split_once expression (CHR ''-''))) of
              Some fallback \<Rightarrow> before @ fallback @ after
            | None \<Rightarrow> s)))"

definition source_path :: "string option \<Rightarrow> string \<Rightarrow> string \<Rightarrow> string" where
  "source_path home base_dir source =
     (let interpolated = expand_tilde home (interpolate_default source)
      in if has_root interpolated \<or> is_windows_absolute_path interpolated then interpolated
         else path_join base_dir interpolated)"

definition resolve_source :: "string option \<Rightarrow> string \<Rightarrow> compose_mount_kind \<Rightarrow> string option \<Rightarrow> string option" where
  "resolve_source home base_dir kind source = (case source of
       None \<Rightarrow> None
     | Some s \<Rightarrow> if kind \<noteq> CMK_Bind then None
         else Some (normalize_lexical (source_path home base_dir s)))"

section \<open>Unsafe sources\<close>

definition SENSITIVE_SYSTEM_ROOTS :: "string list" where
  "SENSITIVE_SYSTEM_ROOTS = [''/etc'', ''/proc'', ''/sys'', ''/dev'', ''/boot'', ''/usr'', ''/bin'', ''/sbin'',
     ''/lib'', ''/lib64'', ''/var/log'', ''/root'']"

definition CREDENTIAL_DIR_NAMES :: "string list" where
  "CREDENTIAL_DIR_NAMES = [''.ssh'', ''.aws'', ''.gnupg'', ''.kube'', ''.docker'', ''.netrc'', ''gcloud'']"

definition exposes_credentials :: "string \<Rightarrow> bool" where
  "exposes_credentials resolved \<longleftrightarrow>
     list_ex (\<lambda>c. as_os_str c \<in> set CREDENTIAL_DIR_NAMES) (components resolved)"

definition is_sensitive_root :: "string \<Rightarrow> bool" where
  "is_sensitive_root resolved \<longleftrightarrow>
     list_ex (\<lambda>root. resolved = root \<or> starts_with resolved (root @ ''/'')) SENSITIVE_SYSTEM_ROOTS"

definition unsafe_bind_source_diagnostic :: "string \<Rightarrow> (diagnostic_severity \<times> string) option" where
  "unsafe_bind_source_diagnostic resolved =
     (if is_docker_daemon_state_bind_source resolved
      then Some (DS_Blocked, ''Bind source `'' @ resolved
        @ ''` exposes Docker daemon state; a compromised container could control the host daemon.'')
      else if exposes_credentials resolved
      then Some (DS_Blocked, ''Bind source `'' @ resolved @ ''` exposes credential material to the container.'')
      else if is_sensitive_root resolved
      then Some (DS_Warning, ''Bind source `'' @ resolved @ ''` mounts a sensitive host path.'')
      else None)"

section \<open>Lexical normalisation\<close>

text \<open>What normalisation means: the names of the path, each parent step undoing the last name.\<close>

definition lexical_step :: "string list \<Rightarrow> path_component \<Rightarrow> string list" where
  "lexical_step names c = (case c of Normal s \<Rightarrow> names @ [s] | ParentDir \<Rightarrow> butlast names | _ \<Rightarrow> names)"

definition lexical_names :: "string \<Rightarrow> string list" where
  "lexical_names path = foldl lexical_step [] (components path)"

lemma normalize_steps:
  assumes "list_all (\<lambda>c. c \<noteq> RootDir \<and> (\<forall>s. c = Normal s \<longrightarrow> plain_name s)) cs" and "list_all plain_name ns"
  shows "foldl normalize_step (plain_path root ns) cs = plain_path root (foldl lexical_step ns cs)
    \<and> list_all plain_name (foldl lexical_step ns cs)"
  using assms
proof (induction cs arbitrary: ns)
  case (Cons c cs)
  have "normalize_step (plain_path root ns) c = plain_path root (lexical_step ns c) \<and> list_all plain_name (lexical_step ns c)"
    using Cons.prems
    by (cases c) (auto simp: normalize_step_def lexical_step_def plain_pop plain_join list_all_iff dest: in_set_butlastD)
  then show ?case using Cons.IH [of "lexical_step ns c"] Cons.prems(1) by simp
qed simp

lemma normalize_plain:
  "normalize_lexical path = plain_path (has_root path) (lexical_names path)"
  "list_all plain_name (lexical_names path)"
proof -
  let ?cs = "filter (\<lambda>c. c \<noteq> RootDir) (components path)"
  have cs: "components path = (if has_root path then [RootDir] else []) @ ?cs" by (rule root_component(2))
  have all: "list_all (\<lambda>c. c \<noteq> RootDir \<and> (\<forall>s. c = Normal s \<longrightarrow> plain_name s)) ?cs"
    using component_name [of _ path] by (auto simp: list_all_iff)
  have start: "foldl normalize_step [] (if has_root path then [RootDir] else []) = plain_path (has_root path) []"
    by (simp add: normalize_step_def path_join_def has_root_def plain_path_def)
  have names: "foldl lexical_step [] (if has_root path then [RootDir] else []) = []"
    by (simp add: lexical_step_def)
  have "normalize_lexical path = foldl normalize_step (plain_path (has_root path) []) ?cs"
    unfolding normalize_lexical_def by (subst cs) (simp add: start del: foldl_Cons)
  moreover have "lexical_names path = foldl lexical_step [] ?cs"
    unfolding lexical_names_def by (subst cs) (simp add: names del: foldl_Cons)
  ultimately show "normalize_lexical path = plain_path (has_root path) (lexical_names path)"
    "list_all plain_name (lexical_names path)"
    using normalize_steps [OF all, of "[]" "has_root path"] by simp_all
qed

lemma lexical_of_plain:
  assumes "list_all plain_name ns"
  shows "lexical_names (plain_path root ns) = ns"
proof -
  have "foldl lexical_step ms (map Normal ns) = ms @ ns" for ms
    by (induction ns arbitrary: ms) (simp_all add: lexical_step_def)
  then show ?thesis using assms
    by (simp add: lexical_names_def plain_components lexical_step_def)
qed

lemma normalize_of_plain: "list_all plain_name ns \<Longrightarrow> normalize_lexical (plain_path root ns) = plain_path root ns"
  using normalize_plain(1) [of "plain_path root ns"] by (simp only: lexical_of_plain plain_root)

lemma normalize_idem: "normalize_lexical (normalize_lexical path) = normalize_lexical path"
proof -
  obtain root ns where n: "normalize_lexical path = plain_path root ns" "list_all plain_name ns"
    using normalize_plain by blast
  show ?thesis unfolding n(1) by (rule normalize_of_plain [OF n(2)])
qed

lemma plain_no_traversal: "list_all plain_name ns \<Longrightarrow> \<not> has_parent_traversal (plain_path root ns)"
  unfolding has_parent_traversal_def by (simp add: plain_components list_ex_iff image_iff)

section \<open>Path boundaries\<close>

lemma split_joined:
  "ss \<noteq> [] \<Longrightarrow> list_all (\<lambda>s. d \<notin> set s) ss \<Longrightarrow>
     split_char d (str_join [d] ss @ d # rest) = ss @ split_char d rest"
proof (induction "[d]" ss rule: str_join.induct)
  case (3 s t ss)
  then show ?case using split_append [of d s] by simp
qed (auto simp: split_append)

lemma plain_inj:
  assumes "list_all plain_name ns" "list_all plain_name ms" "plain_path root ns = plain_path root ms"
  shows "ns = ms"
proof -
  have "ns = lexical_names (plain_path root ns)" by (rule lexical_of_plain [OF assms(1), symmetric])
  also have "\<dots> = ms" unfolding assms(3) by (rule lexical_of_plain [OF assms(2)])
  finally show ?thesis .
qed

lemma join_append: "ss \<noteq> [] \<Longrightarrow> ts \<noteq> [] \<Longrightarrow> str_join sep (ss @ ts) = str_join sep ss @ sep @ str_join sep ts"
proof (induction sep ss rule: str_join.induct)
  case (2 sep s)
  then show ?case by (cases ts) auto
qed auto

lemma below_iff:
  assumes "list_all plain_name ns" "ns \<noteq> []" "list_all plain_name ms"
  shows "starts_with (plain_path True ms) (plain_path True ns @ ''/'') \<longleftrightarrow> prefix ns ms \<and> ms \<noteq> ns"
proof
  assume "starts_with (plain_path True ms) (plain_path True ns @ ''/'')"
  then obtain rest where r: "str_join ''/'' ms = str_join ''/'' ns @ CHR ''/'' # rest"
    by (auto simp: starts_with_def prefix_def plain_path_def)
  then have ms: "ms \<noteq> []" by auto
  have free: "list_all (\<lambda>s. CHR ''/'' \<notin> set s) ns" "list_all (\<lambda>s. CHR ''/'' \<notin> set s) ms"
    using assms by (simp_all add: list_all_iff plain_name_def)
  have "ms = ns @ split_char (CHR ''/'') rest"
    using split_joined [OF assms(2) free(1), of rest] split_join [OF ms free(2)] r by simp
  then show "prefix ns ms \<and> ms \<noteq> ns" by simp
next
  assume "prefix ns ms \<and> ms \<noteq> ns"
  then obtain ts where "ms = ns @ ts" "ts \<noteq> []" by (auto simp: prefix_def)
  then show "starts_with (plain_path True ms) (plain_path True ns @ ''/'')"
    using join_append [of ns ts "''/''"] assms(2) by (simp add: starts_with_def plain_path_def)
qed

lemma boundary_iff:
  assumes "list_all plain_name ns" "ns \<noteq> []" "list_all plain_name ms"
  shows "plain_path True ms = plain_path True ns \<or> starts_with (plain_path True ms) (plain_path True ns @ ''/'')
    \<longleftrightarrow> prefix ns ms"
  using below_iff [OF assms] plain_inj [OF assms(3,1), of True] by auto

section \<open>Properties\<close>

lemma lexical_normalized: "lexical_names (normalize_lexical path) = lexical_names path"
  using lexical_of_plain [OF normalize_plain(2) [of path], of "has_root path"] by (simp only: normalize_plain(1))

lemma resolved_source:
  assumes "resolve_source home base kind (Some s) = Some r"
  shows "kind = CMK_Bind" "r = plain_path (has_root (source_path home base s)) (lexical_names (source_path home base s))"
    "\<not> has_parent_traversal r" "normalize_lexical r = r"
proof -
  show "kind = CMK_Bind" using assms by (simp add: resolve_source_def split: if_splits)
  then have r: "r = normalize_lexical (source_path home base s)" using assms by (simp add: resolve_source_def)
  then show "r = plain_path (has_root (source_path home base s)) (lexical_names (source_path home base s))"
    by (simp only: normalize_plain(1))
  show "\<not> has_parent_traversal r"
    unfolding r normalize_plain(1) by (rule plain_no_traversal [OF normalize_plain(2)])
  show "normalize_lexical r = r" unfolding r by (rule normalize_idem)
qed

definition docker_state_names :: "string list \<Rightarrow> bool" where
  "docker_state_names ns \<longleftrightarrow> ns = [''var'', ''run'', ''docker.sock''] \<or> ns = [''run'', ''docker.sock'']
     \<or> prefix [''var'', ''lib'', ''docker''] ns"

definition sensitive_root_names :: "string list list" where
  "sensitive_root_names = [[''etc''], [''proc''], [''sys''], [''dev''], [''boot''], [''usr''], [''bin''], [''sbin''],
     [''lib''], [''lib64''], [''var'', ''log''], [''root'']]"

lemma sensitive_roots: "SENSITIVE_SYSTEM_ROOTS = map (plain_path True) sensitive_root_names"
  "list_all (\<lambda>ns. list_all plain_name ns \<and> ns \<noteq> []) sensitive_root_names"
  by (simp_all add: SENSITIVE_SYSTEM_ROOTS_def sensitive_root_names_def plain_path_def plain_name_def)

lemma docker_state_iff:
  assumes "list_all plain_name ns"
  shows "is_docker_daemon_state_bind_source (plain_path True ns) \<longleftrightarrow> docker_state_names ns"
proof -
  have names: "list_all plain_name [''var'', ''run'', ''docker.sock'']" "list_all plain_name [''run'', ''docker.sock'']"
    "list_all plain_name [''var'', ''lib'', ''docker'']"
    by (simp_all add: plain_name_def)
  have paths: "plain_path True [''var'', ''run'', ''docker.sock''] = ''/var/run/docker.sock''"
    "plain_path True [''run'', ''docker.sock''] = ''/run/docker.sock''"
    "plain_path True [''var'', ''lib'', ''docker''] = ''/var/lib/docker''"
    by (simp_all add: plain_path_def)
  have eq: "plain_path True ns = plain_path True ms \<longleftrightarrow> ns = ms" if "list_all plain_name ms" for ms
    using plain_inj [OF assms that] by blast
  have "plain_path True ns = ''/var/lib/docker'' \<or> starts_with (plain_path True ns) ''/var/lib/docker/''
      \<longleftrightarrow> prefix [''var'', ''lib'', ''docker''] ns"
    using boundary_iff [OF names(3) _ assms] unfolding paths by simp
  then show ?thesis
    using eq [OF names(1)] eq [OF names(2)]
    unfolding is_docker_daemon_state_bind_source_def docker_state_names_def paths by blast
qed

lemma unsafe_bind_source_names:
  assumes "resolve_source home base CMK_Bind (Some s) = Some r" and "has_root (source_path home base s)"
    and "ns = lexical_names (source_path home base s)"
  shows "map_option fst (unsafe_bind_source_diagnostic r) =
    (if docker_state_names ns \<or> (\<exists>n \<in> set ns. n \<in> set CREDENTIAL_DIR_NAMES) then Some DS_Blocked
     else if \<exists>top \<in> set sensitive_root_names. prefix top ns then Some DS_Warning else None)"
proof -
  have r: "r = plain_path True ns" and ns: "list_all plain_name ns"
    using resolved_source(2) [OF assms(1)] assms(2,3) normalize_plain(2) by simp_all
  have "exposes_credentials r \<longleftrightarrow> (\<exists>n \<in> set ns. n \<in> set CREDENTIAL_DIR_NAMES)"
    by (auto simp: exposes_credentials_def list_ex_iff r plain_components [OF ns] CREDENTIAL_DIR_NAMES_def)
  moreover have "is_sensitive_root r \<longleftrightarrow> (\<exists>top \<in> set sensitive_root_names. prefix top ns)"
    using sensitive_roots(2) boundary_iff [OF _ _ ns]
    by (simp add: is_sensitive_root_def sensitive_roots(1) list_ex_iff list_all_iff r cong: bex_cong)
  moreover have "is_docker_daemon_state_bind_source r \<longleftrightarrow> docker_state_names ns"
    unfolding r by (rule docker_state_iff [OF ns])
  ultimately show ?thesis by (simp add: unsafe_bind_source_diagnostic_def)
qed

lemma unsafe_bind_source_blocked:
  assumes "resolve_source home base CMK_Bind (Some s) = Some r" and "path = source_path home base s" and "has_root path"
    and "docker_state_names (lexical_names path) \<or> (\<exists>n \<in> set (lexical_names path). n \<in> set CREDENTIAL_DIR_NAMES)"
  shows "map_option fst (unsafe_bind_source_diagnostic r) = Some DS_Blocked"
  using unsafe_bind_source_names [OF assms(1) _ refl] assms(2-4) by simp

text \<open>
  A bind source is judged by the directories it leads to and by nothing else: however it is
  written (a default, a home directory, relative parts, parent steps, doubled slashes), the path it
  normalises to is blocked exactly when it is the Docker socket, the state directory of Docker or
  something below it, or has a credential directory among its names; it is a warning exactly when
  it is a sensitive system directory or below one; a name that merely starts alike is neither.
\<close>

lemma unsafe_bind_source_exact:
  assumes "resolve_source home base CMK_Bind (Some s) = Some r" and "has_root (source_path home base s)"
    and "ns = lexical_names (source_path home base s)"
  shows "map_option fst (unsafe_bind_source_diagnostic r) =
    (if docker_state_names ns \<or> (\<exists>n \<in> set ns. n \<in> set CREDENTIAL_DIR_NAMES) then Some DS_Blocked
     else if \<exists>top \<in> set sensitive_root_names. prefix top ns then Some DS_Warning else None)"
  using unsafe_bind_source_names assms by blast

text \<open>The parts of the short syntax are the text between the colons, a drive letter kept with its path.\<close>

lemma split_volume_nonempty [simp]: "split_volume_loop drive i part s \<noteq> []"
  by (induction drive i part s rule: split_volume_loop.induct) auto

lemma split_volume_join: "str_join '':'' (split_volume_loop drive i part s) = part @ s"
proof (induction drive i part s rule: split_volume_loop.induct)
  case (2 drive i part c s)
  have join: "str_join '':'' (part # xs) = part @ '':'' @ str_join '':'' xs" if "xs \<noteq> []" for xs
    using that by (cases xs) auto
  show ?case using 2 by (auto simp: join)
qed simp

lemma split_short_volume_join: "str_join '':'' (split_short_volume raw) = raw"
  by (simp add: split_short_volume_def split_volume_join)

end
