(* ===== verification/Compose_Scan.thy ===== *)
theory Compose_Scan
  imports Compose_Source "HOL-Library.Product_Lexorder"
begin

text \<open>
  The scanner of Compose files (\<open>compose.rs\<close>): which files are read and how far, the services and
  mounts of a document, the merge of services over files, the diagnostics, and the coherent
  snapshot that a binding is derived from.

  The YAML library is the parameter \<open>yaml_api\<close>: its parser and the accessors of a value that the
  code calls. The file system is the parameter \<open>compose_io\<close>: what each call returns.
\<close>

section \<open>The library and the file system\<close>

text \<open>The constructors of a value that the code matches on; a number as its text.\<close>

datatype 'y yaml_shape = Y_Null | Y_Bool bool | Y_Number string | Y_String string
  | Y_Sequence "'y list" | Y_Mapping "('y \<times> 'y) list" | Y_Other

record 'y yaml_api =
  ya_from_str :: "string \<Rightarrow> string + 'y"
  ya_shape :: "'y \<Rightarrow> 'y yaml_shape"
  ya_as_str :: "'y \<Rightarrow> string option"
  ya_as_bool :: "'y \<Rightarrow> bool option"
  ya_as_sequence :: "'y \<Rightarrow> 'y list option"
  ya_as_mapping :: "'y \<Rightarrow> ('y \<times> 'y) list option"
  ya_get :: "('y \<times> 'y) list \<Rightarrow> string \<Rightarrow> 'y option"

text \<open>An opened file: whether it is regular, where it really is, and its bytes.\<close>

record opened_file =
  of_regular :: "bool option"
  of_canonical :: "string option"
  of_bytes :: "string option"

record compose_io =
  io_home :: "string option"
  io_is_file :: "string \<Rightarrow> bool"
  io_read :: "string \<Rightarrow> string + string"
  io_utf8_error :: "string \<Rightarrow> string"
  io_symlink :: "string \<Rightarrow> bool option"
  io_open :: "string \<Rightarrow> opened_file option"

section \<open>Files\<close>

definition MAX_COMPOSE_FILE_BYTES :: nat where
  "MAX_COMPOSE_FILE_BYTES = 1048576"

definition compose_override_candidates :: "string \<Rightarrow> string list" where
  "compose_override_candidates base = (case path_file_name base of
       None \<Rightarrow> []
     | Some file_name \<Rightarrow> (case path_parent base of
         None \<Rightarrow> []
       | Some parent \<Rightarrow> map (path_join parent)
           (if starts_with file_name ''docker-compose''
            then [''docker-compose.override.yml'', ''docker-compose.override.yaml'']
            else [''compose.override.yml'', ''compose.override.yaml''])))"

definition discover_compose_files :: "compose_io \<Rightarrow> string \<Rightarrow> string list" where
  "discover_compose_files io root =
     concat (map (\<lambda>base. base # filter (io_is_file io) (compose_override_candidates base))
       (filter (io_is_file io) (map (path_join root)
         [''compose.yaml'', ''compose.yml'', ''docker-compose.yaml'', ''docker-compose.yml''])))"

definition read_compose_file_bounded :: "compose_io \<Rightarrow> string \<Rightarrow> string + string" where
  "read_compose_file_bounded io file = (case io_read io file of
       Inl err \<Rightarrow> Inl (''failed to read '' @ file @ '': '' @ err)
     | Inr content \<Rightarrow>
         (let bytes = take (MAX_COMPOSE_FILE_BYTES + 1) content
          in if length bytes > MAX_COMPOSE_FILE_BYTES
             then Inl (''compose file `'' @ file @ ''` is too large; limit is ''
               @ show_nat MAX_COMPOSE_FILE_BYTES @ '' bytes'')
             else if valid_utf8 bytes then Inr bytes
             else Inl (''failed to read '' @ file @ '' as UTF-8: '' @ io_utf8_error io bytes)))"

definition bounded_compose_content :: "compose_io \<Rightarrow> string \<Rightarrow> string option" where
  "bounded_compose_content io file = (case read_compose_file_bounded io file of Inl _ \<Rightarrow> None | Inr s \<Rightarrow> Some s)"

definition within_root :: "string \<Rightarrow> string \<Rightarrow> bool" where
  "within_root root file \<longleftrightarrow> path_starts_with file root
     \<and> (case path_strip_prefix file root of
          None \<Rightarrow> False
        | Some relative \<Rightarrow> list_all (\<lambda>part. case part of Normal _ \<Rightarrow> True | _ \<Rightarrow> False) relative)"

definition read_compose_file_bounded_under_root :: "compose_io \<Rightarrow> string \<Rightarrow> string \<Rightarrow> string + string" where
  "read_compose_file_bounded_under_root io root file =
     (if \<not> within_root root file then Inl ''Compose binding file is outside the configured root''
      else case io_open io file of None \<Rightarrow> Inl ''Compose binding file is unavailable'' | Some handle \<Rightarrow>
        case of_regular handle of None \<Rightarrow> Inl ''Compose binding file is unavailable'' | Some regular \<Rightarrow>
        if \<not> regular then Inl ''Compose binding file is not regular''
        else case of_canonical handle of None \<Rightarrow> Inl ''Compose binding file is unavailable'' | Some opened \<Rightarrow>
        if \<not> path_starts_with opened root then Inl ''Compose binding file escaped the configured root''
        else case of_bytes handle of None \<Rightarrow> Inl ''Compose binding file is unavailable'' | Some content \<Rightarrow>
        let bytes = take (MAX_COMPOSE_FILE_BYTES + 1) content
        in if length bytes > MAX_COMPOSE_FILE_BYTES then Inl ''Compose binding file exceeds the byte limit''
           else if valid_utf8 bytes then Inr bytes else Inl ''Compose binding file is not UTF-8'')"

section \<open>Values\<close>

definition mapping_get :: "'y yaml_api \<Rightarrow> 'y \<Rightarrow> string \<Rightarrow> 'y option" where
  "mapping_get y v key = Option.bind (ya_as_mapping y v) (\<lambda>m. ya_get y m key)"

definition scalar_to_string :: "'y yaml_api \<Rightarrow> 'y \<Rightarrow> string option" where
  "scalar_to_string y v = (case ya_shape y v of
       Y_String s \<Rightarrow> Some s
     | Y_Bool b \<Rightarrow> Some (if b then ''true'' else ''false'')
     | Y_Number n \<Rightarrow> Some n
     | Y_Null \<Rightarrow> Some []
     | _ \<Rightarrow> None)"

definition environment_entry :: "string \<Rightarrow> string \<times> string" where
  "environment_entry entry = (case split_once entry (CHR ''='') of Some kv \<Rightarrow> kv | None \<Rightarrow> (entry, []))"

definition parse_environment :: "'y yaml_api \<Rightarrow> 'y option \<Rightarrow> metadata" where
  "parse_environment y v = (case map_option (ya_shape y) v of
       Some (Y_Mapping m) \<Rightarrow> bt_collect (List.map_filter (\<lambda>(key, v').
         case (ya_as_str y key, scalar_to_string y v') of (Some k, Some s) \<Rightarrow> Some (k, s) | _ \<Rightarrow> None) m)
     | Some (Y_Sequence items) \<Rightarrow>
         bt_collect (map environment_entry (List.map_filter (ya_as_str y) items))
     | _ \<Rightarrow> [])"

definition parse_depends_on :: "'y yaml_api \<Rightarrow> 'y option \<Rightarrow> string list" where
  "parse_depends_on y v = (case map_option (ya_shape y) v of
       Some (Y_Sequence items) \<Rightarrow> List.map_filter (ya_as_str y) items
     | Some (Y_Mapping m) \<Rightarrow> List.map_filter (ya_as_str y) (map fst m)
     | _ \<Rightarrow> [])"

section \<open>Mounts\<close>

definition compose_origin :: "string \<Rightarrow> string option \<Rightarrow> string \<Rightarrow> compose_file_origin" where
  "compose_origin file service field = \<lparr>og_file = file, og_service = service, og_field = field\<rparr>"

definition mount_field :: "string \<Rightarrow> nat \<Rightarrow> string" where
  "mount_field service index = ''services.'' @ service @ ''.volumes['' @ show_nat index @ '']''"

definition compose_diag :: "string \<Rightarrow> diagnostic_severity \<Rightarrow> string \<Rightarrow> compose_file_origin \<Rightarrow> compose_diagnostic" where
  "compose_diag i severity message origin =
     \<lparr>cd_id = i, cd_severity = severity, cd_message = message, cd_origin = origin\<rparr>"

definition new_mount :: "string option \<Rightarrow> string \<Rightarrow> string \<Rightarrow> string \<Rightarrow> nat \<Rightarrow> compose_mount_kind
    \<Rightarrow> string option \<Rightarrow> string \<Rightarrow> bool \<Rightarrow> compose_mount" where
  "new_mount home file base_dir service index kind source target read_only =
     \<lparr>mt_id = file @ '':'' @ service @ '':'' @ show_nat index, mt_service = service, mt_kind = kind,
        mt_source = source, mt_resolved_source = resolve_source home base_dir kind source,
        mt_target = target, mt_read_only = read_only,
        mt_origin = compose_origin file (Some service) (mount_field service index)\<rparr>"

definition mode_read_only :: "string \<Rightarrow> bool" where
  "mode_read_only mode = list_ex (\<lambda>part. part = ''ro'' \<or> part = ''readonly'') (split_char (CHR '','') mode)"

definition parse_short_mount :: "string option \<Rightarrow> string \<Rightarrow> string \<Rightarrow> string \<Rightarrow> nat \<Rightarrow> string
    \<Rightarrow> compose_diagnostic + compose_mount" where
  "parse_short_mount home file base_dir service index raw = (case split_short_volume raw of
       [target] \<Rightarrow> Inr (new_mount home file base_dir service index (classify_short_source None) None target False)
     | [source, target] \<Rightarrow>
         Inr (new_mount home file base_dir service index (classify_short_source (Some source)) (Some source) target False)
     | [source, target, mode] \<Rightarrow>
         Inr (new_mount home file base_dir service index (classify_short_source (Some source)) (Some source) target
           (mode_read_only mode))
     | _ \<Rightarrow> Inl (compose_diag ''compose_invalid_short_mount'' DS_Error
         ''Short volume syntax must be target, source:target, or source:target:mode.''
         (compose_origin file (Some service) (mount_field service index))))"

definition first_of :: "'y yaml_api \<Rightarrow> ('y \<times> 'y) list \<Rightarrow> string list \<Rightarrow> 'y option" where
  "first_of y m keys = (case List.map_filter (ya_get y m) keys of [] \<Rightarrow> None | v # _ \<Rightarrow> Some v)"

definition long_mount_kind :: "string \<Rightarrow> string option \<Rightarrow> compose_mount_kind" where
  "long_mount_kind mount_type source =
     (if mount_type = ''bind'' then CMK_Bind
      else if mount_type = ''volume'' then (if source \<noteq> None then CMK_NamedVolume else CMK_AnonymousVolume)
      else CMK_Unsupported)"

definition parse_long_mount :: "string option \<Rightarrow> 'y yaml_api \<Rightarrow> string \<Rightarrow> string \<Rightarrow> string \<Rightarrow> nat \<Rightarrow> ('y \<times> 'y) list
    \<Rightarrow> compose_diagnostic + compose_mount" where
  "parse_long_mount home y file base_dir service index m =
     (let mount_type = (case Option.bind (ya_get y m ''type'') (ya_as_str y) of Some t \<Rightarrow> t | None \<Rightarrow> ''volume'');
          source = Option.bind (first_of y m [''source'', ''src'']) (ya_as_str y)
      in case Option.bind (first_of y m [''target'', ''dst'', ''destination'']) (ya_as_str y) of
           None \<Rightarrow> Inl (compose_diag ''compose_mount_missing_target'' DS_Error
             ''Volume mapping is missing a target path.'' (compose_origin file (Some service) (mount_field service index)))
         | Some target \<Rightarrow> Inr (new_mount home file base_dir service index (long_mount_kind mount_type source) source target
             (case Option.bind (ya_get y m ''read_only'') (ya_as_bool y) of Some b \<Rightarrow> b | None \<Rightarrow> False)))"

definition parse_mount :: "string option \<Rightarrow> 'y yaml_api \<Rightarrow> string \<Rightarrow> string \<Rightarrow> string \<Rightarrow> nat \<Rightarrow> 'y
    \<Rightarrow> compose_diagnostic + compose_mount" where
  "parse_mount home y file base_dir service index item = (case ya_as_str y item of
       Some short \<Rightarrow> parse_short_mount home file base_dir service index short
     | None \<Rightarrow> (case ya_as_mapping y item of
         None \<Rightarrow> Inl (compose_diag ''compose_unsupported_mount'' DS_Error
           ''Volume entries must be strings or mappings.'' (compose_origin file (Some service) (mount_field service index)))
       | Some m \<Rightarrow> parse_long_mount home y file base_dir service index m))"

section \<open>Documents\<close>

definition push_diagnostic_scan :: "compose_diagnostic \<Rightarrow> compose_scan \<Rightarrow> compose_scan" where
  "push_diagnostic_scan d scan = scan\<lparr>sc_diagnostics := sc_diagnostics scan @ [d]\<rparr>"

definition push_parsed_mount :: "compose_diagnostic + compose_mount \<Rightarrow> compose_scan \<Rightarrow> compose_scan" where
  "push_parsed_mount r scan = (case r of
       Inr m \<Rightarrow> scan\<lparr>sc_mounts := sc_mounts scan @ [m]\<rparr>
     | Inl d \<Rightarrow> push_diagnostic_scan d scan)"

definition parse_volumes :: "string option \<Rightarrow> 'y yaml_api \<Rightarrow> string \<Rightarrow> string \<Rightarrow> string \<Rightarrow> 'y
    \<Rightarrow> compose_scan \<Rightarrow> compose_scan" where
  "parse_volumes home y file base_dir service volumes scan = (case ya_as_sequence y volumes of
       None \<Rightarrow> push_diagnostic_scan (compose_diag ''compose_invalid_volumes'' DS_Error
         ''Service volumes must be a sequence.'' (compose_origin file (Some service) ''services.volumes'')) scan
     | Some items \<Rightarrow> foldl (\<lambda>scan (index, item).
         push_parsed_mount (parse_mount home y file base_dir service index item) scan) scan (enumerate 0 items))"

definition parse_service :: "string option \<Rightarrow> 'y yaml_api \<Rightarrow> string \<Rightarrow> string \<Rightarrow> compose_scan
    \<Rightarrow> 'y \<times> 'y \<Rightarrow> compose_scan" where
  "parse_service home y file base_dir scan entry = (case entry of (service_key, service_value) \<Rightarrow>
     (case ya_as_str y service_key of
        None \<Rightarrow> push_diagnostic_scan (compose_diag ''compose_non_string_service_name'' DS_Error
          ''Service names must be strings.'' (compose_origin file None ''services'')) scan
      | Some service_name \<Rightarrow>
          (let scan' = scan\<lparr>sc_services := sc_services scan @
                 [\<lparr>cs_name = service_name,
                    cs_image = Option.bind (mapping_get y service_value ''image'') (ya_as_str y),
                    cs_environment = parse_environment y (mapping_get y service_value ''environment''),
                    cs_depends_on = parse_depends_on y (mapping_get y service_value ''depends_on'')\<rparr>]\<rparr>
           in case mapping_get y service_value ''volumes'' of
                None \<Rightarrow> scan'
              | Some volumes \<Rightarrow> parse_volumes home y file base_dir service_name volumes scan')))"

definition base_dir_of :: "string \<Rightarrow> string" where
  "base_dir_of file = (case path_parent file of Some p \<Rightarrow> p | None \<Rightarrow> ''.'')"

definition parse_compose_file :: "string option \<Rightarrow> 'y yaml_api \<Rightarrow> string \<Rightarrow> string \<Rightarrow> compose_scan \<Rightarrow> compose_scan" where
  "parse_compose_file home y file content scan =
     (let base_dir = base_dir_of file
      in case ya_from_str y content of
           Inl err \<Rightarrow> push_diagnostic_scan (compose_diag ''compose_yaml_parse_error'' DS_Blocked
             (''Compose YAML could not be parsed: '' @ err) (compose_origin file None ''document'')) scan
         | Inr document \<Rightarrow>
             (case Option.bind (mapping_get y document ''services'') (ya_as_mapping y) of
                None \<Rightarrow> push_diagnostic_scan (compose_diag ''compose_missing_services'' DS_Error
                  ''Compose file does not contain a services mapping.'' (compose_origin file None ''services'')) scan
              | Some services \<Rightarrow> foldl (parse_service home y file base_dir) scan services))"

section \<open>Merging services\<close>

definition merge_service :: "compose_service \<Rightarrow> compose_service \<Rightarrow> compose_service" where
  "merge_service service existing = existing\<lparr>
     cs_image := (if cs_image service \<noteq> None then cs_image service else cs_image existing),
     cs_environment := foldl (\<lambda>m (k, v). bt_insert k v m) (cs_environment existing) (cs_environment service),
     cs_depends_on := foldl (\<lambda>ds d. if d \<in> set ds then ds else ds @ [d]) (cs_depends_on existing)
       (cs_depends_on service)\<rparr>"

definition coalesce_step :: "(string, compose_service) btree_map \<Rightarrow> compose_service \<Rightarrow> (string, compose_service) btree_map" where
  "coalesce_step services_by_name service = (case bt_get services_by_name (cs_name service) of
       Some existing \<Rightarrow> bt_insert (cs_name service) (merge_service service existing) services_by_name
     | None \<Rightarrow> bt_insert (cs_name service) service services_by_name)"

definition coalesce_compose_services :: "compose_scan \<Rightarrow> compose_scan" where
  "coalesce_compose_services scan = scan\<lparr>sc_services := map snd (foldl coalesce_step [] (sc_services scan))\<rparr>"

section \<open>Diagnostics\<close>

definition target_diagnostics :: "compose_mount \<Rightarrow> compose_diagnostic list" where
  "target_diagnostics mount =
     (if trim (mt_target mount) = [] \<or> \<not> looks_like_container_path (mt_target mount)
      then [compose_diag ''compose_invalid_container_target'' DS_Error
        (''Mount target `'' @ mt_target mount @ ''` is not an absolute container path.'') (mt_origin mount)]
      else [])"

definition kind_diagnostics :: "compose_mount \<Rightarrow> compose_diagnostic list" where
  "kind_diagnostics mount =
     (if mt_kind mount = CMK_Unsupported
      then [compose_diag ''compose_unsupported_mount_type'' DS_Warning
        ''Unsupported mount type was preserved but cannot be validated yet.'' (mt_origin mount)]
      else [])"

definition source_diagnostics :: "compose_mount \<Rightarrow> compose_diagnostic list" where
  "source_diagnostics mount = (case mt_source mount of
       None \<Rightarrow> []
     | Some source \<Rightarrow>
         (if str_contains source ''${'' \<or> CHR ''$'' \<in> set source
          then [compose_diag ''compose_unresolved_variable'' DS_Warning
            (''Mount source `'' @ source @ ''` contains an unresolved variable.'') (mt_origin mount)] else [])
         @ (if CHR 0x00 \<in> set source
            then [compose_diag ''compose_invalid_source_path'' DS_Blocked
              ''Mount source contains a NUL byte.'' (mt_origin mount)] else []))"

definition symlink_diagnostics :: "compose_io \<Rightarrow> compose_mount \<Rightarrow> string \<Rightarrow> compose_diagnostic list" where
  "symlink_diagnostics io mount resolved = (case io_symlink io resolved of
       Some True \<Rightarrow> [compose_diag ''compose_bind_source_symlink'' DS_Warning (''Bind source `'' @ resolved
         @ ''` is a symlink; DockerMap will not follow it during validation.'') (mt_origin mount)]
     | Some False \<Rightarrow> []
     | None \<Rightarrow> [compose_diag ''compose_missing_bind_source'' DS_Warning (''Bind source `'' @ resolved
         @ ''` does not exist on the host.'') (mt_origin mount)])"

definition bind_diagnostics :: "compose_io \<Rightarrow> compose_mount \<Rightarrow> compose_diagnostic list" where
  "bind_diagnostics io mount = (case (mt_kind mount, mt_resolved_source mount) of
       (CMK_Bind, Some resolved) \<Rightarrow>
         (case unsafe_bind_source_diagnostic resolved of
            Some (severity, message) \<Rightarrow> [compose_diag ''compose_unsafe_bind_source'' severity message (mt_origin mount)]
          | None \<Rightarrow> [])
         @ (if has_parent_traversal resolved
            then [compose_diag ''compose_parent_traversal'' DS_Warning (''Bind source `'' @ resolved
              @ ''` traverses outside its compose directory.'') (mt_origin mount)] else [])
         @ symlink_diagnostics io mount resolved
     | _ \<Rightarrow> [])"

definition mount_diagnostics :: "compose_io \<Rightarrow> compose_mount \<Rightarrow> compose_diagnostic list" where
  "mount_diagnostics io mount = target_diagnostics mount @ kind_diagnostics mount @ source_diagnostics mount
     @ bind_diagnostics io mount"

definition targets_by_service :: "compose_mount list \<Rightarrow> (string \<times> string, compose_file_origin list) btree_map" where
  "targets_by_service mounts = foldl (\<lambda>m mount.
     bt_insert (mt_service mount, mt_target mount)
       ((case bt_get m (mt_service mount, mt_target mount) of None \<Rightarrow> [] | Some os \<Rightarrow> os) @ [mt_origin mount]) m)
     [] mounts"

definition duplicate_diagnostics :: "(string \<times> string) \<times> compose_file_origin list \<Rightarrow> compose_diagnostic list" where
  "duplicate_diagnostics entry = (case entry of ((service, target), origins) \<Rightarrow>
     if length origins > 1
     then map (compose_diag ''compose_duplicate_target'' DS_Error (''Service `'' @ service
       @ ''` declares multiple mounts for `'' @ target @ ''`.'')) origins
     else [])"

definition validate_compose_scan :: "compose_io \<Rightarrow> compose_scan \<Rightarrow> compose_scan" where
  "validate_compose_scan io scan = scan\<lparr>sc_diagnostics := sc_diagnostics scan
     @ concat (map (mount_diagnostics io) (sc_mounts scan))
     @ concat (map duplicate_diagnostics (targets_by_service (sc_mounts scan)))\<rparr>"

section \<open>Scans\<close>

definition empty_scan :: "string \<Rightarrow> string list \<Rightarrow> compose_scan" where
  "empty_scan project_root files = \<lparr>sc_files = files, sc_project_root = project_root, sc_services = [],
     sc_mounts = [], sc_correlations = [], sc_diagnostics = []\<rparr>"

fun scan_files :: "'y yaml_api \<Rightarrow> compose_io \<Rightarrow> string list \<Rightarrow> compose_scan \<Rightarrow> string + compose_scan" where
  "scan_files y io [] scan = Inr scan"
| "scan_files y io (file # files) scan = (case read_compose_file_bounded io file of
       Inl err \<Rightarrow> Inl err
     | Inr content \<Rightarrow> scan_files y io files (parse_compose_file (io_home io) y file content scan))"

definition scan_compose_files :: "'y yaml_api \<Rightarrow> compose_io \<Rightarrow> string \<Rightarrow> string list \<Rightarrow> string + compose_scan" where
  "scan_compose_files y io project_root files =
     (if files = [] then Inr (push_diagnostic_scan (compose_diag ''compose_no_files'' DS_Warning
        ''No Compose files were discovered or supplied.'' (compose_origin project_root None ''files''))
        (empty_scan project_root files))
      else map_sum id (\<lambda>scan. validate_compose_scan io (coalesce_compose_services scan))
        (scan_files y io files (empty_scan project_root files)))"

definition document_name :: "'y yaml_api \<Rightarrow> 'y \<Rightarrow> string option" where
  "document_name y document =
     (case map_option trim (Option.bind (mapping_get y document ''name'') (ya_as_str y)) of
        Some name \<Rightarrow> if name = [] then None else Some name
      | None \<Rightarrow> None)"

fun document_names :: "'y yaml_api \<Rightarrow> (string \<Rightarrow> string option) \<Rightarrow> string list \<Rightarrow> string list option" where
  "document_names y content [] = Some []"
| "document_names y content (file # files) = (case content file of
       None \<Rightarrow> None
     | Some text' \<Rightarrow> (case ya_from_str y text' of
         Inl _ \<Rightarrow> None
       | Inr document \<Rightarrow> map_option (\<lambda>ns. (case document_name y document of None \<Rightarrow> ns | Some n \<Rightarrow> n # ns))
           (document_names y content files)))"

definition single_name :: "string list \<Rightarrow> string option" where
  "single_name names = (case bs_collect names of [name] \<Rightarrow> Some name | _ \<Rightarrow> None)"

definition explicit_compose_project_name :: "'y yaml_api \<Rightarrow> compose_io \<Rightarrow> string list \<Rightarrow> string option" where
  "explicit_compose_project_name y io files =
     Option.bind (document_names y (bounded_compose_content io) files) single_name"

fun fingerprint_bytes :: "(string \<Rightarrow> string option) \<Rightarrow> string list \<Rightarrow> string option" where
  "fingerprint_bytes content [] = Some []"
| "fingerprint_bytes content (file # files) = (case content file of
       None \<Rightarrow> None
     | Some text' \<Rightarrow> map_option (\<lambda>bs. file @ [CHR 0x00] @ text' @ [CHR 0x00] @ bs) (fingerprint_bytes content files))"

definition compose_files_fingerprint :: "digest \<Rightarrow> compose_io \<Rightarrow> string list \<Rightarrow> string option" where
  "compose_files_fingerprint sha256 io files =
     map_option (hex_digest sha256) (fingerprint_bytes (bounded_compose_content io) files)"

text \<open>\<open>io\<close> is the file system when the documents are captured, \<open>later\<close> when they are read again.\<close>

definition captured :: "compose_io \<Rightarrow> string \<Rightarrow> string \<Rightarrow> string option" where
  "captured io root file =
     (case read_compose_file_bounded_under_root io root file of Inl _ \<Rightarrow> None | Inr s \<Rightarrow> Some s)"

definition scan_compose_binding_snapshot :: "digest \<Rightarrow> 'y yaml_api \<Rightarrow> compose_io \<Rightarrow> compose_io \<Rightarrow> string
    \<Rightarrow> string list \<Rightarrow> (compose_scan \<times> string \<times> string) option" where
  "scan_compose_binding_snapshot sha256 y io later project_root files =
     (case (document_names y (captured io project_root) files, fingerprint_bytes (captured io project_root) files) of
        (Some names, Some bytes) \<Rightarrow>
          if list_ex (\<lambda>file. captured later project_root file \<noteq> captured io project_root file) files then None
          else (case single_name names of
                  None \<Rightarrow> None
                | Some project \<Rightarrow>
                    let scan = foldl (\<lambda>scan file. parse_compose_file (io_home io) y file
                          (the (captured io project_root file)) scan) (empty_scan project_root files) files
                    in Some (validate_compose_scan later (coalesce_compose_services scan), project,
                         hex_digest sha256 bytes))
      | _ \<Rightarrow> None)"

end
