(* ===== verification/Compose_Edit.thy ===== *)
theory Compose_Edit
  imports Compose_Scan
begin

text \<open>
  The dry-run planner of a mount edit (\<open>plan_compose_mount_edit\<close> in \<open>compose.rs\<close>): its checks, the
  replacement of a token on the line of the declaration, and the diff it shows.
\<close>

section \<open>The diff\<close>

fun diff_lines :: "string list \<Rightarrow> string list \<Rightarrow> string" where
  "diff_lines (left # ls) (right # rs) =
     (if left = right then CHR '' '' # left @ [LF]
      else CHR ''-'' # left @ [LF] @ CHR ''+'' # right @ [LF]) @ diff_lines ls rs"
| "diff_lines (left # ls) [] = CHR ''-'' # left @ [LF] @ diff_lines ls []"
| "diff_lines [] (right # rs) = CHR ''+'' # right @ [LF] @ diff_lines [] rs"
| "diff_lines [] [] = []"

definition unified_diff :: "string \<Rightarrow> string \<Rightarrow> string \<Rightarrow> string" where
  "unified_diff file original planned =
     ''--- '' @ file @ [LF] @ ''+++ '' @ file @ '' (dry-run)'' @ [LF]
       @ diff_lines (str_lines original) (str_lines planned)"

section \<open>Replacing a token\<close>

definition replace_first :: "string \<Rightarrow> string \<Rightarrow> string \<Rightarrow> string" where
  "replace_first line old new = (case find_split line old of Some (a, b) \<Rightarrow> a @ new @ b | None \<Rightarrow> line)"

definition edit_candidates :: "string list \<Rightarrow> compose_mount \<Rightarrow> string \<Rightarrow> nat list" where
  "edit_candidates lines mount old =
     filter (\<lambda>i. str_contains (lines ! i) old \<and> str_contains (lines ! i) (mt_target mount)) [0..<length lines]"

definition replace_mount_line_token :: "string \<Rightarrow> compose_mount \<Rightarrow> string \<Rightarrow> string \<Rightarrow> string \<Rightarrow> string
    \<Rightarrow> string \<times> compose_diagnostic list" where
  "replace_mount_line_token content mount old new diagnostic_id diagnostic_message =
     (let lines = str_lines content
      in case edit_candidates lines mount old of
           [k] \<Rightarrow> (str_join [LF] (lines[k := replace_first (lines ! k) old new])
              @ (if ends_with content [LF] then [LF] else []), [])
         | _ \<Rightarrow> (content, [compose_diag diagnostic_id DS_Blocked diagnostic_message (mt_origin mount)]))"

section \<open>The plan\<close>

definition edit_plan :: "string \<Rightarrow> compose_mount \<Rightarrow> string option \<Rightarrow> string option \<Rightarrow> string
    \<Rightarrow> compose_diagnostic list \<Rightarrow> compose_edit_plan" where
  "edit_plan file mount new_source new_target diff diagnostics = \<lparr>ep_file = file, ep_service = mt_service mount,
     ep_mount_id = mt_id mount, ep_original_source = mt_source mount, ep_original_target = mt_target mount,
     ep_new_source = new_source, ep_new_target = new_target, ep_unified_diff = diff,
     ep_diagnostics = diagnostics, ep_will_write = False\<rparr>"

definition clean_value :: "string option \<Rightarrow> string option" where
  "clean_value v = (case map_option trim v of Some s \<Rightarrow> if s = [] then None else Some s | None \<Rightarrow> None)"

definition is_blocked :: "compose_diagnostic list \<Rightarrow> bool" where
  "is_blocked ds \<longleftrightarrow> list_ex (\<lambda>d. cd_severity d = DS_Blocked) ds"

definition request_diagnostics :: "compose_mount \<Rightarrow> string option \<Rightarrow> string option \<Rightarrow> compose_diagnostic list" where
  "request_diagnostics mount source target =
     (if source = None \<and> target = None
      then [compose_diag ''edit_noop'' DS_Error ''Edit plan requires a new source, target, or both.'' (mt_origin mount)]
      else [])
     @ (if source \<noteq> None \<and> mt_kind mount \<noteq> CMK_Bind
        then [compose_diag ''edit_source_requires_bind'' DS_Blocked
          ''Only bind mount sources can be changed by this dry-run planner.'' (mt_origin mount)]
        else [])
     @ (case target of
          Some t \<Rightarrow> if CHR 0x00 \<in> set t \<or> \<not> looks_like_container_path t
            then [compose_diag ''edit_invalid_target'' DS_Blocked
              ''New mount target must be an absolute container path.'' (mt_origin mount)]
            else []
        | None \<Rightarrow> [])
     @ (case source of
          Some s \<Rightarrow> if CHR 0x00 \<in> set s
            then [compose_diag ''edit_invalid_source'' DS_Blocked
              ''New mount source contains a NUL byte.'' (mt_origin mount)]
            else []
        | None \<Rightarrow> [])"

definition plan_source :: "string \<Rightarrow> compose_mount \<Rightarrow> string option \<Rightarrow> string \<times> compose_diagnostic list" where
  "plan_source content mount source = (case source of
       None \<Rightarrow> (content, [])
     | Some new \<Rightarrow> apsnd ((@) (if has_parent_traversal new
           then [compose_diag ''edit_source_parent_traversal'' DS_Blocked
             ''New mount source must not contain parent traversal.'' (mt_origin mount)] else []))
         (case mt_source mount of
            Some original \<Rightarrow> replace_mount_line_token content mount original new ''edit_original_source_not_found''
              ''Original mount source could not be uniquely found on the mount declaration line.''
          | None \<Rightarrow> (content, [compose_diag ''edit_missing_original_source'' DS_Blocked
              ''Mount has no original source to replace.'' (mt_origin mount)])))"

definition plan_target :: "string \<Rightarrow> compose_mount \<Rightarrow> string option \<Rightarrow> string \<times> compose_diagnostic list" where
  "plan_target content mount target = (case target of
       None \<Rightarrow> (content, [])
     | Some new \<Rightarrow> replace_mount_line_token content mount (mt_target mount) new ''edit_original_target_not_found''
         ''Original mount target could not be uniquely found on the mount declaration line.'')"

definition plan_compose_mount_edit :: "string \<Rightarrow> string \<Rightarrow> compose_mount \<Rightarrow> string option \<Rightarrow> string option
    \<Rightarrow> compose_edit_plan" where
  "plan_compose_mount_edit file content mount new_source new_target =
     (let source = clean_value new_source; target = clean_value new_target;
          requested = request_diagnostics mount source target
      in if is_blocked requested then edit_plan file mount source target [] requested
         else case plan_source content mount source of (planned1, ds1) \<Rightarrow>
              case plan_target planned1 mount target of (planned, ds2) \<Rightarrow>
              let diagnostics = requested @ ds1 @ ds2
              in edit_plan file mount source target
                   (if is_blocked diagnostics \<or> planned = content then [] else unified_diff file content planned)
                   diagnostics)"

section \<open>The diff shows both texts\<close>

text \<open>The two sides of a diff: what stays or goes, and what stays or comes.\<close>

definition diff_body :: "string \<Rightarrow> string list" where
  "diff_body diff = drop 2 (butlast (split_char LF diff))"

definition old_side :: "string list \<Rightarrow> string list" where
  "old_side body = map tl (filter (\<lambda>l. hd l \<noteq> CHR ''+'') body)"

definition new_side :: "string list \<Rightarrow> string list" where
  "new_side body = map tl (filter (\<lambda>l. hd l \<noteq> CHR ''-'') body)"

lemma split_LF: "LF \<notin> set a \<Longrightarrow> split_char LF (a @ LF # s) = a # split_char LF s"
  by (rule split_append)

lemma split_marked: "LF \<notin> set a \<Longrightarrow> x \<noteq> LF \<Longrightarrow> split_char LF (x # a @ LF # s) = (x # a) # split_char LF s"
  using split_LF [of "x # a"] by simp

lemma markers: "CHR '' '' \<noteq> LF" "CHR ''-'' \<noteq> LF" "CHR ''+'' \<noteq> LF" by (simp_all add: LF_def)

lemma diff_sides:
  assumes "list_all (\<lambda>l. LF \<notin> set l) ls" "list_all (\<lambda>l. LF \<notin> set l) rs"
  shows "old_side (butlast (split_char LF (diff_lines ls rs))) = ls
    \<and> new_side (butlast (split_char LF (diff_lines ls rs))) = rs"
  using assms
proof (induction ls rs rule: diff_lines.induct)
  case (1 left ls right rs)
  then show ?case by (simp add: split_marked markers old_side_def new_side_def del: split_char.simps)
next
  case (2 left ls)
  then show ?case by (simp add: split_marked markers old_side_def new_side_def del: split_char.simps)
next
  case (3 right rs)
  then show ?case by (simp add: split_marked markers old_side_def new_side_def del: split_char.simps)
qed (simp add: old_side_def new_side_def)

lemma lines_no_LF: "list_all (\<lambda>l. LF \<notin> set l) (str_lines s)"
proof -
  have free: "LF \<notin> set x" if "x \<in> set (split_char LF s)" for x by (rule split_char_free [OF that])
  have "LF \<notin> set (strip_cr x)" if "x \<in> set (split_char LF s)" for x
    using free [OF that] by (auto simp: strip_cr_def strip_suffix_Some split: option.split)
  then show ?thesis
    using free last_in_set [of "split_char LF s"]
    by (auto simp: str_lines_def Let_def list_all_iff dest: in_set_butlastD)
qed

lemma unified_diff_sides_lines:
  assumes "LF \<notin> set file"
  shows "old_side (diff_body (unified_diff file original planned)) = str_lines original
    \<and> new_side (diff_body (unified_diff file original planned)) = str_lines planned"
proof -
  let ?d = "diff_lines (str_lines original) (str_lines planned)"
  have dash: "CHR ''-'' \<noteq> LF" "CHR '' '' \<noteq> LF" "CHR ''+'' \<noteq> LF" "LF \<notin> set '' (dry-run)''" by (simp_all add: LF_def)
  have "split_char LF (unified_diff file original planned)
      = (''--- '' @ file) # split_char LF ((''+++ '' @ file @ '' (dry-run)'') @ LF # ?d)"
    using split_LF [of "''--- '' @ file" "(''+++ '' @ file @ '' (dry-run)'') @ LF # ?d"] assms dash
    by (simp add: unified_diff_def)
  also have "split_char LF ((''+++ '' @ file @ '' (dry-run)'') @ LF # ?d)
      = (''+++ '' @ file @ '' (dry-run)'') # split_char LF ?d"
    by (rule split_LF) (use assms dash in simp)
  finally have "diff_body (unified_diff file original planned) = butlast (split_char LF ?d)"
    by (simp add: diff_body_def)
  then show ?thesis using diff_sides [OF lines_no_LF lines_no_LF] by simp
qed

text \<open>
  The diff is faithful to both texts: the lines it keeps and removes are the lines of the
  original, the lines it keeps and adds are the lines of the planned text, in their order.
\<close>

lemma unified_diff_sides:
  assumes "LF \<notin> set file"
  shows "old_side (diff_body (unified_diff file original planned)) = str_lines original
    \<and> new_side (diff_body (unified_diff file original planned)) = str_lines planned"
  by (rule unified_diff_sides_lines [OF assms])

section \<open>What a plan does\<close>

text \<open>One line is edited: the only one that has both the token and the target of the mount.\<close>

definition edits_one_line :: "compose_mount \<Rightarrow> string \<Rightarrow> string \<Rightarrow> string list \<Rightarrow> string list \<Rightarrow> bool" where
  "edits_one_line mount old new ls ls' \<longleftrightarrow> (\<exists>k a b. k < length ls \<and> ls ! k = a @ old @ b
     \<and> str_contains (ls ! k) (mt_target mount) \<and> ls' = ls[k := a @ new @ b]
     \<and> (\<forall>j < length ls. j \<noteq> k \<longrightarrow> \<not> (str_contains (ls ! j) old \<and> str_contains (ls ! j) (mt_target mount))))"

lemma replaced_line:
  assumes "replace_mount_line_token content mount old new i message = (planned, [])"
  shows "\<exists>ls'. edits_one_line mount old new (str_lines content) ls'
    \<and> planned = str_join [LF] ls' @ (if ends_with content [LF] then [LF] else [])"
proof -
  let ?ls = "str_lines content"
  obtain k where k: "edit_candidates ?ls mount old = [k]"
    and planned: "planned = str_join [LF] (?ls[k := replace_first (?ls ! k) old new])
      @ (if ends_with content [LF] then [LF] else [])"
    using assms by (auto simp: replace_mount_line_token_def Let_def split: list.splits)
  have mem: "j \<in> set (edit_candidates ?ls mount old) \<longleftrightarrow> j < length ?ls \<and> str_contains (?ls ! j) old
      \<and> str_contains (?ls ! j) (mt_target mount)" for j
    by (auto simp: edit_candidates_def)
  have in_k: "k < length ?ls" "str_contains (?ls ! k) old" "str_contains (?ls ! k) (mt_target mount)"
    using mem [of k] by (simp_all add: k)
  then obtain a b where ab: "find_split (?ls ! k) old = Some (a, b)" by (auto simp: str_contains_find)
  then have "?ls ! k = a @ old @ b" "replace_first (?ls ! k) old new = a @ new @ b"
    by (auto simp: replace_first_def dest: find_split_Some)
  moreover have "\<not> (str_contains (?ls ! j) old \<and> str_contains (?ls ! j) (mt_target mount))"
    if "j < length ?ls" "j \<noteq> k" for j
    using mem [of j] that by (simp add: k)
  ultimately have "edits_one_line mount old new ?ls (?ls[k := a @ new @ b])"
    unfolding edits_one_line_def by (intro exI [of _ k] exI [of _ a] exI [of _ b]) (use in_k in simp)
  then show ?thesis using planned \<open>replace_first (?ls ! k) old new = a @ new @ b\<close> by auto
qed

lemma blocked_append: "is_blocked (a @ b) \<longleftrightarrow> is_blocked a \<or> is_blocked b"
  by (simp add: is_blocked_def)

lemma apsnd_append_nil [simp]: "apsnd ((@) []) r = r"
  by (cases r) simp

lemma token_blocked:
  "replace_mount_line_token content mount old new i message = (planned, ds) \<Longrightarrow> \<not> is_blocked ds \<Longrightarrow> ds = []"
proof (cases "\<exists>k. edit_candidates (str_lines content) mount old = [k]")
  case True
  assume "replace_mount_line_token content mount old new i message = (planned, ds)"
  then show "ds = []" using True by (auto simp: replace_mount_line_token_def Let_def)
next
  case False
  assume r: "replace_mount_line_token content mount old new i message = (planned, ds)" and ok: "\<not> is_blocked ds"
  have "ds = [compose_diag i DS_Blocked message (mt_origin mount)]"
    using r False by (auto simp: replace_mount_line_token_def Let_def split: list.splits)
  then show "ds = []" using ok by (simp add: is_blocked_def compose_diag_def)
qed


section \<open>A target edit that changes the source\<close>

definition example_file :: string where
  "example_file = str_join [LF] [''volumes:'', ''  - ./data:/data'', []]"

definition example_mount :: compose_mount where
  "example_mount = new_mount None ''compose.yaml'' ''.'' ''web'' 0 CMK_Bind (Some ''./data'') ''/data'' False"

lemma example_lines: "str_lines example_file = [''volumes:'', ''  - ./data:/data'']"
proof -
  have "split_char LF example_file = [''volumes:'', ''  - ./data:/data'', []]"
    unfolding example_file_def by (rule split_join) (simp_all add: LF_def)
  then show ?thesis by (simp add: str_lines_def strip_cr_def strip_suffix_def suffix_def CR_def)
qed

lemma example_planned:
  "ends_with example_file [LF]"
  "replace_mount_line_token example_file example_mount ''/data'' new i message
     = (str_join [LF] [''volumes:'', ''  - .'' @ new @ '':/data'', []], [])"
proof -
  show newline: "ends_with example_file [LF]" by (simp add: example_file_def ends_with_def suffix_def LF_def)
  have "edit_candidates (str_lines example_file) example_mount ''/data'' = [1]"
    by (simp add: edit_candidates_def example_lines example_mount_def new_mount_def upt_rec)
  then show "replace_mount_line_token example_file example_mount ''/data'' new i message
      = (str_join [LF] [''volumes:'', ''  - .'' @ new @ '':/data'', []], [])"
    using newline by (simp add: replace_mount_line_token_def example_lines replace_first_def)
qed

lemma example_plan:
  "old_side (diff_body (ep_unified_diff (plan_compose_mount_edit ''compose.yaml'' example_file example_mount None (Some ''/srv''))))
     = [''volumes:'', ''  - ./data:/data'']
   \<and> new_side (diff_body (ep_unified_diff (plan_compose_mount_edit ''compose.yaml'' example_file example_mount None (Some ''/srv''))))
     = [''volumes:'', ''  - ./srv:/data'']
   \<and> ep_diagnostics (plan_compose_mount_edit ''compose.yaml'' example_file example_mount None (Some ''/srv'')) = []"
proof -
  define new where "new = str_join [LF] [''volumes:'', ''  - ./srv:/data'', []]"
  have clean: "clean_value None = None" "clean_value (Some ''/srv'') = Some ''/srv''" by (simp add: clean_value_def, code_simp)
  have requested: "request_diagnostics example_mount None (Some ''/srv'') = []"
    by (simp add: request_diagnostics_def looks_like_container_path_def starts_with_def)
  have target: "mt_target example_mount = ''/data''" by (simp add: example_mount_def new_mount_def)
  have planned: "plan_target example_file example_mount (Some ''/srv'') = (new, [])"
    using example_planned(2) by (simp add: plan_target_def target new_def)
  have lines: "str_lines new = [''volumes:'', ''  - ./srv:/data'']"
  proof -
    have "split_char LF new = [''volumes:'', ''  - ./srv:/data'', []]"
      unfolding new_def by (rule split_join) (simp_all add: LF_def)
    then show ?thesis by (simp add: str_lines_def strip_cr_def strip_suffix_def suffix_def CR_def)
  qed
  have "new \<noteq> example_file"
  proof
    assume "new = example_file"
    then have "str_lines new = str_lines example_file" by (rule arg_cong)
    then show False unfolding lines example_lines by simp
  qed
  then have plan: "plan_compose_mount_edit ''compose.yaml'' example_file example_mount None (Some ''/srv'')
      = edit_plan ''compose.yaml'' example_mount None (Some ''/srv'') (unified_diff ''compose.yaml'' example_file new) []"
    by (simp add: plan_compose_mount_edit_def clean requested planned plan_source_def is_blocked_def Let_def)
  have "LF \<notin> set ''compose.yaml''" by (simp add: LF_def)
  from unified_diff_sides_lines [OF this, of example_file new] show ?thesis
    unfolding plan by (simp add: lines example_lines edit_plan_def)
qed

lemma example_plan_shown:
  "ep_unified_diff (plan_compose_mount_edit ''compose.yaml'' example_file example_mount None (Some ''/srv'')) \<noteq> []"
proof
  assume "ep_unified_diff (plan_compose_mount_edit ''compose.yaml'' example_file example_mount None (Some ''/srv'')) = []"
  then show False using example_plan by (simp add: diff_body_def old_side_def)
qed

text \<open>
  An edit of a target can change the source instead: the token is replaced where it first occurs
  on the line, and in a mount of \<open>./data\<close> at \<open>/data\<close> that is inside the source. The plan shows the
  source changed and the target kept, without a diagnostic.
\<close>

lemma target_edit_changes_source:
  "old_side (diff_body (ep_unified_diff (plan_compose_mount_edit ''compose.yaml'' example_file example_mount None (Some ''/srv''))))
     = [''volumes:'', ''  - ./data:/data'']
   \<and> new_side (diff_body (ep_unified_diff (plan_compose_mount_edit ''compose.yaml'' example_file example_mount None (Some ''/srv''))))
     = [''volumes:'', ''  - ./srv:/data'']
   \<and> ep_diagnostics (plan_compose_mount_edit ''compose.yaml'' example_file example_mount None (Some ''/srv'')) = []"
  by (rule example_plan)


end
