(* ===== verification/Compose_Runtime.thy ===== *)
theory Compose_Runtime
  imports Models Identity Rust_Str
begin

text \<open>
  Compose declarations against the running containers, and the graph of the declarations
  (\<open>correlate_compose_runtime\<close> and \<open>derive_compose_graph\<close> in \<open>compose.rs\<close>).
\<close>

section \<open>Correlation\<close>

definition container_matches_service :: "container_record \<Rightarrow> string \<Rightarrow> bool" where
  "container_matches_service c service \<longleftrightarrow> ct_role c = service \<or> ct_name c = service
     \<or> ends_with (ct_name c) (''_'' @ service @ ''_1'') \<or> ends_with (ct_name c) (''-'' @ service @ ''-1'')"

definition declared_mount_source :: "compose_mount \<Rightarrow> string option" where
  "declared_mount_source mount = (case mt_kind mount of
       CMK_Bind \<Rightarrow> (case mt_resolved_source mount of Some s \<Rightarrow> Some s | None \<Rightarrow> mt_source mount)
     | CMK_NamedVolume \<Rightarrow> mt_source mount
     | CMK_AnonymousVolume \<Rightarrow> mt_source mount
     | CMK_Unsupported \<Rightarrow> mt_source mount)"

definition compose_mounts_match :: "compose_mount \<Rightarrow> container_mount \<Rightarrow> bool" where
  "compose_mounts_match declared runtime \<longleftrightarrow> mt_kind declared = cm_kind runtime \<and> mt_target declared = cm_target runtime
     \<and> (case mt_kind declared of
          CMK_Bind \<Rightarrow> declared_mount_source declared = cm_source runtime
        | CMK_NamedVolume \<Rightarrow> declared_mount_source declared = cm_source runtime
        | CMK_AnonymousVolume \<Rightarrow> True
        | CMK_Unsupported \<Rightarrow> False)"

definition service_containers :: "docker_snapshot \<Rightarrow> string \<Rightarrow> container_record list" where
  "service_containers snapshot service = filter (\<lambda>c. container_matches_service c service) (sn_containers snapshot)"

definition match_result :: "docker_snapshot \<Rightarrow> compose_mount \<Rightarrow> (container_record \<times> container_mount) option" where
  "match_result snapshot mount =
     (case concat (map (\<lambda>c. map (Pair c) (case find (compose_mounts_match mount) (ct_mounts c) of None \<Rightarrow> [] | Some r \<Rightarrow> [r]))
             (service_containers snapshot (mt_service mount))) of
        [] \<Rightarrow> None
      | r # _ \<Rightarrow> Some r)"

definition declared_correlation :: "docker_snapshot \<Rightarrow> compose_mount \<Rightarrow> mount_correlation" where
  "declared_correlation snapshot mount = (case match_result snapshot mount of
       Some (c, runtime) \<Rightarrow> \<lparr>mc_id = ''matched:'' @ mt_id mount, mc_service = mt_service mount,
         mc_container = Some (ct_name c), mc_compose_mount_id = Some (mt_id mount), mc_kind = mt_kind mount,
         mc_target = mt_target mount, mc_declared_source = declared_mount_source mount,
         mc_runtime_source = cm_source runtime, mc_status = MCS_Matched\<rparr>
     | None \<Rightarrow> \<lparr>mc_id = ''missing:'' @ mt_id mount, mc_service = mt_service mount,
         mc_container = (case service_containers snapshot (mt_service mount) of [] \<Rightarrow> None | c # _ \<Rightarrow> Some (ct_name c)),
         mc_compose_mount_id = Some (mt_id mount), mc_kind = mt_kind mount,
         mc_target = mt_target mount, mc_declared_source = declared_mount_source mount,
         mc_runtime_source = None, mc_status = MCS_Missing\<rparr>)"

definition matched_runtime_mounts :: "docker_snapshot \<Rightarrow> compose_mount list \<Rightarrow> string list" where
  "matched_runtime_mounts snapshot mounts =
     bs_collect (map (\<lambda>(c, runtime). cm_id runtime) (List.map_filter (match_result snapshot) mounts))"

definition extra_correlation :: "string \<Rightarrow> container_record \<Rightarrow> container_mount \<Rightarrow> mount_correlation" where
  "extra_correlation service c runtime = \<lparr>mc_id = ''extra:'' @ ct_id c @ '':'' @ cm_id runtime, mc_service = service,
     mc_container = Some (ct_name c), mc_compose_mount_id = None, mc_kind = cm_kind runtime,
     mc_target = cm_target runtime, mc_declared_source = None, mc_runtime_source = cm_source runtime,
     mc_status = MCS_Extra\<rparr>"

definition extra_correlations :: "docker_snapshot \<Rightarrow> string list \<Rightarrow> compose_service \<Rightarrow> mount_correlation list" where
  "extra_correlations snapshot matched service =
     concat (map (\<lambda>c. map (extra_correlation (cs_name service) c)
         (filter (\<lambda>runtime. cm_id runtime \<notin> set matched) (ct_mounts c)))
       (service_containers snapshot (cs_name service)))"

definition correlate_compose_runtime :: "compose_scan \<Rightarrow> docker_snapshot \<Rightarrow> mount_correlation list" where
  "correlate_compose_runtime scan snapshot = sort_key mc_id
     (map (declared_correlation snapshot) (sc_mounts scan)
      @ concat (map (extra_correlations snapshot (matched_runtime_mounts snapshot (sc_mounts scan))) (sc_services scan)))"

section \<open>The graph of the declarations\<close>

definition compose_service_node_id :: "digest \<Rightarrow> string \<Rightarrow> string" where
  "compose_service_node_id sha256 service = ''compose_service_'' @ collision_resistant_id_component sha256 service"

definition or_insert_node :: "compose_graph_node \<Rightarrow> (string, compose_graph_node) btree_map
    \<Rightarrow> (string, compose_graph_node) btree_map" where
  "or_insert_node node m = (case bt_get m (xn_id node) of Some _ \<Rightarrow> m | None \<Rightarrow> bt_insert (xn_id node) node m)"

definition service_node :: "digest \<Rightarrow> string \<Rightarrow> compose_graph_node" where
  "service_node sha256 service =
     \<lparr>xn_id = compose_service_node_id sha256 service, xn_kind = CNK_Service, xn_label = service\<rparr>"

definition target_node :: "digest \<Rightarrow> compose_mount \<Rightarrow> compose_graph_node" where
  "target_node sha256 mount = \<lparr>xn_id = ''compose_container_path_''
       @ collision_resistant_id_component sha256 (mt_service mount) @ ''_''
       @ collision_resistant_id_component sha256 (mt_target mount),
     xn_kind = CNK_ContainerPath, xn_label = mt_service mount @ '':'' @ mt_target mount\<rparr>"

definition source_node :: "digest \<Rightarrow> compose_mount \<Rightarrow> compose_graph_node option" where
  "source_node sha256 mount = (case mt_kind mount of
       CMK_Bind \<Rightarrow> map_option (\<lambda>source. \<lparr>xn_id = ''compose_host_path_'' @ collision_resistant_id_component sha256 source,
           xn_kind = CNK_HostPath, xn_label = source\<rparr>)
         (case mt_resolved_source mount of Some s \<Rightarrow> Some s | None \<Rightarrow> mt_source mount)
     | CMK_NamedVolume \<Rightarrow> map_option (\<lambda>source. \<lparr>xn_id = ''compose_named_volume_'' @ collision_resistant_id_component sha256 source,
           xn_kind = CNK_NamedVolume, xn_label = source\<rparr>) (mt_source mount)
     | CMK_AnonymousVolume \<Rightarrow> Some \<lparr>xn_id = ''compose_anonymous_volume_'' @ collision_resistant_id_component sha256 (mt_id mount),
           xn_kind = CNK_AnonymousVolume, xn_label = ''anonymous volume''\<rparr>
     | CMK_Unsupported \<Rightarrow> None)"

definition graph_mount :: "digest \<Rightarrow> (string, compose_graph_node) btree_map \<times> compose_graph_edge list \<Rightarrow> compose_mount
    \<Rightarrow> (string, compose_graph_node) btree_map \<times> compose_graph_edge list" where
  "graph_mount sha256 ne mount = (case ne of (nodes, edges) \<Rightarrow>
     let service = service_node sha256 (mt_service mount);
         target = target_node sha256 mount;
         nodes' = or_insert_node target (or_insert_node service nodes);
         edges' = edges @ [\<lparr>xe_source = xn_id service, xe_target = xn_id target, xe_relationship = DeclaresMount\<rparr>]
     in case source_node sha256 mount of
          None \<Rightarrow> (nodes', edges')
        | Some source \<Rightarrow> (or_insert_node source nodes',
            edges' @ [\<lparr>xe_source = xn_id source, xe_target = xn_id target, xe_relationship = MountedAt\<rparr>]))"

definition derive_compose_graph :: "digest \<Rightarrow> compose_scan \<Rightarrow> compose_graph" where
  "derive_compose_graph sha256 scan =
     (case foldl (graph_mount sha256)
        (foldl (\<lambda>nodes service. or_insert_node (service_node sha256 (cs_name service)) nodes) [] (sc_services scan), [])
        (sc_mounts scan) of
        (nodes, edges) \<Rightarrow> \<lparr>xg_nodes = map snd nodes, xg_edges = edges\<rparr>)"

section \<open>Properties\<close>

lemma match_result_Some:
  assumes "match_result snapshot mount = Some (c, runtime)"
  shows "c \<in> set (service_containers snapshot (mt_service mount))" "runtime \<in> set (ct_mounts c)" "compose_mounts_match mount runtime"
proof -
  let ?xs = "concat (map (\<lambda>c. map (Pair c) (case find (compose_mounts_match mount) (ct_mounts c) of None \<Rightarrow> [] | Some r \<Rightarrow> [r]))
     (service_containers snapshot (mt_service mount)))"
  have "(c, runtime) \<in> set ?xs" using assms by (cases ?xs) (auto simp: match_result_def)
  then show "c \<in> set (service_containers snapshot (mt_service mount))" "runtime \<in> set (ct_mounts c)" "compose_mounts_match mount runtime"
    by (auto split: option.splits dest!: sym [of "Some _"] simp: find_Some_iff)
qed

lemma match_result_None:
  "match_result snapshot mount = None \<longleftrightarrow> (\<forall>c \<in> set (service_containers snapshot (mt_service mount)).
     \<forall>runtime \<in> set (ct_mounts c). \<not> compose_mounts_match mount runtime)"
proof -
  let ?xs = "concat (map (\<lambda>c. map (Pair c) (case find (compose_mounts_match mount) (ct_mounts c) of None \<Rightarrow> [] | Some r \<Rightarrow> [r]))
     (service_containers snapshot (mt_service mount)))"
  have "(case xs of [] \<Rightarrow> None | r # _ \<Rightarrow> Some r) = None \<longleftrightarrow> xs = []" for xs :: "'a list" by (cases xs) simp_all
  then have "match_result snapshot mount = None \<longleftrightarrow> ?xs = []" unfolding match_result_def .
  also have "\<dots> \<longleftrightarrow> (\<forall>c \<in> set (service_containers snapshot (mt_service mount)). find (compose_mounts_match mount) (ct_mounts c) = None)"
    unfolding concat_eq_Nil_conv by (auto split: option.splits)
  finally show ?thesis by (simp add: find_None_iff Ball_def)
qed

text \<open>
  C32. A correlation says exactly what is declared and what runs: every declared mount is reported
  once, as matched if and only if a container of its service has a mount of its kind, target and
  source; a running mount of a container of a declared service is reported as extra if and only if
  no declared mount was matched with it; and the report is ordered by its identifiers.
\<close>

theorem correlation_exact:
  "mset (filter (\<lambda>c. mc_status c \<noteq> MCS_Extra) (correlate_compose_runtime scan snapshot))
     = mset (map (declared_correlation snapshot) (sc_mounts scan))
   \<and> (mc_status (declared_correlation snapshot m) = MCS_Matched \<longleftrightarrow>
       (\<exists>c runtime. c \<in> set (sn_containers snapshot) \<and> container_matches_service c (mt_service m)
          \<and> runtime \<in> set (ct_mounts c) \<and> compose_mounts_match m runtime))
   \<and> (mc_status e = MCS_Extra \<and> e \<in> set (correlate_compose_runtime scan snapshot) \<longleftrightarrow>
       (\<exists>service c runtime. service \<in> set (sc_services scan) \<and> c \<in> set (sn_containers snapshot)
          \<and> container_matches_service c (cs_name service) \<and> runtime \<in> set (ct_mounts c)
          \<and> \<not> (\<exists>d c' runtime'. d \<in> set (sc_mounts scan) \<and> match_result snapshot d = Some (c', runtime')
               \<and> cm_id runtime' = cm_id runtime)
          \<and> e = extra_correlation (cs_name service) c runtime))
   \<and> sorted (map mc_id (correlate_compose_runtime scan snapshot))"
proof (intro conjI)
  let ?matched = "matched_runtime_mounts snapshot (sc_mounts scan)"
  let ?declared = "map (declared_correlation snapshot) (sc_mounts scan)"
  let ?extra = "concat (map (extra_correlations snapshot ?matched) (sc_services scan))"
  have statuses: "mc_status (declared_correlation snapshot d) \<noteq> MCS_Extra" for d
    by (simp add: declared_correlation_def split: option.split prod.split)
  have extras: "mc_status x = MCS_Extra" if "x \<in> set ?extra" for x
    using that by (auto simp: extra_correlations_def extra_correlation_def)
  have "filter (\<lambda>c. mc_status c \<noteq> MCS_Extra) ?declared = ?declared" using statuses by (simp add: filter_id_conv)
  moreover have "filter (\<lambda>c. mc_status c \<noteq> MCS_Extra) ?extra = []" using extras by (auto simp: filter_empty_conv)
  ultimately show "mset (filter (\<lambda>c. mc_status c \<noteq> MCS_Extra) (correlate_compose_runtime scan snapshot)) = mset ?declared"
    unfolding correlate_compose_runtime_def mset_filter mset_sort mset_append
    by (simp only: filter_union_mset mset_filter [symmetric] mset.simps(1) add_0_right)
  show "mc_status (declared_correlation snapshot m) = MCS_Matched \<longleftrightarrow>
       (\<exists>c runtime. c \<in> set (sn_containers snapshot) \<and> container_matches_service c (mt_service m)
          \<and> runtime \<in> set (ct_mounts c) \<and> compose_mounts_match m runtime)"
    using match_result_None [of snapshot m]
    by (auto simp: declared_correlation_def service_containers_def split: option.splits)
  have matched: "i \<in> set ?matched \<longleftrightarrow> (\<exists>d c' runtime'. d \<in> set (sc_mounts scan)
      \<and> match_result snapshot d = Some (c', runtime') \<and> cm_id runtime' = i)" for i
    by (force simp: matched_runtime_mounts_def List.map_filter_def)
  have "e \<in> set (correlate_compose_runtime scan snapshot) \<and> mc_status e = MCS_Extra \<longleftrightarrow> e \<in> set ?extra"
    using statuses extras by (auto simp: correlate_compose_runtime_def)
  then show "mc_status e = MCS_Extra \<and> e \<in> set (correlate_compose_runtime scan snapshot) \<longleftrightarrow>
       (\<exists>service c runtime. service \<in> set (sc_services scan) \<and> c \<in> set (sn_containers snapshot)
          \<and> container_matches_service c (cs_name service) \<and> runtime \<in> set (ct_mounts c)
          \<and> \<not> (\<exists>d c' runtime'. d \<in> set (sc_mounts scan) \<and> match_result snapshot d = Some (c', runtime')
               \<and> cm_id runtime' = cm_id runtime)
          \<and> e = extra_correlation (cs_name service) c runtime)"
    unfolding matched [symmetric] by (auto simp: extra_correlations_def service_containers_def)
  show "sorted (map mc_id (correlate_compose_runtime scan snapshot))" by (simp add: correlate_compose_runtime_def)
qed

section \<open>The graph is closed\<close>

definition graph_inv :: "(string, compose_graph_node) btree_map \<times> compose_graph_edge list \<Rightarrow> bool" where
  "graph_inv ne \<longleftrightarrow> (case ne of (nodes, edges) \<Rightarrow> bt_wf nodes \<and> list_all (\<lambda>(k, n). xn_id n = k) nodes
     \<and> list_all (\<lambda>e. xe_source e \<in> fst ` set nodes \<and> xe_target e \<in> fst ` set nodes) edges)"

lemma set_bt_insert_subset: "set (bt_insert k v m) \<subseteq> insert (k, v) (set m)"
  by (induction m) auto

lemma or_insert_keys: "fst ` set (or_insert_node n m) = insert (xn_id n) (fst ` set m)"
proof (cases "bt_get m (xn_id n)")
  case None
  then show ?thesis using set_bt_insert [of "xn_id n" n m] by (simp add: or_insert_node_def)
next
  case (Some x)
  then have "xn_id n \<in> fst ` set m" by (force simp: bt_get_def dest: map_of_SomeD)
  then show ?thesis using Some by (auto simp: or_insert_node_def)
qed

lemma or_insert_wf: "bt_wf m \<Longrightarrow> bt_wf (or_insert_node n m)"
  by (simp add: or_insert_node_def bt_wf_insert split: option.split)

lemma or_insert_ids:
  "list_all (\<lambda>(k, n). xn_id n = k) m \<Longrightarrow> list_all (\<lambda>(k, n). xn_id n = k) (or_insert_node n m)"
  using set_bt_insert_subset [of "xn_id n" n m] by (auto simp: or_insert_node_def list_all_iff split: option.split)

lemma graph_inv_node: "graph_inv (nodes, edges) \<Longrightarrow> graph_inv (or_insert_node n nodes, edges)"
  by (auto simp: graph_inv_def or_insert_wf or_insert_ids or_insert_keys list_all_iff [of _ edges])

lemma graph_inv_edge:
  "graph_inv (nodes, edges) \<Longrightarrow> xe_source e \<in> fst ` set nodes \<Longrightarrow> xe_target e \<in> fst ` set nodes
    \<Longrightarrow> graph_inv (nodes, edges @ [e])"
  by (simp add: graph_inv_def)

lemma graph_mount_inv:
  assumes "graph_inv ne"
  shows "graph_inv (graph_mount sha256 ne mount)"
proof -
  obtain nodes edges where ne: "ne = (nodes, edges)" by fastforce
  define service target where "service = service_node sha256 (mt_service mount)" and "target = target_node sha256 mount"
  define nodes' where "nodes' = or_insert_node target (or_insert_node service nodes)"
  define edge where "edge = \<lparr>xe_source = xn_id service, xe_target = xn_id target, xe_relationship = DeclaresMount\<rparr>"
  have "graph_inv (nodes', edges)" unfolding nodes'_def using assms ne by (simp add: graph_inv_node)
  moreover have keys: "xn_id service \<in> fst ` set nodes'" "xn_id target \<in> fst ` set nodes'"
    by (simp_all add: nodes'_def or_insert_keys)
  ultimately have inv: "graph_inv (nodes', edges @ [edge])" by (simp add: graph_inv_edge edge_def)
  show ?thesis
  proof (cases "source_node sha256 mount")
    case None
    then show ?thesis using inv
      by (simp add: ne graph_mount_def Let_def nodes'_def edge_def service_def target_def)
  next
    case (Some source)
    define edge' where "edge' = \<lparr>xe_source = xn_id source, xe_target = xn_id target, xe_relationship = MountedAt\<rparr>"
    have "graph_inv (or_insert_node source nodes', (edges @ [edge]) @ [edge'])"
      by (rule graph_inv_edge [OF graph_inv_node [OF inv]]) (use keys in \<open>simp_all add: edge'_def or_insert_keys\<close>)
    then show ?thesis using Some
      by (simp add: ne graph_mount_def Let_def nodes'_def edge_def edge'_def service_def target_def)
  qed
qed

lemma graph_fold_inv: "graph_inv ne \<Longrightarrow> graph_inv (foldl (graph_mount sha256) ne mounts)"
  by (induction mounts arbitrary: ne) (simp_all add: graph_mount_inv)

text \<open>
  The graph of the declarations is closed: its nodes have distinct identifiers, in their order,
  and every edge joins two of them.
\<close>

lemma compose_graph_closed:
  "sorted_wrt (<) (map xn_id (xg_nodes (derive_compose_graph sha256 scan)))
   \<and> (\<Union>e \<in> set (xg_edges (derive_compose_graph sha256 scan)). {xe_source e, xe_target e})
       \<subseteq> xn_id ` set (xg_nodes (derive_compose_graph sha256 scan))"
proof -
  let ?services = "foldl (\<lambda>nodes service. or_insert_node (service_node sha256 (cs_name service)) nodes)"
  have "graph_inv (?services m ss, [])" if "graph_inv (m, [])" for m ss
    using that
  proof (induction ss arbitrary: m)
    case (Cons s ss)
    then show ?case by (simp add: graph_inv_def or_insert_wf or_insert_ids)
  qed simp
  from this [of "[]" "sc_services scan"] have "graph_inv (?services [] (sc_services scan), [])"
    by (simp add: graph_inv_def bt_wf_def)
  from graph_fold_inv [OF this, of sha256 "sc_mounts scan"]
  obtain nodes edges where r: "foldl (graph_mount sha256) (?services [] (sc_services scan), []) (sc_mounts scan) = (nodes, edges)"
    and inv: "graph_inv (nodes, edges)"
    by (metis surj_pair)
  have ids: "map xn_id (map snd nodes) = map fst nodes" using inv by (auto simp: graph_inv_def list_all_iff)
  have g: "derive_compose_graph sha256 scan = \<lparr>xg_nodes = map snd nodes, xg_edges = edges\<rparr>"
    by (simp add: derive_compose_graph_def r)
  have "xn_id ` set (map snd nodes) = fst ` set nodes" using ids by (metis set_map)
  moreover have "sorted_wrt (<) (map xn_id (map snd nodes))" unfolding ids using inv by (simp add: graph_inv_def bt_wf_def)
  moreover have "xe_source e \<in> fst ` set nodes \<and> xe_target e \<in> fst ` set nodes" if "e \<in> set edges" for e
    using inv that by (simp add: graph_inv_def list_all_iff)
  ultimately show ?thesis by (simp only: g compose_graph.simps) blast
qed

end
