(* ===== verification/Redaction.thy ===== *)
theory Redaction
  imports Text Identity
begin

text \<open>
  The text gate of \<open>publication.rs\<close>: which text is sensitive, the replacement of sensitive
  text and of characters that are unsafe to display, truncation, the redaction of unified diffs,
  and identifiers of sensitive values. The process key of \<open>opaque_runtime_id_component\<close> is a
  parameter, as SHA-256 is.
\<close>

section \<open>Definitions\<close>

definition REDACTED_VALUE :: string where
  "REDACTED_VALUE = ''[redacted]''"

definition MAX_RUNTIME_EVIDENCE_TEXT_CHARS :: nat where
  "MAX_RUNTIME_EVIDENCE_TEXT_CHARS = 256"

definition truncate_chars :: "string \<Rightarrow> nat \<Rightarrow> string" where
  "truncate_chars text max_chars =
     of_chars (take max_chars (chars text))
     @ (if max_chars < char_count text then ''...'' else [])"

definition unsafe_runtime_display_character :: "nat \<Rightarrow> bool" where
  "unsafe_runtime_display_character code \<longleftrightarrow>
     is_control code
     \<or> 0x200B \<le> code \<and> code \<le> 0x200F
     \<or> 0x2028 \<le> code \<and> code \<le> 0x202E
     \<or> 0x2060 \<le> code \<and> code \<le> 0x2069
     \<or> code = 0xFEFF
     \<or> 0xFDD0 \<le> code \<and> code \<le> 0xFDEF
     \<or> code mod 0x10000 = 0xFFFE \<or> code mod 0x10000 = 0xFFFF"

definition display_char :: "nat \<Rightarrow> nat" where
  "display_char c = (if unsafe_runtime_display_character c then 0xFFFD else c)"

definition normalize_runtime_display_string :: "string \<Rightarrow> string" where
  "normalize_runtime_display_string text = of_chars (map display_char (chars text))"

definition contains_url_userinfo :: "string \<Rightarrow> bool" where
  "contains_url_userinfo text =
     (case find_split text ''://'' of
        None \<Rightarrow> False
      | Some (_, authority) \<Rightarrow> CHR ''@'' \<in> set (takeWhile (\<lambda>c. c \<notin> set ''/?#'') authority))"

definition sensitive_assignments :: "string list" where
  "sensitive_assignments =
    [''token='', ''token:'', ''auth_token='', ''auth_token:'', ''_authtoken='', ''_authtoken:'',
     ''_auth='', ''_auth:'', ''api_key='', ''api_key:'', ''api-key='', ''api-key:'',
     ''apikey='', ''apikey:'', ''x-api-key='', ''x-api-key:'', ''secret_key='', ''secret_key:'',
     ''secret-key='', ''secret-key:'', ''secret_access_key='', ''secret_access_key:'',
     ''secret-access-key='', ''secret-access-key:'', ''aws_secret_access_key='',
     ''aws_secret_access_key:'', ''authorization='', ''authorization:'', ''password='', ''password:'',
     ''passwd='', ''passwd:'', ''secret='', ''secret:'', ''client_secret='', ''client_secret:'',
     ''private_key='', ''private_key:'', ''credential='', ''credential:'', ''access_token='',
     ''access_token:'', ''refresh_token='', ''refresh_token:'']"

definition contains_sensitive_assignment :: "string \<Rightarrow> bool" where
  "contains_sensitive_assignment text = list_ex (str_contains text) sensitive_assignments"

definition sensitive_flags :: "string list" where
  "sensitive_flags = [''--token'', ''--auth'', ''--api-key'', ''--authorization'', ''--password'',
     ''--secret'', ''--client-secret'', ''--private-key'']"

definition contains_sensitive_flag :: "string \<Rightarrow> bool" where
  "contains_sensitive_flag text =
     list_ex (\<lambda>token. list_ex (\<lambda>flag. token = flag \<or> starts_with token (flag @ ''='')) sensitive_flags)
       (split_whitespace text)"

definition auth_schemes :: "string list" where
  "auth_schemes = [''authorization: bearer'', ''authorization: basic'', ''authorization=bearer'',
     ''authorization=basic'']"

definition contains_auth_scheme :: "string \<Rightarrow> bool" where
  "contains_auth_scheme text \<longleftrightarrow>
     starts_with (trim_start text) ''bearer '' \<or> list_ex (str_contains text) auth_schemes"

definition is_sensitive_text :: "string \<Rightarrow> bool" where
  "is_sensitive_text text =
     (let lower = to_ascii_lowercase text in
      str_contains lower ''dockermap_test_fake_''
      \<or> contains_url_userinfo text
      \<or> contains_sensitive_assignment lower
      \<or> contains_sensitive_flag lower
      \<or> contains_auth_scheme lower)"

definition redact_sensitive_text :: "string \<Rightarrow> string" where
  "redact_sensitive_text text = (if is_sensitive_text text then REDACTED_VALUE else text)"

definition redact_runtime_display_text :: "string \<Rightarrow> string" where
  "redact_runtime_display_text text = normalize_runtime_display_string (redact_sensitive_text text)"

definition redact_display_strings :: "string list \<Rightarrow> string list" where
  "redact_display_strings = map redact_runtime_display_text"

definition redact_diff_line :: "string \<Rightarrow> string" where
  "redact_diff_line line =
     (let (marker, rest) = (case line of
            [] \<Rightarrow> ([], [])
          | c # cs \<Rightarrow> if c \<in> {CHR ''+'', CHR ''-'', CHR '' ''} then ([c], cs) else ([], line))
      in if is_sensitive_text rest then marker @ REDACTED_VALUE else line)"

definition redact_unified_diff :: "string \<Rightarrow> string" where
  "redact_unified_diff diff = str_join [LF] (map redact_diff_line (str_lines diff))"

definition safe_runtime_id_component :: "digest \<Rightarrow> string \<Rightarrow> string \<Rightarrow> string" where
  "safe_runtime_id_component sha256 text fallback =
     (if redact_sensitive_text text = REDACTED_VALUE
      then fallback @ ''--'' @
        (case rsplit_once (collision_resistant_id_component sha256 text) ''--'' of
           None \<Rightarrow> ''identity'' | Some (_, hash) \<Rightarrow> hash)
      else collision_resistant_id_component sha256 text)"

definition opaque_runtime_id_component :: "digest \<Rightarrow> 8 word list \<Rightarrow> string \<Rightarrow> string \<Rightarrow> string" where
  "opaque_runtime_id_component sha256 key text fallback =
     fallback @ ''--'' @ hex_string (sha256 (key @ as_bytes text))"

section \<open>Display characters\<close>

lemma display_char_idem [simp]: "display_char (display_char c) = display_char c"
  by (simp add: display_char_def unsafe_runtime_display_character_def is_control_def)

lemma display_char_safe: "\<not> unsafe_runtime_display_character (display_char c)"
  by (simp add: display_char_def unsafe_runtime_display_character_def is_control_def)

lemma display_char_scalar: "is_scalar c \<Longrightarrow> is_scalar (display_char c)"
  by (simp add: display_char_def is_scalar_def)

lemma display_char_visible: "32 \<le> d \<Longrightarrow> d < 127 \<Longrightarrow> display_char c = d \<longleftrightarrow> c = d"
  by (auto simp: display_char_def unsafe_runtime_display_character_def is_control_def)

lemma display_char_whitespace: "is_whitespace (display_char c) \<Longrightarrow> display_char c = c"
  by (auto simp: display_char_def is_whitespace_def)

definition visible :: "string \<Rightarrow> bool" where
  "visible p \<longleftrightarrow> p \<noteq> [] \<and> list_all (\<lambda>c. 32 \<le> byte c \<and> byte c < 127) p"

lemma visible_ascii: "visible p \<Longrightarrow> ascii p"
  by (auto simp: visible_def ascii_def list_all_iff)

lemma visible_keeps: "visible p \<Longrightarrow> keeps display_char (map byte p)"
  by (auto simp: visible_def keeps_def list_all_iff display_char_visible)

lemma normalize_of_chars:
  "list_all is_scalar cs \<Longrightarrow> normalize_runtime_display_string (of_chars cs) = of_chars (map display_char cs)"
  by (simp add: normalize_runtime_display_string_def chars_of_chars_scalar)

lemma map_display_scalar: "list_all is_scalar cs \<Longrightarrow> list_all is_scalar (map display_char cs)"
  by (auto simp: list_all_iff display_char_scalar)

lemma normalize_contains:
  assumes "visible p" and "list_all is_scalar cs"
  shows "str_contains (of_chars (map display_char cs)) p \<longleftrightarrow> str_contains (of_chars cs) p"
proof -
  have "p \<noteq> []" "ascii p" "keeps display_char (map byte p)"
    using assms(1) visible_ascii visible_keeps by (auto simp: visible_def)
  then show ?thesis
    using assms(2) map_display_scalar [OF assms(2)]
    by (simp add: str_contains_of_chars find_split_map)
qed

section \<open>Lower case\<close>

definition lower_char :: "nat \<Rightarrow> nat" where
  "lower_char c = (if 65 \<le> c \<and> c \<le> 90 then c + 32 else c)"

lemma lower_char_scalar: "is_scalar c \<Longrightarrow> is_scalar (lower_char c)"
  by (auto simp: lower_char_def is_scalar_def)

lemma lower_char_enc:
  assumes "is_scalar c"
  shows "map ascii_lower (map char_of (utf8_enc c)) = map char_of (utf8_enc (lower_char c))"
proof (cases "c < 128")
  case True
  then show ?thesis by (auto simp: lower_char_def ascii_lower_def)
next
  case False
  have "ascii_lower b = b" if "b \<in> set (map char_of (utf8_enc c))" for b
    using enc_not_ascii [OF _ assms that] False by (simp add: ascii_lower_def)
  then have "map ascii_lower (map char_of (utf8_enc c)) = map char_of (utf8_enc c)"
    by (rule map_idI)
  then show ?thesis using False by (simp add: lower_char_def del: utf8_enc.simps)
qed

lemma lower_of_chars:
  "list_all is_scalar cs \<Longrightarrow> to_ascii_lowercase (of_chars cs) = of_chars (map lower_char cs)"
  unfolding to_ascii_lowercase_def
  by (induction cs) (simp_all add: of_chars_Cons lower_char_enc del: utf8_enc.simps map_map)

lemma display_lower: "display_char (lower_char c) = lower_char (display_char c)"
  by (auto simp: display_char_def lower_char_def unsafe_runtime_display_character_def is_control_def)

lemma lower_normalize:
  assumes "list_all is_scalar cs"
  shows "to_ascii_lowercase (of_chars (map display_char cs)) = of_chars (map display_char (map lower_char cs))"
  using map_display_scalar [OF assms] by (simp add: lower_of_chars display_lower comp_def)

section \<open>Flags\<close>

definition flag_hit :: "nat list \<Rightarrow> nat list \<Rightarrow> bool" where
  "flag_hit f xs \<longleftrightarrow> (\<exists>v. xs = f @ v \<and> (v = [] \<or> is_whitespace (hd v) \<or> hd v = 61))"

fun flag_scan :: "nat list \<Rightarrow> bool \<Rightarrow> nat list \<Rightarrow> bool" where
  "flag_scan f b [] = False"
| "flag_scan f b (c # cs) \<longleftrightarrow> b \<and> flag_hit f (c # cs) \<or> flag_scan f (is_whitespace c) cs"

lemma flag_scan_mono: "flag_scan f b cs \<Longrightarrow> (b \<longrightarrow> b') \<Longrightarrow> flag_scan f b' cs"
  by (cases cs) auto

lemma flag_hit_map:
  assumes "keeps g f" and "keeps g [61]" and "\<And>c. is_whitespace (g c) \<Longrightarrow> g c = c"
    and "flag_hit f (map g cs)"
  shows "flag_hit f cs"
proof -
  obtain v where v: "map g cs = f @ v" "v = [] \<or> is_whitespace (hd v) \<or> hd v = 61"
    using assms(4) by (auto simp: flag_hit_def)
  then have "prefix f cs" using prefix_map_keeps [OF assms(1), of cs] by simp
  then obtain w where w: "cs = f @ w" by (auto simp: prefix_def)
  have "length (map g f) = length f" by simp
  then have vw: "v = map g w" using v(1) by (simp add: w)
  have "g d = 61 \<longleftrightarrow> d = 61" for d using assms(2) by (simp add: keeps_def)
  then have "w = [] \<or> is_whitespace (hd w) \<or> hd w = 61"
    using v(2) assms(3) by (cases w) (auto simp: vw, metis)
  then show ?thesis using w by (auto simp: flag_hit_def)
qed

lemma flag_scan_map:
  assumes "keeps g f" and "keeps g [61]" and "\<And>c. is_whitespace (g c) \<Longrightarrow> g c = c"
  shows "flag_scan f b (map g cs) \<Longrightarrow> flag_scan f b cs"
proof (induction cs arbitrary: b)
  case (Cons c cs)
  have "is_whitespace (g c) \<longrightarrow> is_whitespace c" using assms(3) by metis
  then show ?case
    using Cons flag_hit_map [OF assms, of "c # cs"] flag_scan_mono [of f "is_whitespace (g c)" cs "is_whitespace c"]
    by auto
qed simp

lemma flag_scan_word:
  "\<forall>c \<in> set w. \<not> is_whitespace c \<Longrightarrow> flag_scan f False (w @ r) = flag_scan f False r"
  by (induction w) auto

lemma flag_scan_split_ws:
  assumes "f \<noteq> []" and "\<forall>c \<in> set f. \<not> is_whitespace c"
  shows "(\<exists>t \<in> set (split_ws cs). t = f \<or> prefix (f @ [61]) t) \<longleftrightarrow> flag_scan f True cs"
proof (induction cs rule: split_ws.induct)
  case (2 c cs)
  have no_hit: "\<not> flag_hit f (d # ds)" if "is_whitespace d" for d ds
    using that assms by (cases f) (auto simp: flag_hit_def)
  show ?case
  proof (cases "is_whitespace c")
    case True
    then show ?thesis using "2.IH"(1) no_hit [OF True] by simp
  next
    case False
    define w where "w = c # takeWhile (\<lambda>x. \<not> is_whitespace x) cs"
    define r where "r = dropWhile (\<lambda>x. \<not> is_whitespace x) cs"
    have wr: "c # cs = w @ r" by (simp add: w_def r_def)
    have w: "\<forall>d \<in> set w. \<not> is_whitespace d" using False by (auto simp: w_def dest: set_takeWhileD)
    have r: "r = [] \<or> is_whitespace (hd r)" unfolding r_def by (metis hd_dropWhile)
    have "flag_hit f (w @ r) \<longleftrightarrow> w = f \<or> prefix (f @ [61]) w"
    proof
      assume "flag_hit f (w @ r)"
      then obtain v where v: "w @ r = f @ v" "v = [] \<or> is_whitespace (hd v) \<or> hd v = 61"
        by (auto simp: flag_hit_def)
      obtain us where "w = f @ us \<and> us @ r = v \<or> w @ us = f \<and> r = us @ v"
        using v(1) unfolding append_eq_append_conv2 by blast
      then show "w = f \<or> prefix (f @ [61]) w"
        using v(2) w r assms(2) by (cases us) auto
    next
      assume "w = f \<or> prefix (f @ [61]) w"
      then show "flag_hit f (w @ r)" using r by (auto simp: flag_hit_def prefix_def)
    qed
    moreover have "flag_scan f True (c # cs) \<longleftrightarrow> flag_hit f (w @ r) \<or> flag_scan f False r"
      using flag_scan_word [of "tl w" f r] w False by (simp add: wr w_def)
    moreover have "flag_scan f False r = flag_scan f True r"
      using r no_hit by (cases r) auto
    ultimately show ?thesis
      using "2.IH"(2) [OF False] False by (simp add: w_def [symmetric] r_def [symmetric])
  qed
qed simp

lemma split_ws_scalar: "list_all is_scalar cs \<Longrightarrow> t \<in> set (split_ws cs) \<Longrightarrow> list_all is_scalar t"
proof (induction cs rule: split_ws.induct)
  case (2 c cs)
  show ?case
  proof (cases "is_whitespace c")
    case True
    then show ?thesis using 2 by simp
  next
    case False
    have "list_all is_scalar (dropWhile (\<lambda>x. \<not> is_whitespace x) cs)"
      "list_all is_scalar (takeWhile (\<lambda>x. \<not> is_whitespace x) cs)"
      using "2.prems"(1) by (auto simp: list_all_iff dest: set_dropWhileD set_takeWhileD)
    then show ?thesis using 2 False by auto
  qed
qed simp

lemma ascii_of_chars: "ascii p \<Longrightarrow> of_chars (map byte p) = p"
  by (intro of_chars_ascii) (auto simp: ascii_def list_all_iff)

lemma of_chars_eq_ascii:
  "ascii p \<Longrightarrow> list_all is_scalar t \<Longrightarrow> of_chars t = p \<longleftrightarrow> t = map byte p"
  using ascii_of_chars [of p] chars_of_chars_scalar [of t] chars_ascii [of p]
  by (auto simp: ascii_def list_all_iff)

lemma flags_visible: "flag \<in> set sensitive_flags \<Longrightarrow> visible flag \<and> (\<forall>c \<in> set (map byte flag). \<not> is_whitespace c)"
  by (auto simp: sensitive_flags_def visible_def is_whitespace_def byte_def)

lemma flag_of_chars:
  assumes "list_all is_scalar cs"
  shows "contains_sensitive_flag (of_chars cs) \<longleftrightarrow> (\<exists>f \<in> set sensitive_flags. flag_scan (map byte f) True cs)"
proof -
  have hit: "of_chars t = f \<or> starts_with (of_chars t) (f @ ''='')
      \<longleftrightarrow> t = map byte f \<or> prefix (map byte f @ [61]) t"
    if "t \<in> set (split_ws cs)" "f \<in> set sensitive_flags" for t f
  proof -
    have "ascii f" using flags_visible that(2) visible_ascii by blast
    then have "ascii (f @ ''='')" by (simp add: ascii_def byte_def)
    then have "starts_with (of_chars t) (f @ ''='') \<longleftrightarrow> prefix (map byte f @ [61]) t"
      using prefix_of_chars [of "f @ ''=''" t] split_ws_scalar [OF assms that(1)]
      by (simp add: starts_with_def byte_def)
    then show ?thesis using of_chars_eq_ascii [OF \<open>ascii f\<close> split_ws_scalar [OF assms that(1)]] by simp
  qed
  have "contains_sensitive_flag (of_chars cs) \<longleftrightarrow>
      (\<exists>f \<in> set sensitive_flags. \<exists>t \<in> set (split_ws cs). t = map byte f \<or> prefix (map byte f @ [61]) t)"
    using hit by (auto simp: contains_sensitive_flag_def list_ex_iff split_whitespace_def
        chars_of_chars_scalar [OF assms])
  also have "\<dots> \<longleftrightarrow> (\<exists>f \<in> set sensitive_flags. flag_scan (map byte f) True cs)"
  proof (rule bex_cong [OF refl])
    fix f assume "f \<in> set sensitive_flags"
    then have "map byte f \<noteq> []" "\<forall>c \<in> set (map byte f). \<not> is_whitespace c"
      using flags_visible by (auto simp: visible_def)
    then show "(\<exists>t \<in> set (split_ws cs). t = map byte f \<or> prefix (map byte f @ [61]) t)
        \<longleftrightarrow> flag_scan (map byte f) True cs"
      by (rule flag_scan_split_ws)
  qed
  finally show ?thesis .
qed

section \<open>Normalization creates no sensitive text\<close>

lemma normalize_flag:
  assumes "list_all is_scalar cs" and "contains_sensitive_flag (of_chars (map display_char cs))"
  shows "contains_sensitive_flag (of_chars cs)"
proof -
  obtain f where f: "f \<in> set sensitive_flags" "flag_scan (map byte f) True (map display_char cs)"
    using assms(2) flag_of_chars [OF map_display_scalar [OF assms(1)]] by blast
  have "keeps display_char (map byte f)" using flags_visible [OF f(1)] visible_keeps by blast
  moreover have "keeps display_char [61]" using visible_keeps [of "''=''"] by (simp add: visible_def byte_def)
  ultimately have "flag_scan (map byte f) True cs"
    using flag_scan_map display_char_whitespace f(2) by blast
  then show ?thesis using flag_of_chars [OF assms(1)] f(1) by blast
qed

lemma prefix_dropWhile_map:
  assumes "keeps g q" and "q \<noteq> []" and "\<not> is_whitespace (hd q)"
    and "\<And>c. is_whitespace (g c) \<Longrightarrow> g c = c"
  shows "prefix q (dropWhile is_whitespace (map g cs)) \<Longrightarrow> prefix q (dropWhile is_whitespace cs)"
proof (induction cs)
  case (Cons c cs)
  show ?case
  proof (cases "is_whitespace (g c)")
    case True
    then have "is_whitespace c" using assms(4) by metis
    then show ?thesis using Cons True by simp
  next
    case False
    then have p: "prefix q (c # cs)" using Cons.prems prefix_map_keeps [OF assms(1), of "c # cs"] by simp
    then have "\<not> is_whitespace c" using assms(2,3) by (cases q) auto
    then show ?thesis using p by simp
  qed
qed simp

lemma normalize_bearer:
  assumes "list_all is_scalar cs" and "starts_with (trim_start (of_chars (map display_char cs))) ''bearer ''"
  shows "starts_with (trim_start (of_chars cs)) ''bearer ''"
proof -
  have start: "starts_with (trim_start (of_chars ds)) ''bearer ''
      \<longleftrightarrow> prefix (map byte ''bearer '') (dropWhile is_whitespace ds)" if "list_all is_scalar ds" for ds
  proof -
    have "list_all is_scalar (dropWhile is_whitespace ds)"
      using that by (auto simp: list_all_iff dest: set_dropWhileD)
    moreover have "ascii ''bearer ''" by (simp add: ascii_def byte_def)
    ultimately show ?thesis
      using prefix_of_chars [of "''bearer ''" "dropWhile is_whitespace ds"]
      by (simp add: trim_start_def starts_with_def chars_of_chars_scalar [OF that])
  qed
  have "keeps display_char (map byte ''bearer '')"
    by (rule visible_keeps) (simp add: visible_def byte_def)
  moreover have "\<not> is_whitespace (hd (map byte ''bearer ''))" by (simp add: is_whitespace_def byte_def)
  ultimately show ?thesis
    using prefix_dropWhile_map [of display_char "map byte ''bearer ''" cs] display_char_whitespace
      assms(2) start [OF assms(1)] start [OF map_display_scalar [OF assms(1)]] by simp
qed

definition in_authority :: "nat list \<Rightarrow> bool" where
  "in_authority cs \<longleftrightarrow> 64 \<in> set (takeWhile (\<lambda>c. c \<notin> {47, 63, 35}) cs)"

lemma authority_of_chars:
  "list_all is_scalar cs \<Longrightarrow>
     CHR ''@'' \<in> set (takeWhile (\<lambda>c. c \<notin> set ''/?#'') (of_chars cs)) \<longleftrightarrow> in_authority cs"
proof (induction cs)
  case (Cons c cs)
  show ?case
  proof (cases "c < 128")
    case True
    have eq: "char_of c = d \<longleftrightarrow> c = byte d" for d using True by (auto simp: byte_char_of)
    have "CHR ''@'' = char_of c \<longleftrightarrow> 64 = c" using eq [of "CHR ''@''"] by (auto simp: byte_def)
    then show ?thesis using Cons True
      by (simp add: of_chars_Cons enc_ascii in_authority_def eq byte_def del: utf8_enc.simps) 
  next
    case False
    let ?b = "map char_of (utf8_enc c) :: string"
    have b: "128 \<le> byte d" if "d \<in> set ?b" for d
      using enc_not_ascii [OF _ _ that] False Cons.prems by simp
    have no: "d \<notin> set ''/?#'' \<and> d \<noteq> CHR ''@''" if "d \<in> set ?b" for d using b [OF that] by (auto simp: byte_def)
    have "takeWhile (\<lambda>c. c \<notin> set ''/?#'') (?b @ of_chars cs)
        = ?b @ takeWhile (\<lambda>c. c \<notin> set ''/?#'') (of_chars cs)"
      by (rule takeWhile_append2) (use no in blast)
    moreover have "CHR ''@'' \<notin> set ?b" using no by blast
    ultimately show ?thesis using Cons False by (simp add: of_chars_Cons in_authority_def del: utf8_enc.simps)
  qed
qed (simp add: in_authority_def)

lemma userinfo_of_chars:
  assumes "list_all is_scalar cs"
  shows "contains_url_userinfo (of_chars cs) \<longleftrightarrow>
     (\<exists>a b. find_split cs (map byte ''://'') = Some (a, b) \<and> in_authority b)"
proof -
  have "ascii ''://''" by (simp add: ascii_def byte_def)
  then have split: "find_split (of_chars cs) ''://''
      = map_option (\<lambda>(a, b). (of_chars a, of_chars b)) (find_split cs (map byte ''://''))"
    using find_split_of_chars assms by blast
  show ?thesis
  proof (cases "find_split cs (map byte ''://'')")
    case None
    then show ?thesis using split by (simp add: contains_url_userinfo_def)
  next
    case (Some ab)
    obtain a b where ab: "ab = (a, b)" by fastforce
    have "cs = a @ map byte ''://'' @ b" using Some by (intro find_split_Some) (simp only: ab)
    then have "list_all is_scalar b" using assms by (simp add: list_all_append)
    then show ?thesis unfolding contains_url_userinfo_def split Some ab
      by (simp only: option.map prod.case option.case authority_of_chars) simp
  qed
qed

lemma normalize_userinfo:
  assumes "list_all is_scalar cs"
  shows "contains_url_userinfo (of_chars (map display_char cs)) \<longleftrightarrow> contains_url_userinfo (of_chars cs)"
proof -
  have vis: "display_char c = d \<longleftrightarrow> c = d" if "d \<in> {47, 63, 35, 64}" for c d
    using that by (intro display_char_visible) auto
  have "(\<lambda>c. c \<notin> {47, 63, 35}) \<circ> display_char = (\<lambda>c. c \<notin> {47, 63, 35})"
    using vis by (auto simp: fun_eq_iff)
  then have "in_authority (map display_char b) \<longleftrightarrow> in_authority b" for b
    using vis [of 64] by (auto simp: in_authority_def takeWhile_map image_iff)
  moreover have "visible ''://''" by (simp add: visible_def byte_def)
  then have "keeps display_char (map byte ''://'')" by (rule visible_keeps)
  then have "find_split (map display_char cs) (map byte ''://'')
      = map_option (\<lambda>(a, b). (map display_char a, map display_char b)) (find_split cs (map byte ''://''))"
    by (rule find_split_map) simp
  ultimately show ?thesis
    unfolding userinfo_of_chars [OF assms] userinfo_of_chars [OF map_display_scalar [OF assms]]
    by (auto split: prod.splits)
qed

lemma needles_visible: "n \<in> set sensitive_assignments \<union> set auth_schemes \<Longrightarrow> visible n"
  unfolding sensitive_assignments_def auth_schemes_def visible_def byte_def
  by (auto simp del: of_char_eq_iff)

lemma normalize_sensitive:
  assumes "list_all is_scalar cs" and "is_sensitive_text (of_chars (map display_char cs))"
  shows "is_sensitive_text (of_chars cs)"
proof -
  let ?l = "map lower_char cs"
  have l: "list_all is_scalar ?l" using assms(1) by (auto simp: list_all_iff lower_char_scalar)
  note low = lower_of_chars [OF assms(1)] lower_normalize [OF assms(1)]
  have "visible ''dockermap_test_fake_''" by (simp add: visible_def byte_def)
  note contains = normalize_contains [OF this l] normalize_contains [OF needles_visible l]
  have "list_ex (str_contains (of_chars (map display_char ?l))) sensitive_assignments
      \<longleftrightarrow> list_ex (str_contains (of_chars ?l)) sensitive_assignments"
    "list_ex (str_contains (of_chars (map display_char ?l))) auth_schemes
      \<longleftrightarrow> list_ex (str_contains (of_chars ?l)) auth_schemes"
    using contains(2) by (auto simp: list_ex_iff)
  then show ?thesis
    using assms(2) contains(1) normalize_userinfo [OF assms(1)] normalize_flag [OF l] normalize_bearer [OF l]
    unfolding is_sensitive_text_def Let_def low contains_sensitive_assignment_def contains_auth_scheme_def
    by blast
qed

section \<open>The gate\<close>

definition display_safe :: "string \<Rightarrow> bool" where
  "display_safe s \<longleftrightarrow> \<not> is_sensitive_text s \<and> (\<forall>c \<in> set (chars s). \<not> unsafe_runtime_display_character c)"

lemma ascii_valid:
  assumes "ascii s"
  shows "valid_utf8 s" "chars s = map byte s" "of_chars (map byte s) = s"
proof -
  show c: "chars s = map byte s" using assms by (intro chars_ascii) (auto simp: ascii_def list_all_iff)
  show o: "of_chars (map byte s) = s" using assms by (rule ascii_of_chars)
  show "valid_utf8 s" using assms by (auto simp: valid_utf8_def c o ascii_def list_all_iff is_scalar_def)
qed

lemma redacted_value_ascii: "ascii REDACTED_VALUE"
  by (simp add: REDACTED_VALUE_def ascii_def byte_def)

lemma redacted_value_insensitive: "\<not> is_sensitive_text REDACTED_VALUE"
proof -
  have low: "to_ascii_lowercase REDACTED_VALUE = REDACTED_VALUE"
    by (simp add: REDACTED_VALUE_def to_ascii_lowercase_def ascii_lower_def byte_def)
  have ws: "split_whitespace REDACTED_VALUE = [REDACTED_VALUE]"
    "trim_start REDACTED_VALUE = REDACTED_VALUE"
    using ascii_valid(3) [OF redacted_value_ascii] unfolding split_whitespace_def trim_start_def ascii_valid(2) [OF redacted_value_ascii]
    by (simp_all add: REDACTED_VALUE_def is_whitespace_def byte_def)
  have "\<not> contains_url_userinfo REDACTED_VALUE" by (simp add: contains_url_userinfo_def REDACTED_VALUE_def)
  moreover have "\<not> contains_sensitive_assignment REDACTED_VALUE"
    by (simp add: contains_sensitive_assignment_def sensitive_assignments_def REDACTED_VALUE_def)
  moreover have "\<not> contains_sensitive_flag REDACTED_VALUE"
    unfolding contains_sensitive_flag_def ws by (simp add: sensitive_flags_def starts_with_def REDACTED_VALUE_def)
  moreover have "\<not> contains_auth_scheme REDACTED_VALUE"
    unfolding contains_auth_scheme_def ws by (simp add: auth_schemes_def starts_with_def REDACTED_VALUE_def)
  moreover have "\<not> str_contains REDACTED_VALUE ''dockermap_test_fake_''" by (simp add: REDACTED_VALUE_def)
  ultimately show ?thesis unfolding is_sensitive_text_def Let_def low by blast
qed

lemma redacted_value_safe: "display_safe REDACTED_VALUE" "normalize_runtime_display_string REDACTED_VALUE = REDACTED_VALUE"
proof -
  have safe: "\<forall>c \<in> set (map byte REDACTED_VALUE). \<not> unsafe_runtime_display_character c"
    by (simp add: REDACTED_VALUE_def byte_def unsafe_runtime_display_character_def is_control_def)
  then show "display_safe REDACTED_VALUE"
    using redacted_value_insensitive ascii_valid(2) [OF redacted_value_ascii] by (simp add: display_safe_def)
  have "map display_char (map byte REDACTED_VALUE) = map byte REDACTED_VALUE"
    using safe by (intro map_idI) (auto simp: display_char_def)
  then show "normalize_runtime_display_string REDACTED_VALUE = REDACTED_VALUE"
    unfolding normalize_runtime_display_string_def ascii_valid(2) [OF redacted_value_ascii]
    by (simp only: ascii_valid(3) [OF redacted_value_ascii])
qed

lemma redact_runtime_display_safe:
  assumes "valid_utf8 s"
  shows "display_safe (redact_runtime_display_text s)" "valid_utf8 (redact_runtime_display_text s)"
proof -
  obtain cs where cs: "list_all is_scalar cs" "s = of_chars cs"
    using assms unfolding valid_utf8_def by metis
  have "display_safe (of_chars (map display_char cs))" if "\<not> is_sensitive_text s"
    using that normalize_sensitive [OF cs(1)] map_display_scalar [OF cs(1)]
    by (auto simp: display_safe_def cs(2) chars_of_chars_scalar display_char_safe)
  then show "display_safe (redact_runtime_display_text s)"
    using redacted_value_safe normalize_of_chars [OF cs(1)]
    by (auto simp: redact_runtime_display_text_def redact_sensitive_text_def cs(2))
  have "valid_utf8 REDACTED_VALUE" by (rule ascii_valid(1) [OF redacted_value_ascii])
  then show "valid_utf8 (redact_runtime_display_text s)"
    using redacted_value_safe(2) normalize_of_chars [OF cs(1)] valid_of_chars [OF map_display_scalar [OF cs(1)]]
    by (auto simp: redact_runtime_display_text_def redact_sensitive_text_def cs(2))
qed

lemma redact_display_safe_id:
  assumes "valid_utf8 s" and "display_safe s"
  shows "redact_runtime_display_text s = s"
proof -
  have "map display_char (chars s) = chars s"
    using assms(2) by (intro map_idI) (auto simp: display_safe_def display_char_def)
  then show ?thesis using assms
    by (simp add: redact_runtime_display_text_def redact_sensitive_text_def display_safe_def
        normalize_runtime_display_string_def valid_utf8_def)
qed

text \<open>
  Text that passed the gate is fit for publication: it is not sensitive by the daemon's own
  test, so replacing an unsafe character never joins the two halves of a secret marker, it holds
  no control, bidirectional or zero-width character, and passing it again changes nothing. Text
  that was fit already passes unchanged.
\<close>

lemma redaction_gate:
  assumes "valid_utf8 s"
  shows "display_safe (redact_runtime_display_text s)
    \<and> valid_utf8 (redact_runtime_display_text s)
    \<and> redact_runtime_display_text (redact_runtime_display_text s) = redact_runtime_display_text s
    \<and> (redact_runtime_display_text s = s \<longleftrightarrow> display_safe s)"
  using redact_runtime_display_safe [OF assms] redact_display_safe_id assms by metis

definition credential_url :: string where
  "credential_url = ''http://u:pw@b/''"

definition second_url :: string where
  "second_url = ''http://a/ '' @ credential_url"

lemma second_url_ascii: "ascii second_url"
  by (simp add: second_url_def credential_url_def ascii_def byte_def)

lemma second_url_insensitive: "\<not> is_sensitive_text second_url"
proof -
  have low: "to_ascii_lowercase second_url = second_url"
    by (simp add: second_url_def credential_url_def to_ascii_lowercase_def ascii_lower_def byte_def)
  have lit: "of_chars (map byte s) = s" if "list_all (\<lambda>c. byte c < 128) s" for s
    using ascii_valid(3) that by (simp add: ascii_def)
  have "split_whitespace second_url = [''http://a/'', credential_url]"
    using lit [of "''http://a/''"] lit [of credential_url]
    unfolding split_whitespace_def ascii_valid(2) [OF second_url_ascii]
    by (simp add: second_url_def credential_url_def is_whitespace_def byte_def)
  then have "\<not> contains_sensitive_flag second_url"
    by (simp add: contains_sensitive_flag_def sensitive_flags_def starts_with_def credential_url_def)
  moreover have "trim_start second_url = second_url"
    using ascii_valid(3) [OF second_url_ascii]
    unfolding trim_start_def ascii_valid(2) [OF second_url_ascii]
    by (simp add: second_url_def is_whitespace_def byte_def)
  then have "\<not> contains_auth_scheme second_url"
    by (simp add: contains_auth_scheme_def auth_schemes_def starts_with_def second_url_def credential_url_def)
  moreover have "\<not> contains_url_userinfo second_url"
    by (simp add: contains_url_userinfo_def second_url_def credential_url_def)
  moreover have "\<not> contains_sensitive_assignment second_url"
    by (simp add: contains_sensitive_assignment_def sensitive_assignments_def second_url_def credential_url_def)
  moreover have "\<not> str_contains second_url ''dockermap_test_fake_''"
    by (simp add: second_url_def credential_url_def)
  ultimately show ?thesis unfolding is_sensitive_text_def Let_def low by blast
qed

text \<open>
  The test for credentials in a URL looks at the first URL of a text only: a URL with a user
  and a password is redacted when it stands alone, and published as it is after another URL.
\<close>

lemma second_url_credentials_published:
  "redact_runtime_display_text credential_url = REDACTED_VALUE
   \<and> redact_runtime_display_text second_url = second_url"
proof -
  have "is_sensitive_text credential_url"
    by (simp add: is_sensitive_text_def contains_url_userinfo_def credential_url_def)
  moreover have "\<forall>c \<in> set (chars second_url). \<not> unsafe_runtime_display_character c"
    unfolding ascii_valid(2) [OF second_url_ascii]
    by (simp add: second_url_def credential_url_def byte_def unsafe_runtime_display_character_def is_control_def)
  ultimately show ?thesis
    using redact_display_safe_id [OF ascii_valid(1) [OF second_url_ascii]] second_url_insensitive
      redacted_value_safe(2)
    by (simp add: redact_runtime_display_text_def redact_sensitive_text_def display_safe_def)
qed

section \<open>Identifiers of sensitive values\<close>

lemma rsplit_once_hex:
  assumes "CHR ''-'' \<notin> set h"
  shows "rsplit_once (s @ ''--'' @ h) ''--'' = Some (s, h)"
proof -
  have "find_split (rev h @ (''--'' @ rev s)) ''--''
      = map_option (\<lambda>(x, y). (rev h @ x, y)) (find_split (''--'' @ rev s) ''--'')"
    using assms by (intro find_split_skip) auto
  then show ?thesis by (simp add: rsplit_once_def find_split_prefix)
qed

text \<open>
  The identifier of a sensitive value shows nothing of it but its digest: the fixed fallback
  and 64 hexadecimal digits. Any other value gets its collision-resistant component, and in both
  cases two values with the same identifier and fallback have the same SHA-256 digest.
\<close>

lemma safe_id_component:
  assumes "digest_len_32 sha256"
  shows "(is_sensitive_text v \<longrightarrow>
       safe_runtime_id_component sha256 v fallback = fallback @ ''--'' @ hex_digest sha256 v)
     \<and> (display_safe v \<and> v \<noteq> REDACTED_VALUE \<longrightarrow>
       safe_runtime_id_component sha256 v fallback = collision_resistant_id_component sha256 v)
     \<and> (safe_runtime_id_component sha256 v fallback = safe_runtime_id_component sha256 v' fallback
       \<longrightarrow> sha256 (as_bytes v) = sha256 (as_bytes v'))"
proof -
  have dash: "CHR ''-'' \<notin> set (hex_digest sha256 t)" for t
    using hex_string_lower_hex [of "sha256 (as_bytes t)"] lower_hex_not_sep by (auto simp: hex_digest_def)
  have shape: "\<exists>p. safe_runtime_id_component sha256 t fallback = p @ ''--'' @ hex_digest sha256 t" for t
    using rsplit_once_hex [OF dash, of "readable_slug t" t]
    by (auto simp: safe_runtime_id_component_def collision_resistant_id_component_def)
  have same: "hex_digest sha256 v = hex_digest sha256 v'"
    if "safe_runtime_id_component sha256 v fallback = safe_runtime_id_component sha256 v' fallback"
  proof -
    obtain p where p: "safe_runtime_id_component sha256 v fallback = p @ ''--'' @ hex_digest sha256 v"
      using shape [of v] by blast
    obtain p' where p': "safe_runtime_id_component sha256 v' fallback = p' @ ''--'' @ hex_digest sha256 v'"
      using shape [of v'] by blast
    have "(p @ ''--'') @ hex_digest sha256 v = (p' @ ''--'') @ hex_digest sha256 v'"
      using that p p' by simp
    moreover have "length (hex_digest sha256 v) = length (hex_digest sha256 v')"
      by (simp add: length_hex_digest [OF assms])
    ultimately show ?thesis using append_eq_append_conv by blast
  qed
  have "safe_runtime_id_component sha256 v fallback = fallback @ ''--'' @ hex_digest sha256 v" if "is_sensitive_text v"
    using that rsplit_once_hex [OF dash, of "readable_slug v" v]
    by (simp add: safe_runtime_id_component_def collision_resistant_id_component_def redact_sensitive_text_def)
  moreover have "safe_runtime_id_component sha256 v fallback = collision_resistant_id_component sha256 v"
    if "display_safe v" "v \<noteq> REDACTED_VALUE"
    using that by (simp add: safe_runtime_id_component_def redact_sensitive_text_def display_safe_def)
  ultimately show ?thesis using same hex_digest_inj by blast
qed

end
