(* ===== verification/Findings.thy ===== *)
theory Findings
  imports Snapshot "HOL-Library.Product_Lexorder"
begin

text \<open>
  Findings derived from the runtime map (\<open>crates/dockermap-core/src/findings.rs\<close>).

  Every rule is one loop over the edges and one function here. A reference to a node is
  the node itself, \<open>nodes\<close> is the index of the nodes whose identifier is unique, and the
  counters over \<open>(source, target)\<close> pairs are ordered maps. \<open>evidence_refs[0]\<close> is \<open>hd\<close>: each
  rule reads it only after a test that there is exactly one reference.
\<close>

section \<open>Texts\<close>

definition REQUIRES_SUMMARY :: string where
  "REQUIRES_SUMMARY =
     ''An active systemd service requires a target that is inactive or failed''"

definition REQUIRES_RECOMMENDATION :: string where
  "REQUIRES_RECOMMENDATION =
     ''Inspect the target service state and its declared dependency configuration.''"

definition PART_OF_SUMMARY :: string where
  "PART_OF_SUMMARY =
     ''An active systemd service is PartOf a unit that is inactive or failed.''"

definition PART_OF_RECOMMENDATION :: string where
  "PART_OF_RECOMMENDATION =
     ''Inspect the coupling target unit's state and the declaring unit's PartOf configuration.''"

definition DECLARED_RELATIONSHIP_EVIDENCE_NOT_CURRENT_SUMMARY :: string where
  "DECLARED_RELATIONSHIP_EVIDENCE_NOT_CURRENT_SUMMARY =
     ''A declared systemd dependency relationship is attested only by stale or timed-out evidence.''"

definition DECLARED_RELATIONSHIP_EVIDENCE_NOT_CURRENT_RECOMMENDATION :: string where
  "DECLARED_RELATIONSHIP_EVIDENCE_NOT_CURRENT_RECOMMENDATION =
     ''Inspect the systemd provider collection state before trusting dependency conclusions for this pair.''"

definition INTERNAL_NETWORK_PORT_SUMMARY :: string where
  "INTERNAL_NETWORK_PORT_SUMMARY =
     ''A container on an internal Docker network also has a published host port.''"

definition INTERNAL_NETWORK_PORT_RECOMMENDATION :: string where
  "INTERNAL_NETWORK_PORT_RECOMMENDATION =
     ''Review whether the host-port publication is intended for this internal-network service.''"

definition UNSPECIFIED_ADDRESS_PORT_SUMMARY :: string where
  "UNSPECIFIED_ADDRESS_PORT_SUMMARY =
     ''Docker reported a container port published on an unspecified host address.''"

definition UNSPECIFIED_ADDRESS_PORT_RECOMMENDATION :: string where
  "UNSPECIFIED_ADDRESS_PORT_RECOMMENDATION =
     ''Review whether publishing this container port beyond loopback is intended.''"

definition UNSPECIFIED_ADDRESS_PORT_EVIDENCE_SUMMARY :: string where
  "UNSPECIFIED_ADDRESS_PORT_EVIDENCE_SUMMARY =
     ''Docker reported a container port published on an unspecified host address''"

definition UNSPECIFIED_ADDRESS_PORT_RISK_ID :: string where
  "UNSPECIFIED_ADDRESS_PORT_RISK_ID =
     ''host_risk_docker_unspecified_address_port''"

definition DOCKER_DAEMON_STATE_SUMMARY :: string where
  "DOCKER_DAEMON_STATE_SUMMARY =
     ''A container has Docker daemon state access that may provide Docker daemon API authority.''"

definition DOCKER_DAEMON_STATE_RECOMMENDATION :: string where
  "DOCKER_DAEMON_STATE_RECOMMENDATION =
     ''Review whether this container requires Docker daemon API authority.''"

definition DOCKER_DAEMON_STATE_PUBLISHED_PORT_SUMMARY :: string where
  "DOCKER_DAEMON_STATE_PUBLISHED_PORT_SUMMARY =
     ''A container with Docker daemon state access also has a published host port.''"

definition DOCKER_DAEMON_STATE_PUBLISHED_PORT_RECOMMENDATION :: string where
  "DOCKER_DAEMON_STATE_PUBLISHED_PORT_RECOMMENDATION =
     ''Review whether the daemon-state access and host-port publication are both intended.''"

definition DOCKER_DAEMON_STATE_EVIDENCE_SUMMARY :: string where
  "DOCKER_DAEMON_STATE_EVIDENCE_SUMMARY =
     ''Docker reported a bind mount exposing Docker daemon state''"

definition COMPOSE_DECLARED_TARGET_NOT_ACTIVE_SUMMARY :: string where
  "COMPOSE_DECLARED_TARGET_NOT_ACTIVE_SUMMARY =
     ''A running Docker Compose service declares a dependency whose container is not active.''"

definition COMPOSE_DECLARED_TARGET_NOT_ACTIVE_RECOMMENDATION :: string where
  "COMPOSE_DECLARED_TARGET_NOT_ACTIVE_RECOMMENDATION =
     ''Review the declared dependency and the target container state.''"

definition COMPOSE_DEPENDENCY_EVIDENCE_SUMMARY :: string where
  "COMPOSE_DEPENDENCY_EVIDENCE_SUMMARY =
     ''Docker recorded Compose dependency declaration''"

definition COMPOSE_MUTUAL_DEPENDENCY_SUMMARY :: string where
  "COMPOSE_MUTUAL_DEPENDENCY_SUMMARY =
     ''Docker recorded mutually declared Compose dependencies between two containers.''"

definition COMPOSE_MUTUAL_DEPENDENCY_RECOMMENDATION :: string where
  "COMPOSE_MUTUAL_DEPENDENCY_RECOMMENDATION =
     ''Review the declared dependencies and remove any unintended mutual dependency.''"

definition RUNTIME_IDENTITY_COLLISION_SUMMARY :: string where
  "RUNTIME_IDENTITY_COLLISION_SUMMARY =
     ''DockerMap detected duplicate runtime identities after publication normalization.''"

definition RUNTIME_IDENTITY_COLLISION_RECOMMENDATION :: string where
  "RUNTIME_IDENTITY_COLLISION_RECOMMENDATION =
     ''Review the duplicate identity condition before relying on topology relationships.''"

definition RUNTIME_IDENTITY_COLLISION_EVIDENCE_SUMMARY :: string where
  "RUNTIME_IDENTITY_COLLISION_EVIDENCE_SUMMARY =
     ''DockerMap detected duplicate runtime identities after publication normalization''"

definition RUNTIME_INTEGRITY_SCOPE_ID :: string where
  "RUNTIME_INTEGRITY_SCOPE_ID = ''runtime_integrity_scope''"

definition RUNTIME_IDENTITY_COLLISION_RISK_ID :: string where
  "RUNTIME_IDENTITY_COLLISION_RISK_ID =
     ''runtime_integrity_risk_identity_collision''"

section \<open>Node and edge predicates\<close>

type_synonym node_index = "(string, runtime_map_node) btree_map"

text \<open>\<open>matches!((nodes.get(source), nodes.get(target)), (Some(source), Some(target)) if P)\<close>\<close>

definition endpoints_match ::
  "node_index \<Rightarrow> runtime_map_edge \<Rightarrow> (runtime_map_node \<Rightarrow> runtime_map_node \<Rightarrow> bool) \<Rightarrow> bool"
where
  "endpoints_match nodes edge P \<longleftrightarrow>
     (case bt_get nodes (re_source edge) of
        None \<Rightarrow> False
      | Some source \<Rightarrow>
          (case bt_get nodes (re_target edge) of None \<Rightarrow> False | Some target \<Rightarrow> P source target))"

definition first_evidence ::
  "runtime_map_edge \<Rightarrow> (runtime_evidence_ref \<Rightarrow> bool) \<Rightarrow> bool"
where
  "first_evidence edge P \<longleftrightarrow> (case re_evidence_refs edge of [] \<Rightarrow> False | e # _ \<Rightarrow> P e)"

definition is_docker_container :: "runtime_map_node \<Rightarrow> bool" where
  "is_docker_container node \<longleftrightarrow> rn_provider node = RPK_Docker \<and> rn_kind node = RNK_Container"

definition is_docker_daemon_state_risk :: "runtime_map_node \<Rightarrow> bool" where
  "is_docker_daemon_state_risk node \<longleftrightarrow>
     rn_provider node = RPK_Docker \<and> rn_kind node = RNK_HostRisk
     \<and> rn_id node = DOCKER_DAEMON_STATE_RISK_ID \<and> rn_metadata node = []"

definition is_docker_daemon_state_pair_shape :: "node_index \<Rightarrow> runtime_map_edge \<Rightarrow> bool" where
  "is_docker_daemon_state_pair_shape nodes edge \<longleftrightarrow>
     re_relationship edge = RRK_ExposesDaemonState
     \<and> endpoints_match nodes edge
         (\<lambda>source target. is_docker_container source \<and> is_docker_daemon_state_risk target)"

definition is_docker_daemon_state_shape :: "node_index \<Rightarrow> runtime_map_edge \<Rightarrow> bool" where
  "is_docker_daemon_state_shape nodes edge \<longleftrightarrow>
     re_metadata edge = [] \<and> re_relationship edge = RRK_ExposesDaemonState
     \<and> endpoints_match nodes edge
         (\<lambda>source target. is_docker_container source \<and> is_docker_daemon_state_risk target)"

definition is_fresh_docker_evidence :: "runtime_map_edge \<Rightarrow> runtime_evidence_kind \<Rightarrow> bool" where
  "is_fresh_docker_evidence edge kind \<longleftrightarrow>
     has_valid_evidence_refs edge \<and> length (re_evidence_refs edge) = 1
     \<and> first_evidence edge (\<lambda>e. ev_version e = 1 \<and> ev_provider e = REP_Docker \<and> ev_kind e = kind
         \<and> ev_assertion_kind e = Observed \<and> ev_freshness e = EF_Fresh
         \<and> ev_subject_ref e = re_source edge \<and> ev_provider_slot e = None)"

definition is_candidate_docker_daemon_state_bind_mount :: "node_index \<Rightarrow> runtime_map_edge \<Rightarrow> bool" where
  "is_candidate_docker_daemon_state_bind_mount nodes edge \<longleftrightarrow>
     is_docker_daemon_state_shape nodes edge
     \<and> is_fresh_docker_evidence edge DockerDaemonStateBindMount
     \<and> first_evidence edge (\<lambda>e. ev_summary e = DOCKER_DAEMON_STATE_EVIDENCE_SUMMARY)"

definition is_docker_network :: "runtime_map_node \<Rightarrow> bool" where
  "is_docker_network node \<longleftrightarrow>
     rn_provider node = RPK_Docker \<and> rn_kind node = RNK_DockerNetwork
     \<and> bt_get (rn_metadata node) ''internal'' = Some ''true''"

definition publishes_host_port :: "runtime_map_node \<Rightarrow> bool" where
  "publishes_host_port node \<longleftrightarrow>
     (case bt_get (rn_metadata node) ''port'' of
        None \<Rightarrow> False | Some port \<Rightarrow> is_host_published_docker_port port)"

definition is_docker_listener :: "runtime_map_node \<Rightarrow> bool" where
  "is_docker_listener node \<longleftrightarrow>
     rn_provider node = RPK_Network \<and> rn_kind node = RNK_NetworkListener \<and> publishes_host_port node"

definition is_docker_membership_shape :: "node_index \<Rightarrow> runtime_map_edge \<Rightarrow> bool" where
  "is_docker_membership_shape nodes edge \<longleftrightarrow>
     re_relationship edge = RRK_ConnectedTo
     \<and> endpoints_match nodes edge
         (\<lambda>source target. is_docker_container source \<and> is_docker_network target)"

definition is_docker_port_shape :: "node_index \<Rightarrow> runtime_map_edge \<Rightarrow> bool" where
  "is_docker_port_shape nodes edge \<longleftrightarrow>
     re_relationship edge = RRK_Exposes
     \<and> endpoints_match nodes edge
         (\<lambda>source target. is_docker_container source \<and> is_docker_listener target)"

definition is_runtime_integrity_scope :: "runtime_map_node \<Rightarrow> bool" where
  "is_runtime_integrity_scope node \<longleftrightarrow>
     rn_id node = RUNTIME_INTEGRITY_SCOPE_ID \<and> rn_provider node = RPK_Other
     \<and> rn_kind node = RNK_IntegrityScope \<and> rn_label node = ''Runtime identity integrity''
     \<and> rn_status node = None \<and> rn_layer node = Some RNL_Advisory \<and> rn_metadata node = []
     \<and> rn_service node = None \<and> rn_package node = None"

definition is_runtime_identity_collision_risk :: "runtime_map_node \<Rightarrow> bool" where
  "is_runtime_identity_collision_risk node \<longleftrightarrow>
     rn_id node = RUNTIME_IDENTITY_COLLISION_RISK_ID \<and> rn_provider node = RPK_Other
     \<and> rn_kind node = RNK_HostRisk \<and> rn_label node = ''Duplicate runtime topology identity''
     \<and> rn_status node = None \<and> rn_layer node = Some RNL_Advisory \<and> rn_metadata node = []
     \<and> rn_service node = None \<and> rn_package node = None"

definition is_candidate_runtime_identity_collision :: "node_index \<Rightarrow> runtime_map_edge \<Rightarrow> bool" where
  "is_candidate_runtime_identity_collision nodes edge \<longleftrightarrow>
     re_metadata edge = [] \<and> re_relationship edge = RRK_RelatedTo
     \<and> endpoints_match nodes edge
         (\<lambda>source target. is_runtime_integrity_scope source \<and> is_runtime_identity_collision_risk target)
     \<and> has_valid_evidence_refs edge \<and> length (re_evidence_refs edge) = 1
     \<and> first_evidence edge (\<lambda>e. ev_version e = 7
         \<and> ev_id e = ''dockermap_evidence_runtime_identity_collision''
         \<and> ev_provider e = REP_Dockermap \<and> ev_kind e = RuntimeIdentityCollision
         \<and> ev_assertion_kind e = Observed \<and> ev_summary e = RUNTIME_IDENTITY_COLLISION_EVIDENCE_SUMMARY
         \<and> ev_subject_ref e = re_source edge \<and> ev_freshness e = EF_Fresh
         \<and> ev_provider_slot e = None \<and> ev_provider_revision e \<noteq> []
         \<and> ev_provider_revision e \<noteq> show_nat (ev_collected_at e))"

definition is_unspecified_address_port_risk :: "runtime_map_node \<Rightarrow> bool" where
  "is_unspecified_address_port_risk node \<longleftrightarrow>
     rn_id node = UNSPECIFIED_ADDRESS_PORT_RISK_ID \<and> rn_provider node = RPK_Docker
     \<and> rn_kind node = RNK_HostRisk \<and> rn_label node = ''Unspecified-address Docker port publication''
     \<and> rn_status node = None \<and> rn_layer node = Some RNL_Host \<and> rn_metadata node = []
     \<and> rn_service node = None \<and> rn_package node = None"

definition is_unspecified_address_port_shape :: "node_index \<Rightarrow> runtime_map_edge \<Rightarrow> bool" where
  "is_unspecified_address_port_shape nodes edge \<longleftrightarrow>
     re_relationship edge = RRK_Exposes
     \<and> endpoints_match nodes edge
         (\<lambda>source target. is_docker_container source \<and> is_unspecified_address_port_risk target)"

definition is_candidate_unspecified_address_port :: "node_index \<Rightarrow> runtime_map_edge \<Rightarrow> bool" where
  "is_candidate_unspecified_address_port nodes edge \<longleftrightarrow>
     re_metadata edge = [] \<and> is_unspecified_address_port_shape nodes edge
     \<and> is_fresh_docker_evidence edge DockerUnspecifiedAddressPortPublication
     \<and> first_evidence edge (\<lambda>e. ev_summary e = UNSPECIFIED_ADDRESS_PORT_EVIDENCE_SUMMARY)"

definition is_docker_port_publication_pair_shape :: "node_index \<Rightarrow> runtime_map_edge \<Rightarrow> bool" where
  "is_docker_port_publication_pair_shape nodes edge \<longleftrightarrow>
     re_relationship edge = RRK_Exposes
     \<and> endpoints_match nodes edge (\<lambda>source target. is_docker_container source
         \<and> rn_provider target = RPK_Network \<and> rn_kind target = RNK_NetworkListener)"

definition is_candidate_internal_network_membership :: "node_index \<Rightarrow> runtime_map_edge \<Rightarrow> bool" where
  "is_candidate_internal_network_membership nodes edge \<longleftrightarrow>
     is_docker_membership_shape nodes edge \<and> is_fresh_docker_evidence edge DockerNetworkMembership"

definition is_candidate_port_publication :: "node_index \<Rightarrow> runtime_map_edge \<Rightarrow> bool" where
  "is_candidate_port_publication nodes edge \<longleftrightarrow>
     is_docker_port_shape nodes edge \<and> is_fresh_docker_evidence edge DockerPortPublication"

definition is_candidate_docker_daemon_state_port_publication :: "node_index \<Rightarrow> runtime_map_edge \<Rightarrow> bool" where
  "is_candidate_docker_daemon_state_port_publication nodes edge \<longleftrightarrow>
     re_metadata edge = [] \<and> is_docker_port_publication_pair_shape nodes edge
     \<and> (case bt_get nodes (re_target edge) of None \<Rightarrow> False | Some target \<Rightarrow> publishes_host_port target)
     \<and> is_fresh_docker_evidence edge DockerPortPublication"

definition is_candidate_requires :: "runtime_map_edge \<Rightarrow> bool" where
  "is_candidate_requires edge \<longleftrightarrow>
     has_valid_evidence_refs edge \<and> re_relationship edge = RRK_Requires
     \<and> re_source edge \<noteq> re_target edge \<and> length (re_evidence_refs edge) = 1
     \<and> first_evidence edge (\<lambda>e. ev_version e = 2 \<and> ev_provider e = REP_Systemd
         \<and> ev_kind e = SystemdRequires \<and> ev_assertion_kind e = Declared \<and> ev_freshness e = EF_Fresh
         \<and> ev_subject_ref e = re_source edge \<and> ev_provider_slot e = Some Slot_Systemd)"

definition is_candidate_part_of :: "runtime_map_edge \<Rightarrow> bool" where
  "is_candidate_part_of edge \<longleftrightarrow>
     has_valid_evidence_refs edge \<and> re_relationship edge = RRK_PartOf
     \<and> re_source edge \<noteq> re_target edge \<and> length (re_evidence_refs edge) = 1
     \<and> first_evidence edge (\<lambda>e. ev_version e = 2 \<and> ev_provider e = REP_Systemd
         \<and> ev_kind e = SystemdPartOf \<and> ev_assertion_kind e = Declared \<and> ev_freshness e = EF_Fresh
         \<and> ev_subject_ref e = re_source edge \<and> ev_provider_slot e = Some Slot_Systemd)"

definition is_candidate_non_current_declared_relationship :: "runtime_map_edge \<Rightarrow> bool" where
  "is_candidate_non_current_declared_relationship edge \<longleftrightarrow>
     has_valid_evidence_refs edge \<and> re_source edge \<noteq> re_target edge
     \<and> length (re_evidence_refs edge) = 1
     \<and> first_evidence edge (\<lambda>e.
         (re_relationship edge, ev_kind e) \<in> {(RRK_Requires, SystemdRequires),
           (RRK_Wants, SystemdWants), (RRK_PartOf, SystemdPartOf)})
     \<and> first_evidence edge (\<lambda>e. ev_version e = 2 \<and> ev_provider e = REP_Systemd
         \<and> ev_assertion_kind e = Declared \<and> ev_freshness e \<in> {EF_Stale, EF_TimedOut}
         \<and> ev_subject_ref e = re_source edge \<and> ev_provider_slot e = Some Slot_Systemd)"

definition is_candidate_compose_dependency :: "node_index \<Rightarrow> runtime_map_edge \<Rightarrow> bool" where
  "is_candidate_compose_dependency nodes edge \<longleftrightarrow>
     re_metadata edge = [] \<and> re_relationship edge = RRK_DependsOn \<and> re_source edge \<noteq> re_target edge
     \<and> endpoints_match nodes edge
         (\<lambda>source target. is_docker_container source \<and> is_docker_container target)
     \<and> is_fresh_docker_evidence edge DockerComposeDependsOn
     \<and> first_evidence edge (\<lambda>e. ev_summary e = COMPOSE_DEPENDENCY_EVIDENCE_SUMMARY)"

section \<open>Counters and indices\<close>

definition edge_pair :: "runtime_map_edge \<Rightarrow> string \<times> string" where
  "edge_pair edge = (re_source edge, re_target edge)"

definition unique_node_index :: "runtime_map_node list \<Rightarrow> node_index" where
  "unique_node_index nodes =
     (let counts = bt_count (map rn_id nodes)
      in bt_collect (map (\<lambda>n. (rn_id n, n)) (filter (\<lambda>n. bt_get counts (rn_id n) = Some 1) nodes)))"

definition pair_counts ::
  "(runtime_map_edge \<Rightarrow> bool) \<Rightarrow> runtime_map_edge list \<Rightarrow> (string \<times> string, nat) btree_map"
where
  "pair_counts P edges = bt_count (map edge_pair (filter P edges))"

definition source_counts ::
  "(runtime_map_edge \<Rightarrow> bool) \<Rightarrow> runtime_map_edge list \<Rightarrow> (string, nat) btree_map"
where
  "source_counts P edges = bt_count (map re_source (filter P edges))"

section \<open>Rules\<close>

definition finding_component :: "digest \<Rightarrow> runtime_map_edge \<Rightarrow> string" where
  "finding_component sha256 edge =
     collision_resistant_id_component sha256 (re_source edge @ unit_separator @ re_target edge)"

text \<open>The fixed part of the identifiers each rule builds. The rule on Compose mounts is in
  \<open>compose_runtime_binding.rs\<close>.\<close>

definition finding_id_prefix :: "finding_rule \<Rightarrow> string" where
  "finding_id_prefix rule =
     (case rule of
        FR_SystemdRequiresTargetNotActive \<Rightarrow>
          ''finding_systemd_requires_target_not_active_''
      | FR_SystemdPartOfTargetNotActive \<Rightarrow>
          ''finding_systemd_part_of_target_not_active_''
      | FR_DockerInternalNetworkMemberPublishesPort \<Rightarrow>
          ''finding_docker_internal_network_member_publishes_port_''
      | FR_DockerPortPublishedOnUnspecifiedAddress \<Rightarrow>
          ''finding_docker_port_published_on_unspecified_address_''
      | FR_DockerDaemonStateBindMount \<Rightarrow>
          ''finding_docker_daemon_state_bind_mount_''
      | FR_DockerDaemonStateBindMountPublishesPort \<Rightarrow>
          ''finding_docker_daemon_state_bind_mount_publishes_port_''
      | FR_DockerComposeDeclaredTargetNotActive \<Rightarrow>
          ''finding_docker_compose_declared_target_not_active_''
      | FR_DockerComposeMutualDependency \<Rightarrow>
          ''finding_docker_compose_mutual_dependency_''
      | FR_ComposeDeclaredMountMissingAtBoundContainer \<Rightarrow>
          ''finding_compose_declared_mount_missing_at_bound_container_''
      | FR_RuntimeIdentityCollisionDetected \<Rightarrow>
          ''finding_runtime_identity_collision_detected''
      | FR_RuntimeDeclaredRelationshipEvidenceNotCurrent \<Rightarrow>
          ''finding_runtime_declared_relationship_evidence_not_current_'')"

definition finding_id :: "digest \<Rightarrow> finding_rule \<Rightarrow> runtime_map_edge \<Rightarrow> string" where
  "finding_id sha256 rule edge = finding_id_prefix rule @ finding_component sha256 edge"

definition edge_finding ::
  "string \<Rightarrow> finding_rule \<Rightarrow> finding_severity \<Rightarrow> string \<Rightarrow> string \<Rightarrow> runtime_map_edge
     \<Rightarrow> runtime_evidence_ref list \<Rightarrow> finding"
where
  "edge_finding i rule severity summary recommendation edge refs =
     \<lparr>fi_id = i, fi_rule_id = rule, fi_severity = severity, fi_summary = summary,
      fi_recommendation = recommendation, fi_subject_ref = re_source edge,
      fi_target_ref = re_target edge, fi_evidence_refs = refs\<rparr>"

definition systemd_endpoints :: "runtime_map_node \<Rightarrow> runtime_map_node \<Rightarrow> bool" where
  "systemd_endpoints source target \<longleftrightarrow>
     rn_provider source = RPK_Systemd \<and> rn_provider target = RPK_Systemd
     \<and> rn_kind source = RNK_SystemdService \<and> rn_kind target = RNK_SystemdService"

definition systemd_target_not_active :: "runtime_map_node \<Rightarrow> runtime_map_node \<Rightarrow> bool" where
  "systemd_target_not_active source target \<longleftrightarrow>
     systemd_endpoints source target \<and> rn_status source = Some ''active''
     \<and> rn_status target \<in> {Some ''inactive'', Some ''failed''}"

definition rule_evidence_not_current ::
  "digest \<Rightarrow> node_index \<Rightarrow> runtime_map_edge list \<Rightarrow> finding list"
where
  "rule_evidence_not_current sha256 nodes edges =
     (let counts = pair_counts is_candidate_non_current_declared_relationship edges
      in concat (map (\<lambda>edge.
        if bt_get counts (edge_pair edge) \<noteq> Some 1
           \<or> \<not> is_candidate_non_current_declared_relationship edge then []
        else if \<not> endpoints_match nodes edge systemd_endpoints then []
        else [edge_finding (finding_id sha256 FR_RuntimeDeclaredRelationshipEvidenceNotCurrent edge)
              FR_RuntimeDeclaredRelationshipEvidenceNotCurrent FS_Advisory
              DECLARED_RELATIONSHIP_EVIDENCE_NOT_CURRENT_SUMMARY
              DECLARED_RELATIONSHIP_EVIDENCE_NOT_CURRENT_RECOMMENDATION
              edge [hd (re_evidence_refs edge)]]) edges))"

definition rule_identity_collision :: "digest \<Rightarrow> node_index \<Rightarrow> runtime_map_edge list \<Rightarrow> finding list" where
  "rule_identity_collision sha256 nodes edges =
     (let integrity_edge_count = length (filter (\<lambda>e. re_source e = RUNTIME_INTEGRITY_SCOPE_ID
            \<and> re_target e = RUNTIME_IDENTITY_COLLISION_RISK_ID) edges)
      in concat (map (\<lambda>edge.
        if integrity_edge_count \<noteq> 1 \<or> \<not> is_candidate_runtime_identity_collision nodes edge then []
        else [edge_finding (finding_id_prefix FR_RuntimeIdentityCollisionDetected)
              FR_RuntimeIdentityCollisionDetected FS_Advisory RUNTIME_IDENTITY_COLLISION_SUMMARY
              RUNTIME_IDENTITY_COLLISION_RECOMMENDATION edge [hd (re_evidence_refs edge)]]) edges))"

definition rule_unspecified_address ::
  "digest \<Rightarrow> node_index \<Rightarrow> runtime_map_edge list \<Rightarrow> finding list"
where
  "rule_unspecified_address sha256 nodes edges =
     (let counts = source_counts (is_unspecified_address_port_shape nodes) edges
      in concat (map (\<lambda>edge.
        if bt_get counts (re_source edge) \<noteq> Some 1
           \<or> \<not> is_candidate_unspecified_address_port nodes edge then []
        else [edge_finding (finding_id sha256 FR_DockerPortPublishedOnUnspecifiedAddress edge)
              FR_DockerPortPublishedOnUnspecifiedAddress FS_Advisory UNSPECIFIED_ADDRESS_PORT_SUMMARY
              UNSPECIFIED_ADDRESS_PORT_RECOMMENDATION edge [hd (re_evidence_refs edge)]]) edges))"

definition rule_requires :: "digest \<Rightarrow> node_index \<Rightarrow> runtime_map_edge list \<Rightarrow> finding list" where
  "rule_requires sha256 nodes edges =
     (let counts = pair_counts is_candidate_requires edges
      in concat (map (\<lambda>edge.
        if bt_get counts (edge_pair edge) \<noteq> Some 1 \<or> \<not> is_candidate_requires edge then []
        else if \<not> endpoints_match nodes edge systemd_target_not_active then []
        else [edge_finding (finding_id sha256 FR_SystemdRequiresTargetNotActive edge)
              FR_SystemdRequiresTargetNotActive FS_Warning REQUIRES_SUMMARY REQUIRES_RECOMMENDATION
              edge [hd (re_evidence_refs edge)]]) edges))"

definition rule_part_of :: "digest \<Rightarrow> node_index \<Rightarrow> runtime_map_edge list \<Rightarrow> finding list" where
  "rule_part_of sha256 nodes edges =
     (let counts = pair_counts is_candidate_part_of edges
      in concat (map (\<lambda>edge.
        if bt_get counts (edge_pair edge) \<noteq> Some 1 \<or> \<not> is_candidate_part_of edge then []
        else if \<not> endpoints_match nodes edge systemd_target_not_active then []
        else [edge_finding (finding_id sha256 FR_SystemdPartOfTargetNotActive edge)
              FR_SystemdPartOfTargetNotActive FS_Advisory PART_OF_SUMMARY PART_OF_RECOMMENDATION
              edge [hd (re_evidence_refs edge)]]) edges))"

definition same_observation :: "runtime_evidence_ref \<Rightarrow> runtime_evidence_ref \<Rightarrow> bool" where
  "same_observation a b \<longleftrightarrow>
     ev_collected_at a = ev_collected_at b \<and> ev_provider_revision a = ev_provider_revision b"

definition rule_daemon_state_port :: "digest \<Rightarrow> node_index \<Rightarrow> runtime_map_edge list \<Rightarrow> finding list" where
  "rule_daemon_state_port sha256 nodes edges =
     (let daemon_counts = source_counts (is_docker_daemon_state_pair_shape nodes) edges;
          port_counts = source_counts (is_docker_port_publication_pair_shape nodes) edges
      in concat (map (\<lambda>daemon_edge.
        if bt_get daemon_counts (re_source daemon_edge) \<noteq> Some 1
           \<or> bt_get port_counts (re_source daemon_edge) \<noteq> Some 1
           \<or> \<not> is_candidate_docker_daemon_state_bind_mount nodes daemon_edge then []
        else (case find (\<lambda>candidate. re_source candidate = re_source daemon_edge
                   \<and> is_candidate_docker_daemon_state_port_publication nodes candidate) edges of
            None \<Rightarrow> []
          | Some port_edge \<Rightarrow>
              (let daemon_evidence = hd (re_evidence_refs daemon_edge);
                   port_evidence = hd (re_evidence_refs port_edge)
               in if \<not> same_observation daemon_evidence port_evidence then []
                  else [edge_finding (finding_id sha256 FR_DockerDaemonStateBindMountPublishesPort daemon_edge)
                        FR_DockerDaemonStateBindMountPublishesPort FS_Warning
                        DOCKER_DAEMON_STATE_PUBLISHED_PORT_SUMMARY
                        DOCKER_DAEMON_STATE_PUBLISHED_PORT_RECOMMENDATION
                        daemon_edge [daemon_evidence, port_evidence]]))) edges))"

definition rule_mutual_dependency :: "digest \<Rightarrow> node_index \<Rightarrow> runtime_map_edge list \<Rightarrow> finding list" where
  "rule_mutual_dependency sha256 nodes edges =
     (let edge_counts = pair_counts (\<lambda>e. re_relationship e = RRK_DependsOn) edges;
          counts = pair_counts (is_candidate_compose_dependency nodes) edges
      in concat (map (\<lambda>edge.
        if re_source edge \<ge> re_target edge
           \<or> bt_get edge_counts (edge_pair edge) \<noteq> Some 1 \<or> bt_get counts (edge_pair edge) \<noteq> Some 1
           \<or> \<not> is_candidate_compose_dependency nodes edge then []
        else if bt_get edge_counts (re_target edge, re_source edge) \<noteq> Some 1
           \<or> bt_get counts (re_target edge, re_source edge) \<noteq> Some 1 then []
        else (case find (\<lambda>candidate. re_source candidate = re_target edge
                   \<and> re_target candidate = re_source edge
                   \<and> is_candidate_compose_dependency nodes candidate) edges of
            None \<Rightarrow> []
          | Some reverse_edge \<Rightarrow>
              (let evidence = hd (re_evidence_refs edge);
                   reverse_evidence = hd (re_evidence_refs reverse_edge)
               in if \<not> same_observation evidence reverse_evidence then []
                  else [edge_finding (finding_id sha256 FR_DockerComposeMutualDependency edge)
                        FR_DockerComposeMutualDependency FS_Advisory COMPOSE_MUTUAL_DEPENDENCY_SUMMARY
                        COMPOSE_MUTUAL_DEPENDENCY_RECOMMENDATION
                        edge [evidence, reverse_evidence]]))) edges))"

definition compose_target_not_active :: "runtime_map_node \<Rightarrow> runtime_map_node \<Rightarrow> bool" where
  "compose_target_not_active source target \<longleftrightarrow>
     is_docker_container source \<and> is_docker_container target
     \<and> map_option from_status_text (rn_status source) = Some RSS_Running
     \<and> map_option from_status_text (rn_status target) \<in> {Some RSS_Stopped, Some RSS_Failed}"

definition rule_compose_target :: "digest \<Rightarrow> node_index \<Rightarrow> runtime_map_edge list \<Rightarrow> finding list" where
  "rule_compose_target sha256 nodes edges =
     (let edge_counts = pair_counts (\<lambda>e. re_relationship e = RRK_DependsOn) edges;
          counts = pair_counts (is_candidate_compose_dependency nodes) edges
      in concat (map (\<lambda>edge.
        if bt_get edge_counts (edge_pair edge) \<noteq> Some 1 \<or> bt_get counts (edge_pair edge) \<noteq> Some 1
           \<or> \<not> is_candidate_compose_dependency nodes edge then []
        else if \<not> endpoints_match nodes edge compose_target_not_active then []
        else [edge_finding (finding_id sha256 FR_DockerComposeDeclaredTargetNotActive edge)
              FR_DockerComposeDeclaredTargetNotActive FS_Advisory
              COMPOSE_DECLARED_TARGET_NOT_ACTIVE_SUMMARY COMPOSE_DECLARED_TARGET_NOT_ACTIVE_RECOMMENDATION
              edge [hd (re_evidence_refs edge)]]) edges))"

definition rule_daemon_state :: "digest \<Rightarrow> node_index \<Rightarrow> runtime_map_edge list \<Rightarrow> finding list" where
  "rule_daemon_state sha256 nodes edges =
     (let counts = pair_counts (is_docker_daemon_state_shape nodes) edges
      in concat (map (\<lambda>edge.
        if bt_get counts (edge_pair edge) \<noteq> Some 1
           \<or> \<not> is_candidate_docker_daemon_state_bind_mount nodes edge then []
        else [edge_finding (finding_id sha256 FR_DockerDaemonStateBindMount edge)
              FR_DockerDaemonStateBindMount FS_Warning DOCKER_DAEMON_STATE_SUMMARY
              DOCKER_DAEMON_STATE_RECOMMENDATION edge [hd (re_evidence_refs edge)]]) edges))"

definition rule_internal_network :: "digest \<Rightarrow> node_index \<Rightarrow> runtime_map_edge list \<Rightarrow> finding list" where
  "rule_internal_network sha256 nodes edges =
     (let membership_counts = pair_counts (is_docker_membership_shape nodes) edges;
          port_counts = pair_counts (is_docker_port_publication_pair_shape nodes) edges
      in concat (map (\<lambda>edge.
        if bt_get membership_counts (edge_pair edge) \<noteq> Some 1
           \<or> \<not> is_candidate_internal_network_membership nodes edge then []
        else map (\<lambda>port_edge.
            edge_finding (finding_id_prefix FR_DockerInternalNetworkMemberPublishesPort
                @ collision_resistant_id_component sha256
                    (re_source edge @ unit_separator @ re_target edge @ unit_separator
                     @ re_target port_edge))
              FR_DockerInternalNetworkMemberPublishesPort FS_Advisory INTERNAL_NETWORK_PORT_SUMMARY
              INTERNAL_NETWORK_PORT_RECOMMENDATION edge
              [hd (re_evidence_refs edge), hd (re_evidence_refs port_edge)])
            (filter (\<lambda>candidate. re_source candidate = re_source edge
               \<and> bt_get port_counts (edge_pair candidate) = Some 1
               \<and> is_candidate_port_publication nodes candidate) edges)) edges))"

text \<open>The loops in the order they run.\<close>

definition collect_findings :: "digest \<Rightarrow> node_index \<Rightarrow> runtime_map_edge list \<Rightarrow> finding list" where
  "collect_findings sha256 nodes edges =
     rule_evidence_not_current sha256 nodes edges @ rule_identity_collision sha256 nodes edges
     @ rule_unspecified_address sha256 nodes edges @ rule_requires sha256 nodes edges
     @ rule_part_of sha256 nodes edges @ rule_daemon_state_port sha256 nodes edges
     @ rule_mutual_dependency sha256 nodes edges @ rule_compose_target sha256 nodes edges
     @ rule_daemon_state sha256 nodes edges @ rule_internal_network sha256 nodes edges"

definition finding_sort_key :: "finding \<Rightarrow> string \<times> string \<times> string" where
  "finding_sort_key f = (fi_id f, fi_subject_ref f, fi_target_ref f)"

definition derive_findings :: "digest \<Rightarrow> runtime_map \<Rightarrow> finding list" where
  "derive_findings sha256 runtime_map =
     (if rm_source runtime_map = Some Mode_Mock then []
      else sort_key finding_sort_key
        (collect_findings sha256 (unique_node_index (rm_nodes runtime_map)) (rm_edges runtime_map)))"

section \<open>Node index and counters\<close>

lemma unique_node_index_get:
  "bt_get (unique_node_index ns) i = Some n \<longleftrightarrow>
     n \<in> set ns \<and> rn_id n = i \<and> count_list (map rn_id ns) i = 1"
proof -
  let ?u = "filter (\<lambda>n. count_list (map rn_id ns) (rn_id n) = 1) ns"
  have d: "distinct (map rn_id ?u)"
  proof -
    have "distinct (map f (filter (\<lambda>x. count_list (map f xs) (f x) = 1 \<and> P x) ys))"
      if "subseq ys xs" for f :: "runtime_map_node \<Rightarrow> string" and P xs ys
      using that
    proof (induction ys arbitrary: xs)
      case (Cons y ys)
      have s: "subseq ys xs" using Cons.prems by (rule subseq_Cons')
      have "\<not> (count_list (map f xs) (f y) = 1 \<and> f y \<in> f ` set ys)"
      proof
        assume a: "count_list (map f xs) (f y) = 1 \<and> f y \<in> f ` set ys"
        have "count_list (map f (y # ys)) (f y) \<le> count_list (map f xs) (f y)"
          using subseq_map [OF Cons.prems, of f] by (rule count_list_subseq)
        then have "count_list (map f ys) (f y) = 0" using a by simp
        then show False using a by (simp add: count_list_0_iff)
      qed
      then show ?case using Cons.IH [OF s] by auto
    qed simp
    from this [of ns ns rn_id "\<lambda>_. True"] show ?thesis by simp
  qed
  have "bt_get (unique_node_index ns) i = map_of (rev (map (\<lambda>n. (rn_id n, n)) ?u)) i"
    by (simp add: unique_node_index_def bt_get_collect bt_get_count_Suc0)
  also have "\<dots> = Some n \<longleftrightarrow> (i, n) \<in> set (map (\<lambda>n. (rn_id n, n)) ?u)"
    using d by (subst map_of_eq_Some_iff) (auto simp: rev_map [symmetric] comp_def)
  finally show ?thesis by auto
qed

lemma unique_node_index_perm:
  assumes "mset ns = mset ns'"
  shows "unique_node_index ns = unique_node_index ns'"
proof (rule bt_eqI)
  show "bt_wf (unique_node_index ns)" "bt_wf (unique_node_index ns')"
    by (simp_all add: unique_node_index_def bt_wf_collect)
  fix k
  have "count_list (map rn_id ns) k = count_list (map rn_id ns') k"
    using assms by (metis count_mset mset_map)
  then have "bt_get (unique_node_index ns) k = Some n \<longleftrightarrow> bt_get (unique_node_index ns') k = Some n" for n
    using assms by (simp add: unique_node_index_get mset_eq_setD [OF assms])
  then show "bt_get (unique_node_index ns) k = bt_get (unique_node_index ns') k"
    by (metis option.exhaust)
qed

lemma pair_counts_perm: "mset es = mset es' \<Longrightarrow> pair_counts P es = pair_counts P es'"
  unfolding pair_counts_def by (rule bt_count_perm) simp

lemma source_counts_perm: "mset es = mset es' \<Longrightarrow> source_counts P es = source_counts P es'"
  unfolding source_counts_def by (rule bt_count_perm) simp

lemma pair_counts_one:
  "bt_get (pair_counts P es) p = Some (Suc 0) \<longleftrightarrow> length (filter (\<lambda>e. P e \<and> edge_pair e = p) es) = 1"
  by (simp add: pair_counts_def bt_get_count_Suc0 count_list_map_filter)

lemma source_counts_one:
  "bt_get (source_counts P es) i = Some (Suc 0) \<longleftrightarrow> length (filter (\<lambda>e. P e \<and> re_source e = i) es) = 1"
  by (simp add: source_counts_def bt_get_count_Suc0 count_list_map_filter)

lemma endpoints_match_Some:
  "endpoints_match nodes e P \<longleftrightarrow>
     (\<exists>s t. bt_get nodes (re_source e) = Some s \<and> bt_get nodes (re_target e) = Some t \<and> P s t)"
  by (auto simp: endpoints_match_def split: option.splits)

section \<open>The contract of a rule\<close>

text \<open>What every finding rests on: an edge of the map between the two entities, both uniquely
  identified, and one or two evidence references, each the only one of a valid edge.\<close>

definition finding_attested :: "node_index \<Rightarrow> runtime_map_edge list \<Rightarrow> finding \<Rightarrow> bool" where
  "finding_attested nodes edges f \<longleftrightarrow>
     (\<exists>e \<in> set edges. re_source e = fi_subject_ref f \<and> re_target e = fi_target_ref f
        \<and> endpoints_match nodes e (\<lambda>_ _. True)
        \<and> (\<exists>rest. fi_evidence_refs f = hd (re_evidence_refs e) # rest \<and> length rest \<le> 1))
     \<and> (\<forall>r \<in> set (fi_evidence_refs f).
          \<exists>e \<in> set edges. has_valid_evidence_refs e \<and> re_evidence_refs e = [r])"

definition finding_pair :: "finding \<Rightarrow> string \<times> string" where
  "finding_pair f = (fi_subject_ref f, fi_target_ref f)"

locale rule_contract =
  fixes rule :: "digest \<Rightarrow> node_index \<Rightarrow> runtime_map_edge list \<Rightarrow> finding list"
    and rid :: finding_rule
  assumes tagged: "f \<in> set (rule sha256 nodes edges) \<Longrightarrow> fi_rule_id f = rid"
    and attested: "f \<in> set (rule sha256 nodes edges) \<Longrightarrow> finding_attested nodes edges f"
    and permuted: "mset edges = mset edges' \<Longrightarrow>
      mset (rule sha256 nodes edges) = mset (rule sha256 nodes edges')"
begin

lemma select: "filter (\<lambda>f. fi_rule_id f = r) (rule sha256 nodes edges)
    = (if r = rid then rule sha256 nodes edges else [])"
  using tagged by (auto simp: filter_id_conv filter_empty_conv)

end

locale unique_rule_contract = rule_contract +
  assumes once: "length (filter (\<lambda>f. finding_pair f = p) (rule sha256 nodes edges)) \<le> 1"
begin

lemma once_tagged:
  "length (filter (\<lambda>f. fi_rule_id f = rid \<and> finding_pair f = p) (rule sha256 nodes edges)) \<le> 1"
proof -
  have "filter (\<lambda>f. fi_rule_id f = rid \<and> finding_pair f = p) (rule sha256 nodes edges)
      = filter (\<lambda>f. finding_pair f = p) (rule sha256 nodes edges)"
    using tagged by (intro filter_cong) auto
  then show ?thesis using once by simp
qed

end

section \<open>Every rule keeps the contract\<close>

lemmas candidate_defs = is_candidate_docker_daemon_state_bind_mount_def
  is_candidate_runtime_identity_collision_def is_candidate_unspecified_address_port_def
  is_candidate_internal_network_membership_def is_candidate_port_publication_def
  is_candidate_docker_daemon_state_port_publication_def is_candidate_requires_def
  is_candidate_part_of_def is_candidate_non_current_declared_relationship_def
  is_candidate_compose_dependency_def

lemmas shape_defs = is_docker_daemon_state_shape_def is_docker_daemon_state_pair_shape_def
  is_docker_membership_shape_def is_docker_port_shape_def is_unspecified_address_port_shape_def
  is_docker_port_publication_pair_shape_def

text \<open>A candidate edge is valid and carries one reference.\<close>

definition sole_evidence :: "runtime_map_edge \<Rightarrow> bool" where
  "sole_evidence e \<longleftrightarrow> has_valid_evidence_refs e \<and> (\<exists>r. re_evidence_refs e = [r])"

lemma sole_evidenceI:
  "has_valid_evidence_refs e \<Longrightarrow> length (re_evidence_refs e) = Suc 0 \<Longrightarrow> sole_evidence e"
  by (cases "re_evidence_refs e") (auto simp: sole_evidence_def)

lemma fresh_sole: "is_fresh_docker_evidence e kind \<Longrightarrow> sole_evidence e"
  by (simp add: is_fresh_docker_evidence_def sole_evidenceI)

lemma candidate_sole:
  "is_candidate_docker_daemon_state_bind_mount nodes e \<Longrightarrow> sole_evidence e"
  "is_candidate_runtime_identity_collision nodes e \<Longrightarrow> sole_evidence e"
  "is_candidate_unspecified_address_port nodes e \<Longrightarrow> sole_evidence e"
  "is_candidate_internal_network_membership nodes e \<Longrightarrow> sole_evidence e"
  "is_candidate_port_publication nodes e \<Longrightarrow> sole_evidence e"
  "is_candidate_docker_daemon_state_port_publication nodes e \<Longrightarrow> sole_evidence e"
  "is_candidate_requires e \<Longrightarrow> sole_evidence e"
  "is_candidate_part_of e \<Longrightarrow> sole_evidence e"
  "is_candidate_non_current_declared_relationship e \<Longrightarrow> sole_evidence e"
  "is_candidate_compose_dependency nodes e \<Longrightarrow> sole_evidence e"
  by (auto simp: candidate_defs intro: fresh_sole sole_evidenceI)

lemma endpoints_match_weaken: "endpoints_match nodes e P \<Longrightarrow> endpoints_match nodes e (\<lambda>_ _. True)"
  by (auto simp: endpoints_match_Some)

lemma candidate_endpoints:
  "is_candidate_docker_daemon_state_bind_mount nodes e \<Longrightarrow> endpoints_match nodes e (\<lambda>_ _. True)"
  "is_candidate_runtime_identity_collision nodes e \<Longrightarrow> endpoints_match nodes e (\<lambda>_ _. True)"
  "is_candidate_unspecified_address_port nodes e \<Longrightarrow> endpoints_match nodes e (\<lambda>_ _. True)"
  "is_candidate_internal_network_membership nodes e \<Longrightarrow> endpoints_match nodes e (\<lambda>_ _. True)"
  "is_candidate_compose_dependency nodes e \<Longrightarrow> endpoints_match nodes e (\<lambda>_ _. True)"
  by (auto simp: candidate_defs shape_defs intro: endpoints_match_weaken)

lemma attestedI1:
  assumes e: "e \<in> set es" "sole_evidence e" and m: "endpoints_match nodes e P"
  shows "finding_attested nodes es (edge_finding i r sev sm rc e [hd (re_evidence_refs e)])"
proof -
  obtain x where x: "re_evidence_refs e = [x]" using e by (auto simp: sole_evidence_def)
  then show ?thesis using e endpoints_match_weaken [OF m]
    by (auto simp: finding_attested_def edge_finding_def sole_evidence_def intro!: bexI [of _ e])
qed

lemma attestedI2:
  assumes e: "e \<in> set es" "sole_evidence e" and m: "endpoints_match nodes e P"
    and e': "e' \<in> set es" "sole_evidence e'"
  shows "finding_attested nodes es
    (edge_finding i r sev sm rc e [hd (re_evidence_refs e), hd (re_evidence_refs e')])"
proof -
  obtain x y where x: "re_evidence_refs e = [x]" "re_evidence_refs e' = [y]"
    using e e' by (auto simp: sole_evidence_def)
  have "\<exists>d \<in> set es. has_valid_evidence_refs d \<and> re_evidence_refs d = [r]" if "r \<in> {x, y}" for r
    using that e e' x by (auto simp: sole_evidence_def)
  then show ?thesis using e(1) endpoints_match_weaken [OF m] x
    by (auto simp: finding_attested_def edge_finding_def intro!: bexI [of _ e])
qed

lemma edge_finding_simps [simp]:
  "fi_rule_id (edge_finding i r sev sm rc e refs) = r"
  "finding_pair (edge_finding i r sev sm rc e refs) = edge_pair e"
  "fi_severity (edge_finding i r sev sm rc e refs) = sev"
  "fi_evidence_refs (edge_finding i r sev sm rc e refs) = refs"
  "fi_subject_ref (edge_finding i r sev sm rc e refs) = re_source e"
  "fi_target_ref (edge_finding i r sev sm rc e refs) = re_target e"
  by (simp_all add: edge_finding_def finding_pair_def edge_pair_def)

lemma pair_once:
  assumes "bt_get (pair_counts P es) (edge_pair e) = Some (Suc 0)"
  shows "length (filter (\<lambda>e'. P e' \<and> edge_pair e' = edge_pair e) es) \<le> 1"
  using assms by (simp add: pair_counts_one)

lemma source_once:
  assumes "bt_get (source_counts P es) (re_source e) = Some (Suc 0)"
  shows "length (filter (\<lambda>e'. P e' \<and> edge_pair e' = edge_pair e) es) \<le> 1"
proof -
  have "length (filter (\<lambda>e'. P e' \<and> edge_pair e' = edge_pair e) es)
      \<le> length (filter (\<lambda>e'. P e' \<and> re_source e' = re_source e) es)"
    by (induction es) (auto simp: edge_pair_def)
  then show ?thesis using assms by (simp add: source_counts_one)
qed

text \<open>What each rule emits.\<close>

lemma in_rule_evidence_not_current:
  "f \<in> set (rule_evidence_not_current sha256 nodes edges) \<longleftrightarrow>
     (\<exists>e \<in> set edges. is_candidate_non_current_declared_relationship e
        \<and> length (filter (\<lambda>e'. is_candidate_non_current_declared_relationship e'
             \<and> edge_pair e' = edge_pair e) edges) = 1
        \<and> endpoints_match nodes e systemd_endpoints
        \<and> f = edge_finding (finding_id sha256 FR_RuntimeDeclaredRelationshipEvidenceNotCurrent e)
            FR_RuntimeDeclaredRelationshipEvidenceNotCurrent FS_Advisory
            DECLARED_RELATIONSHIP_EVIDENCE_NOT_CURRENT_SUMMARY
            DECLARED_RELATIONSHIP_EVIDENCE_NOT_CURRENT_RECOMMENDATION e [hd (re_evidence_refs e)])"
  by (auto simp: rule_evidence_not_current_def Let_def pair_counts_one split: if_splits)

lemma in_rule_identity_collision:
  "f \<in> set (rule_identity_collision sha256 nodes edges) \<longleftrightarrow>
     (\<exists>e \<in> set edges. is_candidate_runtime_identity_collision nodes e
        \<and> length (filter (\<lambda>e'. re_source e' = RUNTIME_INTEGRITY_SCOPE_ID
             \<and> re_target e' = RUNTIME_IDENTITY_COLLISION_RISK_ID) edges) = 1
        \<and> f = edge_finding (finding_id_prefix FR_RuntimeIdentityCollisionDetected)
            FR_RuntimeIdentityCollisionDetected FS_Advisory RUNTIME_IDENTITY_COLLISION_SUMMARY
            RUNTIME_IDENTITY_COLLISION_RECOMMENDATION e [hd (re_evidence_refs e)])"
  by (auto simp: rule_identity_collision_def Let_def split: if_splits)

lemma in_rule_unspecified_address:
  "f \<in> set (rule_unspecified_address sha256 nodes edges) \<longleftrightarrow>
     (\<exists>e \<in> set edges. is_candidate_unspecified_address_port nodes e
        \<and> length (filter (\<lambda>e'. is_unspecified_address_port_shape nodes e'
             \<and> re_source e' = re_source e) edges) = 1
        \<and> f = edge_finding (finding_id sha256 FR_DockerPortPublishedOnUnspecifiedAddress e)
            FR_DockerPortPublishedOnUnspecifiedAddress FS_Advisory UNSPECIFIED_ADDRESS_PORT_SUMMARY
            UNSPECIFIED_ADDRESS_PORT_RECOMMENDATION e [hd (re_evidence_refs e)])"
  by (auto simp: rule_unspecified_address_def Let_def source_counts_one split: if_splits)

lemma in_rule_requires:
  "f \<in> set (rule_requires sha256 nodes edges) \<longleftrightarrow>
     (\<exists>e \<in> set edges. is_candidate_requires e
        \<and> length (filter (\<lambda>e'. is_candidate_requires e' \<and> edge_pair e' = edge_pair e) edges) = 1
        \<and> endpoints_match nodes e systemd_target_not_active
        \<and> f = edge_finding (finding_id sha256 FR_SystemdRequiresTargetNotActive e)
            FR_SystemdRequiresTargetNotActive FS_Warning REQUIRES_SUMMARY REQUIRES_RECOMMENDATION
            e [hd (re_evidence_refs e)])"
  by (auto simp: rule_requires_def Let_def pair_counts_one split: if_splits)

lemma in_rule_part_of:
  "f \<in> set (rule_part_of sha256 nodes edges) \<longleftrightarrow>
     (\<exists>e \<in> set edges. is_candidate_part_of e
        \<and> length (filter (\<lambda>e'. is_candidate_part_of e' \<and> edge_pair e' = edge_pair e) edges) = 1
        \<and> endpoints_match nodes e systemd_target_not_active
        \<and> f = edge_finding (finding_id sha256 FR_SystemdPartOfTargetNotActive e)
            FR_SystemdPartOfTargetNotActive FS_Advisory PART_OF_SUMMARY PART_OF_RECOMMENDATION
            e [hd (re_evidence_refs e)])"
  by (auto simp: rule_part_of_def Let_def pair_counts_one split: if_splits)

lemma in_rule_compose_target:
  "f \<in> set (rule_compose_target sha256 nodes edges) \<longleftrightarrow>
     (\<exists>e \<in> set edges. is_candidate_compose_dependency nodes e
        \<and> length (filter (\<lambda>e'. re_relationship e' = RRK_DependsOn \<and> edge_pair e' = edge_pair e) edges) = 1
        \<and> length (filter (\<lambda>e'. is_candidate_compose_dependency nodes e'
             \<and> edge_pair e' = edge_pair e) edges) = 1
        \<and> endpoints_match nodes e compose_target_not_active
        \<and> f = edge_finding (finding_id sha256 FR_DockerComposeDeclaredTargetNotActive e)
            FR_DockerComposeDeclaredTargetNotActive FS_Advisory
            COMPOSE_DECLARED_TARGET_NOT_ACTIVE_SUMMARY COMPOSE_DECLARED_TARGET_NOT_ACTIVE_RECOMMENDATION
            e [hd (re_evidence_refs e)])"
  by (auto simp: rule_compose_target_def Let_def pair_counts_one split: if_splits)

lemma in_rule_daemon_state:
  "f \<in> set (rule_daemon_state sha256 nodes edges) \<longleftrightarrow>
     (\<exists>e \<in> set edges. is_candidate_docker_daemon_state_bind_mount nodes e
        \<and> length (filter (\<lambda>e'. is_docker_daemon_state_shape nodes e' \<and> edge_pair e' = edge_pair e) edges) = 1
        \<and> f = edge_finding (finding_id sha256 FR_DockerDaemonStateBindMount e)
            FR_DockerDaemonStateBindMount FS_Warning DOCKER_DAEMON_STATE_SUMMARY
            DOCKER_DAEMON_STATE_RECOMMENDATION e [hd (re_evidence_refs e)])"
  by (auto simp: rule_daemon_state_def Let_def pair_counts_one split: if_splits)

lemma in_rule_daemon_state_port:
  "f \<in> set (rule_daemon_state_port sha256 nodes edges) \<longleftrightarrow>
     (\<exists>e \<in> set edges. \<exists>p. is_candidate_docker_daemon_state_bind_mount nodes e
        \<and> length (filter (\<lambda>e'. is_docker_daemon_state_pair_shape nodes e'
             \<and> re_source e' = re_source e) edges) = 1
        \<and> length (filter (\<lambda>e'. is_docker_port_publication_pair_shape nodes e'
             \<and> re_source e' = re_source e) edges) = 1
        \<and> Some p = find (\<lambda>c. re_source c = re_source e
             \<and> is_candidate_docker_daemon_state_port_publication nodes c) edges
        \<and> same_observation (hd (re_evidence_refs e)) (hd (re_evidence_refs p))
        \<and> f = edge_finding (finding_id sha256 FR_DockerDaemonStateBindMountPublishesPort e)
            FR_DockerDaemonStateBindMountPublishesPort FS_Warning
            DOCKER_DAEMON_STATE_PUBLISHED_PORT_SUMMARY DOCKER_DAEMON_STATE_PUBLISHED_PORT_RECOMMENDATION
            e [hd (re_evidence_refs e), hd (re_evidence_refs p)])"
  unfolding rule_daemon_state_port_def Let_def set_concat set_map UN_iff bex_simps
  by (intro bex_cong refl) (auto simp: source_counts_one split: option.split)

lemma in_rule_mutual_dependency:
  "f \<in> set (rule_mutual_dependency sha256 nodes edges) \<longleftrightarrow>
     (\<exists>e \<in> set edges. \<exists>r. is_candidate_compose_dependency nodes e \<and> re_source e < re_target e
        \<and> length (filter (\<lambda>e'. re_relationship e' = RRK_DependsOn \<and> edge_pair e' = edge_pair e) edges) = 1
        \<and> length (filter (\<lambda>e'. is_candidate_compose_dependency nodes e'
             \<and> edge_pair e' = edge_pair e) edges) = 1
        \<and> length (filter (\<lambda>e'. re_relationship e' = RRK_DependsOn
             \<and> edge_pair e' = (re_target e, re_source e)) edges) = 1
        \<and> length (filter (\<lambda>e'. is_candidate_compose_dependency nodes e'
             \<and> edge_pair e' = (re_target e, re_source e)) edges) = 1
        \<and> Some r = find (\<lambda>c. re_source c = re_target e \<and> re_target c = re_source e
             \<and> is_candidate_compose_dependency nodes c) edges
        \<and> same_observation (hd (re_evidence_refs e)) (hd (re_evidence_refs r))
        \<and> f = edge_finding (finding_id sha256 FR_DockerComposeMutualDependency e)
            FR_DockerComposeMutualDependency FS_Advisory COMPOSE_MUTUAL_DEPENDENCY_SUMMARY
            COMPOSE_MUTUAL_DEPENDENCY_RECOMMENDATION e [hd (re_evidence_refs e), hd (re_evidence_refs r)])"
  unfolding rule_mutual_dependency_def Let_def set_concat set_map UN_iff bex_simps
  by (intro bex_cong refl) (auto simp: pair_counts_one not_le split: option.split)

lemma in_rule_internal_network:
  "f \<in> set (rule_internal_network sha256 nodes edges) \<longleftrightarrow>
     (\<exists>e \<in> set edges. \<exists>p \<in> set edges. is_candidate_internal_network_membership nodes e
        \<and> length (filter (\<lambda>e'. is_docker_membership_shape nodes e' \<and> edge_pair e' = edge_pair e) edges) = 1
        \<and> re_source p = re_source e \<and> is_candidate_port_publication nodes p
        \<and> length (filter (\<lambda>e'. is_docker_port_publication_pair_shape nodes e'
             \<and> edge_pair e' = edge_pair p) edges) = 1
        \<and> f = edge_finding (finding_id_prefix FR_DockerInternalNetworkMemberPublishesPort
                @ collision_resistant_id_component sha256
                    (re_source e @ unit_separator @ re_target e @ unit_separator @ re_target p))
            FR_DockerInternalNetworkMemberPublishesPort FS_Advisory INTERNAL_NETWORK_PORT_SUMMARY
            INTERNAL_NETWORK_PORT_RECOMMENDATION e [hd (re_evidence_refs e), hd (re_evidence_refs p)])"
  by (auto simp: rule_internal_network_def Let_def pair_counts_one split: if_splits)

lemma find_hit: "Some x = find P xs \<Longrightarrow> x \<in> set xs \<and> P x"
  by (induction xs) (auto split: if_splits)

lemma filter_weaken_le:
  assumes "\<And>x. P x \<Longrightarrow> Q x" "length (filter Q xs) \<le> n"
  shows "length (filter P xs) \<le> n"
proof -
  have "length (filter P xs) \<le> length (filter Q xs)"
    using assms(1) by (induction xs) (auto simp: le_SucI)
  then show ?thesis using assms(2) by simp
qed

interpretation evidence_not_current: unique_rule_contract rule_evidence_not_current
  FR_RuntimeDeclaredRelationshipEvidenceNotCurrent
proof unfold_locales
  fix edges edges' :: "runtime_map_edge list" and nodes sha256 p
  show "mset edges = mset edges' \<Longrightarrow> mset (rule_evidence_not_current sha256 nodes edges)
      = mset (rule_evidence_not_current sha256 nodes edges')"
    unfolding rule_evidence_not_current_def Let_def
    by (rule mset_concat_map_cong) (simp_all add: pair_counts_perm [of edges edges'])
  show "length (filter (\<lambda>f. finding_pair f = p) (rule_evidence_not_current sha256 nodes edges)) \<le> 1"
    unfolding rule_evidence_not_current_def Let_def
    by (rule concat_map_once [where Q = is_candidate_non_current_declared_relationship and h = edge_pair])
      (auto split: if_splits dest: pair_once)
qed (auto simp: in_rule_evidence_not_current intro: attestedI1 candidate_sole)

interpretation requires: unique_rule_contract rule_requires FR_SystemdRequiresTargetNotActive
proof unfold_locales
  fix edges edges' :: "runtime_map_edge list" and nodes sha256 p
  show "mset edges = mset edges' \<Longrightarrow> mset (rule_requires sha256 nodes edges)
      = mset (rule_requires sha256 nodes edges')"
    unfolding rule_requires_def Let_def
    by (rule mset_concat_map_cong) (simp_all add: pair_counts_perm [of edges edges'])
  show "length (filter (\<lambda>f. finding_pair f = p) (rule_requires sha256 nodes edges)) \<le> 1"
    unfolding rule_requires_def Let_def
    by (rule concat_map_once [where Q = is_candidate_requires and h = edge_pair])
      (auto split: if_splits dest: pair_once)
qed (auto simp: in_rule_requires intro: attestedI1 candidate_sole)

interpretation part_of: unique_rule_contract rule_part_of FR_SystemdPartOfTargetNotActive
proof unfold_locales
  fix edges edges' :: "runtime_map_edge list" and nodes sha256 p
  show "mset edges = mset edges' \<Longrightarrow> mset (rule_part_of sha256 nodes edges)
      = mset (rule_part_of sha256 nodes edges')"
    unfolding rule_part_of_def Let_def
    by (rule mset_concat_map_cong) (simp_all add: pair_counts_perm [of edges edges'])
  show "length (filter (\<lambda>f. finding_pair f = p) (rule_part_of sha256 nodes edges)) \<le> 1"
    unfolding rule_part_of_def Let_def
    by (rule concat_map_once [where Q = is_candidate_part_of and h = edge_pair])
      (auto split: if_splits dest: pair_once)
qed (auto simp: in_rule_part_of intro: attestedI1 candidate_sole)

lemma endpoint_node_id:
  "endpoints_match (unique_node_index ns) e P \<Longrightarrow>
     \<exists>s t. rn_id s = re_source e \<and> rn_id t = re_target e \<and> P s t"
  by (auto simp: endpoints_match_Some unique_node_index_get)

interpretation unspecified_address: unique_rule_contract rule_unspecified_address
  FR_DockerPortPublishedOnUnspecifiedAddress
proof unfold_locales
  fix edges edges' :: "runtime_map_edge list" and nodes sha256 p
  show "mset edges = mset edges' \<Longrightarrow> mset (rule_unspecified_address sha256 nodes edges)
      = mset (rule_unspecified_address sha256 nodes edges')"
    unfolding rule_unspecified_address_def Let_def
    by (rule mset_concat_map_cong) (simp_all add: source_counts_perm [of edges edges'])
  show "length (filter (\<lambda>f. finding_pair f = p) (rule_unspecified_address sha256 nodes edges)) \<le> 1"
    unfolding rule_unspecified_address_def Let_def
    by (rule concat_map_once [where Q = "is_unspecified_address_port_shape nodes" and h = edge_pair])
      (auto split: if_splits dest: source_once simp: is_candidate_unspecified_address_port_def)
qed (auto simp: in_rule_unspecified_address intro: attestedI1 candidate_sole candidate_endpoints)

interpretation daemon_state: unique_rule_contract rule_daemon_state FR_DockerDaemonStateBindMount
proof unfold_locales
  fix edges edges' :: "runtime_map_edge list" and nodes sha256 p
  show "mset edges = mset edges' \<Longrightarrow> mset (rule_daemon_state sha256 nodes edges)
      = mset (rule_daemon_state sha256 nodes edges')"
    unfolding rule_daemon_state_def Let_def
    by (rule mset_concat_map_cong) (simp_all add: pair_counts_perm [of edges edges'])
  show "length (filter (\<lambda>f. finding_pair f = p) (rule_daemon_state sha256 nodes edges)) \<le> 1"
    unfolding rule_daemon_state_def Let_def
    by (rule concat_map_once [where Q = "is_docker_daemon_state_shape nodes" and h = edge_pair])
      (auto split: if_splits dest: pair_once simp: is_candidate_docker_daemon_state_bind_mount_def)
qed (auto simp: in_rule_daemon_state intro: attestedI1 candidate_sole candidate_endpoints)

interpretation compose_target: unique_rule_contract rule_compose_target
  FR_DockerComposeDeclaredTargetNotActive
proof unfold_locales
  fix edges edges' :: "runtime_map_edge list" and nodes sha256 p
  show "mset edges = mset edges' \<Longrightarrow> mset (rule_compose_target sha256 nodes edges)
      = mset (rule_compose_target sha256 nodes edges')"
    unfolding rule_compose_target_def Let_def
    by (rule mset_concat_map_cong) (simp_all add: pair_counts_perm [of edges edges'])
  show "length (filter (\<lambda>f. finding_pair f = p) (rule_compose_target sha256 nodes edges)) \<le> 1"
    unfolding rule_compose_target_def Let_def
    by (rule concat_map_once [where Q = "is_candidate_compose_dependency nodes" and h = edge_pair])
      (auto split: if_splits dest: pair_once)
qed (auto simp: in_rule_compose_target intro: attestedI1 candidate_sole candidate_endpoints)

text \<open>The two rules that search for a second edge: a counter has established that at most one
  edge can answer, so the search does not depend on the order of the edges.\<close>

lemma daemon_port_search:
  assumes "bt_get (source_counts (is_docker_port_publication_pair_shape nodes) es) i = Some (Suc 0)"
    and "mset es = mset es'"
  shows "find (\<lambda>c. re_source c = i \<and> is_candidate_docker_daemon_state_port_publication nodes c) es
    = find (\<lambda>c. re_source c = i \<and> is_candidate_docker_daemon_state_port_publication nodes c) es'"
proof (rule find_unique_perm [OF assms(2)])
  show "length (filter (\<lambda>c. re_source c = i
      \<and> is_candidate_docker_daemon_state_port_publication nodes c) es) \<le> 1"
    using assms(1) by (rule_tac filter_weaken_le [of _
          "\<lambda>e. is_docker_port_publication_pair_shape nodes e \<and> re_source e = i"])
      (auto simp: source_counts_one is_candidate_docker_daemon_state_port_publication_def)
qed

lemma reverse_search:
  assumes "bt_get (pair_counts (is_candidate_compose_dependency nodes) es) (s, t) = Some (Suc 0)"
    and "mset es = mset es'"
  shows "find (\<lambda>c. re_source c = s \<and> re_target c = t \<and> is_candidate_compose_dependency nodes c) es
    = find (\<lambda>c. re_source c = s \<and> re_target c = t \<and> is_candidate_compose_dependency nodes c) es'"
proof (rule find_unique_perm [OF assms(2)])
  show "length (filter (\<lambda>c. re_source c = s \<and> re_target c = t
      \<and> is_candidate_compose_dependency nodes c) es) \<le> 1"
    using assms(1) by (rule_tac filter_weaken_le [of _
          "\<lambda>e. is_candidate_compose_dependency nodes e \<and> edge_pair e = (s, t)"])
      (auto simp: pair_counts_one edge_pair_def)
qed

interpretation daemon_state_port: unique_rule_contract rule_daemon_state_port
  FR_DockerDaemonStateBindMountPublishesPort
proof unfold_locales
  fix edges edges' :: "runtime_map_edge list" and nodes sha256 p f
  show "mset edges = mset edges' \<Longrightarrow> mset (rule_daemon_state_port sha256 nodes edges)
      = mset (rule_daemon_state_port sha256 nodes edges')"
    unfolding rule_daemon_state_port_def Let_def
    by (rule mset_concat_map_cong)
      (simp_all add: source_counts_perm [of edges edges'] daemon_port_search [of nodes edges _ edges'])
  show "length (filter (\<lambda>f. finding_pair f = p) (rule_daemon_state_port sha256 nodes edges)) \<le> 1"
    unfolding rule_daemon_state_port_def Let_def
    by (rule concat_map_once [where Q = "is_docker_daemon_state_pair_shape nodes" and h = edge_pair])
      (auto split: if_splits option.splits dest: source_once
        simp: is_candidate_docker_daemon_state_bind_mount_def shape_defs)
  show "finding_attested nodes edges f" if f: "f \<in> set (rule_daemon_state_port sha256 nodes edges)"
    using f unfolding in_rule_daemon_state_port
    by (auto dest!: find_hit intro!: attestedI2 intro: candidate_sole candidate_endpoints)
qed (auto simp: in_rule_daemon_state_port)

interpretation mutual_dependency: unique_rule_contract rule_mutual_dependency
  FR_DockerComposeMutualDependency
proof unfold_locales
  fix edges edges' :: "runtime_map_edge list" and nodes sha256 p f
  show "mset edges = mset edges' \<Longrightarrow> mset (rule_mutual_dependency sha256 nodes edges)
      = mset (rule_mutual_dependency sha256 nodes edges')"
    unfolding rule_mutual_dependency_def Let_def
    by (rule mset_concat_map_cong)
      (simp_all add: pair_counts_perm [of edges edges'] reverse_search [of nodes edges _ _ edges'])
  show "length (filter (\<lambda>f. finding_pair f = p) (rule_mutual_dependency sha256 nodes edges)) \<le> 1"
    unfolding rule_mutual_dependency_def Let_def
    by (rule concat_map_once [where Q = "is_candidate_compose_dependency nodes" and h = edge_pair])
      (auto split: if_splits option.splits dest: pair_once)
  show "finding_attested nodes edges f" if f: "f \<in> set (rule_mutual_dependency sha256 nodes edges)"
    using f unfolding in_rule_mutual_dependency
    by (auto dest!: find_hit intro!: attestedI2 intro: candidate_sole candidate_endpoints)
qed (auto simp: in_rule_mutual_dependency)

interpretation internal_network: rule_contract rule_internal_network
  FR_DockerInternalNetworkMemberPublishesPort
proof unfold_locales
  fix edges edges' :: "runtime_map_edge list" and nodes sha256
  show "mset edges = mset edges' \<Longrightarrow> mset (rule_internal_network sha256 nodes edges)
      = mset (rule_internal_network sha256 nodes edges')"
    unfolding rule_internal_network_def Let_def
    by (rule mset_concat_map_cong) (simp_all add: pair_counts_perm [of edges edges'])
qed (auto simp: in_rule_internal_network intro!: attestedI2 intro: candidate_sole candidate_endpoints)

lemma collision_edge_pair:
  assumes "is_candidate_runtime_identity_collision nodes e"
  shows "re_source e = RUNTIME_INTEGRITY_SCOPE_ID \<and> re_target e = RUNTIME_IDENTITY_COLLISION_RISK_ID"
proof -
  obtain r where r: "re_evidence_refs e = [r]"
    using assms candidate_sole(2) by (auto simp: sole_evidence_def)
  then have m: "evidence_ref_matches_edge e r" and k: "ev_kind r = RuntimeIdentityCollision"
    using assms by (auto simp: is_candidate_runtime_identity_collision_def has_valid_evidence_refs_def
        first_evidence_def)
  show ?thesis using m k
    by (auto simp: evidence_ref_matches_edge_def ev_is_def RUNTIME_INTEGRITY_SCOPE_ID_def
        RUNTIME_IDENTITY_COLLISION_RISK_ID_def split: if_splits)
qed

interpretation identity_collision: unique_rule_contract rule_identity_collision
  FR_RuntimeIdentityCollisionDetected
proof unfold_locales
  fix edges edges' :: "runtime_map_edge list" and nodes sha256 p
  let ?I = "\<lambda>e. re_source e = RUNTIME_INTEGRITY_SCOPE_ID \<and> re_target e = RUNTIME_IDENTITY_COLLISION_RISK_ID"
  have count: "length (filter ?I edges) = length (filter ?I edges')" if "mset edges = mset edges'"
    using arg_cong [OF that, of "\<lambda>m. size (filter_mset ?I m)"] by (simp flip: mset_filter)
  show "mset edges = mset edges' \<Longrightarrow> mset (rule_identity_collision sha256 nodes edges)
      = mset (rule_identity_collision sha256 nodes edges')"
    unfolding rule_identity_collision_def Let_def
    by (rule mset_concat_map_cong) (simp_all add: count)
  have one: "length (filter (\<lambda>e'. ?I e' \<and> edge_pair e' = edge_pair e) edges) \<le> 1"
    if "length (filter ?I edges) = 1" for e
    using that by (intro filter_weaken_le [of "\<lambda>e'. ?I e' \<and> edge_pair e' = edge_pair e" ?I]) simp_all
  show "length (filter (\<lambda>f. finding_pair f = p) (rule_identity_collision sha256 nodes edges)) \<le> 1"
    unfolding rule_identity_collision_def Let_def
  proof (rule concat_map_once [where Q = ?I and h = edge_pair], goal_cases)
    case (1 e)
    then have "is_candidate_runtime_identity_collision nodes e" "length (filter ?I edges) = 1"
      by (simp_all split: if_splits)
    then show ?case using one collision_edge_pair by blast
  qed (simp_all split: if_splits)
qed (auto simp: in_rule_identity_collision intro: attestedI1 candidate_sole candidate_endpoints)

section \<open>Properties of all findings\<close>

lemmas rule_defs = in_rule_evidence_not_current in_rule_identity_collision
  in_rule_unspecified_address in_rule_requires in_rule_part_of in_rule_daemon_state_port
  in_rule_mutual_dependency in_rule_compose_target in_rule_daemon_state in_rule_internal_network

lemmas rules_tagged = evidence_not_current.tagged identity_collision.tagged
  unspecified_address.tagged requires.tagged part_of.tagged daemon_state_port.tagged
  mutual_dependency.tagged compose_target.tagged daemon_state.tagged internal_network.tagged

lemmas rules_attested = evidence_not_current.attested identity_collision.attested
  unspecified_address.attested requires.attested part_of.attested daemon_state_port.attested
  mutual_dependency.attested compose_target.attested daemon_state.attested internal_network.attested

lemmas rules_permuted = evidence_not_current.permuted identity_collision.permuted
  unspecified_address.permuted requires.permuted part_of.permuted daemon_state_port.permuted
  mutual_dependency.permuted compose_target.permuted daemon_state.permuted internal_network.permuted

lemmas rules_select = evidence_not_current.select identity_collision.select
  unspecified_address.select requires.select part_of.select daemon_state_port.select
  mutual_dependency.select compose_target.select daemon_state.select internal_network.select

lemmas rules_once = evidence_not_current.once identity_collision.once
  unspecified_address.once requires.once part_of.once daemon_state_port.once
  mutual_dependency.once compose_target.once daemon_state.once

lemma collect_findings_attested:
  "f \<in> set (collect_findings sha256 nodes es) \<Longrightarrow> finding_attested nodes es f"
  by (auto simp: collect_findings_def intro: rules_attested)

lemma collect_findings_permuted:
  "mset es = mset es' \<Longrightarrow> mset (collect_findings sha256 nodes es) = mset (collect_findings sha256 nodes es')"
  unfolding collect_findings_def mset_append by (intro arg_cong2 [where f = plus] rules_permuted)

definition rule_list :: "finding_rule \<Rightarrow> digest \<Rightarrow> node_index \<Rightarrow> runtime_map_edge list \<Rightarrow> finding list" where
  "rule_list r =
     (case r of
        FR_SystemdRequiresTargetNotActive \<Rightarrow> rule_requires
      | FR_SystemdPartOfTargetNotActive \<Rightarrow> rule_part_of
      | FR_DockerInternalNetworkMemberPublishesPort \<Rightarrow> rule_internal_network
      | FR_DockerPortPublishedOnUnspecifiedAddress \<Rightarrow> rule_unspecified_address
      | FR_DockerDaemonStateBindMount \<Rightarrow> rule_daemon_state
      | FR_DockerDaemonStateBindMountPublishesPort \<Rightarrow> rule_daemon_state_port
      | FR_DockerComposeDeclaredTargetNotActive \<Rightarrow> rule_compose_target
      | FR_DockerComposeMutualDependency \<Rightarrow> rule_mutual_dependency
      | FR_ComposeDeclaredMountMissingAtBoundContainer \<Rightarrow> (\<lambda>_ _ _. [])
      | FR_RuntimeIdentityCollisionDetected \<Rightarrow> rule_identity_collision
      | FR_RuntimeDeclaredRelationshipEvidenceNotCurrent \<Rightarrow> rule_evidence_not_current)"

lemma collect_findings_select:
  "filter (\<lambda>f. fi_rule_id f = r) (collect_findings sha256 nodes es) = rule_list r sha256 nodes es"
  by (cases r) (simp_all add: collect_findings_def rules_select rule_list_def)

lemma derive_findings_select:
  "f \<in> set (derive_findings sha256 m) \<and> fi_rule_id f = r \<longleftrightarrow>
     rm_source m \<noteq> Some Mode_Mock
     \<and> f \<in> set (rule_list r sha256 (unique_node_index (rm_nodes m)) (rm_edges m))"
proof -
  have "f \<in> set (rule_list r sha256 nodes es) \<longleftrightarrow>
      f \<in> set (collect_findings sha256 nodes es) \<and> fi_rule_id f = r" for nodes es
    unfolding collect_findings_select [symmetric] by auto
  then show ?thesis by (auto simp: derive_findings_def)
qed

lemma matches_of_sole: "has_valid_evidence_refs e \<Longrightarrow> re_evidence_refs e = [r] \<Longrightarrow> evidence_ref_matches_edge e r"
  by (simp add: has_valid_evidence_refs_def)

lemma unique_index_ex1:
  assumes "bt_get (unique_node_index ns) i = Some n"
  shows "\<exists>!n. n \<in> set ns \<and> rn_id n = i"
proof -
  have "count_list (map rn_id ns) i = 1" "n \<in> set ns" "rn_id n = i"
    using assms by (simp_all add: unique_node_index_get)
  then show ?thesis using count_list_one_unique [of rn_id ns i] by blast
qed

text \<open>
  C38. Every finding rests on the map it was derived from: its subject and target are the ends
  of an edge of the map, each names exactly one node, and it carries one or two evidence
  references, each of which is the only evidence of an edge it attests.
\<close>

theorem findings_rest_on_map:
  assumes "f \<in> set (derive_findings sha256 m)"
  shows "(\<exists>e \<in> set (rm_edges m). re_source e = fi_subject_ref f \<and> re_target e = fi_target_ref f)
    \<and> (\<exists>!n. n \<in> set (rm_nodes m) \<and> rn_id n = fi_subject_ref f)
    \<and> (\<exists>!n. n \<in> set (rm_nodes m) \<and> rn_id n = fi_target_ref f)
    \<and> length (fi_evidence_refs f) \<in> {1, 2}
    \<and> (\<forall>r \<in> set (fi_evidence_refs f). \<exists>e \<in> set (rm_edges m).
          re_evidence_refs e = [r] \<and> evidence_ref_matches_edge e r)"
proof -
  let ?nodes = "unique_node_index (rm_nodes m)"
  have a: "finding_attested ?nodes (rm_edges m) f"
    using assms by (auto simp: derive_findings_def intro: collect_findings_attested split: if_splits)
  then obtain e rest where e: "e \<in> set (rm_edges m)" "re_source e = fi_subject_ref f"
      "re_target e = fi_target_ref f" "endpoints_match ?nodes e (\<lambda>_ _. True)"
      "fi_evidence_refs f = hd (re_evidence_refs e) # rest" "length rest \<le> 1"
    by (auto simp: finding_attested_def)
  then obtain s t where st: "bt_get ?nodes (fi_subject_ref f) = Some s"
      "bt_get ?nodes (fi_target_ref f) = Some t"
    by (auto simp: endpoints_match_Some)
  have "length (fi_evidence_refs f) \<in> {1, 2}" using e(5,6) by (cases rest) auto
  moreover have "\<forall>r \<in> set (fi_evidence_refs f). \<exists>e \<in> set (rm_edges m).
      re_evidence_refs e = [r] \<and> evidence_ref_matches_edge e r"
    using a matches_of_sole unfolding finding_attested_def by blast
  ultimately show ?thesis
    using e(1-3) unique_index_ex1 [OF st(1)] unique_index_ex1 [OF st(2)] by blast
qed

definition example_unit :: "string \<Rightarrow> string \<Rightarrow> runtime_map_node" where
  "example_unit i status = \<lparr>rn_id = i, rn_provider = RPK_Systemd, rn_kind = RNK_SystemdService,
     rn_label = i, rn_status = Some status, rn_layer = Some RNL_Host, rn_metadata = [],
     rn_service = None, rn_package = None\<rparr>"

definition example_requires_edge :: runtime_map_edge where
  "example_requires_edge = \<lparr>re_source = ''systemd_service_a'', re_target = ''systemd_service_b'',
     re_relationship = RRK_Requires, re_metadata = [],
     re_evidence_refs = [\<lparr>ev_version = 2, ev_id = ''e1'', ev_provider = REP_Systemd,
       ev_kind = SystemdRequires, ev_assertion_kind = Declared, ev_summary = ''declared'',
       ev_subject_ref = ''systemd_service_a'', ev_collected_at = 4, ev_provider_revision = ''r4'',
       ev_provider_slot = Some Slot_Systemd, ev_freshness = EF_Fresh\<rparr>]\<rparr>"

definition example_map :: runtime_map where
  "example_map = \<lparr>rm_nodes = [example_unit ''systemd_service_a'' ''active'',
       example_unit ''systemd_service_b'' ''failed''],
     rm_edges = [example_requires_edge], rm_diagnostics = [], rm_last_updated = 4,
     rm_model_revision = ''m1'', rm_provider_states = [], rm_source = Some Mode_Docker\<rparr>"

lemma example_finding:
  "\<exists>f. f \<in> set (derive_findings sha256 example_map)
     \<and> fi_rule_id f = FR_SystemdRequiresTargetNotActive \<and> fi_subject_ref f = ''systemd_service_a''"
proof -
  let ?f = "edge_finding (finding_id sha256 FR_SystemdRequiresTargetNotActive example_requires_edge)
    FR_SystemdRequiresTargetNotActive FS_Warning REQUIRES_SUMMARY REQUIRES_RECOMMENDATION
    example_requires_edge [hd (re_evidence_refs example_requires_edge)]"
  have "is_candidate_requires example_requires_edge" by code_simp
  moreover have "endpoints_match (unique_node_index (rm_nodes example_map)) example_requires_edge
      systemd_target_not_active" by code_simp
  ultimately have "?f \<in> set (rule_requires sha256 (unique_node_index (rm_nodes example_map))
      (rm_edges example_map))"
    unfolding in_rule_requires by (simp add: example_map_def)
  then have "?f \<in> set (derive_findings sha256 example_map) \<and> fi_rule_id ?f = FR_SystemdRequiresTargetNotActive"
    unfolding derive_findings_select by (simp add: rule_list_def example_map_def)
  moreover have "fi_subject_ref ?f = ''systemd_service_a''" by (simp add: example_requires_edge_def)
  ultimately show ?thesis by blast
qed

theorem findings_rest_on_map_witness:
  "\<exists>f. f \<in> set (derive_findings toy_digest example_map) \<and> length (fi_evidence_refs f) \<in> {1, 2}"
  using example_finding findings_rest_on_map by blast

text \<open>
  C40. The findings depend on which nodes and edges the collectors delivered, not on their
  order: permuted maps give the same findings, and the same list when no two findings share
  identifier, subject and target.
\<close>

theorem findings_order_independent:
  assumes "mset (rm_nodes m) = mset (rm_nodes m')" and "mset (rm_edges m) = mset (rm_edges m')"
    and "rm_source m = rm_source m'"
  shows "mset (derive_findings sha256 m) = mset (derive_findings sha256 m')
    \<and> (inj_on finding_sort_key (set (derive_findings sha256 m))
        \<longrightarrow> derive_findings sha256 m = derive_findings sha256 m')"
proof -
  have eq: "mset (derive_findings sha256 m) = mset (derive_findings sha256 m')"
    using unique_node_index_perm [OF assms(1)] collect_findings_permuted [OF assms(2)] assms(3)
    by (simp add: derive_findings_def)
  have sorted: "sorted (map finding_sort_key (derive_findings sha256 m''))" for m''
    by (simp add: derive_findings_def)
  have "derive_findings sha256 m = derive_findings sha256 m'"
    if "inj_on finding_sort_key (set (derive_findings sha256 m))"
  proof -
    have "sort_key finding_sort_key (derive_findings sha256 m) = derive_findings sha256 m'"
      by (rule sort_key_inj_key_eq [OF eq that sorted])
    moreover have "sort_key finding_sort_key (derive_findings sha256 m) = derive_findings sha256 m"
      by (rule sort_key_inj_key_eq [OF refl that sorted])
    ultimately show ?thesis by simp
  qed
  then show ?thesis using eq by blast
qed

theorem findings_order_independent_witness:
  "mset (derive_findings toy_digest example_map)
   = mset (derive_findings toy_digest (example_map\<lparr>rm_nodes := rev (rm_nodes example_map)\<rparr>))"
  using findings_order_independent [of example_map
      "example_map\<lparr>rm_nodes := rev (rm_nodes example_map)\<rparr>" toy_digest] by simp

text \<open>
  A rule reports a pair of entities at most once; only the internal-network rule reports
  a container and a network again, once for every published listener.
\<close>

lemma one_finding_per_relationship:
  assumes "r \<noteq> FR_DockerInternalNetworkMemberPublishesPort"
  shows "length (filter (\<lambda>f. fi_rule_id f = r \<and> fi_subject_ref f = s \<and> fi_target_ref f = t)
    (derive_findings sha256 m)) \<le> 1"
proof -
  let ?L = "collect_findings sha256 (unique_node_index (rm_nodes m)) (rm_edges m)"
  let ?P = "\<lambda>f. fi_rule_id f = r \<and> fi_subject_ref f = s \<and> fi_target_ref f = t"
  have "length (filter ?P (sort_key finding_sort_key ?L)) = length (filter ?P ?L)"
    by (simp add: filter_sort)
  also have "filter ?P ?L = filter (\<lambda>f. finding_pair f = (s, t)) (filter (\<lambda>f. fi_rule_id f = r) ?L)"
    by (simp add: finding_pair_def conj_ac)
  also have "length \<dots> \<le> 1"
    unfolding collect_findings_select using assms rules_once by (cases r) (simp_all add: rule_list_def)
  finally show ?thesis by (simp add: derive_findings_def)
qed

text \<open>The freshness of the reference a candidate edge contributes.\<close>

lemma first_evidence_hd: "first_evidence e P \<Longrightarrow> P (hd (re_evidence_refs e))"
  by (auto simp: first_evidence_def split: list.splits)

lemma fresh_docker_hd: "is_fresh_docker_evidence e kind \<Longrightarrow> ev_freshness (hd (re_evidence_refs e)) = EF_Fresh"
  by (auto simp: is_fresh_docker_evidence_def dest!: first_evidence_hd)

lemma candidate_fresh:
  "is_candidate_docker_daemon_state_bind_mount nodes e \<Longrightarrow> ev_freshness (hd (re_evidence_refs e)) = EF_Fresh"
  "is_candidate_runtime_identity_collision nodes e \<Longrightarrow> ev_freshness (hd (re_evidence_refs e)) = EF_Fresh"
  "is_candidate_unspecified_address_port nodes e \<Longrightarrow> ev_freshness (hd (re_evidence_refs e)) = EF_Fresh"
  "is_candidate_internal_network_membership nodes e \<Longrightarrow> ev_freshness (hd (re_evidence_refs e)) = EF_Fresh"
  "is_candidate_port_publication nodes e \<Longrightarrow> ev_freshness (hd (re_evidence_refs e)) = EF_Fresh"
  "is_candidate_docker_daemon_state_port_publication nodes e \<Longrightarrow>
     ev_freshness (hd (re_evidence_refs e)) = EF_Fresh"
  "is_candidate_requires e \<Longrightarrow> ev_freshness (hd (re_evidence_refs e)) = EF_Fresh"
  "is_candidate_part_of e \<Longrightarrow> ev_freshness (hd (re_evidence_refs e)) = EF_Fresh"
  "is_candidate_compose_dependency nodes e \<Longrightarrow> ev_freshness (hd (re_evidence_refs e)) = EF_Fresh"
  "is_candidate_non_current_declared_relationship e \<Longrightarrow>
     ev_freshness (hd (re_evidence_refs e)) \<noteq> EF_Fresh"
  by (auto simp: candidate_defs dest: fresh_docker_hd dest!: first_evidence_hd)

text \<open>
  Evidence is never read as newer than it is: every finding rests on fresh evidence only,
  except the one rule that reports a relationship whose evidence is not fresh any more.
\<close>

lemma findings_use_fresh_evidence:
  assumes "f \<in> set (derive_findings sha256 m)" and "r \<in> set (fi_evidence_refs f)"
  shows "ev_freshness r = EF_Fresh \<longleftrightarrow> fi_rule_id f \<noteq> FR_RuntimeDeclaredRelationshipEvidenceNotCurrent"
proof -
  let ?nodes = "unique_node_index (rm_nodes m)"
  have f: "f \<in> set (rule_list (fi_rule_id f) sha256 ?nodes (rm_edges m))"
    using assms(1) derive_findings_select by blast
  show ?thesis
    using f assms(2)
    by (cases "fi_rule_id f") (auto simp: rule_list_def rule_defs candidate_fresh dest!: find_hit)
qed

text \<open>A rule with one counter per pair fires exactly when one candidate joins the pair and the
  two uniquely identified ends are as the rule wants them.\<close>

lemma pair_rule_exact:
  assumes R: "\<And>f. f \<in> set R \<longleftrightarrow> (\<exists>e \<in> set es. cand e
      \<and> length (filter (\<lambda>e'. cand e' \<and> edge_pair e' = edge_pair e) es) = 1
      \<and> endpoints_match nodes e P \<and> f = mk e)"
    and mk: "\<And>e. fi_subject_ref (mk e) = re_source e" "\<And>e. fi_target_ref (mk e) = re_target e"
  shows "(\<exists>f \<in> set R. fi_subject_ref f = s \<and> fi_target_ref f = t) \<longleftrightarrow>
    length (filter (\<lambda>e. cand e \<and> edge_pair e = (s, t)) es) = 1
    \<and> (\<exists>a b. bt_get nodes s = Some a \<and> bt_get nodes t = Some b \<and> P a b)"
    (is "?L \<longleftrightarrow> ?n = 1 \<and> ?E")
proof
  assume ?L
  then obtain e where "e \<in> set es" "cand e" "re_source e = s" "re_target e = t"
      "length (filter (\<lambda>e'. cand e' \<and> edge_pair e' = edge_pair e) es) = 1" "endpoints_match nodes e P"
    using R mk by auto
  then show "?n = 1 \<and> ?E" by (auto simp: edge_pair_def endpoints_match_Some)
next
  assume r: "?n = 1 \<and> ?E"
  then have "filter (\<lambda>e. cand e \<and> edge_pair e = (s, t)) es \<noteq> []" by auto
  then obtain e where e: "e \<in> set es" "cand e" "edge_pair e = (s, t)"
    unfolding filter_empty_conv by blast
  then have "mk e \<in> set R" using R r by (auto simp: endpoints_match_Some edge_pair_def)
  then show ?L using e mk by (auto simp: edge_pair_def)
qed

lemma index_ends:
  "(\<exists>a b. bt_get (unique_node_index ns) s = Some a \<and> bt_get (unique_node_index ns) t = Some b \<and> P a b)
   \<longleftrightarrow> (\<exists>a \<in> set ns. \<exists>b \<in> set ns. rn_id a = s \<and> rn_id b = t
          \<and> count_list (map rn_id ns) s = 1 \<and> count_list (map rn_id ns) t = 1 \<and> P a b)"
  unfolding unique_node_index_get by blast



lemma dependency_count:
  assumes "length (filter (\<lambda>e'. re_relationship e' = RRK_DependsOn \<and> edge_pair e' = p) es) = 1"
    and "e \<in> set es" "is_candidate_compose_dependency nodes e" "edge_pair e = p"
  shows "length (filter (\<lambda>e'. is_candidate_compose_dependency nodes e' \<and> edge_pair e' = p) es) = 1"
proof (rule antisym)
  show "length (filter (\<lambda>e'. is_candidate_compose_dependency nodes e' \<and> edge_pair e' = p) es) \<le> 1"
    using assms(1) by (rule_tac filter_weaken_le [of _
          "\<lambda>e'. re_relationship e' = RRK_DependsOn \<and> edge_pair e' = p"])
      (simp_all add: is_candidate_compose_dependency_def)
  have "filter (\<lambda>e'. is_candidate_compose_dependency nodes e' \<and> edge_pair e' = p) es \<noteq> []"
    using assms(2-4) unfolding filter_empty_conv by blast
  then show "1 \<le> length (filter (\<lambda>e'. is_candidate_compose_dependency nodes e' \<and> edge_pair e' = p) es)"
    by (cases "filter (\<lambda>e'. is_candidate_compose_dependency nodes e' \<and> edge_pair e' = p) es") simp_all
qed

lemma find_exists: "x \<in> set xs \<Longrightarrow> P x \<Longrightarrow> \<exists>y. Some y = find P xs \<and> y \<in> set xs \<and> P y"
  by (induction xs) auto

lemma length_filter_one_eq:
  "length (filter P xs) = 1 \<Longrightarrow> x \<in> set xs \<Longrightarrow> P x \<Longrightarrow> y \<in> set xs \<Longrightarrow> P y \<Longrightarrow> x = y"
proof -
  assume a: "length (filter P xs) = 1" "x \<in> set xs" "P x" "y \<in> set xs" "P y"
  then obtain z where "filter P xs = [z]" by (auto simp: length_Suc_conv)
  moreover have "x \<in> set (filter P xs)" "y \<in> set (filter P xs)" using a by simp_all
  ultimately show "x = y" by (simp del: set_filter)
qed

text \<open>
  A mutual Compose dependency is reported exactly when two containers each declare the
  other once, in one and the same Docker observation, and then only under the
  lexicographically smaller container.
\<close>

lemma mutual_dependency_exact:
  "(\<exists>f \<in> set (derive_findings sha256 m). fi_rule_id f = FR_DockerComposeMutualDependency
      \<and> fi_subject_ref f = s \<and> fi_target_ref f = t)
   \<longleftrightarrow> rm_source m \<noteq> Some Mode_Mock \<and> s < t
     \<and> length (filter (\<lambda>e. re_relationship e = RRK_DependsOn \<and> edge_pair e = (s, t)) (rm_edges m)) = 1
     \<and> length (filter (\<lambda>e. re_relationship e = RRK_DependsOn \<and> edge_pair e = (t, s)) (rm_edges m)) = 1
     \<and> (\<exists>e \<in> set (rm_edges m). \<exists>r \<in> set (rm_edges m). edge_pair e = (s, t) \<and> edge_pair r = (t, s)
          \<and> is_candidate_compose_dependency (unique_node_index (rm_nodes m)) e
          \<and> is_candidate_compose_dependency (unique_node_index (rm_nodes m)) r
          \<and> same_observation (hd (re_evidence_refs e)) (hd (re_evidence_refs r)))"
proof -
  let ?nodes = "unique_node_index (rm_nodes m)"
  let ?C = "is_candidate_compose_dependency ?nodes" and ?es = "rm_edges m"
  let ?one = "\<lambda>p. length (filter (\<lambda>e. re_relationship e = RRK_DependsOn \<and> edge_pair e = p) ?es) = 1"
  let ?pair = "\<exists>e \<in> set ?es. \<exists>r \<in> set ?es. edge_pair e = (s, t) \<and> edge_pair r = (t, s) \<and> ?C e \<and> ?C r
          \<and> same_observation (hd (re_evidence_refs e)) (hd (re_evidence_refs r))"
  have "(\<exists>f \<in> set (rule_mutual_dependency sha256 ?nodes ?es). fi_subject_ref f = s \<and> fi_target_ref f = t)
    \<longleftrightarrow> s < t \<and> ?one (s, t) \<and> ?one (t, s) \<and> ?pair" (is "?L \<longleftrightarrow> ?R")
  proof
    assume ?L
    then obtain f where "f \<in> set (rule_mutual_dependency sha256 ?nodes ?es)"
        "fi_subject_ref f = s" "fi_target_ref f = t" by blast
    then obtain e r where e: "e \<in> set ?es" "re_source e = s" "re_target e = t" "?C e" "s < t"
        "?one (edge_pair e)" "?one (re_target e, re_source e)"
        "same_observation (hd (re_evidence_refs e)) (hd (re_evidence_refs r))"
        and r: "Some r = find (\<lambda>c. re_source c = re_target e \<and> re_target c = re_source e \<and> ?C c) ?es"
      unfolding in_rule_mutual_dependency by auto
    have "r \<in> set ?es \<and> re_source r = t \<and> re_target r = s \<and> ?C r"
      using find_hit [OF r] e(2,3) by blast
    then have ?pair using e by (intro bexI [of _ e] bexI [of _ r]) (simp_all add: edge_pair_def)
    then show ?R using e(2,3,5-7) by (simp add: edge_pair_def)
  next
    assume R: ?R
    then obtain e r where e: "e \<in> set ?es" "edge_pair e = (s, t)" "?C e"
        and r: "r \<in> set ?es" "edge_pair r = (t, s)" "?C r"
        and same: "same_observation (hd (re_evidence_refs e)) (hd (re_evidence_refs r))" by blast
    let ?S = "\<lambda>c. re_source c = re_target e \<and> re_target c = re_source e \<and> ?C c"
    obtain r' where r': "Some r' = find ?S ?es" "r' \<in> set ?es" "?S r'"
      using find_exists [of r ?es ?S] e r by (auto simp: edge_pair_def)
    have counts: "length (filter (\<lambda>e'. ?C e' \<and> edge_pair e' = (s, t)) ?es) = 1"
      "length (filter (\<lambda>e'. ?C e' \<and> edge_pair e' = (t, s)) ?es) = 1"
      using R dependency_count e r by blast+
    have "r' = r"
      using length_filter_one_eq [OF counts(2), of r' r] r' r e by (auto simp: edge_pair_def)
    then have "edge_finding (finding_id sha256 FR_DockerComposeMutualDependency e)
        FR_DockerComposeMutualDependency FS_Advisory COMPOSE_MUTUAL_DEPENDENCY_SUMMARY
        COMPOSE_MUTUAL_DEPENDENCY_RECOMMENDATION e [hd (re_evidence_refs e), hd (re_evidence_refs r')]
        \<in> set (rule_mutual_dependency sha256 ?nodes ?es)"
      unfolding in_rule_mutual_dependency using e r' same counts R
      by (intro bexI [of _ e] exI [of _ r']) (auto simp: edge_pair_def)
    then show ?L using e(2) by (force simp: edge_pair_def)
  qed
  then show ?thesis
    using derive_findings_select [of _ sha256 m FR_DockerComposeMutualDependency]
    by (simp add: rule_list_def) blast
qed

end
