(* ===== verification/Binding.thy ===== *)
theory Binding
  imports Findings
begin

text \<open>
  The private binding of Compose declarations to running containers
  (\<open>crates/dockermap-core/src/compose_runtime_binding.rs\<close>): the guards that make the rule
  fail closed, the search for the one bound container, the comparison of mounts and the
  findings on mounts that are declared but absent.

  A \<open>BTreeSet<String>\<close> is its strictly increasing list of elements.
\<close>

definition MAX_COMPOSE_RUNTIME_BINDING_CONTAINERS :: nat where
  "MAX_COMPOSE_RUNTIME_BINDING_CONTAINERS = 64"

definition MAX_COMPOSE_RUNTIME_BINDING_CONFIG_FILES :: nat where
  "MAX_COMPOSE_RUNTIME_BINDING_CONFIG_FILES = 8"

definition MAX_COMPOSE_RUNTIME_BINDING_SERVICES :: nat where
  "MAX_COMPOSE_RUNTIME_BINDING_SERVICES = 128"

definition MAX_COMPOSE_RUNTIME_BINDING_MOUNTS :: nat where
  "MAX_COMPOSE_RUNTIME_BINDING_MOUNTS = 256"

definition MAX_RUNTIME_MOUNTS_PER_BOUND_CONTAINER :: nat where
  "MAX_RUNTIME_MOUNTS_PER_BOUND_CONTAINER = 128"

definition MAX_PRIVATE_ID_CHARS :: nat where
  "MAX_PRIVATE_ID_CHARS = 259"

definition MISSING_MOUNT_SUMMARY :: string where
  "MISSING_MOUNT_SUMMARY =
     ''A Compose-declared mount is absent from its exactly bound runtime container''"

definition MISSING_MOUNT_RECOMMENDATION :: string where
  "MISSING_MOUNT_RECOMMENDATION =
     ''Inspect the Compose mount declaration and the bound container's current mount configuration.''"

record compose_runtime_container =
  cx_container_id :: string
  cx_project :: string
  cx_service :: string
  cx_config_files :: "string list"
  cx_mounts :: "container_mount list"

record compose_runtime_binding =
  cb_project :: string
  cb_config_files :: "string list"
  cb_containers :: "compose_runtime_container list"
  cb_collected_at :: u64
  cb_provider_revision :: string
  cb_fresh :: bool

definition opaque_id :: "digest \<Rightarrow> string \<Rightarrow> string" where
  "opaque_id sha256 value = hex_digest sha256 value"

definition is_docker_container_id :: "string \<Rightarrow> bool" where
  "is_docker_container_id value \<longleftrightarrow> length value = 64 \<and> list_all is_lower_hex value"

definition mounts_match :: "compose_mount \<Rightarrow> container_mount \<Rightarrow> bool" where
  "mounts_match declared runtime \<longleftrightarrow>
     mt_kind declared = cm_kind runtime \<and> mt_target declared = cm_target runtime
     \<and> (case mt_kind declared of
          CMK_Bind \<Rightarrow>
            (case mt_resolved_source declared of None \<Rightarrow> mt_source declared | Some s \<Rightarrow> Some s)
              = cm_source runtime
        | CMK_NamedVolume \<Rightarrow> mt_source declared = cm_source runtime
        | _ \<Rightarrow> False)"

section \<open>Guards\<close>

definition bound_container_malformed :: "compose_runtime_container \<Rightarrow> bool" where
  "bound_container_malformed c \<longleftrightarrow>
     cx_container_id c = [] \<or> \<not> is_docker_container_id (cx_container_id c)
     \<or> char_count (cx_container_id c) > MAX_PRIVATE_ID_CHARS
     \<or> char_count (cx_project c) > MAX_PRIVATE_ID_CHARS
     \<or> cx_service c = [] \<or> char_count (cx_service c) > MAX_PRIVATE_ID_CHARS
     \<or> length (cx_config_files c) > MAX_COMPOSE_RUNTIME_BINDING_CONFIG_FILES
     \<or> list_ex (\<lambda>path. char_count path > MAX_PRIVATE_ID_CHARS) (cx_config_files c)
     \<or> length (cx_mounts c) > MAX_RUNTIME_MOUNTS_PER_BOUND_CONTAINER"

definition binding_rejected :: "compose_scan \<Rightarrow> compose_runtime_binding \<Rightarrow> bool" where
  "binding_rejected scan b \<longleftrightarrow>
     \<not> cb_fresh b \<or> cb_project b = [] \<or> char_count (cb_project b) > MAX_PRIVATE_ID_CHARS
     \<or> cb_config_files b = []
     \<or> length (cb_config_files b) > MAX_COMPOSE_RUNTIME_BINDING_CONFIG_FILES
     \<or> cb_provider_revision b = []
     \<or> length (cb_containers b) > MAX_COMPOSE_RUNTIME_BINDING_CONTAINERS
     \<or> length (sc_services scan) > MAX_COMPOSE_RUNTIME_BINDING_SERVICES
     \<or> length (sc_mounts scan) > MAX_COMPOSE_RUNTIME_BINDING_MOUNTS
     \<or> bs_collect (sc_files scan) \<noteq> cb_config_files b
     \<or> list_ex (\<lambda>d. cd_severity d \<noteq> DS_Info) (sc_diagnostics scan)
     \<or> list_ex (\<lambda>path. char_count path > MAX_PRIVATE_ID_CHARS) (cb_config_files b)
     \<or> list_ex bound_container_malformed (cb_containers b)"

section \<open>The rule\<close>

definition binding_evidence ::
  "digest \<Rightarrow> string \<Rightarrow> runtime_evidence_provider \<Rightarrow> runtime_evidence_kind
     \<Rightarrow> runtime_evidence_assertion_kind \<Rightarrow> string \<Rightarrow> u64 \<Rightarrow> string \<Rightarrow> string \<Rightarrow> runtime_evidence_ref"
where
  "binding_evidence sha256 id_prefix provider kind assertion_kind subject_ref collected_at revision seed =
     \<lparr>ev_version = 6, ev_id = id_prefix @ ''_'' @ opaque_id sha256 seed, ev_provider = provider,
      ev_kind = kind, ev_assertion_kind = assertion_kind,
      ev_summary = (if kind = ComposeDeclaredMount
         then ''Compose declared a mount for the bound service''
         else ''Docker confirmed an exact Compose project, service, and config binding''),
      ev_subject_ref = subject_ref, ev_collected_at = collected_at,
      ev_provider_revision = revision, ev_provider_slot = None, ev_freshness = EF_Fresh\<rparr>"

definition missing_mount_finding :: "digest \<Rightarrow> u64 \<Rightarrow> string \<Rightarrow> string \<Rightarrow> nat \<Rightarrow> finding" where
  "missing_mount_finding sha256 collected_at revision container_id mount_ordinal =
     (let subject_ref = ''compose_runtime_binding_'' @ opaque_id sha256 container_id;
          seed = container_id @ unit_separator @ show_nat mount_ordinal
      in \<lparr>fi_id = ''finding_compose_declared_mount_missing_at_bound_container_'' @ opaque_id sha256 seed,
          fi_rule_id = FR_ComposeDeclaredMountMissingAtBoundContainer, fi_severity = FS_Warning,
          fi_summary = MISSING_MOUNT_SUMMARY, fi_recommendation = MISSING_MOUNT_RECOMMENDATION,
          fi_subject_ref = subject_ref, fi_target_ref = subject_ref,
          fi_evidence_refs =
            [binding_evidence sha256 ''compose_declared_mount'' REP_Compose ComposeDeclaredMount
               Declared subject_ref collected_at revision seed,
             binding_evidence sha256 ''docker_compose_runtime_binding'' REP_Docker
               DockerComposeRuntimeBinding Observed subject_ref collected_at revision seed]\<rparr>)"

definition same_project :: "compose_runtime_binding \<Rightarrow> compose_runtime_container \<Rightarrow> bool" where
  "same_project b c \<longleftrightarrow> cx_project c = cb_project b \<and> cx_config_files c = cb_config_files b"

definition container_id_counts :: "compose_runtime_binding \<Rightarrow> (string, nat) btree_map" where
  "container_id_counts b = bt_count (map cx_container_id (cb_containers b))"

definition service_counts :: "compose_runtime_binding \<Rightarrow> (string, nat) btree_map" where
  "service_counts b = bt_count (map cx_service (filter (same_project b) (cb_containers b)))"

definition bound_candidate :: "compose_runtime_binding \<Rightarrow> compose_mount \<Rightarrow> compose_runtime_container option" where
  "bound_candidate b mount =
     find (\<lambda>c. same_project b c \<and> cx_service c = mt_service mount \<and> cx_container_id c \<noteq> []
         \<and> bt_get (container_id_counts b) (cx_container_id c) = Some 1
         \<and> bt_get (service_counts b) (cx_service c) = Some 1) (cb_containers b)"

definition mount_findings ::
  "digest \<Rightarrow> compose_runtime_binding \<Rightarrow> nat \<times> compose_mount \<Rightarrow> finding list"
where
  "mount_findings sha256 b im =
     (if mt_kind (snd im) \<notin> {CMK_Bind, CMK_NamedVolume} then []
      else (case bound_candidate b (snd im) of
          None \<Rightarrow> []
        | Some c \<Rightarrow>
            if list_ex (mounts_match (snd im)) (cx_mounts c) then []
            else [missing_mount_finding sha256 (cb_collected_at b) (cb_provider_revision b)
                    (cx_container_id c) (fst im)]))"

definition derive_compose_runtime_mount_findings ::
  "digest \<Rightarrow> compose_scan \<Rightarrow> compose_runtime_binding \<Rightarrow> finding list"
where
  "derive_compose_runtime_mount_findings sha256 scan b =
     (if binding_rejected scan b then []
      else sort_key fi_id (concat (map (mount_findings sha256 b) (enumerate 0 (sc_mounts scan)))))"

section \<open>Properties\<close>

definition exactly_bound ::
  "compose_runtime_binding \<Rightarrow> compose_mount \<Rightarrow> compose_runtime_container \<Rightarrow> bool"
where
  "exactly_bound b mount c \<longleftrightarrow>
     c \<in> set (cb_containers b) \<and> same_project b c \<and> cx_service c = mt_service mount
     \<and> cx_container_id c \<noteq> []
     \<and> length (filter (\<lambda>d. cx_container_id d = cx_container_id c) (cb_containers b)) = 1
     \<and> length (filter (\<lambda>d. same_project b d \<and> cx_service d = cx_service c) (cb_containers b)) = 1"

lemma in_concat_enumerate:
  "(\<exists>x \<in> set (enumerate 0 xs). y \<in> set (g x)) = (\<exists>i < length xs. y \<in> set (g (i, xs ! i)))"
  by (auto simp: in_set_enumerate_eq)

lemma exactly_bound_unique: "exactly_bound b mount c \<Longrightarrow> exactly_bound b mount d \<Longrightarrow> d = c"
  using length_filter_one_eq [of "\<lambda>d. same_project b d \<and> cx_service d = cx_service c" "cb_containers b" d c]
  by (auto simp: exactly_bound_def)

lemma bound_candidate_iff: "bound_candidate b mount = Some c \<longleftrightarrow> exactly_bound b mount c"
proof -
  define P where "P c \<longleftrightarrow> same_project b c \<and> cx_service c = mt_service mount \<and> cx_container_id c \<noteq> []
         \<and> bt_get (container_id_counts b) (cx_container_id c) = Some 1
         \<and> bt_get (service_counts b) (cx_service c) = Some 1" for c
  have cand: "bound_candidate b mount = find P (cb_containers b)"
    by (simp add: bound_candidate_def P_def [abs_def])
  have P: "c \<in> set (cb_containers b) \<and> P c \<longleftrightarrow> exactly_bound b mount c" for c
    using count_list_map_filter [of cx_container_id "\<lambda>_. True" "cb_containers b" "cx_container_id c"]
    by (auto simp: P_def exactly_bound_def container_id_counts_def service_counts_def
        bt_get_count_Suc0 count_list_map_filter)
  show ?thesis
  proof
    assume "bound_candidate b mount = Some c"
    then show "exactly_bound b mount c"
      using find_hit [of c P "cb_containers b"] P cand by simp
  next
    assume c: "exactly_bound b mount c"
    then obtain d where d: "Some d = find P (cb_containers b)" "d \<in> set (cb_containers b)" "P d"
      using find_exists [of c "cb_containers b" P] P by blast
    then have "d = c" using exactly_bound_unique [OF c] P by blast
    then show "bound_candidate b mount = Some c" using d(1) cand by simp
  qed
qed

text \<open>
  A missing-mount finding is reported exactly for the declared bind and named-volume mounts
  whose service is bound to one and only one container with a unique identifier, and which
  that container does not have; nothing is reported when a guard rejects the binding. The
  finding is built from the container identifier, the position of the declaration and the
  observation alone.
\<close>

lemma missing_mount_exact:
  "f \<in> set (derive_compose_runtime_mount_findings sha256 scan b) \<longleftrightarrow>
     \<not> binding_rejected scan b
     \<and> (\<exists>i c. i < length (sc_mounts scan) \<and> mt_kind (sc_mounts scan ! i) \<in> {CMK_Bind, CMK_NamedVolume}
          \<and> exactly_bound b (sc_mounts scan ! i) c
          \<and> \<not> (\<exists>r \<in> set (cx_mounts c). mounts_match (sc_mounts scan ! i) r)
          \<and> f = missing_mount_finding sha256 (cb_collected_at b) (cb_provider_revision b)
                 (cx_container_id c) i)"
proof -
  let ?ms = "sc_mounts scan"
  have mount: "f \<in> set (mount_findings sha256 b (i, mount)) \<longleftrightarrow>
     mt_kind mount \<in> {CMK_Bind, CMK_NamedVolume}
     \<and> (\<exists>c. exactly_bound b mount c \<and> \<not> (\<exists>r \<in> set (cx_mounts c). mounts_match mount r)
          \<and> f = missing_mount_finding sha256 (cb_collected_at b) (cb_provider_revision b)
                 (cx_container_id c) i)" for i mount
    unfolding bound_candidate_iff [symmetric]
    by (cases "bound_candidate b mount") (auto simp: mount_findings_def list_ex_iff)
  have "f \<in> set (derive_compose_runtime_mount_findings sha256 scan b) \<longleftrightarrow>
      \<not> binding_rejected scan b \<and> (\<exists>i < length ?ms. f \<in> set (mount_findings sha256 b (i, ?ms ! i)))"
    by (simp add: derive_compose_runtime_mount_findings_def in_concat_enumerate)
  then show ?thesis unfolding mount by blast
qed

text \<open>
  A missing-mount finding publishes no project, path, service or raw container identifier:
  every identifier in it is a fixed text followed by 64 hexadecimal digits of a digest, and
  its two evidence references have the versioned shape that the deserialiser demands.
\<close>

lemma missing_mount_opaque:
  assumes "digest_len_32 sha256" and "f \<in> set (derive_compose_runtime_mount_findings sha256 scan b)"
  shows "\<exists>h k. length h = 64 \<and> list_all is_lower_hex h \<and> length k = 64 \<and> list_all is_lower_hex k
    \<and> fi_subject_ref f = ''compose_runtime_binding_'' @ h \<and> fi_target_ref f = fi_subject_ref f
    \<and> fi_id f = ''finding_compose_declared_mount_missing_at_bound_container_'' @ k
    \<and> map ev_id (fi_evidence_refs f)
        = [''compose_declared_mount_'' @ k, ''docker_compose_runtime_binding_'' @ k]
    \<and> list_all (\<lambda>r. ev_subject_ref r = fi_subject_ref f \<and> has_valid_versioned_shape r)
        (fi_evidence_refs f)"
proof -
  obtain cid i where f: "f = missing_mount_finding sha256 (cb_collected_at b)
      (cb_provider_revision b) cid i"
    using assms(2) by (auto simp: derive_compose_runtime_mount_findings_def mount_findings_def
        split: if_splits option.splits)
  let ?h = "hex_digest sha256 cid"
  let ?k = "hex_digest sha256 (cid @ unit_separator @ show_nat i)"
  have "length ?h = 64" "length ?k = 64" using assms(1) by (simp_all add: length_hex_digest)
  moreover have "list_all is_lower_hex ?h" "list_all is_lower_hex ?k"
    by (simp_all add: hex_digest_def list_all_iff hex_string_lower_hex)
  ultimately show ?thesis
    unfolding f by (intro exI [of _ ?h] exI [of _ ?k])
      (simp add: missing_mount_finding_def Let_def opaque_id_def binding_evidence_def
        has_valid_versioned_shape_def ev_is_def)
qed

definition example_binding :: compose_runtime_binding where
  "example_binding = \<lparr>cb_project = ''demo'', cb_config_files = [''/p/compose.yaml''],
     cb_containers = [\<lparr>cx_container_id = replicate 64 (CHR ''a''), cx_project = ''demo'',
       cx_service = ''api'', cx_config_files = [''/p/compose.yaml''], cx_mounts = []\<rparr>],
     cb_collected_at = 42, cb_provider_revision = ''obs'', cb_fresh = True\<rparr>"

definition example_origin :: compose_file_origin where
  "example_origin = \<lparr>og_file = ''/p/compose.yaml'', og_service = Some ''api'', og_field = ''volumes''\<rparr>"

definition example_scan :: compose_scan where
  "example_scan = \<lparr>sc_files = [''/p/compose.yaml''], sc_project_root = ''/p'', sc_services = [],
     sc_mounts = [\<lparr>mt_id = ''m0'', mt_service = ''api'', mt_kind = CMK_Bind, mt_source = Some ''./data'',
       mt_resolved_source = Some ''/p/data'', mt_target = ''/data'', mt_read_only = False,
       mt_origin = example_origin\<rparr>],
     sc_correlations = [], sc_diagnostics = []\<rparr>"

lemma example_binding_findings: "derive_compose_runtime_mount_findings sha256 example_scan example_binding
    = [missing_mount_finding sha256 42 ''obs'' (replicate 64 (CHR ''a'')) 0]"
proof -
  have "\<not> binding_rejected example_scan example_binding" by code_simp
  moreover have "bound_candidate example_binding (sc_mounts example_scan ! 0)
      = Some (cb_containers example_binding ! 0)" by code_simp
  ultimately show ?thesis
    by (simp add: derive_compose_runtime_mount_findings_def mount_findings_def example_scan_def
        example_binding_def)
qed

end
