(* ===== verification/Observed.thy ===== *)
theory Observed
  imports Models Identity
begin

text \<open>
  The comparison primitives of the observed history
  (\<open>crates/dockermap-core/src/observed_history.rs\<close>): containers are identified by a digest of
  their raw identifier, their status texts are collapsed into a closed class, and an
  identifier carried by several records is set aside as ambiguous.
\<close>

definition MAX_OBSERVED_CHANGE_EVENTS :: nat where
  "MAX_OBSERVED_CHANGE_EVENTS = 64"

record observed_inventory =
  iv_containers :: "(string, observed_container_status) btree_map"
  iv_ambiguous_ids :: "string list"

definition observed_container_identity :: "digest \<Rightarrow> string \<Rightarrow> string" where
  "observed_container_identity sha256 raw_container_id =
     ''docker_container_'' @ hex_digest sha256 raw_container_id"

definition observed_status_class :: "string \<Rightarrow> observed_container_status" where
  "observed_status_class status =
     (let normalized = to_ascii_lowercase (trim status)
      in if normalized = ''paused''
            \<or> (starts_with normalized ''up '' \<and> str_contains normalized ''(paused)'')
         then OCS_Other
         else if normalized = ''running'' \<or> starts_with normalized ''up '' then OCS_Running
         else if normalized = ''exited'' \<or> normalized = ''dead'' \<or> starts_with normalized ''exited ''
         then OCS_Stopped
         else OCS_Other)"

text \<open>\<open>candidates.entry(id).or_default().push(container)\<close>\<close>

definition push_candidate ::
  "string \<Rightarrow> container_record \<Rightarrow> (string, container_record list) btree_map
     \<Rightarrow> (string, container_record list) btree_map"
where
  "push_candidate i c m = bt_insert i ((case bt_get m i of None \<Rightarrow> [] | Some cs \<Rightarrow> cs) @ [c]) m"

definition inventory_candidates ::
  "digest \<Rightarrow> container_record list \<Rightarrow> (string, container_record list) btree_map"
where
  "inventory_candidates sha256 cs =
     foldl (\<lambda>m c. push_candidate (observed_container_identity sha256 (ct_id c)) c m) [] cs"

definition inventory_step ::
  "observed_inventory \<Rightarrow> string \<times> container_record list \<Rightarrow> observed_inventory"
where
  "inventory_step iv e =
     (if length (snd e) = 1
      then iv\<lparr>iv_containers := bt_insert (fst e) (observed_status_class (ct_status (hd (snd e))))
             (iv_containers iv)\<rparr>
      else iv\<lparr>iv_ambiguous_ids := bs_collect (fst e # iv_ambiguous_ids iv)\<rparr>)"

definition observed_container_inventory :: "digest \<Rightarrow> docker_snapshot \<Rightarrow> observed_inventory" where
  "observed_container_inventory sha256 snapshot =
     foldl inventory_step \<lparr>iv_containers = [], iv_ambiguous_ids = []\<rparr>
       (inventory_candidates sha256 (sn_containers snapshot))"

section \<open>Properties\<close>

definition carrying :: "digest \<Rightarrow> docker_snapshot \<Rightarrow> string \<Rightarrow> container_record list" where
  "carrying sha256 snapshot i =
     filter (\<lambda>c. observed_container_identity sha256 (ct_id c) = i) (sn_containers snapshot)"

lemma push_candidate_wf: "bt_wf m \<Longrightarrow> bt_wf (push_candidate i c m)"
  by (simp add: push_candidate_def bt_wf_insert)

lemma inventory_candidates_snoc:
  "inventory_candidates sha256 (cs @ [c])
     = push_candidate (observed_container_identity sha256 (ct_id c)) c (inventory_candidates sha256 cs)"
  by (simp add: inventory_candidates_def)

lemma inventory_candidates_wf: "bt_wf (inventory_candidates sha256 cs)"
  by (induction cs rule: rev_induct)
    (simp_all add: inventory_candidates_snoc push_candidate_wf, simp add: inventory_candidates_def bt_wf_def)

lemma inventory_candidates_get:
  "bt_get (inventory_candidates sha256 cs) i =
     (let ds = filter (\<lambda>c. observed_container_identity sha256 (ct_id c) = i) cs
      in if ds = [] then None else Some ds)"
proof (induction cs rule: rev_induct)
  case Nil
  show ?case by (simp add: inventory_candidates_def bt_get_def)
next
  case (snoc c cs)
  then show ?case
    by (auto simp: inventory_candidates_snoc push_candidate_def bt_get_insert inventory_candidates_wf
        Let_def)
qed

lemma inventory_fold:
  assumes "distinct (map fst es)" "bt_wf (iv_containers iv)"
  shows "bt_wf (iv_containers (foldl inventory_step iv es))"
    "bt_get (iv_containers (foldl inventory_step iv es)) i =
       (case map_of es i of
          Some cs \<Rightarrow> if length cs = 1 then Some (observed_status_class (ct_status (hd cs)))
            else bt_get (iv_containers iv) i
        | None \<Rightarrow> bt_get (iv_containers iv) i)"
    "i \<in> set (iv_ambiguous_ids (foldl inventory_step iv es)) \<longleftrightarrow>
       i \<in> set (iv_ambiguous_ids iv) \<or> (\<exists>cs. map_of es i = Some cs \<and> length cs \<noteq> 1)"
    "sorted_wrt (<) (iv_ambiguous_ids iv) \<Longrightarrow>
       sorted_wrt (<) (iv_ambiguous_ids (foldl inventory_step iv es))"
proof -
  have "bt_wf (iv_containers (foldl inventory_step iv es))
    \<and> bt_get (iv_containers (foldl inventory_step iv es)) i =
       (case map_of es i of
          Some cs \<Rightarrow> if length cs = 1 then Some (observed_status_class (ct_status (hd cs)))
            else bt_get (iv_containers iv) i
        | None \<Rightarrow> bt_get (iv_containers iv) i)
    \<and> (i \<in> set (iv_ambiguous_ids (foldl inventory_step iv es)) \<longleftrightarrow>
       i \<in> set (iv_ambiguous_ids iv) \<or> (\<exists>cs. map_of es i = Some cs \<and> length cs \<noteq> 1))
    \<and> (sorted_wrt (<) (iv_ambiguous_ids iv) \<longrightarrow>
       sorted_wrt (<) (iv_ambiguous_ids (foldl inventory_step iv es)))"
    using assms(1,2)
  proof (induction es arbitrary: iv)
    case Nil
    then show ?case by simp
  next
    case (Cons e es)
    have wf: "bt_wf (iv_containers (inventory_step iv e))"
      using Cons.prems by (simp add: inventory_step_def bt_wf_insert)
    have fresh: "map_of es (fst e) = None"
      using Cons.prems(1) by (simp add: map_of_eq_None_iff)
    have "distinct (map fst es)" using Cons.prems(1) by simp
    note IH = Cons.IH [OF this wf]
    have get: "bt_get (iv_containers (inventory_step iv e)) i =
        (if i = fst e \<and> length (snd e) = 1 then Some (observed_status_class (ct_status (hd (snd e))))
         else bt_get (iv_containers iv) i)"
      using Cons.prems(2) by (auto simp: inventory_step_def bt_get_insert)
    have amb: "set (iv_ambiguous_ids (inventory_step iv e)) =
        set (iv_ambiguous_ids iv) \<union> (if length (snd e) = 1 then {} else {fst e})"
      by (simp add: inventory_step_def)
    have srt: "sorted_wrt (<) (iv_ambiguous_ids iv) \<Longrightarrow>
        sorted_wrt (<) (iv_ambiguous_ids (inventory_step iv e))"
      by (simp add: inventory_step_def)
    show ?case
      using IH get amb srt fresh by (cases "i = fst e") (auto split: option.splits)
  qed
  then show "bt_wf (iv_containers (foldl inventory_step iv es))"
    "bt_get (iv_containers (foldl inventory_step iv es)) i =
       (case map_of es i of
          Some cs \<Rightarrow> if length cs = 1 then Some (observed_status_class (ct_status (hd cs)))
            else bt_get (iv_containers iv) i
        | None \<Rightarrow> bt_get (iv_containers iv) i)"
    "i \<in> set (iv_ambiguous_ids (foldl inventory_step iv es)) \<longleftrightarrow>
       i \<in> set (iv_ambiguous_ids iv) \<or> (\<exists>cs. map_of es i = Some cs \<and> length cs \<noteq> 1)"
    "sorted_wrt (<) (iv_ambiguous_ids iv) \<Longrightarrow>
       sorted_wrt (<) (iv_ambiguous_ids (foldl inventory_step iv es))"
    by blast+
qed

lemma inventory_lookup:
  "bt_wf (iv_containers (observed_container_inventory sha256 s))"
  "bt_get (iv_containers (observed_container_inventory sha256 s)) i = Some st \<longleftrightarrow>
     (\<exists>c. carrying sha256 s i = [c] \<and> st = observed_status_class (ct_status c))"
  "i \<in> set (iv_ambiguous_ids (observed_container_inventory sha256 s)) \<longleftrightarrow>
     length (carrying sha256 s i) \<ge> 2"
proof -
  let ?es = "inventory_candidates sha256 (sn_containers s)"
  have d: "distinct (map fst ?es)"
    using inventory_candidates_wf [of sha256 "sn_containers s"] by (simp add: bt_wf_def strict_sorted_iff)
  have g: "map_of ?es i = (if carrying sha256 s i = [] then None else Some (carrying sha256 s i))"
    using inventory_candidates_get [of sha256 "sn_containers s" i]
    by (simp add: bt_get_def carrying_def Let_def)
  note F = inventory_fold [OF d, of "\<lparr>iv_containers = [], iv_ambiguous_ids = []\<rparr>",
      folded observed_container_inventory_def]
  show "bt_wf (iv_containers (observed_container_inventory sha256 s))"
    using F(1) by (simp add: bt_wf_def)
  show "bt_get (iv_containers (observed_container_inventory sha256 s)) i = Some st \<longleftrightarrow>
     (\<exists>c. carrying sha256 s i = [c] \<and> st = observed_status_class (ct_status c))"
    using F(2) [of i] g by (cases "carrying sha256 s i") (auto simp: bt_wf_def bt_get_def)
  show "i \<in> set (iv_ambiguous_ids (observed_container_inventory sha256 s)) \<longleftrightarrow>
     length (carrying sha256 s i) \<ge> 2"
    using F(3) [of i] g by (cases "carrying sha256 s i") (auto simp: bt_wf_def Suc_le_eq)
qed

lemma identity_observed_id:
  assumes "digest_len_32 sha256"
  shows "is_observed_container_id (observed_container_identity sha256 i)"
proof -
  have "strip_prefix (observed_container_identity sha256 i) ''docker_container_'' = Some (hex_digest sha256 i)"
    unfolding strip_prefix_Some by (simp add: observed_container_identity_def)
  moreover have "list_all is_lower_hex (hex_digest sha256 i)"
    by (simp add: hex_digest_def list_all_iff hex_string_lower_hex)
  ultimately show ?thesis
    using length_hex_digest [OF assms] by (simp add: is_observed_container_id_def)
qed

lemma inventory_ids:
  assumes "digest_len_32 sha256"
    and "bt_get (iv_containers (observed_container_inventory sha256 s)) i = Some st"
  shows "is_observed_container_id i"
proof -
  obtain c where "carrying sha256 s i = [c]" using assms(2) inventory_lookup(2) by blast
  then have "c \<in> set (carrying sha256 s i)" by simp
  then have "i = observed_container_identity sha256 (ct_id c)" by (simp add: carrying_def)
  then show ?thesis using identity_observed_id [OF assms(1)] by simp
qed

text \<open>
  The inventory partitions the observed identities: one carried by exactly one record is
  tracked with the status class of that record, one carried by several records is ambiguous
  and never tracked, and every tracked identity is opaque.
\<close>

lemma inventory_partition:
  assumes "digest_len_32 sha256"
  shows "(bt_get (iv_containers (observed_container_inventory sha256 s)) i = Some st
      \<longleftrightarrow> (\<exists>c. carrying sha256 s i = [c] \<and> st = observed_status_class (ct_status c)))
    \<and> (i \<in> set (iv_ambiguous_ids (observed_container_inventory sha256 s))
        \<longleftrightarrow> length (carrying sha256 s i) \<ge> 2)
    \<and> (bt_get (iv_containers (observed_container_inventory sha256 s)) i \<noteq> None
        \<longrightarrow> is_observed_container_id i)"
  using inventory_lookup(2,3) inventory_ids [OF assms] by blast

definition example_observed :: docker_snapshot where
  "example_observed = \<lparr>sn_containers =
       [\<lparr>ct_id = ''c1'', ct_name = ''a'', ct_image = ''i'', ct_status = ''Up 3 hours'', ct_role = [],
         ct_networks = [], ct_ports = [], ct_publishes_on_unspecified_address = False,
         ct_mounts = [], ct_depends_on = []\<rparr>],
     sn_images = [], sn_networks = [], sn_volumes = [], sn_last_updated = 5,
     sn_model_revision = [], sn_source = None\<rparr>"

end
