(* ===== verification/Publication.thy ===== *)
theory Publication
  imports Redaction Binding Observed
begin

text \<open>
  The publication boundary (\<open>publication.rs\<close>): every structure the daemon serves, field by field
  through the text gate of Redaction; the topology of a runtime map after its identifiers were
  normalized; and the aggregate integrity fact. The JSON text of a node, an edge and an evidence
  reference, by which the code sorts, comes from \<open>serde_json\<close> and is a parameter.
\<close>

record serializers =
  js_node :: "runtime_map_node \<Rightarrow> string"
  js_edge :: "runtime_map_edge \<Rightarrow> string"
  js_evidence :: "runtime_evidence_ref \<Rightarrow> string"

fun opt_list :: "'a option \<Rightarrow> 'a list" where
  "opt_list None = []"
| "opt_list (Some x) = [x]"

abbreviation gate :: "string \<Rightarrow> string" where
  "gate \<equiv> redact_runtime_display_text"

section \<open>Nodes\<close>

definition redact_ownership :: "runtime_ownership \<Rightarrow> runtime_ownership" where
  "redact_ownership owner = owner\<lparr>ro_name := gate (ro_name owner), ro_id := map_option gate (ro_id owner)\<rparr>"

definition redact_location :: "runtime_location \<Rightarrow> runtime_location" where
  "redact_location location =
     location\<lparr>rc_value := gate (rc_value location), rc_detail := map_option gate (rc_detail location)\<rparr>"

definition redact_service_entity :: "runtime_service_entity \<Rightarrow> runtime_service_entity" where
  "redact_service_entity service = service\<lparr>
     se_name := gate (se_name service),
     se_dependencies := map gate (se_dependencies service),
     se_dependents := map gate (se_dependents service),
     se_health := map_option (\<lambda>health. health\<lparr>
       rh_source := map_option gate (rh_source health),
       rh_message := map_option gate (rh_message health)\<rparr>) (se_health service),
     se_logs := map (\<lambda>log. log\<lparr>rl_id := gate (rl_id log), rl_source := gate (rl_source log)\<rparr>) (se_logs service),
     se_owner := map_option redact_ownership (se_owner service),
     se_location := map_option redact_location (se_location service)\<rparr>"

definition redact_advisory :: "runtime_package_advisory \<Rightarrow> runtime_package_advisory" where
  "redact_advisory advisory = advisory\<lparr>
     pa_id := gate (pa_id advisory), pa_title := gate (pa_title advisory),
     pa_source := gate (pa_source advisory),
     pa_fixed_version := map_option gate (pa_fixed_version advisory),
     pa_url := map_option gate (pa_url advisory)\<rparr>"

definition redact_package_entity :: "runtime_package_entity \<Rightarrow> runtime_package_entity" where
  "redact_package_entity package = package\<lparr>
     pe_name := gate (pe_name package), pe_version := gate (pe_version package),
     pe_dependencies := map gate (pe_dependencies package),
     pe_dependents := map gate (pe_dependents package),
     pe_update := map_option (\<lambda>update. update\<lparr>
       pu_current_version := gate (pu_current_version update),
       pu_latest_version := map_option gate (pu_latest_version update),
       pu_advisories := map redact_advisory (pu_advisories update)\<rparr>) (pe_update package),
     pe_owner := map_option redact_ownership (pe_owner package),
     pe_location := map_option redact_location (pe_location package)\<rparr>"

definition redact_metadata_values :: "metadata \<Rightarrow> metadata" where
  "redact_metadata_values = map (\<lambda>(k, v). (k, gate v))"

definition redact_runtime_node :: "runtime_map_node \<Rightarrow> runtime_map_node" where
  "redact_runtime_node node = node\<lparr>
     rn_id := gate (rn_id node), rn_label := gate (rn_label node),
     rn_status := map_option gate (rn_status node),
     rn_metadata := redact_metadata_values (rn_metadata node),
     rn_service := map_option redact_service_entity (rn_service node),
     rn_package := map_option redact_package_entity (rn_package node)\<rparr>"

section \<open>Edges and maps\<close>

definition bounded_text :: "string \<Rightarrow> string" where
  "bounded_text s = truncate_chars (gate s) MAX_RUNTIME_EVIDENCE_TEXT_CHARS"

definition redact_runtime_evidence_refs :: "serializers \<Rightarrow> runtime_evidence_ref list \<Rightarrow> runtime_evidence_ref list" where
  "redact_runtime_evidence_refs js refs = sort_key (js_evidence js) (map (\<lambda>e. e\<lparr>
     ev_subject_ref := gate (ev_subject_ref e), ev_id := bounded_text (ev_id e),
     ev_summary := bounded_text (ev_summary e),
     ev_provider_revision := bounded_text (ev_provider_revision e)\<rparr>) refs)"

definition redact_runtime_edge :: "serializers \<Rightarrow> runtime_map_edge \<Rightarrow> runtime_map_edge" where
  "redact_runtime_edge js edge =
     (let edge' = edge\<lparr>
        re_source := gate (re_source edge), re_target := gate (re_target edge),
        re_metadata := redact_metadata_values (re_metadata edge),
        re_evidence_refs := redact_runtime_evidence_refs js (re_evidence_refs edge)\<rparr>
      in if has_valid_evidence_refs edge' then edge' else edge'\<lparr>re_evidence_refs := []\<rparr>)"

definition redact_runtime_diagnostic :: "runtime_map_diagnostic \<Rightarrow> runtime_map_diagnostic" where
  "redact_runtime_diagnostic d = d\<lparr>rd_message := gate (rd_message d)\<rparr>"

definition normalize_runtime_map_topology :: "serializers \<Rightarrow> runtime_map \<Rightarrow> runtime_map" where
  "normalize_runtime_map_topology js m =
     (let nodes = sort_key (js_node js) (rm_nodes m);
          node_ids = map rn_id nodes;
          edges = filter (\<lambda>e. re_source e \<in> set node_ids \<and> re_target e \<in> set node_ids) (rm_edges m)
      in m\<lparr>rm_nodes := nodes, rm_edges := remdups_adj (sort_key (js_edge js) edges)\<rparr>)"

definition redact_runtime_map :: "serializers \<Rightarrow> runtime_map \<Rightarrow> runtime_map" where
  "redact_runtime_map js m = normalize_runtime_map_topology js (m\<lparr>
     rm_nodes := map redact_runtime_node (rm_nodes m),
     rm_edges := map (redact_runtime_edge js) (rm_edges m),
     rm_diagnostics := map redact_runtime_diagnostic (rm_diagnostics m)\<rparr>)"

definition published_duplicate_ids :: "runtime_map_node list \<Rightarrow> string list" where
  "published_duplicate_ids nodes = map fst (filter (\<lambda>(_, count). 1 < count) (bt_count (map rn_id nodes)))"

definition runtime_map_has_identity_collision :: "runtime_map \<Rightarrow> bool" where
  "runtime_map_has_identity_collision m \<longleftrightarrow> published_duplicate_ids (rm_nodes m) \<noteq> []"

definition integrity_scope_node :: runtime_map_node where
  "integrity_scope_node = \<lparr>rn_id = ''runtime_integrity_scope'', rn_provider = RPK_Other,
     rn_kind = RNK_IntegrityScope, rn_label = ''Runtime identity integrity'', rn_status = None,
     rn_layer = Some RNL_Advisory, rn_metadata = [], rn_service = None, rn_package = None\<rparr>"

definition identity_collision_node :: runtime_map_node where
  "identity_collision_node = \<lparr>rn_id = ''runtime_integrity_risk_identity_collision'', rn_provider = RPK_Other,
     rn_kind = RNK_HostRisk, rn_label = ''Duplicate runtime topology identity'', rn_status = None,
     rn_layer = Some RNL_Advisory, rn_metadata = [], rn_service = None, rn_package = None\<rparr>"

definition identity_collision_edge :: "string \<Rightarrow> u64 \<Rightarrow> runtime_map_edge" where
  "identity_collision_edge provider_revision collected_at = \<lparr>re_source = ''runtime_integrity_scope'',
     re_target = ''runtime_integrity_risk_identity_collision'', re_relationship = RRK_RelatedTo,
     re_metadata = [], re_evidence_refs = [\<lparr>ev_version = 7,
       ev_id = ''dockermap_evidence_runtime_identity_collision'', ev_provider = REP_Dockermap,
       ev_kind = RuntimeIdentityCollision, ev_assertion_kind = Observed,
       ev_summary = ''DockerMap detected duplicate runtime identities after publication normalization'',
       ev_subject_ref = ''runtime_integrity_scope'', ev_collected_at = collected_at,
       ev_provider_revision = provider_revision, ev_provider_slot = None, ev_freshness = EF_Fresh\<rparr>]\<rparr>"

definition append_runtime_identity_collision_fact ::
  "serializers \<Rightarrow> runtime_map \<Rightarrow> string \<Rightarrow> u64 \<Rightarrow> runtime_map \<times> bool"
where
  "append_runtime_identity_collision_fact js m provider_revision collected_at =
     (if provider_revision = [] \<or> list_ex (\<lambda>node. rn_id node = ''runtime_integrity_scope''
          \<or> rn_id node = ''runtime_integrity_risk_identity_collision'') (rm_nodes m)
      then (m, False)
      else (m\<lparr>
        rm_nodes := sort_key (js_node js) (rm_nodes m @ [integrity_scope_node, identity_collision_node]),
        rm_edges := sort_key (js_edge js) (rm_edges m @ [identity_collision_edge provider_revision collected_at])\<rparr>,
        True))"

definition push_provider_diagnostic :: "runtime_map_diagnostic list \<Rightarrow> runtime_provider_kind
    \<Rightarrow> diagnostic_severity \<Rightarrow> string \<Rightarrow> runtime_map_diagnostic list" where
  "push_provider_diagnostic diagnostics provider severity message =
     diagnostics @ [\<lparr>rd_provider = provider, rd_severity = severity,
       rd_message = normalize_runtime_display_string (redact_sensitive_text message)\<rparr>]"

section \<open>Inventory and health\<close>

definition redact_container_record :: "container_record \<Rightarrow> container_record" where
  "redact_container_record c = c\<lparr>
     ct_id := gate (ct_id c), ct_name := gate (ct_name c), ct_image := gate (ct_image c),
     ct_status := gate (ct_status c), ct_role := gate (ct_role c),
     ct_networks := redact_display_strings (ct_networks c),
     ct_ports := redact_display_strings (ct_ports c),
     ct_depends_on := redact_display_strings (ct_depends_on c),
     ct_mounts := map (\<lambda>mount. mount\<lparr>cm_id := gate (cm_id mount),
       cm_source := map_option gate (cm_source mount), cm_target := gate (cm_target mount)\<rparr>) (ct_mounts c)\<rparr>"

definition redact_docker_snapshot :: "docker_snapshot \<Rightarrow> docker_snapshot" where
  "redact_docker_snapshot s = s\<lparr>
     sn_containers := map redact_container_record (sn_containers s),
     sn_images := map (\<lambda>image. image\<lparr>im_image := gate (im_image image),
       im_containers := redact_display_strings (im_containers image),
       im_status := gate (im_status image)\<rparr>) (sn_images s),
     sn_networks := map (\<lambda>network. network\<lparr>nw_id := gate (nw_id network),
       nw_name := gate (nw_name network), nw_driver := gate (nw_driver network),
       nw_members := redact_display_strings (nw_members network)\<rparr>) (sn_networks s),
     sn_volumes := map (\<lambda>volume. volume\<lparr>vl_id := gate (vl_id volume), vl_name := gate (vl_name volume),
       vl_attached_to := redact_display_strings (vl_attached_to volume)\<rparr>) (sn_volumes s)\<rparr>"

definition publish_docker_snapshot :: "docker_snapshot \<Rightarrow> docker_snapshot" where
  "publish_docker_snapshot s = redact_docker_snapshot s"

definition redact_health_response :: "health_response \<Rightarrow> health_response" where
  "redact_health_response health = health\<lparr>hr_message := map_option gate (hr_message health)\<rparr>"

section \<open>Compose\<close>

definition redact_compose_origin :: "compose_file_origin \<Rightarrow> compose_file_origin" where
  "redact_compose_origin origin = origin\<lparr>og_file := gate (og_file origin),
     og_service := map_option gate (og_service origin), og_field := gate (og_field origin)\<rparr>"

definition redact_compose_diagnostic :: "compose_diagnostic \<Rightarrow> compose_diagnostic" where
  "redact_compose_diagnostic d = d\<lparr>cd_id := gate (cd_id d), cd_message := gate (cd_message d),
     cd_origin := redact_compose_origin (cd_origin d)\<rparr>"

definition environment_collision :: "string \<Rightarrow> string \<Rightarrow> compose_diagnostic" where
  "environment_collision diagnostic_file service = \<lparr>cd_id = ''compose_environment_key_collision'',
     cd_severity = DS_Warning,
     cd_message = ''An environment key was dropped after publication normalization'',
     cd_origin = \<lparr>og_file = diagnostic_file, og_service = Some service, og_field = ''environment''\<rparr>\<rparr>"

text \<open>The loop over the environment of a service, in key order: the first value of a published key stays.\<close>

fun redact_environment :: "metadata \<Rightarrow> metadata \<Rightarrow> metadata \<times> nat" where
  "redact_environment environment [] = (environment, 0)"
| "redact_environment environment ((key, v) # entries) =
     (if bt_get environment (gate key) \<noteq> None
      then apsnd Suc (redact_environment environment entries)
      else redact_environment (bt_insert (gate key) (gate v) environment) entries)"

definition redact_compose_service :: "string \<Rightarrow> compose_service \<Rightarrow> compose_service \<times> compose_diagnostic list" where
  "redact_compose_service diagnostic_file service =
     (let name = gate (cs_name service);
          (environment, dropped) = redact_environment [] (cs_environment service)
      in (service\<lparr>cs_name := name, cs_image := map_option gate (cs_image service),
            cs_environment := environment, cs_depends_on := map gate (cs_depends_on service)\<rparr>,
          replicate dropped (environment_collision diagnostic_file name)))"

definition redact_compose_mount :: "compose_mount \<Rightarrow> compose_mount" where
  "redact_compose_mount mount = mount\<lparr>mt_id := gate (mt_id mount), mt_service := gate (mt_service mount),
     mt_source := map_option gate (mt_source mount),
     mt_resolved_source := map_option gate (mt_resolved_source mount),
     mt_target := gate (mt_target mount), mt_origin := redact_compose_origin (mt_origin mount)\<rparr>"

definition redact_correlation :: "mount_correlation \<Rightarrow> mount_correlation" where
  "redact_correlation c = c\<lparr>mc_id := gate (mc_id c), mc_service := gate (mc_service c),
     mc_container := map_option gate (mc_container c),
     mc_compose_mount_id := map_option gate (mc_compose_mount_id c), mc_target := gate (mc_target c),
     mc_declared_source := map_option gate (mc_declared_source c),
     mc_runtime_source := map_option gate (mc_runtime_source c)\<rparr>"

definition redact_compose_scan :: "compose_scan \<Rightarrow> compose_scan" where
  "redact_compose_scan scan =
     (let files = map gate (sc_files scan);
          diagnostic_file = (case files of [] \<Rightarrow> [] | file # _ \<Rightarrow> file);
          services = map (redact_compose_service diagnostic_file) (sc_services scan)
      in scan\<lparr>sc_files := files, sc_project_root := gate (sc_project_root scan),
           sc_services := map fst services,
           sc_mounts := map redact_compose_mount (sc_mounts scan),
           sc_correlations := map redact_correlation (sc_correlations scan),
           sc_diagnostics := map redact_compose_diagnostic
             (sc_diagnostics scan @ concat (map snd services))\<rparr>)"

definition redact_compose_edit_plan :: "compose_edit_plan \<Rightarrow> compose_edit_plan" where
  "redact_compose_edit_plan plan = plan\<lparr>ep_file := gate (ep_file plan), ep_service := gate (ep_service plan),
     ep_mount_id := gate (ep_mount_id plan),
     ep_original_source := map_option gate (ep_original_source plan),
     ep_original_target := gate (ep_original_target plan),
     ep_new_source := map_option gate (ep_new_source plan),
     ep_new_target := map_option gate (ep_new_target plan),
     ep_unified_diff := normalize_runtime_display_string (redact_unified_diff (ep_unified_diff plan)),
     ep_diagnostics := map redact_compose_diagnostic (ep_diagnostics plan)\<rparr>"

section \<open>What a published map shows\<close>

text \<open>Every text of a node except the keys of its metadata, and the texts of an edge.\<close>

definition ownership_texts :: "runtime_ownership \<Rightarrow> string list" where
  "ownership_texts owner = ro_name owner # opt_list (ro_id owner)"

definition location_texts :: "runtime_location \<Rightarrow> string list" where
  "location_texts location = rc_value location # opt_list (rc_detail location)"

definition service_texts :: "runtime_service_entity \<Rightarrow> string list" where
  "service_texts s = se_name s # se_dependencies s @ se_dependents s
     @ concat (map (\<lambda>h. opt_list (rh_source h) @ opt_list (rh_message h)) (opt_list (se_health s)))
     @ concat (map (\<lambda>l. [rl_id l, rl_source l]) (se_logs s))
     @ concat (map ownership_texts (opt_list (se_owner s)))
     @ concat (map location_texts (opt_list (se_location s)))"

definition advisory_texts :: "runtime_package_advisory \<Rightarrow> string list" where
  "advisory_texts a = [pa_id a, pa_title a, pa_source a] @ opt_list (pa_fixed_version a) @ opt_list (pa_url a)"

definition package_texts :: "runtime_package_entity \<Rightarrow> string list" where
  "package_texts p = [pe_name p, pe_version p] @ pe_dependencies p @ pe_dependents p
     @ concat (map (\<lambda>u. pu_current_version u # opt_list (pu_latest_version u)
         @ concat (map advisory_texts (pu_advisories u))) (opt_list (pe_update p)))
     @ concat (map ownership_texts (opt_list (pe_owner p)))
     @ concat (map location_texts (opt_list (pe_location p)))"

definition node_texts :: "runtime_map_node \<Rightarrow> string list" where
  "node_texts n = [rn_id n, rn_label n] @ opt_list (rn_status n) @ map snd (rn_metadata n)
     @ concat (map service_texts (opt_list (rn_service n)))
     @ concat (map package_texts (opt_list (rn_package n)))"

definition edge_texts :: "runtime_map_edge \<Rightarrow> string list" where
  "edge_texts e = [re_source e, re_target e] @ map snd (re_metadata e)
     @ map ev_subject_ref (re_evidence_refs e)"

definition map_texts :: "runtime_map \<Rightarrow> string list" where
  "map_texts m = concat (map node_texts (rm_nodes m)) @ concat (map edge_texts (rm_edges m))
     @ map rd_message (rm_diagnostics m)"

lemma opt_list_map: "opt_list (map_option f x) = map f (opt_list x)"
  by (cases x) auto

lemmas redact_defs = redact_ownership_def redact_location_def redact_service_entity_def
  redact_advisory_def redact_package_entity_def redact_metadata_values_def redact_runtime_node_def

lemmas text_defs = ownership_texts_def location_texts_def service_texts_def advisory_texts_def
  package_texts_def node_texts_def

lemma map_concat_comp: "map f (concat (map g xs)) = concat (map (map f \<circ> g) xs)"
  by (induction xs) auto

text \<open>Redacting a node is the gate on each of its texts.\<close>

lemma node_texts_redacted: "node_texts (redact_runtime_node n) = map gate (node_texts n)"
proof -
  have own: "ownership_texts (redact_ownership x) = map gate (ownership_texts x)" for x
    by (simp add: redact_ownership_def ownership_texts_def opt_list_map)
  have loc: "location_texts (redact_location x) = map gate (location_texts x)" for x
    by (simp add: redact_location_def location_texts_def opt_list_map)
  have adv: "advisory_texts (redact_advisory x) = map gate (advisory_texts x)" for x
    by (simp add: redact_advisory_def advisory_texts_def opt_list_map)
  have ser: "service_texts (redact_service_entity x) = map gate (service_texts x)" for x
    by (simp add: redact_service_entity_def service_texts_def opt_list_map own loc map_concat_comp comp_def)
  have pkg: "package_texts (redact_package_entity x) = map gate (package_texts x)" for x
    by (simp add: redact_package_entity_def package_texts_def opt_list_map own loc adv map_concat_comp comp_def)
  show ?thesis
    by (simp add: redact_runtime_node_def node_texts_def opt_list_map ser pkg map_concat_comp comp_def
        redact_metadata_values_def case_prod_beta)
qed

lemma chars_truncate:
  assumes "valid_utf8 s"
  shows "chars (truncate_chars s n) = take n (chars s) @ (if n < char_count s then [46, 46, 46] else [])"
proof -
  have sc: "list_all is_scalar (take n (chars s))"
    using assms set_take_subset [of n "chars s"] by (auto simp: valid_utf8_def list_all_iff)
  have "''...'' = of_chars [46, 46, 46]" by code_simp
  then have "truncate_chars s n
      = of_chars (take n (chars s) @ (if n < char_count s then [46, 46, 46] else []))"
    by (simp add: truncate_chars_def of_chars_append)
  then show ?thesis
    using sc by (simp only: chars_of_chars_scalar list_all_append) (simp add: chars_of_chars_scalar is_scalar_def)
qed

lemma bounded_text:
  assumes "valid_utf8 s"
  shows "char_count (bounded_text s) \<le> MAX_EVIDENCE_TEXT_CHARS"
    and "\<forall>c \<in> set (chars (bounded_text s)). \<not> unsafe_runtime_display_character c"
proof -
  let ?u = "gate s"
  have u: "valid_utf8 ?u" "display_safe ?u"
    using assms by (rule redact_runtime_display_safe)+
  have c: "chars (bounded_text s) = take 256 (chars ?u) @ (if 256 < char_count ?u then [46, 46, 46] else [])"
    unfolding bounded_text_def chars_truncate [OF u(1)] MAX_RUNTIME_EVIDENCE_TEXT_CHARS_def ..
  show "char_count (bounded_text s) \<le> MAX_EVIDENCE_TEXT_CHARS"
    unfolding char_count_def c MAX_EVIDENCE_TEXT_CHARS_def by simp
  have "\<not> unsafe_runtime_display_character 46"
    by (simp add: unsafe_runtime_display_character_def is_control_def)
  moreover have "set (take 256 (chars ?u)) \<subseteq> set (chars ?u)" by (rule set_take_subset)
  ultimately show "\<forall>c \<in> set (chars (bounded_text s)). \<not> unsafe_runtime_display_character c"
    using u(2) unfolding display_safe_def c by (cases "256 < char_count ?u") auto
qed

lemma metadata_values_redacted: "map snd (redact_metadata_values md) = map gate (map snd md)"
  by (simp add: redact_metadata_values_def case_prod_beta)

lemma subject_refs_redacted:
  "ev_subject_ref ` set (redact_runtime_evidence_refs js rs) = gate ` ev_subject_ref ` set rs"
  by (simp add: redact_runtime_evidence_refs_def image_image)

lemma edge_texts_redacted: "set (edge_texts (redact_runtime_edge js e)) \<subseteq> gate ` set (edge_texts e)"
proof -
  define e1 where "e1 = e\<lparr>re_source := gate (re_source e), re_target := gate (re_target e),
        re_metadata := redact_metadata_values (re_metadata e),
        re_evidence_refs := redact_runtime_evidence_refs js (re_evidence_refs e)\<rparr>"
  have "set (edge_texts e1) = gate ` set (edge_texts e)"
    by (simp add: e1_def edge_texts_def metadata_values_redacted subject_refs_redacted image_Un image_image
        del: map_map)
  moreover have "set (edge_texts (e1\<lparr>re_evidence_refs := []\<rparr>)) \<subseteq> set (edge_texts e1)"
    by (auto simp: edge_texts_def)
  moreover have "redact_runtime_edge js e = (if has_valid_evidence_refs e1 then e1 else e1\<lparr>re_evidence_refs := []\<rparr>)"
    by (simp add: redact_runtime_edge_def e1_def Let_def)
  ultimately show ?thesis by auto
qed

lemma redact_edge_valid: "has_valid_evidence_refs (redact_runtime_edge js e)"
  by (simp add: redact_runtime_edge_def Let_def has_valid_evidence_refs_def)

lemma rm_redacted:
  "rm_nodes (redact_runtime_map js m) = sort_key (js_node js) (map redact_runtime_node (rm_nodes m))"
  "set (rm_edges (redact_runtime_map js m)) \<subseteq> set (map (redact_runtime_edge js) (rm_edges m))"
  "rm_diagnostics (redact_runtime_map js m) = map redact_runtime_diagnostic (rm_diagnostics m)"
  by (auto simp: redact_runtime_map_def normalize_runtime_map_topology_def Let_def)


definition hostile_map :: runtime_map where
  "hostile_map = \<lparr>rm_nodes = [\<lparr>rn_id = ''n'', rn_provider = RPK_Other, rn_kind = RNK_Process,
       rn_label = ''token=x'', rn_status = None, rn_layer = None, rn_metadata = [], rn_service = None,
       rn_package = None\<rparr>], rm_edges = [], rm_diagnostics = [], rm_last_updated = 0,
     rm_model_revision = [], rm_provider_states = [], rm_source = None\<rparr>"

definition plain_serializers :: serializers where
  "plain_serializers = \<lparr>js_node = rn_id, js_edge = re_source, js_evidence = ev_id\<rparr>"


text \<open>
  Redaction keeps every node, so identifiers that become equal stay visible as a collision,
  and publishes only edges between published nodes, each with evidence that attests it. With an
  injective serializer no edge is published twice, and the published map does not depend on the
  order in which the providers delivered nodes and edges.
\<close>

lemma published_topology:
  assumes "inj_on (js_node js) (redact_runtime_node ` set (rm_nodes m))"
    and "inj_on (js_edge js) (redact_runtime_edge js ` set (rm_edges m))"
    and "mset (rm_nodes m) = mset (rm_nodes m')" and "mset (rm_edges m) = mset (rm_edges m')"
  shows "mset (rm_nodes (redact_runtime_map js m)) = mset (map redact_runtime_node (rm_nodes m))
    \<and> (\<forall>e \<in> set (rm_edges (redact_runtime_map js m)). has_valid_evidence_refs e
         \<and> re_source e \<in> rn_id ` set (rm_nodes (redact_runtime_map js m))
         \<and> re_target e \<in> rn_id ` set (rm_nodes (redact_runtime_map js m)))
    \<and> distinct (rm_edges (redact_runtime_map js m))
    \<and> rm_nodes (redact_runtime_map js m') = rm_nodes (redact_runtime_map js m)
    \<and> rm_edges (redact_runtime_map js m') = rm_edges (redact_runtime_map js m)"
proof -
  let ?nodes = "\<lambda>m. sort_key (js_node js) (map redact_runtime_node (rm_nodes m))"
  let ?keep = "\<lambda>e. re_source e \<in> rn_id ` set (?nodes m) \<and> re_target e \<in> rn_id ` set (?nodes m)"
  let ?edges = "\<lambda>m. filter ?keep (map (redact_runtime_edge js) (rm_edges m))"
  have ids: "set (map redact_runtime_node (rm_nodes m')) = set (map redact_runtime_node (rm_nodes m))"
    using assms(3) by (metis mset_map set_mset_mset)
  have edges: "rm_edges (redact_runtime_map js m) = remdups_adj (sort_key (js_edge js) (?edges m))"
    "rm_edges (redact_runtime_map js m') = remdups_adj (sort_key (js_edge js) (?edges m'))"
    using ids by (simp_all add: redact_runtime_map_def normalize_runtime_map_topology_def Let_def)
  have nodes: "rm_nodes (redact_runtime_map js m) = ?nodes m" "rm_nodes (redact_runtime_map js m') = ?nodes m'"
    by (simp_all add: rm_redacted)
  have "?nodes m = ?nodes m'"
    by (rule sort_key_inj_key_eq) (use assms(1,3) in \<open>auto intro: inj_on_subset\<close>)
  moreover have "sort_key (js_edge js) (?edges m) = sort_key (js_edge js) (?edges m')"
    by (rule sort_key_inj_key_eq) (use assms(2,4) in \<open>auto intro: inj_on_subset\<close>)
  moreover have "distinct (remdups_adj (sort_key (js_edge js) (?edges m)))"
    using assms(2) by (intro distinct_remdups_adj_sorted [of "js_edge js"]) (auto intro: inj_on_subset)
  moreover have "\<forall>e \<in> set (rm_edges (redact_runtime_map js m)). has_valid_evidence_refs e \<and> ?keep e"
    using redact_edge_valid by (auto simp: edges)
  ultimately show ?thesis using assms(3) by (simp add: edges nodes)
qed

text \<open>Two identities that differ in their secrets only, and collide once they are redacted.\<close>

definition secret_node :: "string \<Rightarrow> runtime_map_node" where
  "secret_node i = \<lparr>rn_id = i, rn_provider = RPK_Other, rn_kind = RNK_Process, rn_label = i,
     rn_status = None, rn_layer = None, rn_metadata = [], rn_service = None, rn_package = None\<rparr>"

definition colliding_map :: runtime_map where
  "colliding_map = hostile_map\<lparr>rm_nodes := [secret_node ''token=x'', secret_node ''token=y'']\<rparr>"

lemma secret_gate: "gate ''token=x'' = REDACTED_VALUE" "gate ''token=y'' = REDACTED_VALUE"
proof -
  have "is_sensitive_text ''token=x''" "is_sensitive_text ''token=y''"
    by (simp_all add: is_sensitive_text_def to_ascii_lowercase_def ascii_lower_def byte_def
        contains_sensitive_assignment_def sensitive_assignments_def)
  then show "gate ''token=x'' = REDACTED_VALUE" "gate ''token=y'' = REDACTED_VALUE"
    by (simp_all add: redact_runtime_display_text_def redact_sensitive_text_def redacted_value_safe(2))
qed

text \<open>
  The unified diff of an edit plan is published without its line structure: every line feed
  is a control character to the gate and becomes a replacement character, although the
  redaction of the diff itself keeps the lines and their markers.
\<close>

lemma published_diff_has_no_lines:
  assumes "valid_utf8 (redact_unified_diff (ep_unified_diff plan))"
  shows "LF \<notin> set (ep_unified_diff (redact_compose_edit_plan plan))
    \<and> length (str_lines (ep_unified_diff (redact_compose_edit_plan plan))) \<le> 1"
proof -
  let ?d = "redact_unified_diff (ep_unified_diff plan)"
  obtain cs where cs: "list_all is_scalar cs" "?d = of_chars cs"
    using assms unfolding valid_utf8_def by metis
  let ?n = "map display_char cs"
  have d: "ep_unified_diff (redact_compose_edit_plan plan) = of_chars ?n"
    by (simp add: redact_compose_edit_plan_def cs(2) normalize_of_chars [OF cs(1)])
  have "10 \<notin> set ?n"
    by (auto simp: display_char_def unsafe_runtime_display_character_def is_control_def)
  then have "find_split ?n [10] = None"
  proof (cases "find_split ?n [10]")
    case (Some ab)
    obtain a b where "ab = (a, b)" by fastforce
    then have "?n = a @ [10] @ b" using Some find_split_Some by blast
    then have "10 \<in> set ?n" by (metis in_set_conv_decomp append_Cons append_Nil)
    then show ?thesis using \<open>10 \<notin> set ?n\<close> by blast
  qed
  then have "\<not> str_contains (of_chars ?n) [LF]"
    using str_contains_of_chars [of "[LF]" ?n] map_display_scalar [OF cs(1)]
    by (simp add: ascii_def LF_def byte_def)
  then have "LF \<notin> set (of_chars ?n)" by (simp add: str_contains_char)
  moreover have "split_char LF t = [t]" if "LF \<notin> set t" for t using that by (induction t) auto
  ultimately show ?thesis by (simp add: d str_lines_def Let_def)
qed

definition example_plan :: compose_edit_plan where
  "example_plan = \<lparr>ep_file = ''f'', ep_service = ''s'', ep_mount_id = ''m'', ep_original_source = None,
     ep_original_target = ''/a'', ep_new_source = None, ep_new_target = None,
     ep_unified_diff = ''-token=a'' @ [LF] @ ''+token=b'', ep_diagnostics = [], ep_will_write = False\<rparr>"

section \<open>The integrity fact\<close>

lemma collision_iff: "runtime_map_has_identity_collision m \<longleftrightarrow> \<not> distinct (map rn_id (rm_nodes m))"
proof -
  let ?ks = "map rn_id (rm_nodes m)"
  have "runtime_map_has_identity_collision m \<longleftrightarrow> (\<exists>(k, c) \<in> set (bt_count ?ks). 1 < c)"
    by (auto simp: runtime_map_has_identity_collision_def published_duplicate_ids_def filter_empty_conv)
  also have "\<dots> \<longleftrightarrow> (\<exists>k. 1 < count_list ?ks k)"
  proof -
    have "distinct (map fst (bt_count ?ks))"
      using bt_wf_count [of ?ks] by (simp add: bt_wf_def strict_sorted_iff)
    then have get: "(k, c) \<in> set (bt_count ?ks) \<longleftrightarrow> bt_get (bt_count ?ks) k = Some c" for k c
      by (simp add: bt_get_def)
    have "(k, c) \<in> set (bt_count ?ks) \<longleftrightarrow> k \<in> set ?ks \<and> c = count_list ?ks k" for k c
      by (auto simp: get bt_get_count)
    moreover have "k \<in> set ?ks" if "1 < count_list ?ks k" for k
      using that count_list_pos_iff [of ?ks k] by linarith
    ultimately show ?thesis by fastforce
  qed
  also have "\<dots> \<longleftrightarrow> \<not> distinct ?ks"
  proof -
    have "distinct ?ks \<longleftrightarrow> (\<forall>k. count_list ?ks k = (if k \<in> set ?ks then 1 else 0))"
      by (simp only: distinct_count_atmost_1 count_mset)
    moreover have "(count_list ?ks k = (if k \<in> set ?ks then 1 else 0)) \<longleftrightarrow> \<not> 1 < count_list ?ks k" for k
      using count_list_pos_iff [of ?ks k] by (cases "k \<in> set ?ks") (simp_all, linarith)
    ultimately show ?thesis by blast
  qed
  finally show ?thesis .
qed

definition identity_collision_finding :: "string \<Rightarrow> u64 \<Rightarrow> finding" where
  "identity_collision_finding provider_revision collected_at =
     edge_finding (finding_id_prefix FR_RuntimeIdentityCollisionDetected)
       FR_RuntimeIdentityCollisionDetected FS_Advisory RUNTIME_IDENTITY_COLLISION_SUMMARY
       RUNTIME_IDENTITY_COLLISION_RECOMMENDATION (identity_collision_edge provider_revision collected_at)
       (re_evidence_refs (identity_collision_edge provider_revision collected_at))"

lemma collision_edge_valid:
  assumes "rev_token \<noteq> []" and "char_count rev_token \<le> MAX_EVIDENCE_TEXT_CHARS"
  shows "has_valid_evidence_refs (identity_collision_edge rev_token t)"
proof -
  have "char_count ''dockermap_evidence_runtime_identity_collision'' \<le> MAX_EVIDENCE_TEXT_CHARS"
    "char_count ''DockerMap detected duplicate runtime identities after publication normalization'' \<le> MAX_EVIDENCE_TEXT_CHARS"
    by code_simp+
  then show ?thesis
    using assms by (simp add: has_valid_evidence_refs_def identity_collision_edge_def
        evidence_ref_matches_edge_def has_valid_versioned_shape_def ev_is_def)
qed

lemma identity_collision_finding_only:
  assumes append: "append_runtime_identity_collision_fact js m rev_token t = (m', True)"
    and live: "rm_source m \<noteq> Some Mode_Mock"
    and token: "char_count rev_token \<le> MAX_EVIDENCE_TEXT_CHARS" "rev_token \<noteq> show_nat t"
    and closed: "\<forall>e \<in> set (rm_edges m). re_source e \<in> rn_id ` set (rm_nodes m)"
  shows "filter (\<lambda>f. fi_rule_id f = FR_RuntimeIdentityCollisionDetected) (derive_findings sha256 m')
    = [identity_collision_finding rev_token t]"
proof -
  let ?edge = "identity_collision_edge rev_token t"
  let ?scope = "''runtime_integrity_scope''" and ?risk = "''runtime_integrity_risk_identity_collision''"
  have ids: "RUNTIME_INTEGRITY_SCOPE_ID = ?scope" "RUNTIME_IDENTITY_COLLISION_RISK_ID = ?risk"
    by (simp_all only: RUNTIME_INTEGRITY_SCOPE_ID_def RUNTIME_IDENTITY_COLLISION_RISK_ID_def)
  have nonempty: "rev_token \<noteq> []" and fresh: "?scope \<notin> rn_id ` set (rm_nodes m)" "?risk \<notin> rn_id ` set (rm_nodes m)"
    using append by (auto simp: append_runtime_identity_collision_fact_def list_ex_iff split: if_splits)
  have m': "m' = m\<lparr>rm_nodes := sort_key (js_node js) (rm_nodes m @ [integrity_scope_node, identity_collision_node]),
      rm_edges := sort_key (js_edge js) (rm_edges m @ [?edge])\<rparr>"
    using append by (simp add: append_runtime_identity_collision_fact_def split: if_splits)
  let ?nodes = "unique_node_index (rm_nodes m')"
  have ns: "set (rm_nodes m') = set (rm_nodes m) \<union> {integrity_scope_node, identity_collision_node}"
    "\<And>k. count_list (map rn_id (rm_nodes m')) k
       = count_list (map rn_id (rm_nodes m @ [integrity_scope_node, identity_collision_node])) k"
    by (auto simp: m' count_mset [symmetric] simp del: count_mset)
  have zero: "count_list (map rn_id (rm_nodes m)) ?scope = 0" "count_list (map rn_id (rm_nodes m)) ?risk = 0"
    using fresh by (simp_all add: count_list_0_iff)
  have get: "bt_get ?nodes ?scope = Some integrity_scope_node" "bt_get ?nodes ?risk = Some identity_collision_node"
    using zero by (simp_all add: unique_node_index_get ns integrity_scope_node_def identity_collision_node_def)
  have refs: "re_evidence_refs ?edge = [hd (re_evidence_refs ?edge)]" by (simp add: identity_collision_edge_def)
  have cand: "is_candidate_runtime_identity_collision ?nodes ?edge"
    using collision_edge_valid [OF nonempty token(1)] get nonempty token(2)
    by (simp add: is_candidate_runtime_identity_collision_def endpoints_match_Some first_evidence_def
        identity_collision_edge_def is_runtime_integrity_scope_def is_runtime_identity_collision_risk_def
        ids integrity_scope_node_def identity_collision_node_def RUNTIME_IDENTITY_COLLISION_EVIDENCE_SUMMARY_def)
  have es: "mset (rm_edges m') = mset (rm_edges m @ [?edge])" by (simp add: m')
  let ?at = "\<lambda>e. re_source e = ?scope \<and> re_target e = ?risk"
  have "filter ?at (rm_edges m) = []"
    unfolding filter_empty_conv using closed fresh(1) by metis
  moreover have "mset (filter ?at (rm_edges m')) = mset (filter ?at (rm_edges m @ [?edge]))"
    by (simp only: mset_filter es)
  ultimately have "mset (filter ?at (rm_edges m')) = {#?edge#}"
    by (simp add: identity_collision_edge_def)
  then have one: "filter ?at (rm_edges m') = [?edge]" by (rule mset_single_iff [THEN iffD1])
  let ?rule = "rule_identity_collision sha256 ?nodes (rm_edges m')"
  have at: "?at e" if "is_candidate_runtime_identity_collision ?nodes e" for e
    using that by (auto simp: is_candidate_runtime_identity_collision_def endpoints_match_Some
        is_runtime_integrity_scope_def is_runtime_identity_collision_risk_def unique_node_index_get ids)
  have only: "e = ?edge" if "e \<in> set (rm_edges m')" "is_candidate_runtime_identity_collision ?nodes e" for e
  proof -
    have "e \<in> set (filter ?at (rm_edges m'))" using that at by simp
    then show ?thesis unfolding one by simp
  qed
  have "?edge \<in> set (filter ?at (rm_edges m'))" unfolding one by simp
  then have "?edge \<in> set (rm_edges m')" by simp
  moreover have len: "length (filter ?at (rm_edges m')) = 1" unfolding one by simp
  ultimately have rule: "f \<in> set ?rule \<longleftrightarrow> f = identity_collision_finding rev_token t" for f
    unfolding in_rule_identity_collision ids identity_collision_finding_def
    using cand only refs by metis
  let ?f = "identity_collision_finding rev_token t"
  have "filter (\<lambda>f. finding_pair f = finding_pair ?f) ?rule = ?rule"
    by (rule filter_True, rule ballI) (simp only: rule)
  then have "length ?rule \<le> 1" using identity_collision.once [of "finding_pair ?f" sha256 ?nodes "rm_edges m'"] by simp
  then have "?rule = [?f]" using rule by (cases ?rule) auto
  moreover have "filter (\<lambda>f. fi_rule_id f = FR_RuntimeIdentityCollisionDetected) (derive_findings sha256 m')
      = sort_key finding_sort_key ?rule"
    using live by (simp add: derive_findings_def filter_sort collect_findings_select rule_list_def m')
  ultimately show ?thesis by simp
qed

text \<open>
  Once the integrity fact is part of a published map, the findings report it exactly once,
  and the finding is the same whatever the map holds: it depends on the opaque revision and the
  time of the observation only, never on the identities that collide or on their number.
\<close>

lemma integrity_finding_fixed:
  assumes "append_runtime_identity_collision_fact js (redact_runtime_map js m) rev_token t = (m', True)"
    and "rm_source m \<noteq> Some Mode_Mock"
    and "char_count rev_token \<le> MAX_EVIDENCE_TEXT_CHARS" and "rev_token \<noteq> show_nat t"
  shows "filter (\<lambda>f. fi_rule_id f = FR_RuntimeIdentityCollisionDetected) (derive_findings sha256 m')
    = [identity_collision_finding rev_token t]"
proof (rule identity_collision_finding_only [OF assms(1) _ assms(3,4)])
  show "rm_source (redact_runtime_map js m) \<noteq> Some Mode_Mock"
    using assms(2) by (simp add: redact_runtime_map_def normalize_runtime_map_topology_def Let_def)
  show "\<forall>e \<in> set (rm_edges (redact_runtime_map js m)). re_source e \<in> rn_id ` set (rm_nodes (redact_runtime_map js m))"
    by (simp add: redact_runtime_map_def normalize_runtime_map_topology_def Let_def)
qed

end
