(* ===== verification/Collection.thy ===== *)
theory Collection
  imports Publication
begin

text \<open>
  One bounded pass of host collection: the PID-namespace gate (\<open>pid_namespace.rs\<close>), the
  collection a provider fills (\<open>provider_contract.rs\<close>), the dispatch on the eight fixed slots and
  the runtime map built from a collection (\<open>runtime_collection.rs\<close>), and the bounded reader of
  command output (\<open>process_runner.rs\<close>). What the providers read from processes and files in a
  pass is the parameter \<open>host_observations\<close>.
\<close>

section \<open>PID namespace\<close>

datatype pid_namespace_mode = Pid_Auto | Pid_Host | Pid_Restricted

definition from_env_value :: "string option \<Rightarrow> pid_namespace_mode" where
  "from_env_value v =
     (case v of
        None \<Rightarrow> Pid_Auto
      | Some s \<Rightarrow>
          if s = ''host'' then Pid_Host
          else if s = ''restricted'' then Pid_Restricted
          else if s = ''auto'' then Pid_Auto
          else Pid_Restricted)"

datatype pid_namespace_scope = Scope_Host "string option" | Scope_Restricted

primrec is_restricted :: "pid_namespace_scope \<Rightarrow> bool" where
  "is_restricted (Scope_Host d) = False"
| "is_restricted Scope_Restricted = True"

primrec scope_diagnostic :: "pid_namespace_scope \<Rightarrow> string option" where
  "scope_diagnostic (Scope_Host d) = d"
| "scope_diagnostic Scope_Restricted = None"

text \<open>\<open>splitn(3, ':').nth(2)\<close>: what follows the second colon.\<close>

definition after_second_colon :: "string \<Rightarrow> string option" where
  "after_second_colon s =
     Option.bind (split_once s (CHR '':'')) (\<lambda>(_, r). map_option snd (split_once r (CHR '':'')))"

definition cgroup_implies_container :: "string \<Rightarrow> bool" where
  "cgroup_implies_container cgroup =
     (let path = (case after_second_colon (trim cgroup) of Some p \<Rightarrow> p | None \<Rightarrow> trim cgroup)
      in str_contains path ''/docker/''
         \<or> list_ex (\<lambda>component.
              starts_with component ''docker-'' \<and> ends_with component ''.scope''
              \<or> starts_with component ''libpod-'' \<and> ends_with component ''.scope''
              \<or> starts_with component ''kubepods'') (split_char (CHR ''/'') path))"

definition restricted_pid_namespace_evidence_with_markers :: "string \<Rightarrow> bool \<Rightarrow> bool \<Rightarrow> bool \<Rightarrow> bool" where
  "restricted_pid_namespace_evidence_with_markers cgroup has_dockerenv has_systemd_marker has_podman_marker
     \<longleftrightarrow> has_dockerenv \<or> has_systemd_marker \<or> has_podman_marker
       \<or> list_ex cgroup_implies_container (str_lines cgroup)"

definition pid_namespace_scope_from_evidence ::
  "pid_namespace_mode \<Rightarrow> string \<Rightarrow> bool \<Rightarrow> bool \<Rightarrow> bool \<Rightarrow> pid_namespace_scope"
where
  "pid_namespace_scope_from_evidence mode cgroup has_dockerenv has_systemd_marker has_podman_marker =
     (case mode of
        Pid_Host \<Rightarrow> Scope_Host None
      | Pid_Restricted \<Rightarrow> Scope_Restricted
      | Pid_Auto \<Rightarrow>
          if restricted_pid_namespace_evidence_with_markers cgroup has_dockerenv has_systemd_marker has_podman_marker
          then Scope_Restricted else Scope_Restricted)"

definition cgroup_result_is_container_owned :: "string option \<Rightarrow> bool" where
  "cgroup_result_is_container_owned result =
     (case result of Some cgroup \<Rightarrow> list_ex cgroup_implies_container (str_lines cgroup) | None \<Rightarrow> True)"

section \<open>Collections\<close>

record provider_collection =
  pc_nodes :: "runtime_map_node list"
  pc_edges :: "runtime_map_edge list"
  pc_diagnostics :: "runtime_map_diagnostic list"
  pc_states :: "provider_state list"

definition empty_collection :: provider_collection where
  "empty_collection = \<lparr>pc_nodes = [], pc_edges = [], pc_diagnostics = [], pc_states = []\<rparr>"

definition push_diagnostic :: "runtime_provider_kind \<Rightarrow> diagnostic_severity \<Rightarrow> string
    \<Rightarrow> provider_collection \<Rightarrow> provider_collection" where
  "push_diagnostic provider severity message c =
     c\<lparr>pc_diagnostics := push_provider_diagnostic (pc_diagnostics c) provider severity message\<rparr>"

definition new_slot_state :: "provider_slot \<Rightarrow> provider_state_kind \<Rightarrow> provider_state" where
  "new_slot_state slot state = \<lparr>ps_slot = slot, ps_state = state, ps_last_attempt_ms = None,
     ps_last_success_ms = None, ps_last_duration_ms = None, ps_consecutive_failure_count = 0,
     ps_data_revision = None, ps_status_reason = None\<rparr>"

text \<open>\<open>iter_mut().find(..)\<close>: the first entry of the slot.\<close>

fun update_first_state :: "provider_slot \<Rightarrow> provider_state_kind \<Rightarrow> provider_state list \<Rightarrow> provider_state list" where
  "update_first_state slot state [] = []"
| "update_first_state slot state (s # ss) =
     (if ps_slot s = slot then s\<lparr>ps_state := state\<rparr> # ss else s # update_first_state slot state ss)"

definition set_state :: "provider_slot \<Rightarrow> provider_state_kind \<Rightarrow> provider_collection \<Rightarrow> provider_collection" where
  "set_state slot state c = c\<lparr>pc_states :=
     (if list_ex (\<lambda>s. ps_slot s = slot) (pc_states c) then update_first_state slot state (pc_states c)
      else sort_key ps_slot (pc_states c @ [new_slot_state slot state]))\<rparr>"

definition sanitized_for_retention :: "serializers \<Rightarrow> provider_collection \<Rightarrow> provider_collection" where
  "sanitized_for_retention js c = c\<lparr>
     pc_nodes := map redact_runtime_node (pc_nodes c),
     pc_edges := map (redact_runtime_edge js) (pc_edges c),
     pc_diagnostics := map redact_runtime_diagnostic (pc_diagnostics c)\<rparr>"

section \<open>Collecting one slot\<close>

definition STATIC_PROVIDER_SLOTS :: "provider_slot list" where
  "STATIC_PROVIDER_SLOTS = [Slot_NetworkInfrastructure, Slot_HostScoped, Slot_Tmux, Slot_Cron,
     Slot_Systemd, Slot_PythonProcesses, Slot_NativeProcesses, Slot_ProjectNpm]"

text \<open>Durations are nanoseconds.\<close>

definition from_secs :: "nat \<Rightarrow> nat" where
  "from_secs n = n * 10 ^ 9"

definition slot_interval :: "provider_slot \<Rightarrow> nat" where
  "slot_interval slot =
     (case slot of
        Slot_NetworkInfrastructure \<Rightarrow> from_secs 10
      | Slot_HostScoped \<Rightarrow> from_secs 15
      | Slot_Tmux \<Rightarrow> from_secs 15
      | Slot_Cron \<Rightarrow> from_secs 15
      | Slot_Systemd \<Rightarrow> from_secs 15
      | Slot_PythonProcesses \<Rightarrow> from_secs 10
      | Slot_NativeProcesses \<Rightarrow> from_secs 10
      | Slot_ProjectNpm \<Rightarrow> from_secs 60)"

datatype provider_command_error = PCE_Spawn | PCE_Wait | PCE_Reader | PCE_TimedOut nat

datatype provider_collection_error = Collection_Failed | Collection_TimedOut

definition collection_error_from :: "provider_command_error \<Rightarrow> provider_collection_error" where
  "collection_error_from e = (case e of PCE_TimedOut _ \<Rightarrow> Collection_TimedOut | _ \<Rightarrow> Collection_Failed)"

datatype collection_outcome =
    Collected provider_collection
  | InFlight
  | Failed
  | TimedOut

definition provider_collection_outcome :: "provider_collection_error + provider_collection
    \<Rightarrow> collection_outcome" where
  "provider_collection_outcome result =
     (case result of
        Inr c \<Rightarrow> Collected c
      | Inl Collection_Failed \<Rightarrow> Failed
      | Inl Collection_TimedOut \<Rightarrow> TimedOut)"

text \<open>
  What the providers observe in one pass: nodes, edges and diagnostics, or the error of the
  command. The providers that read the host namespace themselves get its scope.
\<close>

type_synonym observation = "runtime_map_node list \<times> runtime_map_edge list \<times> runtime_map_diagnostic list"

record host_observations =
  ho_project_root :: "string option"
  ho_hostname :: string
  ho_network :: "pid_namespace_scope \<Rightarrow> docker_snapshot \<Rightarrow> observation"
  ho_listeners :: observation
  ho_pm2 :: observation
  ho_tmux :: "provider_command_error + observation"
  ho_cron :: observation
  ho_systemd :: "provider_command_error + observation"
  ho_python :: "bool \<Rightarrow> observation"
  ho_native :: "bool \<Rightarrow> observation"
  ho_npm :: "string \<Rightarrow> pid_namespace_scope \<Rightarrow> observation"

definition add_observation :: "observation \<Rightarrow> provider_collection \<Rightarrow> provider_collection" where
  "add_observation obs c = (case obs of (nodes, edges, diagnostics) \<Rightarrow>
     c\<lparr>pc_nodes := pc_nodes c @ nodes, pc_edges := pc_edges c @ edges,
       pc_diagnostics := pc_diagnostics c @ diagnostics\<rparr>)"

definition host_node :: "host_observations \<Rightarrow> runtime_map_node" where
  "host_node host = \<lparr>rn_id = ''host_local'', rn_provider = RPK_Host, rn_kind = RNK_Host,
     rn_label = ho_hostname host, rn_status = Some ''online'', rn_layer = Some RNL_Host,
     rn_metadata = bt_collect ([(''hostname'', ho_hostname host),
         (''serviceEntityKind'', service_entity_kind_name SEK_Host)]
       @ (case ho_project_root host of Some root \<Rightarrow> [(''projectRoot'', root)] | None \<Rightarrow> [])),
     rn_service = None, rn_package = None\<rparr>"

definition collect_host_scoped_runtime_providers ::
  "host_observations \<Rightarrow> pid_namespace_scope \<Rightarrow> provider_collection \<Rightarrow> provider_collection"
where
  "collect_host_scoped_runtime_providers host scope c =
     (if is_restricted scope then
        push_diagnostic RPK_Pm2 DS_Info
          ''PM2 discovery omitted because the daemon runs in a restricted PID namespace''
          (push_diagnostic RPK_Network DS_Info
            ''Network listener discovery omitted because the daemon runs in a restricted PID namespace'' c)
      else add_observation (ho_pm2 host) (add_observation (ho_listeners host) c))"

definition collect_tmux_runtime_provider :: "host_observations \<Rightarrow> pid_namespace_scope
    \<Rightarrow> provider_collection \<Rightarrow> provider_command_error + provider_collection" where
  "collect_tmux_runtime_provider host scope c =
     (if is_restricted scope then Inr (push_diagnostic RPK_Tmux DS_Info
        ''tmux discovery omitted because the daemon runs in a restricted PID namespace'' c)
      else map_sum id (\<lambda>obs. add_observation obs c) (ho_tmux host))"

definition collect_cron_runtime_provider :: "host_observations \<Rightarrow> pid_namespace_scope
    \<Rightarrow> provider_collection \<Rightarrow> provider_collection" where
  "collect_cron_runtime_provider host scope c =
     (if is_restricted scope then push_diagnostic RPK_ScheduledJob DS_Info
        ''Scheduled job discovery omitted because the daemon runs in a restricted PID namespace'' c
      else add_observation (ho_cron host) c)"

definition collect_systemd_runtime_provider :: "host_observations \<Rightarrow> pid_namespace_scope
    \<Rightarrow> provider_collection \<Rightarrow> provider_command_error + provider_collection" where
  "collect_systemd_runtime_provider host scope c =
     (if is_restricted scope then Inr (push_diagnostic RPK_Systemd DS_Info
        ''systemd discovery omitted because the daemon runs in a restricted PID namespace'' c)
      else map_sum id (\<lambda>obs. add_observation obs c) (ho_systemd host))"

definition scope_state :: "pid_namespace_scope \<Rightarrow> provider_state_kind" where
  "scope_state scope = (if is_restricted scope then PSK_Disabled else PSK_Fresh)"

definition collect_host_slot :: "host_observations \<Rightarrow> pid_namespace_scope \<Rightarrow> provider_collection" where
  "collect_host_slot host scope =
     (let c = (case scope_diagnostic scope of
            Some message \<Rightarrow> push_diagnostic RPK_Process DS_Info message empty_collection
          | None \<Rightarrow> empty_collection);
          c = (if is_restricted scope then push_diagnostic RPK_Host DS_Info
                 ''Host node omitted because the daemon runs in a restricted PID namespace'' c
               else c\<lparr>pc_nodes := pc_nodes c @ [host_node host]\<rparr>)
      in set_state Slot_HostScoped (scope_state scope) (collect_host_scoped_runtime_providers host scope c))"

definition collect_provider_slot :: "host_observations \<Rightarrow> pid_namespace_scope \<Rightarrow> docker_snapshot
    \<Rightarrow> provider_slot \<Rightarrow> provider_collection_error + provider_collection" where
  "collect_provider_slot host scope snapshot slot =
     (case slot of
        Slot_NetworkInfrastructure \<Rightarrow>
          Inr (set_state slot PSK_Fresh (add_observation (ho_network host scope snapshot) empty_collection))
      | Slot_HostScoped \<Rightarrow> Inr (collect_host_slot host scope)
      | Slot_Tmux \<Rightarrow>
          map_sum collection_error_from (set_state slot (scope_state scope))
            (collect_tmux_runtime_provider host scope empty_collection)
      | Slot_Cron \<Rightarrow>
          Inr (set_state slot (scope_state scope) (collect_cron_runtime_provider host scope empty_collection))
      | Slot_Systemd \<Rightarrow>
          map_sum collection_error_from (set_state slot (scope_state scope))
            (collect_systemd_runtime_provider host scope empty_collection)
      | Slot_PythonProcesses \<Rightarrow>
          Inr (set_state slot (scope_state scope)
            (case ho_python host (is_restricted scope) of (nodes, _, diagnostics) \<Rightarrow>
              add_observation (nodes, [], diagnostics) empty_collection))
      | Slot_NativeProcesses \<Rightarrow>
          Inr (set_state slot (scope_state scope)
            (case ho_native host (is_restricted scope) of (nodes, _, diagnostics) \<Rightarrow>
              add_observation (nodes, [], diagnostics) empty_collection))
      | Slot_ProjectNpm \<Rightarrow>
          (case ho_project_root host of
             Some root \<Rightarrow> Inr (set_state slot PSK_Fresh (add_observation (ho_npm host root scope) empty_collection))
           | None \<Rightarrow> Inr (set_state slot PSK_Disabled (push_diagnostic RPK_Npm DS_Info
               ''npm discovery skipped: project root unavailable'' empty_collection))))"

section \<open>The runtime map of a collection\<close>

definition runtime_map_from_collection :: "digest \<Rightarrow> serializers \<Rightarrow> docker_snapshot \<Rightarrow> provider_collection
    \<Rightarrow> string \<Rightarrow> runtime_mode \<Rightarrow> runtime_map option" where
  "runtime_map_from_collection sha256 js snapshot c docker_observation_revision mode =
     map_option (\<lambda>m. redact_runtime_map js
         (if mode \<noteq> Mode_Docker
          then m\<lparr>rm_edges := map (\<lambda>e. e\<lparr>re_evidence_refs := []\<rparr>) (rm_edges m)\<rparr> else m))
       (derive_runtime_map sha256 (js_node js) (js_edge js) snapshot (pc_nodes c) (pc_edges c)
         (pc_diagnostics c) docker_observation_revision)"

section \<open>Bounded command output\<close>

text \<open>\<open>read_bounded\<close> over the chunks that \<open>read\<close> returns until end of file or an error.\<close>

fun read_chunks :: "nat \<Rightarrow> string \<Rightarrow> bool \<Rightarrow> string list \<Rightarrow> string \<times> bool" where
  "read_chunks cap buffer truncated [] = (buffer, truncated)"
| "read_chunks cap buffer truncated (chunk # chunks) =
     (if chunk = [] then (buffer, truncated)
      else let remaining = cap - length buffer
      in read_chunks cap (buffer @ take (min (length chunk) remaining) chunk)
           (truncated \<or> remaining < length chunk) chunks)"

definition read_bounded :: "nat \<Rightarrow> string list \<Rightarrow> string \<times> bool" where
  "read_bounded cap chunks = read_chunks cap [] False chunks"

section \<open>Properties\<close>

lemma push_diagnostic_simps [simp]:
  "pc_nodes (push_diagnostic p s m c) = pc_nodes c" "pc_edges (push_diagnostic p s m c) = pc_edges c"
  "pc_states (push_diagnostic p s m c) = pc_states c"
  by (simp_all add: push_diagnostic_def)

lemma set_state_simps [simp]:
  "pc_nodes (set_state slot st c) = pc_nodes c" "pc_edges (set_state slot st c) = pc_edges c"
  "pc_states c = [] \<Longrightarrow> pc_states (set_state slot st c) = [new_slot_state slot st]"
  by (simp_all add: set_state_def)

lemma empty_collection_simps [simp]:
  "pc_nodes empty_collection = []" "pc_edges empty_collection = []" "pc_states empty_collection = []"
  by (simp_all add: empty_collection_def)

lemma scope_from_env:
  "is_restricted (pid_namespace_scope_from_evidence (from_env_value v) cgroup a b c) \<longleftrightarrow> v \<noteq> Some ''host''"
  by (auto simp: pid_namespace_scope_from_evidence_def from_env_value_def split: option.splits)

text \<open>
  Host data is collected on an explicit request only: unless the environment says
  exactly \<open>host\<close>, whatever the other evidence, the host, tmux, cron and systemd slots collect no
  node and no edge and are marked disabled, without looking at the host.
\<close>

lemma host_collection_fail_closed:
  assumes "env \<noteq> Some ''host''"
    and "scope = pid_namespace_scope_from_evidence (from_env_value env) cgroup dockerenv systemd_marker podman_marker"
    and "slot \<in> {Slot_HostScoped, Slot_Tmux, Slot_Cron, Slot_Systemd}"
  shows "\<exists>c. (\<forall>host. collect_provider_slot host scope snapshot slot = Inr c)
    \<and> pc_nodes c = [] \<and> pc_edges c = [] \<and> pc_states c = [new_slot_state slot PSK_Disabled]"
proof -
  have "is_restricted scope" using assms(1,2) scope_from_env by simp
  then have "scope = Scope_Restricted" by (cases scope) auto
  then show ?thesis using assms(3)
    by (auto simp: collect_provider_slot_def collect_host_slot_def scope_state_def
        collect_host_scoped_runtime_providers_def collect_tmux_runtime_provider_def
        collect_cron_runtime_provider_def collect_systemd_runtime_provider_def)
qed

lemma read_chunks_eq:
  "read_chunks cap (take cap before) (cap < length before) chunks =
     (let output = before @ concat (takeWhile (\<lambda>c. c \<noteq> []) chunks)
      in (take cap output, cap < length output))"
proof (induction chunks arbitrary: before)
  case (Cons chunk chunks)
  have "take cap before @ take (min (length chunk) (cap - length (take cap before))) chunk
      = take cap (before @ chunk)"
    by (auto simp: min_def)
  moreover have "(cap < length before \<or> cap - length (take cap before) < length chunk)
      = (cap < length (before @ chunk))" if "chunk \<noteq> []"
    using that by (cases chunk) auto
  ultimately show ?case
    using Cons.IH [of "before @ chunk"] by (simp add: Let_def)
qed simp

text \<open>
  The reader of command output keeps exactly the first \<open>cap\<close> bytes, however the output is
  cut into chunks, and reports truncation exactly when there were more.
\<close>

lemma read_bounded_exact:
  "read_bounded cap chunks =
     (let output = concat (takeWhile (\<lambda>c. c \<noteq> []) chunks) in (take cap output, cap < length output))"
  using read_chunks_eq [of cap "[]" chunks] by (simp add: read_bounded_def)

end
