(* ===== verification/History.thy ===== *)
theory History
  imports Observed
begin

text \<open>
  The daemon-lifetime history of observed container changes
  (\<open>ObservedHistoryCache\<close> in \<open>crates/dockermap-daemon/src/cache_refresh.rs\<close>).

  The queue \<open>events\<close> has its oldest event first. The 16 random bytes of a boot token come from
  the operating system and are the argument \<open>entropy\<close>. \<open>None\<close> is the panic on an overflow of the
  64-bit sequence number.
\<close>

record observed_history_cache =
  hc_boot :: string
  hc_next_sequence :: u64
  hc_last_observed_at_ms :: "u64 option"
  hc_baseline :: "observed_inventory option"
  hc_events :: "observed_change_event list"

definition MAX_SAFE_JS_INTEGER :: u64 where
  "MAX_SAFE_JS_INTEGER = 9007199254740991"

definition opaque_revision_boot_component :: "8 word list \<Rightarrow> string" where
  "opaque_revision_boot_component entropy = hex_string entropy"

definition history_new :: "8 word list \<Rightarrow> observed_history_cache" where
  "history_new entropy = \<lparr>hc_boot = opaque_revision_boot_component entropy, hc_next_sequence = 0,
     hc_last_observed_at_ms = None, hc_baseline = None, hc_events = []\<rparr>"

definition checked_add1 :: "u64 \<Rightarrow> u64 option" where
  "checked_add1 n = (if n + 1 < 2 ^ 64 then Some (n + 1) else None)"

function trim_events :: "observed_change_event list \<Rightarrow> observed_change_event list" where
  "trim_events es = (if length es > MAX_OBSERVED_CHANGE_EVENTS then trim_events (tl es) else es)"
  by pat_completeness auto
termination by (relation "measure length") (auto simp: MAX_OBSERVED_CHANGE_EVENTS_def)

declare trim_events.simps [simp del]

record observed_change =
  och_kind :: observed_change_kind
  och_container_id :: string
  och_previous :: "observed_container_status option"
  och_current :: "observed_container_status option"

definition event_id :: "string \<Rightarrow> nat \<Rightarrow> string" where
  "event_id boot n = boot @ ''-'' @ show_nat n"

definition history_push ::
  "u64 \<Rightarrow> observed_change \<Rightarrow> observed_history_cache \<Rightarrow> observed_history_cache option"
where
  "history_push observed_at_ms c h =
     (case checked_add1 (hc_next_sequence h) of
        None \<Rightarrow> None
      | Some n \<Rightarrow> Some (h\<lparr>hc_next_sequence := n,
          hc_events := trim_events (hc_events h @
            [\<lparr>oe_id = event_id (hc_boot h) n, oe_kind = och_kind c, oe_observed_at_ms = observed_at_ms,
              oe_container_id = och_container_id c, oe_previous_status = och_previous c,
              oe_current_status = och_current c\<rparr>])\<rparr>))"

fun history_push_all ::
  "u64 \<Rightarrow> observed_change list \<Rightarrow> observed_history_cache \<Rightarrow> observed_history_cache option"
where
  "history_push_all t [] h = Some h"
| "history_push_all t (c # cs) h =
     (case history_push t c h of None \<Rightarrow> None | Some h' \<Rightarrow> history_push_all t cs h')"

text \<open>The calls of \<open>push\<close> made by the two loops, in their order.\<close>

definition disappearances :: "observed_inventory \<Rightarrow> observed_inventory \<Rightarrow> observed_change list" where
  "disappearances previous current =
     map (\<lambda>(i, st). \<lparr>och_kind = ContainerDisappeared, och_container_id = i, och_previous = Some st,
            och_current = None\<rparr>)
       (filter (\<lambda>(i, st). \<not> (bt_get (iv_containers current) i \<noteq> None
            \<or> i \<in> set (iv_ambiguous_ids current))) (iv_containers previous))"

definition appearance_or_change ::
  "observed_inventory \<Rightarrow> string \<times> observed_container_status \<Rightarrow> observed_change list"
where
  "appearance_or_change previous e =
     (case bt_get (iv_containers previous) (fst e) of
        None \<Rightarrow>
          if fst e \<notin> set (iv_ambiguous_ids previous)
          then [\<lparr>och_kind = ContainerAppeared, och_container_id = fst e, och_previous = None,
                 och_current = Some (snd e)\<rparr>]
          else []
      | Some previous_status \<Rightarrow>
          if previous_status \<noteq> snd e
          then [\<lparr>och_kind = ContainerStatusChanged, och_container_id = fst e,
                 och_previous = Some previous_status, och_current = Some (snd e)\<rparr>]
          else [])"

definition inventory_changes :: "observed_inventory \<Rightarrow> observed_inventory \<Rightarrow> observed_change list" where
  "inventory_changes previous current =
     disappearances previous current
     @ concat (map (appearance_or_change previous) (iv_containers current))"

definition clock_unusable :: "observed_history_cache \<Rightarrow> u64 \<Rightarrow> bool" where
  "clock_unusable h now \<longleftrightarrow>
     now > MAX_SAFE_JS_INTEGER
     \<or> (case hc_last_observed_at_ms h of None \<Rightarrow> False | Some previous \<Rightarrow> now < previous)"

definition observe_published_snapshot ::
  "digest \<Rightarrow> 8 word list \<Rightarrow> docker_snapshot \<Rightarrow> observed_history_cache \<Rightarrow> observed_history_cache option"
where
  "observe_published_snapshot sha256 entropy snapshot h =
     (let current = observed_container_inventory sha256 snapshot; now = sn_last_updated snapshot in
      if clock_unusable h now
      then Some \<lparr>hc_boot = opaque_revision_boot_component entropy, hc_next_sequence = 0,
             hc_last_observed_at_ms = None, hc_baseline = Some current, hc_events = []\<rparr>
      else
        (let h' = h\<lparr>hc_last_observed_at_ms := Some now, hc_baseline := Some current\<rparr>
         in case hc_baseline h of
              None \<Rightarrow> Some h'
            | Some previous \<Rightarrow> history_push_all now (inventory_changes previous current) h'))"

definition history_response ::
  "observed_history_cache \<Rightarrow> runtime_mode \<Rightarrow> string \<Rightarrow> string \<Rightarrow> observed_change_history_response"
where
  "history_response h source current_model_revision observed_revision =
     (if source \<noteq> Mode_Docker \<or> hc_baseline h = None
      then \<lparr>oh_source = source, oh_baseline_established = False, oh_current_model_revision = None,
            oh_observed_revision = None, oh_events = []\<rparr>
      else \<lparr>oh_source = source, oh_baseline_established = True,
            oh_current_model_revision = Some current_model_revision,
            oh_observed_revision = Some observed_revision, oh_events = rev (hc_events h)\<rparr>)"

section \<open>Identifiers of events\<close>

lemma show_nat_no_leading_zero: "0 < n \<Longrightarrow> \<exists>c cs. show_nat n = c # cs \<and> c \<noteq> CHR ''0''"
proof (induction n rule: show_nat.induct)
  case (1 n)
  show ?case
  proof (cases "n < 10")
    case True
    then have "n \<in> {1, 2, 3, 4, 5, 6, 7, 8, 9}" using "1.prems" by auto
    then show ?thesis by (auto simp: show_nat.simps [of n] char_of_def)
  next
    case False
    then obtain c cs where "show_nat (n div 10) = c # cs" "c \<noteq> CHR ''0''" using 1 by force
    then show ?thesis using False by (simp add: show_nat.simps [of n])
  qed
qed

definition boot_token :: "string \<Rightarrow> bool" where
  "boot_token b \<longleftrightarrow> length b = 32 \<and> list_all is_lower_hex b"

lemma opaque_boot_token: "length entropy = 16 \<Longrightarrow> boot_token (opaque_revision_boot_component entropy)"
  by (simp add: boot_token_def opaque_revision_boot_component_def list_all_iff hex_string_lower_hex)

lemma event_id_parts:
  assumes "boot_token boot" "0 < n" "n < 2 ^ 64"
  shows "observed_event_id_parts (event_id boot n) = Some (boot, n)"
proof -
  have no_dash: "CHR ''-'' \<notin> set boot"
    using assms(1) lower_hex_not_sep by (auto simp: boot_token_def list_all_iff)
  have split: "split_once (event_id boot n) (CHR ''-'') = Some (boot, show_nat n)"
    unfolding event_id_def using split_once_append [OF no_dash, of "show_nat n"] by simp
  have parse: "parse_uint 64 (show_nat n) = Some n" by (rule parse_show_nat [OF assms(3)])
  obtain c cs where c: "show_nat n = c # cs" "c \<noteq> CHR ''0''"
    using show_nat_no_leading_zero [OF assms(2)] by blast
  then have "\<not> starts_with (show_nat n) ''0''" by (simp add: starts_with_def)
  then have "is_observed_event_id (event_id boot n)"
    using assms(1) split parse c show_nat_digits [of n]
    by (simp add: is_observed_event_id_def boot_token_def list_all_iff)
  then show ?thesis using split parse by (simp add: observed_event_id_parts_def)
qed

section \<open>The invariant of the cache\<close>

definition event_wire :: "observed_change_event \<Rightarrow> observed_change_event_wire" where
  "event_wire e = \<lparr>ow_id = oe_id e, ow_kind = oe_kind e, ow_observed_at_ms = oe_observed_at_ms e,
     ow_container_id = oe_container_id e, ow_previous_status = oe_previous_status e,
     ow_current_status = oe_current_status e\<rparr>"

definition history_wire :: "observed_change_history_response \<Rightarrow> observed_change_history_response_wire" where
  "history_wire r = \<lparr>hw_source = oh_source r, hw_baseline_established = oh_baseline_established r,
     hw_current_model_revision = oh_current_model_revision r,
     hw_observed_revision = oh_observed_revision r, hw_events = oh_events r\<rparr>"

definition opaque_inventory :: "observed_inventory \<Rightarrow> bool" where
  "opaque_inventory iv \<longleftrightarrow> (\<forall>e \<in> set (iv_containers iv). is_observed_container_id (fst e))"

definition change_ok :: "observed_change \<Rightarrow> bool" where
  "change_ok c \<longleftrightarrow> is_observed_container_id (och_container_id c)
     \<and> coherent_transition (och_kind c) (och_previous c) (och_current c)"

text \<open>The events carry the last sequence numbers of this boot, in order, with times that never
  decrease.\<close>

definition history_inv :: "observed_history_cache \<Rightarrow> bool" where
  "history_inv h \<longleftrightarrow>
     boot_token (hc_boot h) \<and> hc_next_sequence h < 2 ^ 64
     \<and> length (hc_events h) \<le> 64 \<and> length (hc_events h) \<le> hc_next_sequence h
     \<and> map oe_id (hc_events h) = map (event_id (hc_boot h))
         [Suc (hc_next_sequence h) - length (hc_events h)..<Suc (hc_next_sequence h)]
     \<and> sorted (map oe_observed_at_ms (hc_events h))
     \<and> (\<forall>e \<in> set (hc_events h). is_observed_container_id (oe_container_id e)
          \<and> coherent_transition (oe_kind e) (oe_previous_status e) (oe_current_status e)
          \<and> (case hc_last_observed_at_ms h of None \<Rightarrow> False | Some t \<Rightarrow> oe_observed_at_ms e \<le> t))
     \<and> (case hc_baseline h of None \<Rightarrow> hc_events h = [] | Some iv \<Rightarrow> opaque_inventory iv)"

lemma trim_events_drop: "trim_events es = drop (length es - 64) es"
proof (induction es rule: trim_events.induct)
  case (1 es)
  show ?case
  proof (cases "length es > MAX_OBSERVED_CHANGE_EVENTS")
    case True
    then have "length es = Suc (length (tl es))" "length (tl es) \<ge> 64"
      by (auto simp: MAX_OBSERVED_CHANGE_EVENTS_def)
    moreover from this have "length es - 64 = Suc (length (tl es) - 64)" by linarith
    ultimately have "drop (length es - 64) es = drop (length (tl es) - 64) (tl es)"
      by (cases es) simp_all
    then show ?thesis using 1 True by (simp add: trim_events.simps [of es])
  next
    case False
    then show ?thesis by (simp add: trim_events.simps [of es] MAX_OBSERVED_CHANGE_EVENTS_def)
  qed
qed

lemma upt_drop_last:
  assumes "n \<le> k" "d \<le> Suc n"
  shows "drop d ([Suc k - n..<Suc k] @ [Suc k]) = [Suc (Suc k) - (Suc n - d)..<Suc (Suc k)]"
proof -
  have "[Suc k - n..<Suc k] @ [Suc k] = [Suc k - n..<Suc (Suc k)]" using assms(1) by simp
  then show ?thesis using assms by (simp only: drop_upt) (simp add: Suc_diff_le)
qed

lemma history_push_inv:
  assumes inv: "history_inv h" and "hc_last_observed_at_ms h = Some t" and "hc_baseline h \<noteq> None"
    and "change_ok c" and push: "history_push t c h = Some h'"
  shows "history_inv h' \<and> hc_last_observed_at_ms h' = Some t \<and> hc_baseline h' = hc_baseline h"
proof -
  let ?k = "hc_next_sequence h" and ?es = "hc_events h"
  define e where "e = \<lparr>oe_id = event_id (hc_boot h) (Suc ?k), oe_kind = och_kind c,
    oe_observed_at_ms = t, oe_container_id = och_container_id c, oe_previous_status = och_previous c,
    oe_current_status = och_current c\<rparr>"
  define d where "d = Suc (length ?es) - 64"
  have k: "Suc ?k < 2 ^ 64"
    and h': "h' = h\<lparr>hc_next_sequence := Suc ?k, hc_events := drop d (?es @ [e])\<rparr>"
    using push by (auto simp: history_push_def checked_add1_def trim_events_drop e_def d_def
        split: if_splits)
  have len: "length ?es \<le> 64" "length ?es \<le> ?k" "d \<le> Suc (length ?es)"
    using inv by (simp_all add: history_inv_def d_def)
  have "map oe_id (?es @ [e]) = map (event_id (hc_boot h)) ([Suc ?k - length ?es..<Suc ?k] @ [Suc ?k])"
    using inv by (simp add: history_inv_def e_def del: upt_Suc)
  then have "map oe_id (drop d (?es @ [e])) = map (event_id (hc_boot h))
      (drop d ([Suc ?k - length ?es..<Suc ?k] @ [Suc ?k]))"
    by (simp only: drop_map [symmetric])
  then have ids: "map oe_id (drop d (?es @ [e])) = map (event_id (hc_boot h))
      [Suc (Suc ?k) - length (drop d (?es @ [e]))..<Suc (Suc ?k)]"
    using upt_drop_last [OF len(2,3)] by (simp only: length_drop length_append) simp
  have "sorted (map oe_observed_at_ms (?es @ [e]))"
    using inv assms(2) by (auto simp: history_inv_def sorted_append e_def)
  then have sorted: "sorted (map oe_observed_at_ms (drop d (?es @ [e])))"
    by (simp only: drop_map [symmetric]) (rule sorted_wrt_drop)
  have "\<forall>x \<in> set (?es @ [e]). is_observed_container_id (oe_container_id x)
      \<and> coherent_transition (oe_kind x) (oe_previous_status x) (oe_current_status x)
      \<and> oe_observed_at_ms x \<le> t"
    using inv assms(2,4) by (auto simp: history_inv_def e_def change_ok_def)
  then have events: "\<forall>x \<in> set (drop d (?es @ [e])). is_observed_container_id (oe_container_id x)
      \<and> coherent_transition (oe_kind x) (oe_previous_status x) (oe_current_status x)
      \<and> oe_observed_at_ms x \<le> t"
    using set_drop_subset by fast
  have "length (drop d (?es @ [e])) \<le> 64" "length (drop d (?es @ [e])) \<le> Suc ?k"
    using len by (auto simp: d_def)
  then show ?thesis
    using ids sorted events k inv assms(2,3) unfolding h' history_inv_def
    by (auto split: option.splits simp del: upt_Suc)
qed

lemma history_push_all_inv:
  assumes "history_inv h" "hc_last_observed_at_ms h = Some t" "hc_baseline h \<noteq> None"
    and "\<forall>c \<in> set cs. change_ok c" and "history_push_all t cs h = Some h'"
  shows "history_inv h'"
  using assms
proof (induction cs arbitrary: h)
  case (Cons c cs)
  then obtain h1 where h1: "history_push t c h = Some h1" "history_push_all t cs h1 = Some h'"
    by (auto split: option.splits)
  then show ?case
    using history_push_inv [OF Cons.prems(1-3) _ h1(1)] Cons by auto
qed simp

lemma inventory_changes_ok:
  assumes "opaque_inventory p" "opaque_inventory c"
  shows "\<forall>x \<in> set (inventory_changes p c). change_ok x"
  using assms
  by (fastforce simp: inventory_changes_def disappearances_def appearance_or_change_def change_ok_def
      opaque_inventory_def coherent_transition_def split: option.splits if_splits)

lemma inventory_opaque:
  assumes "digest_len_32 sha256"
  shows "opaque_inventory (observed_container_inventory sha256 s)"
proof -
  have "is_observed_container_id i"
    if "(i, st) \<in> set (iv_containers (observed_container_inventory sha256 s))" for i st
  proof -
    have "distinct (map fst (iv_containers (observed_container_inventory sha256 s)))"
      using inventory_lookup(1) by (simp add: bt_wf_def strict_sorted_iff)
    then have "bt_get (iv_containers (observed_container_inventory sha256 s)) i = Some st"
      using that by (simp add: bt_get_def)
    then show ?thesis by (rule inventory_ids [OF assms])
  qed
  then show ?thesis by (auto simp: opaque_inventory_def)
qed

lemma observe_inv:
  assumes inv: "history_inv h" and sha: "digest_len_32 sha256" and "length entropy = 16"
    and obs: "observe_published_snapshot sha256 entropy s h = Some h'"
  shows "history_inv h'"
proof (cases "clock_unusable h (sn_last_updated s)")
  case True
  then show ?thesis
    using obs opaque_boot_token [OF assms(3)] inventory_opaque [OF sha, of s]
    by (auto simp: observe_published_snapshot_def Let_def history_inv_def)
next
  case False
  let ?iv = "observed_container_inventory sha256 s"
  let ?h = "h\<lparr>hc_last_observed_at_ms := Some (sn_last_updated s), hc_baseline := Some ?iv\<rparr>"
  have "\<forall>e \<in> set (hc_events h). oe_observed_at_ms e \<le> sn_last_updated s"
    using inv False by (fastforce simp: history_inv_def clock_unusable_def split: option.splits)
  then have h: "history_inv ?h"
    using inv inventory_opaque [OF sha, of s] by (auto simp: history_inv_def simp del: upt_Suc)
  show ?thesis
  proof (cases "hc_baseline h")
    case None
    then show ?thesis using obs False h by (simp add: observe_published_snapshot_def Let_def)
  next
    case (Some p)
    then have "opaque_inventory p" using inv by (simp add: history_inv_def)
    then have ok: "\<forall>x \<in> set (inventory_changes p ?iv). change_ok x"
      using inventory_changes_ok inventory_opaque [OF sha] by blast
    have "history_push_all (sn_last_updated s) (inventory_changes p ?iv) ?h = Some h'"
      using obs False Some by (simp add: observe_published_snapshot_def Let_def)
    then show ?thesis using history_push_all_inv [OF h _ _ ok] by simp
  qed
qed

text \<open>The states of the cache: a new one, then one observation after the other.\<close>

inductive history_state :: "digest \<Rightarrow> observed_history_cache \<Rightarrow> bool" for sha256 where
  started: "length entropy = 16 \<Longrightarrow> history_state sha256 (history_new entropy)"
| observed: "history_state sha256 h \<Longrightarrow> length entropy = 16 \<Longrightarrow>
    observe_published_snapshot sha256 entropy s h = Some h' \<Longrightarrow> history_state sha256 h'"

lemma history_state_inv:
  "history_state sha256 h \<Longrightarrow> digest_len_32 sha256 \<Longrightarrow> history_inv h"
proof (induction rule: history_state.induct)
  case (started entropy)
  then show ?case
    by (simp add: history_inv_def history_new_def opaque_boot_token)
next
  case (observed h entropy s h')
  then show ?case using observe_inv by blast
qed

lemma inv_newest_first:
  assumes "history_inv h"
  shows "newest_first_epoch (rev (hc_events h))"
proof -
  let ?es = "hc_events h" and ?k = "hc_next_sequence h" and ?b = "hc_boot h"
  have parts: "observed_event_id_parts (oe_id (?es ! j)) = Some (?b, Suc ?k - length ?es + j)"
    if "j < length ?es" for j
  proof -
    have le: "length ?es \<le> ?k" and ids: "map oe_id ?es = map (event_id ?b) [Suc ?k - length ?es..<Suc ?k]"
      using assms by (simp_all add: history_inv_def del: upt_Suc)
    have "oe_id (?es ! j) = map oe_id ?es ! j" using that by simp
    also have "\<dots> = event_id ?b (Suc ?k - length ?es + j)"
      unfolding ids using that le by (simp del: upt_Suc)
    finally have i: "oe_id (?es ! j) = event_id ?b (Suc ?k - length ?es + j)" .
    have "boot_token ?b" "?k < 2 ^ 64" using assms by (simp_all add: history_inv_def)
    moreover have "0 < Suc ?k - length ?es + j" "Suc ?k - length ?es + j \<le> ?k" using that le by linarith+
    ultimately show ?thesis unfolding i by (intro event_id_parts) linarith+
  qed
  have boot: "\<forall>e \<in> set (rev ?es). from_boot ?b e"
    using parts by (auto simp: from_boot_def in_set_conv_nth)
  have times: "oe_observed_at_ms (?es ! i) \<le> oe_observed_at_ms (?es ! j)" if "i \<le> j" "j < length ?es" for i j
    using assms that sorted_nth_mono [of "map oe_observed_at_ms ?es" i j] by (simp add: history_inv_def)
  have "sorted_wrt (\<lambda>a b. newer_than b a) ?es"
    unfolding sorted_wrt_iff_nth_less
    using parts times by (auto simp: newer_than_def event_seq_def)
  then have "sorted_wrt newer_than (rev ?es)" by (simp add: sorted_wrt_rev)
  then show ?thesis using boot unfolding newest_first_epoch_def by blast
qed

lemma from_boot_observed: "from_boot b e \<Longrightarrow> is_observed_event_id (oe_id e)"
  by (cases "is_observed_event_id (oe_id e)") (simp_all add: from_boot_def observed_event_id_parts_def)

text \<open>
  What the daemon publishes as its change history is always accepted by the validators of
  the wire format, whatever snapshots it has observed: every event passes the event check and
  the response passes the history check, both unchanged. In Docker mode a publication observes
  its snapshot before it answers, so there is a baseline.
\<close>

lemma published_history_accepted:
  assumes "digest_len_32 sha256" and "history_state sha256 h"
    and "mode = Mode_Docker \<Longrightarrow> hc_baseline h \<noteq> None"
    and "revision_present (Some model_revision)" and "revision_present (Some observed_revision)"
    and r: "r = history_response h mode model_revision observed_revision"
  shows "observed_change_history_response_try_from (history_wire r) = Inr r
     \<and> (\<forall>e \<in> set (oh_events r). observed_change_event_try_from (event_wire e) = Inr e)"
proof -
  have inv: "history_inv h" using history_state_inv assms(1,2) by blast
  note newest = inv_newest_first [OF inv]
  show ?thesis
  proof (cases "mode \<noteq> Mode_Docker \<or> hc_baseline h = None")
    case True
    then have "mode = Mode_Mock" using assms(3) by (cases mode) auto
    then show ?thesis
      by (auto simp: r history_response_def history_wire_def
        observed_change_history_response_try_from_def history_source_coherent_def)
  next
    case False
    have len: "length (hc_events h) \<le> 64" using inv by (simp add: history_inv_def)
    have check: "check_history_events [] None (rev (hc_events h)) = None"
      using newest by (simp add: check_history_events_iff)
    have event: "observed_change_event_try_from (event_wire e) = Inr e" if "e \<in> set (hc_events h)" for e
    proof -
      obtain b where "\<forall>x \<in> set (rev (hc_events h)). from_boot b x"
        using newest unfolding newest_first_epoch_def by blast
      then have "from_boot b e" using that by simp
      then have "is_observed_event_id (oe_id e)" by (rule from_boot_observed)
      then show ?thesis
        using inv that by (auto simp: history_inv_def observed_change_event_try_from_def event_wire_def)
    qed
    show ?thesis
      using False len check event assms(4,5)
      by (auto simp: r history_response_def history_wire_def
        observed_change_history_response_try_from_def history_source_coherent_def)
  qed
qed

definition example_boot :: "8 word list" where
  "example_boot = replicate 16 7"

definition example_gone :: docker_snapshot where
  "example_gone = example_observed\<lparr>sn_containers := [], sn_last_updated := 9\<rparr>"

lemma example_history:
  "\<exists>h. history_state sha256 h \<and> hc_baseline h \<noteq> None \<and> length (hc_events h) = 1"
proof -
  let ?iv = "observed_container_inventory sha256"
  define h0 where "h0 = history_new example_boot"
  define h1 where "h1 = h0\<lparr>hc_last_observed_at_ms := Some 5, hc_baseline := Some (?iv example_observed)\<rparr>"
  have o1: "observe_published_snapshot sha256 example_boot example_observed h0 = Some h1"
    by (simp add: observe_published_snapshot_def h0_def h1_def history_new_def clock_unusable_def
        MAX_SAFE_JS_INTEGER_def example_observed_def Let_def)
  have iv: "iv_containers (?iv example_observed) =
      [(observed_container_identity sha256 ''c1'', observed_status_class ''Up 3 hours'')]"
    by (simp add: observed_container_inventory_def inventory_candidates_def push_candidate_def
        bt_get_def inventory_step_def example_observed_def)
  have gone: "?iv example_gone = \<lparr>iv_containers = [], iv_ambiguous_ids = []\<rparr>"
    by (simp add: observed_container_inventory_def inventory_candidates_def example_gone_def)
  have gone_at: "sn_last_updated example_gone = 9" by (simp add: example_gone_def)
  have b: "boot_token (hc_boot h1)" "hc_next_sequence h1 = 0" "hc_events h1 = []"
    by (simp_all add: h1_def h0_def history_new_def opaque_boot_token example_boot_def)
  have "\<exists>h2. observe_published_snapshot sha256 example_boot example_gone h1 = Some h2
      \<and> hc_baseline h2 \<noteq> None \<and> length (hc_events h2) = 1"
    using b iv gone_at by (auto simp: observe_published_snapshot_def gone inventory_changes_def
        disappearances_def clock_unusable_def MAX_SAFE_JS_INTEGER_def h1_def bt_get_def Let_def
        history_push_def checked_add1_def trim_events_drop)
  moreover have "history_state sha256 h0"
    unfolding h0_def by (rule history_state.started) (simp add: example_boot_def)
  ultimately show ?thesis
    using history_state.observed [OF _ _ o1] history_state.observed example_boot_def
    by (metis length_replicate)
qed

section \<open>Which changes are reported\<close>

lemma tracked_iff:
  "(i, st) \<in> set (iv_containers (observed_container_inventory sha256 s)) \<longleftrightarrow>
     (\<exists>c. carrying sha256 s i = [c] \<and> st = observed_status_class (ct_status c))"
proof -
  have "distinct (map fst (iv_containers (observed_container_inventory sha256 s)))"
    using inventory_lookup(1) by (simp add: bt_wf_def strict_sorted_iff)
  then show ?thesis using inventory_lookup(2) [of sha256 s i st] by (simp add: bt_get_def)
qed

lemma untracked_iff:
  "bt_get (iv_containers (observed_container_inventory sha256 s)) i = None
   \<and> i \<notin> set (iv_ambiguous_ids (observed_container_inventory sha256 s)) \<longleftrightarrow> carrying sha256 s i = []"
proof (cases "carrying sha256 s i")
  case Nil
  then show ?thesis using inventory_lookup(2) [of sha256 s i] inventory_lookup(3) [of i] by fastforce
next
  case (Cons c cs)
  then show ?thesis using inventory_lookup(2) [of sha256 s i] inventory_lookup(3) [of i]
    by (cases cs) auto
qed

text \<open>
  C39. Between two observations a container is reported as disappeared exactly when one record
  carried its identity before and none does now, as appeared in the opposite case, and as
  changed when one record carried it both times with different status classes. An ambiguous
  identity is never reported.
\<close>

theorem reported_changes_exact:
  "x \<in> set (inventory_changes (observed_container_inventory sha256 s)
        (observed_container_inventory sha256 s')) \<longleftrightarrow>
     (\<exists>i c. carrying sha256 s i = [c] \<and> carrying sha256 s' i = []
        \<and> x = \<lparr>och_kind = ContainerDisappeared, och_container_id = i,
              och_previous = Some (observed_status_class (ct_status c)), och_current = None\<rparr>)
     \<or> (\<exists>i c. carrying sha256 s i = [] \<and> carrying sha256 s' i = [c]
        \<and> x = \<lparr>och_kind = ContainerAppeared, och_container_id = i, och_previous = None,
              och_current = Some (observed_status_class (ct_status c))\<rparr>)
     \<or> (\<exists>i c d. carrying sha256 s i = [c] \<and> carrying sha256 s' i = [d]
        \<and> observed_status_class (ct_status c) \<noteq> observed_status_class (ct_status d)
        \<and> x = \<lparr>och_kind = ContainerStatusChanged, och_container_id = i,
              och_previous = Some (observed_status_class (ct_status c)),
              och_current = Some (observed_status_class (ct_status d))\<rparr>)"
proof -
  let ?p = "observed_container_inventory sha256 s" and ?c = "observed_container_inventory sha256 s'"
  have gone: "x \<in> set (disappearances ?p ?c) \<longleftrightarrow>
    (\<exists>i c. carrying sha256 s i = [c] \<and> carrying sha256 s' i = []
        \<and> x = \<lparr>och_kind = ContainerDisappeared, och_container_id = i,
              och_previous = Some (observed_status_class (ct_status c)), och_current = None\<rparr>)"
    unfolding untracked_iff [symmetric]
    by (auto simp: disappearances_def tracked_iff)
  have "x \<in> set (appearance_or_change ?p (i, st)) \<longleftrightarrow>
     (carrying sha256 s i = [] \<and> x = \<lparr>och_kind = ContainerAppeared, och_container_id = i,
        och_previous = None, och_current = Some st\<rparr>)
     \<or> (\<exists>c. carrying sha256 s i = [c] \<and> observed_status_class (ct_status c) \<noteq> st
        \<and> x = \<lparr>och_kind = ContainerStatusChanged, och_container_id = i,
              och_previous = Some (observed_status_class (ct_status c)), och_current = Some st\<rparr>)" for i st
  proof (cases "bt_get (iv_containers ?p) i")
    case None
    then have "carrying sha256 s i \<noteq> [c]" for c using inventory_lookup(2) [of sha256 s i] by auto
    then show ?thesis using None unfolding untracked_iff [symmetric]
      by (auto simp: appearance_or_change_def)
  next
    case (Some a)
    then obtain c where "carrying sha256 s i = [c]" "a = observed_status_class (ct_status c)"
      using inventory_lookup(2) [of sha256 s i] by blast
    then show ?thesis using Some by (auto simp: appearance_or_change_def)
  qed
  note step = this
  have "x \<in> set (concat (map (appearance_or_change ?p) (iv_containers ?c))) \<longleftrightarrow>
      (\<exists>i st. (i, st) \<in> set (iv_containers ?c) \<and> x \<in> set (appearance_or_change ?p (i, st)))"
    by auto
  then have "x \<in> set (concat (map (appearance_or_change ?p) (iv_containers ?c))) \<longleftrightarrow>
    (\<exists>i d. carrying sha256 s' i = [d] \<and> ((carrying sha256 s i = []
          \<and> x = \<lparr>och_kind = ContainerAppeared, och_container_id = i, och_previous = None,
                och_current = Some (observed_status_class (ct_status d))\<rparr>)
       \<or> (\<exists>c. carrying sha256 s i = [c]
          \<and> observed_status_class (ct_status c) \<noteq> observed_status_class (ct_status d)
          \<and> x = \<lparr>och_kind = ContainerStatusChanged, och_container_id = i,
              och_previous = Some (observed_status_class (ct_status c)),
              och_current = Some (observed_status_class (ct_status d))\<rparr>)))"
    unfolding step tracked_iff by blast
  then show ?thesis using gone by (simp add: inventory_changes_def) blast
qed

end
