(* ===== verification/Slots.thy ===== *)
theory Slots
  imports Collection History
begin

text \<open>
  The scheduler of the fixed provider slots (\<open>cache_refresh.rs\<close>): the retained observation and
  the freshness record of a slot, claiming of due slots under the worker bound, application of a
  collection outcome, and the provider states published for the slots.

  The map of the slots is built from \<open>STATIC_PROVIDER_SLOTS\<close>, which lists every constructor of
  \<open>ProviderSlot\<close>, and no operation adds or removes a key: it is a total function here. Times of
  the monotonic clock are nanoseconds; a reading of the wall clock is a parameter (the
  milliseconds since the epoch, \<open>None\<close> for a clock before it), as are the entropy of the boot
  component and the JSON text of a collection. A panic is the value \<open>None\<close>.
\<close>

section \<open>State\<close>

datatype runtime_provider_state =
    Obs_Unavailable
  | Obs_Fresh provider_collection
  | Obs_Collecting "provider_collection option"
  | Obs_Degraded "provider_collection option"
  | Obs_TimedOut "provider_collection option"

record slot_data_revision =
  dr_boot :: string
  dr_sequence :: u64

record slot_freshness =
  sf_last_attempt_ms :: "u64 option"
  sf_last_success_ms :: "u64 option"
  sf_last_duration_ms :: "u64 option"
  sf_consecutive_failure_count :: u32
  sf_data_revision :: "slot_data_revision option"
  sf_data_observable :: "string option"
  sf_status_reason :: "provider_status_reason option"

record slot_runtime_state =
  sl_observation :: runtime_provider_state
  sl_completed_at :: "nat option"
  sl_freshness :: slot_freshness

type_synonym runtime_provider_slots = "provider_slot \<Rightarrow> slot_runtime_state"

definition default_freshness :: slot_freshness where
  "default_freshness = \<lparr>sf_last_attempt_ms = None, sf_last_success_ms = None, sf_last_duration_ms = None,
     sf_consecutive_failure_count = 0, sf_data_revision = None, sf_data_observable = None,
     sf_status_reason = None\<rparr>"

definition default_slot_state :: slot_runtime_state where
  "default_slot_state = \<lparr>sl_observation = Obs_Unavailable, sl_completed_at = None,
     sl_freshness = default_freshness\<rparr>"

definition unavailable_provider_slots :: runtime_provider_slots where
  "unavailable_provider_slots = (\<lambda>_. default_slot_state)"

definition source_reset_provider_slots :: runtime_provider_slots where
  "source_reset_provider_slots = (\<lambda>slot. let st = unavailable_provider_slots slot in
     st\<lparr>sl_freshness := (sl_freshness st)\<lparr>sf_status_reason := Some PSR_SourceReset\<rparr>\<rparr>)"

definition data_revision_first :: "string \<Rightarrow> slot_data_revision" where
  "data_revision_first boot = \<lparr>dr_boot = boot, dr_sequence = 1\<rparr>"

definition data_revision_advance :: "slot_data_revision \<Rightarrow> slot_data_revision option" where
  "data_revision_advance r = map_option (\<lambda>n. r\<lparr>dr_sequence := n\<rparr>) (checked_add1 (dr_sequence r))"

definition data_revision_public :: "slot_data_revision \<Rightarrow> string" where
  "data_revision_public r = dr_boot r @ ''-'' @ show_nat (dr_sequence r)"

definition wall_clock_millis :: "nat option \<Rightarrow> u64 option" where
  "wall_clock_millis since_epoch =
     Option.bind since_epoch (\<lambda>millis. if millis \<le> MAX_SAFE_JS_INTEGER then Some millis else None)"

definition successful_duration_ms :: "u64 option \<Rightarrow> u64 option \<Rightarrow> u64 option" where
  "successful_duration_ms attempt_ms completed_ms =
     Option.bind completed_ms (\<lambda>completed. map_option (\<lambda>attempt. completed - attempt) attempt_ms)"

section \<open>Claiming due slots\<close>

definition MAX_CONCURRENT_PROVIDER_SLOTS :: nat where
  "MAX_CONCURRENT_PROVIDER_SLOTS = 2"

fun retained_collection :: "runtime_provider_state \<Rightarrow> provider_collection option" where
  "retained_collection (Obs_Fresh c) = Some c"
| "retained_collection (Obs_Collecting (Some c)) = Some c"
| "retained_collection (Obs_Degraded (Some c)) = Some c"
| "retained_collection (Obs_TimedOut (Some c)) = Some c"
| "retained_collection _ = None"

fun is_collecting :: "runtime_provider_state \<Rightarrow> bool" where
  "is_collecting (Obs_Collecting _) = True"
| "is_collecting _ = False"

definition disabled_in :: "provider_slot \<Rightarrow> provider_collection \<Rightarrow> bool" where
  "disabled_in slot c \<longleftrightarrow> list_ex (\<lambda>st. ps_slot st = slot \<and> ps_state st = PSK_Disabled) (pc_states c)"

fun fresh_disabled :: "provider_slot \<Rightarrow> runtime_provider_state \<Rightarrow> bool" where
  "fresh_disabled slot (Obs_Fresh c) = disabled_in slot c"
| "fresh_disabled slot _ = False"

definition slot_due :: "nat \<Rightarrow> provider_slot \<Rightarrow> nat option \<Rightarrow> bool" where
  "slot_due now slot completed_at =
     (case completed_at of Some at \<Rightarrow> slot_interval slot \<le> now - at | None \<Rightarrow> True)"

definition claimable :: "nat \<Rightarrow> provider_slot \<Rightarrow> slot_runtime_state \<Rightarrow> bool" where
  "claimable now slot current \<longleftrightarrow> \<not> is_collecting (sl_observation current)
     \<and> slot_due now slot (sl_completed_at current) \<and> \<not> fresh_disabled slot (sl_observation current)"

definition claim_slot :: "u64 option \<Rightarrow> slot_runtime_state \<Rightarrow> slot_runtime_state" where
  "claim_slot attempt_ms current = current\<lparr>
     sl_observation := Obs_Collecting (retained_collection (sl_observation current)),
     sl_freshness := (sl_freshness current)\<lparr>sf_last_attempt_ms := attempt_ms,
       sf_status_reason := Some PSR_Refreshing\<rparr>\<rparr>"

text \<open>The loop over the slots; \<open>clock\<close> is what the wall clock reads when a slot is claimed.\<close>

fun claim_slots :: "(provider_slot \<Rightarrow> u64 option) \<Rightarrow> nat \<Rightarrow> provider_slot list \<Rightarrow> nat
    \<Rightarrow> runtime_provider_slots \<Rightarrow> provider_slot list \<times> runtime_provider_slots" where
  "claim_slots clock now [] remaining slots = ([], slots)"
| "claim_slots clock now (slot # rest) remaining slots =
     (if remaining = 0 then ([], slots)
      else if claimable now slot (slots slot)
      then apfst ((#) slot) (claim_slots clock now rest (remaining - 1)
             (slots(slot := claim_slot (clock slot) (slots slot))))
      else claim_slots clock now rest remaining slots)"

definition collecting_count :: "runtime_provider_slots \<Rightarrow> nat" where
  "collecting_count slots =
     length (filter (\<lambda>slot. is_collecting (sl_observation (slots slot))) STATIC_PROVIDER_SLOTS)"

definition claim_due_slots_with_active_workers :: "(provider_slot \<Rightarrow> u64 option) \<Rightarrow> runtime_provider_slots
    \<Rightarrow> nat \<Rightarrow> nat \<Rightarrow> nat \<Rightarrow> provider_slot list \<times> runtime_provider_slots" where
  "claim_due_slots_with_active_workers clock slots now max_concurrency active_workers =
     claim_slots clock now STATIC_PROVIDER_SLOTS
       (max_concurrency - max (collecting_count slots) active_workers) slots"

section \<open>Applying an outcome\<close>

definition update_slot_data_revision :: "(provider_collection \<Rightarrow> string) \<Rightarrow> string
    \<Rightarrow> slot_freshness \<Rightarrow> provider_collection \<Rightarrow> slot_freshness option" where
  "update_slot_data_revision identity boot freshness c =
     (if sf_data_observable freshness = Some (identity c) then Some freshness
      else map_option (\<lambda>r. freshness\<lparr>sf_data_revision := Some r, sf_data_observable := Some (identity c)\<rparr>)
        (case sf_data_revision freshness of
           Some r \<Rightarrow> data_revision_advance r
         | None \<Rightarrow> Some (data_revision_first boot)))"

definition record_success :: "u64 option \<Rightarrow> slot_freshness \<Rightarrow> slot_freshness" where
  "record_success completed_ms freshness = freshness\<lparr>sf_last_success_ms := completed_ms,
     sf_last_duration_ms := successful_duration_ms (sf_last_attempt_ms freshness) completed_ms,
     sf_consecutive_failure_count := 0, sf_status_reason := None\<rparr>"

definition record_failure :: "provider_status_reason \<Rightarrow> slot_freshness \<Rightarrow> slot_freshness" where
  "record_failure reason freshness = freshness\<lparr>
     sf_consecutive_failure_count := sat_add1 (sf_consecutive_failure_count freshness),
     sf_status_reason := Some reason\<rparr>"

definition apply_collected :: "serializers \<Rightarrow> (provider_collection \<Rightarrow> string) \<Rightarrow> string \<Rightarrow> bool
    \<Rightarrow> provider_collection \<Rightarrow> u64 option \<Rightarrow> nat \<Rightarrow> slot_runtime_state \<Rightarrow> slot_runtime_state option" where
  "apply_collected js identity boot same_evidence c completed_ms completed_at st =
     (let c' = sanitized_for_retention js c
      in map_option (\<lambda>freshness. \<lparr>
           sl_observation = (if same_evidence then Obs_Fresh c' else Obs_Degraded (Some c')),
           sl_completed_at = Some completed_at,
           sl_freshness = record_success completed_ms freshness\<rparr>)
         (update_slot_data_revision identity boot (sl_freshness st) c'))"

definition apply_slot_outcome :: "serializers \<Rightarrow> (provider_collection \<Rightarrow> string) \<Rightarrow> string \<Rightarrow> bool
    \<Rightarrow> collection_outcome \<Rightarrow> u64 option \<Rightarrow> nat \<Rightarrow> slot_runtime_state \<Rightarrow> slot_runtime_state option" where
  "apply_slot_outcome js identity boot same_evidence outcome completed_ms completed_at st =
     (let retained = retained_collection (sl_observation st)
      in case outcome of
           Collected c \<Rightarrow> apply_collected js identity boot same_evidence c completed_ms completed_at st
         | InFlight \<Rightarrow> Some (st\<lparr>sl_observation := Obs_TimedOut retained,
             sl_freshness := record_failure PSR_CollectionTimedOut (sl_freshness st)\<rparr>)
         | Failed \<Rightarrow> Some (st\<lparr>sl_observation := Obs_Degraded retained,
             sl_freshness := record_failure PSR_CollectionFailed (sl_freshness st),
             sl_completed_at := Some completed_at\<rparr>)
         | TimedOut \<Rightarrow> Some (st\<lparr>sl_observation := Obs_TimedOut retained,
             sl_freshness := record_failure PSR_CollectionTimedOut (sl_freshness st),
             sl_completed_at := Some completed_at\<rparr>))"

definition mark_network_observation_stale :: "runtime_provider_slots \<Rightarrow> runtime_provider_slots" where
  "mark_network_observation_stale slots =
     (let network = slots Slot_NetworkInfrastructure
      in case sl_observation network of
           Obs_Fresh c \<Rightarrow>
             slots(Slot_NetworkInfrastructure := network\<lparr>sl_observation := Obs_Degraded (Some c)\<rparr>)
         | _ \<Rightarrow> slots)"

section \<open>Published provider states\<close>

definition unavailable_provider_states :: "provider_state list" where
  "unavailable_provider_states =
     map (\<lambda>slot. new_slot_state slot PSK_Unavailable) STATIC_PROVIDER_SLOTS"

definition base_state :: "provider_slot \<Rightarrow> runtime_provider_state \<Rightarrow> provider_state_kind" where
  "base_state slot observation =
     (case find (\<lambda>candidate. ps_slot candidate = slot)
        (case retained_collection observation of Some c \<Rightarrow> pc_states c | None \<Rightarrow> []) of
        Some candidate \<Rightarrow> ps_state candidate
      | None \<Rightarrow> PSK_Unavailable)"

definition published_state :: "provider_slot \<Rightarrow> runtime_provider_state \<Rightarrow> provider_state_kind" where
  "published_state slot observation =
     (let base = base_state slot observation
      in case observation of
           Obs_Fresh _ \<Rightarrow> base
         | Obs_Collecting _ \<Rightarrow>
             (if base = PSK_Disabled then PSK_Disabled
              else if base = PSK_Unavailable then PSK_Collecting else PSK_Stale)
         | Obs_Degraded c \<Rightarrow>
             (if base = PSK_Disabled then PSK_Disabled
              else if c \<noteq> None then PSK_Stale else PSK_Unavailable)
         | Obs_TimedOut _ \<Rightarrow> (if base = PSK_Disabled then PSK_Disabled else PSK_TimedOut)
         | Obs_Unavailable \<Rightarrow> PSK_Unavailable)"

definition provider_state_for :: "runtime_provider_slots \<Rightarrow> provider_slot \<Rightarrow> provider_state" where
  "provider_state_for slots slot =
     (let freshness = sl_freshness (slots slot);
          state = published_state slot (sl_observation (slots slot))
      in \<lparr>ps_slot = slot, ps_state = state, ps_last_attempt_ms = sf_last_attempt_ms freshness,
          ps_last_success_ms = sf_last_success_ms freshness,
          ps_last_duration_ms = sf_last_duration_ms freshness,
          ps_consecutive_failure_count = sf_consecutive_failure_count freshness,
          ps_data_revision = map_option data_revision_public (sf_data_revision freshness),
          ps_status_reason = (if state = PSK_Disabled then Some PSR_Disabled
            else sf_status_reason freshness)\<rparr>)"

definition provider_states_for :: "runtime_provider_slots \<Rightarrow> provider_state list" where
  "provider_states_for slots = map (provider_state_for slots) STATIC_PROVIDER_SLOTS"

text \<open>The message of a slot that is not fresh; \<open>None\<close> is the unreachable branch.\<close>

definition slot_diagnostic :: "runtime_provider_state \<Rightarrow> string option" where
  "slot_diagnostic state =
     (case state of
        Obs_Collecting (Some _) \<Rightarrow> Some ''Runtime provider slot refresh is in progress; serving retained observations (stale)''
      | Obs_Collecting None \<Rightarrow> Some ''Runtime provider slot refresh is in progress; no successful observations are available''
      | Obs_Degraded (Some _) \<Rightarrow> Some ''Runtime provider slot refresh failed or observed older Docker evidence; serving retained observations (stale)''
      | Obs_Degraded None \<Rightarrow> Some ''Runtime provider slot refresh failed; no successful observations are available''
      | Obs_TimedOut (Some _) \<Rightarrow> Some ''Runtime provider slot refresh timed out; serving retained observations (stale)''
      | Obs_TimedOut None \<Rightarrow> Some ''Runtime provider slot refresh timed out; no successful observations are available''
      | Obs_Unavailable \<Rightarrow> Some ''Runtime provider observations are unavailable until the first successful collection''
      | Obs_Fresh _ \<Rightarrow> None)"

section \<open>What is claimed\<close>

lemma static_slots_all: "set STATIC_PROVIDER_SLOTS = UNIV"
  using provider_slot.exhaust by (auto simp: STATIC_PROVIDER_SLOTS_def)

lemma static_slots_distinct: "distinct STATIC_PROVIDER_SLOTS"
  by (simp add: STATIC_PROVIDER_SLOTS_def)

lemma claim_slots_eq:
  "distinct order \<Longrightarrow> claim_slots clock now order remaining slots =
     (let claimed = take remaining (filter (\<lambda>slot. claimable now slot (slots slot)) order)
      in (claimed, \<lambda>slot. if slot \<in> set claimed then claim_slot (clock slot) (slots slot) else slots slot))"
proof (induction order arbitrary: remaining slots)
  case (Cons slot order)
  have notin: "slot \<notin> set order" using Cons.prems by simp
  show ?case
  proof (cases "remaining = 0 \<or> \<not> claimable now slot (slots slot)")
    case False
    then obtain n where n: "remaining = Suc n" using not0_implies_Suc by auto
    define next_slots where "next_slots = slots(slot := claim_slot (clock slot) (slots slot))"
    have upd: "next_slots slot = claim_slot (clock slot) (slots slot)" "\<And>s. s \<noteq> slot \<Longrightarrow> next_slots s = slots s"
      by (simp_all add: next_slots_def)
    let ?rest = "take n (filter (\<lambda>s. claimable now s (slots s)) order)"
    have same: "filter (\<lambda>s. claimable now s (next_slots s)) order = filter (\<lambda>s. claimable now s (slots s)) order"
      using notin upd(2) by (metis (mono_tags, lifting) filter_cong)
    have rest: "slot \<notin> set ?rest" using notin by (auto dest: in_set_takeD)
    have "claim_slots clock now (slot # order) remaining slots
        = apfst ((#) slot) (claim_slots clock now order n next_slots)"
      using False n by (simp add: next_slots_def)
    also have "\<dots> = (slot # ?rest,
        \<lambda>s. if s \<in> set ?rest then claim_slot (clock s) (next_slots s) else next_slots s)"
      using Cons.IH [of n next_slots] Cons.prems by (simp add: same Let_def)
    also have "(\<lambda>s. if s \<in> set ?rest then claim_slot (clock s) (next_slots s) else next_slots s)
        = (\<lambda>s. if s \<in> set (slot # ?rest) then claim_slot (clock s) (slots s) else slots s)"
    proof
      fix s show "(if s \<in> set ?rest then claim_slot (clock s) (next_slots s) else next_slots s)
          = (if s \<in> set (slot # ?rest) then claim_slot (clock s) (slots s) else slots s)"
        using rest upd by (cases "s = slot") simp_all
    qed
    finally show ?thesis using False n by (simp add: Let_def)
  qed (use Cons in \<open>auto simp: Let_def\<close>)
qed simp

lemma claim_due_eq:
  "claim_due_slots_with_active_workers clock slots now max_concurrency active_workers =
     (let claimed = take (max_concurrency - max (collecting_count slots) active_workers)
            (filter (\<lambda>slot. claimable now slot (slots slot)) STATIC_PROVIDER_SLOTS)
      in (claimed, \<lambda>slot. if slot \<in> set claimed then claim_slot (clock slot) (slots slot) else slots slot))"
  unfolding claim_due_slots_with_active_workers_def by (rule claim_slots_eq [OF static_slots_distinct])

lemma collecting_count_card: "collecting_count slots = card {slot. is_collecting (sl_observation (slots slot))}"
  using distinct_length_filter [OF static_slots_distinct]
  by (simp add: collecting_count_def static_slots_all Int_def)

lemma claimed_collecting:
  assumes "claim_due_slots_with_active_workers clock slots now max_concurrency active_workers = (claimed, slots')"
  shows "collecting_count slots' = collecting_count slots + length claimed"
proof -
  let ?due = "filter (\<lambda>slot. claimable now slot (slots slot)) STATIC_PROVIDER_SLOTS"
  have c: "claimed = take (max_concurrency - max (collecting_count slots) active_workers) ?due"
    and slots': "slots' = (\<lambda>slot. if slot \<in> set claimed then claim_slot (clock slot) (slots slot) else slots slot)"
    using assms by (auto simp: claim_due_eq Let_def)
  have dist: "distinct claimed" unfolding c by (intro distinct_take distinct_filter static_slots_distinct)
  have free: "\<not> is_collecting (sl_observation (slots slot))" if "slot \<in> set claimed" for slot
    using in_set_takeD [OF that [unfolded c]] by (simp add: claimable_def)
  have "{slot. is_collecting (sl_observation (slots' slot))}
      = {slot. is_collecting (sl_observation (slots slot))} \<union> set claimed"
    by (auto simp: slots' claim_slot_def)
  moreover have "{slot. is_collecting (sl_observation (slots slot))} \<inter> set claimed = {}"
    using free by auto
  moreover have "finite (UNIV :: provider_slot set)"
    using static_slots_all by (metis finite_set)
  ultimately show ?thesis
    using dist by (simp add: collecting_count_card card_Un_disjoint distinct_card finite_subset [of _ UNIV])
qed

text \<open>
  A tick of the scheduler claims the due slots in their fixed order, as many as the worker
  bound leaves room for: a due slot is one that is not being collected, whose interval has passed
  since its last completion and that has not reported itself disabled. Each claimed slot becomes
  collecting and keeps what it retained, every other slot is left alone, and the slots being
  collected stay within the bound.
\<close>

lemma claimed_slots_exact:
  "claim_due_slots_with_active_workers clock slots now max_concurrency active_workers =
     (let claimed = take (max_concurrency - max (collecting_count slots) active_workers)
            (filter (\<lambda>slot. claimable now slot (slots slot)) STATIC_PROVIDER_SLOTS)
      in (claimed, \<lambda>slot. if slot \<in> set claimed then claim_slot (clock slot) (slots slot) else slots slot))
   \<and> collecting_count (snd (claim_due_slots_with_active_workers clock slots now max_concurrency active_workers))
     \<le> max (collecting_count slots) max_concurrency"
proof -
  obtain claimed slots' where r:
    "claim_due_slots_with_active_workers clock slots now max_concurrency active_workers = (claimed, slots')"
    by fastforce
  have "length claimed \<le> max_concurrency - max (collecting_count slots) active_workers"
    using r by (auto simp: claim_due_eq Let_def)
  then have "collecting_count slots' \<le> max (collecting_count slots) max_concurrency"
    using claimed_collecting [OF r] by simp
  then show ?thesis using claim_due_eq by (metis r snd_conv)
qed

section \<open>The life of a slot\<close>

lemma apply_outcome_simps [simp]:
  "apply_slot_outcome js identity boot same (Collected c) t at st = apply_collected js identity boot same c t at st"
  "apply_slot_outcome js identity boot same InFlight t at st = Some (st\<lparr>
     sl_observation := Obs_TimedOut (retained_collection (sl_observation st)),
     sl_freshness := record_failure PSR_CollectionTimedOut (sl_freshness st)\<rparr>)"
  "apply_slot_outcome js identity boot same Failed t at st = Some (st\<lparr>
     sl_observation := Obs_Degraded (retained_collection (sl_observation st)),
     sl_freshness := record_failure PSR_CollectionFailed (sl_freshness st), sl_completed_at := Some at\<rparr>)"
  "apply_slot_outcome js identity boot same TimedOut t at st = Some (st\<lparr>
     sl_observation := Obs_TimedOut (retained_collection (sl_observation st)),
     sl_freshness := record_failure PSR_CollectionTimedOut (sl_freshness st), sl_completed_at := Some at\<rparr>)"
  by (simp_all add: apply_slot_outcome_def Let_def)

lemma retained_simps [simp]:
  "retained_collection (Obs_Collecting r) = r" "retained_collection (Obs_Degraded r) = r"
  "retained_collection (Obs_TimedOut r) = r"
  by (cases r; simp)+

text \<open>
  What can happen to a slot, in any order: it is claimed, an outcome of the collection of this
  very slot is applied, Docker evidence changes, and the source is reset.
\<close>

inductive slot_run :: "serializers \<Rightarrow> (provider_collection \<Rightarrow> string) \<Rightarrow> string \<Rightarrow> provider_slot
    \<Rightarrow> slot_runtime_state \<Rightarrow> bool"
  for js identity boot slot
where
  start: "slot_run js identity boot slot (unavailable_provider_slots slot)"
| reset: "slot_run js identity boot slot (source_reset_provider_slots slot)"
| claim: "slot_run js identity boot slot st \<Longrightarrow> claimable now slot st
    \<Longrightarrow> slot_run js identity boot slot (claim_slot t st)"
| collected: "slot_run js identity boot slot st \<Longrightarrow> collect_provider_slot host scope snapshot slot = Inr c
    \<Longrightarrow> apply_slot_outcome js identity boot same (Collected c) t at st = Some st'
    \<Longrightarrow> slot_run js identity boot slot st'"
| missed: "slot_run js identity boot slot st \<Longrightarrow> outcome \<in> {InFlight, Failed, TimedOut}
    \<Longrightarrow> apply_slot_outcome js identity boot same outcome t at st = Some st'
    \<Longrightarrow> slot_run js identity boot slot st'"
| stale: "slot_run js identity boot slot st \<Longrightarrow> sl_observation st = Obs_Fresh c
    \<Longrightarrow> slot_run js identity boot slot (st\<lparr>sl_observation := Obs_Degraded (Some c)\<rparr>)"

definition slot_states :: "provider_slot \<Rightarrow> provider_collection \<Rightarrow> bool" where
  "slot_states slot c \<longleftrightarrow> (\<exists>k \<in> {PSK_Fresh, PSK_Disabled}. pc_states c = [new_slot_state slot k])"

lemma add_observation_states [simp]: "pc_states (add_observation obs c) = pc_states c"
  by (simp add: add_observation_def split: prod.splits)

lemma map_sum_eq_Inr: "map_sum f g x = Inr y \<longleftrightarrow> (\<exists>z. x = Inr z \<and> y = g z)"
  by (cases x) auto

lemma set_state_slot_states:
  "pc_states c0 = [] \<Longrightarrow> slot_states slot (set_state slot PSK_Fresh c0)"
  "pc_states c0 = [] \<Longrightarrow> slot_states slot (set_state slot PSK_Disabled c0)"
  "pc_states c0 = [] \<Longrightarrow> slot_states slot (set_state slot (scope_state scope) c0)"
  by (simp_all add: slot_states_def scope_state_def)

lemma command_states:
  "collect_tmux_runtime_provider host scope empty_collection = Inr c \<Longrightarrow> pc_states c = []"
  "collect_systemd_runtime_provider host scope empty_collection = Inr c \<Longrightarrow> pc_states c = []"
  "pc_states (collect_cron_runtime_provider host scope empty_collection) = []"
  by (auto simp: collect_tmux_runtime_provider_def collect_systemd_runtime_provider_def
      collect_cron_runtime_provider_def map_sum_eq_Inr split: if_splits)

lemma collect_host_slot_states: "slot_states Slot_HostScoped (collect_host_slot host scope)"
  unfolding collect_host_slot_def Let_def
  by (rule set_state_slot_states(3))
    (simp add: collect_host_scoped_runtime_providers_def split: option.splits)

lemma collect_provider_slot_states:
  "collect_provider_slot host scope snapshot slot = Inr c \<Longrightarrow> slot_states slot c"
  by (cases slot)
    (auto simp: collect_provider_slot_def map_sum_eq_Inr set_state_slot_states command_states
      collect_host_slot_states split: option.splits prod.splits)

lemma sat_add1_nonzero: "sat_add1 n \<noteq> 0"
proof
  assume "sat_add1 n = 0"
  then have "unat (sat_add1 n) = 0" by simp
  then show False by (simp add: unat_sat_add1)
qed

text \<open>The invariant of a slot.\<close>

definition revision_wf :: "string \<Rightarrow> slot_data_revision \<Rightarrow> bool" where
  "revision_wf boot r \<longleftrightarrow> dr_boot r = boot \<and> 1 \<le> dr_sequence r \<and> dr_sequence r < 2 ^ 64"

definition data_inv :: "(provider_collection \<Rightarrow> string) \<Rightarrow> string \<Rightarrow> provider_slot \<Rightarrow> slot_runtime_state \<Rightarrow> bool" where
  "data_inv identity boot slot st \<longleftrightarrow>
     (case retained_collection (sl_observation st) of
        None \<Rightarrow> sf_data_revision (sl_freshness st) = None \<and> sf_data_observable (sl_freshness st) = None
      | Some c \<Rightarrow> slot_states slot c \<and> sf_data_observable (sl_freshness st) = Some (identity c)
          \<and> (\<exists>r. sf_data_revision (sl_freshness st) = Some r \<and> revision_wf boot r)
          \<and> sl_completed_at st \<noteq> None)"

fun status_inv :: "runtime_provider_state \<Rightarrow> slot_freshness \<Rightarrow> bool" where
  "status_inv Obs_Unavailable f \<longleftrightarrow> sf_status_reason f \<in> {None, Some PSR_SourceReset}
     \<and> sf_consecutive_failure_count f = 0"
| "status_inv (Obs_Fresh _) f \<longleftrightarrow> sf_status_reason f = None \<and> sf_consecutive_failure_count f = 0"
| "status_inv (Obs_Collecting _) f \<longleftrightarrow> sf_status_reason f = Some PSR_Refreshing"
| "status_inv (Obs_Degraded _) f \<longleftrightarrow>
     sf_status_reason f = Some PSR_CollectionFailed \<and> sf_consecutive_failure_count f \<noteq> 0
     \<or> sf_status_reason f = None \<and> sf_consecutive_failure_count f = 0"
| "status_inv (Obs_TimedOut _) f \<longleftrightarrow>
     sf_status_reason f = Some PSR_CollectionTimedOut \<and> sf_consecutive_failure_count f \<noteq> 0"

lemma sanitized_states [simp]: "pc_states (sanitized_for_retention js c) = pc_states c"
  by (simp add: sanitized_for_retention_def)

lemma advance_wf: "revision_wf boot r \<Longrightarrow> data_revision_advance r = Some r' \<Longrightarrow> revision_wf boot r'"
  by (auto simp: revision_wf_def data_revision_advance_def checked_add1_def split: if_splits)

lemma first_wf: "revision_wf boot (data_revision_first boot)"
  by (simp add: revision_wf_def data_revision_first_def)

lemma update_revision_wf:
  assumes "update_slot_data_revision identity boot f c = Some f'"
    and "case sf_data_revision f of None \<Rightarrow> sf_data_observable f = None | Some r \<Rightarrow> revision_wf boot r"
  shows "sf_data_observable f' = Some (identity c)
    \<and> (\<exists>r. sf_data_revision f' = Some r \<and> revision_wf boot r)"
  using assms advance_wf first_wf
  by (auto simp: update_slot_data_revision_def split: if_splits option.splits)

lemma slot_run_inv:
  "slot_run js identity boot slot st \<Longrightarrow>
     data_inv identity boot slot st \<and> status_inv (sl_observation st) (sl_freshness st)"
proof (induction rule: slot_run.induct)
  case (claim st now t)
  then show ?case by (auto simp: claim_slot_def data_inv_def split: option.splits)
next
  case (collected st host scope snapshot c same t at st')
  have "case sf_data_revision (sl_freshness st) of
      None \<Rightarrow> sf_data_observable (sl_freshness st) = None | Some r \<Rightarrow> revision_wf boot r"
    using collected.IH by (auto simp: data_inv_def split: option.splits)
  moreover obtain f' where
    "update_slot_data_revision identity boot (sl_freshness st) (sanitized_for_retention js c) = Some f'"
    and "st' = \<lparr>sl_observation = (if same then Obs_Fresh (sanitized_for_retention js c)
          else Obs_Degraded (Some (sanitized_for_retention js c))),
        sl_completed_at = Some at, sl_freshness = record_success t f'\<rparr>"
    using collected.hyps(3) by (auto simp: apply_collected_def Let_def)
  moreover have "slot_states slot (sanitized_for_retention js c)"
    using collect_provider_slot_states [OF collected.hyps(2)] by (simp add: slot_states_def)
  ultimately show ?case
    using update_revision_wf [of identity boot "sl_freshness st"] by (auto simp: data_inv_def record_success_def)
next
  case (missed st outcome t at st')
  then show ?case
    by (auto simp: data_inv_def record_failure_def sat_add1_nonzero split: option.splits)
next
  case (stale st c)
  then show ?case by (auto simp: data_inv_def)
qed (auto simp: unavailable_provider_slots_def source_reset_provider_slots_def default_slot_state_def
    default_freshness_def data_inv_def Let_def)

lemma base_state_None: "retained_collection obs = None \<Longrightarrow> base_state slot obs = PSK_Unavailable"
  by (simp add: base_state_def)

lemma base_state_Some:
  "retained_collection obs = Some c \<Longrightarrow> slot_states slot c \<Longrightarrow> base_state slot obs \<in> {PSK_Fresh, PSK_Disabled}"
  by (auto simp: base_state_def slot_states_def new_slot_state_def)

lemma published_state_coherent:
  assumes "data_inv identity boot slot st" and "status_inv (sl_observation st) (sl_freshness st)"
    and "st = slots slot"
  shows "let ps = provider_state_for slots slot in
    (ps_state ps = PSK_Fresh \<longrightarrow> ps_data_revision ps \<noteq> None \<and> ps_status_reason ps = None
       \<and> ps_consecutive_failure_count ps = 0)
    \<and> (ps_state ps = PSK_Stale \<longrightarrow> ps_data_revision ps \<noteq> None)
    \<and> (ps_state ps = PSK_Disabled \<longleftrightarrow> ps_status_reason ps = Some PSR_Disabled)
    \<and> (ps_state ps = PSK_Collecting \<longrightarrow> ps_data_revision ps = None \<and> ps_status_reason ps = Some PSR_Refreshing)
    \<and> (ps_state ps = PSK_Unavailable \<longrightarrow> ps_data_revision ps = None)
    \<and> (ps_state ps = PSK_TimedOut \<longrightarrow> ps_status_reason ps = Some PSR_CollectionTimedOut
       \<and> ps_consecutive_failure_count ps \<noteq> 0)"
proof (cases "retained_collection (sl_observation st)")
  case None
  note base = base_state_None [OF this, of slot]
  then show ?thesis using None assms
    by (cases "sl_observation st")
      (auto simp: data_inv_def provider_state_for_def published_state_def Let_def)
next
  case (Some c)
  then have base: "base_state slot (sl_observation st) \<in> {PSK_Fresh, PSK_Disabled}"
    using base_state_Some assms(1) by (auto simp: data_inv_def)
  then show ?thesis using Some assms
    by (cases "sl_observation st")
      (auto simp: data_inv_def provider_state_for_def published_state_def Let_def)
qed


definition quiet_host :: host_observations where
  "quiet_host = \<lparr>ho_project_root = None, ho_hostname = ''h'', ho_network = (\<lambda>_ _. ([], [], [])),
     ho_listeners = ([], [], []), ho_pm2 = ([], [], []), ho_tmux = Inr ([], [], []), ho_cron = ([], [], []),
     ho_systemd = Inl PCE_Spawn, ho_python = (\<lambda>_. ([], [], [])), ho_native = (\<lambda>_. ([], [], [])),
     ho_npm = (\<lambda>_ _. ([], [], []))\<rparr>"

text \<open>The state of a slot after its first collection.\<close>

definition collected_state :: "string \<Rightarrow> provider_collection \<Rightarrow> slot_runtime_state" where
  "collected_state boot c = \<lparr>sl_observation = Obs_Fresh (sanitized_for_retention plain_serializers c),
     sl_completed_at = Some 9, sl_freshness = \<lparr>sf_last_attempt_ms = Some 3, sf_last_success_ms = Some 5,
       sf_last_duration_ms = Some 2, sf_consecutive_failure_count = 0,
       sf_data_revision = Some (data_revision_first boot), sf_data_observable = Some ''data'',
       sf_status_reason = None\<rparr>\<rparr>"

lemma collected_state_run:
  assumes "collect_provider_slot host scope snapshot slot = Inr c"
  shows "slot_run plain_serializers (\<lambda>_. ''data'') boot slot (collected_state boot c)"
proof -
  let ?start = "unavailable_provider_slots slot"
  have "claimable 0 slot ?start"
    by (simp add: claimable_def slot_due_def unavailable_provider_slots_def default_slot_state_def)
  then have run: "slot_run plain_serializers (\<lambda>_. ''data'') boot slot (claim_slot (Some 3) ?start)"
    by (rule slot_run.claim [OF slot_run.start])
  have "apply_slot_outcome plain_serializers (\<lambda>_. ''data'') boot True (Collected c) (Some 5) 9 (claim_slot (Some 3) ?start)
      = Some (collected_state boot c)"
    by (simp add: collected_state_def apply_collected_def Let_def
      update_slot_data_revision_def claim_slot_def unavailable_provider_slots_def default_slot_state_def
      default_freshness_def record_success_def successful_duration_ms_def)
  then show ?thesis by (rule slot_run.collected [OF run assms])
qed

definition network_collected :: provider_collection where
  "network_collected = set_state Slot_NetworkInfrastructure PSK_Fresh empty_collection"

lemma network_collected: "collect_provider_slot quiet_host Scope_Restricted example_snapshot Slot_NetworkInfrastructure
    = Inr network_collected"
  by (simp add: collect_provider_slot_def network_collected_def quiet_host_def add_observation_def empty_collection_def)


section \<open>A worker that hangs\<close>

text \<open>
  Rounds of the scheduler while the guard of a slot is still held by a worker that was timed out:
  every claimed slot is answered with \<open>InFlight\<close>, which asks for the next round at once.
\<close>

definition in_flight_slot :: "slot_runtime_state \<Rightarrow> slot_runtime_state" where
  "in_flight_slot st = st\<lparr>sl_observation := Obs_TimedOut (retained_collection (sl_observation st)),
     sl_freshness := record_failure PSR_CollectionTimedOut (sl_freshness st)\<rparr>"

lemma in_flight_outcome: "apply_slot_outcome js identity boot same InFlight t at st = Some (in_flight_slot st)"
  by (simp add: in_flight_slot_def)

fun in_flight_rounds :: "(provider_slot \<Rightarrow> u64 option) \<Rightarrow> nat \<Rightarrow> nat list \<Rightarrow> runtime_provider_slots
    \<Rightarrow> provider_slot list list" where
  "in_flight_rounds clock active [] slots = []"
| "in_flight_rounds clock active (now # ticks) slots =
     (case claim_due_slots_with_active_workers clock slots now MAX_CONCURRENT_PROVIDER_SLOTS active of
        (claimed, slots') \<Rightarrow> claimed # in_flight_rounds clock active ticks
          (\<lambda>slot. if slot \<in> set claimed then in_flight_slot (slots' slot) else slots' slot))"

lemma in_flight_claimable:
  assumes "claimable now slot st" and "now \<le> later"
  shows "claimable later slot (in_flight_slot (claim_slot t st))"
  using assms by (auto simp: claimable_def in_flight_slot_def claim_slot_def slot_due_def split: option.splits)

lemma collecting_count_cong:
  "(\<And>slot. is_collecting (sl_observation (slots slot)) = is_collecting (sl_observation (slots' slot)))
   \<Longrightarrow> collecting_count slots = collecting_count slots'"
  by (simp add: collecting_count_card)

lemma filter_static_first:
  "P Slot_NetworkInfrastructure \<Longrightarrow> take 1 (filter P STATIC_PROVIDER_SLOTS) = [Slot_NetworkInfrastructure]"
  by (simp add: STATIC_PROVIDER_SLOTS_def)

lemma in_flight_round:
  assumes "claimable now Slot_NetworkInfrastructure (slots Slot_NetworkInfrastructure)"
    and "max (collecting_count slots) active = 1"
  shows "in_flight_rounds clock active (now # ticks) slots = [Slot_NetworkInfrastructure] #
    in_flight_rounds clock active ticks (slots(Slot_NetworkInfrastructure :=
      in_flight_slot (claim_slot (clock Slot_NetworkInfrastructure) (slots Slot_NetworkInfrastructure))))"
proof -
  let ?network = "Slot_NetworkInfrastructure"
  let ?claimed = "slots(?network := claim_slot (clock ?network) (slots ?network))"
  have "take 1 (filter (\<lambda>slot. claimable now slot (slots slot)) STATIC_PROVIDER_SLOTS) = [?network]"
    by (rule filter_static_first) (rule assms(1))
  then have "claim_due_slots_with_active_workers clock slots now MAX_CONCURRENT_PROVIDER_SLOTS active = ([?network], ?claimed)"
    using assms(2) by (auto simp: claim_due_eq MAX_CONCURRENT_PROVIDER_SLOTS_def Let_def fun_eq_iff)
  moreover have "(\<lambda>slot. if slot \<in> set [?network] then in_flight_slot (?claimed slot) else ?claimed slot)
      = slots(?network := in_flight_slot (claim_slot (clock ?network) (slots ?network)))"
    by (auto simp: fun_eq_iff)
  ultimately show ?thesis by simp
qed

text \<open>
  A worker that hangs starves every other slot: when the network slot is due again while its
  old worker still holds the guard, each round claims the network slot alone, is answered at once
  that a collection is in flight, and leaves the slot due, because that answer does not record a
  completion. However often the scheduler runs, no other slot is claimed, even one that was never
  collected.
\<close>

lemma hanging_worker_starves:
  assumes "claimable now Slot_NetworkInfrastructure (slots Slot_NetworkInfrastructure)"
    and "max (collecting_count slots) active = 1" and "sorted (now # ticks)"
  shows "in_flight_rounds clock active (now # ticks) slots
    = replicate (Suc (length ticks)) [Slot_NetworkInfrastructure]"
  using assms
proof (induction ticks arbitrary: now slots)
  case (Cons later ticks)
  let ?network = "Slot_NetworkInfrastructure"
  let ?slots = "slots(?network := in_flight_slot (claim_slot (clock ?network) (slots ?network)))"
  have round: "in_flight_rounds clock active (now # later # ticks) slots
      = [?network] # in_flight_rounds clock active (later # ticks) ?slots"
    by (rule in_flight_round) (rule Cons.prems(1), rule Cons.prems(2))
  have "collecting_count ?slots = collecting_count slots"
    using Cons.prems(1) by (intro collecting_count_cong) (auto simp: claimable_def in_flight_slot_def)
  moreover have "claimable later ?network (?slots ?network)"
    using in_flight_claimable Cons.prems(1,3) by simp
  ultimately have "in_flight_rounds clock active (later # ticks) ?slots = replicate (Suc (length ticks)) [?network]"
    using Cons.prems by (intro Cons.IH) (simp_all del: fun_upd_apply)
  then show ?case unfolding round by simp
next
  case Nil
  show ?case unfolding in_flight_round [of now slots active, OF Nil.prems(1,2)] by simp
qed

end
