(* ===== verification/Slot_Evidence.thy ===== *)
theory Slot_Evidence
  imports Slots
begin

text \<open>
  Evidence of retained host observations (\<open>cache_refresh.rs\<close>): each scheduled slot that may attest
  relationships turns the private marker its provider left in the metadata of an edge into one
  public evidence reference. The four functions \<open>bind_cron_evidence\<close>, \<open>bind_tmux_evidence\<close>,
  \<open>bind_npm_evidence\<close> and \<open>bind_systemd_evidence\<close> of the code repeat the same decisions about the
  slot, which are \<open>bind_slot_evidence\<close> here, and differ in what they attest of an edge.
\<close>

section \<open>Definitions\<close>

definition CRON_EVIDENCE_SCHEDULE_MARKER :: string where
  "CRON_EVIDENCE_SCHEDULE_MARKER = ''__dockermapCronScheduleDeclaration''"

definition TMUX_EVIDENCE_SESSION_LISTING_MARKER :: string where
  "TMUX_EVIDENCE_SESSION_LISTING_MARKER = ''__dockermapTmuxSessionListing''"

definition NPM_EVIDENCE_DEPENDENCY_MARKER :: string where
  "NPM_EVIDENCE_DEPENDENCY_MARKER = ''__dockermapNpmManifestDependency''"

definition SYSTEMD_EVIDENCE_KIND_MARKER :: string where
  "SYSTEMD_EVIDENCE_KIND_MARKER = ''__dockermapSystemdEvidenceKind''"

definition bt_remove :: "'k \<Rightarrow> ('k, 'v) btree_map \<Rightarrow> ('k, 'v) btree_map" where
  "bt_remove k = filter (\<lambda>(k', _). k' \<noteq> k)"

definition slot_disabled :: "provider_slot \<Rightarrow> slot_runtime_state \<Rightarrow> bool" where
  "slot_disabled slot st =
     (case retained_collection (sl_observation st) of None \<Rightarrow> False | Some c \<Rightarrow> disabled_in slot c)"

fun evidence_freshness :: "runtime_provider_state \<Rightarrow> runtime_evidence_freshness option" where
  "evidence_freshness (Obs_Fresh _) = Some EF_Fresh"
| "evidence_freshness (Obs_Collecting (Some _)) = Some EF_Stale"
| "evidence_freshness (Obs_Degraded (Some _)) = Some EF_Stale"
| "evidence_freshness (Obs_TimedOut (Some _)) = Some EF_TimedOut"
| "evidence_freshness _ = None"

text \<open>
  What a slot attests of an edge, given its revision, its collection time, its freshness, the
  value of the marker and the edge without the marker.
\<close>

type_synonym attestation = "string \<Rightarrow> u64 \<Rightarrow> runtime_evidence_freshness \<Rightarrow> string option
  \<Rightarrow> runtime_map_edge \<Rightarrow> runtime_evidence_ref option"

definition bind_edge_evidence :: "string \<Rightarrow> (string option \<Rightarrow> runtime_map_edge \<Rightarrow> runtime_evidence_ref option)
    \<Rightarrow> runtime_map_edge \<Rightarrow> runtime_map_edge" where
  "bind_edge_evidence marker attest edge =
     (let edge' = edge\<lparr>re_metadata := bt_remove marker (re_metadata edge)\<rparr>
      in edge'\<lparr>re_evidence_refs := opt_list (attest (bt_get (re_metadata edge) marker) edge')\<rparr>)"

definition bind_slot_evidence :: "string \<Rightarrow> provider_slot \<Rightarrow> attestation \<Rightarrow> slot_runtime_state
    \<Rightarrow> runtime_map_edge list \<Rightarrow> runtime_map_edge list" where
  "bind_slot_evidence marker slot attest st edges =
     (case (evidence_freshness (sl_observation st),
            map_option data_revision_public (sf_data_revision (sl_freshness st)),
            sf_last_success_ms (sl_freshness st), slot_disabled slot st) of
        (Some freshness, Some revision, Some collected_at, False) \<Rightarrow>
          map (bind_edge_evidence marker (attest revision collected_at freshness)) edges
      | _ \<Rightarrow> map (bind_edge_evidence marker (\<lambda>_ _. None)) edges)"

definition pair_component :: "digest \<Rightarrow> runtime_map_edge \<Rightarrow> string" where
  "pair_component sha256 edge =
     collision_resistant_id_component sha256 (re_source edge @ unit_separator @ re_target edge)"

definition cron_attestation :: "digest \<Rightarrow> attestation" where
  "cron_attestation sha256 revision collected_at freshness marker edge =
     (if marker \<noteq> Some ''declared'' \<or> re_relationship edge \<noteq> RRK_RunsOn
         \<or> \<not> starts_with (re_source edge) ''scheduled_job_'' \<or> re_target edge \<noteq> ''host_local''
         \<or> re_source edge = re_target edge
      then None
      else Some \<lparr>ev_version = 4, ev_id = ''cron_evidence_schedule_'' @ pair_component sha256 edge,
        ev_provider = REP_Cron, ev_kind = CronScheduleDeclaration, ev_assertion_kind = Declared,
        ev_summary = ''cron declared a scheduled job'', ev_subject_ref = re_source edge,
        ev_collected_at = collected_at, ev_provider_revision = revision,
        ev_provider_slot = Some Slot_Cron, ev_freshness = freshness\<rparr>)"

definition tmux_attestation :: "digest \<Rightarrow> attestation" where
  "tmux_attestation sha256 revision collected_at freshness marker edge =
     (if marker \<noteq> Some ''observed'' \<or> re_relationship edge \<noteq> RRK_RunsOn
         \<or> \<not> starts_with (re_source edge) ''tmux_session_'' \<or> re_target edge \<noteq> ''host_local''
         \<or> re_source edge = re_target edge
      then None
      else Some \<lparr>ev_version = 5, ev_id = ''tmux_evidence_session_listing_'' @ pair_component sha256 edge,
        ev_provider = REP_Tmux, ev_kind = TmuxSessionListing, ev_assertion_kind = Observed,
        ev_summary = ''tmux listed a local session'', ev_subject_ref = re_source edge,
        ev_collected_at = collected_at, ev_provider_revision = revision,
        ev_provider_slot = Some Slot_Tmux, ev_freshness = freshness\<rparr>)"

definition npm_attestation :: "digest \<Rightarrow> attestation" where
  "npm_attestation sha256 revision collected_at freshness marker edge =
     (if marker \<noteq> Some ''declared'' \<or> re_relationship edge \<noteq> RRK_DependsOn
         \<or> \<not> starts_with (re_source edge) ''npm_project_'' \<or> \<not> starts_with (re_target edge) ''npm_package_''
         \<or> re_source edge = re_target edge
      then None
      else Some \<lparr>ev_version = 3, ev_id = ''npm_evidence_manifest_dependency_'' @ pair_component sha256 edge,
        ev_provider = REP_Npm, ev_kind = NpmPackageManifestDependency, ev_assertion_kind = Declared,
        ev_summary = ''package manifest declared a dependency'', ev_subject_ref = re_source edge,
        ev_collected_at = collected_at, ev_provider_revision = revision,
        ev_provider_slot = Some Slot_ProjectNpm, ev_freshness = freshness\<rparr>)"

text \<open>The closed vocabulary of the systemd marker: kind, relationship, identifier and summary.\<close>

definition systemd_marker_kind ::
  "string \<Rightarrow> (runtime_evidence_kind \<times> runtime_relationship_kind \<times> string \<times> string) option"
where
  "systemd_marker_kind marker =
     (if marker = ''requires''
      then Some (SystemdRequires, RRK_Requires, ''requires'', ''systemd declared a Requires dependency'')
      else if marker = ''wants''
      then Some (SystemdWants, RRK_Wants, ''wants'', ''systemd declared a Wants dependency'')
      else if marker = ''part_of''
      then Some (SystemdPartOf, RRK_PartOf, ''part-of'', ''systemd declared a PartOf dependency'')
      else None)"

definition systemd_attestation :: "digest \<Rightarrow> attestation" where
  "systemd_attestation sha256 revision collected_at freshness marker edge =
     (case Option.bind marker systemd_marker_kind of
        None \<Rightarrow> None
      | Some (kind, expected_relationship, kind_id, summary) \<Rightarrow>
          if re_relationship edge \<noteq> expected_relationship
             \<or> \<not> starts_with (re_source edge) ''systemd_service_''
             \<or> \<not> starts_with (re_target edge) ''systemd_service_''
             \<or> re_source edge = re_target edge
          then None
          else Some \<lparr>ev_version = 2, ev_id = ''systemd_evidence_'' @ kind_id @ ''_'' @ pair_component sha256 edge,
            ev_provider = REP_Systemd, ev_kind = kind, ev_assertion_kind = Declared,
            ev_summary = summary, ev_subject_ref = re_source edge, ev_collected_at = collected_at,
            ev_provider_revision = revision, ev_provider_slot = Some Slot_Systemd,
            ev_freshness = freshness\<rparr>)"

definition bind_cron_evidence where
  "bind_cron_evidence sha256 edges st =
     bind_slot_evidence CRON_EVIDENCE_SCHEDULE_MARKER Slot_Cron (cron_attestation sha256) st edges"

definition bind_tmux_evidence where
  "bind_tmux_evidence sha256 edges st =
     bind_slot_evidence TMUX_EVIDENCE_SESSION_LISTING_MARKER Slot_Tmux (tmux_attestation sha256) st edges"

definition bind_npm_evidence where
  "bind_npm_evidence sha256 edges st =
     bind_slot_evidence NPM_EVIDENCE_DEPENDENCY_MARKER Slot_ProjectNpm (npm_attestation sha256) st edges"

definition bind_systemd_evidence where
  "bind_systemd_evidence sha256 edges st =
     bind_slot_evidence SYSTEMD_EVIDENCE_KIND_MARKER Slot_Systemd (systemd_attestation sha256) st edges"

section \<open>What is attested\<close>

text \<open>The dispatch of \<open>runtime_map_for_snapshot\<close> on the slot.\<close>

definition bind_evidence :: "digest \<Rightarrow> provider_slot \<Rightarrow> slot_runtime_state \<Rightarrow> runtime_map_edge list
    \<Rightarrow> runtime_map_edge list" where
  "bind_evidence sha256 slot st edges =
     (if slot = Slot_Systemd then bind_systemd_evidence sha256 edges st
      else if slot = Slot_ProjectNpm then bind_npm_evidence sha256 edges st
      else if slot = Slot_Cron then bind_cron_evidence sha256 edges st
      else if slot = Slot_Tmux then bind_tmux_evidence sha256 edges st
      else edges)"

section \<open>The contract of an attestation\<close>

text \<open>What a reference says is about this edge, this slot, this revision and this freshness.\<close>

definition attested_by :: "provider_slot \<Rightarrow> slot_runtime_state \<Rightarrow> runtime_map_edge \<Rightarrow> bool" where
  "attested_by slot st edge \<longleftrightarrow> re_evidence_refs edge = [] \<or> (\<exists>e revision. re_evidence_refs edge = [e] \<and> ev_provider_slot e = Some slot
         \<and> evidence_freshness (sl_observation st) = Some (ev_freshness e) \<and> \<not> slot_disabled slot st
         \<and> sf_data_revision (sl_freshness st) = Some revision
         \<and> ev_provider_revision e = data_revision_public revision
         \<and> sf_last_success_ms (sl_freshness st) = Some (ev_collected_at e))"

locale slot_attestation =
  fixes marker :: string and slot :: provider_slot and attest :: "digest \<Rightarrow> attestation"
  assumes attest_fields: "attest sha256 revision collected_at freshness m edge = Some e \<Longrightarrow>
      ev_provider_slot e = Some slot \<and> ev_freshness e = freshness \<and> ev_provider_revision e = revision
      \<and> ev_collected_at e = collected_at"
    and attest_matches: "digest_len_32 sha256 \<Longrightarrow> valid_revision revision \<Longrightarrow> freshness \<in> set any_freshness \<Longrightarrow>
      attest sha256 revision collected_at freshness m edge = Some e \<Longrightarrow>
      evidence_ref_matches_edge (edge\<lparr>re_evidence_refs := refs\<rparr>) e"
begin

lemma bound_edge:
  assumes "edge \<in> set (bind_slot_evidence marker slot (attest sha256) st edges)"
    and "digest_len_32 sha256" and "\<forall>r. sf_data_revision (sl_freshness st) = Some r \<longrightarrow> valid_revision (data_revision_public r)"
  shows "has_valid_evidence_refs edge \<and> bt_get (re_metadata edge) marker = None
    \<and> attested_by slot st edge"
proof -
  have removed: "bt_get (bt_remove marker md) marker = None" for md :: metadata
    by (auto simp: bt_get_def bt_remove_def map_of_eq_None_iff)
  have fresh: "freshness \<in> set any_freshness" for freshness by (cases freshness) simp_all
  consider (cleared) original where "edge = bind_edge_evidence marker (\<lambda>_ _. None) original"
    | (attested) original freshness revision collected_at
      where "evidence_freshness (sl_observation st) = Some freshness" "\<not> slot_disabled slot st"
        "sf_data_revision (sl_freshness st) = Some revision"
        "sf_last_success_ms (sl_freshness st) = Some collected_at"
        "edge = bind_edge_evidence marker (attest sha256 (data_revision_public revision) collected_at freshness) original"
    using assms(1) by (auto simp: bind_slot_evidence_def split: option.splits bool.splits)
  then show ?thesis
  proof cases
    case cleared
    then show ?thesis by (simp add: bind_edge_evidence_def removed has_valid_evidence_refs_def attested_by_def Let_def)
  next
    case attested
    let ?e = "attest sha256 (data_revision_public revision) collected_at freshness
      (bt_get (re_metadata original) marker) (original\<lparr>re_metadata := bt_remove marker (re_metadata original)\<rparr>)"
    have edge: "edge = original\<lparr>re_metadata := bt_remove marker (re_metadata original), re_evidence_refs := opt_list ?e\<rparr>"
      using attested(5) by (simp add: bind_edge_evidence_def Let_def)
    show ?thesis
    proof (cases ?e)
      case None
      then show ?thesis by (simp add: edge removed has_valid_evidence_refs_def attested_by_def)
    next
      case (Some e)
      then have "evidence_ref_matches_edge edge e"
        using attest_matches [OF assms(2) _ fresh Some, of "[e]"] assms(3) attested(3) by (simp add: edge)
      then show ?thesis using attest_fields [OF Some] attested(1-4) Some
        by (simp add: edge removed has_valid_evidence_refs_def attested_by_def)
    qed
  qed
qed

end

section \<open>The four slots\<close>

lemma pair_text_bounds:
  assumes "digest_len_32 sha256" and "\<forall>c \<in> set pre. byte c < 128" and "length pre \<le> 100"
  shows "char_count (pre @ pair_component sha256 edge) \<le> MAX_EVIDENCE_TEXT_CHARS"
proof -
  have "\<forall>c \<in> set (pre @ pair_component sha256 edge). byte c < 128"
    using assms(2) component_id_chars [of sha256] id_char_ascii unfolding pair_component_def by auto
  then have "char_count (pre @ pair_component sha256 edge) = length (pre @ pair_component sha256 edge)"
    by (rule char_count_ascii)
  also have "\<dots> \<le> 100 + 114"
    using assms(3) length_component [OF assms(1)] unfolding pair_component_def length_append
    by (intro add_mono)
  finally show ?thesis by (simp add: MAX_EVIDENCE_TEXT_CHARS_def)
qed

lemma literal_bounds: "\<forall>c \<in> set s. byte c < 128 \<Longrightarrow> length s \<le> 100 \<Longrightarrow> char_count s \<le> MAX_EVIDENCE_TEXT_CHARS"
  by (simp add: char_count_ascii MAX_EVIDENCE_TEXT_CHARS_def)

definition texts_ok :: "runtime_map_edge \<Rightarrow> runtime_evidence_ref \<Rightarrow> bool" where
  "texts_ok edge e \<longleftrightarrow> ev_id e \<noteq> [] \<and> char_count (ev_id e) \<le> MAX_EVIDENCE_TEXT_CHARS
     \<and> ev_summary e \<noteq> [] \<and> char_count (ev_summary e) \<le> MAX_EVIDENCE_TEXT_CHARS
     \<and> valid_revision (ev_provider_revision e) \<and> ev_subject_ref e = re_source edge"

lemma slot_evidence_matches:
  assumes "texts_ok edge e" and "ev_freshness e \<in> set any_freshness" and "re_source edge \<noteq> re_target edge"
    and "ev_is e 4 REP_Cron CronScheduleDeclaration Declared any_freshness (Some Slot_Cron)
        \<and> re_relationship edge = RRK_RunsOn \<and> starts_with (re_source edge) ''scheduled_job_''
        \<and> re_target edge = ''host_local''
      \<or> ev_is e 5 REP_Tmux TmuxSessionListing Observed any_freshness (Some Slot_Tmux)
        \<and> re_relationship edge = RRK_RunsOn \<and> starts_with (re_source edge) ''tmux_session_''
        \<and> re_target edge = ''host_local''
      \<or> ev_is e 3 REP_Npm NpmPackageManifestDependency Declared any_freshness (Some Slot_ProjectNpm)
        \<and> re_relationship edge = RRK_DependsOn \<and> starts_with (re_source edge) ''npm_project_''
        \<and> starts_with (re_target edge) ''npm_package_''
      \<or> (ev_is e 2 REP_Systemd SystemdRequires Declared any_freshness (Some Slot_Systemd)
            \<and> re_relationship edge = RRK_Requires
          \<or> ev_is e 2 REP_Systemd SystemdWants Declared any_freshness (Some Slot_Systemd)
            \<and> re_relationship edge = RRK_Wants
          \<or> ev_is e 2 REP_Systemd SystemdPartOf Declared any_freshness (Some Slot_Systemd)
            \<and> re_relationship edge = RRK_PartOf)
        \<and> starts_with (re_source edge) ''systemd_service_'' \<and> starts_with (re_target edge) ''systemd_service_''"
  shows "evidence_ref_matches_edge edge e"
  using assms(4,1-3) unfolding evidence_ref_matches_edge_def has_valid_versioned_shape_def texts_ok_def valid_revision_def
  by (elim disjE conjE) (simp_all add: ev_is_def not_less)

lemma attestation_texts:
  assumes "digest_len_32 sha256" and "\<forall>c \<in> set pre. byte c < 128" "length pre \<le> 100" "pre \<noteq> []"
    and "\<forall>c \<in> set summary. byte c < 128" "length summary \<le> 100" "summary \<noteq> []"
    and "valid_revision (ev_provider_revision e)" "ev_subject_ref e = re_source edge"
    and "ev_id e = pre @ pair_component sha256 edge'" "ev_summary e = summary"
  shows "texts_ok edge e"
  using assms pair_text_bounds literal_bounds by (simp add: texts_ok_def)

interpretation cron: slot_attestation CRON_EVIDENCE_SCHEDULE_MARKER Slot_Cron cron_attestation
proof
  fix sha256 revision collected_at freshness m edge e refs
  assume a: "cron_attestation sha256 revision collected_at freshness m edge = Some e"
  then have e: "e = \<lparr>ev_version = 4, ev_id = ''cron_evidence_schedule_'' @ pair_component sha256 edge,
        ev_provider = REP_Cron, ev_kind = CronScheduleDeclaration, ev_assertion_kind = Declared,
        ev_summary = ''cron declared a scheduled job'', ev_subject_ref = re_source edge,
        ev_collected_at = collected_at, ev_provider_revision = revision,
        ev_provider_slot = Some Slot_Cron, ev_freshness = freshness\<rparr>"
    and edge: "re_relationship edge = RRK_RunsOn" "starts_with (re_source edge) ''scheduled_job_''"
      "re_target edge = ''host_local''" "re_source edge \<noteq> re_target edge"
    unfolding cron_attestation_def by (simp_all split: if_splits)
  show "ev_provider_slot e = Some Slot_Cron \<and> ev_freshness e = freshness \<and> ev_provider_revision e = revision
      \<and> ev_collected_at e = collected_at"
    by (simp add: e)
  assume ok: "digest_len_32 sha256" "valid_revision revision" "freshness \<in> set any_freshness"
  have "texts_ok (edge\<lparr>re_evidence_refs := refs\<rparr>) e"
    by (rule attestation_texts [OF ok(1), where pre = "''cron_evidence_schedule_''" and edge' = edge
        and summary = "''cron declared a scheduled job''"])
      (use ok in \<open>simp_all add: e byte_def\<close>)
  then show "evidence_ref_matches_edge (edge\<lparr>re_evidence_refs := refs\<rparr>) e"
    using ok(3) edge by (intro slot_evidence_matches) (simp_all add: e ev_is_def)
qed

interpretation tmux: slot_attestation TMUX_EVIDENCE_SESSION_LISTING_MARKER Slot_Tmux tmux_attestation
proof
  fix sha256 revision collected_at freshness m edge e refs
  assume a: "tmux_attestation sha256 revision collected_at freshness m edge = Some e"
  then have e: "e = \<lparr>ev_version = 5, ev_id = ''tmux_evidence_session_listing_'' @ pair_component sha256 edge,
        ev_provider = REP_Tmux, ev_kind = TmuxSessionListing, ev_assertion_kind = Observed,
        ev_summary = ''tmux listed a local session'', ev_subject_ref = re_source edge,
        ev_collected_at = collected_at, ev_provider_revision = revision,
        ev_provider_slot = Some Slot_Tmux, ev_freshness = freshness\<rparr>"
    and edge: "re_relationship edge = RRK_RunsOn" "starts_with (re_source edge) ''tmux_session_''"
      "re_target edge = ''host_local''" "re_source edge \<noteq> re_target edge"
    unfolding tmux_attestation_def by (simp_all split: if_splits)
  show "ev_provider_slot e = Some Slot_Tmux \<and> ev_freshness e = freshness \<and> ev_provider_revision e = revision
      \<and> ev_collected_at e = collected_at"
    by (simp add: e)
  assume ok: "digest_len_32 sha256" "valid_revision revision" "freshness \<in> set any_freshness"
  have "texts_ok (edge\<lparr>re_evidence_refs := refs\<rparr>) e"
    by (rule attestation_texts [OF ok(1), where pre = "''tmux_evidence_session_listing_''" and edge' = edge
        and summary = "''tmux listed a local session''"])
      (use ok in \<open>simp_all add: e byte_def\<close>)
  then show "evidence_ref_matches_edge (edge\<lparr>re_evidence_refs := refs\<rparr>) e"
    using ok(3) edge by (intro slot_evidence_matches) (simp_all add: e ev_is_def)
qed

interpretation npm: slot_attestation NPM_EVIDENCE_DEPENDENCY_MARKER Slot_ProjectNpm npm_attestation
proof
  fix sha256 revision collected_at freshness m edge e refs
  assume a: "npm_attestation sha256 revision collected_at freshness m edge = Some e"
  then have e: "e = \<lparr>ev_version = 3, ev_id = ''npm_evidence_manifest_dependency_'' @ pair_component sha256 edge,
        ev_provider = REP_Npm, ev_kind = NpmPackageManifestDependency, ev_assertion_kind = Declared,
        ev_summary = ''package manifest declared a dependency'', ev_subject_ref = re_source edge,
        ev_collected_at = collected_at, ev_provider_revision = revision,
        ev_provider_slot = Some Slot_ProjectNpm, ev_freshness = freshness\<rparr>"
    and edge: "re_relationship edge = RRK_DependsOn" "starts_with (re_source edge) ''npm_project_''"
      "starts_with (re_target edge) ''npm_package_''" "re_source edge \<noteq> re_target edge"
    unfolding npm_attestation_def by (simp_all split: if_splits)
  show "ev_provider_slot e = Some Slot_ProjectNpm \<and> ev_freshness e = freshness \<and> ev_provider_revision e = revision
      \<and> ev_collected_at e = collected_at"
    by (simp add: e)
  assume ok: "digest_len_32 sha256" "valid_revision revision" "freshness \<in> set any_freshness"
  have "texts_ok (edge\<lparr>re_evidence_refs := refs\<rparr>) e"
    by (rule attestation_texts [OF ok(1), where pre = "''npm_evidence_manifest_dependency_''" and edge' = edge
        and summary = "''package manifest declared a dependency''"])
      (use ok in \<open>simp_all add: e byte_def\<close>)
  then show "evidence_ref_matches_edge (edge\<lparr>re_evidence_refs := refs\<rparr>) e"
    using ok(3) edge by (intro slot_evidence_matches) (simp_all add: e ev_is_def)
qed

lemma systemd_kind_cases:
  assumes "systemd_marker_kind m = Some (kind, rel, kind_id, summary)"
  shows "(kind, rel) \<in> {(SystemdRequires, RRK_Requires), (SystemdWants, RRK_Wants), (SystemdPartOf, RRK_PartOf)}"
    and "\<forall>c \<in> set kind_id. byte c < 128" "length kind_id \<le> 10"
    and "\<forall>c \<in> set summary. byte c < 128" "length summary \<le> 100" "summary \<noteq> []"
  using assms by (auto simp: systemd_marker_kind_def byte_def split: if_splits)

interpretation systemd: slot_attestation SYSTEMD_EVIDENCE_KIND_MARKER Slot_Systemd systemd_attestation
proof
  fix sha256 revision collected_at freshness m edge e refs
  assume a: "systemd_attestation sha256 revision collected_at freshness m edge = Some e"
  then obtain kind rel kind_id summary where b: "Option.bind m systemd_marker_kind = Some (kind, rel, kind_id, summary)"
    unfolding systemd_attestation_def by (cases "Option.bind m systemd_marker_kind") auto
  then obtain marker where k: "systemd_marker_kind marker = Some (kind, rel, kind_id, summary)"
    by (auto simp: bind_eq_Some_conv)
  have e: "e = \<lparr>ev_version = 2, ev_id = ''systemd_evidence_'' @ kind_id @ ''_'' @ pair_component sha256 edge,
        ev_provider = REP_Systemd, ev_kind = kind, ev_assertion_kind = Declared,
        ev_summary = summary, ev_subject_ref = re_source edge, ev_collected_at = collected_at,
        ev_provider_revision = revision, ev_provider_slot = Some Slot_Systemd, ev_freshness = freshness\<rparr>"
    and edge: "re_relationship edge = rel" "starts_with (re_source edge) ''systemd_service_''"
      "starts_with (re_target edge) ''systemd_service_''" "re_source edge \<noteq> re_target edge"
    using a unfolding systemd_attestation_def b by (simp_all split: if_splits)
  note c = systemd_kind_cases [OF k]
  show "ev_provider_slot e = Some Slot_Systemd \<and> ev_freshness e = freshness \<and> ev_provider_revision e = revision
      \<and> ev_collected_at e = collected_at"
    by (simp add: e)
  assume ok: "digest_len_32 sha256" "valid_revision revision" "freshness \<in> set any_freshness"
  have "texts_ok (edge\<lparr>re_evidence_refs := refs\<rparr>) e"
  proof (rule attestation_texts [OF ok(1), where pre = "''systemd_evidence_'' @ kind_id @ ''_''" and edge' = edge
        and summary = summary])
    show "\<forall>c \<in> set (''systemd_evidence_'' @ kind_id @ ''_''). byte c < 128"
      using c(2) by (simp add: byte_def)
  qed (use ok c in \<open>simp_all add: e\<close>)
  then show "evidence_ref_matches_edge (edge\<lparr>re_evidence_refs := refs\<rparr>) e"
    using ok(3) edge c(1) by (intro slot_evidence_matches) (auto simp: e ev_is_def)
qed

section \<open>Evidence is never fresher than its slot\<close>

lemma length_show_nat: "n < 10 ^ k \<Longrightarrow> 0 < k \<Longrightarrow> length (show_nat n) \<le> k"
proof (induction k arbitrary: n)
  case (Suc k)
  show ?case
  proof (cases "n < 10")
    case False
    then have "0 < k" using Suc.prems by (cases k) auto
    moreover have "n div 10 < 10 ^ k" using Suc.prems(1) by (simp add: less_mult_imp_div_less mult.commute)
    ultimately show ?thesis using Suc.IH False by (subst show_nat.simps) simp
  qed (subst show_nat.simps, simp)
qed simp

lemma hex_token_valid:
  assumes "length entropy = 16" and "n < 2 ^ 64"
  shows "valid_revision (opaque_revision_boot_component entropy @ ''-'' @ show_nat n)"
proof -
  let ?boot = "opaque_revision_boot_component entropy"
  have "\<forall>c \<in> set ?boot. byte c < 128"
    using hex_string_lower_hex [of entropy]
    by (auto simp: opaque_revision_boot_component_def is_lower_hex_def is_ascii_digit_def byte_def)
  moreover have "\<forall>c \<in> set (show_nat n). byte c < 128"
    using show_nat_digits [of n] by (auto simp: is_ascii_digit_def byte_def)
  ultimately have "char_count (?boot @ ''-'' @ show_nat n) = length (?boot @ ''-'' @ show_nat n)"
    by (intro char_count_ascii) (auto simp: byte_def)
  also have "\<dots> \<le> 32 + 1 + 20"
    using assms(1) length_show_nat [of n 20] assms(2) by (simp add: opaque_revision_boot_component_def)
  finally show ?thesis by (simp add: valid_revision_def MAX_EVIDENCE_TEXT_CHARS_def)
qed

text \<open>
  C6. Evidence of a host relationship is never fresher than the slot that collected it: whatever a
  provider put on its edges and whatever happened to the slot, an edge bound for the map carries
  no marker of the slot and at most one reference; the reference attests this edge, names the slot,
  its current data revision and the time of its last success, and it is fresh exactly when the
  observation of the slot is, and stale or timed out when the observation is merely retained.
\<close>

theorem slot_evidence_sound:
  assumes "digest_len_32 sha256" and "length entropy = 16"
    and "slot_run js identity (opaque_revision_boot_component entropy) slot st"
    and "slot \<in> {Slot_Systemd, Slot_ProjectNpm, Slot_Cron, Slot_Tmux}"
    and "edge \<in> set (bind_evidence sha256 slot st edges)"
  shows "has_valid_evidence_refs edge
    \<and> (re_evidence_refs edge = [] \<or> (\<exists>e revision. re_evidence_refs edge = [e] \<and> ev_provider_slot e = Some slot
         \<and> evidence_freshness (sl_observation st) = Some (ev_freshness e) \<and> \<not> slot_disabled slot st
         \<and> sf_data_revision (sl_freshness st) = Some revision
         \<and> ev_provider_revision e = data_revision_public revision
         \<and> sf_last_success_ms (sl_freshness st) = Some (ev_collected_at e)))
    \<and> (\<forall>e \<in> set (re_evidence_refs edge). ev_freshness e = EF_Fresh \<longleftrightarrow> (\<exists>c. sl_observation st = Obs_Fresh c))"
proof -
  have "\<forall>r. sf_data_revision (sl_freshness st) = Some r \<longrightarrow> valid_revision (data_revision_public r)"
    using slot_run_inv [OF assms(3)] hex_token_valid [OF assms(2)]
    by (auto simp: data_inv_def revision_wf_def data_revision_public_def split: option.splits)
  note revision = this
  have "has_valid_evidence_refs edge \<and> attested_by slot st edge"
    using assms(4,5) cron.bound_edge [OF _ assms(1) revision] tmux.bound_edge [OF _ assms(1) revision]
      npm.bound_edge [OF _ assms(1) revision] systemd.bound_edge [OF _ assms(1) revision]
    unfolding bind_evidence_def bind_cron_evidence_def bind_tmux_evidence_def bind_npm_evidence_def
      bind_systemd_evidence_def
    by (elim insertE emptyE) simp_all
  moreover have "evidence_freshness obs = Some EF_Fresh \<longleftrightarrow> (\<exists>c. obs = Obs_Fresh c)" for obs
    by (cases obs rule: evidence_freshness.cases) auto
  ultimately show ?thesis unfolding attested_by_def by auto
qed

definition cron_edge :: runtime_map_edge where
  "cron_edge = \<lparr>re_source = ''scheduled_job_a'', re_target = ''host_local'', re_relationship = RRK_RunsOn,
     re_metadata = [(CRON_EVIDENCE_SCHEDULE_MARKER, ''declared'')], re_evidence_refs = []\<rparr>"

definition cron_collected :: provider_collection where
  "cron_collected = set_state Slot_Cron PSK_Fresh empty_collection"

theorem slot_evidence_sound_witness:
  "\<exists>edge e. bind_evidence toy_digest Slot_Cron
       (collected_state (opaque_revision_boot_component (replicate 16 0)) cron_collected) [cron_edge] = [edge]
     \<and> has_valid_evidence_refs edge \<and> re_evidence_refs edge = [e] \<and> ev_freshness e = EF_Fresh"
proof -
  let ?boot = "opaque_revision_boot_component (replicate 16 0)"
  let ?st = "collected_state ?boot cron_collected"
  have "collect_provider_slot quiet_host (Scope_Host None) example_snapshot Slot_Cron = Inr cron_collected"
    by (simp add: collect_provider_slot_def collect_cron_runtime_provider_def cron_collected_def quiet_host_def
        add_observation_def empty_collection_def scope_state_def)
  then have run: "slot_run plain_serializers (\<lambda>_. ''data'') ?boot Slot_Cron ?st" by (rule collected_state_run)
  have shape: "\<not> slot_disabled Slot_Cron ?st" "sl_observation ?st = Obs_Fresh (sanitized_for_retention plain_serializers cron_collected)"
    by (simp_all add: slot_disabled_def collected_state_def disabled_in_def cron_collected_def new_slot_state_def)
  let ?edge = "bind_edge_evidence CRON_EVIDENCE_SCHEDULE_MARKER
    (cron_attestation toy_digest (data_revision_public (data_revision_first ?boot)) 5 EF_Fresh) cron_edge"
  have edges: "bind_evidence toy_digest Slot_Cron ?st [cron_edge] = [?edge]"
    using shape by (simp add: bind_evidence_def bind_cron_evidence_def bind_slot_evidence_def)
      (simp add: collected_state_def)
  then have in_edges: "?edge \<in> set (bind_evidence toy_digest Slot_Cron ?st [cron_edge])" by simp
  have "re_evidence_refs ?edge \<noteq> []"
    by (simp add: bind_edge_evidence_def cron_attestation_def cron_edge_def bt_get_def starts_with_def Let_def)
  then obtain e where "has_valid_evidence_refs ?edge" "re_evidence_refs ?edge = [e]" "ev_freshness e = EF_Fresh"
    using slot_evidence_sound [OF toy_digest_len _ run _ in_edges] shape(2) by auto
  then show ?thesis using edges by blast
qed

end
