(* ===== verification/Revisions.thy ===== *)
theory Revisions
  imports Publication History
begin

text \<open>
  The opaque revisions of \<open>cache_refresh.rs\<close>: \<open>PublicationRevision\<close>, \<open>DockerObservationRevision\<close>
  and \<open>IntegrityObservationRevision\<close>. Each counts the changes of one observable and shows the
  boot component and the count. The JSON texts that are compared are parameters, in
  \<open>observable_json\<close>. \<open>None\<close> is the panic on an overflow of the 64-bit sequence.
\<close>

record observable_json =
  oj_publication :: "docker_snapshot \<times> health_response \<times> runtime_map \<Rightarrow> string"
  oj_docker :: "runtime_mode \<times> docker_snapshot \<Rightarrow> string"
  oj_collection :: "runtime_map_node list \<times> runtime_map_edge list \<times> runtime_map_diagnostic list
    \<times> provider_state list \<Rightarrow> string"

section \<open>The publication revision\<close>

record publication_revision =
  pr_boot :: string
  pr_sequence :: u64
  pr_last_observable :: "string option"

definition boot_instance_component :: "8 word list \<Rightarrow> string" where
  "boot_instance_component entropy = hex_string entropy"

definition publication_revision_new :: "8 word list \<Rightarrow> publication_revision" where
  "publication_revision_new entropy = \<lparr>pr_boot = boot_instance_component entropy, pr_sequence = 0,
     pr_last_observable = None\<rparr>"

definition publication_revision_current :: "publication_revision \<Rightarrow> string" where
  "publication_revision_current r = pr_boot r @ ''-'' @ show_nat (pr_sequence r)"

definition clear_volatile_observation_markers ::
  "docker_snapshot \<times> health_response \<times> runtime_map \<Rightarrow> docker_snapshot \<times> health_response \<times> runtime_map"
where
  "clear_volatile_observation_markers published = (case published of (snapshot, health, m) \<Rightarrow>
     (snapshot\<lparr>sn_model_revision := [], sn_last_updated := 0\<rparr>,
      health\<lparr>hr_model_revision := [], hr_last_updated := 0, hr_snapshot_version := []\<rparr>,
      m\<lparr>rm_model_revision := [], rm_last_updated := 0,
        rm_edges := map (\<lambda>edge. edge\<lparr>re_evidence_refs :=
          map (\<lambda>e. e\<lparr>ev_collected_at := 0\<rparr>) (re_evidence_refs edge)\<rparr>) (rm_edges m)\<rparr>))"

definition publication_observable :: "observable_json \<Rightarrow> serializers \<Rightarrow> docker_snapshot \<Rightarrow> health_response
    \<Rightarrow> runtime_map \<Rightarrow> string" where
  "publication_observable json js snapshot health m = oj_publication json
     (clear_volatile_observation_markers
       (publish_docker_snapshot snapshot, redact_health_response health, redact_runtime_map js m))"

definition publication_revision_note :: "string \<Rightarrow> publication_revision \<Rightarrow> publication_revision option" where
  "publication_revision_note observable r =
     (if pr_last_observable r \<noteq> Some observable
      then map_option (\<lambda>n. r\<lparr>pr_sequence := n, pr_last_observable := Some observable\<rparr>)
        (checked_add1 (pr_sequence r))
      else Some r)"

definition publication_revision_assign :: "observable_json \<Rightarrow> serializers
    \<Rightarrow> docker_snapshot \<times> health_response \<times> runtime_map \<Rightarrow> publication_revision
    \<Rightarrow> ((docker_snapshot \<times> health_response \<times> runtime_map) \<times> publication_revision) option" where
  "publication_revision_assign json js models r = (case models of (snapshot, health, m) \<Rightarrow>
     map_option (\<lambda>r'. let revision = publication_revision_current r' in
         ((snapshot\<lparr>sn_model_revision := revision\<rparr>, health\<lparr>hr_model_revision := revision\<rparr>,
           m\<lparr>rm_model_revision := revision\<rparr>), r'))
       (publication_revision_note (publication_observable json js snapshot health m) r))"

section \<open>The Docker observation revision\<close>

record docker_observation_revision =
  do_boot :: string
  do_sequence :: u64
  do_last_observable :: "string option"

definition docker_observation_revision_new :: "8 word list \<Rightarrow> docker_observation_revision" where
  "docker_observation_revision_new entropy = \<lparr>do_boot = opaque_revision_boot_component entropy,
     do_sequence = 0, do_last_observable = None\<rparr>"

definition docker_observation_revision_current :: "docker_observation_revision \<Rightarrow> string" where
  "docker_observation_revision_current r = do_boot r @ ''-'' @ show_nat (do_sequence r)"

definition docker_observable :: "observable_json \<Rightarrow> docker_snapshot \<Rightarrow> runtime_mode \<Rightarrow> string" where
  "docker_observable json snapshot mode = oj_docker json
     (mode, (publish_docker_snapshot snapshot)\<lparr>sn_last_updated := 0, sn_model_revision := []\<rparr>)"

definition docker_observation_revision_note :: "string \<Rightarrow> docker_observation_revision
    \<Rightarrow> docker_observation_revision option" where
  "docker_observation_revision_note observable r =
     (if do_last_observable r \<noteq> Some observable
      then map_option (\<lambda>n. r\<lparr>do_sequence := n, do_last_observable := Some observable\<rparr>)
        (checked_add1 (do_sequence r))
      else Some r)"

definition docker_observation_revision_assign :: "observable_json \<Rightarrow> docker_snapshot \<Rightarrow> runtime_mode
    \<Rightarrow> docker_observation_revision \<Rightarrow> docker_observation_revision option" where
  "docker_observation_revision_assign json snapshot mode r =
     docker_observation_revision_note (docker_observable json snapshot mode) r"

section \<open>The integrity revision\<close>

record integrity_observation_revision =
  io_boot :: string
  io_sequence :: u64
  io_last_active :: "bool option"

definition integrity_observation_revision_new :: "8 word list \<Rightarrow> integrity_observation_revision" where
  "integrity_observation_revision_new entropy = \<lparr>io_boot = opaque_revision_boot_component entropy,
     io_sequence = 0, io_last_active = None\<rparr>"

definition integrity_observation_revision_assign :: "bool \<Rightarrow> integrity_observation_revision
    \<Rightarrow> integrity_observation_revision option" where
  "integrity_observation_revision_assign active r =
     (if io_last_active r \<noteq> Some active
      then map_option (\<lambda>n. r\<lparr>io_sequence := n, io_last_active := Some active\<rparr>)
        (checked_add1 (io_sequence r))
      else Some r)"

definition integrity_observation_revision_current :: "integrity_observation_revision \<Rightarrow> string" where
  "integrity_observation_revision_current r = io_boot r @ ''-'' @ show_nat (io_sequence r)"

section \<open>The contract of an observed revision\<close>

text \<open>
  A counter of the changes of an observable: noting the value it already shows changes nothing,
  noting another one advances the count by one and keeps the boot component.
\<close>

locale observed_revision =
  fixes boot_of :: "'r \<Rightarrow> string" and sequence_of :: "'r \<Rightarrow> u64" and last_of :: "'r \<Rightarrow> 'o option"
    and note_observable :: "'o \<Rightarrow> 'r \<Rightarrow> 'r option" and current :: "'r \<Rightarrow> string"
  assumes note_same: "last_of r = Some x \<Longrightarrow> note_observable x r = Some r"
    and note_other: "last_of r \<noteq> Some x \<Longrightarrow> note_observable x r = Some r' \<Longrightarrow>
      sequence_of r' = sequence_of r + 1 \<and> sequence_of r' < 2 ^ 64 \<and> last_of r' = Some x \<and> boot_of r' = boot_of r"
    and note_panics: "note_observable x r = None \<longleftrightarrow> last_of r \<noteq> Some x \<and> 2 ^ 64 \<le> sequence_of r + 1"
    and current_token: "current r = boot_of r @ ''-'' @ show_nat (sequence_of r)"
begin

definition noted :: "'r \<Rightarrow> 'r \<Rightarrow> bool" where
  "noted r r' \<longleftrightarrow> (\<exists>x. note_observable x r = Some r')"

lemma note_last: "note_observable x r = Some r' \<Longrightarrow> last_of r' = Some x"
  using note_same [of r x] note_other [of r x r'] by (cases "last_of r = Some x") auto

lemma noted_boot: "noted\<^sup>*\<^sup>* r r' \<Longrightarrow> boot_of r' = boot_of r"
proof (induction rule: rtranclp_induct)
  case (step r1 r2)
  then obtain x where "note_observable x r1 = Some r2" by (auto simp: noted_def)
  then have "boot_of r2 = boot_of r1"
    using note_same [of r1 x] note_other [of r1 x r2] by (cases "last_of r1 = Some x") auto
  then show ?case using step.IH by simp
qed simp

lemma noted_sequence: "noted\<^sup>*\<^sup>* r r' \<Longrightarrow> r' = r \<or> sequence_of r < sequence_of r'"
proof (induction rule: rtranclp_induct)
  case (step r1 r2)
  then obtain x where "note_observable x r1 = Some r2" by (auto simp: noted_def)
  then have "r2 = r1 \<or> sequence_of r1 < sequence_of r2"
    using note_same [of r1 x] note_other [of r1 x r2] by (cases "last_of r1 = Some x") auto
  then show ?case using step.IH by auto
qed simp

text \<open>Two states of one counter that show the same token have noted the same observable.\<close>

lemma same_token:
  assumes "noted\<^sup>*\<^sup>* r r'" and "current r = current r'"
  shows "r' = r"
proof -
  have "boot_of r' = boot_of r" by (rule noted_boot [OF assms(1)])
  then have "show_nat (sequence_of r) = show_nat (sequence_of r')"
    using assms(2) by (simp add: current_token)
  then have "sequence_of r = sequence_of r'" by (metis dec_value_show_nat option.inject)
  then show ?thesis using noted_sequence [OF assms(1)] by auto
qed

lemma token_valid:
  assumes "noted\<^sup>*\<^sup>* r r'" and "boot_of r = hex_string entropy" and "sequence_of r < 2 ^ 64"
  shows "sequence_of r' < 2 ^ 64 \<and> boot_of r' = hex_string entropy"
  using assms(1)
proof (induction rule: rtranclp_induct)
  case (step r1 r2)
  then obtain x where "note_observable x r1 = Some r2" by (auto simp: noted_def)
  then show ?case
    using step.IH note_same [of r1 x] note_other [of r1 x r2] by (cases "last_of r1 = Some x") auto
qed (use assms in simp)

end

lemma checked_add1_Some: "checked_add1 n = Some m \<longleftrightarrow> m = n + 1 \<and> n + 1 < 2 ^ 64"
  by (auto simp: checked_add1_def)

lemma checked_add1_None: "checked_add1 n = None \<longleftrightarrow> 2 ^ 64 \<le> n + 1"
  by (auto simp: checked_add1_def)

interpretation publication: observed_revision pr_boot pr_sequence pr_last_observable
  publication_revision_note publication_revision_current
  by unfold_locales
    (auto simp: publication_revision_note_def publication_revision_current_def checked_add1_Some checked_add1_None)

interpretation docker: observed_revision do_boot do_sequence do_last_observable
  docker_observation_revision_note docker_observation_revision_current
  by unfold_locales
    (auto simp: docker_observation_revision_note_def docker_observation_revision_current_def
      checked_add1_Some checked_add1_None)

interpretation integrity: observed_revision io_boot io_sequence io_last_active
  integrity_observation_revision_assign integrity_observation_revision_current
  by unfold_locales
    (auto simp: integrity_observation_revision_assign_def integrity_observation_revision_current_def
      checked_add1_Some checked_add1_None)

end
