(* ===== verification/Fixtures.thy ===== *)
theory Fixtures
  imports Snapshot Logs
begin

text \<open>
  The sample inventory and the sample logs that the daemon serves in mock mode (\<open>fixtures.rs\<close>).
  The clock is a parameter: the time of the snapshot, and the time at which the process first
  asked for mock logs. The debug text of a list of strings is a parameter too.
\<close>

section \<open>The sample inventory\<close>

definition mock_mount :: "string \<Rightarrow> compose_mount_kind \<Rightarrow> string \<Rightarrow> string \<Rightarrow> container_mount" where
  "mock_mount i kind source target = \<lparr>cm_id = i, cm_kind = kind, cm_source = Some source,
     cm_target = target, cm_read_only = False\<rparr>"

definition mock_container :: "string \<Rightarrow> string \<Rightarrow> string \<Rightarrow> string \<Rightarrow> string list \<Rightarrow> string list
    \<Rightarrow> container_mount list \<Rightarrow> string list \<Rightarrow> container_record" where
  "mock_container i name img role networks ports mounts depends_on = \<lparr>ct_id = i, ct_name = name,
     ct_image = img, ct_status = ''running'', ct_role = role, ct_networks = networks, ct_ports = ports,
     ct_publishes_on_unspecified_address = False, ct_mounts = mounts, ct_depends_on = depends_on\<rparr>"

definition mock_image :: "string \<Rightarrow> string list \<Rightarrow> image_record" where
  "mock_image img containers = \<lparr>im_image = img, im_containers = containers, im_status = ''running''\<rparr>"

definition mock_snapshot :: "u64 \<Rightarrow> docker_snapshot" where
  "mock_snapshot now = \<lparr>
     sn_containers = [
       mock_container ''container_gateway'' ''gateway'' ''nginx:1.27-alpine'' ''edge proxy''
         [''network_edge'', ''network_app''] [''3233:80/tcp'']
         []
         [''container_api''],
       mock_container ''container_api'' ''api'' ''python:3.11-slim'' ''api''
         [''network_app'', ''network_data''] [''3233:3233/tcp'']
         [mock_mount ''container_api:/workspace/src:/srv/dockermap/src'' CMK_Bind ''/srv/dockermap/src'' ''/workspace/src'',
          mock_mount ''container_api:/workspace/.cache:api-cache'' CMK_NamedVolume ''api-cache'' ''/workspace/.cache'']
         [''container_db'', ''container_cache''],
       mock_container ''container_worker'' ''worker'' ''python:3.11-slim'' ''worker''
         [''network_app'', ''network_data''] []
         [mock_mount ''container_worker:/var/log/dockermap:logs'' CMK_NamedVolume ''logs'' ''/var/log/dockermap'']
         [''container_db'', ''container_cache''],
       mock_container ''container_db'' ''postgres'' ''postgres:16-alpine'' ''primary database''
         [''network_data''] [''5432:5432/tcp'']
         [mock_mount ''container_db:/var/lib/postgresql/data:postgres_data'' CMK_NamedVolume ''postgres_data'' ''/var/lib/postgresql/data'']
         [],
       mock_container ''container_cache'' ''redis'' ''redis:7-alpine'' ''cache and queue broker''
         [''network_data''] [''6379:6379/tcp'']
         []
         [],
       mock_container ''container_registry'' ''registry'' ''ghcr.io/dockermap/example:1.0'' ''registry mirror''
         [] []
         []
         []],
     sn_images = [
       mock_image ''nginx:1.27-alpine'' [''gateway''],
       mock_image ''python:3.11-slim'' [''api'', ''worker''],
       mock_image ''postgres:16-alpine'' [''postgres''],
       mock_image ''redis:7-alpine'' [''redis''],
       mock_image ''ghcr.io/dockermap/example:1.0'' [''registry'']],
     sn_networks = [
       \<lparr>nw_id = ''network_edge'', nw_name = ''edge'', nw_driver = ''bridge'',
          nw_internal = False, nw_members = [''gateway'']\<rparr>,
       \<lparr>nw_id = ''network_app'', nw_name = ''application'', nw_driver = ''bridge'',
          nw_internal = False, nw_members = [''gateway'', ''api'', ''worker'']\<rparr>,
       \<lparr>nw_id = ''network_data'', nw_name = ''data'', nw_driver = ''bridge'',
          nw_internal = True, nw_members = [''api'', ''worker'', ''postgres'', ''redis'']\<rparr>],
     sn_volumes = [
       \<lparr>vl_id = ''volume_postgres_data'', vl_name = ''postgres_data'', vl_attached_to = [''postgres'']\<rparr>,
       \<lparr>vl_id = ''volume_app_cache'', vl_name = ''app_cache'', vl_attached_to = [''api'', ''worker'']\<rparr>],
     sn_last_updated = now, sn_model_revision = [], sn_source = None\<rparr>"

section \<open>The sample logs\<close>

definition mock_log_candidates :: "(string list \<Rightarrow> string) \<Rightarrow> container_record \<Rightarrow> (log_level \<times> string) list" where
  "mock_log_candidates debug c =
     [(LL_Info, ct_name c @ '' accepted traffic on '' @ ct_role c),
      (LL_Info, ct_name c @ '' attached to '' @ ct_image c),
      (LL_Warn, ct_name c @ '' waiting on dependencies '' @ debug (ct_depends_on c))]"

definition mock_container_entries :: "(string list \<Rightarrow> string) \<Rightarrow> u64 \<Rightarrow> nat \<times> container_record \<Rightarrow> log_entry list" where
  "mock_container_entries debug base ic = (case ic of (index, c) \<Rightarrow>
     map (\<lambda>(offset, level, message). \<lparr>lg_id = ct_id c @ ''-'' @ show_nat offset,
            lg_timestamp = base - (index * 3 + offset) * 15000, lg_container = ct_name c,
            lg_level = level, lg_message = message\<rparr>)
       (enumerate 0 (mock_log_candidates debug c)))"

definition mock_log_entries :: "(string list \<Rightarrow> string) \<Rightarrow> u64 \<Rightarrow> docker_snapshot \<Rightarrow> string option \<Rightarrow> log_entry list" where
  "mock_log_entries debug base snapshot service =
     concat (map (mock_container_entries debug base)
       (filter (\<lambda>(_, c). case service of None \<Rightarrow> True | Some name \<Rightarrow> ct_name c = name)
         (enumerate 0 (sn_containers snapshot))))"

definition mock_logs :: "(string list \<Rightarrow> string) \<Rightarrow> u64 \<Rightarrow> docker_snapshot \<Rightarrow> string option \<Rightarrow> string option
    \<Rightarrow> log_cursor option \<Rightarrow> nat \<Rightarrow> logs_response" where
  "mock_logs debug base snapshot service query cursor limit =
     (case page_log_entries (mock_log_entries debug base snapshot service) query cursor limit of
        (entries, next_cursor) \<Rightarrow> \<lparr>lr_service = service, lr_entries = entries,
          lr_next_cursor = next_cursor, lr_source = None\<rparr>)"

section \<open>Properties\<close>

lemma mock_container_ids:
  "map ct_id (sn_containers (mock_snapshot now)) = [''container_gateway'', ''container_api'', ''container_worker'',
     ''container_db'', ''container_cache'', ''container_registry'']"
  by (simp add: mock_snapshot_def mock_container_def)

text \<open>Every dependency and network of the sample names a container or network of the sample.\<close>

lemma mock_snapshot_closed:
  "list_all (\<lambda>c. list_all (\<lambda>d. d \<in> set (map ct_id (sn_containers (mock_snapshot now)))) (ct_depends_on c)
      \<and> list_all (\<lambda>n. n \<in> set (map nw_id (sn_networks (mock_snapshot now)))) (ct_networks c))
     (sn_containers (mock_snapshot now))"
  by (simp add: mock_snapshot_def mock_container_def)

end
