(* ===== verification/Cache.thy ===== *)
theory Cache
  imports Slot_Evidence Revisions Fixtures
begin

text \<open>
  The cache of the daemon (\<open>DaemonCache\<close> in \<open>cache_refresh.rs\<close>): what one refresh publishes and
  how the outcomes of provider slots change it. Locks make each operation atomic, so an operation
  is a function of the cache. \<open>None\<close> is a panic (an exhausted sequence number). The parameters
  of an operation that touch the outside world are in \<open>cache_env\<close>: SHA-256, the JSON texts, and
  the entropy of the boot component.
\<close>

record cache_env =
  ce_sha256 :: digest
  ce_js :: serializers
  ce_json :: observable_json
  ce_boot :: "8 word list"

text \<open>What the operating system returns for the boot components that an operation may draw.\<close>

record fresh_entropy =
  fe_docker :: "8 word list"
  fe_integrity :: "8 word list"
  fe_history :: "8 word list"
  fe_source :: "8 word list"
  fe_reset :: "8 word list"

record daemon_cache =
  dc_snapshot :: docker_snapshot
  dc_health :: health_response
  dc_runtime_map :: runtime_map
  dc_findings :: findings_response
  dc_compose_runtime_binding :: "(compose_scan \<times> compose_runtime_binding) option"
  dc_runtime_providers :: runtime_provider_slots
  dc_source_generation :: u64
  dc_docker_revision :: docker_observation_revision
  dc_integrity_revision :: integrity_observation_revision
  dc_revision :: publication_revision
  dc_observed_history :: observed_history_cache

section \<open>The runtime map of the retained observations\<close>

definition sanitized_observable_identity :: "cache_env \<Rightarrow> provider_collection \<Rightarrow> string" where
  "sanitized_observable_identity env c =
     oj_collection (ce_json env) (pc_nodes c, pc_edges c, pc_diagnostics c, pc_states c)"

definition same_collection_evidence :: "docker_snapshot \<Rightarrow> docker_snapshot \<Rightarrow> bool" where
  "same_collection_evidence left right \<longleftrightarrow>
     (publish_docker_snapshot left)\<lparr>sn_model_revision := []\<rparr>
     = (publish_docker_snapshot right)\<lparr>sn_model_revision := []\<rparr>"

definition retained_parts :: "digest \<Rightarrow> runtime_provider_slots \<Rightarrow> provider_slot \<Rightarrow> observation" where
  "retained_parts sha256 slots slot =
     (case retained_collection (sl_observation (slots slot)) of
        None \<Rightarrow> ([], [], [])
      | Some c \<Rightarrow> (pc_nodes c, bind_evidence sha256 slot (slots slot) (pc_edges c), pc_diagnostics c))"

definition slot_warnings :: "runtime_provider_slots \<Rightarrow> provider_slot \<Rightarrow> runtime_map_diagnostic list" where
  "slot_warnings slots slot = map (\<lambda>message. \<lparr>rd_provider = RPK_Other, rd_severity = DS_Warning,
     rd_message = message\<rparr>) (opt_list (slot_diagnostic (sl_observation (slots slot))))"

definition combined_collection :: "digest \<Rightarrow> runtime_provider_slots \<Rightarrow> provider_collection" where
  "combined_collection sha256 slots =
     foldl (\<lambda>combined slot. add_observation (retained_parts sha256 slots slot) combined)
       empty_collection STATIC_PROVIDER_SLOTS"

definition has_exactly_one_canonical_host :: "runtime_map_node list \<Rightarrow> bool" where
  "has_exactly_one_canonical_host nodes =
     (case filter (\<lambda>node. rn_id node = ''host_local'') nodes of
        [node] \<Rightarrow> rn_provider node = RPK_Host \<and> rn_kind node = RNK_Host
      | _ \<Rightarrow> False)"

definition tmux_source_identities :: "runtime_map_node list \<Rightarrow> (string, nat \<times> bool) btree_map" where
  "tmux_source_identities nodes = foldl (\<lambda>counts node.
     (case (case bt_get counts (rn_id node) of Some entry \<Rightarrow> entry | None \<Rightarrow> (0, False)) of (n, is_tmux) \<Rightarrow>
        bt_insert (rn_id node)
          (n + 1, is_tmux \<or> rn_provider node = RPK_Tmux \<and> rn_kind node = RNK_TmuxSession) counts))
     [] nodes"

definition keeps_host_edge :: "runtime_mode \<Rightarrow> runtime_map_node list \<Rightarrow> runtime_map_edge \<Rightarrow> bool" where
  "keeps_host_edge mode nodes edge =
     (if re_target edge \<noteq> ''host_local'' \<or> re_relationship edge \<noteq> RRK_RunsOn then True
      else if starts_with (re_source edge) ''scheduled_job_'' then has_exactly_one_canonical_host nodes
      else if starts_with (re_source edge) ''tmux_session_''
      then mode = Mode_Docker \<and> has_exactly_one_canonical_host nodes
           \<and> (case bt_get (tmux_source_identities nodes) (re_source edge) of
                Some (n, is_tmux_session) \<Rightarrow> n = 1 \<and> is_tmux_session
              | None \<Rightarrow> False)
      else True)"

definition runtime_map_for_snapshot :: "cache_env \<Rightarrow> docker_snapshot \<Rightarrow> runtime_mode
    \<Rightarrow> runtime_provider_slots \<Rightarrow> string \<Rightarrow> runtime_map option" where
  "runtime_map_for_snapshot env snapshot mode slots docker_observation_revision =
     (let combined = combined_collection (ce_sha256 env) slots;
          gated = combined\<lparr>pc_edges := filter (keeps_host_edge mode (pc_nodes combined)) (pc_edges combined)\<rparr>
      in map_option (\<lambda>m. m\<lparr>rm_provider_states := provider_states_for slots,
             rm_diagnostics := rm_diagnostics m @ concat (map (slot_warnings slots) STATIC_PROVIDER_SLOTS)\<rparr>)
           (runtime_map_from_collection (ce_sha256 env) (ce_js env) snapshot gated
             docker_observation_revision mode))"

section \<open>Revisions, findings and the integrity fact\<close>

definition docker_observation_token :: "daemon_cache \<Rightarrow> string" where
  "docker_observation_token c = docker_observation_revision_current (dc_docker_revision c)"

definition assign_docker_observation_revision :: "cache_env \<Rightarrow> daemon_cache \<Rightarrow> daemon_cache option" where
  "assign_docker_observation_revision env c =
     map_option (\<lambda>r. c\<lparr>dc_docker_revision := r\<rparr>)
       (docker_observation_revision_assign (ce_json env) (dc_snapshot c) (hr_mode (dc_health c)) (dc_docker_revision c))"

definition cache_findings :: "cache_env \<Rightarrow> daemon_cache \<Rightarrow> finding list" where
  "cache_findings env c = sort_key fi_id (derive_findings (ce_sha256 env) (dc_runtime_map c) @
     (if hr_mode (dc_health c) = Mode_Docker
      then (case dc_compose_runtime_binding c of
              Some (scan, binding) \<Rightarrow> derive_compose_runtime_mount_findings (ce_sha256 env) scan
                (binding\<lparr>cb_provider_revision := docker_observation_token c\<rparr>)
            | None \<Rightarrow> [])
      else []))"

definition with_findings :: "cache_env \<Rightarrow> daemon_cache \<Rightarrow> daemon_cache" where
  "with_findings env c = c\<lparr>dc_findings := \<lparr>fr_findings = cache_findings env c,
     fr_summary = from_findings (cache_findings env c),
     fr_model_revision = rm_model_revision (dc_runtime_map c), fr_source = None\<rparr>\<rparr>"

definition assign_revision :: "cache_env \<Rightarrow> daemon_cache \<Rightarrow> daemon_cache option" where
  "assign_revision env c =
     map_option (\<lambda>((snapshot, health, m), r). with_findings env (c\<lparr>dc_snapshot := snapshot, dc_health := health,
         dc_runtime_map := m, dc_revision := r\<rparr>))
       (publication_revision_assign (ce_json env) (ce_js env)
         (dc_snapshot c, dc_health c, dc_runtime_map c) (dc_revision c))"

definition apply_runtime_identity_collision_fact :: "cache_env \<Rightarrow> daemon_cache \<Rightarrow> daemon_cache option" where
  "apply_runtime_identity_collision_fact env c =
     (let active = (hr_mode (dc_health c) = Mode_Docker \<and> runtime_map_has_identity_collision (dc_runtime_map c))
      in map_option (\<lambda>r. if active
           then c\<lparr>dc_integrity_revision := r, dc_runtime_map :=
             fst (append_runtime_identity_collision_fact (ce_js env) (dc_runtime_map c)
               (integrity_observation_revision_current r) (sn_last_updated (dc_snapshot c)))\<rparr>
           else c\<lparr>dc_integrity_revision := r\<rparr>)
         (integrity_observation_revision_assign active (dc_integrity_revision c)))"

definition rebuild_runtime_map :: "cache_env \<Rightarrow> daemon_cache \<Rightarrow> daemon_cache option" where
  "rebuild_runtime_map env c0 =
     (case assign_docker_observation_revision env c0 of None \<Rightarrow> None | Some c \<Rightarrow>
      case runtime_map_for_snapshot env (dc_snapshot c) (hr_mode (dc_health c)) (dc_runtime_providers c)
             (docker_observation_token c) of None \<Rightarrow> None | Some m \<Rightarrow>
      apply_runtime_identity_collision_fact env (c\<lparr>dc_runtime_map := m\<rparr>))"

definition observed_history_response :: "daemon_cache \<Rightarrow> observed_change_history_response" where
  "observed_history_response c = history_response (dc_observed_history c) (hr_mode (dc_health c))
     (sn_model_revision (dc_snapshot c)) (docker_observation_token c)"

section \<open>Candidates for publication\<close>

definition snapshot_observation_token :: "u64 \<Rightarrow> string" where
  "snapshot_observation_token last_updated = show_nat last_updated"

definition empty_runtime_map :: "u64 \<Rightarrow> runtime_map" where
  "empty_runtime_map last_updated = \<lparr>rm_nodes = [], rm_edges = [], rm_diagnostics = [],
     rm_last_updated = last_updated, rm_model_revision = [], rm_provider_states = unavailable_provider_states,
     rm_source = None\<rparr>"

definition no_findings :: findings_response where
  "no_findings = \<lparr>fr_findings = [], fr_summary = summary_default, fr_model_revision = [], fr_source = None\<rparr>"

definition new_cache :: "cache_env \<Rightarrow> fresh_entropy \<Rightarrow> docker_snapshot \<Rightarrow> health_response \<Rightarrow> u64
    \<Rightarrow> (compose_scan \<times> compose_runtime_binding) option \<Rightarrow> daemon_cache" where
  "new_cache env entropy snapshot health map_updated binding = \<lparr>dc_snapshot = snapshot, dc_health = health,
     dc_runtime_map = empty_runtime_map map_updated, dc_findings = no_findings,
     dc_compose_runtime_binding = binding, dc_runtime_providers = unavailable_provider_slots,
     dc_source_generation = 0, dc_docker_revision = docker_observation_revision_new (fe_docker entropy),
     dc_integrity_revision = integrity_observation_revision_new (fe_integrity entropy),
     dc_revision = publication_revision_new (ce_boot env), dc_observed_history = history_new (fe_history entropy)\<rparr>"

definition mock_health :: "u64 \<Rightarrow> health_response" where
  "mock_health last_updated = redact_health_response \<lparr>hr_status = HS_Degraded, hr_mode = Mode_Mock,
     hr_docker_reachable = False, hr_last_updated = last_updated,
     hr_snapshot_version = snapshot_observation_token last_updated, hr_model_revision = [],
     hr_message = Some ''Docker unavailable, serving mock data''\<rparr>"

definition mock_cache :: "cache_env \<Rightarrow> fresh_entropy \<Rightarrow> u64 \<Rightarrow> daemon_cache option" where
  "mock_cache env entropy now =
     (let snapshot = (mock_snapshot now)\<lparr>sn_images := derive_images (mock_snapshot now)\<rparr>;
          last_updated = sn_last_updated snapshot
      in Option.bind (assign_docker_observation_revision env
             (new_cache env entropy snapshot (mock_health last_updated) last_updated None))
           (assign_revision env))"

definition docker_health :: "u64 \<Rightarrow> health_response" where
  "docker_health last_updated = \<lparr>hr_status = HS_Ok, hr_mode = Mode_Docker, hr_docker_reachable = True,
     hr_last_updated = last_updated, hr_snapshot_version = snapshot_observation_token last_updated,
     hr_model_revision = [], hr_message = Some ''Docker engine connected''\<rparr>"

datatype docker_read = Read docker_snapshot "(compose_scan \<times> compose_runtime_binding) option"
  | Read_Failed string | Read_TimedOut | Not_Connected string | Forced_Mock

definition docker_candidate :: "cache_env \<Rightarrow> fresh_entropy \<Rightarrow> docker_snapshot
    \<Rightarrow> (compose_scan \<times> compose_runtime_binding) option \<Rightarrow> daemon_cache" where
  "docker_candidate env entropy observed binding =
     (let snapshot = observed\<lparr>sn_images := derive_images observed\<rparr>
      in new_cache env entropy snapshot (docker_health (sn_last_updated snapshot)) 0 binding)"

definition with_message :: "string \<Rightarrow> daemon_cache \<Rightarrow> daemon_cache" where
  "with_message message c = c\<lparr>dc_health := redact_health_response ((dc_health c)\<lparr>hr_message := Some message\<rparr>)\<rparr>"

definition collect_snapshot :: "cache_env \<Rightarrow> fresh_entropy \<Rightarrow> u64 \<Rightarrow> docker_read \<Rightarrow> daemon_cache option" where
  "collect_snapshot env entropy now read =
     (case read of
        Read snapshot binding \<Rightarrow> (let c = docker_candidate env entropy snapshot binding
          in Some (c\<lparr>dc_health := redact_health_response (dc_health c)\<rparr>))
      | Read_Failed err \<Rightarrow> map_option (with_message (''Docker read failed, serving mock data: '' @ err))
          (mock_cache env entropy now)
      | Read_TimedOut \<Rightarrow> map_option (with_message ''Docker snapshot read timed out, serving mock data'')
          (mock_cache env entropy now)
      | Not_Connected err \<Rightarrow> map_option (with_message (''Docker unavailable, serving mock data: '' @ err))
          (mock_cache env entropy now)
      | Forced_Mock \<Rightarrow> map_option (with_message ''Mock mode forced by DOCKERMAP_FORCE_MOCK'')
          (mock_cache env entropy now))"

section \<open>Operations on the cache\<close>

definition inherited :: "fresh_entropy \<Rightarrow> daemon_cache \<Rightarrow> daemon_cache \<Rightarrow> daemon_cache option" where
  "inherited entropy cache updated =
     (let same_source = (hr_mode (dc_health cache) = hr_mode (dc_health updated));
          providers = (if same_source then dc_runtime_providers cache else source_reset_provider_slots)
      in map_option (\<lambda>generation. updated\<lparr>dc_source_generation := generation,
             dc_runtime_providers :=
               (if same_source \<and> \<not> same_collection_evidence (dc_snapshot cache) (dc_snapshot updated)
                then mark_network_observation_stale providers else providers),
             dc_docker_revision := dc_docker_revision cache,
             dc_integrity_revision :=
               (if same_source then dc_integrity_revision cache else dc_integrity_revision updated),
             dc_observed_history := (if same_source then dc_observed_history cache else history_new (fe_source entropy))\<rparr>)
           (if same_source then Some (dc_source_generation cache)
            else checked_add1 (dc_source_generation cache)))"

definition observe_publication :: "cache_env \<Rightarrow> fresh_entropy \<Rightarrow> daemon_cache \<Rightarrow> daemon_cache option" where
  "observe_publication env entropy c =
     (if hr_mode (dc_health c) = Mode_Docker
      then map_option (\<lambda>h. c\<lparr>dc_observed_history := h\<rparr>)
        (observe_published_snapshot (ce_sha256 env) (fe_reset entropy)
          ((publish_docker_snapshot (dc_snapshot c))\<lparr>sn_last_updated := sn_last_updated (dc_snapshot c),
             sn_model_revision := []\<rparr>) (dc_observed_history c))
      else Some c)"

definition publish_docker_snapshot_cache :: "cache_env \<Rightarrow> fresh_entropy \<Rightarrow> daemon_cache \<Rightarrow> daemon_cache
    \<Rightarrow> daemon_cache option" where
  "publish_docker_snapshot_cache env entropy cache updated =
     (case inherited entropy cache updated of None \<Rightarrow> None | Some c1 \<Rightarrow>
      case rebuild_runtime_map env c1 of None \<Rightarrow> None | Some c2 \<Rightarrow>
      case assign_revision env (c2\<lparr>dc_revision := dc_revision cache\<rparr>) of None \<Rightarrow> None | Some c3 \<Rightarrow>
      observe_publication env entropy c3)"

definition claim_due_provider_slots :: "cache_env \<Rightarrow> (provider_slot \<Rightarrow> u64 option) \<Rightarrow> nat \<Rightarrow> nat
    \<Rightarrow> daemon_cache \<Rightarrow> (provider_slot list \<times> daemon_cache) option" where
  "claim_due_provider_slots env clock now active cache =
     (case claim_due_slots_with_active_workers clock (dc_runtime_providers cache) now
             MAX_CONCURRENT_PROVIDER_SLOTS active of (due, slots) \<Rightarrow>
        let cache' = cache\<lparr>dc_runtime_providers := slots\<rparr>
        in if due = [] then Some (due, cache')
           else map_option (Pair due) (Option.bind (rebuild_runtime_map env cache') (assign_revision env)))"

definition apply_provider_slot_outcome :: "cache_env \<Rightarrow> provider_slot \<Rightarrow> docker_snapshot \<Rightarrow> runtime_mode
    \<Rightarrow> u64 \<Rightarrow> collection_outcome \<Rightarrow> u64 option \<Rightarrow> nat \<Rightarrow> daemon_cache \<Rightarrow> daemon_cache option" where
  "apply_provider_slot_outcome env slot observed_snapshot observed_mode observed_generation outcome
     completed_ms completed_at cache =
     (if hr_mode (dc_health cache) \<noteq> observed_mode \<or> dc_source_generation cache \<noteq> observed_generation
      then Some cache
      else case apply_slot_outcome (ce_js env) (sanitized_observable_identity env)
                  (boot_instance_component (ce_boot env))
                  (same_collection_evidence (dc_snapshot cache) observed_snapshot) outcome completed_ms
                  completed_at (dc_runtime_providers cache slot) of
             None \<Rightarrow> None
           | Some st \<Rightarrow> Option.bind
               (rebuild_runtime_map env
                 (cache\<lparr>dc_runtime_providers := (dc_runtime_providers cache)(slot := st)\<rparr>))
               (assign_revision env))"

text \<open>One tick of the refresh loop: publish what was read, then claim slots in Docker mode.\<close>

definition refresh_cache :: "cache_env \<Rightarrow> fresh_entropy \<Rightarrow> u64 \<Rightarrow> docker_read \<Rightarrow> (provider_slot \<Rightarrow> u64 option)
    \<Rightarrow> nat \<Rightarrow> nat \<Rightarrow> daemon_cache \<Rightarrow> (provider_slot list \<times> daemon_cache) option" where
  "refresh_cache env entropy now read clock tick active cache =
     (case Option.bind (collect_snapshot env entropy now read) (publish_docker_snapshot_cache env entropy cache) of
        None \<Rightarrow> None
      | Some c \<Rightarrow> if hr_mode (dc_health c) = Mode_Docker
                then claim_due_provider_slots env clock tick active c else Some ([], c))"

end
