(* ===== verification/Ip_Addr.thy ===== *)
theory Ip_Addr
  imports Rust_Str
begin

text \<open>
  Rust's \<open>std::net::IpAddr\<close> as the daemon uses it: the text parser and the loopback test. The
  parser follows the standard library: an IPv4 address is four numbers of one to three digits
  without a leading zero, an IPv6 address up to eight groups of one to four hexadecimal digits,
  one \<open>::\<close>, and an IPv4 address at the end; the whole text must be consumed. A reader is a
  function from the remaining text to a value and the rest, or \<open>None\<close>, which consumes nothing.
\<close>

datatype ip_addr = V4 "nat list" | V6 "nat list"

definition ip_is_loopback :: "ip_addr \<Rightarrow> bool" where
  "ip_is_loopback a = (case a of
     V4 octets \<Rightarrow> octets \<noteq> [] \<and> hd octets = 127
   | V6 segments \<Rightarrow> segments = [0, 0, 0, 0, 0, 0, 0, 1])"

definition to_digit :: "nat \<Rightarrow> char \<Rightarrow> nat option" where
  "to_digit radix c =
     (let d = if is_ascii_digit c then byte c - 48
              else if 97 \<le> byte c \<and> byte c \<le> 122 then byte c - 87
              else if 65 \<le> byte c \<and> byte c \<le> 90 then byte c - 55 else radix
      in if d < radix then Some d else None)"

text \<open>The digit loop of \<open>read_number\<close>: value, number of digits and rest; \<open>None\<close> on overflow or too many digits.\<close>

fun read_digits :: "nat \<Rightarrow> nat \<Rightarrow> nat \<Rightarrow> nat \<Rightarrow> nat \<Rightarrow> string \<Rightarrow> (nat \<times> nat \<times> string) option" where
  "read_digits radix bound max_digits v n [] = Some (v, n, [])"
| "read_digits radix bound max_digits v n (c # cs) =
     (case to_digit radix c of
        None \<Rightarrow> Some (v, n, c # cs)
      | Some d \<Rightarrow>
          if bound \<le> v * radix + d \<or> max_digits < Suc n then None
          else read_digits radix bound max_digits (v * radix + d) (Suc n) cs)"

definition read_number :: "nat \<Rightarrow> nat \<Rightarrow> nat \<Rightarrow> bool \<Rightarrow> string \<Rightarrow> (nat \<times> string) option" where
  "read_number radix bound max_digits allow_zero_prefix s =
     (case read_digits radix bound max_digits 0 0 s of
        None \<Rightarrow> None
      | Some (v, n, rest) \<Rightarrow>
          if n = 0 \<or> (\<not> allow_zero_prefix \<and> hd s = CHR ''0'' \<and> 1 < n) then None
          else Some (v, rest))"

definition read_given_char :: "char \<Rightarrow> string \<Rightarrow> string option" where
  "read_given_char c s = (case s of [] \<Rightarrow> None | d # ds \<Rightarrow> if d = c then Some ds else None)"

text \<open>\<open>read_separator(sep, index, inner)\<close>: the separator comes before every element but the first.\<close>

definition read_separator :: "char \<Rightarrow> nat \<Rightarrow> (string \<Rightarrow> ('a \<times> string) option) \<Rightarrow> string \<Rightarrow> ('a \<times> string) option" where
  "read_separator sep index reader s =
     (if index = 0 then reader s else Option.bind (read_given_char sep s) reader)"

fun read_octets :: "nat \<Rightarrow> nat \<Rightarrow> string \<Rightarrow> (nat list \<times> string) option" where
  "read_octets i 0 s = Some ([], s)"
| "read_octets i (Suc k) s =
     (case read_separator (CHR ''.'') i (read_number 10 256 3 False) s of
        None \<Rightarrow> None
      | Some (v, rest) \<Rightarrow> map_option (\<lambda>(vs, r). (v # vs, r)) (read_octets (Suc i) k rest))"

definition read_ipv4_addr :: "string \<Rightarrow> (nat list \<times> string) option" where
  "read_ipv4_addr s = read_octets 0 4 s"

text \<open>\<open>read_groups\<close> for \<open>limit\<close> groups from index \<open>i\<close>: the groups read, whether an IPv4 address ended them, the rest.\<close>

function read_groups :: "nat \<Rightarrow> nat \<Rightarrow> string \<Rightarrow> nat list \<times> bool \<times> string" where
  "read_groups limit i s =
     (if limit \<le> i then ([], False, s)
      else case (if i + 1 < limit then read_separator (CHR '':'') i read_ipv4_addr s else None) of
        Some (octets, rest) \<Rightarrow>
          ([octets ! 0 * 256 + octets ! 1, octets ! 2 * 256 + octets ! 3], True, rest)
      | None \<Rightarrow>
          (case read_separator (CHR '':'') i (read_number 16 65536 4 True) s of
             None \<Rightarrow> ([], False, s)
           | Some (g, rest) \<Rightarrow>
               (case read_groups limit (Suc i) rest of (gs, v4, r) \<Rightarrow> (g # gs, v4, r))))"
  by pat_completeness auto
termination
  by (relation "measure (\<lambda>(limit, i, s). limit - i)") auto

declare read_groups.simps [simp del]

definition read_ipv6_addr :: "string \<Rightarrow> (nat list \<times> string) option" where
  "read_ipv6_addr s =
     (case read_groups 8 0 s of (head, head_ipv4, rest) \<Rightarrow>
        if length head = 8 then Some (head, rest)
        else if head_ipv4 then None
        else Option.bind (Option.bind (read_given_char (CHR '':'') rest) (read_given_char (CHR '':'')))
          (\<lambda>rest'. case read_groups (8 - (length head + 1)) 0 rest' of (tail, _, rest'') \<Rightarrow>
             Some (head @ replicate (8 - length head - length tail) 0 @ tail, rest'')))"

definition parse_ip_addr :: "string \<Rightarrow> ip_addr option" where
  "parse_ip_addr s =
     (case (case read_ipv4_addr s of
              Some (octets, rest) \<Rightarrow> Some (V4 octets, rest)
            | None \<Rightarrow> map_option (\<lambda>(segments, rest). (V6 segments, rest)) (read_ipv6_addr s)) of
        Some (a, []) \<Rightarrow> Some a
      | _ \<Rightarrow> None)"

text \<open>\<open>Display\<close> of an IPv4 address.\<close>

definition show_ipv4 :: "nat list \<Rightarrow> string" where
  "show_ipv4 octets = show_nat (octets ! 0) @ ''.'' @ show_nat (octets ! 1) @ ''.''
     @ show_nat (octets ! 2) @ ''.'' @ show_nat (octets ! 3)"

section \<open>IPv4 text\<close>

lemma to_digit_10: "to_digit 10 c = (if is_ascii_digit c then Some (digit_val c) else None)"
  by (auto simp: to_digit_def digit_val_def is_ascii_digit_def Let_def)

lemma dec_value_ge: "dec_value v ds = Some w \<Longrightarrow> v \<le> w"
  by (induction v ds rule: dec_value.induct) (auto split: if_splits)

lemma dec_value_digits: "dec_value v ds = Some w \<Longrightarrow> list_all is_ascii_digit ds"
  by (induction v ds rule: dec_value.induct) (auto split: if_splits)

lemma read_digits_dec:
  "v < 256 \<Longrightarrow> n \<le> 3 \<Longrightarrow> read_digits 10 256 3 v n s = Some (w, m, rest) \<longleftrightarrow>
     (\<exists>ds. s = ds @ rest \<and> dec_value v ds = Some w \<and> w < 256 \<and> m = n + length ds \<and> m \<le> 3
        \<and> (rest = [] \<or> \<not> is_ascii_digit (hd rest)))"
proof (induction s arbitrary: v n)
  case (Cons c s)
  show ?case
  proof (cases "is_ascii_digit c")
    case False
    then have "s' = [] \<or> c \<noteq> hd s'" if "dec_value v s' = Some w" for s'
      using that by (cases s') (auto split: if_splits)
    then show ?thesis using False Cons.prems
      by (force simp: to_digit_10 Cons_eq_append_conv)
  next
    case True
    let ?v = "v * 10 + digit_val c"
    have ex: "(\<exists>ds. c # s = ds @ rest \<and> P ds) \<longleftrightarrow> (\<exists>ds. s = ds @ rest \<and> P (c # ds))"
      if "P [] \<longrightarrow> rest = [] \<or> \<not> is_ascii_digit (hd rest)" for P
      using that True by (force simp: Cons_eq_append_conv)
    show ?thesis
    proof (cases "256 \<le> ?v \<or> 3 < Suc n")
      case True
      have "\<not> (dec_value v (c # ds) = Some w \<and> w < 256 \<and> n + length (c # ds) \<le> 3)" for ds
        using True dec_value_ge [of ?v ds w] \<open>is_ascii_digit c\<close> by auto
      then show ?thesis using True \<open>is_ascii_digit c\<close> by (subst ex) (auto simp: to_digit_10)
    next
      case False
      then show ?thesis using Cons.IH [of ?v "Suc n"] True by (subst ex) (auto simp: to_digit_10)
    qed
  qed
qed auto

lemma show_nat_canonical:
  "dec_value 0 ds = Some w \<Longrightarrow> ds \<noteq> [] \<Longrightarrow> hd ds \<noteq> CHR ''0'' \<or> length ds = 1 \<Longrightarrow> show_nat w = ds"
proof (induction ds arbitrary: w rule: rev_induct)
  case (snoc d ds)
  obtain v where v: "dec_value 0 ds = Some v" "is_ascii_digit d" "w = v * 10 + digit_val d"
    using snoc.prems(1) by (auto simp: dec_value_append split: option.splits if_splits)
  have d: "digit_val d < 10" "char_of (48 + digit_val d) = d"
    using v(2) by (auto simp: is_ascii_digit_def digit_val_def)
  show ?case
  proof (cases "ds = []")
    case True
    then show ?thesis using v d by (subst show_nat.simps) simp
  next
    case False
    have hd: "hd ds \<noteq> CHR ''0''" using snoc.prems(3) False by (auto simp: hd_append)
    have "show_nat v = ds" using snoc.IH v(1) False hd by blast
    moreover have "show_nat 0 = ''0''" by code_simp
    then have "v \<noteq> 0" using calculation(1) hd by (metis list.sel(1))
    ultimately show ?thesis using v d by (subst show_nat.simps) simp
  qed
qed simp

lemma show_nat_hd_zero: "hd (show_nat v) = CHR ''0'' \<Longrightarrow> length (show_nat v) = 1"
proof (induction v rule: show_nat.induct)
  case (1 v)
  show ?case
  proof (cases "v < 10")
    case True
    then show ?thesis by (subst show_nat.simps) simp
  next
    case False
    then have "hd (show_nat (v div 10)) = CHR ''0''"
      using "1.prems" show_nat_nonempty by (subst (asm) show_nat.simps) simp
    then have "show_nat (v div 10) = ''0''"
      using "1.IH" False by (cases "show_nat (v div 10)") auto
    then have "v div 10 = 0" using dec_value_show_nat [of "v div 10"]
      by (simp add: is_ascii_digit_def digit_val_def byte_def)
    then show ?thesis using False by simp
  qed
qed

lemma show_nat_length_3: "v < 1000 \<Longrightarrow> length (show_nat v) \<le> 3"
  by (subst show_nat.simps, subst show_nat.simps, subst show_nat.simps) simp

definition digit_ends :: "string \<Rightarrow> bool" where
  "digit_ends rest \<longleftrightarrow> rest = [] \<or> \<not> is_ascii_digit (hd rest)"

lemma read_number_dec:
  "read_number 10 256 3 False s = Some (v, rest) \<longleftrightarrow> v < 256 \<and> s = show_nat v @ rest \<and> digit_ends rest"
proof
  assume "read_number 10 256 3 False s = Some (v, rest)"
  then obtain n where rd: "read_digits 10 256 3 0 0 s = Some (v, n, rest)" "n \<noteq> 0"
      "\<not> (hd s = CHR ''0'' \<and> 1 < n)"
    by (auto simp: read_number_def split: option.splits if_splits)
  then obtain ds where ds: "s = ds @ rest" "dec_value 0 ds = Some v" "v < 256" "n = length ds" "digit_ends rest"
    by (auto simp: read_digits_dec digit_ends_def)
  then have "hd ds \<noteq> CHR ''0'' \<or> length ds = 1" using rd(2,3) by (cases ds) auto
  then have "show_nat v = ds" using show_nat_canonical ds(2,4) rd(2) by auto
  then show "v < 256 \<and> s = show_nat v @ rest \<and> digit_ends rest" using ds by simp
next
  assume a: "v < 256 \<and> s = show_nat v @ rest \<and> digit_ends rest"
  then have "read_digits 10 256 3 0 0 s = Some (v, length (show_nat v), rest)"
    using dec_value_show_nat [of v] show_nat_length_3 [of v]
    by (auto simp: read_digits_dec digit_ends_def)
  then show "read_number 10 256 3 False s = Some (v, rest)"
    using a show_nat_nonempty [of v] show_nat_hd_zero [of v] by (auto simp: read_number_def hd_append)
qed

fun show_octets :: "nat \<Rightarrow> nat list \<Rightarrow> string" where
  "show_octets i [] = []"
| "show_octets i (v # vs) = (if i = 0 then [] else ''.'') @ show_nat v @ show_octets (Suc i) vs"

lemma show_octets_ends: "0 < i \<Longrightarrow> digit_ends rest \<Longrightarrow> digit_ends (show_octets i vs @ rest)"
  by (cases vs) (auto simp: digit_ends_def is_ascii_digit_def byte_def)

lemma read_separator_Some:
  "read_separator sep i f s = Some x \<longleftrightarrow> (\<exists>s'. s = (if i = 0 then [] else [sep]) @ s' \<and> f s' = Some x)"
  by (cases s) (auto simp: read_separator_def read_given_char_def)

lemma read_octets_dec:
  "read_octets i k s = Some (os, r) \<longleftrightarrow>
     length os = k \<and> (\<forall>v \<in> set os. v < 256) \<and> s = show_octets i os @ r \<and> (k = 0 \<or> digit_ends r)"
proof (induction k arbitrary: i s os)
  case (Suc k)
  have "read_octets i (Suc k) s = Some (os, r) \<longleftrightarrow>
      (\<exists>v vs rest. os = v # vs \<and> read_separator (CHR ''.'') i (read_number 10 256 3 False) s = Some (v, rest)
        \<and> read_octets (Suc i) k rest = Some (vs, r))"
    by (auto split: option.splits)
  also have "\<dots> \<longleftrightarrow> (\<exists>v vs rest. os = v # vs \<and> v < 256 \<and> s = (if i = 0 then [] else ''.'') @ show_nat v @ rest
      \<and> digit_ends rest \<and> length vs = k \<and> (\<forall>v \<in> set vs. v < 256) \<and> rest = show_octets (Suc i) vs @ r
      \<and> (k = 0 \<or> digit_ends r))"
    unfolding read_separator_Some read_number_dec Suc.IH by blast
  also have "\<dots> \<longleftrightarrow> length os = Suc k \<and> (\<forall>v \<in> set os. v < 256) \<and> s = show_octets i os @ r \<and> digit_ends r"
    using show_octets_ends [of "Suc i"] by (auto simp: length_Suc_conv)
  finally show ?case by simp
qed auto

lemma read_ipv4_exact:
  "read_ipv4_addr s = Some (octets, rest) \<longleftrightarrow>
     length octets = 4 \<and> (\<forall>v \<in> set octets. v < 256) \<and> s = show_ipv4 octets @ rest \<and> digit_ends rest"
proof -
  have "show_octets 0 octets = show_ipv4 octets" if "length octets = 4"
    using that by (auto simp: show_ipv4_def numeral_eq_Suc length_Suc_conv)
  then show ?thesis by (auto simp: read_ipv4_addr_def read_octets_dec)
qed

text \<open>An IPv4 address has exactly one text, the one \<open>Display\<close> writes.\<close>

lemma parse_ipv4_exact:
  "parse_ip_addr s = Some (V4 octets) \<longleftrightarrow>
     length octets = 4 \<and> (\<forall>v \<in> set octets. v < 256) \<and> s = show_ipv4 octets"
proof -
  have "parse_ip_addr s = Some (V4 octets) \<longleftrightarrow> read_ipv4_addr s = Some (octets, [])"
    by (auto simp: parse_ip_addr_def split: option.splits list.splits prod.splits)
  then show ?thesis by (auto simp: read_ipv4_exact digit_ends_def)
qed

section \<open>Well-formed addresses\<close>

definition ip_addr_wf :: "ip_addr \<Rightarrow> bool" where
  "ip_addr_wf a = (case a of
     V4 octets \<Rightarrow> length octets = 4 \<and> (\<forall>v \<in> set octets. v < 256)
   | V6 segments \<Rightarrow> length segments = 8 \<and> (\<forall>v \<in> set segments. v < 65536))"

lemma read_digits_bound: "v < bound \<Longrightarrow> read_digits radix bound k v n s = Some (w, m, rest) \<Longrightarrow> w < bound"
  by (induction radix bound k v n s rule: read_digits.induct)
    (auto split: option.splits if_splits)

lemma read_number_bound: "0 < bound \<Longrightarrow> read_number radix bound k z s = Some (v, rest) \<Longrightarrow> v < bound"
  using read_digits_bound by (fastforce simp: read_number_def split: option.splits if_splits)

lemma read_groups_wf:
  assumes "read_groups limit i s = (gs, v4, rest)" and "i \<le> limit"
  shows "i + length gs \<le> limit \<and> (\<forall>g \<in> set gs. g < 65536)"
  using assms
proof (induction limit i s arbitrary: gs rule: read_groups.induct)
  case (1 limit i s)
  show ?case
  proof (cases "limit \<le> i")
    case True
    then have "gs = []" using "1.prems"(1) by (subst (asm) read_groups.simps) simp
    then show ?thesis using "1.prems"(2) by simp
  next
    case False
    let ?v4 = "if i + 1 < limit then read_separator (CHR '':'') i read_ipv4_addr s else None"
    let ?g = "read_separator (CHR '':'') i (read_number 16 65536 4 True) s"
    show ?thesis
    proof (cases ?v4)
      case (Some x)
      obtain octets r where x: "x = (octets, r)" by fastforce
      have "length octets = 4" "\<forall>v \<in> set octets. v < 256" "i + 1 < limit"
        using Some by (auto simp: x read_separator_Some read_ipv4_exact split: if_splits)
      moreover from this have "octets ! k < 256" if "k < 4" for k using that by simp
      from this [of 0] this [of 1] this [of 2] this [of 3]
      have "octets ! 0 * 256 + octets ! 1 < 65536" "octets ! 2 * 256 + octets ! 3 < 65536" by simp_all
      ultimately show ?thesis using "1.prems" False Some
        by (simp add: read_groups.simps [of limit i s] x split: prod.splits) auto
    next
      case None
      show ?thesis
      proof (cases ?g)
        case N: None
        then show ?thesis using "1.prems" False None
          by (simp add: read_groups.simps [of limit i s] split: prod.splits)
      next
        case (Some x)
        obtain g r where x: "x = (g, r)" by fastforce
        obtain gs' v4' r' where rec: "read_groups limit (Suc i) r = (gs', v4', r')" by (cases "read_groups limit (Suc i) r") auto
        have "g < 65536" using Some read_number_bound [of 65536] by (auto simp: x read_separator_Some)
        moreover have "gs = g # gs'" using "1.prems" False None Some rec
          by (simp add: read_groups.simps [of limit i s] x)
        moreover have "rest = r'" "v4 = v4'" using "1.prems" False None Some rec
          by (simp_all add: read_groups.simps [of limit i s] x)
        ultimately show ?thesis
          using "1.IH" [OF False None Some x [symmetric]] rec False by simp
      qed
    qed
  qed
qed

lemma parse_ip_addr_wf: "parse_ip_addr s = Some a \<Longrightarrow> ip_addr_wf a"
proof (cases a)
  case (V4 octets)
  then show "parse_ip_addr s = Some a \<Longrightarrow> ip_addr_wf a" by (simp add: parse_ipv4_exact ip_addr_wf_def)
next
  case (V6 segments)
  assume "parse_ip_addr s = Some a"
  then have "read_ipv6_addr s = Some (segments, [])"
    using V6 by (auto simp: parse_ip_addr_def split: option.splits list.splits prod.splits)
  then have r6: "read_ipv6_addr s = Some (segments, [])" by simp
  obtain head v4 rest where head: "read_groups 8 0 s = (head, v4, rest)" by (cases "read_groups 8 0 s") auto
  have h: "length head \<le> 8" "\<forall>g \<in> set head. g < 65536" using read_groups_wf [OF head] by auto
  show "ip_addr_wf a"
  proof (cases "length head = 8")
    case True
    then show ?thesis using r6 head h by (simp add: V6 ip_addr_wf_def read_ipv6_addr_def)
  next
    case False
    then obtain rest' where "(case read_groups (8 - (length head + 1)) 0 rest' of (tail, _, rest'') \<Rightarrow>
        Some (head @ replicate (8 - length head - length tail) 0 @ tail, rest'')) = Some (segments, [])"
      using r6 head by (auto simp: read_ipv6_addr_def bind_eq_Some_conv split: if_splits)
    then obtain tail v r where tail: "read_groups (8 - (length head + 1)) 0 rest' = (tail, v, r)"
        "segments = head @ replicate (8 - length head - length tail) 0 @ tail"
      by (auto split: prod.splits)
    have "length tail \<le> 7 - length head" "\<forall>g \<in> set tail. g < 65536"
      using read_groups_wf [OF tail(1)] by auto
    then show ?thesis using tail(2) h False by (auto simp: V6 ip_addr_wf_def)
  qed
qed

end
