(* ===== verification/Gateway.thy ===== *)
theory Gateway
  imports Rust_Str
begin

text \<open>
  The default-deny Docker read gateway (\<open>dockermap-docker-gateway/src/lib.rs\<close>): \<open>Policy::new\<close>,
  \<open>Policy::allow\<close> with its inventory and log targets, the label guard of \<open>serve\<close> and the
  request handler. A request is what \<open>http::Request\<close> holds of it: the method, whether the URI
  has a scheme or an authority, the names of its headers (lower case, as the \<open>http\<close> crate keeps
  them), the path and query, and the body, or the failure to read it. A Rust panic is the
  value \<open>None\<close>. The JSON text of a string (\<open>serde_json\<close>), the form encoding of
  bytes (\<open>url\<close>) and the upstream socket are parameters.
\<close>

section \<open>Requests and policies\<close>

record gateway_request =
  gq_method :: string
  gq_scheme :: "string option"
  gq_authority :: "string option"
  gq_headers :: "string list"
  gq_path_and_query :: "string option"
  gq_body :: "string option"

record gateway_policy =
  gp_label_filter :: "string option"

datatype deny = Deny_Method | Deny_Framing | Deny_Target | Deny_Query

definition LOG_TAIL :: string where
  "LOG_TAIL = ''4096''"

definition policy_new :: "string option \<Rightarrow> gateway_policy" where
  "policy_new label_filter = \<lparr>gp_label_filter =
     Option.bind label_filter (\<lambda>value. if trim value \<noteq> [] then Some (trim value) else None)\<rparr>"

section \<open>The allow-list\<close>

definition inventory_filter :: "(string \<Rightarrow> string) \<Rightarrow> (string \<Rightarrow> string) \<Rightarrow> string \<Rightarrow> string \<Rightarrow> string" where
  "inventory_filter json_string byte_serialize label base =
     (let separator = (if ends_with base ''?'' then '''' else ''&'');
          json = ''{\"label\":['' @ json_string label @ '']}''
      in base @ separator @ ''filters='' @ byte_serialize json)"

definition allow_inventory :: "(string \<Rightarrow> string) \<Rightarrow> (string \<Rightarrow> string) \<Rightarrow> gateway_policy
    \<Rightarrow> string \<Rightarrow> string \<Rightarrow> deny + string" where
  "allow_inventory json_string byte_serialize p target base =
     (case gp_label_filter p of
        None \<Rightarrow> if target = base then Inr target else Inl Deny_Query
      | Some label \<Rightarrow>
          if target = inventory_filter json_string byte_serialize label base
          then Inr target else Inl Deny_Query)"

definition container_name_byte :: "nat \<Rightarrow> char \<Rightarrow> bool" where
  "container_name_byte index b =
     (if is_ascii_alphanumeric b then True
      else if b \<in> set ''_.-'' then index \<noteq> 0 else False)"

definition valid_container_name :: "string \<Rightarrow> bool" where
  "valid_container_name name \<longleftrightarrow> name \<noteq> [] \<and> length name \<le> 255
     \<and> list_all (\<lambda>(index, b). container_name_byte index b) (enumerate 0 name)"

text \<open>The range index \<open>&s[from..to]\<close>, which panics unless \<open>from \<le> to \<le> len\<close>.\<close>

definition str_slice :: "string \<Rightarrow> nat \<Rightarrow> nat \<Rightarrow> string option" where
  "str_slice s from to = (if from \<le> to \<and> to \<le> length s then Some (take (to - from) (drop from s)) else None)"

definition LOG_QUERY_PREFIX :: string where
  "LOG_QUERY_PREFIX = ''follow=false&stdout=true&stderr=true&since=0&until=''"

definition LOG_QUERY_SUFFIX :: string where
  "LOG_QUERY_SUFFIX = ''&timestamps=true&tail='' @ LOG_TAIL"

definition until_rejected :: "string \<Rightarrow> bool" where
  "until_rejected u \<longleftrightarrow> u \<noteq> ''0''
     \<and> (\<not> (case u of [] \<Rightarrow> False | v # _ \<Rightarrow> is_ascii_digit v \<and> v \<noteq> CHR ''0'')
        \<or> \<not> list_all is_ascii_digit u)"

definition allow_logs :: "string \<Rightarrow> string \<Rightarrow> string \<Rightarrow> (deny + string) option" where
  "allow_logs target path query =
     (case str_slice path 12 (length path - 5) of
        None \<Rightarrow> None
      | Some name \<Rightarrow> Some (
          if \<not> valid_container_name name then Inl Deny_Target
          else case Option.bind (strip_prefix query LOG_QUERY_PREFIX)
                     (\<lambda>value. strip_suffix value LOG_QUERY_SUFFIX) of
                 None \<Rightarrow> Inl Deny_Query
               | Some u \<Rightarrow>
                   if until_rejected u then Inl Deny_Query
                   else if u = [] \<or> count_list query (CHR ''&'') \<noteq> 6 \<or> CHR ''%'' \<in> set query
                   then Inl Deny_Query
                   else Inr target))"

definition framing_headers :: "string list" where
  "framing_headers = [''content-length'', ''transfer-encoding'', ''upgrade'', ''expect'',
     ''trailer'', ''connection'']"

definition suspicious_path :: "string \<Rightarrow> string \<Rightarrow> bool" where
  "suspicious_path target path \<longleftrightarrow> 1 < count_list target (CHR ''?'')
     \<or> str_contains path ''/./'' \<or> str_contains path ''/../''
     \<or> ends_with path ''/.'' \<or> ends_with path ''/..''
     \<or> CHR ''%'' \<in> set path \<or> CHR 0x5C \<in> set path"

definition allow_target :: "(string \<Rightarrow> string) \<Rightarrow> (string \<Rightarrow> string) \<Rightarrow> gateway_policy
    \<Rightarrow> string \<Rightarrow> (deny + string) option" where
  "allow_target json_string byte_serialize p target =
     (if \<not> starts_with target ''/'' \<or> starts_with target ''//'' then Some (Inl Deny_Target)
      else let (path, query) = (case split_once target (CHR ''?'') of
                 Some pq \<Rightarrow> pq | None \<Rightarrow> (target, []))
      in if suspicious_path target path then Some (Inl Deny_Target)
      else if path = ''/containers/json''
      then Some (allow_inventory json_string byte_serialize p target ''/containers/json?all=true&size=false'')
      else if path = ''/networks'' then Some (allow_inventory json_string byte_serialize p target ''/networks?'')
      else if path = ''/volumes'' then Some (allow_inventory json_string byte_serialize p target ''/volumes?'')
      else if starts_with path ''/containers/'' \<and> ends_with path ''/logs''
      then allow_logs target path query
      else Some (Inl Deny_Target))"

definition policy_allow :: "(string \<Rightarrow> string) \<Rightarrow> (string \<Rightarrow> string) \<Rightarrow> gateway_policy
    \<Rightarrow> gateway_request \<Rightarrow> (deny + string) option" where
  "policy_allow json_string byte_serialize p r =
     (if gq_method r \<noteq> ''GET'' then Some (Inl Deny_Method)
      else if gq_scheme r \<noteq> None \<or> gq_authority r \<noteq> None then Some (Inl Deny_Target)
      else if list_ex (\<lambda>name. name \<in> set (gq_headers r)) framing_headers then Some (Inl Deny_Framing)
      else case gq_path_and_query r of
             None \<Rightarrow> Some (Inl Deny_Target)
           | Some target \<Rightarrow> allow_target json_string byte_serialize p target)"

section \<open>Serving\<close>

definition label_filter_invalid :: "string option \<Rightarrow> bool" where
  "label_filter_invalid label_filter =
     (case label_filter of
        None \<Rightarrow> False
      | Some label \<Rightarrow> trim label = [] \<or> 256 < char_count (trim label)
          \<or> CHR 0x00 \<in> set (trim label) \<or> starts_with (trim label) ''='')"

text \<open>
  What a connection does with a request: an empty response with a status, an error of the
  connection, or the response of the daemon to the \<open>GET\<close> of a target, sent with an empty body.
  \<open>upstream\<close> is the socket: \<open>None\<close> when it cannot be connected, otherwise the response to a
  target, or \<open>None\<close> when the exchange fails.
\<close>

datatype 'r handled = Forbidden | Bad_Gateway | Connection_Error | Forwarded string 'r

definition gateway_handle :: "(string \<Rightarrow> string) \<Rightarrow> (string \<Rightarrow> string)
    \<Rightarrow> (string \<Rightarrow> 'r option) option \<Rightarrow> string option \<Rightarrow> gateway_request \<Rightarrow> 'r handled option" where
  "gateway_handle json_string byte_serialize upstream label_filter r =
     (case policy_allow json_string byte_serialize (policy_new label_filter) r of
        None \<Rightarrow> None
      | Some (Inl _) \<Rightarrow> Some Forbidden
      | Some (Inr target) \<Rightarrow>
          (case gq_body r of
             None \<Rightarrow> Some Connection_Error
           | Some body \<Rightarrow>
               if body \<noteq> [] then Some Forbidden
               else case upstream of
                      None \<Rightarrow> Some Bad_Gateway
                    | Some send \<Rightarrow>
                        (case send target of
                           None \<Rightarrow> Some Connection_Error
                         | Some response \<Rightarrow> Some (Forwarded target response))))"

section \<open>The contract of the gateway\<close>

text \<open>
  The abstract policy: the three inventory targets, with the encoded filter when a label is
  configured, and the log target of a container name and an end time.
\<close>

definition until_value :: "string \<Rightarrow> bool" where
  "until_value u \<longleftrightarrow> u = ''0'' \<or> u \<noteq> [] \<and> hd u \<noteq> CHR ''0'' \<and> list_all is_ascii_digit u"

definition log_target :: "string \<Rightarrow> string \<Rightarrow> string" where
  "log_target name u = ''/containers/'' @ name @ ''/logs'' @ ''?'' @ LOG_QUERY_PREFIX @ u @ LOG_QUERY_SUFFIX"

definition inventory_target :: "(string \<Rightarrow> string) \<Rightarrow> (string \<Rightarrow> string) \<Rightarrow> gateway_policy
    \<Rightarrow> string \<Rightarrow> string" where
  "inventory_target json_string byte_serialize p base =
     (case gp_label_filter p of None \<Rightarrow> base
      | Some label \<Rightarrow> inventory_filter json_string byte_serialize label base)"

definition contract_target :: "(string \<Rightarrow> string) \<Rightarrow> (string \<Rightarrow> string) \<Rightarrow> gateway_policy
    \<Rightarrow> string \<Rightarrow> bool" where
  "contract_target json_string byte_serialize p t \<longleftrightarrow>
     t \<in> inventory_target json_string byte_serialize p `
         {''/containers/json?all=true&size=false'', ''/networks?'', ''/volumes?''}
     \<or> (\<exists>name u. valid_container_name name \<and> until_value u \<and> t = log_target name u)"

text \<open>What the \<open>url\<close> crate documents: the encoded bytes are a value of a query, without \<open>?\<close>.\<close>

definition encodes_query :: "(string \<Rightarrow> string) \<Rightarrow> bool" where
  "encodes_query byte_serialize \<longleftrightarrow> (\<forall>s. CHR ''?'' \<notin> set (byte_serialize s))"

lemma contains_skip:
  "c \<notin> set a \<Longrightarrow> str_contains (a @ s) (c # p) \<longleftrightarrow> str_contains s (c # p)"
  by (induction a) auto

lemma valid_name_bytes:
  assumes "valid_container_name name"
  shows "\<exists>c cs. name = c # cs \<and> is_ascii_alphanumeric c
    \<and> (\<forall>d \<in> set cs. is_ascii_alphanumeric d \<or> d \<in> set ''_.-'')"
proof (cases name)
  case (Cons c cs)
  have "list_all (\<lambda>(i, b). container_name_byte i b) ((0, c) # enumerate 1 cs)"
    using assms Cons by (simp add: valid_container_name_def)
  then have c: "container_name_byte 0 c" and cs: "\<forall>(i, b) \<in> set (enumerate 1 cs). container_name_byte i b"
    by (auto simp: list_all_iff)
  have "container_name_byte (1 + k) (cs ! k)" if "k < length cs" for k
    using cs that by (auto simp: in_set_enumerate_eq dest!: bspec [where x = "(1 + k, cs ! k)"])
  then have "\<forall>d \<in> set cs. \<exists>i. container_name_byte i d"
    by (metis in_set_conv_nth)
  then show ?thesis using c Cons
    by (auto simp: container_name_byte_def split: if_splits)
qed (use assms in \<open>simp add: valid_container_name_def\<close>)

lemma alphanumeric_not [simp]:
  "is_ascii_alphanumeric c \<Longrightarrow> c \<notin> {CHR ''?'', CHR ''/'', CHR ''%'', CHR 0x5C, CHR ''.'', CHR ''&''}"
  by (auto simp: is_ascii_alphanumeric_def is_ascii_alphabetic_def is_ascii_digit_def byte_def)

lemma valid_name_set:
  "valid_container_name name \<Longrightarrow> set name \<inter> {CHR ''?'', CHR ''/'', CHR ''%'', CHR 0x5C, CHR ''&''} = {}"
  using valid_name_bytes [of name] alphanumeric_not by fastforce

lemma log_path_not_suspicious:
  assumes "valid_container_name name"
  shows "\<not> str_contains (''/containers/'' @ name @ ''/logs'') ''/./''"
    and "\<not> str_contains (''/containers/'' @ name @ ''/logs'') ''/../''"
    and "\<not> ends_with (''/containers/'' @ name @ ''/logs'') ''/.''"
    and "\<not> ends_with (''/containers/'' @ name @ ''/logs'') ''/..''"
    and "set (''/containers/'' @ name @ ''/logs'') \<inter> {CHR ''%'', CHR 0x5C, CHR ''?''} = {}"
proof -
  have slash: "CHR ''/'' \<notin> set name" using valid_name_set [OF assms] by auto
  obtain c cs where n: "name = c # cs" "c \<noteq> CHR ''.''"
    using valid_name_bytes [OF assms] alphanumeric_not by blast
  show "\<not> str_contains (''/containers/'' @ name @ ''/logs'') ''/./''"
    using contains_skip [OF slash, of "''/logs''" "''./''"] n by simp
  show "\<not> str_contains (''/containers/'' @ name @ ''/logs'') ''/../''"
    using contains_skip [OF slash, of "''/logs''" "''../''"] n by simp
  show "\<not> ends_with (''/containers/'' @ name @ ''/logs'') ''/.''"
    "\<not> ends_with (''/containers/'' @ name @ ''/logs'') ''/..''"
    by (simp_all add: ends_with_def suffix_to_prefix)
  show "set (''/containers/'' @ name @ ''/logs'') \<inter> {CHR ''%'', CHR 0x5C, CHR ''?''} = {}"
    using valid_name_set [OF assms] by auto
qed

lemma until_accepted: "\<not> until_rejected u \<and> u \<noteq> [] \<longleftrightarrow> until_value u"
  by (cases u) (auto simp: until_rejected_def until_value_def)

lemma until_digits: "until_value u \<Longrightarrow> c \<in> set u \<Longrightarrow> is_ascii_digit c"
  by (auto simp: until_value_def list_all_iff is_ascii_digit_def byte_def)

lemma digit_not [simp]: "is_ascii_digit c \<Longrightarrow> c \<notin> {CHR ''?'', CHR ''%'', CHR ''&''}"
  by (auto simp: is_ascii_digit_def byte_def)

lemma slice_log_path:
  "path = ''/containers/'' @ name @ ''/logs'' \<Longrightarrow> str_slice path 12 (length path - 5) = Some name"
  by (simp add: str_slice_def)

lemma log_path_cases:
  assumes "starts_with path ''/containers/''" and "ends_with path ''/logs''"
  shows "path = ''/containers/logs'' \<or> (\<exists>name. path = ''/containers/'' @ name @ ''/logs'')"
proof -
  obtain r where r: "path = ''/containers/'' @ r" using assms(1) by (auto simp: starts_with_def prefix_def)
  have suf: "prefix ''sgol/'' (rev r @ ''/sreniatnoc/'')"
    using assms(2) by (simp add: r ends_with_def suffix_to_prefix)
  show ?thesis
  proof (cases "length r < 5")
    case True
    then consider "rev r = []" | a where "rev r = [a]" | a b where "rev r = [a, b]"
      | a b c where "rev r = [a, b, c]" | a b c d where "rev r = [a, b, c, d]"
      by (cases "rev r" rule: list.exhaust; auto simp: less_Suc_eq length_Suc_conv numeral_eq_Suc)
    then show ?thesis
      using suf by cases (simp_all add: r rev_swap)
  next
    case False
    have "prefix ''sgol/'' (rev r)" using suf
      by (rule prefix_length_prefix) (use False in \<open>auto simp: not_less\<close>)
    then have "suffix ''/logs'' r" by (simp add: suffix_to_prefix)
    then show ?thesis by (auto simp: r suffix_def)
  qed
qed

lemma allow_logs_accepts:
  assumes "path = ''/containers/'' @ name @ ''/logs''"
  shows "allow_logs target path query = Some (Inr t) \<longleftrightarrow> t = target \<and> valid_container_name name
    \<and> (\<exists>u. until_value u \<and> query = LOG_QUERY_PREFIX @ u @ LOG_QUERY_SUFFIX)"
proof -
  have amp: "count_list (LOG_QUERY_PREFIX @ u @ LOG_QUERY_SUFFIX) (CHR ''&'') = 6
      \<and> CHR ''%'' \<notin> set (LOG_QUERY_PREFIX @ u @ LOG_QUERY_SUFFIX)" if "until_value u" for u
  proof -
    have "CHR ''&'' \<notin> set u" "CHR ''%'' \<notin> set u"
      using until_digits [OF that] digit_not by blast+
    then show ?thesis
      by (simp add: LOG_QUERY_PREFIX_def LOG_QUERY_SUFFIX_def LOG_TAIL_def count_list_0_iff)
  qed
  have split: "Option.bind (strip_prefix query LOG_QUERY_PREFIX) (\<lambda>value. strip_suffix value LOG_QUERY_SUFFIX)
      = Some u \<longleftrightarrow> query = LOG_QUERY_PREFIX @ u @ LOG_QUERY_SUFFIX" for u
    by (auto simp: bind_eq_Some_conv strip_prefix_Some strip_suffix_Some)
  show ?thesis
  proof (cases "Option.bind (strip_prefix query LOG_QUERY_PREFIX) (\<lambda>value. strip_suffix value LOG_QUERY_SUFFIX)")
    case None
    then show ?thesis unfolding allow_logs_def slice_log_path [OF assms] using split by auto
  next
    case (Some u)
    then have q: "query = LOG_QUERY_PREFIX @ u @ LOG_QUERY_SUFFIX" using split by blast
    have "(\<exists>u'. until_value u' \<and> query = LOG_QUERY_PREFIX @ u' @ LOG_QUERY_SUFFIX) \<longleftrightarrow> until_value u"
      by (auto simp: q)
    then show ?thesis unfolding allow_logs_def slice_log_path [OF assms] option.case Some
      using amp [of u] until_accepted [of u] by (auto simp: q)
  qed
qed

lemma allow_logs_never_panics:
  "path = ''/containers/'' @ name @ ''/logs'' \<Longrightarrow> allow_logs target path query \<noteq> None"
  unfolding allow_logs_def by (drule slice_log_path) simp

lemma allow_logs_panics: "allow_logs target ''/containers/logs'' query = None"
  by (simp add: allow_logs_def str_slice_def)

lemma allow_inventory_accepts:
  "allow_inventory js bs p target base = Inr t \<longleftrightarrow> t = target \<and> target = inventory_target js bs p base"
  by (auto simp: allow_inventory_def inventory_target_def split: option.splits)

lemma inventory_target_shape:
  assumes "encodes_query bs"
  shows "\<exists>q. inventory_target js bs p ''/containers/json?all=true&size=false'' = ''/containers/json'' @ ''?'' @ q \<and> CHR ''?'' \<notin> set q"
    and "\<exists>q. inventory_target js bs p ''/networks?'' = ''/networks'' @ ''?'' @ q \<and> CHR ''?'' \<notin> set q"
    and "\<exists>q. inventory_target js bs p ''/volumes?'' = ''/volumes'' @ ''?'' @ q \<and> CHR ''?'' \<notin> set q"
  using assms
  by (auto simp: inventory_target_def inventory_filter_def encodes_query_def Let_def split: option.splits)

text \<open>A target splits into its path and query at the only question mark.\<close>

lemma allow_target_split:
  assumes "target = path @ ''?'' @ q" and "CHR ''?'' \<notin> set path" and "CHR ''?'' \<notin> set q"
    and "starts_with path ''/''" and "\<not> starts_with path ''//''" and "2 \<le> length path"
    and "\<not> str_contains path ''/./''" "\<not> str_contains path ''/../''" "\<not> ends_with path ''/.''"
      "\<not> ends_with path ''/..''" "set path \<inter> {CHR ''%'', CHR 0x5C} = {}"
  shows "allow_target js bs p target =
     (if path = ''/containers/json''
      then Some (allow_inventory js bs p target ''/containers/json?all=true&size=false'')
      else if path = ''/networks'' then Some (allow_inventory js bs p target ''/networks?'')
      else if path = ''/volumes'' then Some (allow_inventory js bs p target ''/volumes?'')
      else if starts_with path ''/containers/'' \<and> ends_with path ''/logs''
      then allow_logs target path q
      else Some (Inl Deny_Target))"
proof -
  have "split_once target (CHR ''?'') = Some (path, q)" using assms(1,2) by simp
  moreover have "starts_with target ''/''" "\<not> starts_with target ''//''"
    using assms(1,4-6) by (cases path; cases "tl path"; simp add: starts_with_def)+
  moreover have "\<not> suspicious_path target path"
    using assms by (simp add: suspicious_path_def count_list_0_iff)
  ultimately show ?thesis by (simp add: allow_target_def)
qed

lemma allow_target_accepts_only:
  assumes "allow_target js bs p target = Some (Inr t)"
  shows "t = target \<and> contract_target js bs p t"
proof -
  obtain path query where pq: "(case split_once target (CHR ''?'') of Some pq \<Rightarrow> pq | None \<Rightarrow> (target, [])) = (path, query)"
    by fastforce
  let ?logs = "starts_with path ''/containers/'' \<and> ends_with path ''/logs''"
  consider b where "b \<in> {''/containers/json?all=true&size=false'', ''/networks?'', ''/volumes?''}"
      "allow_inventory js bs p target b = Inr t"
    | "?logs" "allow_logs target path query = Some (Inr t)"
    using assms unfolding allow_target_def Let_def pq by (auto split: if_splits)
  then show ?thesis
  proof cases
    case 1
    then show ?thesis by (auto simp: allow_inventory_accepts contract_target_def)
  next
    case 2
    then obtain name where path: "path = ''/containers/'' @ name @ ''/logs''"
      using log_path_cases allow_logs_panics by (metis option.distinct(1))
    obtain u where t: "t = target" "valid_container_name name" "until_value u"
        "query = LOG_QUERY_PREFIX @ u @ LOG_QUERY_SUFFIX"
      using 2(2) by (auto simp: allow_logs_accepts [OF path])
    have "split_once target (CHR ''?'') = Some (path, query)"
      using pq t(4) by (auto simp: LOG_QUERY_PREFIX_def split: option.splits)
    then have "target = log_target name u"
      by (simp add: split_once_Some log_target_def path t(4))
    then show ?thesis using t by (auto simp: contract_target_def)
  qed
qed

lemma allow_target_accepts:
  assumes "encodes_query bs" and "contract_target js bs p t"
  shows "allow_target js bs p t = Some (Inr t)"
proof -
  consider b where "b \<in> {''/containers/json?all=true&size=false'', ''/networks?'', ''/volumes?''}"
      "t = inventory_target js bs p b"
    | name u where "valid_container_name name" "until_value u" "t = log_target name u"
    using assms(2) by (auto simp: contract_target_def)
  then show ?thesis
  proof cases
    case 1
    then consider "t = inventory_target js bs p ''/containers/json?all=true&size=false''"
      | "t = inventory_target js bs p ''/networks?''" | "t = inventory_target js bs p ''/volumes?''" by auto
    then show ?thesis
    proof cases
      case 1
      then obtain q where "t = ''/containers/json'' @ ''?'' @ q" "CHR ''?'' \<notin> set q"
        using inventory_target_shape(1) [OF assms(1)] by blast
      with 1 show ?thesis
        by (subst allow_target_split [where path = "''/containers/json''" and q = q])
          (simp_all add: starts_with_def ends_with_def suffix_to_prefix allow_inventory_accepts)
    next
      case 2
      then obtain q where "t = ''/networks'' @ ''?'' @ q" "CHR ''?'' \<notin> set q"
        using inventory_target_shape(2) [OF assms(1)] by blast
      with 2 show ?thesis
        by (subst allow_target_split [where path = "''/networks''" and q = q])
          (simp_all add: starts_with_def ends_with_def suffix_to_prefix allow_inventory_accepts)
    next
      case 3
      then obtain q where "t = ''/volumes'' @ ''?'' @ q" "CHR ''?'' \<notin> set q"
        using inventory_target_shape(3) [OF assms(1)] by blast
      with 3 show ?thesis
        by (subst allow_target_split [where path = "''/volumes''" and q = q])
          (simp_all add: starts_with_def ends_with_def suffix_to_prefix allow_inventory_accepts)
    qed
  next
    case 2
    let ?path = "''/containers/'' @ name @ ''/logs''" and ?q = "LOG_QUERY_PREFIX @ u @ LOG_QUERY_SUFFIX"
    have q: "CHR ''?'' \<notin> set ?q"
      using until_digits [OF 2(2)] digit_not
      by (auto simp: LOG_QUERY_PREFIX_def LOG_QUERY_SUFFIX_def LOG_TAIL_def)
    have "allow_target js bs p t = allow_logs t ?path ?q"
      using log_path_not_suspicious [OF 2(1)]
      by (subst allow_target_split [where path = ?path and q = ?q, OF _ _ q])
        (auto simp: 2(3) log_target_def starts_with_def ends_with_def suffix_to_prefix)
    then show ?thesis using 2 allow_logs_accepts [OF refl] by auto
  qed
qed

lemma allow_target_panics:
  "allow_target js bs p target = None \<longleftrightarrow>
     (\<exists>query. CHR ''?'' \<notin> set query \<and> target \<in> {''/containers/logs'', ''/containers/logs?'' @ query})"
  (is "?panics \<longleftrightarrow> ?overlap")
proof
  assume panics: ?panics
  obtain path query where pq: "(case split_once target (CHR ''?'') of Some pq \<Rightarrow> pq | None \<Rightarrow> (target, [])) = (path, query)"
    by fastforce
  have "starts_with path ''/containers/'' \<and> ends_with path ''/logs''" "allow_logs target path query = None"
      "\<not> suspicious_path target path"
    using panics unfolding allow_target_def Let_def pq by (auto split: if_splits)
  then have path: "path = ''/containers/logs''" and "\<not> 1 < count_list target (CHR ''?'')"
    using log_path_cases allow_logs_never_panics by (blast, simp add: suspicious_path_def)
  show ?overlap
  proof (cases "split_once target (CHR ''?'')")
    case None
    then show ?thesis using pq path by (auto intro: exI [where x = "[]"])
  next
    case (Some pq')
    then have target: "target = path @ CHR ''?'' # query" using pq by (simp add: split_once_Some)
    moreover have "CHR ''?'' \<notin> set query"
      using \<open>\<not> 1 < count_list target (CHR ''?'')\<close> by (simp add: target count_list_0_iff [symmetric])
    ultimately show ?thesis by (auto simp: path)
  qed
next
  assume ?overlap
  then obtain query where q: "CHR ''?'' \<notin> set query"
      "target = ''/containers/logs'' \<or> target = ''/containers/logs'' @ CHR ''?'' # query" by auto
  have "split_once ''/containers/logs'' (CHR ''?'') = None" by simp
  then show ?panics
    using q allow_logs_panics split_once_append [of "CHR ''?''" "''/containers/logs''" query]
    by (elim disjE) (simp_all add: allow_target_def suspicious_path_def starts_with_def ends_with_def
        suffix_to_prefix count_list_0_iff)
qed

section \<open>Properties\<close>

lemmas framing_defs = framing_headers_def list_ex_iff

text \<open>
  C36. The gateway is default-deny: it sends a request to the Docker daemon exactly when it is a
  \<open>GET\<close> in origin form, without a framing header and with an empty body, whose target is one
  of the contract, and then it sends that target unchanged.
\<close>

theorem gateway_forwards_exactly:
  assumes "encodes_query byte_serialize"
  shows "gateway_handle json_string byte_serialize upstream label r = Some (Forwarded t response)
    \<longleftrightarrow> gq_method r = ''GET'' \<and> gq_scheme r = None \<and> gq_authority r = None
      \<and> set (gq_headers r) \<inter> set framing_headers = {} \<and> gq_body r = Some []
      \<and> gq_path_and_query r = Some t
      \<and> contract_target json_string byte_serialize (policy_new label) t
      \<and> (\<exists>send. upstream = Some send \<and> send t = Some response)"
proof -
  let ?p = "policy_new label"
  have allow: "policy_allow json_string byte_serialize ?p r = Some (Inr t') \<longleftrightarrow>
      gq_method r = ''GET'' \<and> gq_scheme r = None \<and> gq_authority r = None
      \<and> set (gq_headers r) \<inter> set framing_headers = {} \<and> gq_path_and_query r = Some t'
      \<and> contract_target json_string byte_serialize ?p t'" for t'
    using allow_target_accepts_only [of json_string byte_serialize ?p]
      allow_target_accepts [OF assms, of json_string ?p]
    by (auto simp: policy_allow_def framing_defs split: option.splits)
  show ?thesis
    using allow by (auto simp: gateway_handle_def split: option.splits sum.splits if_splits)
qed

theorem gateway_forwards_exactly_witness:
  "gateway_handle id (filter is_ascii_alphanumeric) (Some (\<lambda>t. Some (length t))) (Some '' app '')
     \<lparr>gq_method = ''GET'', gq_scheme = None, gq_authority = None, gq_headers = [''host''],
      gq_path_and_query = Some ''/networks?filters=labelapp'', gq_body = Some []\<rparr>
   = Some (Forwarded ''/networks?filters=labelapp'' 26)"
proof -
  have "encodes_query (filter is_ascii_alphanumeric)"
    using alphanumeric_not by (auto simp: encodes_query_def)
  moreover have "inventory_target id (filter is_ascii_alphanumeric) (policy_new (Some '' app '')) ''/networks?''
      = ''/networks?filters=labelapp''" by code_simp
  then have "contract_target id (filter is_ascii_alphanumeric) (policy_new (Some '' app '')) ''/networks?filters=labelapp''"
    unfolding contract_target_def by (metis image_eqI insertCI)
  ultimately show ?thesis
    by (subst gateway_forwards_exactly) (simp_all add: framing_headers_def)
qed

text \<open>
  The gateway panics for exactly one path, \<open>/containers/logs\<close>, where the prefix and the
  suffix of a log path overlap and the slice between them is reversed. Such a request is not
  refused as a target outside the contract.
\<close>

lemma gateway_panics_exactly:
  "gateway_handle json_string byte_serialize upstream label r = None
   \<longleftrightarrow> gq_method r = ''GET'' \<and> gq_scheme r = None \<and> gq_authority r = None
     \<and> set (gq_headers r) \<inter> set framing_headers = {}
     \<and> (\<exists>query. CHR ''?'' \<notin> set query
         \<and> gq_path_and_query r \<in> {Some ''/containers/logs'', Some (''/containers/logs?'' @ query)})"
proof -
  have "gateway_handle json_string byte_serialize upstream label r = None
      \<longleftrightarrow> policy_allow json_string byte_serialize (policy_new label) r = None"
    by (auto simp: gateway_handle_def split: option.splits sum.splits)
  also have "\<dots> \<longleftrightarrow> gq_method r = ''GET'' \<and> gq_scheme r = None \<and> gq_authority r = None
     \<and> set (gq_headers r) \<inter> set framing_headers = {}
     \<and> (\<exists>t. gq_path_and_query r = Some t \<and> allow_target json_string byte_serialize (policy_new label) t = None)"
    by (auto simp: policy_allow_def framing_defs split: option.splits)
  finally show ?thesis by (simp only: allow_target_panics insert_iff empty_iff) blast
qed

end
