(* ===== verification/Access.thy ===== *)
theory Access
  imports Ip_Addr Gateway
begin

text \<open>
  Who may talk to the daemon: startup configuration (\<open>config.rs\<close>, \<open>docker_config.rs\<close>, the
  settings \<open>main\<close> reads before it serves) and the bearer-token middleware (\<open>auth.rs\<close>). The
  process environment is a function from names to what \<open>std::env::var\<close> returns. A startup
  function returns \<open>Inl\<close> of the exit code where the code calls \<open>std::process::exit\<close>; the text it
  writes to standard error first is left out. File-system access is a parameter.
\<close>

section \<open>Environment\<close>

datatype env_var = Present string | Not_Present | Not_Unicode

type_synonym environment = "string \<Rightarrow> env_var"
type_synonym 'a startup = "nat + 'a"

fun env_ok :: "env_var \<Rightarrow> string option" where
  "env_ok (Present value) = Some value"
| "env_ok _ = None"

definition read_port_env :: "environment \<Rightarrow> string \<Rightarrow> nat \<Rightarrow> nat startup" where
  "read_port_env env name fallback =
     (case env_ok (env name) of
        Some value \<Rightarrow> (case parse_uint 16 value of Some port \<Rightarrow> Inr port | None \<Rightarrow> Inl 2)
      | None \<Rightarrow> Inr fallback)"

definition read_optional_token_env :: "environment \<Rightarrow> string \<Rightarrow> string option startup" where
  "read_optional_token_env env name =
     (case env_ok (env name) of
        Some value \<Rightarrow> if trim value = [] then Inl 2 else Inr (Some (trim value))
      | None \<Rightarrow> Inr None)"

definition read_daemon_token_env :: "environment \<Rightarrow> string option startup" where
  "read_daemon_token_env env =
     (case read_optional_token_env env ''DOCKERMAP_DAEMON_TOKEN'' of
        Inr None \<Rightarrow> read_optional_token_env env ''DOCKERMAP_API_TOKEN''
      | r \<Rightarrow> r)"

definition read_allow_mock_env :: "environment \<Rightarrow> bool" where
  "read_allow_mock_env env \<longleftrightarrow> env_ok (env ''DOCKERMAP_ALLOW_MOCK'') = Some ''true''"

definition validate_bind_host :: "string \<Rightarrow> bool \<Rightarrow> bool \<Rightarrow> string + ip_addr" where
  "validate_bind_host value allow_remote has_daemon_token =
     (let value' = if eq_ignore_ascii_case value ''localhost'' then ''127.0.0.1'' else value
      in case parse_ip_addr value' of
           None \<Rightarrow> Inl ''must be an IP address or localhost''
         | Some host \<Rightarrow>
             if \<not> ip_is_loopback host \<and> \<not> allow_remote
             then Inl ''must be loopback unless DOCKERMAP_ALLOW_REMOTE_DAEMON=true''
             else if \<not> ip_is_loopback host \<and> \<not> has_daemon_token
             then Inl ''requires a non-empty DOCKERMAP_DAEMON_TOKEN or DOCKERMAP_API_TOKEN for non-loopback binding''
             else Inr host)"

definition read_bind_host_env :: "environment \<Rightarrow> string \<Rightarrow> bool \<Rightarrow> ip_addr startup" where
  "read_bind_host_env env name has_daemon_token =
     (let value = (case env_ok (env name) of Some v \<Rightarrow> v | None \<Rightarrow> ''127.0.0.1'');
          allow_remote = (env_ok (env ''DOCKERMAP_ALLOW_REMOTE_DAEMON'') = Some ''true'')
      in case validate_bind_host value allow_remote has_daemon_token of
           Inr host \<Rightarrow> Inr host | Inl _ \<Rightarrow> Inl 2)"

definition project_root :: "(string \<Rightarrow> string + string) \<Rightarrow> environment \<Rightarrow> string + string" where
  "project_root canonicalize env =
     (let root = (case env_ok (env ''DOCKERMAP_PROJECT_ROOT'') of Some v \<Rightarrow> v | None \<Rightarrow> ''.'')
      in case canonicalize root of
           Inr path \<Rightarrow> Inr path
         | Inl err \<Rightarrow> Inl (''invalid project root `'' @ root @ ''`: '' @ err))"

text \<open>What \<open>main\<close> reads, in its order, before it starts the collectors and the server.\<close>

record server_settings =
  st_token :: "string option"
  st_port :: nat
  st_host :: ip_addr
  st_allow_mock :: bool

definition read_server_settings :: "environment \<Rightarrow> server_settings startup" where
  "read_server_settings env =
     (case read_daemon_token_env env of Inl code \<Rightarrow> Inl code | Inr token \<Rightarrow>
      case read_port_env env ''DOCKERMAP_DAEMON_PORT'' 4100 of Inl code \<Rightarrow> Inl code | Inr port \<Rightarrow>
      case read_bind_host_env env ''DOCKERMAP_DAEMON_HOST'' (token \<noteq> None) of Inl code \<Rightarrow> Inl code | Inr host \<Rightarrow>
        Inr \<lparr>st_token = token, st_port = port, st_host = host, st_allow_mock = read_allow_mock_env env\<rparr>)"

section \<open>Docker collector configuration\<close>

definition MAX_DOCKER_LABEL_FILTER_CHARS :: nat where
  "MAX_DOCKER_LABEL_FILTER_CHARS = 256"

definition DEFAULT_DOCKER_GATEWAY_SOCKET :: string where
  "DEFAULT_DOCKER_GATEWAY_SOCKET = ''/run/dockermap/docker-read.sock''"

definition validate_docker_gateway_socket :: "string \<Rightarrow> string + string" where
  "validate_docker_gateway_socket socket =
     (if socket = [] \<or> 512 < length socket \<or> CHR 0x00 \<in> set socket
      then Inl ''invalid DOCKERMAP_DOCKER_GATEWAY_SOCKET''
      else if socket = ''/var/run/docker.sock'' \<or> socket = ''/run/docker.sock''
      then Inl ''DOCKERMAP_DOCKER_GATEWAY_SOCKET must not name Docker's raw socket''
      else Inr socket)"

definition docker_gateway_socket_from_env :: "environment \<Rightarrow> string + string" where
  "docker_gateway_socket_from_env env =
     validate_docker_gateway_socket
       (case env_ok (env ''DOCKERMAP_DOCKER_GATEWAY_SOCKET'') of
          Some socket \<Rightarrow> socket | None \<Rightarrow> DEFAULT_DOCKER_GATEWAY_SOCKET)"

definition parse_docker_label_filter :: "string \<Rightarrow> string + string option" where
  "parse_docker_label_filter value =
     (let trimmed = trim value
      in if trimmed = [] then Inr None
      else if MAX_DOCKER_LABEL_FILTER_CHARS < char_count trimmed
      then Inl (''label filter must be '' @ show_nat MAX_DOCKER_LABEL_FILTER_CHARS @ '' characters or fewer'')
      else if CHR 0x00 \<in> set trimmed then Inl ''label filter must not contain NUL bytes''
      else if starts_with trimmed ''='' then Inl ''label filter key must not be empty''
      else Inr (Some trimmed))"

definition docker_label_filter_from_env :: "environment \<Rightarrow> string + string option" where
  "docker_label_filter_from_env env =
     (case env ''DOCKERMAP_DOCKER_LABEL_FILTER'' of
        Present value \<Rightarrow>
          (case parse_docker_label_filter value of
             Inr l \<Rightarrow> Inr l
           | Inl message \<Rightarrow> Inl (''invalid DOCKERMAP_DOCKER_LABEL_FILTER: '' @ message))
      | Not_Present \<Rightarrow> Inr None
      | Not_Unicode \<Rightarrow> Inl ''invalid DOCKERMAP_DOCKER_LABEL_FILTER: value must be valid UTF-8'')"

section \<open>Bearer authentication\<close>

text \<open>\<open>HeaderValue::to_str\<close>: visible ASCII and tabs only.\<close>

definition header_to_str :: "string \<Rightarrow> string option" where
  "header_to_str value =
     (if list_all (\<lambda>c. 32 \<le> byte c \<and> byte c < 127 \<or> byte c = 9) value then Some value else None)"

definition byte_word :: "char \<Rightarrow> 8 word" where
  "byte_word c = word_of_nat (byte c)"

definition daemon_token_matches :: "string \<Rightarrow> string \<Rightarrow> bool" where
  "daemon_token_matches received expected =
     (if length received \<noteq> length expected then False
      else foldl (\<lambda>difference (left, right). or difference (xor left right)) 0
             (zip (map byte_word received) (map byte_word expected)) = (0 :: 8 word))"

definition received_token :: "(string \<times> string) list \<Rightarrow> string option" where
  "received_token headers =
     Option.bind (Option.bind (map_of headers ''authorization'') header_to_str)
       (\<lambda>value. case split_whitespace value of
          [scheme, token] \<Rightarrow> if scheme = ''Bearer'' then Some token else None
        | _ \<Rightarrow> None)"

datatype auth_outcome = Run_Next | Unauthorized

definition require_daemon_bearer_token :: "string option \<Rightarrow> (string \<times> string) list \<Rightarrow> auth_outcome" where
  "require_daemon_bearer_token daemon_token headers =
     (case daemon_token of
        None \<Rightarrow> Run_Next
      | Some expected \<Rightarrow>
          (case received_token headers of
             Some token \<Rightarrow> if daemon_token_matches token expected then Run_Next else Unauthorized
           | None \<Rightarrow> Unauthorized))"

section \<open>Authentication\<close>

lemma byte_word_inj: "byte_word c = byte_word d \<longleftrightarrow> c = d"
proof
  assume "byte_word c = byte_word d"
  then have "unat (byte_word c) = unat (byte_word d)" by simp
  then have "byte c = byte d"
    using byte_less_256 [of c] byte_less_256 [of d] by (simp add: byte_word_def unat_of_nat)
  then show "c = d" by (simp add: byte_eq_iff)
qed simp

lemma or_eq_0_word: "or (a :: 8 word) b = 0 \<longleftrightarrow> a = 0 \<and> b = 0"
  by (metis or.right_neutral or_eq_0_iff)

lemma difference_fold:
  "length xs = length ys \<Longrightarrow>
   foldl (\<lambda>difference (left, right). or difference (xor left right)) a (zip xs ys) = (0 :: 8 word)
     \<longleftrightarrow> a = 0 \<and> xs = ys"
proof (induction xs ys arbitrary: a rule: list_induct2)
  case (Cons x xs y ys)
  have "xor x y = 0 \<longleftrightarrow> x = y" by (metis xor_self_eq xor.left_neutral xor.assoc xor.right_neutral)
  then show ?case using Cons by (auto simp: or_eq_0_word)
qed simp

text \<open>The comparison looks at every byte and still decides equality.\<close>

lemma daemon_token_matches_eq: "daemon_token_matches received expected \<longleftrightarrow> received = expected"
proof -
  have "map byte_word received = map byte_word expected \<longleftrightarrow> received = expected"
    by (rule inj_map_eq_map) (simp add: inj_def byte_word_inj)
  then show ?thesis
    by (auto simp: daemon_token_matches_def difference_fold)
qed

lemma received_token_Some:
  "received_token headers = Some token \<longleftrightarrow>
     (\<exists>value. map_of headers ''authorization'' = Some value \<and> header_to_str value = Some value
        \<and> split_whitespace value = [''Bearer'', token])"
proof -
  have two: "(case parts of [scheme, token] \<Rightarrow> if scheme = ''Bearer'' then Some token else None | _ \<Rightarrow> None)
      = Some token \<longleftrightarrow> parts = [''Bearer'', token]" for parts :: "string list"
    by (auto split: list.splits if_splits)
  show ?thesis
    unfolding received_token_def bind_eq_Some_conv two by (auto simp: header_to_str_def split: if_splits)
qed

definition presentable :: "string \<Rightarrow> bool" where
  "presentable token \<longleftrightarrow> token \<noteq> [] \<and> list_all (\<lambda>c. 32 < byte c \<and> byte c < 127) token"

lemma split_ws_token:
  "t \<noteq> [] \<Longrightarrow> \<forall>c \<in> set t. \<not> is_whitespace c \<Longrightarrow> split_ws t = [t]"
  "t \<noteq> [] \<Longrightarrow> \<forall>c \<in> set t. \<not> is_whitespace c \<Longrightarrow> is_whitespace w \<Longrightarrow> split_ws (t @ w # r) = t # split_ws r"
  by (cases t; simp add: takeWhile_eq_all_conv [THEN iffD2] dropWhile_eq_Nil_conv [THEN iffD2]
      takeWhile_append dropWhile_append)+

lemma visible_not_whitespace: "32 < n \<Longrightarrow> n < 127 \<Longrightarrow> \<not> is_whitespace n"
  by (auto simp: is_whitespace_def)

lemma split_bearer:
  assumes "presentable token"
  shows "split_whitespace (''Bearer '' @ token) = [''Bearer'', token]"
proof -
  let ?t = "map byte token" and ?b = "map byte ''Bearer''"
  have t: "?t \<noteq> []" "\<forall>c \<in> set ?t. \<not> is_whitespace c" "\<forall>c \<in> set token. byte c < 128"
    using assms visible_not_whitespace by (auto simp: presentable_def list_all_iff)
  have b: "?b \<noteq> []" "\<forall>c \<in> set ?b. \<not> is_whitespace c" "\<forall>c \<in> set ''Bearer''. byte c < 128"
    by (auto simp: byte_def is_whitespace_def)
  have "\<forall>c \<in> set (''Bearer '' @ token). byte c < 128" using t(3) by (auto simp: byte_def)
  then have "chars (''Bearer '' @ token) = ?b @ 32 # ?t" by (simp add: chars_ascii byte_def)
  then have "split_ws (chars (''Bearer '' @ token)) = [?b, ?t]"
    using split_ws_token(2) [OF b(1,2), of 32 ?t] split_ws_token(1) [OF t(1,2)]
    by (simp add: is_whitespace_def)
  then show ?thesis
    using of_chars_ascii [OF b(3)] of_chars_ascii [OF t(3)] by (simp add: split_whitespace_def)
qed

lemma split_ws_subset: "t \<in> set (split_ws cs) \<Longrightarrow> set t \<subseteq> set cs"
proof (induction cs rule: split_ws.induct)
  case (2 c cs)
  show ?case
  proof (cases "is_whitespace c")
    case True
    then show ?thesis using 2 by auto
  next
    case False
    then show ?thesis using "2.prems" "2.IH"(2) [OF False]
      by (auto dest: set_takeWhileD set_dropWhileD)
  qed
qed simp

lemma split_whitespace_presentable:
  assumes "header_to_str value = Some v" and "token \<in> set (split_whitespace value)"
  shows "presentable token"
proof -
  have vis: "\<forall>c \<in> set value. 32 \<le> byte c \<and> byte c < 127 \<or> byte c = 9"
    using assms(1) by (auto simp: header_to_str_def list_all_iff split: if_splits)
  then have ascii: "\<forall>c \<in> set value. byte c < 128" by force
  obtain t where t: "t \<in> set (split_ws (map byte value))" "token = of_chars t"
    using assms(2) chars_ascii [OF ascii] by (auto simp: split_whitespace_def)
  obtain s where s: "t = map byte s" "set s \<subseteq> set value"
  proof -
    have "set t \<subseteq> byte ` set value" using split_ws_subset [OF t(1)] by simp
    then have "\<exists>s. t = map byte s \<and> set s \<subseteq> set value"
      by (induction t) (auto, metis insert_subset list.set(2) list.simps(9))
    then show ?thesis using that by blast
  qed
  have "token = s" using t(2) s of_chars_ascii [of s] ascii by auto
  moreover have "32 < byte c \<and> byte c < 127" if "c \<in> set s" for c
  proof -
    have "\<not> is_whitespace (byte c)" using split_ws_tokens [OF t(1)] s(1) that by auto
    then show ?thesis using vis s(2) that by (auto simp: is_whitespace_def le_less dest!: bspec)
  qed
  ultimately show ?thesis
    using split_ws_tokens [OF t(1)] s(1) by (auto simp: presentable_def list_all_iff)
qed

text \<open>
  With a token configured, a request passes the middleware exactly when its first
  \<open>Authorization\<close> header is visible ASCII and consists of the two words \<open>Bearer\<close> and the token.
  Some request passes if and only if the token is a nonempty run of visible characters, so a
  token with a space or a non-ASCII byte, which the configuration accepts, shuts every client out.
\<close>

lemma bearer_auth_exact:
  "(require_daemon_bearer_token (Some expected) headers = Run_Next
      \<longleftrightarrow> (\<exists>v. map_of headers ''authorization'' = Some v \<and> header_to_str v \<noteq> None
            \<and> split_whitespace v = [''Bearer'', expected]))
   \<and> ((\<exists>hs. require_daemon_bearer_token (Some expected) hs = Run_Next) \<longleftrightarrow> presentable expected)"
proof -
  have run: "require_daemon_bearer_token (Some expected) hs = Run_Next
      \<longleftrightarrow> (\<exists>v. map_of hs ''authorization'' = Some v \<and> header_to_str v = Some v
            \<and> split_whitespace v = [''Bearer'', expected])" for hs
    using received_token_Some [of hs expected]
    by (auto simp: require_daemon_bearer_token_def daemon_token_matches_eq split: option.splits)
  have "require_daemon_bearer_token (Some expected) [(''authorization'', ''Bearer '' @ expected)] = Run_Next"
    if p: "presentable expected"
  proof -
    have "header_to_str (''Bearer '' @ expected) = Some (''Bearer '' @ expected)"
      using p by (auto simp: header_to_str_def presentable_def list_all_iff byte_def)
    then show ?thesis unfolding run using split_bearer [OF p] by simp
  qed
  moreover have "presentable expected" if "require_daemon_bearer_token (Some expected) hs = Run_Next" for hs
    using that split_whitespace_presentable unfolding run by fastforce
  moreover have "header_to_str v \<noteq> None \<longleftrightarrow> header_to_str v = Some v" for v
    by (simp add: header_to_str_def)
  ultimately show ?thesis using run by blast
qed

section \<open>Startup\<close>

lemma token_env_trimmed:
  "read_daemon_token_env env = Inr (Some token) \<Longrightarrow> token \<noteq> []"
  by (auto simp: read_daemon_token_env_def read_optional_token_env_def
      split: option.splits sum.splits if_splits)

text \<open>
  A variable that is not valid Unicode counts as unset for the token, which turns
  authentication off, whereas the label filter reports it.
\<close>

lemma non_unicode_token_ignored:
  assumes "env ''DOCKERMAP_DAEMON_TOKEN'' = Not_Unicode" and "env ''DOCKERMAP_API_TOKEN'' = Not_Present"
  shows "read_daemon_token_env env = Inr None"
  by (simp add: read_daemon_token_env_def read_optional_token_env_def assms)

text \<open>The error message of the port promises 1 to 65535; zero and a plus sign are accepted.\<close>

lemma port_zero_accepted:
  "env name = Present ''0'' \<Longrightarrow> read_port_env env name fallback = Inr 0"
  "env name = Present ''+80'' \<Longrightarrow> read_port_env env name fallback = Inr 80"
  by (simp_all add: read_port_env_def parse_uint_def is_ascii_digit_def digit_val_def byte_def)

text \<open>
  A host is accepted exactly when it is a loopback address (the name \<open>localhost\<close> in any
  case among them), or any other IP address when remote access is allowed and a token is
  configured; the address bound is the one parsed, and is well formed.
\<close>

lemma validate_bind_host_exact:
  "validate_bind_host value allow_remote has_token = Inr host \<longleftrightarrow>
     (if eq_ignore_ascii_case value ''localhost'' then host = V4 [127, 0, 0, 1]
      else parse_ip_addr value = Some host \<and> ip_addr_wf host
        \<and> (ip_is_loopback host \<or> allow_remote \<and> has_token))"
proof -
  have "parse_ip_addr ''127.0.0.1'' = Some (V4 [127, 0, 0, 1])"
    unfolding parse_ipv4_exact by code_simp
  then show ?thesis
    by (auto simp: validate_bind_host_def Let_def ip_is_loopback_def parse_ip_addr_wf split: option.splits)
qed

text \<open>
  A daemon that starts on an address other than loopback demands a token from every
  request: remote access was allowed explicitly, a nonempty token is configured, and the
  middleware passes only requests that present it.
\<close>

lemma remote_requires_token:
  assumes "read_server_settings env = Inr s" and "\<not> ip_is_loopback (st_host s)"
  shows "env ''DOCKERMAP_ALLOW_REMOTE_DAEMON'' = Present ''true''
     \<and> (\<exists>token. st_token s = Some token \<and> token \<noteq> []
         \<and> (\<forall>headers. require_daemon_bearer_token (st_token s) headers = Run_Next
              \<longleftrightarrow> received_token headers = Some token))"
proof -
  obtain host where s: "read_daemon_token_env env = Inr (st_token s)"
      "read_bind_host_env env ''DOCKERMAP_DAEMON_HOST'' (st_token s \<noteq> None) = Inr (st_host s)"
    using assms(1) by (auto simp: read_server_settings_def split: sum.splits)
  obtain v where v: "validate_bind_host v (env_ok (env ''DOCKERMAP_ALLOW_REMOTE_DAEMON'') = Some ''true'')
      (st_token s \<noteq> None) = Inr (st_host s)"
    using s(2) by (auto simp: read_bind_host_env_def Let_def split: sum.splits)
  have "ip_is_loopback (st_host s) \<or> env_ok (env ''DOCKERMAP_ALLOW_REMOTE_DAEMON'') = Some ''true'' \<and> st_token s \<noteq> None"
    using v by (auto simp: validate_bind_host_def Let_def split: option.splits if_splits)
  then obtain token where token: "st_token s = Some token" "env_ok (env ''DOCKERMAP_ALLOW_REMOTE_DAEMON'') = Some ''true''"
    using assms(2) by auto
  then have "env ''DOCKERMAP_ALLOW_REMOTE_DAEMON'' = Present ''true''"
    by (cases "env ''DOCKERMAP_ALLOW_REMOTE_DAEMON''") auto
  moreover have "token \<noteq> []" using token_env_trimmed s(1) token(1) by simp
  moreover have "require_daemon_bearer_token (st_token s) headers = Run_Next
      \<longleftrightarrow> received_token headers = Some token" for headers
    by (auto simp: token(1) require_daemon_bearer_token_def daemon_token_matches_eq split: option.splits)
  ultimately show ?thesis using token(1) by blast
qed

definition example_environment :: environment where
  "example_environment = (\<lambda>_. Not_Present)(''DOCKERMAP_DAEMON_TOKEN'' := Present ''tok'',
     ''DOCKERMAP_DAEMON_HOST'' := Present ''10.0.0.1'', ''DOCKERMAP_ALLOW_REMOTE_DAEMON'' := Present ''true'')"

section \<open>The label filter of both sides\<close>

text \<open>
  The daemon and the gateway read a label filter alike: the gateway serves a configured
  label exactly when the daemon would filter by it, and both use the same trimmed label.
\<close>

lemma label_filter_agreement:
  "(\<not> label_filter_invalid (Some label) \<longleftrightarrow> parse_docker_label_filter label = Inr (Some (trim label)))
   \<and> (parse_docker_label_filter label = Inr (Some l) \<longrightarrow> gp_label_filter (policy_new (Some label)) = Some l)"
  by (auto simp: label_filter_invalid_def parse_docker_label_filter_def Let_def policy_new_def
      MAX_DOCKER_LABEL_FILTER_CHARS_def)

end
