(* ===== verification/Compose_Api.thy ===== *)
theory Compose_Api
  imports Request_Query Compose_Scan Compose_Edit Compose_Runtime Cache Access
begin

text \<open>
  The Compose routes and the command line (\<open>compose_api.rs\<close>): which file of the project root a request
  may name, the scan, graph and edit plan made of it, and what the commands print and return. The file
  system, the environment, the parser of forms and the YAML library are parameters. The diagnostic that
  a handler writes to standard error is left out; the response keeps only the fixed message.
\<close>

text \<open>What a request reads: \<open>rq_files\<close> is the file system of the scanner.\<close>

record request_io =
  rq_env :: environment
  rq_canonicalize :: "string \<Rightarrow> string + string"
  rq_symlink_metadata :: "string \<Rightarrow> string + bool"
  rq_read_to_string :: "string \<Rightarrow> string + string"
  rq_files :: compose_io

definition compose_file_unavailable :: api_error where
  "compose_file_unavailable = bad_request ''requested Compose file is unavailable''"

definition compose_inspection_unavailable :: api_error where
  "compose_inspection_unavailable = \<lparr>ae_status = 500, ae_message = ''Compose inspection is unavailable''\<rparr>"

definition compose_scan_unavailable :: api_error where
  "compose_scan_unavailable = bad_request ''Compose scan is unavailable''"

section \<open>Files below the project root\<close>

text \<open>The loop that looks at each path from the root down to the file.\<close>

fun reject_symlinks :: "(string \<Rightarrow> string + bool) \<Rightarrow> string \<Rightarrow> path_component list \<Rightarrow> string + unit" where
  "reject_symlinks metadata current [] = Inr ()"
| "reject_symlinks metadata current (component # rest) =
     (let path = path_join current (as_os_str component) in
      case metadata path of
        Inl err \<Rightarrow> Inl (''cannot inspect `'' @ path @ ''`: '' @ err)
      | Inr is_symlink \<Rightarrow>
          if is_symlink then Inl (''compose file path `'' @ path @ ''` contains a symlink; refusing to follow it'')
          else reject_symlinks metadata path rest)"

definition reject_symlink_path :: "request_io \<Rightarrow> string \<Rightarrow> string \<Rightarrow> string + unit" where
  "reject_symlink_path io root path =
     (case path_strip_prefix path root of
        None \<Rightarrow> Inl (''compose file `'' @ path @ ''` is outside project root `'' @ root @ ''`'')
      | Some relative \<Rightarrow> reject_symlinks (rq_symlink_metadata io) root relative)"

definition resolve_scannable_file :: "request_io \<Rightarrow> string \<Rightarrow> string \<Rightarrow> string + string" where
  "resolve_scannable_file io root requested =
     (if trim requested = [] \<or> CHR 0x00 \<in> set requested then Inl ''compose file path is empty or invalid''
      else if ParentDir \<in> set (components requested)
      then Inl (''compose file `'' @ requested @ ''` must not contain parent traversal'')
      else
        let candidate = (if has_root requested then requested else path_join root requested) in
        case reject_symlink_path io root candidate of Inl e \<Rightarrow> Inl e | Inr _ \<Rightarrow>
        case rq_canonicalize io candidate of
          Inl err \<Rightarrow> Inl (''compose file `'' @ candidate @ ''` is not readable: '' @ err)
        | Inr canonical \<Rightarrow>
            if \<not> path_starts_with canonical root
            then Inl (''compose file `'' @ canonical @ ''` is outside project root `'' @ root @ ''`'')
            else if \<not> io_is_file (rq_files io) canonical
            then Inl (''compose file `'' @ canonical @ ''` is not a file'')
            else Inr canonical)"

text \<open>
  A discovered path is the root joined with a file name, so what is left after the prefix is that name.
\<close>

definition discovered_request :: "string \<Rightarrow> string \<Rightarrow> string" where
  "discovered_request root path =
     (case path_strip_prefix path root of None \<Rightarrow> path | Some relative \<Rightarrow> str_join ''/'' (map as_os_str relative))"

definition resolve_discovered :: "request_io \<Rightarrow> string \<Rightarrow> string + string list" where
  "resolve_discovered io root =
     collect_results (\<lambda>path. resolve_scannable_file io root (discovered_request root path))
       (discover_compose_files (rq_files io) root)"

definition request_root :: "request_io \<Rightarrow> string + string" where
  "request_root io = project_root (rq_canonicalize io) (rq_env io)"

section \<open>The routes\<close>

definition scan_compose_query :: "'y yaml_api \<Rightarrow> request_io \<Rightarrow> compose_scan_query \<Rightarrow> compose_scan api_result" where
  "scan_compose_query y io query =
     (case request_root io of Inl _ \<Rightarrow> Inl compose_inspection_unavailable | Inr root \<Rightarrow>
      case (if sq_file query \<noteq> [] then collect_results (resolve_scannable_file io root) (sq_file query)
            else resolve_discovered io root) of
        Inl _ \<Rightarrow> Inl compose_file_unavailable | Inr files \<Rightarrow>
      case scan_compose_files y (rq_files io) root files of
        Inl _ \<Rightarrow> Inl compose_scan_unavailable | Inr scan \<Rightarrow> Inr scan)"

definition apply_runtime_correlations :: "compose_scan \<Rightarrow> daemon_cache \<Rightarrow> bool \<Rightarrow> compose_scan" where
  "apply_runtime_correlations scan cache allow_mock = scan\<lparr>sc_correlations :=
     if allow_mock \<or> hr_mode (dc_health cache) \<noteq> Mode_Mock
     then correlate_compose_runtime scan (dc_snapshot cache) else []\<rparr>"

definition get_compose_scan :: "'y yaml_api \<Rightarrow> form_parser \<Rightarrow> request_io \<Rightarrow> bool \<Rightarrow> daemon_cache \<Rightarrow> string option
    \<Rightarrow> compose_scan api_result" where
  "get_compose_scan y form_parse io allow_mock cache raw =
     (case parse_compose_scan_query form_parse raw of Inl e \<Rightarrow> Inl e | Inr query \<Rightarrow>
      case scan_compose_query y io query of Inl e \<Rightarrow> Inl e | Inr scan \<Rightarrow>
        Inr (redact_compose_scan (apply_runtime_correlations scan cache allow_mock)))"

definition get_compose_graph :: "digest \<Rightarrow> 'y yaml_api \<Rightarrow> form_parser \<Rightarrow> request_io \<Rightarrow> string option
    \<Rightarrow> compose_graph api_result" where
  "get_compose_graph sha256 y form_parse io raw =
     (case parse_compose_scan_query form_parse raw of Inl e \<Rightarrow> Inl e | Inr query \<Rightarrow>
      case scan_compose_query y io query of Inl e \<Rightarrow> Inl e | Inr scan \<Rightarrow>
        Inr (derive_compose_graph sha256 (redact_compose_scan scan)))"

definition requested_mount :: "string \<Rightarrow> nat \<Rightarrow> compose_mount \<Rightarrow> bool" where
  "requested_mount service index mount \<longleftrightarrow> mt_service mount = service
     \<and> ends_with (og_field (mt_origin mount)) (''.volumes['' @ show_nat index @ '']'')"

definition mount_not_found :: "string \<Rightarrow> nat \<Rightarrow> api_error" where
  "mount_not_found service index = \<lparr>ae_status = 404,
     ae_message = ''mount '' @ show_nat index @ '' for service `'' @ service @ ''` not found''\<rparr>"

definition get_compose_edit_plan :: "'y yaml_api \<Rightarrow> form_parser \<Rightarrow> request_io \<Rightarrow> string option
    \<Rightarrow> compose_edit_plan api_result" where
  "get_compose_edit_plan y form_parse io raw =
     (case parse_compose_edit_plan_query form_parse raw of Inl e \<Rightarrow> Inl e | Inr query \<Rightarrow>
      case request_root io of Inl _ \<Rightarrow> Inl compose_inspection_unavailable | Inr root \<Rightarrow>
      case resolve_scannable_file io root (eq_file query) of Inl _ \<Rightarrow> Inl compose_file_unavailable | Inr path \<Rightarrow>
      case validate_required_value (eq_service query) ''service'' MAX_COMPOSE_SERVICE_CHARS of
        Inl e \<Rightarrow> Inl e | Inr service \<Rightarrow>
      case validate_optional_query (eq_source query) ''source'' MAX_COMPOSE_FILE_CHARS of
        Inl e \<Rightarrow> Inl e | Inr source \<Rightarrow>
      case validate_optional_query (eq_target query) ''target'' MAX_COMPOSE_FILE_CHARS of
        Inl e \<Rightarrow> Inl e | Inr target \<Rightarrow>
      case scan_compose_files y (rq_files io) root [path] of Inl _ \<Rightarrow> Inl compose_scan_unavailable | Inr scan \<Rightarrow>
      case find (requested_mount service (eq_mount query)) (sc_mounts scan) of
        None \<Rightarrow> Inl (mount_not_found service (eq_mount query)) | Some mount \<Rightarrow>
      case rq_read_to_string io path of Inl _ \<Rightarrow> Inl compose_file_unavailable | Inr content \<Rightarrow>
        Inr (redact_compose_edit_plan (plan_compose_mount_edit path content mount source target)))"

section \<open>The command line\<close>

datatype cli_output = Print_Scan compose_scan | Print_Diagnostics "compose_diagnostic list"

fun cli_file_arguments :: "request_io \<Rightarrow> string \<Rightarrow> string list \<Rightarrow> string + string list" where
  "cli_file_arguments io root [] = Inr []"
| "cli_file_arguments io root (argument # arguments) =
     (if argument = ''--file'' then
        (case arguments of
           [] \<Rightarrow> Inl ''`--file` requires a value''
         | requested # rest \<Rightarrow>
             (case resolve_scannable_file io root requested of Inl e \<Rightarrow> Inl e | Inr path \<Rightarrow>
              case cli_file_arguments io root rest of Inl e \<Rightarrow> Inl e | Inr paths \<Rightarrow> Inr (path # paths)))
      else if argument = ''--format'' then cli_file_arguments io root (drop 1 arguments)
      else Inl (''unknown argument `'' @ argument @ ''`''))"

definition cli_compose_files :: "request_io \<Rightarrow> string \<Rightarrow> string list \<Rightarrow> string + string list" where
  "cli_compose_files io root arguments =
     (case cli_file_arguments io root arguments of
        Inl e \<Rightarrow> Inl e
      | Inr paths \<Rightarrow> if paths = [] then resolve_discovered io root else Inr paths)"

fun cli_option_value :: "string list \<Rightarrow> string \<Rightarrow> string option" where
  "cli_option_value (a # b # arguments) name = (if a = name then Some b else cli_option_value (b # arguments) name)"
| "cli_option_value _ name = None"

definition has_blocking_diagnostics :: "compose_diagnostic list \<Rightarrow> bool" where
  "has_blocking_diagnostics = list_ex (\<lambda>d. cd_severity d = DS_Error \<or> cd_severity d = DS_Blocked)"

text \<open>What is printed, and the exit code.\<close>

definition run_cli :: "'y yaml_api \<Rightarrow> request_io \<Rightarrow> string \<Rightarrow> string list \<Rightarrow> string + cli_output \<times> int" where
  "run_cli y io command arguments =
     (case request_root io of Inl e \<Rightarrow> Inl e | Inr root \<Rightarrow>
      case cli_compose_files io root arguments of Inl e \<Rightarrow> Inl e | Inr files \<Rightarrow>
      case scan_compose_files y (rq_files io) root files of Inl e \<Rightarrow> Inl e | Inr scan \<Rightarrow>
        if command = ''scan'' then Inr (Print_Scan scan, 0)
        else if command = ''validate'' then
          Inr (Print_Diagnostics (sc_diagnostics scan), if has_blocking_diagnostics (sc_diagnostics scan) then 1 else 0)
        else if command = ''export'' then
          (if (case cli_option_value arguments ''--format'' of None \<Rightarrow> ''json'' | Some f \<Rightarrow> f) \<noteq> ''json''
           then Inl ''only `--format json` is supported'' else Inr (Print_Scan scan, 0))
        else Inl (''unknown command `'' @ command @ ''`''))"

section \<open>Properties\<close>

lemma rejected_symlinks_clear:
  "reject_symlinks metadata current cs = Inr () \<Longrightarrow> i < length cs \<Longrightarrow>
     metadata (foldl (\<lambda>p c. path_join p (as_os_str c)) current (take (Suc i) cs)) = Inr False"
proof (induction cs arbitrary: current i)
  case (Cons c cs)
  then show ?case by (cases i) (auto simp: Let_def split: sum.splits if_splits)
qed simp

lemma resolved_file:
  assumes "resolve_scannable_file io root requested = Inr path"
  shows "path_starts_with path root" "io_is_file (rq_files io) path" "ParentDir \<notin> set (components requested)"
    "\<exists>candidate relative. candidate = (if has_root requested then requested else path_join root requested)
       \<and> path_strip_prefix candidate root = Some relative
       \<and> reject_symlinks (rq_symlink_metadata io) root relative = Inr () \<and> rq_canonicalize io candidate = Inr path"
  using assms
  by (auto simp: resolve_scannable_file_def reject_symlink_path_def Let_def split: if_splits sum.splits option.splits)

end
