(* ===== verification/Docker_Collector.thy ===== *)
theory Docker_Collector
  imports Utf8 Binding Publication Logs "HOL-Library.Product_Lexorder"
begin

text \<open>
  The Docker collector (\<open>docker_collector.rs\<close>): what the answers of the Docker client become. The
  client is a parameter (\<open>docker_api\<close>); its answers are records with the fields the code reads, each
  optional as in the client's types. A label map is a partial map, the map of a container's networks
  the list of its entries in the order of the iteration. An ordinal of a log line is at most the cap
  of the stream, so it cannot overflow.
\<close>

section \<open>The client's types\<close>

datatype port_type = PT_EMPTY | PT_TCP | PT_UDP | PT_SCTP

record port =
  po_ip :: "string option"
  po_private_port :: nat
  po_public_port :: "nat option"
  po_typ :: "port_type option"

datatype mount_point_type = MPT_BIND | MPT_VOLUME | MPT_Other

record mount_point =
  mp_typ :: "mount_point_type option"
  mp_name :: "string option"
  mp_source :: "string option"
  mp_destination :: "string option"
  mp_rw :: "bool option"

record container_summary =
  cy_id :: "string option"
  cy_names :: "string list option"
  cy_image :: "string option"
  cy_status :: "string option"
  cy_networks :: "(string \<times> string option) list option"
  cy_mounts :: "mount_point list option"
  cy_labels :: "(string \<Rightarrow> string option) option"
  cy_ports :: "port list option"

record docker_network =
  dn_id :: "string option"
  dn_name :: "string option"
  dn_driver :: "string option"
  dn_internal :: "bool option"

datatype log_output = LO_StdOut string | LO_StdErr string | LO_Console string | LO_StdIn string

primrec log_output_message :: "log_output \<Rightarrow> string" where
  "log_output_message (LO_StdOut m) = m"
| "log_output_message (LO_StdErr m) = m"
| "log_output_message (LO_Console m) = m"
| "log_output_message (LO_StdIn m) = m"

record logs_options =
  lo_follow :: bool
  lo_stdout :: bool
  lo_stderr :: bool
  lo_timestamps :: bool
  lo_tail :: string
  lo_until :: "int option"

type_synonym docker_filters = "(string \<times> string list) list option"

text \<open>An answer is an error text or the data; a log stream is the list of its items.\<close>

record docker_api =
  da_list_containers :: "bool \<Rightarrow> docker_filters \<Rightarrow> string + container_summary list"
  da_list_networks :: "docker_filters \<Rightarrow> string + docker_network list"
  da_list_volumes :: "docker_filters \<Rightarrow> string + string list option"
  da_logs :: "string \<Rightarrow> logs_options \<Rightarrow> (string + log_output) list"
  da_port_type_debug :: "port_type \<Rightarrow> string"

section \<open>Containers, networks and volumes\<close>

definition label :: "container_summary \<Rightarrow> string \<Rightarrow> string option" where
  "label c key = Option.bind (cy_labels c) (\<lambda>labels. labels key)"

definition summary_id :: "container_summary \<Rightarrow> string" where
  "summary_id c = (case cy_id c of None \<Rightarrow> ''unknown-container'' | Some i \<Rightarrow> i)"

definition summary_name :: "container_summary \<Rightarrow> string" where
  "summary_name c =
     (case cy_names c of Some (name # _) \<Rightarrow> dropWhile (\<lambda>b. b = CHR ''/'') name | _ \<Rightarrow> summary_id c)"

definition summary_networks :: "container_summary \<Rightarrow> string list" where
  "summary_networks c = (case cy_networks c of None \<Rightarrow> [] | Some m \<Rightarrow> concat (map (opt_list \<circ> snd) m))"

definition summary_volumes :: "container_summary \<Rightarrow> string list" where
  "summary_volumes c = (case cy_mounts c of None \<Rightarrow> [] | Some ms \<Rightarrow> concat (map (opt_list \<circ> mp_name) ms))"

definition parse_depends_on_label :: "string \<Rightarrow> string list" where
  "parse_depends_on_label text =
     map (\<lambda>name. ''container_'' @ name)
       (filter (\<lambda>name. name \<noteq> []) (map (\<lambda>item. trim (hd (split_char (CHR '':'') item))) (split_char (CHR '','') text)))"

definition is_valid_unspecified_address_publication :: "port \<Rightarrow> bool" where
  "is_valid_unspecified_address_publication p \<longleftrightarrow>
     (po_ip p = Some ''0.0.0.0'' \<or> po_ip p = Some ''::'')
     \<and> (case po_public_port p of None \<Rightarrow> False | Some n \<Rightarrow> 0 < n)
     \<and> 0 < po_private_port p
     \<and> po_typ p \<in> {Some PT_TCP, Some PT_UDP, Some PT_SCTP}"

definition port_text :: "(port_type \<Rightarrow> string) \<Rightarrow> port \<Rightarrow> string" where
  "port_text debug p =
     (let public = (case po_public_port p of None \<Rightarrow> 0 | Some n \<Rightarrow> n);
          kind = (case po_typ p of None \<Rightarrow> ''tcp'' | Some t \<Rightarrow> to_ascii_lowercase (debug t))
      in if 0 < public then show_nat public @ '':'' @ show_nat (po_private_port p) @ ''/'' @ kind
         else show_nat (po_private_port p) @ ''/'' @ kind)"

fun or_else :: "'a option \<Rightarrow> 'a option \<Rightarrow> 'a option" where
  "or_else (Some x) y = Some x"
| "or_else None y = y"

definition mount_point_kind :: "mount_point \<Rightarrow> compose_mount_kind" where
  "mount_point_kind m =
     (case mp_typ m of
        Some MPT_BIND \<Rightarrow> CMK_Bind
      | Some MPT_VOLUME \<Rightarrow> if mp_name m \<noteq> None then CMK_NamedVolume else CMK_AnonymousVolume
      | _ \<Rightarrow> CMK_Unsupported)"

definition mount_point_source :: "mount_point \<Rightarrow> string option" where
  "mount_point_source m =
     (case mount_point_kind m of
        CMK_Bind \<Rightarrow> mp_source m
      | CMK_NamedVolume \<Rightarrow> or_else (mp_name m) (mp_source m)
      | CMK_AnonymousVolume \<Rightarrow> None
      | CMK_Unsupported \<Rightarrow> or_else (mp_source m) (mp_name m))"

definition collect_container_mount :: "string \<Rightarrow> mount_point \<Rightarrow> container_mount option" where
  "collect_container_mount container_id m =
     map_option (\<lambda>target.
       \<lparr>cm_id = container_id @ '':'' @ target @ '':''
          @ (case mount_point_source m of None \<Rightarrow> ''anonymous'' | Some s \<Rightarrow> s),
        cm_kind = mount_point_kind m, cm_source = mount_point_source m, cm_target = target,
        cm_read_only = (case mp_rw m of None \<Rightarrow> False | Some rw \<Rightarrow> \<not> rw)\<rparr>) (mp_destination m)"

definition collect_container_mounts :: "string \<Rightarrow> mount_point list option \<Rightarrow> container_mount list" where
  "collect_container_mounts container_id mounts =
     concat (map (opt_list \<circ> collect_container_mount container_id) (case mounts of None \<Rightarrow> [] | Some ms \<Rightarrow> ms))"

definition build_container :: "(port_type \<Rightarrow> string) \<Rightarrow> container_summary \<Rightarrow> container_record" where
  "build_container debug c =
     (let ports = (case cy_ports c of None \<Rightarrow> [] | Some ps \<Rightarrow> ps)
      in \<lparr>ct_id = summary_id c, ct_name = summary_name c,
          ct_image = (case cy_image c of None \<Rightarrow> ''unknown'' | Some i \<Rightarrow> i),
          ct_status = (case cy_status c of None \<Rightarrow> ''unknown'' | Some s \<Rightarrow> s),
          ct_role = (case label c ''com.docker.compose.service'' of None \<Rightarrow> ''service'' | Some r \<Rightarrow> r),
          ct_networks = summary_networks c, ct_ports = map (port_text debug) ports,
          ct_publishes_on_unspecified_address = list_ex is_valid_unspecified_address_publication ports,
          ct_mounts = collect_container_mounts (summary_id c) (cy_mounts c),
          ct_depends_on = (case label c ''com.docker.compose.depends_on'' of
            None \<Rightarrow> [] | Some text \<Rightarrow> parse_depends_on_label text)\<rparr>)"

text \<open>\<open>sets.entry(key).or_default().insert(name)\<close>, and \<open>sets.remove(key).unwrap_or_default()\<close>.\<close>

type_synonym name_sets = "(string, string list) btree_map"

definition add_name :: "string \<Rightarrow> name_sets \<Rightarrow> string \<Rightarrow> name_sets" where
  "add_name name sets key =
     bt_insert key (bs_collect (name # (case bt_get sets key of None \<Rightarrow> [] | Some s \<Rightarrow> s))) sets"

definition names_of :: "name_sets \<Rightarrow> string \<Rightarrow> string list" where
  "names_of sets key = (case bt_get sets key of None \<Rightarrow> [] | Some s \<Rightarrow> s)"

definition bt_remove :: "'k \<Rightarrow> ('k, 'v) btree_map \<Rightarrow> ('k, 'v) btree_map" where
  "bt_remove k m = filter (\<lambda>e. fst e \<noteq> k) m"

definition name_sets :: "(container_summary \<Rightarrow> string list) \<Rightarrow> container_summary list \<Rightarrow> name_sets" where
  "name_sets keys cs = foldl (\<lambda>sets c. foldl (add_name (summary_name c)) sets (keys c)) [] cs"

definition network_id :: "docker_network \<Rightarrow> string" where
  "network_id n = (case dn_id n of None \<Rightarrow> ''unknown-network'' | Some i \<Rightarrow> i)"

fun network_records :: "name_sets \<Rightarrow> docker_network list \<Rightarrow> network_record list" where
  "network_records sets [] = []"
| "network_records sets (n # ns) =
     \<lparr>nw_id = network_id n, nw_name = (case dn_name n of None \<Rightarrow> ''unnamed'' | Some x \<Rightarrow> x),
      nw_driver = (case dn_driver n of None \<Rightarrow> ''bridge'' | Some d \<Rightarrow> d),
      nw_internal = (case dn_internal n of None \<Rightarrow> False | Some i \<Rightarrow> i),
      nw_members = names_of sets (network_id n)\<rparr> # network_records (bt_remove (network_id n) sets) ns"

fun volume_records :: "name_sets \<Rightarrow> string list \<Rightarrow> volume_record list" where
  "volume_records sets [] = []"
| "volume_records sets (name # names) =
     \<lparr>vl_id = name, vl_name = name, vl_attached_to = names_of sets name\<rparr> # volume_records (bt_remove name sets) names"

definition build_snapshot :: "(port_type \<Rightarrow> string) \<Rightarrow> u64 \<Rightarrow> container_summary list \<Rightarrow> docker_network list
    \<Rightarrow> string list option \<Rightarrow> docker_snapshot" where
  "build_snapshot debug now containers networks volumes =
     \<lparr>sn_containers = map (build_container debug) containers, sn_images = [],
      sn_networks = sort_key (\<lambda>n. (nw_id n, nw_name n, nw_driver n, nw_internal n, nw_members n))
        (network_records (name_sets summary_networks containers) networks),
      sn_volumes = sort_key (\<lambda>v. (vl_id v, vl_name v, vl_attached_to v))
        (volume_records (name_sets summary_volumes containers) (case volumes of None \<Rightarrow> [] | Some vs \<Rightarrow> vs)),
      sn_last_updated = now, sn_model_revision = [], sn_source = None\<rparr>"

section \<open>Compose containers\<close>

definition is_exact_docker_container_id :: "string \<Rightarrow> bool" where
  "is_exact_docker_container_id text \<longleftrightarrow>
     length text = 64 \<and> list_all (\<lambda>b. is_ascii_digit b \<or> b \<in> set ''abcdef'') text"

definition config_label_files :: "string \<Rightarrow> string list" where
  "config_label_files text = bs_collect (filter (\<lambda>f. f \<noteq> []) (map trim (split_char (CHR '','') text)))"

definition compose_container :: "(string, container_mount list) btree_map \<Rightarrow> container_summary
    \<Rightarrow> compose_runtime_container option" where
  "compose_container mounts_by_id c =
     Option.bind (cy_labels c) (\<lambda>labels.
     Option.bind (map_option trim (labels ''com.docker.compose.project'')) (\<lambda>project.
     Option.bind (map_option trim (labels ''com.docker.compose.service'')) (\<lambda>service.
     Option.bind (labels ''com.docker.compose.project.config_files'') (\<lambda>config_label.
     if char_count config_label > 4096 then None
     else let config_files = config_label_files config_label in
     Option.bind (cy_id c) (\<lambda>id.
     if project = [] \<or> service = [] \<or> char_count project > 259 \<or> char_count service > 259
        \<or> config_files = [] \<or> length config_files > MAX_COMPOSE_RUNTIME_BINDING_CONFIG_FILES
        \<or> \<not> is_exact_docker_container_id id then None
     else Option.bind (bt_get mounts_by_id id) (\<lambda>mounts.
     if length mounts > MAX_RUNTIME_MOUNTS_PER_BOUND_CONTAINER then None
     else Some \<lparr>cx_container_id = id, cx_project = project, cx_service = service,
                 cx_config_files = config_files, cx_mounts = mounts\<rparr>))))))"

text \<open>The loop that collects them gives up (\<open>None\<close>) when there are too many.\<close>

fun compose_containers :: "(string, container_mount list) btree_map \<Rightarrow> compose_runtime_container list
    \<Rightarrow> container_summary list \<Rightarrow> compose_runtime_container list option" where
  "compose_containers mounts_by_id acc [] = Some acc"
| "compose_containers mounts_by_id acc (c # cs) =
     (case compose_container mounts_by_id c of
        None \<Rightarrow> compose_containers mounts_by_id acc cs
      | Some bound \<Rightarrow>
          if length (acc @ [bound]) > MAX_COMPOSE_RUNTIME_BINDING_CONTAINERS then None
          else compose_containers mounts_by_id (acc @ [bound]) cs)"

record docker_observation =
  do_snapshot :: docker_snapshot
  do_compose_containers :: "compose_runtime_container list option"

definition docker_filters :: "string option \<Rightarrow> docker_filters" where
  "docker_filters label_filter = map_option (\<lambda>l. [(''label'', [l])]) label_filter"

definition mounts_by_id :: "docker_snapshot \<Rightarrow> (string, container_mount list) btree_map" where
  "mounts_by_id snapshot = bt_collect (map (\<lambda>c. (ct_id c, ct_mounts c)) (sn_containers snapshot))"

definition collect_observation :: "docker_api \<Rightarrow> u64 \<Rightarrow> string option \<Rightarrow> string + docker_observation" where
  "collect_observation api now label_filter =
     (let filters = docker_filters label_filter in
      case da_list_containers api True filters of
        Inl e \<Rightarrow> Inl (''list_containers failed: '' @ e)
      | Inr containers \<Rightarrow>
          (case da_list_networks api filters of
             Inl e \<Rightarrow> Inl (''list_networks failed: '' @ e)
           | Inr networks \<Rightarrow>
               (case da_list_volumes api filters of
                  Inl e \<Rightarrow> Inl (''list_volumes failed: '' @ e)
                | Inr volumes \<Rightarrow>
                    let snapshot = build_snapshot (da_port_type_debug api) now containers networks volumes
                    in Inr \<lparr>do_snapshot = snapshot,
                         do_compose_containers = compose_containers (mounts_by_id snapshot) [] containers\<rparr>)))"

section \<open>Logs\<close>

definition MAX_LOG_CURSOR_TAIL :: nat where "MAX_LOG_CURSOR_TAIL = 4096"
definition MAX_LOG_MESSAGE_CHARS :: nat where "MAX_LOG_MESSAGE_CHARS = 4096"
definition MAX_LOG_STREAM_CAP :: nat where "MAX_LOG_STREAM_CAP = MAX_LOG_CURSOR_TAIL + 1"

definition parse_timestamped_log_line :: "string \<Rightarrow> (u64 \<times> string) option" where
  "parse_timestamped_log_line line =
     Option.bind (split_once (from_utf8_lossy line) (CHR '' '')) (\<lambda>(head, rest).
     Option.bind (parse_rfc3339_nano_millis head) (\<lambda>timestamp.
     let message = truncate_chars (trim rest) MAX_LOG_MESSAGE_CHARS
     in if message = [] then None else Some (timestamp, message)))"

definition log_tail_count :: nat where
  "log_tail_count = MAX_LOG_CURSOR_TAIL"

definition log_until_seconds :: "u64 \<Rightarrow> int" where
  "log_until_seconds cursor_millis = int (min (cursor_millis div 1000 + 1) (2 ^ 31 - 1))"

text \<open>\<open>{ordinal:04x}\<close>.\<close>

fun show_hex :: "nat \<Rightarrow> string" where
  "show_hex n = (if n < 16 then [hex_digit n] else show_hex (n div 16) @ [hex_digit (n mod 16)])"

declare show_hex.simps [simp del]

definition pad_left :: "nat \<Rightarrow> char \<Rightarrow> string \<Rightarrow> string" where
  "pad_left width fill s = replicate (width - length s) fill @ s"

definition log_entry_id :: "string \<Rightarrow> u64 \<Rightarrow> nat \<Rightarrow> string" where
  "log_entry_id service timestamp ordinal =
     service @ ''-'' @ show_nat timestamp @ ''-'' @ pad_left 4 (CHR ''0'') (show_hex ordinal)"

definition log_line_level :: "string \<Rightarrow> log_level" where
  "log_line_level message =
     (if str_contains (to_ascii_lowercase message) ''error'' then LL_Error
      else if str_contains (to_ascii_lowercase message) ''warn'' then LL_Warn else LL_Info)"

definition live_entry :: "string \<Rightarrow> u64 \<Rightarrow> string \<Rightarrow> nat \<Rightarrow> log_entry" where
  "live_entry service timestamp message ordinal =
     \<lparr>lg_id = log_entry_id service timestamp ordinal, lg_timestamp = timestamp, lg_container = service,
      lg_level = log_line_level message, lg_message = message\<rparr>"

text \<open>The loop over the stream: \<open>seen\<close> counts the lines of each millisecond.\<close>

fun collect_log_entries :: "string \<Rightarrow> (u64 \<Rightarrow> nat) \<Rightarrow> log_entry list \<Rightarrow> (string + log_output) list
    \<Rightarrow> string + log_entry list" where
  "collect_log_entries service seen acc [] = Inr acc"
| "collect_log_entries service seen acc (Inl e # items) = Inl (''docker logs failed: '' @ e)"
| "collect_log_entries service seen acc (Inr output # items) =
     (case parse_timestamped_log_line (log_output_message output) of
        None \<Rightarrow> collect_log_entries service seen acc items
      | Some (timestamp, message) \<Rightarrow>
          let entries = acc @ [live_entry service timestamp message (seen timestamp)]
          in if length entries \<ge> MAX_LOG_STREAM_CAP then Inr entries
             else collect_log_entries service (seen(timestamp := seen timestamp + 1)) entries items)"

definition redact_log_entry :: "log_entry \<Rightarrow> log_entry" where
  "redact_log_entry e = e\<lparr>lg_id := redact_runtime_display_text (lg_id e),
     lg_container := redact_runtime_display_text (lg_container e),
     lg_message := redact_runtime_display_text (lg_message e)\<rparr>"

definition publish_log_response :: "string option \<Rightarrow> log_entry list \<Rightarrow> string option \<Rightarrow> log_cursor option \<Rightarrow> nat
    \<Rightarrow> logs_response" where
  "publish_log_response service entries query cursor limit =
     (case page_log_entries (map redact_log_entry entries) query cursor limit of
        (page, next_cursor) \<Rightarrow> \<lparr>lr_service = map_option redact_runtime_display_text service,
          lr_entries = page, lr_next_cursor = next_cursor, lr_source = None\<rparr>)"

definition log_options :: "log_cursor option \<Rightarrow> logs_options" where
  "log_options cursor = \<lparr>lo_follow = False, lo_stdout = True, lo_stderr = True, lo_timestamps = True,
     lo_tail = show_nat log_tail_count, lo_until = map_option (\<lambda>c. log_until_seconds (lc_millis c)) cursor\<rparr>"

definition collect_logs :: "docker_api \<Rightarrow> string \<Rightarrow> string option \<Rightarrow> log_cursor option \<Rightarrow> nat
    \<Rightarrow> string + logs_response" where
  "collect_logs api service query cursor limit =
     (case collect_log_entries service (\<lambda>_. 0) [] (da_logs api service (log_options cursor)) of
        Inl e \<Rightarrow> Inl e
      | Inr entries \<Rightarrow> Inr (publish_log_response (Some service) entries query cursor (clamp_limit limit)))"

end
