(* ===== verification/Daemon_Api.thy ===== *)
theory Daemon_Api
  imports Compose_Api Docker_Collector
begin

text \<open>
  The HTTP interface of the daemon (\<open>daemon_api.rs\<close>): the gate in front of the cache, one handler per
  route, the log route with its choice between Docker and the sample, and the router with the check of
  the bearer token in front of everything. The web framework matches paths and methods, so a request is
  a \<open>route\<close>; its parameters are in \<open>server_env\<close>. A handler that connects to Docker changes the state.
\<close>

text \<open>A collector is a connected client and the label filter it was made with.\<close>

record docker_connection =
  dk_client :: docker_api
  dk_label_filter :: "string option"

record app_state =
  as_cache :: daemon_cache
  as_docker :: "docker_connection option"
  as_allow_mock :: bool

record 'y server_env =
  se_sha256 :: digest
  se_yaml :: "'y yaml_api"
  se_form_parse :: form_parser
  se_io :: request_io
  se_connect :: "string \<Rightarrow> string + docker_api"
  se_json_node :: "graph_node \<Rightarrow> string"
  se_json_edge :: "graph_edge \<Rightarrow> string"
  se_debug :: "string list \<Rightarrow> string"
  se_now :: u64

section \<open>The connection to Docker\<close>

definition docker_collector_connect :: "environment \<Rightarrow> (string \<Rightarrow> string + docker_api) \<Rightarrow> string + docker_connection" where
  "docker_collector_connect env connect =
     (case docker_label_filter_from_env env of Inl e \<Rightarrow> Inl e | Inr label_filter \<Rightarrow>
      case docker_gateway_socket_from_env env of Inl e \<Rightarrow> Inl e | Inr socket \<Rightarrow>
      case connect socket of Inl e \<Rightarrow> Inl (''failed to connect to Docker Read Gateway: '' @ e) | Inr client \<Rightarrow>
        Inr \<lparr>dk_client = client, dk_label_filter = label_filter\<rparr>)"

definition docker_collector :: "'y server_env \<Rightarrow> app_state \<Rightarrow> (string + docker_connection) \<times> app_state" where
  "docker_collector env st =
     (case as_docker st of
        Some collector \<Rightarrow> (Inr collector, st)
      | None \<Rightarrow>
          (case docker_collector_connect (rq_env (se_io env)) (se_connect env) of
             Inl e \<Rightarrow> (Inl e, st)
           | Inr collector \<Rightarrow> (Inr collector, st\<lparr>as_docker := Some collector\<rparr>)))"

section \<open>The gate of the cache\<close>

definition mock_disabled :: api_error where
  "mock_disabled = \<lparr>ae_status = 503,
     ae_message = ''Live Docker authority is unavailable and mock publication is disabled''\<rparr>"

definition publication_cache :: "app_state \<Rightarrow> daemon_cache api_result" where
  "publication_cache st =
     (if \<not> as_allow_mock st \<and> hr_mode (dc_health (as_cache st)) = Mode_Mock then Inl mock_disabled
      else Inr (as_cache st))"

text \<open>A handler that reads the cache behind the gate.\<close>

definition reading :: "app_state \<Rightarrow> (daemon_cache \<Rightarrow> 'a api_result) \<Rightarrow> 'a api_result" where
  "reading st handler = (case publication_cache st of Inl e \<Rightarrow> Inl e | Inr cache \<Rightarrow> handler cache)"

section \<open>The routes of the cache\<close>

definition get_health :: "app_state \<Rightarrow> health_response api_result" where
  "get_health st = reading st (\<lambda>cache. Inr (redact_health_response (dc_health cache)))"

definition get_snapshot :: "app_state \<Rightarrow> docker_snapshot api_result" where
  "get_snapshot st = reading st (\<lambda>cache.
     Inr ((publish_docker_snapshot (dc_snapshot cache))\<lparr>sn_source := Some (hr_mode (dc_health cache))\<rparr>))"

definition get_graph :: "'y server_env \<Rightarrow> app_state \<Rightarrow> graph_response api_result" where
  "get_graph env st = reading st (\<lambda>cache.
     Inr (derive_graph (se_json_node env) (se_json_edge env) (publish_docker_snapshot (dc_snapshot cache))))"

definition get_runtime_map :: "app_state \<Rightarrow> runtime_map api_result" where
  "get_runtime_map st = reading st (\<lambda>cache.
     Inr ((dc_runtime_map cache)\<lparr>rm_source := Some (hr_mode (dc_health cache))\<rparr>))"

definition publish_findings :: "findings_response \<Rightarrow> runtime_mode \<Rightarrow> findings_response" where
  "publish_findings findings mode = findings\<lparr>fr_source := Some mode\<rparr>"

definition get_findings :: "app_state \<Rightarrow> findings_response api_result" where
  "get_findings st = reading st (\<lambda>cache. Inr (publish_findings (dc_findings cache) (hr_mode (dc_health cache))))"

definition get_observed_history :: "app_state \<Rightarrow> observed_change_history_response api_result" where
  "get_observed_history st = reading st (\<lambda>cache. Inr (observed_history_response cache))"

definition get_containers :: "app_state \<Rightarrow> container_record list api_result" where
  "get_containers st = reading st (\<lambda>cache. Inr (sn_containers (publish_docker_snapshot (dc_snapshot cache))))"

definition container_not_found :: "string \<Rightarrow> api_error" where
  "container_not_found name = \<lparr>ae_status = 404, ae_message = ''container `'' @ name @ ''` not found''\<rparr>"

definition get_container :: "app_state \<Rightarrow> string \<Rightarrow> container_record api_result" where
  "get_container st name = reading st (\<lambda>cache.
     case find (\<lambda>c. ct_name c = name) (sn_containers (dc_snapshot cache)) of
       None \<Rightarrow> Inl (container_not_found name)
     | Some c \<Rightarrow> Inr (redact_container_record c))"

definition get_images :: "app_state \<Rightarrow> image_record list api_result" where
  "get_images st = reading st (\<lambda>cache. Inr (sn_images (publish_docker_snapshot (dc_snapshot cache))))"

definition get_networks :: "app_state \<Rightarrow> network_record list api_result" where
  "get_networks st = reading st (\<lambda>cache. Inr (sn_networks (publish_docker_snapshot (dc_snapshot cache))))"

definition get_volumes :: "app_state \<Rightarrow> volume_record list api_result" where
  "get_volumes st = reading st (\<lambda>cache. Inr (sn_volumes (publish_docker_snapshot (dc_snapshot cache))))"

section \<open>The log route\<close>

definition docker_log_collection_failed :: api_error where
  "docker_log_collection_failed = \<lparr>ae_status = 502, ae_message = ''Docker log collection failed''\<rparr>"

definition service_not_found :: "string \<Rightarrow> api_error" where
  "service_not_found service = \<lparr>ae_status = 404,
     ae_message = ''container `'' @ service @ ''` not found in current snapshot''\<rparr>"

definition no_logs :: "runtime_mode \<Rightarrow> logs_response" where
  "no_logs mode = \<lparr>lr_service = None, lr_entries = [], lr_next_cursor = None, lr_source = Some mode\<rparr>"

definition live_logs :: "'y server_env \<Rightarrow> app_state \<Rightarrow> string \<Rightarrow> string option \<Rightarrow> log_cursor option \<Rightarrow> nat
    \<Rightarrow> logs_response api_result \<times> app_state" where
  "live_logs env st service q cursor limit =
     (case docker_collector env st of
        (Inl _, st') \<Rightarrow> (Inl docker_log_collection_failed, st')
      | (Inr collector, st') \<Rightarrow>
          (case collect_logs (dk_client collector) service q cursor limit of
             Inl _ \<Rightarrow> (Inl docker_log_collection_failed, st')
           | Inr r \<Rightarrow> (Inr r, st')))"

definition stamp_logs :: "runtime_mode \<Rightarrow> logs_response api_result \<times> app_state \<Rightarrow> logs_response api_result \<times> app_state" where
  "stamp_logs mode = map_prod (map_sum id (\<lambda>r. r\<lparr>lr_source := Some mode\<rparr>)) id"

definition get_logs :: "'y server_env \<Rightarrow> app_state \<Rightarrow> string option \<Rightarrow> logs_response api_result \<times> app_state" where
  "get_logs env st raw =
     (case log_arguments (se_form_parse env) raw of Inl e \<Rightarrow> (Inl e, st) | Inr (service, q, cursor, limit) \<Rightarrow>
      case publication_cache st of Inl e \<Rightarrow> (Inl e, st) | Inr cache \<Rightarrow>
        let mode = hr_mode (dc_health cache); snapshot = dc_snapshot cache;
            known = (\<lambda>name. \<exists>c \<in> set (sn_containers snapshot). ct_name c = name)
        in if (case service of None \<Rightarrow> False | Some name \<Rightarrow> \<not> known name)
           then (Inl (service_not_found (case service of None \<Rightarrow> [] | Some name \<Rightarrow> name)), st)
           else if hr_docker_reachable (dc_health cache) then
             (case service of
                None \<Rightarrow> (Inr (no_logs mode), st)
              | Some name \<Rightarrow> stamp_logs mode (live_logs env st name q cursor limit))
           else stamp_logs mode
             (Inr (publish_log_response service (mock_log_entries (se_debug env) (se_now env) snapshot service)
                q cursor limit), st))"

section \<open>The router\<close>

datatype route = R_Health | R_Snapshot | R_Graph | R_Runtime_Map | R_Findings | R_History | R_Containers
  | R_Container string | R_Images | R_Networks | R_Volumes | R_Logs "string option"
  | R_Compose_Scan "string option" | R_Compose_Graph "string option" | R_Compose_Edit_Plan "string option"
  | R_Unknown

datatype reply = Health health_response | Snapshot docker_snapshot | Graph graph_response | Map runtime_map
  | Findings findings_response | History observed_change_history_response | Containers "container_record list"
  | Container container_record | Images "image_record list" | Networks "network_record list"
  | Volumes "volume_record list" | Logs logs_response | Compose_Scan compose_scan
  | Compose_Graph compose_graph | Compose_Edit_Plan compose_edit_plan

definition not_found :: api_error where
  "not_found = \<lparr>ae_status = 404, ae_message = ''Route not found''\<rparr>"

definition as_reply :: "('a \<Rightarrow> reply) \<Rightarrow> 'a api_result \<Rightarrow> reply api_result" where
  "as_reply wrap r = map_sum id wrap r"

fun dispatch :: "'y server_env \<Rightarrow> app_state \<Rightarrow> route \<Rightarrow> reply api_result \<times> app_state" where
  "dispatch env st R_Health = (as_reply Health (get_health st), st)"
| "dispatch env st R_Snapshot = (as_reply Snapshot (get_snapshot st), st)"
| "dispatch env st R_Graph = (as_reply Graph (get_graph env st), st)"
| "dispatch env st R_Runtime_Map = (as_reply Map (get_runtime_map st), st)"
| "dispatch env st R_Findings = (as_reply Findings (get_findings st), st)"
| "dispatch env st R_History = (as_reply History (get_observed_history st), st)"
| "dispatch env st R_Containers = (as_reply Containers (get_containers st), st)"
| "dispatch env st (R_Container name) = (as_reply Container (get_container st name), st)"
| "dispatch env st R_Images = (as_reply Images (get_images st), st)"
| "dispatch env st R_Networks = (as_reply Networks (get_networks st), st)"
| "dispatch env st R_Volumes = (as_reply Volumes (get_volumes st), st)"
| "dispatch env st (R_Logs raw) = map_prod (as_reply Logs) id (get_logs env st raw)"
| "dispatch env st (R_Compose_Scan raw) = (as_reply Compose_Scan
     (get_compose_scan (se_yaml env) (se_form_parse env) (se_io env) (as_allow_mock st) (as_cache st) raw), st)"
| "dispatch env st (R_Compose_Graph raw) = (as_reply Compose_Graph
     (get_compose_graph (se_sha256 env) (se_yaml env) (se_form_parse env) (se_io env) raw), st)"
| "dispatch env st (R_Compose_Edit_Plan raw) = (as_reply Compose_Edit_Plan
     (get_compose_edit_plan (se_yaml env) (se_form_parse env) (se_io env) raw), st)"
| "dispatch env st R_Unknown = (Inl not_found, st)"

text \<open>What a client receives: the model of a route, or the status and the text of an error.\<close>

datatype response = Ok_Json reply | Error_Json nat string string

definition api_error_response :: "api_error \<Rightarrow> response" where
  "api_error_response e = Error_Json (ae_status e) (show_nat (ae_status e)) (redact_runtime_display_text (ae_message e))"

definition unauthorized_response :: response where
  "unauthorized_response = Error_Json 401 ''unauthorized''
     ''A valid Bearer token is required for this DockerMap daemon route''"

text \<open>The token is checked before the routes and before the answer for unknown paths.\<close>

definition daemon_router :: "'y server_env \<Rightarrow> string option \<Rightarrow> (string \<times> string) list \<Rightarrow> app_state \<Rightarrow> route
    \<Rightarrow> response \<times> app_state" where
  "daemon_router env token headers st route =
     (case require_daemon_bearer_token token headers of
        Unauthorized \<Rightarrow> (unauthorized_response, st)
      | Run_Next \<Rightarrow> map_prod (case_sum api_error_response Ok_Json) id (dispatch env st route))"

end
