(* ===== verification/Plain_Names.thy ===== *)
theory Plain_Names
  imports Redaction
begin

text \<open>
  Names made of letters, digits, underscores, dots and dashes, as Docker and the log routes admit
  them, pass the text gate of the daemon unchanged: no marker of a secret can be written in them but
  the test marker itself.
\<close>

definition plain_char :: "char \<Rightarrow> bool" where
  "plain_char c \<longleftrightarrow> is_ascii_alphanumeric c \<or> c \<in> {CHR ''_'', CHR ''.'', CHR ''-''}"

definition log_name :: "string \<Rightarrow> bool" where
  "log_name s \<longleftrightarrow> s \<noteq> [] \<and> list_all plain_char s \<and> hd s \<noteq> CHR ''-''"

definition test_marker :: string where
  "test_marker = ''dockermap_test_fake_''"

lemma plain_byte: "plain_char c \<Longrightarrow> 45 \<le> byte c \<and> byte c \<le> 122 \<and> byte c \<notin> {47} \<union> {58..64} \<union> {91..94} \<union> {96}"
  by (auto simp: plain_char_def is_ascii_alphanumeric_def is_ascii_alphabetic_def is_ascii_digit_def byte_def)

lemma plain_lower: "plain_char c \<Longrightarrow> plain_char (ascii_lower c)"
  by (auto simp: ascii_lower_def plain_char_def is_ascii_alphanumeric_def is_ascii_alphabetic_def is_ascii_digit_def)

lemma str_contains_set: "str_contains s p \<Longrightarrow> set p \<subseteq> set s"
  by (auto simp: str_contains_iff)

lemma plain_lacks:
  assumes "list_all plain_char s" and "\<exists>c \<in> set p. \<not> plain_char c"
  shows "\<not> str_contains s p"
  using assms str_contains_set [of s p] by (auto simp: list_all_iff)

lemma not_plain: "\<not> plain_char (CHR '' '')" "\<not> plain_char (CHR '':'')" "\<not> plain_char (CHR ''='')"
  by (simp_all add: plain_char_def is_ascii_alphanumeric_def is_ascii_alphabetic_def is_ascii_digit_def byte_def)

lemma needles_not_plain: "n \<in> set sensitive_assignments \<union> set auth_schemes \<union> {''://''} \<Longrightarrow> \<exists>c \<in> set n. \<not> plain_char c"
  using not_plain by (auto simp: sensitive_assignments_def auth_schemes_def)

lemma split_ws_word: "cs \<noteq> [] \<Longrightarrow> \<forall>c \<in> set cs. \<not> is_whitespace c \<Longrightarrow> split_ws cs = [cs]"
  by (cases cs) (simp_all add: takeWhile_eq_all_conv [THEN iffD2] dropWhile_eq_Nil_conv [THEN iffD2])

lemma plain_ascii: "list_all plain_char s \<Longrightarrow> ascii s"
  using plain_byte by (fastforce simp: ascii_def list_all_iff)

lemma log_name_insensitive:
  assumes "log_name s" and "\<not> str_contains (to_ascii_lowercase s) test_marker"
  shows "\<not> is_sensitive_text s"
proof -
  define low where "low = to_ascii_lowercase s"
  have s: "list_all plain_char s" "s \<noteq> []" "hd s \<noteq> CHR ''-''" using assms(1) by (simp_all add: log_name_def)
  have low: "list_all plain_char low" "low \<noteq> []"
    using s(1,2) plain_lower by (auto simp: low_def to_ascii_lowercase_def list_all_iff)
  have dash: "c \<noteq> CHR ''-'' \<Longrightarrow> ascii_lower c \<noteq> CHR ''-''" for c
  proof
    assume c: "c \<noteq> CHR ''-''" "ascii_lower c = CHR ''-''"
    then have "65 \<le> byte c \<and> byte c \<le> 90" "char_of (byte c + 32) = CHR ''-''" by (auto simp: ascii_lower_def split: if_splits)
    moreover have "byte (char_of (byte c + 32)) = byte c + 32"
      using calculation by (intro byte_char_of_small) linarith
    ultimately have "byte c + 32 = byte (CHR ''-'')" by simp
    then show False using \<open>65 \<le> byte c \<and> byte c \<le> 90\<close> by (simp add: byte_def)
  qed
  then have hd: "hd low \<noteq> CHR ''-''" using s(2,3) by (cases s) (simp_all add: low_def to_ascii_lowercase_def)
  have chars: "chars low = map byte low" using ascii_valid(2) [OF plain_ascii [OF low(1)]] .
  have kept: "of_chars (map byte low) = low" using ascii_valid(3) [OF plain_ascii [OF low(1)]] .
  have solid: "\<forall>c \<in> set (map byte low). \<not> is_whitespace c"
    using low(1) plain_byte by (fastforce simp: is_whitespace_def list_all_iff)
  have words: "split_whitespace low = [low]"
    using low(2) kept split_ws_word [OF _ solid] by (simp add: split_whitespace_def chars)
  have "trim_start low = low"
    using solid kept low(2) unfolding trim_start_def chars by (cases low) simp_all
  moreover have "\<not> starts_with low ''bearer ''"
    using low(1) not_plain(1) by (auto simp: starts_with_def prefix_def list_all_iff)
  moreover have "\<forall>n \<in> set auth_schemes. \<not> str_contains low n"
    using plain_lacks [OF low(1)] needles_not_plain by blast
  ultimately have "\<not> contains_auth_scheme low" unfolding contains_auth_scheme_def list_ex_iff by metis
  moreover have "\<not> contains_sensitive_flag low"
    using hd by (auto simp: contains_sensitive_flag_def words sensitive_flags_def starts_with_def prefix_def)
  moreover have "\<not> contains_sensitive_assignment low"
    using plain_lacks [OF low(1)] needles_not_plain by (auto simp: contains_sensitive_assignment_def list_ex_iff)
  moreover have "\<not> contains_url_userinfo s"
  proof -
    have "\<not> str_contains s ''://''" using plain_lacks [OF s(1)] not_plain(2) by simp
    then have "find_split s ''://'' = None" unfolding str_contains_find by blast
    then show ?thesis by (simp add: contains_url_userinfo_def)
  qed
  ultimately show ?thesis using assms(2) by (simp add: is_sensitive_text_def low_def [symmetric] test_marker_def)
qed

lemma log_name_passes:
  assumes "log_name s" and "\<not> str_contains (to_ascii_lowercase s) test_marker"
  shows "redact_runtime_display_text s = s"
proof -
  have plain: "list_all plain_char s" using assms(1) by (simp add: log_name_def)
  have "\<forall>c \<in> set (chars s). \<not> unsafe_runtime_display_character c"
    using plain plain_byte ascii_valid(2) [OF plain_ascii [OF plain]]
    by (fastforce simp: list_all_iff unsafe_runtime_display_character_def is_control_def)
  then show ?thesis
    using log_name_insensitive [OF assms] ascii_valid(1) [OF plain_ascii [OF plain]]
    by (intro redact_display_safe_id) (simp_all add: display_safe_def)
qed

end
