(* ===== verification/Docker_Props.thy ===== *)
theory Docker_Props
  imports Docker_Collector Plain_Names
begin

text \<open>
  What the Docker collector's conversions guarantee: who is a member of a network, which Compose
  containers are bound, and that a client who follows the cursors of the live logs reads the whole
  window once, although Docker's own filter on the end of the window has a resolution of a second.
\<close>

section \<open>Membership of networks and volumes\<close>

lemma names_of_add:
  "bt_wf sets \<Longrightarrow> names_of (add_name name sets key) k =
     (if k = key then bs_collect (name # names_of sets key) else names_of sets k)"
  by (simp add: names_of_def add_name_def bt_get_insert)

lemma add_name_wf: "bt_wf sets \<Longrightarrow> bt_wf (add_name name sets key)"
  by (simp add: add_name_def bt_wf_insert)

lemma add_names:
  assumes "bt_wf sets"
  shows "bt_wf (foldl (add_name name) sets keys)"
    "set (names_of (foldl (add_name name) sets keys) k) = set (names_of sets k) \<union> (if k \<in> set keys then {name} else {})"
  using assms by (induction keys arbitrary: sets) (auto simp: add_name_wf names_of_add)

definition sorted_names :: "name_sets \<Rightarrow> bool" where
  "sorted_names sets \<longleftrightarrow> (\<forall>k. sorted_wrt (<) (names_of sets k))"

lemma add_names_sorted:
  "bt_wf sets \<Longrightarrow> sorted_names sets \<Longrightarrow> sorted_names (foldl (add_name name) sets keys)"
  by (induction keys arbitrary: sets) (auto simp: add_name_wf names_of_add sorted_names_def)

lemma name_sets_step:
  assumes "bt_wf sets" and "sorted_names sets"
  shows "bt_wf (foldl (\<lambda>sets c. foldl (add_name (summary_name c)) sets (keys c)) sets cs)
    \<and> sorted_names (foldl (\<lambda>sets c. foldl (add_name (summary_name c)) sets (keys c)) sets cs)
    \<and> set (names_of (foldl (\<lambda>sets c. foldl (add_name (summary_name c)) sets (keys c)) sets cs) k)
        = set (names_of sets k) \<union> summary_name ` {c \<in> set cs. k \<in> set (keys c)}"
  using assms
proof (induction cs arbitrary: sets)
  case (Cons c cs)
  then show ?case
    using Cons.IH [of "foldl (add_name (summary_name c)) sets (keys c)"] add_names [OF Cons.prems(1)]
      add_names_sorted [OF Cons.prems]
    by auto
qed simp

lemma name_sets_members:
  "sorted_wrt (<) (names_of (name_sets keys cs) k)"
  "set (names_of (name_sets keys cs) k) = summary_name ` {c \<in> set cs. k \<in> set (keys c)}"
proof -
  have "bt_wf ([] :: name_sets)" "sorted_names []" "names_of [] k = []"
    by (simp_all add: bt_wf_def sorted_names_def names_of_def bt_get_def)
  then show "sorted_wrt (<) (names_of (name_sets keys cs) k)"
    "set (names_of (name_sets keys cs) k) = summary_name ` {c \<in> set cs. k \<in> set (keys c)}"
    using name_sets_step [of "[]" keys cs k] by (simp_all add: name_sets_def sorted_names_def)
qed

lemma names_of_remove: "k \<noteq> key \<Longrightarrow> names_of (bt_remove key sets) k = names_of sets k"
proof -
  assume "k \<noteq> key"
  then have "map_of (filter (\<lambda>e. fst e \<noteq> key) sets) k = map_of sets k"
    by (induction sets) auto
  then show ?thesis by (simp add: names_of_def bt_remove_def bt_get_def)
qed

text \<open>A record takes the members of its key unless an earlier record of the same key took them.\<close>

lemma network_record_members:
  "distinct (map network_id ns) \<Longrightarrow> r \<in> set (network_records sets ns)
     \<Longrightarrow> nw_members r = names_of sets (nw_id r) \<and> nw_id r \<in> network_id ` set ns"
proof (induction sets ns rule: network_records.induct)
  case (2 sets n ns)
  show ?case
  proof (cases "r \<in> set (network_records (bt_remove (network_id n) sets) ns)")
    case True
    then have r: "nw_members r = names_of (bt_remove (network_id n) sets) (nw_id r)" "nw_id r \<in> network_id ` set ns"
      using 2 by auto
    then have "nw_id r \<noteq> network_id n" using 2 by auto
    then show ?thesis using r by (simp add: names_of_remove)
  next
    case False
    then show ?thesis using 2(3) by simp
  qed
qed simp

lemma volume_record_members:
  "distinct names \<Longrightarrow> r \<in> set (volume_records sets names) \<Longrightarrow>
     vl_attached_to r = names_of sets (vl_id r) \<and> vl_id r \<in> set names"
proof (induction sets names rule: volume_records.induct)
  case (2 sets name names)
  show ?case
  proof (cases "r \<in> set (volume_records (bt_remove name sets) names)")
    case True
    then have r: "vl_attached_to r = names_of (bt_remove name sets) (vl_id r)" "vl_id r \<in> set names"
      using 2 by auto
    then have "vl_id r \<noteq> name" using 2 by auto
    then show ?thesis using r by (simp add: names_of_remove)
  next
    case False
    then show ?thesis using 2(3) by simp
  qed
qed simp

lemma build_container_simps [simp]:
  "ct_id (build_container debug c) = summary_id c" "ct_name (build_container debug c) = summary_name c"
  "ct_networks (build_container debug c) = summary_networks c"
  "ct_mounts (build_container debug c) = collect_container_mounts (summary_id c) (cy_mounts c)"
  by (simp_all add: build_container_def Let_def)

text \<open>
  Who belongs to a network or a volume. When Docker reports each network (volume) once, the
  record of one lists exactly the names of the containers that are attached to it (that mount it),
  without repetition and in byte order: an inventory depends neither on the order in which Docker
  lists containers nor on the order of a container's own map of networks.
\<close>

lemma snapshot_members_exact:
  assumes "distinct (map network_id networks)" and "distinct volumes"
    and s: "s = build_snapshot debug now containers networks (Some volumes)"
  shows "(\<forall>n \<in> set (sn_networks s). sorted_wrt (<) (nw_members n)
      \<and> set (nw_members n) = {ct_name c | c. c \<in> set (sn_containers s) \<and> nw_id n \<in> set (ct_networks c)})
    \<and> (\<forall>v \<in> set (sn_volumes s). sorted_wrt (<) (vl_attached_to v)
      \<and> set (vl_attached_to v) = summary_name ` {c \<in> set containers. vl_id v \<in> set (summary_volumes c)})"
proof (intro conjI ballI)
  fix n assume "n \<in> set (sn_networks s)"
  then have "nw_members n = names_of (name_sets summary_networks containers) (nw_id n)"
    using network_record_members [OF assms(1)] by (simp add: s build_snapshot_def)
  moreover have "{ct_name c | c. c \<in> set (sn_containers s) \<and> nw_id n \<in> set (ct_networks c)}
      = summary_name ` {c \<in> set containers. nw_id n \<in> set (summary_networks c)}"
    by (auto simp: s build_snapshot_def intro!: exI [of _ "build_container debug _"])
  ultimately show "sorted_wrt (<) (nw_members n)"
    "set (nw_members n) = {ct_name c | c. c \<in> set (sn_containers s) \<and> nw_id n \<in> set (ct_networks c)}"
    using name_sets_members [of summary_networks containers "nw_id n"] by simp_all
next
  fix v assume "v \<in> set (sn_volumes s)"
  then have "vl_attached_to v = names_of (name_sets summary_volumes containers) (vl_id v)"
    using volume_record_members [OF assms(2)] by (simp add: s build_snapshot_def)
  then show "sorted_wrt (<) (vl_attached_to v)"
    "set (vl_attached_to v) = summary_name ` {c \<in> set containers. vl_id v \<in> set (summary_volumes c)}"
    using name_sets_members [of summary_volumes containers "vl_id v"] by simp_all
qed

definition example_summary :: "string \<Rightarrow> string \<Rightarrow> container_summary" where
  "example_summary name network = \<lparr>cy_id = Some (''id-'' @ name), cy_names = Some [CHR ''/'' # name],
     cy_image = None, cy_status = None, cy_networks = Some [(''net'', Some network)], cy_mounts = None,
     cy_labels = None, cy_ports = None\<rparr>"

section \<open>Bound Compose containers\<close>

text \<open>What a container must show for its mounts to be compared with a Compose declaration.\<close>

definition bindable :: "docker_snapshot \<Rightarrow> container_summary \<Rightarrow> compose_runtime_container \<Rightarrow> bool" where
  "bindable snapshot c b \<longleftrightarrow>
     cy_id c = Some (cx_container_id b) \<and> is_exact_docker_container_id (cx_container_id b)
     \<and> map_option trim (label c ''com.docker.compose.project'') = Some (cx_project b)
     \<and> map_option trim (label c ''com.docker.compose.service'') = Some (cx_service b)
     \<and> cx_project b \<noteq> [] \<and> cx_service b \<noteq> [] \<and> char_count (cx_project b) \<le> 259 \<and> char_count (cx_service b) \<le> 259
     \<and> (\<exists>text. label c ''com.docker.compose.project.config_files'' = Some text \<and> char_count text \<le> 4096
          \<and> cx_config_files b = config_label_files text)
     \<and> cx_config_files b \<noteq> [] \<and> length (cx_config_files b) \<le> 8
     \<and> bt_get (mounts_by_id snapshot) (cx_container_id b) = Some (cx_mounts b) \<and> length (cx_mounts b) \<le> 128"

lemma compose_container_iff: "compose_container (mounts_by_id s) c = Some b \<longleftrightarrow> bindable s c b"
  by (auto simp: compose_container_def bindable_def label_def Let_def not_less
      MAX_COMPOSE_RUNTIME_BINDING_CONFIG_FILES_def MAX_RUNTIME_MOUNTS_PER_BOUND_CONTAINER_def
      split: option.splits bind_splits if_splits)

lemma compose_containers_eq:
  "length acc \<le> MAX_COMPOSE_RUNTIME_BINDING_CONTAINERS \<Longrightarrow> compose_containers m acc cs =
     (let bound = concat (map (opt_list \<circ> compose_container m) cs)
      in if length (acc @ bound) \<le> MAX_COMPOSE_RUNTIME_BINDING_CONTAINERS then Some (acc @ bound) else None)"
  by (induction cs arbitrary: acc) (auto simp: Let_def split: option.splits)

lemma set_opt_list [simp]: "x \<in> set (opt_list y) \<longleftrightarrow> y = Some x"
  by (cases y) auto

text \<open>
  C22. The containers bound to Compose. A container takes part in the comparison with a Compose
  declaration exactly if it carries a project, a service and config files within the bounds, an
  identifier of 64 lower-case hexadecimal digits, and at most 128 mounts; the mounts are those of the
  published snapshot. With more than 64 such containers nothing is bound rather than a part.
\<close>

theorem compose_binding_exact:
  assumes "collect_observation api now label_filter = Inr obs"
    and "da_list_containers api True (docker_filters label_filter) = Inr containers"
  shows "case do_compose_containers obs of
      Some bound \<Rightarrow> length bound \<le> 64 \<and> (\<forall>b. b \<in> set bound \<longleftrightarrow> (\<exists>c \<in> set containers. bindable (do_snapshot obs) c b))
    | None \<Rightarrow> 64 < length (filter (\<lambda>c. \<exists>b. bindable (do_snapshot obs) c b) containers)"
proof -
  let ?m = "mounts_by_id (do_snapshot obs)"
  let ?bound = "concat (map (opt_list \<circ> compose_container ?m) containers)"
  have obs: "do_compose_containers obs = compose_containers ?m [] containers"
    using assms by (auto simp: collect_observation_def Let_def split: sum.splits)
  have len: "length ?bound = length (filter (\<lambda>c. \<exists>b. bindable (do_snapshot obs) c b) containers)"
  proof (induction containers)
    case (Cons c cs)
    then show ?case
      by (cases "compose_container ?m c") (auto simp: compose_container_iff [symmetric])
  qed simp
  have mem: "b \<in> set ?bound \<longleftrightarrow> (\<exists>c \<in> set containers. bindable (do_snapshot obs) c b)" for b
    by (simp add: compose_container_iff)
  show ?thesis
  proof (cases "length ?bound \<le> 64")
    case True
    then have "do_compose_containers obs = Some ?bound"
      by (simp add: obs compose_containers_eq MAX_COMPOSE_RUNTIME_BINDING_CONTAINERS_def)
    then show ?thesis using True mem by simp
  next
    case False
    then have "do_compose_containers obs = None"
      by (simp add: obs compose_containers_eq MAX_COMPOSE_RUNTIME_BINDING_CONTAINERS_def)
    then show ?thesis using False len by simp
  qed
qed

definition example_labels :: "string \<Rightarrow> string option" where
  "example_labels = [''com.docker.compose.project'' \<mapsto> ''shop'', ''com.docker.compose.service'' \<mapsto> ''db'',
     ''com.docker.compose.project.config_files'' \<mapsto> ''/srv/compose.yaml'']"

definition example_api :: docker_api where
  "example_api = \<lparr>da_list_containers = (\<lambda>_ _. Inr [(example_summary ''db'' ''n1'')
       \<lparr>cy_id := Some (replicate 64 (CHR ''a'')), cy_labels := Some example_labels\<rparr>]),
     da_list_networks = (\<lambda>_. Inr []), da_list_volumes = (\<lambda>_. Inr None), da_logs = (\<lambda>_ _. []),
     da_port_type_debug = (\<lambda>_. ''TCP'')\<rparr>"

theorem compose_binding_exact_witness:
  "\<exists>obs containers. collect_observation example_api 7 None = Inr obs
     \<and> da_list_containers example_api True (docker_filters None) = Inr containers
     \<and> (case do_compose_containers obs of
          Some bound \<Rightarrow> length bound \<le> 64 \<and> (\<forall>b. b \<in> set bound \<longleftrightarrow> (\<exists>c \<in> set containers. bindable (do_snapshot obs) c b))
        | None \<Rightarrow> 64 < length (filter (\<lambda>c. \<exists>b. bindable (do_snapshot obs) c b) containers))"
proof -
  obtain obs containers where o: "collect_observation example_api 7 None = Inr obs"
    "da_list_containers example_api True (docker_filters None) = Inr containers"
    by (simp add: collect_observation_def example_api_def Let_def)
  show ?thesis using o compose_binding_exact [OF o] by blast
qed

section \<open>Live logs\<close>

definition line_time :: "log_output \<Rightarrow> u64 option" where
  "line_time out = map_option fst (parse_timestamped_log_line (log_output_message out))"

text \<open>The entries of a window of lines: each line with a timestamp and a message, numbered within its millisecond.\<close>

fun number_lines :: "string \<Rightarrow> (u64 \<Rightarrow> nat) \<Rightarrow> log_output list \<Rightarrow> log_entry list" where
  "number_lines service seen [] = []"
| "number_lines service seen (out # outs) =
     (case parse_timestamped_log_line (log_output_message out) of
        None \<Rightarrow> number_lines service seen outs
      | Some (t, message) \<Rightarrow>
          live_entry service t message (seen t) # number_lines service (seen(t := seen t + 1)) outs)"

definition window_entries :: "string \<Rightarrow> log_output list \<Rightarrow> log_entry list" where
  "window_entries service window = number_lines service (\<lambda>_. 0) window"

text \<open>
  Docker's side of the contract: every request opens the same window of at most \<open>log_tail_count\<close>
  lines, and \<open>until\<close> drops the lines at or after that second. What it does with lines that carry no
  timestamp of their own is open.
\<close>

definition kept_until :: "(log_output \<Rightarrow> bool) \<Rightarrow> int option \<Rightarrow> log_output \<Rightarrow> bool" where
  "kept_until keep until out \<longleftrightarrow>
     (case until of None \<Rightarrow> True
      | Some seconds \<Rightarrow> (case line_time out of None \<Rightarrow> keep out | Some t \<Rightarrow> int t < 1000 * seconds))"

definition serves_window :: "docker_api \<Rightarrow> string \<Rightarrow> log_output list \<Rightarrow> bool" where
  "serves_window api service window \<longleftrightarrow> length window \<le> log_tail_count
     \<and> (\<forall>cursor. \<exists>keep. da_logs api service (log_options cursor)
          = map Inr (filter (kept_until keep (lo_until (log_options cursor))) window))"

lemma collected_window:
  "length acc + length window < MAX_LOG_STREAM_CAP \<Longrightarrow>
     collect_log_entries service seen acc (map Inr window) = Inr (acc @ number_lines service seen window)"
  by (induction window arbitrary: acc seen) (auto simp: Let_def split: option.splits)

lemma live_entry_simps [simp]:
  "lg_timestamp (live_entry service t message n) = t" "lg_id (live_entry service t message n) = log_entry_id service t n"
  by (simp_all add: live_entry_def)

text \<open>A filter that looks only at the timestamp leaves the numbers within a millisecond alone.\<close>

lemma number_filtered:
  assumes "\<And>out t. line_time out = Some t \<Longrightarrow> P out \<longleftrightarrow> T t" and "\<And>t. T t \<Longrightarrow> seen t = seen' t"
  shows "number_lines service seen (filter P window) = filter (\<lambda>e. T (lg_timestamp e)) (number_lines service seen' window)"
  using assms(2)
proof (induction window arbitrary: seen seen')
  case (Cons out window)
  show ?case
  proof (cases "parse_timestamped_log_line (log_output_message out)")
    case None
    then show ?thesis using Cons by simp
  next
    case (Some tm)
    obtain t message where tm: "tm = (t, message)" by (cases tm)
    have P: "P out \<longleftrightarrow> T t" using assms(1) [of out t] Some tm by (simp add: line_time_def)
    have "number_lines service s (filter P window)
        = filter (\<lambda>e. T (lg_timestamp e)) (number_lines service (seen'(t := seen' t + 1)) window)"
      if "\<And>u. T u \<Longrightarrow> s u = (seen'(t := seen' t + 1)) u" for s
      using that by (rule Cons.IH)
    note IH = this
    show ?thesis
    proof (cases "T t")
      case True
      have "(seen(t := seen t + 1)) u = (seen'(t := seen' t + 1)) u" if "T u" for u
        using Cons.prems that True by simp
      then show ?thesis using IH [of "seen(t := seen t + 1)"] P Some tm True Cons.prems by simp
    next
      case False
      have "seen u = (seen'(t := seen' t + 1)) u" if "T u" for u using Cons.prems that False by auto
      then show ?thesis using IH [of seen] P Some tm False by simp
    qed
  qed
qed simp

lemma skip_emitted_filter:
  assumes "\<And>t. \<not> T t \<Longrightarrow> lc_millis c < t"
  shows "skip_emitted c n (filter (\<lambda>e. T (lg_timestamp e)) es) = skip_emitted c n es"
proof (induction es arbitrary: n)
  case (Cons e es)
  then show ?case using assms [of "lg_timestamp e"] by (cases "T (lg_timestamp e)") auto
qed simp

lemma page_filtered:
  assumes "\<And>t. \<not> T t \<Longrightarrow> lc_millis c < t"
  shows "page_log_entries (filter (\<lambda>e. T (lg_timestamp e)) es) query (Some c) limit = page_log_entries es query (Some c) limit"
proof -
  have "filter (matches_query query) (filter (\<lambda>e. T (lg_timestamp e)) es)
      = filter (\<lambda>e. T (lg_timestamp e)) (filter (matches_query query) es)"
    by (simp add: conj_commute)
  then have "newest_first (filter (matches_query query) (filter (\<lambda>e. T (lg_timestamp e)) es))
      = filter (\<lambda>e. T (lg_timestamp e)) (newest_first (filter (matches_query query) es))"
    by (simp add: newest_first_def filter_sort)
  then show ?thesis using skip_emitted_filter [of T c, OF assms]
    by (simp add: page_log_entries_def)
qed

lemma redact_entry_time [simp]: "lg_timestamp (redact_log_entry e) = lg_timestamp e"
  by (simp add: redact_log_entry_def)

lemma until_covers:
  assumes "lc_millis c < 2147483647000"
  shows "log_until_seconds (lc_millis c) = int (lc_millis c div 1000 + 1)"
    and "\<not> int t < 1000 * log_until_seconds (lc_millis c) \<Longrightarrow> lc_millis c < t"
proof -
  have "lc_millis c div 1000 < 2147483647" using assms by (simp add: less_mult_imp_div_less)
  then show eq: "log_until_seconds (lc_millis c) = int (lc_millis c div 1000 + 1)"
    by (simp add: log_until_seconds_def)
  show "\<not> int t < 1000 * log_until_seconds (lc_millis c) \<Longrightarrow> lc_millis c < t"
  proof -
    define k where "k = lc_millis c div 1000 + 1"
    assume "\<not> int t < 1000 * log_until_seconds (lc_millis c)"
    then have "1000 * k \<le> t" unfolding eq k_def [symmetric] by linarith
    moreover have "lc_millis c < 1000 * k"
      using dividend_less_div_times [of 1000 "lc_millis c"] by (simp add: k_def)
    ultimately show ?thesis by simp
  qed
qed

text \<open>One live page is the page of the whole window: Docker's coarser filter takes away nothing a page holds.\<close>

lemma live_page:
  assumes "serves_window api service window" and "\<And>c. cursor = Some c \<Longrightarrow> lc_millis c < 2147483647000"
  shows "collect_logs api service query cursor limit
    = Inr (publish_log_response (Some service) (window_entries service window) query cursor (clamp_limit limit))"
proof -
  obtain keep where items: "da_logs api service (log_options cursor)
      = map Inr (filter (kept_until keep (lo_until (log_options cursor))) window)"
    using assms(1) unfolding serves_window_def by blast
  let ?window = "filter (kept_until keep (lo_until (log_options cursor))) window"
  have "length ?window \<le> length window" by (rule length_filter_le)
  moreover have "length window \<le> MAX_LOG_CURSOR_TAIL"
    using assms(1) by (simp add: serves_window_def log_tail_count_def)
  ultimately have "length ?window < MAX_LOG_STREAM_CAP" unfolding MAX_LOG_STREAM_CAP_def by linarith
  then have collected: "collect_log_entries service (\<lambda>_. 0) [] (da_logs api service (log_options cursor))
      = Inr (number_lines service (\<lambda>_. 0) ?window)"
    unfolding items using collected_window [of "[]" ?window service "\<lambda>_. 0"] by simp
  show ?thesis
  proof (cases cursor)
    case None
    then have "?window = window" by (simp add: kept_until_def log_options_def)
    then show ?thesis using collected by (simp add: collect_logs_def window_entries_def)
  next
    case (Some c)
    define T where "T t \<longleftrightarrow> int t < 1000 * log_until_seconds (lc_millis c)" for t :: nat
    have "number_lines service (\<lambda>_. 0) ?window = filter (\<lambda>e. T (lg_timestamp e)) (window_entries service window)"
      unfolding window_entries_def using Some
      by (intro number_filtered) (auto simp: kept_until_def log_options_def T_def)
    moreover have "\<not> T t \<Longrightarrow> lc_millis c < t" for t
      using until_covers(2) [OF assms(2) [OF Some]] unfolding T_def by blast
    moreover have "map redact_log_entry (filter (\<lambda>e. T (lg_timestamp e)) es)
        = filter (\<lambda>e. T (lg_timestamp e)) (map redact_log_entry es)" for es
      by (simp add: filter_map comp_def)
    ultimately show ?thesis using collected page_filtered [of T c] Some
      by (simp add: collect_logs_def publish_log_response_def)
  qed
qed

text \<open>A client of the live logs: it asks for the next page with the cursor it got, until it gets none.\<close>

fun fetch_live :: "nat \<Rightarrow> (log_cursor option \<Rightarrow> string + logs_response) \<Rightarrow> log_cursor option \<Rightarrow> log_entry list option" where
  "fetch_live 0 request cursor = None"
| "fetch_live (Suc fuel) request cursor =
     (case request cursor of
        Inl e \<Rightarrow> None
      | Inr r \<Rightarrow>
          (case lr_next_cursor r of
             None \<Rightarrow> Some (lr_entries r)
           | Some text \<Rightarrow>
               (case log_cursor_parse text of
                  None \<Rightarrow> None
                | Some c \<Rightarrow> map_option ((@) (lr_entries r)) (fetch_live fuel request (Some c)))))"

lemma clamp_idem [simp]: "clamp_limit (clamp_limit limit) = clamp_limit limit"
  by (simp add: clamp_limit_def)

lemma page_clamped [simp]: "page_log_entries es query cursor (clamp_limit limit) = page_log_entries es query cursor limit"
  by (simp add: page_log_entries_def Let_def)

text \<open>A cursor that a page hands out names the time of an entry of the log.\<close>

lemma cursor_names_entry:
  assumes "\<forall>e \<in> set entries. lg_timestamp e < 2 ^ 64" and "length entries < 2 ^ 64"
    and "cursor_ok (newest_first (filter (matches_query query) entries)) cursor"
    and "page_log_entries entries query cursor limit = (page, Some text)" and "log_cursor_parse text = Some c"
  shows "cursor_ok (newest_first (filter (matches_query query) entries)) (Some c)
    \<and> lc_millis c \<in> lg_timestamp ` set entries"
proof -
  let ?S = "newest_first (filter (matches_query query) entries)" let ?m = "clamp_limit limit"
  let ?rest = "drop (cursor_pos ?S cursor) ?S" let ?c = "next_cursor_of ?rest cursor ?m"
  have more: "?m < length ?rest" and tx: "text = log_cursor_to_string ?c"
    using page_log_entries_pos [OF assms(3), of limit] assms(4) by (auto split: if_splits)
  have c: "cursor_ok ?S (Some ?c)" "lc_millis ?c \<in> lg_timestamp ` set ?S"
    using next_cursor_position [OF desc_newest_first assms(3) refl clamp_limit_pos more] by blast+
  have "lc_offset ?c \<le> length ?S" using c(1) n_newer_n_at_le [of ?S "lc_millis ?c"] by (simp add: cursor_ok_def)
  moreover have "length ?S < 2 ^ 64" using assms(2) le_less_trans [OF length_filter_le] by (simp only: length_newest_first) blast
  moreover have "lc_millis ?c < 2 ^ 64" using c(2) assms(1) by auto
  ultimately have "c = ?c" using cursor_roundtrip_aux [of ?c] assms(5) tx by simp
  then show ?thesis using c by auto
qed

lemma fetch_live_window:
  fixes service query window
  defines "es \<equiv> map redact_log_entry (window_entries service window)"
  assumes serves: "serves_window api service window"
    and ts: "\<forall>e \<in> set es. lg_timestamp e < 2147483647000" and len: "length es < 2 ^ 64"
  shows "cursor_ok (newest_first (filter (matches_query query) es)) cursor
    \<Longrightarrow> (\<And>c. cursor = Some c \<Longrightarrow> lc_millis c < 2147483647000)
    \<Longrightarrow> fetch_live fuel (\<lambda>cursor. collect_logs api service query cursor limit) cursor = fetch_all fuel es query cursor limit"
proof (induction fuel arbitrary: cursor)
  case (Suc fuel)
  obtain page next_cursor where page: "page_log_entries es query cursor limit = (page, next_cursor)" by fastforce
  have request: "collect_logs api service query cursor limit = Inr \<lparr>lr_service = Some (redact_runtime_display_text service),
      lr_entries = page, lr_next_cursor = next_cursor, lr_source = None\<rparr>"
    using live_page [OF serves Suc.prems(2), where query = query and limit = limit] page by (simp add: publish_log_response_def es_def)
  have big: "\<forall>e \<in> set es. lg_timestamp e < 2 ^ 64" using ts by force
  show ?case
  proof (cases "Option.bind next_cursor log_cursor_parse")
    case None
    then show ?thesis using request page by (cases next_cursor) simp_all
  next
    case (Some c)
    then obtain tx where tx: "next_cursor = Some tx" "log_cursor_parse tx = Some c" by (cases next_cursor) simp_all
    note names = cursor_names_entry [OF big len Suc.prems(1) page [unfolded tx(1)] tx(2)]
    have "lc_millis c < 2147483647000" using names ts by auto
    then have "fetch_live fuel (\<lambda>cursor. collect_logs api service query cursor limit) (Some c)
        = fetch_all fuel es query (Some c) limit"
      using Suc.IH [of "Some c"] names by simp
    then show ?thesis using request page tx by simp
  qed
qed simp

text \<open>
  C5. Reading the live log to its end. Docker serves a fixed window and cuts it at a whole second
  after the cursor; a client that follows the cursors nevertheless gets every entry of the window that
  matches its query exactly once, newest first, whatever the page size, and the loop ends. This holds
  for times before 19 January 2038, where the seconds of Docker's filter leave their 32 bits.
\<close>

theorem live_pagination_complete:
  assumes "serves_window api service window"
    and "\<forall>e \<in> set (window_entries service window). lg_timestamp e < 2147483647000"
    and "length window < fuel"
  shows "fetch_live fuel (\<lambda>cursor. collect_logs api service query cursor limit) None
    = Some (newest_first (filter (matches_query query) (map redact_log_entry (window_entries service window))))"
proof -
  let ?es = "map redact_log_entry (window_entries service window)"
  have "length (number_lines service seen w) \<le> length w" for seen w
    by (induction w arbitrary: seen) (auto split: option.splits intro: le_SucI)
  then have short: "length ?es \<le> length window" by (simp add: window_entries_def)
  have "length window \<le> 4096"
    using assms(1) by (simp add: serves_window_def log_tail_count_def MAX_LOG_CURSOR_TAIL_def)
  then have len: "length ?es < 2 ^ 64" using short by simp
  have ts: "\<forall>e \<in> set ?es. lg_timestamp e < 2147483647000" using assms(2) by simp
  then have "\<forall>e \<in> set ?es. lg_timestamp e < 2 ^ 64" by fastforce
  moreover have "length ?es < fuel" using short assms(3) by linarith
  ultimately have "fetch_all fuel ?es query None limit = Some (newest_first (filter (matches_query query) ?es))"
    using len by (intro pagination_complete)
  moreover have "fetch_live fuel (\<lambda>cursor. collect_logs api service query cursor limit) None
      = fetch_all fuel ?es query None limit"
    using assms(1) ts len by (intro fetch_live_window) (simp_all add: cursor_ok_def)
  ultimately show ?thesis by simp
qed

definition example_line :: "string \<Rightarrow> log_output" where
  "example_line message = LO_StdOut (''1970-01-01T00:00:01Z '' @ message)"

definition example_window :: "log_output list" where
  "example_window = [example_line ''a'', example_line ''b'']"

text \<open>A Docker client that serves this window, filtered as Docker does.\<close>

definition window_api :: "log_output list \<Rightarrow> docker_api" where
  "window_api window = example_api\<lparr>da_logs := (\<lambda>_ options. map Inr (filter (kept_until (\<lambda>_. True) (lo_until options)) window))\<rparr>"

lemma window_api_serves: "length window \<le> 4096 \<Longrightarrow> serves_window (window_api window) service window"
  by (auto simp: serves_window_def window_api_def log_tail_count_def MAX_LOG_CURSOR_TAIL_def)

lemma example_line_parsed:
  assumes "m \<in> {''a'', ''b''}"
  shows "parse_timestamped_log_line (log_output_message (example_line m)) = Some (1000, m)"
proof -
  have "from_utf8_lossy (''1970-01-01T00:00:01Z '' @ m) = ''1970-01-01T00:00:01Z '' @ m"
    using assms by (intro lossy_valid_id ascii_valid(1)) (auto simp: ascii_def byte_def)
  moreover have "split_once (''1970-01-01T00:00:01Z '' @ m) (CHR '' '') = Some (''1970-01-01T00:00:01Z'', m)"
    by simp
  moreover have "parse_rfc3339_nano_millis ''1970-01-01T00:00:01Z'' = Some 1000"
  proof -
    have "calendar_day 1970 1 1 = 0"
      by (simp add: calendar_day_def days_before_year_closed days_before_month_def month_lengths_def leap_def)
    then have "parse_rfc3339_nano_millis (rfc3339_text 1970 1 1 0 0 1) = Some 1000"
      by (simp add: parse_rfc3339_text fields_millis_def)
    moreover have "rfc3339_text 1970 1 1 0 0 1 = ''1970-01-01T00:00:01Z''" by code_simp
    ultimately show ?thesis by simp
  qed
  moreover have "trim m = m" using assms by (elim insertE emptyE) (hypsubst, code_simp)+
  moreover have "truncate_chars m MAX_LOG_MESSAGE_CHARS = m"
    using assms of_chars_ascii [of m] chars_ascii [of m]
    by (auto simp: truncate_chars_def char_count_def MAX_LOG_MESSAGE_CHARS_def byte_def)
  ultimately show ?thesis using assms
    by (auto simp: parse_timestamped_log_line_def example_line_def)
qed

theorem live_pagination_complete_witness:
  "\<exists>es. window_entries ''db'' example_window = es \<and> map lg_message es = [''a'', ''b'']
     \<and> fetch_live 3 (\<lambda>cursor. collect_logs (window_api example_window) ''db'' None cursor 1) None
         = Some (newest_first (filter (matches_query None) (map redact_log_entry es)))"
proof -
  have es: "window_entries ''db'' example_window = [live_entry ''db'' 1000 ''a'' 0, live_entry ''db'' 1000 ''b'' 1]"
    by (simp add: window_entries_def example_window_def example_line_parsed)
  have "fetch_live 3 (\<lambda>cursor. collect_logs (window_api example_window) ''db'' None cursor 1) None
      = Some (newest_first (filter (matches_query None) (map redact_log_entry (window_entries ''db'' example_window))))"
  proof (rule live_pagination_complete)
    show "serves_window (window_api example_window) ''db'' example_window"
      by (rule window_api_serves) (simp add: example_window_def)
    show "\<forall>e \<in> set (window_entries ''db'' example_window). lg_timestamp e < 2147483647000" by (simp add: es)
    show "length example_window < 3" by (simp add: example_window_def)
  qed
  then show ?thesis using es by (simp add: live_entry_def)
qed

section \<open>Identifiers of live entries\<close>

lemma cursor_hex_inj: "a < 16 \<Longrightarrow> b < 16 \<Longrightarrow> hex_digit a = hex_digit b \<longleftrightarrow> a = b"
proof -
  assume a: "a < 16" and b: "b < 16"
  have "byte (hex_digit n) = (if n < 10 then 48 + n else 87 + n)" if "n < 16" for n
    using that by (simp add: hex_digit_def)
  then have "byte (hex_digit a) = byte (hex_digit b) \<Longrightarrow> a = b" using a b by (auto split: if_splits)
  then show "hex_digit a = hex_digit b \<longleftrightarrow> a = b" by auto
qed

text \<open>The value of a hexadecimal text read back, which shows that padding to four digits loses nothing.\<close>

definition hex_val :: "char \<Rightarrow> nat" where
  "hex_val c = (if byte c < 58 then byte c - 48 else byte c - 87)"

definition hex_read :: "string \<Rightarrow> nat" where
  "hex_read s = foldl (\<lambda>n c. 16 * n + hex_val c) 0 s"

lemma hex_val_digit: "n < 16 \<Longrightarrow> hex_val (hex_digit n) = n"
  by (auto simp: hex_val_def hex_digit_def)

lemma hex_read_show: "hex_read (show_hex n) = n"
proof (induction n rule: show_hex.induct)
  case (1 n)
  then show ?case by (subst show_hex.simps) (auto simp: hex_read_def hex_val_digit)
qed

lemma hex_read_padded: "hex_read (pad_left w (CHR ''0'') (show_hex n)) = n"
proof -
  have "foldl (\<lambda>n c. 16 * n + hex_val c) 0 (replicate k (CHR ''0'')) = 0" for k
    by (induction k) (simp_all add: hex_val_def byte_def)
  then show ?thesis using hex_read_show [of n] by (simp add: pad_left_def hex_read_def)
qed

lemma show_hex_no_dash: "CHR ''-'' \<notin> set (show_hex n)"
proof (induction n rule: show_hex.induct)
  case (1 n)
  have "byte (hex_digit m) \<noteq> byte (CHR ''-'')" if "m < 16" for m
    using that by (auto simp: hex_digit_def) (simp_all add: byte_def)
  then have "m < 16 \<Longrightarrow> CHR ''-'' \<noteq> hex_digit m" for m by metis
  then show ?case using 1 by (subst show_hex.simps) auto
qed

lemma show_nat_no_dash: "CHR ''-'' \<notin> set (show_nat n)"
  using show_nat_digits [of n] by (auto simp: list_all_iff is_ascii_digit_def byte_def)

lemma log_entry_id_inj: "log_entry_id service t n = log_entry_id service u m \<longleftrightarrow> t = u \<and> n = m"
proof -
  have "log_entry_id service t n = log_entry_id service u m \<longleftrightarrow> show_nat t = show_nat u
      \<and> pad_left 4 (CHR ''0'') (show_hex n) = pad_left 4 (CHR ''0'') (show_hex m)"
    using split_once_append [OF show_nat_no_dash] by (auto simp: log_entry_id_def) (metis Pair_inject option.inject)+
  then show ?thesis using hex_read_padded dec_value_show_nat by (metis option.inject)
qed

lemma number_lines_ids:
  "\<forall>e \<in> set (number_lines service seen window). \<exists>n. lg_id e = log_entry_id service (lg_timestamp e) n \<and> seen (lg_timestamp e) \<le> n"
  "distinct (map lg_id (number_lines service seen window))"
proof -
  have both: "(\<forall>e \<in> set (number_lines service seen window).
        \<exists>n. lg_id e = log_entry_id service (lg_timestamp e) n \<and> seen (lg_timestamp e) \<le> n)
      \<and> distinct (map lg_id (number_lines service seen window))"
  proof (induction window arbitrary: seen)
    case (Cons out window)
    show ?case
    proof (cases "parse_timestamped_log_line (log_output_message out)")
      case (Some tm)
      obtain t message where tm: "tm = (t, message)" by (cases tm)
      let ?rest = "number_lines service (seen(t := seen t + 1)) window"
      have rest: "\<forall>e \<in> set ?rest. \<exists>n. lg_id e = log_entry_id service (lg_timestamp e) n
          \<and> (seen(t := seen t + 1)) (lg_timestamp e) \<le> n" "distinct (map lg_id ?rest)"
        using Cons.IH [of "seen(t := seen t + 1)"] by blast+
      have "lg_id e \<noteq> log_entry_id service t (seen t)" if e: "e \<in> set ?rest" for e
      proof -
        obtain n where "lg_id e = log_entry_id service (lg_timestamp e) n"
          "(seen(t := seen t + 1)) (lg_timestamp e) \<le> n" using rest(1) e by blast
        then show ?thesis by (cases "lg_timestamp e = t") (auto simp: log_entry_id_inj)
      qed
      then have "log_entry_id service t (seen t) \<notin> lg_id ` set ?rest" by (metis imageE)
      moreover have "\<exists>n. lg_id e = log_entry_id service (lg_timestamp e) n \<and> seen (lg_timestamp e) \<le> n"
        if e: "e \<in> set ?rest" for e
        using rest(1) e by (metis (no_types, lifting) add_leD1 fun_upd_apply)
      ultimately show ?thesis using Some tm rest(2) by auto
    qed (use Cons in simp)
  qed simp
  then show "\<forall>e \<in> set (number_lines service seen window).
      \<exists>n. lg_id e = log_entry_id service (lg_timestamp e) n \<and> seen (lg_timestamp e) \<le> n"
    "distinct (map lg_id (number_lines service seen window))" by blast+
qed

lemma collected_is_window:
  "collect_log_entries service seen acc items = Inr es \<Longrightarrow>
     \<exists>window. es = acc @ number_lines service seen window"
proof (induction service seen acc items rule: collect_log_entries.induct)
  case (1 service seen acc)
  then show ?case by (auto intro: exI [of _ "[]"])
next
  case (3 service seen acc out items)
  show ?case
  proof (cases "parse_timestamped_log_line (log_output_message out)")
    case None
    then show ?thesis using 3 by simp
  next
    case (Some tm)
    obtain t message where tm: "tm = (t, message)" by (cases tm)
    let ?e = "live_entry service t message (seen t)"
    show ?thesis
    proof (cases "MAX_LOG_STREAM_CAP \<le> length (acc @ [?e])")
      case True
      then have "es = acc @ number_lines service seen [out]" using 3(3) Some tm by (simp add: Let_def)
      then show ?thesis by blast
    next
      case False
      then obtain window where "es = (acc @ [?e]) @ number_lines service (seen(t := seen t + 1)) window"
        using 3(2) [OF Some [unfolded tm] refl refl False] 3(3) Some tm False
        by (auto simp: Let_def simp del: fun_upd_apply)
      then have "es = acc @ number_lines service seen (out # window)" using Some tm by simp
      then show ?thesis by blast
    qed
  qed
qed simp

lemma page_subset: "set (fst (page_log_entries es query cursor limit)) \<subseteq> set es"
proof -
  have skipped: "x \<in> set (skip_emitted c n xs) \<Longrightarrow> x \<in> set xs" for x c n xs
    by (induction c n xs rule: skip_emitted.induct) (auto split: if_splits)
  show ?thesis
    by (auto simp: page_log_entries_def Let_def dest!: in_set_takeD skipped split: option.splits)
qed

lemma page_distinct:
  assumes "distinct (map f es)"
  shows "distinct (map f (fst (page_log_entries es query cursor limit)))"
proof -
  let ?sorted = "newest_first (filter (matches_query query) es)"
  have "distinct (map f (filter (matches_query query) es))" using assms by (rule distinct_map_filter)
  then have sorted: "distinct (map f ?sorted)"
    by (simp add: newest_first_def distinct_map)
  have "subseq (skip_emitted c n xs) xs" for c n and xs :: "log_entry list"
    by (induction c n xs rule: skip_emitted.induct) (auto intro: list_emb_Cons)
  then have "subseq (case cursor of None \<Rightarrow> ?sorted | Some c \<Rightarrow> skip_emitted c 0 ?sorted) ?sorted"
    by (cases cursor) simp_all
  then have "subseq (fst (page_log_entries es query cursor limit)) ?sorted"
    by (auto simp: page_log_entries_def Let_def intro: subseq_order.trans [OF prefix_imp_subseq [OF take_is_prefix]] split: option.splits)
  then have "subseq (map f (fst (page_log_entries es query cursor limit))) (map f ?sorted)" by (rule subseq_map)
  then show ?thesis using sorted distinct_nthsI by (metis subseq_conv_nths)
qed

text \<open>An identifier is a plain name if the service is one, and the dash keeps the test marker out.\<close>

lemma contains_before_dash:
  assumes "str_contains (a @ CHR ''-'' # b) p" and "CHR ''-'' \<notin> set p"
  shows "str_contains a p \<or> set p \<subseteq> set b"
proof -
  obtain u v where uv: "a @ CHR ''-'' # b = u @ p @ v" using assms(1) by (auto simp: str_contains_iff)
  then consider w where "u = a @ w" | w where "a = u @ w" "w @ CHR ''-'' # b = p @ v"
    by (auto simp: append_eq_append_conv2)
  then show ?thesis
  proof cases
    case (1 w)
    then have "CHR ''-'' # b = w @ p @ v" using uv by simp
    then show ?thesis using assms(2) by (cases w) (auto simp: Cons_eq_append_conv)
  next
    case (2 w)
    then consider x where "p = w @ CHR ''-'' # x" | x where "w = p @ x"
      by (auto simp: append_eq_append_conv2 Cons_eq_append_conv)
    then show ?thesis
    proof cases
      case (2 x)
      then have "a = u @ p @ x" using \<open>a = u @ w\<close> by simp
      then show ?thesis unfolding str_contains_iff by blast
    qed (use assms(2) in simp)
  qed
qed

lemma lower_hex_plain: "is_lower_hex c \<Longrightarrow> plain_char c \<and> ascii_lower c = c \<and> c \<noteq> CHR ''_''"
proof -
  assume c: "is_lower_hex c"
  have "c \<noteq> CHR ''_''"
  proof
    assume "c = CHR ''_''"
    then have "byte c = 95" by (simp add: byte_def)
    then show False using c unfolding is_lower_hex_def is_ascii_digit_def by linarith
  qed
  moreover have "ascii_lower c = c"
    using c unfolding is_lower_hex_def is_ascii_digit_def ascii_lower_def by (intro if_not_P) linarith
  moreover have "plain_char c"
    using c unfolding is_lower_hex_def plain_char_def is_ascii_alphanumeric_def is_ascii_alphabetic_def by linarith
  ultimately show ?thesis by blast
qed

lemma digits_plain: "\<forall>c \<in> set (show_nat n). plain_char c \<and> ascii_lower c = c \<and> c \<noteq> CHR ''_''"
  using show_nat_digits [of n] lower_hex_plain unfolding is_lower_hex_def by blast

lemma hex_plain: "\<forall>c \<in> set (pad_left 4 (CHR ''0'') (show_hex n)). plain_char c \<and> ascii_lower c = c \<and> c \<noteq> CHR ''_''"
proof -
  have "\<forall>c \<in> set (show_hex n). is_lower_hex c"
  proof (induction n rule: show_hex.induct)
    case (1 n)
    then show ?case using hex_digit_lower_hex by (subst show_hex.simps) auto
  qed
  moreover have "is_lower_hex (CHR ''0'')" by (simp add: is_lower_hex_def is_ascii_digit_def byte_def)
  ultimately have "\<forall>c \<in> set (pad_left 4 (CHR ''0'') (show_hex n)). is_lower_hex c" by (auto simp: pad_left_def)
  then show ?thesis using lower_hex_plain by blast
qed

lemma dash_plain: "plain_char (CHR ''-'') \<and> ascii_lower (CHR ''-'') = CHR ''-'' \<and> CHR ''-'' \<noteq> CHR ''_''"
  by (simp add: plain_char_def ascii_lower_def byte_def)

lemma log_entry_id_passes:
  assumes "log_name service" and "\<not> str_contains (to_ascii_lowercase service) test_marker"
  shows "redact_runtime_display_text (log_entry_id service t n) = log_entry_id service t n"
proof (rule log_name_passes)
  let ?b = "show_nat t @ CHR ''-'' # pad_left 4 (CHR ''0'') (show_hex n)"
  have b: "\<forall>c \<in> set ?b. plain_char c \<and> ascii_lower c = c \<and> c \<noteq> CHR ''_''"
    using digits_plain [of t] hex_plain [of n] dash_plain by auto
  have whole: "log_entry_id service t n = service @ CHR ''-'' # ?b" by (simp add: log_entry_id_def)
  show "log_name (log_entry_id service t n)"
    using assms(1) b dash_plain unfolding whole log_name_def list_all_iff by (cases service) auto
  have "to_ascii_lowercase ?b = ?b" using b by (auto simp: to_ascii_lowercase_def intro!: map_idI)
  then have lower: "to_ascii_lowercase (log_entry_id service t n) = to_ascii_lowercase service @ CHR ''-'' # ?b"
    unfolding whole by (simp add: to_ascii_lowercase_def ascii_lower_def byte_def)
  have "CHR ''_'' \<in> set test_marker" "CHR ''-'' \<notin> set test_marker" by (simp_all add: test_marker_def)
  then show "\<not> str_contains (to_ascii_lowercase (log_entry_id service t n)) test_marker"
    unfolding lower using contains_before_dash assms(2) b by blast
qed



text \<open>
  The number in an identifier counts the lines of the same millisecond in the window, so it is a
  property of the line only while the window begins before all of them. When the log has grown past
  the window and its first lines fall out, the numbers of the lines left in that millisecond shift:
  the second of two such lines takes the identifier the first one had.
\<close>

lemma sliding_window_renumbers:
  "map lg_id (window_entries ''db'' example_window) = [log_entry_id ''db'' 1000 0, log_entry_id ''db'' 1000 1]
   \<and> map lg_id (window_entries ''db'' (tl example_window)) = [log_entry_id ''db'' 1000 0]
   \<and> lg_message (hd (window_entries ''db'' (tl example_window))) = ''b''"
  by (simp add: window_entries_def example_window_def example_line_parsed live_entry_def)

text \<open>
  From 2038 on the seconds of the filter stay at the greatest 32-bit value, so a page after a cursor
  of that time lacks every line at or after that second, although the page owes the older of them.
\<close>

lemma until_saturates:
  "2147483647000 \<le> millis \<Longrightarrow> log_until_seconds millis = 2147483647
     \<and> (line_time out = Some t \<longrightarrow> 2147483647000 \<le> t \<longrightarrow> \<not> kept_until keep (Some (log_until_seconds millis)) out)"
proof -
  assume "2147483647000 \<le> millis"
  then have "2147483647000 div 1000 \<le> millis div 1000" by (rule div_le_mono)
  then have "log_until_seconds millis = 2147483647" by (simp add: log_until_seconds_def min_def)
  then show ?thesis by (auto simp: kept_until_def)
qed

end
