(* ===== verification/Query_Props.thy ===== *)
theory Query_Props
  imports Request_Query Plain_Names Rust_Path
begin

text \<open>
  What the query checks guarantee: the strict form check leaves the library parser nothing to
  replace, every text can be written in a form that passes, the two copies of the check agree, and
  what the log route accepts is within its bounds.
\<close>

section \<open>The form encoding\<close>

text \<open>
  The parser of \<open>application/x-www-form-urlencoded\<close> as the URL standard describes it, and as the
  documentation of \<open>form_urlencoded::parse\<close> promises: broken escapes stay as they are and bytes that
  are not UTF-8 are replaced.
\<close>

fun percent_literal :: "string \<Rightarrow> string" where
  "percent_literal [] = []"
| "percent_literal (c # s) =
     (if c = CHR ''+'' then CHR '' '' # percent_literal s
      else if c = CHR ''%'' then
        (case s of
           a # b # r \<Rightarrow> if is_ascii_hexdigit a \<and> is_ascii_hexdigit b
             then char_of (nibble a * 16 + nibble b) # percent_literal r else c # percent_literal s
         | _ \<Rightarrow> c # percent_literal s)
      else c # percent_literal s)"

definition name_value :: "string \<Rightarrow> string \<times> string" where
  "name_value segment = (case split_once segment (CHR ''='') of None \<Rightarrow> (segment, []) | Some nv \<Rightarrow> nv)"

definition form_pairs :: form_parser where
  "form_pairs raw = map (map_prod (from_utf8_lossy \<circ> percent_literal) (from_utf8_lossy \<circ> percent_literal) \<circ> name_value)
     (filter (\<lambda>s. s \<noteq> []) (split_char (CHR ''&'') raw))"

definition exactly :: "string \<Rightarrow> string \<Rightarrow> bool" where
  "exactly component decoded \<longleftrightarrow> percent_decode component = Some decoded \<and> valid_utf8 decoded"

lemma decode_literal: "percent_decode s = Some d \<Longrightarrow> percent_literal s = d"
proof (induction s arbitrary: d rule: percent_decode.induct)
  case (2 c s)
  show ?case
  proof (cases "c = CHR ''%''")
    case True
    then obtain a b r where "s = a # b # r" "is_ascii_hexdigit a \<and> is_ascii_hexdigit b"
      using "2.prems" by (cases s; cases "tl s") (simp_all split: if_splits)
    then show ?thesis using 2 True by auto
  next
    case False
    then show ?thesis using 2 by (cases "c = CHR ''+''") auto
  qed
qed simp

lemma exactly_literal: "exactly s d \<Longrightarrow> from_utf8_lossy (percent_literal s) = d"
  using decode_literal lossy_valid_id by (auto simp: exactly_def)

lemma split_any_nonempty [simp]: "split_any P s \<noteq> []"
  by (cases s) auto

lemma split_delimiters:
  "split_any form_delimiter raw = concat (map (split_char (CHR ''='')) (split_char (CHR ''&'') raw))"
proof (induction raw)
  case (Cons c raw)
  obtain x xs where split: "split_char (CHR ''&'') raw = x # xs" by (cases "split_char (CHR ''&'') raw") auto
  obtain y ys where x: "split_char (CHR ''='') x = y # ys" by (cases "split_char (CHR ''='') x") auto
  show ?case using Cons split x by (auto simp: form_delimiter_def)
qed simp

lemma not_hex_delimiter: "\<not> is_ascii_hexdigit (CHR ''='')" "\<not> is_ascii_hexdigit (CHR ''&'')"
  by (simp_all add: is_ascii_hexdigit_def is_ascii_digit_def byte_def)

lemma decode_append_eq:
  "percent_decode (x @ CHR ''='' # y) = (case (percent_decode x, percent_decode y) of
     (Some a, Some b) \<Rightarrow> Some (a @ CHR ''='' # b) | _ \<Rightarrow> None)"
proof (induction x rule: percent_decode.induct)
  case (2 c s)
  show ?case
  proof (cases "c = CHR ''%''")
    case False
    then show ?thesis using 2 by (auto split: option.splits)
  next
    case True
    show ?thesis
    proof (cases s)
      case Nil
      then show ?thesis using True not_hex_delimiter by (auto split: list.splits)
    next
      case (Cons a s')
      then show ?thesis
      proof (cases s')
        case Nil
        then show ?thesis using True Cons not_hex_delimiter by simp
      next
        case (Cons b r)
        then show ?thesis using True \<open>s = a # s'\<close> 2 by (auto split: option.splits)
      qed
    qed
  qed
qed (simp split: option.splits)

lemma valid_of_scalars: "valid_utf8 s \<longleftrightarrow> (\<exists>cs. list_all is_scalar cs \<and> s = of_chars cs)"
  using valid_of_chars unfolding valid_utf8_def by metis

lemma valid_append: "valid_utf8 a \<Longrightarrow> valid_utf8 b \<Longrightarrow> valid_utf8 (a @ b)"
proof -
  assume "valid_utf8 a" "valid_utf8 b"
  then obtain as bs where "list_all is_scalar as" "a = of_chars as" "list_all is_scalar bs" "b = of_chars bs"
    unfolding valid_of_scalars by blast
  then have "list_all is_scalar (as @ bs)" "a @ b = of_chars (as @ bs)" by (simp_all add: of_chars_append)
  then show ?thesis unfolding valid_of_scalars by blast
qed

lemma exactly_append_eq: "exactly x a \<Longrightarrow> exactly y b \<Longrightarrow> exactly (x @ CHR ''='' # y) (a @ CHR ''='' # b)"
proof -
  assume x: "exactly x a" and y: "exactly y b"
  have "valid_utf8 [CHR ''='']" by (rule ascii_valid(1)) (simp add: ascii_def byte_def)
  then have "valid_utf8 (a @ [CHR ''=''] @ b)" using x y by (intro valid_append) (simp_all add: exactly_def)
  then show ?thesis using x y by (simp add: exactly_def decode_append_eq)
qed

text \<open>A segment whose pieces between equals signs all decode exactly, decodes exactly.\<close>

lemma pieces_exact:
  "\<forall>p \<in> set (split_char (CHR ''='') s). \<exists>d. exactly p d \<Longrightarrow> \<exists>d. exactly s d"
proof (induction "length s" arbitrary: s rule: less_induct)
  case less
  show ?case
  proof (cases "split_once s (CHR ''='')")
    case None
    then have "split_char (CHR ''='') s = [s]" by (simp add: split_once_None split_no_sep)
    then show ?thesis using less.prems by simp
  next
    case (Some nv)
    then obtain n v where s: "s = n @ CHR ''='' # v" and n: "CHR ''='' \<notin> set n"
      by (cases nv) (auto simp: split_once_Some)
    then have split: "split_char (CHR ''='') s = n # split_char (CHR ''='') v" by (simp add: split_append)
    have pieces: "\<forall>p \<in> set (n # split_char (CHR ''='') v). \<exists>d. exactly p d" using less.prems unfolding split .
    then obtain a where a: "exactly n a" by auto
    have "length v < length s" by (simp add: s)
    then obtain b where b: "exactly v b" using less.hyps [of v] pieces by auto
    show ?thesis using exactly_append_eq [OF a b] s by blast
  qed
qed

lemma strict_pieces:
  "strict_form_urlencoded_utf8 raw \<longleftrightarrow>
     (\<forall>segment \<in> set (split_char (CHR ''&'') raw). \<forall>p \<in> set (split_char (CHR ''='') segment). \<exists>d. exactly p d)"
proof -
  have "(case percent_decode p of None \<Rightarrow> False | Some d \<Rightarrow> valid_utf8 d) \<longleftrightarrow> (\<exists>d. exactly p d)" for p
    by (simp add: exactly_def split: option.splits)
  then show ?thesis
    unfolding strict_form_urlencoded_utf8_def split_delimiters list_all_iff by auto
qed

lemma empty_exact: "exactly [] []"
  by (simp add: exactly_def valid_utf8_def)

text \<open>
  C16. The strict check leaves nothing to guess. If a query passes it, the library parser replaces no
  byte and keeps no broken escape: each pair it returns is the exact decoding of the two sides of a
  segment, and valid UTF-8. The check of the Compose routes, a copy of its own, admits the same queries.
\<close>

theorem strict_form_lossless:
  assumes "\<And>raw. form_parse raw = form_pairs raw" and "strict_form_urlencoded_utf8 raw"
  shows "(\<forall>(name, v) \<in> set (form_parse raw). \<exists>segment \<in> set (split_char (CHR ''&'') raw).
        exactly (fst (name_value segment)) name \<and> exactly (snd (name_value segment)) v)
    \<and> validate_strict_form_urlencoded raw = Inr ()"
proof (intro conjI ballI, clarify)
  fix name v assume "(name, v) \<in> set (form_parse raw)"
  then obtain segment where segment: "segment \<in> set (split_char (CHR ''&'') raw)"
    and nv: "name = from_utf8_lossy (percent_literal (fst (name_value segment)))"
      "v = from_utf8_lossy (percent_literal (snd (name_value segment)))"
    using assms(1) by (auto simp: form_pairs_def map_prod_def split: prod.splits)
  have pieces: "\<forall>p \<in> set (split_char (CHR ''='') segment). \<exists>d. exactly p d"
    using assms(2) segment unfolding strict_pieces by blast
  have "\<exists>a b. exactly (fst (name_value segment)) a \<and> exactly (snd (name_value segment)) b"
  proof (cases "split_once segment (CHR ''='')")
    case None
    then show ?thesis using pieces_exact [OF pieces] empty_exact by (auto simp: name_value_def)
  next
    case (Some xy)
    then obtain x y where "segment = x @ CHR ''='' # y" "CHR ''='' \<notin> set x" "xy = (x, y)"
      by (cases xy) (auto simp: split_once_Some)
    then have "\<exists>a. exactly x a" "\<exists>b. exactly y b"
      using pieces pieces_exact [of y] by (auto simp: split_append)
    then show ?thesis using Some \<open>xy = (x, y)\<close> by (simp add: name_value_def)
  qed
  then have "exactly (fst (name_value segment)) name \<and> exactly (snd (name_value segment)) v"
    using exactly_literal unfolding nv by metis
  then show "\<exists>segment \<in> set (split_char (CHR ''&'') raw).
      exactly (fst (name_value segment)) name \<and> exactly (snd (name_value segment)) v" using segment by blast
next
  have "validate_components ps = Inr ()"
    if "list_all (\<lambda>p. case percent_decode p of None \<Rightarrow> False | Some d \<Rightarrow> valid_utf8 d) ps" for ps
    using that by (induction ps) (auto split: option.splits)
  then show "validate_strict_form_urlencoded raw = Inr ()"
    using assms(2) by (simp add: validate_strict_form_urlencoded_def strict_form_urlencoded_utf8_def)
qed

theorem strict_form_lossless_witness:
  "validate_strict_form_urlencoded ''q=%C3%A9+a'' = Inr ()"
proof -
  have "valid_utf8 [CHR 0xC3, CHR 0xA9, CHR '' '', CHR ''a'']"
    unfolding valid_of_scalars by (rule exI [of _ "[233, 32, 97]"]) (simp add: is_scalar_def of_chars_def, code_simp)
  moreover have "valid_utf8 ''q''" by (rule ascii_valid(1)) (simp add: ascii_def byte_def)
  moreover have "percent_decode ''%C3%A9+a'' = Some [CHR 0xC3, CHR 0xA9, CHR '' '', CHR ''a'']" by code_simp
  ultimately have "strict_form_urlencoded_utf8 ''q=%C3%A9+a''"
    by (simp add: strict_form_urlencoded_utf8_def form_delimiter_def)
  then show ?thesis using strict_form_lossless [of form_pairs, OF refl] by blast
qed

section \<open>Writing a query\<close>

text \<open>The serialiser of the same standard: a client writes a pair of texts with it.\<close>

definition form_literal :: "char \<Rightarrow> bool" where
  "form_literal c \<longleftrightarrow> is_ascii_alphanumeric c \<or> c \<in> {CHR ''*'', CHR ''-'', CHR ''.'', CHR ''_''}"

definition upper_hex_digit :: "nat \<Rightarrow> char" where
  "upper_hex_digit n = char_of (if n < 10 then 48 + n else 55 + n)"

definition form_byte :: "char \<Rightarrow> string" where
  "form_byte c = (if form_literal c then [c] else if c = CHR '' '' then ''+''
     else [CHR ''%'', upper_hex_digit (byte c div 16), upper_hex_digit (byte c mod 16)])"

definition form_text :: "string \<Rightarrow> string" where
  "form_text s = concat (map form_byte s)"

definition form_encode :: "(string \<times> string) list \<Rightarrow> string" where
  "form_encode pairs = str_join ''&'' (map (\<lambda>(n, v). form_text n @ CHR ''='' # form_text v) pairs)"

lemma upper_hex: "n < 16 \<Longrightarrow> is_ascii_hexdigit (upper_hex_digit n) \<and> nibble (upper_hex_digit n) = n"
  by (auto simp: upper_hex_digit_def is_ascii_hexdigit_def is_ascii_digit_def nibble_def)

lemma literal_not_special: "form_literal c \<Longrightarrow> c \<notin> {CHR ''+'', CHR ''%'', CHR ''&'', CHR ''=''}"
  by (auto simp: form_literal_def is_ascii_alphanumeric_def is_ascii_alphabetic_def is_ascii_digit_def byte_def)

lemma decode_form_byte: "percent_decode (form_byte c @ r) = map_option ((#) c) (percent_decode r)"
proof -
  consider "form_literal c" | "\<not> form_literal c" "c = CHR '' ''" | "\<not> form_literal c" "c \<noteq> CHR '' ''" by blast
  then show ?thesis
  proof cases
    case 1
    then show ?thesis using literal_not_special [of c] by (simp add: form_byte_def)
  next
    case 2
    then show ?thesis by (simp add: form_byte_def)
  next
    case 3
    have "byte c div 16 < 16" using byte_less_256 [of c] by (simp add: less_mult_imp_div_less)
    then have hex: "is_ascii_hexdigit (upper_hex_digit (byte c div 16)) \<and> nibble (upper_hex_digit (byte c div 16)) = byte c div 16"
      "is_ascii_hexdigit (upper_hex_digit (byte c mod 16)) \<and> nibble (upper_hex_digit (byte c mod 16)) = byte c mod 16"
      by (simp_all add: upper_hex)
    moreover have "char_of (byte c div 16 * 16 + byte c mod 16) = c" by (simp add: byte_def)
    ultimately show ?thesis using 3 by (simp add: form_byte_def)
  qed
qed

lemma decode_form_text: "percent_decode (form_text s) = Some s"
proof (induction s)
  case (Cons c s)
  then show ?case using decode_form_byte [of c "form_text s"] by (simp add: form_text_def)
qed (simp add: form_text_def)

lemma form_text_delimiters: "c \<in> set (form_text s) \<Longrightarrow> c \<noteq> CHR ''='' \<and> c \<noteq> CHR ''&''"
proof -
  assume "c \<in> set (form_text s)"
  then obtain d where d: "c \<in> set (form_byte d)" by (auto simp: form_text_def)
  have hex: "n < 16 \<Longrightarrow> upper_hex_digit n \<noteq> CHR ''='' \<and> upper_hex_digit n \<noteq> CHR ''&''" for n
    using upper_hex [of n] not_hex_delimiter by metis
  have "byte d div 16 < 16" using byte_less_256 [of d] by (simp add: less_mult_imp_div_less)
  then show ?thesis
    using d literal_not_special [of d] hex [of "byte d div 16"] hex [of "byte d mod 16"]
    by (auto simp: form_byte_def split: if_splits)
qed

text \<open>
  C29. Every query has a spelling that the daemon accepts and reads back. Whatever texts a client
  sends, written as the URL standard prescribes, they pass the strict check, and the parser returns
  the same pairs in the same order: the check rejects malformed queries only.
\<close>

theorem form_roundtrip:
  assumes "\<And>raw. form_parse raw = form_pairs raw" and "\<forall>(n, v) \<in> set pairs. valid_utf8 n \<and> valid_utf8 v"
  shows "strict_form_urlencoded_utf8 (form_encode pairs) \<and> form_parse (form_encode pairs) = pairs"
proof (cases "pairs = []")
  case True
  then show ?thesis using empty_exact assms(1)
    by (simp add: form_encode_def form_pairs_def strict_form_urlencoded_utf8_def valid_utf8_def)
next
  case False
  let ?seg = "\<lambda>(n, v). form_text n @ CHR ''='' # form_text v"
  have split: "split_char (CHR ''&'') (form_encode pairs) = map ?seg pairs"
    unfolding form_encode_def using False form_text_delimiters by (intro split_join) (auto simp: list_all_iff)
  have exact: "exactly (form_text n) n \<and> exactly (form_text v) v" if "(n, v) \<in> set pairs" for n v
    using assms(2) that by (auto simp: exactly_def decode_form_text)
  have eq: "CHR ''='' \<notin> set (form_text s)" for s using form_text_delimiters by blast
  have pieces: "split_char (CHR ''='') (form_text n @ CHR ''='' # form_text v) = [form_text n, form_text v]" for n v
    using eq by (simp add: split_append split_no_sep)
  have "strict_form_urlencoded_utf8 (form_encode pairs)"
    unfolding strict_pieces split using exact by (auto simp: pieces; blast)
  moreover have "name_value (form_text n @ CHR ''='' # form_text v) = (form_text n, form_text v)" for n v
    using eq by (simp add: name_value_def)
  then have "form_pairs (form_encode pairs) = pairs"
    unfolding form_pairs_def split using exact exactly_literal
    by (auto simp: filter_map comp_def case_prod_beta intro!: map_idI)
  ultimately show ?thesis using assms(1) by simp
qed

theorem form_roundtrip_witness:
  "strict_form_urlencoded_utf8 (form_encode [(''q'', ''a=b&c d%'')])
   \<and> form_pairs (form_encode [(''q'', ''a=b&c d%'')]) = [(''q'', ''a=b&c d%'')]"
proof (rule form_roundtrip [of form_pairs])
  have "valid_utf8 ''q''" "valid_utf8 ''a=b&c d%''" by (rule ascii_valid(1), simp add: ascii_def byte_def)+
  then show "\<forall>(n, v) \<in> set [(''q'', ''a=b&c d%'')]. valid_utf8 n \<and> valid_utf8 v" by simp
qed simp

section \<open>Accepted values\<close>

lemma query_values_names:
  "query_values names m pairs = Some m' \<Longrightarrow> bt_wf m \<Longrightarrow> bt_wf m' \<and> distinct (map fst pairs)
     \<and> (\<forall>k. bt_get m' k = (case map_of pairs k of Some v \<Rightarrow> Some v | None \<Rightarrow> bt_get m k))
     \<and> (\<forall>k \<in> fst ` set pairs. k \<in> set names \<and> bt_get m k = None)"
proof (induction names m pairs rule: query_values.induct)
  case (2 names m name v pairs)
  then have ok: "name \<in> set names" "bt_get m name = None"
    and rest: "query_values names (bt_insert name v m) pairs = Some m'" by (auto split: if_splits)
  have IH: "bt_wf m' \<and> distinct (map fst pairs)
     \<and> (\<forall>k. bt_get m' k = (case map_of pairs k of Some v \<Rightarrow> Some v | None \<Rightarrow> bt_get (bt_insert name v m) k))
     \<and> (\<forall>k \<in> fst ` set pairs. k \<in> set names \<and> bt_get (bt_insert name v m) k = None)"
    using 2(1) [OF _ rest] ok 2(3) by (simp add: bt_wf_insert)
  have new: "bt_get (bt_insert name v m) k = (if k = name then Some v else bt_get m k)" for k
    using 2(3) by (simp add: bt_get_insert)
  have "name \<notin> fst ` set pairs" using IH new by fastforce
  then show ?case using IH ok new by (auto simp: map_of_eq_None_iff split: option.splits if_splits)
qed (simp split: option.splits)

lemma validated_query:
  "validate_optional_query query name n = Inr r \<Longrightarrow> r = Some v \<Longrightarrow>
     v \<noteq> [] \<and> char_count v \<le> n \<and> CHR 0x00 \<notin> set v \<and> (\<exists>raw. query = Some raw \<and> v = trim raw)"
  by (auto simp: validate_optional_query_def Let_def split: option.splits if_splits)

lemma service_chars: "service_name_char = plain_char"
  by (rule ext) (simp add: service_name_char_def plain_char_def)

text \<open>
  What reaches the log collector. Whatever the query, the service that the route accepts is a
  plain name of at most 128 characters, the search text has at most 256 and no NUL, the cursor's
  numbers fit in 64 bits, and the page is between 1 and the server's maximum: no query text can
  change the request to Docker beyond naming a container.
\<close>

lemma log_arguments_bounded:
  assumes "log_arguments form_parse query = Inr (service, q, cursor, limit)"
  shows "(\<forall>v. service = Some v \<longrightarrow> log_name v \<and> char_count v \<le> 128)
    \<and> (\<forall>v. q = Some v \<longrightarrow> v \<noteq> [] \<and> char_count v \<le> 256 \<and> CHR 0x00 \<notin> set v)
    \<and> (\<forall>c. cursor = Some c \<longrightarrow> lc_millis c < 2 ^ 64 \<and> lc_offset c < 2 ^ 64)
    \<and> 1 \<le> limit \<and> limit \<le> MAX_LOG_PAGE_SIZE"
proof -
  obtain lq where lq: "parse_logs_query form_parse query = Inr lq"
    and service: "validate_optional_query (lq_service lq) ''service'' MAX_LOG_SERVICE_CHARS = Inr service"
    and q: "validate_optional_query (lq_q lq) ''q'' MAX_LOG_QUERY_CHARS = Inr q"
    and cursor: "parse_log_cursor (lq_cursor lq) = Inr cursor" and limit: "parse_log_limit (lq_limit lq) = Inr limit"
    using assms by (auto simp: log_arguments_def split: sum.splits)
  have accepted: "\<not> log_service_rejected (lq_service lq)"
    using lq by (auto simp: parse_logs_query_def Let_def split: if_splits option.splits)
  have "log_name v \<and> char_count v \<le> 128" if given: "service = Some v" for v
  proof -
    obtain raw where v: "lq_service lq = Some raw" "v = trim raw" "v \<noteq> []" "char_count v \<le> 128"
      using validated_query [OF service given] by (auto simp: MAX_LOG_SERVICE_CHARS_def)
    then have "is_ascii_alphanumeric (hd v)" "list_all plain_char v"
      using accepted by (simp_all add: log_service_rejected_def service_chars)
    moreover have "\<not> is_ascii_alphanumeric (CHR ''-'')"
      by (simp add: is_ascii_alphanumeric_def is_ascii_alphabetic_def is_ascii_digit_def byte_def)
    ultimately show ?thesis using v by (auto simp: log_name_def)
  qed
  moreover have "v \<noteq> [] \<and> char_count v \<le> 256 \<and> CHR 0x00 \<notin> set v" if given: "q = Some v" for v
    using validated_query [OF q given] by (simp add: MAX_LOG_QUERY_CHARS_def)
  moreover have "lc_millis c < 2 ^ 64 \<and> lc_offset c < 2 ^ 64" if given: "cursor = Some c" for c
  proof -
    obtain v where "log_cursor_parse v = Some c"
      using cursor given by (auto simp: parse_log_cursor_def split: sum.splits option.splits)
    then show ?thesis by (auto simp: log_cursor_parse_def dest: parse_uint_bound split: option.splits prod.splits list.splits if_splits)
  qed
  moreover have "1 \<le> limit \<and> limit \<le> MAX_LOG_PAGE_SIZE"
    using limit by (auto simp: parse_log_limit_def DEFAULT_LOG_PAGE_SIZE_def MAX_LOG_PAGE_SIZE_def split: option.splits if_splits)
  ultimately show ?thesis by blast
qed

lemma default_arguments: "log_arguments form_pairs None = Inr (None, None, None, DEFAULT_LOG_PAGE_SIZE)"
  by (simp add: log_arguments_def parse_logs_query_def strict_form_urlencoded_utf8_def valid_utf8_def form_pairs_def
      bt_get_def log_service_rejected_def validate_optional_query_def parse_log_cursor_def parse_log_limit_def)

end
