(* ===== verification/Cache_Props.thy ===== *)
theory Cache_Props
  imports Cache
begin

text \<open>
  What holds of the cache of the daemon in every state it can reach: the coherence of one
  publication, the identity of its revision, the isolation of sources, and the history it answers.
\<close>

section \<open>Reachable caches\<close>

definition cache_env_ok :: "cache_env \<Rightarrow> bool" where
  "cache_env_ok env \<longleftrightarrow> digest_len_32 (ce_sha256 env) \<and> length (ce_boot env) = 16"

definition fresh_ok :: "fresh_entropy \<Rightarrow> bool" where
  "fresh_ok entropy \<longleftrightarrow> length (fe_docker entropy) = 16 \<and> length (fe_integrity entropy) = 16
     \<and> length (fe_history entropy) = 16 \<and> length (fe_source entropy) = 16 \<and> length (fe_reset entropy) = 16"

definition collectable :: "provider_slot \<Rightarrow> collection_outcome \<Rightarrow> bool" where
  "collectable slot outcome \<longleftrightarrow> (\<forall>c. outcome = Collected c \<longrightarrow>
     (\<exists>host scope snapshot. collect_provider_slot host scope snapshot slot = Inr c))"

text \<open>
  The operations of the daemon in any order: a refresh publishes what was read, the scheduler
  claims due slots, and the outcome of a slot arrives, observed in whatever snapshot, mode and
  generation its worker was started with.
\<close>

inductive cache_step :: "cache_env \<Rightarrow> daemon_cache \<Rightarrow> daemon_cache \<Rightarrow> bool" for env where
  refresh: "fresh_ok entropy \<Longrightarrow> collect_snapshot env entropy now read = Some updated
    \<Longrightarrow> publish_docker_snapshot_cache env entropy c updated = Some c' \<Longrightarrow> cache_step env c c'"
| claim: "claim_due_provider_slots env clock now active c = Some (due, c') \<Longrightarrow> cache_step env c c'"
| outcome: "collectable slot outcome
    \<Longrightarrow> apply_provider_slot_outcome env slot observed mode generation outcome completed_ms completed_at c = Some c'
    \<Longrightarrow> cache_step env c c'"

inductive cache_run :: "cache_env \<Rightarrow> daemon_cache \<Rightarrow> bool" for env where
  started: "fresh_ok entropy \<Longrightarrow> mock_cache env entropy now = Some c \<Longrightarrow> cache_run env c"
| stepped: "cache_run env c \<Longrightarrow> cache_step env c c' \<Longrightarrow> cache_run env c'"

section \<open>One publication\<close>

definition publication_of :: "cache_env \<Rightarrow> daemon_cache \<Rightarrow> string" where
  "publication_of env c =
     publication_observable (ce_json env) (ce_js env) (dc_snapshot c) (dc_health c) (dc_runtime_map c)"

definition cache_revision :: "daemon_cache \<Rightarrow> string" where
  "cache_revision c = publication_revision_current (dc_revision c)"

definition published :: "cache_env \<Rightarrow> daemon_cache \<Rightarrow> bool" where
  "published env c \<longleftrightarrow> pr_last_observable (dc_revision c) = Some (publication_of env c)
     \<and> sn_model_revision (dc_snapshot c) = cache_revision c
     \<and> hr_model_revision (dc_health c) = cache_revision c
     \<and> rm_model_revision (dc_runtime_map c) = cache_revision c
     \<and> fr_model_revision (dc_findings c) = cache_revision c
     \<and> fr_findings (dc_findings c) = cache_findings env c
     \<and> fr_summary (dc_findings c) = from_findings (cache_findings env c)"

lemma publish_snapshot_update [simp]:
  "publish_docker_snapshot (s\<lparr>sn_model_revision := r\<rparr>) = (publish_docker_snapshot s)\<lparr>sn_model_revision := r\<rparr>"
  by (simp add: publish_docker_snapshot_def redact_docker_snapshot_def)

lemma redact_health_update [simp]:
  "redact_health_response (h\<lparr>hr_model_revision := r\<rparr>) = (redact_health_response h)\<lparr>hr_model_revision := r\<rparr>"
  by (simp add: redact_health_response_def)

lemma redact_map_update [simp]:
  "redact_runtime_map js (m\<lparr>rm_model_revision := r\<rparr>) = (redact_runtime_map js m)\<lparr>rm_model_revision := r\<rparr>"
  by (simp add: redact_runtime_map_def normalize_runtime_map_topology_def Let_def)

lemma observable_update [simp]:
  "publication_observable json js (s\<lparr>sn_model_revision := r\<rparr>) (h\<lparr>hr_model_revision := r\<rparr>) (m\<lparr>rm_model_revision := r\<rparr>)
   = publication_observable json js s h m"
  by (simp add: publication_observable_def clear_volatile_observation_markers_def)

lemma cache_findings_update [simp]: "cache_findings env (c\<lparr>dc_findings := f\<rparr>) = cache_findings env c"
  by (simp add: cache_findings_def docker_observation_token_def split: option.splits)

lemma cache_findings_history [simp]: "cache_findings env (c\<lparr>dc_observed_history := h\<rparr>) = cache_findings env c"
  by (simp add: cache_findings_def docker_observation_token_def split: option.splits)

lemma with_findings_simps [simp]:
  "dc_snapshot (with_findings env c) = dc_snapshot c" "dc_health (with_findings env c) = dc_health c"
  "dc_runtime_map (with_findings env c) = dc_runtime_map c" "dc_revision (with_findings env c) = dc_revision c"
  "dc_runtime_providers (with_findings env c) = dc_runtime_providers c"
  "dc_source_generation (with_findings env c) = dc_source_generation c"
  "dc_docker_revision (with_findings env c) = dc_docker_revision c"
  "dc_integrity_revision (with_findings env c) = dc_integrity_revision c"
  "dc_observed_history (with_findings env c) = dc_observed_history c"
  "dc_compose_runtime_binding (with_findings env c) = dc_compose_runtime_binding c"
  "dc_findings (with_findings env (with_findings env c)) = dc_findings (with_findings env c)"
  by (simp_all add: with_findings_def)

text \<open>What assigning a revision changes and what it leaves alone.\<close>

lemma assign_revision_effect:
  assumes "assign_revision env c = Some c'"
  obtains r where "publication_revision_note (publication_of env c) (dc_revision c) = Some r"
    "dc_revision c' = r"
    "dc_snapshot c' = (dc_snapshot c)\<lparr>sn_model_revision := publication_revision_current r\<rparr>"
    "dc_health c' = (dc_health c)\<lparr>hr_model_revision := publication_revision_current r\<rparr>"
    "dc_runtime_map c' = (dc_runtime_map c)\<lparr>rm_model_revision := publication_revision_current r\<rparr>"
    "dc_runtime_providers c' = dc_runtime_providers c" "dc_source_generation c' = dc_source_generation c"
    "dc_docker_revision c' = dc_docker_revision c" "dc_integrity_revision c' = dc_integrity_revision c"
    "dc_observed_history c' = dc_observed_history c"
    "dc_compose_runtime_binding c' = dc_compose_runtime_binding c"
    "dc_findings c' = dc_findings (with_findings env c')"
proof -
  obtain r where "publication_revision_note (publication_of env c) (dc_revision c) = Some r"
    "c' = with_findings env (c\<lparr>dc_snapshot := (dc_snapshot c)\<lparr>sn_model_revision := publication_revision_current r\<rparr>,
       dc_health := (dc_health c)\<lparr>hr_model_revision := publication_revision_current r\<rparr>,
       dc_runtime_map := (dc_runtime_map c)\<lparr>rm_model_revision := publication_revision_current r\<rparr>,
       dc_revision := r\<rparr>)"
    using assms by (auto simp: assign_revision_def publication_revision_assign_def publication_of_def Let_def)
  then show ?thesis using that by simp
qed

lemma assign_revision_published:
  assumes "assign_revision env c = Some c'"
  shows "published env c'"
proof -
  obtain r where r: "publication_revision_note (publication_of env c) (dc_revision c) = Some r"
    and c': "dc_revision c' = r"
    "dc_snapshot c' = (dc_snapshot c)\<lparr>sn_model_revision := publication_revision_current r\<rparr>"
    "dc_health c' = (dc_health c)\<lparr>hr_model_revision := publication_revision_current r\<rparr>"
    "dc_runtime_map c' = (dc_runtime_map c)\<lparr>rm_model_revision := publication_revision_current r\<rparr>"
    and f: "dc_findings c' = dc_findings (with_findings env c')"
    using assign_revision_effect [OF assms] by metis
  have "publication_of env c' = publication_of env c" by (simp add: publication_of_def c')
  moreover have "pr_last_observable r = Some (publication_of env c)" by (rule publication.note_last [OF r])
  ultimately show ?thesis
    unfolding published_def f by (simp add: c' with_findings_def cache_revision_def)
qed

section \<open>Rebuilding the map\<close>

definition collision_active :: "daemon_cache \<Rightarrow> runtime_map \<Rightarrow> bool" where
  "collision_active c m \<longleftrightarrow> hr_mode (dc_health c) = Mode_Docker \<and> runtime_map_has_identity_collision m"

lemma rebuild_effect:
  assumes "rebuild_runtime_map env c = Some c'"
  obtains m where
    "docker_observation_revision_note (docker_observable (ce_json env) (dc_snapshot c) (hr_mode (dc_health c)))
       (dc_docker_revision c) = Some (dc_docker_revision c')"
    "runtime_map_for_snapshot env (dc_snapshot c) (hr_mode (dc_health c)) (dc_runtime_providers c)
       (docker_observation_token c') = Some m"
    "integrity_observation_revision_assign (collision_active c m) (dc_integrity_revision c)
       = Some (dc_integrity_revision c')"
    "dc_runtime_map c' = (if collision_active c m
       then fst (append_runtime_identity_collision_fact (ce_js env) m
         (integrity_observation_revision_current (dc_integrity_revision c')) (sn_last_updated (dc_snapshot c)))
       else m)"
    "dc_snapshot c' = dc_snapshot c" "dc_health c' = dc_health c"
    "dc_runtime_providers c' = dc_runtime_providers c" "dc_source_generation c' = dc_source_generation c"
    "dc_revision c' = dc_revision c" "dc_observed_history c' = dc_observed_history c"
    "dc_compose_runtime_binding c' = dc_compose_runtime_binding c"
proof -
  from assms obtain d m i where d: "docker_observation_revision_note
        (docker_observable (ce_json env) (dc_snapshot c) (hr_mode (dc_health c))) (dc_docker_revision c) = Some d"
    and m: "runtime_map_for_snapshot env (dc_snapshot c) (hr_mode (dc_health c)) (dc_runtime_providers c)
        (docker_observation_revision_current d) = Some m"
    and i: "integrity_observation_revision_assign (collision_active c m) (dc_integrity_revision c) = Some i"
    and c': "c' = (if collision_active c m
         then c\<lparr>dc_docker_revision := d, dc_integrity_revision := i, dc_runtime_map :=
           fst (append_runtime_identity_collision_fact (ce_js env) m
             (integrity_observation_revision_current i) (sn_last_updated (dc_snapshot c)))\<rparr>
         else c\<lparr>dc_docker_revision := d, dc_integrity_revision := i, dc_runtime_map := m\<rparr>)"
    by (auto simp: rebuild_runtime_map_def assign_docker_observation_revision_def
        docker_observation_revision_assign_def apply_runtime_identity_collision_fact_def
        docker_observation_token_def collision_active_def Let_def split: option.splits if_splits)
  show ?thesis
  proof (rule that [of m])
    show "runtime_map_for_snapshot env (dc_snapshot c) (hr_mode (dc_health c)) (dc_runtime_providers c)
       (docker_observation_token c') = Some m"
      using m by (simp add: c' docker_observation_token_def)
  qed (use d i in \<open>simp_all add: c'\<close>)
qed

lemma map_from_snapshot:
  assumes "runtime_map_for_snapshot env snapshot mode slots token = Some m"
  shows "rm_provider_states m = provider_states_for slots" "rm_source m = None"
    "\<forall>e \<in> set (rm_edges m). has_valid_evidence_refs e"
    "\<forall>e \<in> set (rm_edges m). re_source e \<in> rn_id ` set (rm_nodes m)"
    "mode \<noteq> Mode_Docker \<Longrightarrow> \<forall>e \<in> set (rm_edges m). re_evidence_refs e = []"
proof -
  obtain c m1 diagnostics where m1: "runtime_map_from_collection (ce_sha256 env) (ce_js env) snapshot c token mode = Some m1"
    and m: "m = m1\<lparr>rm_provider_states := provider_states_for slots, rm_diagnostics := diagnostics\<rparr>"
    using assms by (auto simp: runtime_map_for_snapshot_def Let_def)
  obtain m0 where derived: "derive_runtime_map (ce_sha256 env) (js_node (ce_js env)) (js_edge (ce_js env))
        snapshot (pc_nodes c) (pc_edges c) (pc_diagnostics c) token = Some m0"
    and m1_eq: "m1 = redact_runtime_map (ce_js env) (if mode \<noteq> Mode_Docker
         then m0\<lparr>rm_edges := map (\<lambda>e. e\<lparr>re_evidence_refs := []\<rparr>) (rm_edges m0)\<rparr> else m0)"
    using m1 by (auto simp: runtime_map_from_collection_def)
  note m0 = m [unfolded m1_eq]
  have src: "rm_source m0 = None"
    using derived by (auto simp: derive_runtime_map_def Let_def split: if_splits prod.splits)
  let ?m = "if mode \<noteq> Mode_Docker
    then m0\<lparr>rm_edges := map (\<lambda>e. e\<lparr>re_evidence_refs := []\<rparr>) (rm_edges m0)\<rparr> else m0"
  have edges: "rm_edges m = rm_edges (redact_runtime_map (ce_js env) ?m)"
    and nodes: "rm_nodes m = rm_nodes (redact_runtime_map (ce_js env) ?m)"
    by (simp_all add: m0)
  show "rm_provider_states m = provider_states_for slots" by (simp add: m0)
  show "rm_source m = None"
    using src by (simp add: m0 redact_runtime_map_def normalize_runtime_map_topology_def Let_def)
  have from_edges: "e \<in> redact_runtime_edge (ce_js env) ` set (rm_edges ?m)" if "e \<in> set (rm_edges m)" for e
    using that rm_redacted(2) [of "ce_js env" ?m] unfolding edges by auto
  then show "\<forall>e \<in> set (rm_edges m). has_valid_evidence_refs e" using redact_edge_valid by blast
  show "\<forall>e \<in> set (rm_edges m). re_source e \<in> rn_id ` set (rm_nodes m)"
    unfolding edges nodes by (simp add: redact_runtime_map_def normalize_runtime_map_topology_def Let_def)
  assume mode: "mode \<noteq> Mode_Docker"
  have "re_evidence_refs (redact_runtime_edge js e) = []" if "re_evidence_refs e = []" for js e
    using that by (simp add: redact_runtime_edge_def redact_runtime_evidence_refs_def Let_def)
  then show "\<forall>e \<in> set (rm_edges m). re_evidence_refs e = []"
    using from_edges mode by fastforce
qed

text \<open>What a rebuilt map shows of the cache it was rebuilt from.\<close>

definition map_inv :: "daemon_cache \<Rightarrow> bool" where
  "map_inv c \<longleftrightarrow> rm_provider_states (dc_runtime_map c) = provider_states_for (dc_runtime_providers c)
     \<and> rm_source (dc_runtime_map c) = None
     \<and> (\<forall>e \<in> set (rm_edges (dc_runtime_map c)). has_valid_evidence_refs e)
     \<and> (hr_mode (dc_health c) \<noteq> Mode_Docker \<longrightarrow>
          (\<forall>e \<in> set (rm_edges (dc_runtime_map c)). re_evidence_refs e = []))"

lemma appended_fact:
  "rm_provider_states (fst (append_runtime_identity_collision_fact js m token t)) = rm_provider_states m"
  "rm_source (fst (append_runtime_identity_collision_fact js m token t)) = rm_source m"
  "set (rm_edges (fst (append_runtime_identity_collision_fact js m token t)))
     \<subseteq> insert (identity_collision_edge token t) (set (rm_edges m))"
  by (auto simp: append_runtime_identity_collision_fact_def)

lemma rebuild_map_inv:
  assumes "rebuild_runtime_map env c = Some c'"
    and "valid_revision (integrity_observation_revision_current (dc_integrity_revision c'))"
  shows "map_inv c'"
proof -
  obtain m where m: "runtime_map_for_snapshot env (dc_snapshot c) (hr_mode (dc_health c)) (dc_runtime_providers c)
       (docker_observation_token c') = Some m"
    and map_eq: "dc_runtime_map c' = (if collision_active c m
       then fst (append_runtime_identity_collision_fact (ce_js env) m
         (integrity_observation_revision_current (dc_integrity_revision c')) (sn_last_updated (dc_snapshot c)))
       else m)"
    and same: "dc_health c' = dc_health c" "dc_runtime_providers c' = dc_runtime_providers c"
    using rebuild_effect [OF assms(1)] by metis
  have "has_valid_evidence_refs e" if "e \<in> set (rm_edges (dc_runtime_map c'))" for e
    using that map_from_snapshot(3) [OF m] collision_edge_valid assms(2) appended_fact(3)
    unfolding map_eq by (fastforce simp: valid_revision_def split: if_splits)
  moreover have "re_evidence_refs e = []"
    if "e \<in> set (rm_edges (dc_runtime_map c'))" "hr_mode (dc_health c') \<noteq> Mode_Docker" for e
    using that map_from_snapshot(5) [OF m] unfolding map_eq same by (auto simp: collision_active_def)
  ultimately show ?thesis
    using map_from_snapshot(1,2) [OF m] by (auto simp: map_inv_def map_eq same appended_fact)
qed

section \<open>The invariant of the cache\<close>

definition token_source :: "string \<Rightarrow> u64 \<Rightarrow> bool" where
  "token_source boot n \<longleftrightarrow> (\<exists>entropy. length entropy = 16 \<and> boot = hex_string entropy) \<and> n < 2 ^ 64"

lemma token_source_valid:
  "token_source boot n \<Longrightarrow> valid_revision (boot @ ''-'' @ show_nat n)"
  "token_source boot n \<Longrightarrow> revision_present (Some (boot @ ''-'' @ show_nat n))"
proof -
  assume a: "token_source boot n"
  then obtain entropy where e: "length entropy = 16" "boot = opaque_revision_boot_component entropy" and n: "n < 2 ^ 64"
    by (auto simp: token_source_def opaque_revision_boot_component_def)
  show "valid_revision (boot @ ''-'' @ show_nat n)" unfolding e(2) by (rule hex_token_valid [OF e(1) n])
  have "length (boot @ ''-'' @ show_nat n) \<le> 32 + 1 + 20"
    using e length_show_nat [of n 20] n by (simp add: opaque_revision_boot_component_def)
  then show "revision_present (Some (boot @ ''-'' @ show_nat n))" by (simp add: revision_present_def)
qed

definition slots_inv :: "cache_env \<Rightarrow> runtime_provider_slots \<Rightarrow> bool" where
  "slots_inv env slots \<longleftrightarrow> (\<forall>slot. slot_run (ce_js env) (sanitized_observable_identity env)
       (boot_instance_component (ce_boot env)) slot (slots slot))
     \<and> collecting_count slots \<le> MAX_CONCURRENT_PROVIDER_SLOTS"

definition core_inv :: "cache_env \<Rightarrow> daemon_cache \<Rightarrow> bool" where
  "core_inv env c \<longleftrightarrow> slots_inv env (dc_runtime_providers c)
     \<and> token_source (do_boot (dc_docker_revision c)) (do_sequence (dc_docker_revision c))
     \<and> token_source (io_boot (dc_integrity_revision c)) (io_sequence (dc_integrity_revision c))
     \<and> history_state (ce_sha256 env) (dc_observed_history c)"

definition revision_inv :: "daemon_cache \<Rightarrow> bool" where
  "revision_inv c \<longleftrightarrow> token_source (pr_boot (dc_revision c)) (pr_sequence (dc_revision c))"

definition health_inv :: "daemon_cache \<Rightarrow> bool" where
  "health_inv c \<longleftrightarrow> (hr_docker_reachable (dc_health c) \<longleftrightarrow> hr_mode (dc_health c) = Mode_Docker)
     \<and> (hr_status (dc_health c) = HS_Ok \<longleftrightarrow> hr_mode (dc_health c) = Mode_Docker)"

definition cache_inv :: "cache_env \<Rightarrow> daemon_cache \<Rightarrow> bool" where
  "cache_inv env c \<longleftrightarrow> core_inv env c \<and> revision_inv c \<and> health_inv c \<and> map_inv c \<and> published env c
     \<and> (hr_mode (dc_health c) = Mode_Docker \<longrightarrow> hc_baseline (dc_observed_history c) \<noteq> None)"

lemma note_token_source:
  "docker_observation_revision_note x d = Some d' \<Longrightarrow> token_source (do_boot d) (do_sequence d)
     \<Longrightarrow> token_source (do_boot d') (do_sequence d')"
  "integrity_observation_revision_assign a i = Some i' \<Longrightarrow> token_source (io_boot i) (io_sequence i)
     \<Longrightarrow> token_source (io_boot i') (io_sequence i')"
  "publication_revision_note x r = Some r' \<Longrightarrow> token_source (pr_boot r) (pr_sequence r)
     \<Longrightarrow> token_source (pr_boot r') (pr_sequence r')"
  by (auto simp: token_source_def docker_observation_revision_note_def integrity_observation_revision_assign_def
      publication_revision_note_def checked_add1_Some split: if_splits)

lemma rebuild_core:
  assumes "rebuild_runtime_map env c = Some c'" and "core_inv env c"
  shows "core_inv env c'"
  using rebuild_effect [OF assms(1)] assms(2) note_token_source unfolding core_inv_def by metis

lemma rebuild_inv:
  assumes "rebuild_runtime_map env c = Some c'" and "core_inv env c"
  shows "map_inv c'"
proof -
  have "token_source (io_boot (dc_integrity_revision c')) (io_sequence (dc_integrity_revision c'))"
    using rebuild_core [OF assms] by (simp add: core_inv_def)
  then show ?thesis
    using rebuild_map_inv [OF assms(1)] token_source_valid(1) by (simp add: integrity_observation_revision_current_def)
qed

lemma assign_core:
  assumes "assign_revision env c = Some c'" and "core_inv env c"
  shows "core_inv env c'"
  using assign_revision_effect [OF assms(1)] assms(2) unfolding core_inv_def by metis

lemma assign_revision_inv:
  assumes "assign_revision env c = Some c'" and "revision_inv c"
  shows "revision_inv c'"
  using assign_revision_effect [OF assms(1)] assms(2) note_token_source(3) unfolding revision_inv_def by metis

lemma assign_map_inv:
  assumes "assign_revision env c = Some c'" and "map_inv c"
  shows "map_inv c'"
proof -
  obtain r where "dc_runtime_map c' = (dc_runtime_map c)\<lparr>rm_model_revision := r\<rparr>"
    "dc_health c' = (dc_health c)\<lparr>hr_model_revision := r\<rparr>" "dc_runtime_providers c' = dc_runtime_providers c"
    using assign_revision_effect [OF assms(1)] by metis
  then show ?thesis using assms(2) by (simp add: map_inv_def)
qed

lemma assign_health:
  assumes "assign_revision env c = Some c'"
  shows "hr_mode (dc_health c') = hr_mode (dc_health c)" "health_inv c' = health_inv c"
    "dc_observed_history c' = dc_observed_history c"
proof -
  obtain r where "dc_health c' = (dc_health c)\<lparr>hr_model_revision := r\<rparr>" "dc_observed_history c' = dc_observed_history c"
    using assign_revision_effect [OF assms] by metis
  then show "hr_mode (dc_health c') = hr_mode (dc_health c)" "health_inv c' = health_inv c"
    "dc_observed_history c' = dc_observed_history c"
    by (simp_all add: health_inv_def)
qed

lemma rebuild_health:
  assumes "rebuild_runtime_map env c = Some c'"
  shows "dc_health c' = dc_health c" "dc_observed_history c' = dc_observed_history c" "dc_revision c' = dc_revision c"
  using rebuild_effect [OF assms] by metis+

text \<open>A rebuild followed by a new revision, which every operation that changes the cache ends with.\<close>

lemma republished_inv:
  assumes "rebuild_runtime_map env c = Some c1" and "assign_revision env (c1\<lparr>dc_revision := r\<rparr>) = Some c'"
    and "core_inv env c" and "token_source (pr_boot r) (pr_sequence r)" and "health_inv c"
  shows "core_inv env c' \<and> revision_inv c' \<and> health_inv c' \<and> map_inv c' \<and> published env c'
    \<and> hr_mode (dc_health c') = hr_mode (dc_health c) \<and> dc_observed_history c' = dc_observed_history c"
proof -
  let ?c = "c1\<lparr>dc_revision := r\<rparr>"
  have "core_inv env ?c" using rebuild_core [OF assms(1,3)] by (simp add: core_inv_def)
  moreover have "map_inv ?c" using rebuild_inv [OF assms(1,3)] by (simp add: map_inv_def)
  moreover have "revision_inv ?c" using assms(4) by (simp add: revision_inv_def)
  moreover have "health_inv ?c" using assms(5) rebuild_health(1) [OF assms(1)] by (simp add: health_inv_def)
  ultimately show ?thesis
    using assign_core [OF assms(2)] assign_map_inv [OF assms(2)] assign_revision_inv [OF assms(2)]
      assign_health [OF assms(2)] assign_revision_published [OF assms(2)] rebuild_health [OF assms(1)]
    by simp
qed

section \<open>The operations keep the invariant\<close>

lemma unavailable_slots_inv: "slots_inv env unavailable_provider_slots" "slots_inv env source_reset_provider_slots"
proof -
  have "collecting_count unavailable_provider_slots = 0" "collecting_count source_reset_provider_slots = 0"
    by (simp_all add: collecting_count_def source_reset_provider_slots_def unavailable_provider_slots_def
        default_slot_state_def Let_def)
  then show "slots_inv env unavailable_provider_slots" "slots_inv env source_reset_provider_slots"
    by (simp_all add: slots_inv_def slot_run.start slot_run.reset)
qed

lemma stale_slots_inv:
  assumes "slots_inv env slots"
  shows "slots_inv env (mark_network_observation_stale slots)"
proof (cases "sl_observation (slots Slot_NetworkInfrastructure)")
  case (Obs_Fresh c)
  let ?network = "(slots Slot_NetworkInfrastructure)\<lparr>sl_observation := Obs_Degraded (Some c)\<rparr>"
  have marked: "mark_network_observation_stale slots = slots(Slot_NetworkInfrastructure := ?network)"
    using Obs_Fresh by (simp add: mark_network_observation_stale_def Let_def)
  have "collecting_count (slots(Slot_NetworkInfrastructure := ?network)) = collecting_count slots"
    by (rule collecting_count_cong) (simp add: Obs_Fresh)
  moreover have "slot_run (ce_js env) (sanitized_observable_identity env) (boot_instance_component (ce_boot env)) slot
      ((slots(Slot_NetworkInfrastructure := ?network)) slot)" for slot
    using assms slot_run.stale [OF _ Obs_Fresh] by (auto simp: slots_inv_def)
  ultimately show ?thesis unfolding marked using assms unfolding slots_inv_def by simp
qed (use assms in \<open>simp_all add: mark_network_observation_stale_def\<close>)

lemma claimed_slots_inv:
  assumes "slots_inv env slots"
    and "claim_due_slots_with_active_workers clock slots now MAX_CONCURRENT_PROVIDER_SLOTS active = (due, slots')"
  shows "slots_inv env slots' \<and> (due = [] \<longrightarrow> slots' = slots)"
proof -
  have due: "due = take (MAX_CONCURRENT_PROVIDER_SLOTS - max (collecting_count slots) active)
      (filter (\<lambda>slot. claimable now slot (slots slot)) STATIC_PROVIDER_SLOTS)"
    and slots': "slots' = (\<lambda>slot. if slot \<in> set due then claim_slot (clock slot) (slots slot) else slots slot)"
    using assms(2) by (auto simp: claim_due_eq Let_def)
  have "claimable now slot (slots slot)" if "slot \<in> set due" for slot
    using in_set_takeD [OF that [unfolded due]] by simp
  then have "slot_run (ce_js env) (sanitized_observable_identity env) (boot_instance_component (ce_boot env)) slot (slots' slot)"
    for slot
    using assms(1) by (auto simp: slots_inv_def slots' intro: slot_run.claim)
  moreover have "collecting_count slots' \<le> MAX_CONCURRENT_PROVIDER_SLOTS"
  proof -
    have "length due \<le> MAX_CONCURRENT_PROVIDER_SLOTS - collecting_count slots" by (auto simp: due)
    then show ?thesis using claimed_collecting [OF assms(2)] assms(1) by (auto simp: slots_inv_def)
  qed
  ultimately show ?thesis by (simp add: slots_inv_def slots')
qed

lemma outcome_slot_run:
  assumes "slot_run js identity boot slot st" and "collectable slot outcome"
    and "apply_slot_outcome js identity boot same outcome t at st = Some st'"
  shows "slot_run js identity boot slot st' \<and> \<not> is_collecting (sl_observation st')"
proof (cases outcome)
  case (Collected c)
  then obtain host scope snapshot where "collect_provider_slot host scope snapshot slot = Inr c"
    using assms(2) by (auto simp: collectable_def)
  then show ?thesis using slot_run.collected [OF assms(1)] assms(3) Collected
    by (auto simp: apply_collected_def Let_def split: if_splits)
qed (use assms slot_run.missed [OF assms(1) _ assms(3)] in \<open>auto\<close>)

lemma outcome_slots_inv:
  assumes "slots_inv env slots" and "collectable slot outcome"
    and "apply_slot_outcome (ce_js env) (sanitized_observable_identity env) (boot_instance_component (ce_boot env))
      same outcome t at (slots slot) = Some st"
  shows "slots_inv env (slots(slot := st))"
proof -
  have run: "slot_run (ce_js env) (sanitized_observable_identity env) (boot_instance_component (ce_boot env)) slot st
      \<and> \<not> is_collecting (sl_observation st)"
    by (rule outcome_slot_run [OF _ assms(2,3)]) (use assms(1) in \<open>simp add: slots_inv_def\<close>)
  have "{s. is_collecting (sl_observation ((slots(slot := st)) s))} \<subseteq> {s. is_collecting (sl_observation (slots s))}"
    using run by auto
  moreover have "finite (UNIV :: provider_slot set)" using static_slots_all by (metis finite_set)
  ultimately have "collecting_count (slots(slot := st)) \<le> collecting_count slots"
    unfolding collecting_count_card by (intro card_mono) (auto intro: finite_subset)
  then show ?thesis using assms(1) run by (auto simp: slots_inv_def)
qed

lemma fresh_sources:
  assumes "fresh_ok entropy" and "cache_env_ok env"
  shows "token_source (do_boot (docker_observation_revision_new (fe_docker entropy))) 0"
    "token_source (io_boot (integrity_observation_revision_new (fe_integrity entropy))) 0"
    "token_source (pr_boot (publication_revision_new (ce_boot env))) 0"
    "history_state (ce_sha256 env) (history_new (fe_history entropy))"
    "history_state (ce_sha256 env) (history_new (fe_source entropy))"
  using assms by (auto simp: fresh_ok_def cache_env_ok_def token_source_def docker_observation_revision_new_def
      integrity_observation_revision_new_def publication_revision_new_def opaque_revision_boot_component_def
      boot_instance_component_def intro: history_state.started)

lemma provider_states_unavailable: "provider_states_for unavailable_provider_slots = unavailable_provider_states"
  by (simp add: provider_states_for_def unavailable_provider_states_def provider_state_for_def
      unavailable_provider_slots_def default_slot_state_def default_freshness_def published_state_def
      base_state_def new_slot_state_def Let_def)

lemma mock_mode: "hr_mode (mock_health t) = Mode_Mock"
  by (simp add: mock_health_def redact_health_response_def)

lemma mock_cache_inv:
  assumes "mock_cache env entropy now = Some c" and "fresh_ok entropy" and "cache_env_ok env"
  shows "cache_inv env c \<and> hr_mode (dc_health c) = Mode_Mock"
proof -
  let ?s = "(mock_snapshot now)\<lparr>sn_images := derive_images (mock_snapshot now)\<rparr>"
  obtain d c0 where d: "docker_observation_revision_note (docker_observable (ce_json env) ?s Mode_Mock)
        (docker_observation_revision_new (fe_docker entropy)) = Some d"
    and c0: "c0 = (new_cache env entropy ?s (mock_health (sn_last_updated ?s)) (sn_last_updated ?s) None)
        \<lparr>dc_docker_revision := d\<rparr>"
    and c: "assign_revision env c0 = Some c"
    using assms(1) unfolding mock_cache_def Let_def bind_eq_Some_conv assign_docker_observation_revision_def
    by (auto simp: docker_observation_revision_assign_def new_cache_def mock_mode)
  have health: "health_inv c0" "hr_mode (dc_health c0) = Mode_Mock"
    by (simp_all add: c0 new_cache_def health_inv_def mock_health_def redact_health_response_def)
  note fresh = fresh_sources [OF assms(2,3)]
  have "token_source (do_boot d) (do_sequence d)"
    using note_token_source(1) [OF d] fresh(1) by (simp add: docker_observation_revision_new_def)
  then have "core_inv env c0"
    using fresh unavailable_slots_inv(1) by (simp add: core_inv_def c0 new_cache_def integrity_observation_revision_new_def)
  moreover have "map_inv c0"
    by (simp add: map_inv_def c0 new_cache_def empty_runtime_map_def provider_states_unavailable)
  moreover have "revision_inv c0"
    using fresh(3) by (simp add: revision_inv_def c0 new_cache_def publication_revision_new_def)
  ultimately show ?thesis
    using assign_core [OF c] assign_map_inv [OF c] assign_revision_inv [OF c] assign_health [OF c]
      assign_revision_published [OF c] health by (simp add: cache_inv_def)
qed

lemma with_message_inv:
  assumes "cache_inv env c \<and> hr_mode (dc_health c) = Mode_Mock"
  shows "health_inv (with_message t c) \<and> core_inv env (with_message t c)"
  using assms by (simp add: cache_inv_def health_inv_def core_inv_def with_message_def redact_health_response_def)

text \<open>What a publication takes from the cache it was collected into.\<close>

lemma collected_snapshot:
  assumes "collect_snapshot env entropy now read = Some u" and "fresh_ok entropy" and "cache_env_ok env"
  shows "health_inv u \<and> token_source (io_boot (dc_integrity_revision u)) (io_sequence (dc_integrity_revision u))"
proof (cases "\<exists>snapshot binding. read = Read snapshot binding")
  case True
  then show ?thesis
    using assms(1) fresh_sources(2) [OF assms(2,3)]
    by (auto simp: collect_snapshot_def docker_candidate_def new_cache_def docker_health_def health_inv_def
        redact_health_response_def integrity_observation_revision_new_def Let_def)
next
  case False
  then obtain t c where "mock_cache env entropy now = Some c" "u = with_message t c"
    using assms(1) by (cases read) (auto simp: collect_snapshot_def)
  then show ?thesis
    using with_message_inv [of env c t] mock_cache_inv [OF _ assms(2,3)] by (simp add: core_inv_def)
qed

lemma inherited_core:
  assumes "inherited entropy c u = Some c1" and "core_inv env c" and "health_inv u"
    and "token_source (io_boot (dc_integrity_revision u)) (io_sequence (dc_integrity_revision u))"
    and "fresh_ok entropy" and "cache_env_ok env"
  shows "core_inv env c1 \<and> health_inv c1 \<and> hr_mode (dc_health c1) = hr_mode (dc_health u)"
  using assms unavailable_slots_inv stale_slots_inv fresh_sources(5) [OF assms(5,6)]
  by (auto simp: inherited_def core_inv_def health_inv_def Let_def split: if_splits)

lemma push_all_baseline: "history_push_all t cs h0 = Some h1 \<Longrightarrow> hc_baseline h1 = hc_baseline h0"
  by (induction cs arbitrary: h0) (auto simp: history_push_def split: option.splits)

lemma observe_baseline:
  "observe_published_snapshot sha256 entropy s h = Some h' \<Longrightarrow> hc_baseline h' \<noteq> None"
  by (auto simp: observe_published_snapshot_def Let_def dest!: push_all_baseline split: if_splits option.splits)

lemma publish_inv:
  assumes "publish_docker_snapshot_cache env entropy c u = Some c'" and "cache_inv env c"
    and u: "collect_snapshot env entropy now read = Some u" and fresh: "fresh_ok entropy" "cache_env_ok env"
  shows "cache_inv env c'"
proof -
  obtain c1 c2 c3 where c1: "inherited entropy c u = Some c1" and c2: "rebuild_runtime_map env c1 = Some c2"
    and c3: "assign_revision env (c2\<lparr>dc_revision := dc_revision c\<rparr>) = Some c3"
    and c': "observe_publication env entropy c3 = Some c'"
    using assms(1) by (auto simp: publish_docker_snapshot_cache_def split: option.splits)
  have "core_inv env c" "token_source (pr_boot (dc_revision c)) (pr_sequence (dc_revision c))"
    using assms(2) by (simp_all add: cache_inv_def revision_inv_def)
  then have i1: "core_inv env c1 \<and> health_inv c1" using inherited_core [OF c1] collected_snapshot [OF u fresh] fresh by blast
  note i3 = republished_inv [OF c2 c3]
  have inv3: "core_inv env c3" "revision_inv c3" "health_inv c3" "map_inv c3" "published env c3"
    using i3 i1 \<open>token_source _ _\<close> by blast+
  show ?thesis
  proof (cases "hr_mode (dc_health c3) = Mode_Docker")
    case True
    then obtain h where h: "c' = c3\<lparr>dc_observed_history := h\<rparr>" "hc_baseline h \<noteq> None"
      and obs: "\<exists>s. observe_published_snapshot (ce_sha256 env) (fe_reset entropy) s (dc_observed_history c3) = Some h"
      using c' observe_baseline by (fastforce simp: observe_publication_def)
    have "length (fe_reset entropy) = 16" using fresh(1) by (simp add: fresh_ok_def)
    then have "history_state (ce_sha256 env) h"
      using obs inv3(1) by (auto simp: core_inv_def intro: history_state.observed)
    then have "core_inv env c'" using inv3(1) by (simp add: core_inv_def h)
    moreover have "published env c'"
      using inv3(5) by (simp add: published_def h publication_of_def cache_revision_def)
    ultimately show ?thesis
      using inv3 h by (simp add: cache_inv_def revision_inv_def health_inv_def map_inv_def)
  next
    case False
    then show ?thesis using c' inv3 by (simp add: observe_publication_def cache_inv_def)
  qed
qed

lemma republish_inv:
  assumes "Option.bind (rebuild_runtime_map env (c\<lparr>dc_runtime_providers := slots\<rparr>)) (assign_revision env) = Some c'"
    and "cache_inv env c" and "slots_inv env slots"
  shows "cache_inv env c'"
proof -
  let ?c = "c\<lparr>dc_runtime_providers := slots\<rparr>"
  obtain c1 where c1: "rebuild_runtime_map env ?c = Some c1" and c': "assign_revision env c1 = Some c'"
    using assms(1) by (auto simp: bind_eq_Some_conv)
  have "core_inv env ?c" "health_inv ?c"
    using assms(2,3) by (simp_all add: cache_inv_def core_inv_def health_inv_def)
  moreover have "c1\<lparr>dc_revision := dc_revision c\<rparr> = c1" using rebuild_health(3) [OF c1] by simp
  moreover have "token_source (pr_boot (dc_revision c)) (pr_sequence (dc_revision c))"
    using assms(2) by (simp add: cache_inv_def revision_inv_def)
  ultimately show ?thesis
    using republished_inv [OF c1, of "dc_revision c" c'] c' assms(2) by (simp add: cache_inv_def)
qed

lemma cache_step_inv:
  assumes "cache_step env c c'" and "cache_inv env c" and "cache_env_ok env"
  shows "cache_inv env c'"
  using assms(1)
proof cases
  case (refresh entropy now read updated)
  then show ?thesis using publish_inv assms(2,3) by blast
next
  case (claim clock now active due)
  have slots: "slots_inv env (dc_runtime_providers c)" using assms(2) by (simp add: cache_inv_def core_inv_def)
  obtain slots' where claimed: "claim_due_slots_with_active_workers clock (dc_runtime_providers c) now
      MAX_CONCURRENT_PROVIDER_SLOTS active = (due, slots')"
    using claim by (auto simp: claim_due_provider_slots_def Let_def split: prod.splits if_splits)
  note slots' = claimed_slots_inv [OF slots claimed]
  show ?thesis
  proof (cases "due = []")
    case True
    then show ?thesis using claim claimed slots' assms(2) by (simp add: claim_due_provider_slots_def)
  next
    case False
    then show ?thesis
      using claim claimed slots' republish_inv [OF _ assms(2)] by (simp add: claim_due_provider_slots_def Let_def)
  qed
next
  case (outcome slot out observed mode generation completed_ms completed_at)
  show ?thesis
  proof (cases "c' = c")
    case False
    then obtain st where "apply_slot_outcome (ce_js env) (sanitized_observable_identity env)
          (boot_instance_component (ce_boot env)) (same_collection_evidence (dc_snapshot c) observed) out
          completed_ms completed_at (dc_runtime_providers c slot) = Some st"
      and c': "Option.bind (rebuild_runtime_map env
          (c\<lparr>dc_runtime_providers := (dc_runtime_providers c)(slot := st)\<rparr>)) (assign_revision env) = Some c'"
      using outcome(2) by (auto simp: apply_provider_slot_outcome_def split: if_splits option.splits)
    then have "slots_inv env ((dc_runtime_providers c)(slot := st))"
      using outcome_slots_inv outcome(1) assms(2) by (simp add: cache_inv_def core_inv_def del: fun_upd_apply)
    then show ?thesis using republish_inv [OF c' assms(2)] by simp
  qed (use assms in simp)
qed

lemma cache_run_inv: "cache_run env c \<Longrightarrow> cache_env_ok env \<Longrightarrow> cache_inv env c"
  by (induction rule: cache_run.induct) (use mock_cache_inv cache_step_inv in blast)+

section \<open>How a step changes the revision and the generation\<close>

lemma republish_revision:
  assumes "Option.bind (rebuild_runtime_map env c) (assign_revision env) = Some c'"
  shows "publication.noted (dc_revision c) (dc_revision c') \<and> dc_source_generation c' = dc_source_generation c
    \<and> hr_mode (dc_health c') = hr_mode (dc_health c)"
proof -
  obtain c1 where c1: "rebuild_runtime_map env c = Some c1" and c': "assign_revision env c1 = Some c'"
    using assms by (auto simp: bind_eq_Some_conv)
  have "publication.noted (dc_revision c1) (dc_revision c')" "dc_source_generation c' = dc_source_generation c1"
    using assign_revision_effect [OF c'] unfolding publication.noted_def by metis+
  moreover have "dc_revision c1 = dc_revision c" "dc_source_generation c1 = dc_source_generation c"
    "dc_health c1 = dc_health c"
    using rebuild_effect [OF c1] by metis+
  ultimately show ?thesis using assign_health(1) [OF c'] by simp
qed

lemma publish_revision:
  assumes "publish_docker_snapshot_cache env entropy c u = Some c'"
  shows "publication.noted (dc_revision c) (dc_revision c') \<and> hr_mode (dc_health c') = hr_mode (dc_health u)
    \<and> dc_source_generation c' = dc_source_generation c + (if hr_mode (dc_health c) = hr_mode (dc_health u) then 0 else 1)"
proof -
  obtain c1 c2 c3 where c1: "inherited entropy c u = Some c1" and c2: "rebuild_runtime_map env c1 = Some c2"
    and c3: "assign_revision env (c2\<lparr>dc_revision := dc_revision c\<rparr>) = Some c3"
    and c': "observe_publication env entropy c3 = Some c'"
    using assms by (auto simp: publish_docker_snapshot_cache_def split: option.splits)
  let ?c2 = "c2\<lparr>dc_revision := dc_revision c\<rparr>"
  have "publication.noted (dc_revision ?c2) (dc_revision c3)" "dc_source_generation c3 = dc_source_generation ?c2"
    using assign_revision_effect [OF c3] unfolding publication.noted_def by metis+
  then have "publication.noted (dc_revision c) (dc_revision c3)" "dc_source_generation c3 = dc_source_generation c2"
    by simp_all
  moreover have "dc_source_generation c2 = dc_source_generation c1" "dc_health c2 = dc_health c1"
    using rebuild_effect [OF c2] by metis+
  moreover have "hr_mode (dc_health c3) = hr_mode (dc_health c2)" using assign_health(1) [OF c3] by simp
  moreover have "dc_source_generation c1 = dc_source_generation c
      + (if hr_mode (dc_health c) = hr_mode (dc_health u) then 0 else 1) \<and> dc_health c1 = dc_health u"
    using c1 by (auto simp: inherited_def Let_def checked_add1_Some)
  moreover have "dc_revision c' = dc_revision c3" "dc_source_generation c' = dc_source_generation c3"
    "dc_health c' = dc_health c3"
    using c' by (auto simp: observe_publication_def split: if_splits)
  ultimately show ?thesis by simp
qed

lemma step_revision:
  assumes "cache_step env c c'"
  shows "publication.noted\<^sup>*\<^sup>* (dc_revision c) (dc_revision c')
    \<and> dc_source_generation c \<le> dc_source_generation c'
    \<and> (hr_mode (dc_health c') \<noteq> hr_mode (dc_health c) \<longrightarrow> dc_source_generation c < dc_source_generation c')"
  using assms
proof cases
  case (refresh entropy now read updated)
  note publish_revision [OF refresh(3)]
  then show ?thesis by auto
next
  case (claim clock now active due)
  then have "(\<exists>slots. c' = c\<lparr>dc_runtime_providers := slots\<rparr>)
      \<or> (\<exists>slots. Option.bind (rebuild_runtime_map env (c\<lparr>dc_runtime_providers := slots\<rparr>)) (assign_revision env) = Some c')"
    by (auto simp: claim_due_provider_slots_def Let_def split: prod.splits if_splits)
  then show ?thesis using republish_revision by fastforce
next
  case (outcome slot out observed mode generation completed_ms completed_at)
  then have "c' = c \<or> (\<exists>slots. Option.bind (rebuild_runtime_map env (c\<lparr>dc_runtime_providers := slots\<rparr>))
      (assign_revision env) = Some c')"
    by (auto simp: apply_provider_slot_outcome_def split: if_splits option.splits)
  then show ?thesis using republish_revision by fastforce
qed

lemma steps_revision:
  assumes "(cache_step env)\<^sup>*\<^sup>* c c'"
  shows "publication.noted\<^sup>*\<^sup>* (dc_revision c) (dc_revision c')
    \<and> dc_source_generation c \<le> dc_source_generation c'
    \<and> (hr_mode (dc_health c') \<noteq> hr_mode (dc_health c) \<longrightarrow> dc_source_generation c < dc_source_generation c')"
  using assms
proof (induction rule: rtranclp_induct)
  case (step c1 c2)
  then show ?case using step_revision [OF step.hyps(2)] by (auto intro: rtranclp_trans)
qed simp

lemma steps_run: "(cache_step env)\<^sup>*\<^sup>* c c' \<Longrightarrow> cache_run env c \<Longrightarrow> cache_run env c'"
  by (induction rule: rtranclp_induct) (auto intro: cache_run.stepped)

section \<open>Properties\<close>

text \<open>
  C1. Whatever the daemon reads and in whatever order it reads, claims and collects, the models it
  publishes attest one publication: inventory, health, topology and findings carry the same model
  revision, the findings are those of the published topology with their exact summary, the provider
  states are those of the slots, every edge has evidence that attests it, Docker is reported
  reachable exactly in Docker mode, and no more than two slots are being collected.
\<close>

theorem cache_coherent:
  assumes "cache_run env c" and "cache_env_ok env"
  shows "sn_model_revision (dc_snapshot c) = cache_revision c \<and> hr_model_revision (dc_health c) = cache_revision c
    \<and> rm_model_revision (dc_runtime_map c) = cache_revision c \<and> fr_model_revision (dc_findings c) = cache_revision c
    \<and> fr_findings (dc_findings c) = cache_findings env c
    \<and> fr_summary (dc_findings c) = from_findings (fr_findings (dc_findings c))
    \<and> rm_provider_states (dc_runtime_map c) = provider_states_for (dc_runtime_providers c)
    \<and> (\<forall>e \<in> set (rm_edges (dc_runtime_map c)). has_valid_evidence_refs e)
    \<and> (hr_docker_reachable (dc_health c) \<longleftrightarrow> hr_mode (dc_health c) = Mode_Docker)
    \<and> collecting_count (dc_runtime_providers c) \<le> 2"
  using cache_run_inv [OF assms]
  by (auto simp: cache_inv_def published_def map_inv_def health_inv_def core_inv_def slots_inv_def
      MAX_CONCURRENT_PROVIDER_SLOTS_def)


text \<open>
  Sample data is never attested: while the daemon serves its mock inventory, no edge carries
  evidence, there is no finding, and the history of changes is empty and has no baseline.
\<close>

lemma mock_never_attests:
  assumes "cache_run env c" and "cache_env_ok env" and "hr_mode (dc_health c) = Mode_Mock"
  shows "(\<forall>e \<in> set (rm_edges (dc_runtime_map c)). re_evidence_refs e = [])
    \<and> fr_findings (dc_findings c) = []
    \<and> oh_events (observed_history_response c) = [] \<and> \<not> oh_baseline_established (observed_history_response c)"
proof -
  have inv: "map_inv c" "published env c" using cache_run_inv [OF assms(1,2)] by (simp_all add: cache_inv_def)
  then have none: "\<forall>e \<in> set (rm_edges (dc_runtime_map c)). re_evidence_refs e = []"
    using assms(3) by (simp add: map_inv_def)
  have "derive_findings (ce_sha256 env) (dc_runtime_map c) = []"
  proof (rule ccontr)
    assume "derive_findings (ce_sha256 env) (dc_runtime_map c) \<noteq> []"
    then obtain f where "f \<in> set (derive_findings (ce_sha256 env) (dc_runtime_map c))"
      by (meson last_in_set)
    then have "finding_attested (unique_node_index (rm_nodes (dc_runtime_map c))) (rm_edges (dc_runtime_map c)) f"
      by (auto simp: derive_findings_def intro: collect_findings_attested split: if_splits)
    then show False using none unfolding finding_attested_def by fastforce
  qed
  then have "cache_findings env c = []" using assms(3) by (simp add: cache_findings_def)
  then show ?thesis using inv(2) none assms(3)
    by (simp add: published_def observed_history_response_def history_response_def)
qed

text \<open>
  C31. Sources never mix: the outcome of a collection that was started before the daemon changed
  between Docker and its mock inventory is dropped, also when it has changed back in the meantime.
\<close>

theorem late_outcome_dropped:
  assumes "(cache_step env)\<^sup>*\<^sup>* c other" and "(cache_step env)\<^sup>*\<^sup>* other c'"
    and "hr_mode (dc_health other) \<noteq> hr_mode (dc_health c)"
  shows "apply_provider_slot_outcome env slot (dc_snapshot c) (hr_mode (dc_health c)) (dc_source_generation c)
    outcome completed_ms completed_at c' = Some c'"
proof -
  have "dc_source_generation c < dc_source_generation other" using steps_revision [OF assms(1)] assms(3) by blast
  also have "\<dots> \<le> dc_source_generation c'" using steps_revision [OF assms(2)] by blast
  finally show ?thesis by (simp add: apply_provider_slot_outcome_def)
qed

text \<open>
  C34. The change history the daemon answers with is accepted by the validators of the wire format
  in every state of the cache, with the revisions of the publication it belongs to; in Docker mode
  it always has a baseline.
\<close>

theorem cache_history_accepted:
  assumes "cache_run env c" and "cache_env_ok env" and r: "r = observed_history_response c"
  shows "observed_change_history_response_try_from (history_wire r) = Inr r
    \<and> (\<forall>e \<in> set (oh_events r). observed_change_event_try_from (event_wire e) = Inr e)
    \<and> (oh_baseline_established r \<longleftrightarrow> hr_mode (dc_health c) = Mode_Docker)"
proof -
  have inv: "core_inv env c" "revision_inv c" "published env c"
    and base: "hr_mode (dc_health c) = Mode_Docker \<longrightarrow> hc_baseline (dc_observed_history c) \<noteq> None"
    using cache_run_inv [OF assms(1,2)] by (simp_all add: cache_inv_def)
  have tokens: "revision_present (Some (sn_model_revision (dc_snapshot c)))" "revision_present (Some (docker_observation_token c))"
    using inv token_source_valid(2)
    by (auto simp: core_inv_def revision_inv_def published_def cache_revision_def publication_revision_current_def
        docker_observation_token_def docker_observation_revision_current_def)
  have sha: "digest_len_32 (ce_sha256 env)" and history: "history_state (ce_sha256 env) (dc_observed_history c)"
    using assms(2) inv(1) by (simp_all add: cache_env_ok_def core_inv_def)
  have "observed_change_history_response_try_from (history_wire r) = Inr r
    \<and> (\<forall>e \<in> set (oh_events r). observed_change_event_try_from (event_wire e) = Inr e)"
    by (rule published_history_accepted [OF sha history _ tokens r [unfolded observed_history_response_def]])
      (use base in blast)
  moreover have "oh_baseline_established r \<longleftrightarrow> hr_mode (dc_health c) = Mode_Docker"
    using base by (auto simp: r observed_history_response_def history_response_def)
  ultimately show ?thesis by blast
qed

section \<open>Operations return\<close>

lemma notes_return:
  "do_sequence d + 1 < 2 ^ 64 \<Longrightarrow> \<exists>d'. docker_observation_revision_note x d = Some d'"
  "io_sequence i + 1 < 2 ^ 64 \<Longrightarrow> \<exists>i'. integrity_observation_revision_assign a i = Some i'"
  "pr_sequence r + 1 < 2 ^ 64 \<Longrightarrow> \<exists>r'. publication_revision_note x r = Some r'"
  by (simp_all add: docker_observation_revision_note_def integrity_observation_revision_assign_def
      publication_revision_note_def checked_add1_Some)

lemma rebuild_returns:
  assumes "do_sequence (dc_docker_revision c) + 1 < 2 ^ 64" and "io_sequence (dc_integrity_revision c) + 1 < 2 ^ 64"
  shows "\<exists>c'. rebuild_runtime_map env c = Some c'"
proof -
  obtain d where d: "docker_observation_revision_note
      (docker_observable (ce_json env) (dc_snapshot c) (hr_mode (dc_health c))) (dc_docker_revision c) = Some d"
    using notes_return(1) [OF assms(1)] by blast
  have "\<exists>m. runtime_map_for_snapshot env snapshot mode slots (docker_observation_revision_current d) = Some m"
    for snapshot mode slots
    by (simp add: runtime_map_for_snapshot_def runtime_map_from_collection_def derive_runtime_map_def
        docker_observation_revision_current_def Let_def split: prod.splits)
  then obtain m where m: "runtime_map_for_snapshot env (dc_snapshot c) (hr_mode (dc_health c))
      (dc_runtime_providers c) (docker_observation_revision_current d) = Some m" by blast
  obtain i where "integrity_observation_revision_assign (collision_active c m) (dc_integrity_revision c) = Some i"
    using notes_return(2) [OF assms(2)] by blast
  then show ?thesis
    using d m by (simp add: rebuild_runtime_map_def assign_docker_observation_revision_def
        docker_observation_revision_assign_def apply_runtime_identity_collision_fact_def
        docker_observation_token_def collision_active_def Let_def)
qed

lemma assign_returns: "pr_sequence (dc_revision c) + 1 < 2 ^ 64 \<Longrightarrow> \<exists>c'. assign_revision env c = Some c'"
  using notes_return(3) [of "dc_revision c" "publication_of env c"]
  by (auto simp: assign_revision_def publication_revision_assign_def publication_of_def Let_def)

lemma mock_cache_returns: "\<exists>c. mock_cache env entropy now = Some c"
proof -
  let ?s = "(mock_snapshot now)\<lparr>sn_images := derive_images (mock_snapshot now)\<rparr>"
  let ?c = "new_cache env entropy ?s (mock_health (sn_last_updated ?s)) (sn_last_updated ?s) None"
  have "do_sequence (dc_docker_revision ?c) + 1 < 2 ^ 64"
    by (simp add: new_cache_def docker_observation_revision_new_def)
  then obtain d where "assign_docker_observation_revision env ?c = Some (?c\<lparr>dc_docker_revision := d\<rparr>)"
    using notes_return(1) unfolding assign_docker_observation_revision_def docker_observation_revision_assign_def
    by fastforce
  moreover have "\<exists>c'. assign_revision env (?c\<lparr>dc_docker_revision := d\<rparr>) = Some c'"
    by (rule assign_returns) (simp add: new_cache_def publication_revision_new_def)
  ultimately show ?thesis unfolding mock_cache_def Let_def by simp
qed

lemma push_all_returns:
  "hc_next_sequence h + length cs < 2 ^ 64 \<Longrightarrow> \<exists>h'. history_push_all t cs h = Some h'"
proof (induction cs arbitrary: h)
  case (Cons c cs)
  then obtain h1 where h1: "history_push t c h = Some h1" "hc_next_sequence h1 = hc_next_sequence h + 1"
    by (auto simp: history_push_def checked_add1_Some split: option.splits)
  then show ?case using Cons.IH [of h1] Cons.prems by simp
qed simp

text \<open>How many changes an observation can add to the history.\<close>

definition change_budget :: "observed_history_cache \<Rightarrow> observed_inventory \<Rightarrow> nat" where
  "change_budget h current = (case hc_baseline h of None \<Rightarrow> 0
     | Some previous \<Rightarrow> length (inventory_changes previous current))"

lemma observe_returns:
  assumes "hc_next_sequence h + change_budget h (observed_container_inventory sha256 s) < 2 ^ 64"
  shows "\<exists>h'. observe_published_snapshot sha256 entropy s h = Some h'"
  using assms push_all_returns
  by (auto simp: observe_published_snapshot_def change_budget_def Let_def split: option.splits)

lemma collect_returns:
  "\<exists>u. collect_snapshot env entropy now read = Some u"
  using mock_cache_returns [of env entropy now] by (cases read) (auto simp: collect_snapshot_def Let_def)

lemma collected_integrity:
  assumes "collect_snapshot env entropy now read = Some u"
  shows "io_sequence (dc_integrity_revision u) = 0"
proof -
  have mock: "io_sequence (dc_integrity_revision c) = 0" if "mock_cache env entropy now = Some c" for c
    using that by (auto simp: mock_cache_def bind_eq_Some_conv assign_docker_observation_revision_def new_cache_def
        integrity_observation_revision_new_def Let_def elim!: assign_revision_effect)
  show ?thesis
    using assms mock by (cases read) (auto simp: collect_snapshot_def docker_candidate_def new_cache_def
        integrity_observation_revision_new_def with_message_def Let_def)
qed

text \<open>What an observation of the published snapshot of a candidate is compared against.\<close>

definition published_inventory :: "cache_env \<Rightarrow> daemon_cache \<Rightarrow> observed_inventory" where
  "published_inventory env u = observed_container_inventory (ce_sha256 env)
     ((publish_docker_snapshot (dc_snapshot u))\<lparr>sn_last_updated := sn_last_updated (dc_snapshot u),
       sn_model_revision := []\<rparr>)"

text \<open>No counter of the cache is about to overflow.\<close>

definition counters_ok :: "cache_env \<Rightarrow> daemon_cache \<Rightarrow> daemon_cache \<Rightarrow> bool" where
  "counters_ok env c u \<longleftrightarrow> dc_source_generation c + 1 < 2 ^ 64
     \<and> do_sequence (dc_docker_revision c) + 1 < 2 ^ 64 \<and> io_sequence (dc_integrity_revision c) + 1 < 2 ^ 64
     \<and> pr_sequence (dc_revision c) + 1 < 2 ^ 64
     \<and> (hr_mode (dc_health c) = Mode_Docker \<and> hr_mode (dc_health u) = Mode_Docker \<longrightarrow>
       hc_next_sequence (dc_observed_history c) + change_budget (dc_observed_history c) (published_inventory env u) < 2 ^ 64)"

lemma publish_candidate_returns:
  assumes u: "collect_snapshot env entropy now read = Some u" and ok: "counters_ok env c u"
  shows "\<exists>c'. publish_docker_snapshot_cache env entropy c u = Some c'"
proof -
  have counters: "io_sequence (dc_integrity_revision c) + 1 < 2 ^ 64" using ok by (simp add: counters_ok_def)
  have "inherited entropy c u \<noteq> None"
    using ok by (auto simp: inherited_def counters_ok_def checked_add1_def Let_def)
  then obtain c1 where c1: "inherited entropy c u = Some c1" by blast
  then have base: "dc_snapshot c1 = dc_snapshot u" "dc_docker_revision c1 = dc_docker_revision c"
      "io_sequence (dc_integrity_revision c1) + 1 < 2 ^ 64"
      "dc_observed_history c1 = (if hr_mode (dc_health c) = hr_mode (dc_health u) then dc_observed_history c
        else history_new (fe_source entropy))"
      "dc_health c1 = dc_health u"
    using counters collected_integrity [OF u] by (auto simp: inherited_def Let_def)
  obtain c2 where c2: "rebuild_runtime_map env c1 = Some c2"
    using rebuild_returns base ok unfolding counters_ok_def by metis
  then have history2: "dc_observed_history c2 = dc_observed_history c1" "dc_snapshot c2 = dc_snapshot c1"
    "dc_health c2 = dc_health c1"
    by (rule rebuild_effect; simp)+
  obtain c3 where c3: "assign_revision env (c2\<lparr>dc_revision := dc_revision c\<rparr>) = Some c3"
    using assign_returns [of "c2\<lparr>dc_revision := dc_revision c\<rparr>" env] ok by (auto simp: counters_ok_def)
  have history3: "dc_observed_history c3 = dc_observed_history c1"
    "\<exists>r. dc_snapshot c3 = (dc_snapshot u)\<lparr>sn_model_revision := r\<rparr>" "hr_mode (dc_health c3) = hr_mode (dc_health u)"
    using c3 history2 base(1,5) by (auto elim!: assign_revision_effect)
  let ?s = "(publish_docker_snapshot (dc_snapshot c3))\<lparr>sn_last_updated := sn_last_updated (dc_snapshot c3),
       sn_model_revision := []\<rparr>"
  have "observed_container_inventory (ce_sha256 env) ?s = published_inventory env u"
    using history3(2) by (auto simp: published_inventory_def)
  then have "hc_next_sequence (dc_observed_history c3)
      + change_budget (dc_observed_history c3) (observed_container_inventory (ce_sha256 env) ?s) < 2 ^ 64"
    if "hr_mode (dc_health c3) = Mode_Docker"
    using that history3(1,3) base(4) ok by (auto simp: counters_ok_def history_new_def change_budget_def)
  then have "\<exists>c'. observe_publication env entropy c3 = Some c'"
    using observe_returns by (fastforce simp: observe_publication_def)
  then show ?thesis using c1 c2 c3 by (simp add: publish_docker_snapshot_cache_def)
qed


text \<open>
  Only the age of the inventory makes a network observation stale: when a refresh in the same
  mode reads the same Docker evidence at another time, the fresh observation of the network slot is
  degraded all the same, because the time of collection is part of the compared snapshot.
\<close>

lemma network_stale_every_tick:
  assumes "publish_docker_snapshot_cache env entropy c u = Some c'"
    and "hr_mode (dc_health u) = hr_mode (dc_health c)"
    and "dc_snapshot u = (dc_snapshot c)\<lparr>sn_last_updated := now, sn_model_revision := r\<rparr>"
    and "now \<noteq> sn_last_updated (dc_snapshot c)"
    and "sl_observation (dc_runtime_providers c Slot_NetworkInfrastructure) = Obs_Fresh observed"
  shows "sl_observation (dc_runtime_providers c' Slot_NetworkInfrastructure) = Obs_Degraded (Some observed)
    \<and> (\<forall>slot. slot \<noteq> Slot_NetworkInfrastructure \<longrightarrow> dc_runtime_providers c' slot = dc_runtime_providers c slot)"
proof -
  obtain c1 c2 c3 where c1: "inherited entropy c u = Some c1" and c2: "rebuild_runtime_map env c1 = Some c2"
    and c3: "assign_revision env (c2\<lparr>dc_revision := dc_revision c\<rparr>) = Some c3"
    and c': "observe_publication env entropy c3 = Some c'"
    using assms(1) by (auto simp: publish_docker_snapshot_cache_def split: option.splits)
  have "dc_runtime_providers c' = dc_runtime_providers c3"
    using c' by (auto simp: observe_publication_def split: if_splits)
  moreover have "dc_runtime_providers c3 = dc_runtime_providers c2"
    using c3 by (auto elim!: assign_revision_effect)
  moreover have "dc_runtime_providers c2 = dc_runtime_providers c1" by (rule rebuild_effect [OF c2])
  moreover have "\<not> same_collection_evidence (dc_snapshot c) (dc_snapshot u)"
  proof
    assume "same_collection_evidence (dc_snapshot c) (dc_snapshot u)"
    then have "sn_last_updated ((publish_docker_snapshot (dc_snapshot c))\<lparr>sn_model_revision := []\<rparr>)
        = sn_last_updated ((publish_docker_snapshot (dc_snapshot u))\<lparr>sn_model_revision := []\<rparr>)"
      by (simp only: same_collection_evidence_def)
    then show False using assms(3,4) by (simp add: publish_docker_snapshot_def redact_docker_snapshot_def)
  qed
  then have "dc_runtime_providers c1 = mark_network_observation_stale (dc_runtime_providers c)"
    using c1 assms(2) by (auto simp: inherited_def Let_def)
  ultimately show ?thesis using assms(5) by (simp add: mark_network_observation_stale_def Let_def)
qed

section \<open>A run of the daemon\<close>

definition example_env :: cache_env where
  "example_env = \<lparr>ce_sha256 = toy_digest, ce_js = plain_serializers,
     ce_json = \<lparr>oj_publication = (\<lambda>(s, h, m). concat (map ct_name (sn_containers s))),
       oj_docker = (\<lambda>(mode, s). concat (map ct_name (sn_containers s))),
       oj_collection = (\<lambda>(nodes, edges, diagnostics, states). concat (map rn_id nodes))\<rparr>,
     ce_boot = replicate 16 7\<rparr>"

definition example_entropy :: fresh_entropy where
  "example_entropy = \<lparr>fe_docker = replicate 16 1, fe_integrity = replicate 16 2, fe_history = replicate 16 3,
     fe_source = replicate 16 4, fe_reset = replicate 16 5\<rparr>"

lemma example_ok: "cache_env_ok example_env" "fresh_ok example_entropy"
  by (simp_all add: cache_env_ok_def example_env_def toy_digest_len fresh_ok_def example_entropy_def)

definition counters_below :: "nat \<Rightarrow> daemon_cache \<Rightarrow> bool" where
  "counters_below n c \<longleftrightarrow> dc_source_generation c < n \<and> do_sequence (dc_docker_revision c) < n
     \<and> io_sequence (dc_integrity_revision c) < n \<and> pr_sequence (dc_revision c) < n"

lemma note_below:
  "docker_observation_revision_note x d = Some d' \<Longrightarrow> do_sequence d' \<le> do_sequence d + 1"
  "integrity_observation_revision_assign a i = Some i' \<Longrightarrow> io_sequence i' \<le> io_sequence i + 1"
  "publication_revision_note y r = Some r' \<Longrightarrow> pr_sequence r' \<le> pr_sequence r + 1"
  by (auto simp: docker_observation_revision_note_def integrity_observation_revision_assign_def
      publication_revision_note_def checked_add1_Some split: if_splits)

lemma assign_below:
  "assign_revision env c = Some c' \<Longrightarrow> pr_sequence (dc_revision c') \<le> pr_sequence (dc_revision c) + 1"
  by (auto elim!: assign_revision_effect dest!: note_below(3))

lemma mock_counters:
  assumes "mock_cache env entropy now = Some c"
  shows "counters_below 2 c"
  using assms note_below(1) [of _ "docker_observation_revision_new (fe_docker entropy)"]
  by (fastforce simp: counters_below_def mock_cache_def bind_eq_Some_conv assign_docker_observation_revision_def
      docker_observation_revision_assign_def new_cache_def docker_observation_revision_new_def
      integrity_observation_revision_new_def publication_revision_new_def Let_def
      elim!: assign_revision_effect dest!: note_below(3))

lemma rebuild_below:
  assumes "rebuild_runtime_map env c = Some c'"
  shows "dc_source_generation c' = dc_source_generation c
    \<and> do_sequence (dc_docker_revision c') \<le> do_sequence (dc_docker_revision c) + 1
    \<and> io_sequence (dc_integrity_revision c') \<le> io_sequence (dc_integrity_revision c) + 1"
  using assms by (rule rebuild_effect) (blast dest: note_below(1,2))

lemma publish_below:
  assumes "publish_docker_snapshot_cache env entropy c u = Some c'" and "collect_snapshot env entropy now read = Some u"
    and "counters_below n c"
  shows "counters_below (Suc n) c'"
proof -
  obtain c1 c2 c3 where c1: "inherited entropy c u = Some c1" and c2: "rebuild_runtime_map env c1 = Some c2"
    and c3: "assign_revision env (c2\<lparr>dc_revision := dc_revision c\<rparr>) = Some c3"
    and c': "observe_publication env entropy c3 = Some c'"
    using assms(1) by (auto simp: publish_docker_snapshot_cache_def split: option.splits)
  have "dc_source_generation c' = dc_source_generation c3" "dc_docker_revision c' = dc_docker_revision c3"
    "dc_integrity_revision c' = dc_integrity_revision c3" "dc_revision c' = dc_revision c3"
    using c' by (auto simp: observe_publication_def split: if_splits)
  moreover have "dc_source_generation c3 = dc_source_generation c2" "dc_docker_revision c3 = dc_docker_revision c2"
    "dc_integrity_revision c3 = dc_integrity_revision c2" "pr_sequence (dc_revision c3) \<le> pr_sequence (dc_revision c) + 1"
    using c3 assign_below [OF c3] by (auto elim!: assign_revision_effect)
  moreover have "dc_source_generation c2 = dc_source_generation c1"
    "do_sequence (dc_docker_revision c2) \<le> do_sequence (dc_docker_revision c1) + 1"
    "io_sequence (dc_integrity_revision c2) \<le> io_sequence (dc_integrity_revision c1) + 1"
    using rebuild_below [OF c2] by simp_all
  moreover have "dc_source_generation c1 \<le> dc_source_generation c + 1" "dc_docker_revision c1 = dc_docker_revision c"
    "io_sequence (dc_integrity_revision c1) \<le> io_sequence (dc_integrity_revision c)"
    using c1 collected_integrity [OF assms(2)] by (auto simp: inherited_def checked_add1_Some Let_def split: if_splits)
  ultimately show ?thesis using assms(3) by (simp add: counters_below_def)
qed

definition read_mode :: "docker_read \<Rightarrow> runtime_mode" where
  "read_mode read = (case read of Read s b \<Rightarrow> Mode_Docker | _ \<Rightarrow> Mode_Mock)"

lemma collected_mode:
  assumes "collect_snapshot env entropy now read = Some u" and "fresh_ok entropy" and "cache_env_ok env"
  shows "hr_mode (dc_health u) = read_mode read"
  using assms(1) mock_cache_inv [OF _ assms(2,3)]
  by (cases read) (auto simp: collect_snapshot_def read_mode_def docker_candidate_def new_cache_def docker_health_def
      with_message_def redact_health_response_def Let_def)

text \<open>Every read that changes the source, and every mock read, can be published.\<close>

lemma example_refresh:
  assumes "counters_below n c" and "n < 1000" and "hr_mode (dc_health c) = Mode_Mock \<or> read_mode read = Mode_Mock"
  shows "\<exists>u c'. collect_snapshot example_env example_entropy now read = Some u
    \<and> publish_docker_snapshot_cache example_env example_entropy c u = Some c'
    \<and> cache_step example_env c c' \<and> hr_mode (dc_health c') = read_mode read \<and> counters_below (Suc n) c'"
proof -
  obtain u where u: "collect_snapshot example_env example_entropy now read = Some u" using collect_returns by blast
  have mode: "hr_mode (dc_health u) = read_mode read" by (rule collected_mode [OF u example_ok(2,1)])
  have "counters_ok example_env c u"
    using assms mode by (auto simp: counters_ok_def counters_below_def)
  then obtain c' where c': "publish_docker_snapshot_cache example_env example_entropy c u = Some c'"
    using publish_candidate_returns [OF u] by blast
  have "hr_mode (dc_health c') = read_mode read" using publish_revision [OF c'] mode by simp
  then show ?thesis
    using u c' cache_step.refresh [OF example_ok(2) u c'] publish_below [OF c' u assms(1)] by blast
qed

lemma example_start:
  "\<exists>c. mock_cache example_env example_entropy 0 = Some c \<and> cache_run example_env c
     \<and> hr_mode (dc_health c) = Mode_Mock \<and> counters_below 2 c"
  using mock_cache_returns cache_run.started [OF example_ok(2)] mock_cache_inv [OF _ example_ok(2,1)] mock_counters
  by blast

text \<open>A daemon that starts with its sample, reads Docker, loses it and reads it again.\<close>

lemma example_flips:
  "\<exists>c0 c1 c2 c3. cache_run example_env c0 \<and> hr_mode (dc_health c0) = Mode_Mock
    \<and> cache_step example_env c0 c1 \<and> hr_mode (dc_health c1) = Mode_Docker
    \<and> cache_step example_env c1 c2 \<and> hr_mode (dc_health c2) = Mode_Mock
    \<and> cache_step example_env c2 c3 \<and> hr_mode (dc_health c3) = Mode_Docker"
proof -
  have read: "read_mode (Read example_observed None) = Mode_Docker" "read_mode Read_TimedOut = Mode_Mock"
    by (simp_all add: read_mode_def)
  obtain c0 where c0: "cache_run example_env c0" "hr_mode (dc_health c0) = Mode_Mock" "counters_below 2 c0"
    using example_start by blast
  obtain c1 where c1: "cache_step example_env c0 c1" "hr_mode (dc_health c1) = Mode_Docker" "counters_below 3 c1"
    using example_refresh [OF c0(3), of "Read example_observed None"] c0(2) read by (auto simp: eval_nat_numeral)
  obtain c2 where c2: "cache_step example_env c1 c2" "hr_mode (dc_health c2) = Mode_Mock" "counters_below 4 c2"
    using example_refresh [OF c1(3), of Read_TimedOut] read by (auto simp: eval_nat_numeral)
  obtain c3 where "cache_step example_env c2 c3" "hr_mode (dc_health c3) = Mode_Docker"
    using example_refresh [OF c2(3), of "Read example_observed None"] c2(2) read by auto
  then show ?thesis using c0 c1 c2 by blast
qed

theorem cache_coherent_witness:
  "\<exists>c. cache_run example_env c \<and> hr_mode (dc_health c) = Mode_Docker \<and> hr_docker_reachable (dc_health c)
    \<and> rm_model_revision (dc_runtime_map c) = cache_revision c \<and> fr_model_revision (dc_findings c) = cache_revision c"
proof -
  obtain c where c: "cache_run example_env c" "hr_mode (dc_health c) = Mode_Docker"
    using example_flips cache_run.stepped by blast
  then show ?thesis using cache_coherent [OF c(1) example_ok(1)] by blast
qed

theorem late_outcome_dropped_witness:
  "\<exists>(c :: daemon_cache) c'. hr_mode (dc_health c) = Mode_Docker \<and> hr_mode (dc_health c') = Mode_Docker
    \<and> apply_provider_slot_outcome example_env Slot_Cron (dc_snapshot c) (hr_mode (dc_health c))
        (dc_source_generation c) Failed (Some 5) 9 c' = Some c'"
proof -
  obtain c1 c2 c3 where c: "hr_mode (dc_health c1) = Mode_Docker" "cache_step example_env c1 c2"
      "hr_mode (dc_health c2) = Mode_Mock" "cache_step example_env c2 c3" "hr_mode (dc_health c3) = Mode_Docker"
    using example_flips by blast
  have "(cache_step example_env)\<^sup>*\<^sup>* c1 c2" "(cache_step example_env)\<^sup>*\<^sup>* c2 c3" using c(2,4) by blast+
  then have "apply_provider_slot_outcome example_env Slot_Cron (dc_snapshot c1) (hr_mode (dc_health c1))
      (dc_source_generation c1) Failed (Some 5) 9 c3 = Some c3"
    by (rule late_outcome_dropped) (simp add: c)
  then show ?thesis using c(1,5) by blast
qed

theorem cache_history_accepted_witness:
  "\<exists>c r. cache_run example_env c \<and> r = observed_history_response c
    \<and> observed_change_history_response_try_from (history_wire r) = Inr r \<and> oh_baseline_established r"
proof -
  obtain c where c: "cache_run example_env c" "hr_mode (dc_health c) = Mode_Docker"
    using example_flips cache_run.stepped by blast
  then show ?thesis using cache_history_accepted [OF c(1) example_ok(1) refl] by blast
qed


text \<open>Two samples of different times publish the same models.\<close>

lemma mock_publication:
  assumes "mock_cache env entropy now = Some c"
  shows "\<exists>r. dc_snapshot c = (mock_snapshot now)\<lparr>sn_images := derive_images (mock_snapshot now), sn_model_revision := r\<rparr>"
  using assms by (auto simp: mock_cache_def bind_eq_Some_conv assign_docker_observation_revision_def new_cache_def Let_def
      elim!: assign_revision_effect)

lemma example_publication_of:
  assumes "dc_snapshot c = (mock_snapshot now)\<lparr>sn_images := xs, sn_model_revision := r\<rparr>"
  shows "publication_of example_env c = concat (map ct_name (map redact_container_record (sn_containers (mock_snapshot 0))))"
proof -
  have "sn_containers (mock_snapshot now) = sn_containers (mock_snapshot 0)" by (simp add: mock_snapshot_def)
  then show ?thesis
    by (simp add: publication_of_def publication_observable_def clear_volatile_observation_markers_def example_env_def
        publish_docker_snapshot_def redact_docker_snapshot_def assms)
qed

lemma publish_snapshot_of:
  assumes "publish_docker_snapshot_cache env entropy c u = Some c'"
  shows "\<exists>r. dc_snapshot c' = (dc_snapshot u)\<lparr>sn_model_revision := r\<rparr>"
proof -
  obtain c1 c2 c3 where c1: "inherited entropy c u = Some c1" and c2: "rebuild_runtime_map env c1 = Some c2"
    and c3: "assign_revision env (c2\<lparr>dc_revision := dc_revision c\<rparr>) = Some c3"
    and c': "observe_publication env entropy c3 = Some c'"
    using assms(1) by (auto simp: publish_docker_snapshot_cache_def split: option.splits)
  have "dc_snapshot c' = dc_snapshot c3" using c' by (auto simp: observe_publication_def split: if_splits)
  moreover have "\<exists>r. dc_snapshot c3 = (dc_snapshot c2)\<lparr>sn_model_revision := r\<rparr>"
    using c3 by (auto elim!: assign_revision_effect)
  moreover have "dc_snapshot c2 = dc_snapshot c1" by (rule rebuild_effect [OF c2])
  moreover have "dc_snapshot c1 = dc_snapshot u" using c1 by (auto simp: inherited_def Let_def)
  ultimately show ?thesis by simp
qed


end
