(* ===== verification/Compose_Scan_Props.thy ===== *)
theory Compose_Scan_Props
  imports Compose_Scan
begin

text \<open>
  What a scan of Compose files guarantees: the judgement of every bind source, the merge of
  services, duplicate targets, and the coherence of the snapshot that a binding is made from.
\<close>

section \<open>What parsing adds to a scan\<close>

definition mount_wf :: "string option \<Rightarrow> compose_mount \<Rightarrow> bool" where
  "mount_wf home m \<longleftrightarrow>
     mt_resolved_source m = resolve_source home (base_dir_of (og_file (mt_origin m))) (mt_kind m) (mt_source m)"

definition parse_ids :: "string set" where
  "parse_ids = {''compose_yaml_parse_error'', ''compose_missing_services'', ''compose_non_string_service_name'',
     ''compose_invalid_volumes'', ''compose_unsupported_mount'', ''compose_mount_missing_target'',
     ''compose_invalid_short_mount''}"

definition extends :: "string option \<Rightarrow> compose_scan \<Rightarrow> compose_scan \<Rightarrow> bool" where
  "extends home a b \<longleftrightarrow> (\<exists>ss ms ds. b = a\<lparr>sc_services := sc_services a @ ss, sc_mounts := sc_mounts a @ ms,
       sc_diagnostics := sc_diagnostics a @ ds\<rparr>
     \<and> list_all (mount_wf home) ms \<and> list_all (\<lambda>d. cd_id d \<in> parse_ids) ds)"

lemma extends_refl: "extends home a a"
  unfolding extends_def by (intro exI [of _ "[]"]) simp

lemma extends_trans: "extends home a b \<Longrightarrow> extends home b c \<Longrightarrow> extends home a c"
  unfolding extends_def by force

lemma extends_foldl: "(\<And>a x. x \<in> set xs \<Longrightarrow> extends home a (f a x)) \<Longrightarrow> extends home a (foldl f a xs)"
  by (induction xs arbitrary: a) (auto intro: extends_refl extends_trans)

lemma extends_diagnostic: "cd_id d \<in> parse_ids \<Longrightarrow> extends home a (push_diagnostic_scan d a)"
  unfolding extends_def push_diagnostic_scan_def by (intro exI [of _ "[]"] exI [of _ "[d]"]) simp

lemma extends_service: "extends home a (a\<lparr>sc_services := sc_services a @ [s]\<rparr>)"
  unfolding extends_def by (intro exI [of _ "[s]"] exI [of _ "[]"]) simp

lemma extends_mount:
  assumes "case r of Inr m \<Rightarrow> mount_wf home m | Inl d \<Rightarrow> cd_id d \<in> parse_ids"
  shows "extends home a (push_parsed_mount r a)"
proof (cases r)
  case (Inl d)
  then show ?thesis using assms extends_diagnostic by (simp add: push_parsed_mount_def)
next
  case (Inr m)
  then show ?thesis using assms unfolding extends_def push_parsed_mount_def
    by (intro exI [of _ "[]"] exI [of _ "[m]"]) simp
qed

lemma new_mount_wf: "base = base_dir_of file \<Longrightarrow> mount_wf home (new_mount home file base service i kind source target ro)"
  by (simp add: mount_wf_def new_mount_def compose_origin_def)

lemma parse_mount_wf:
  "case parse_mount home y file (base_dir_of file) service index item of
     Inr m \<Rightarrow> mount_wf home m | Inl d \<Rightarrow> cd_id d \<in> parse_ids"
  by (simp add: parse_mount_def parse_short_mount_def parse_long_mount_def new_mount_wf compose_diag_def
      parse_ids_def Let_def split: option.split list.split)

lemma parse_volumes_extends: "extends home a (parse_volumes home y file (base_dir_of file) service volumes a)"
  unfolding parse_volumes_def
  by (auto simp: compose_diag_def parse_ids_def split: option.split
      intro!: extends_foldl extends_mount extends_diagnostic parse_mount_wf)

lemma parse_service_extends: "extends home a (parse_service home y file (base_dir_of file) a entry)"
proof (cases entry)
  case (Pair key v)
  show ?thesis
  proof (cases "ya_as_str y key")
    case None
    then show ?thesis by (simp add: parse_service_def Pair extends_diagnostic compose_diag_def parse_ids_def)
  next
    case (Some name)
    then show ?thesis
      using extends_trans [OF extends_service parse_volumes_extends] extends_service
      by (auto simp: parse_service_def Pair Let_def split: option.split)
  qed
qed

lemma parse_extends: "extends home a (parse_compose_file home y file content a)"
  by (auto simp: parse_compose_file_def compose_diag_def parse_ids_def Let_def split: sum.split option.split
      intro!: extends_foldl parse_service_extends extends_diagnostic)

lemma scan_files_extends: "scan_files y io files a = Inr b \<Longrightarrow> extends (io_home io) a b"
proof (induction files arbitrary: a)
  case (Cons f fs)
  then obtain content where "extends (io_home io) (parse_compose_file (io_home io) y f content a) b"
    by (auto split: sum.splits)
  then show ?case by (rule extends_trans [OF parse_extends])
qed (simp add: extends_refl)

lemma extends_empty:
  assumes "extends home (empty_scan root files) b"
  shows "list_all (mount_wf home) (sc_mounts b)" "list_all (\<lambda>d. cd_id d \<in> parse_ids) (sc_diagnostics b)"
  using assms by (auto simp: extends_def empty_scan_def)

text \<open>A scan is a merged and validated list of parsed declarations.\<close>

definition scanned :: "string option \<Rightarrow> compose_io \<Rightarrow> compose_scan \<Rightarrow> bool" where
  "scanned home io scan \<longleftrightarrow> (\<exists>raw. scan = validate_compose_scan io (coalesce_compose_services raw)
     \<and> list_all (mount_wf home) (sc_mounts raw) \<and> list_all (\<lambda>d. cd_id d \<in> parse_ids) (sc_diagnostics raw))"

lemma scan_compose_scanned:
  assumes "scan_compose_files y io root files = Inr scan" and "files \<noteq> []"
  shows "scanned (io_home io) io scan"
proof -
  obtain raw where "scan_files y io files (empty_scan root files) = Inr raw"
    "scan = validate_compose_scan io (coalesce_compose_services raw)"
    using assms by (cases "scan_files y io files (empty_scan root files)") (auto simp: scan_compose_files_def)
  then show ?thesis unfolding scanned_def using extends_empty [OF scan_files_extends] by blast
qed

lemma scanned_parts:
  assumes "scanned home io scan"
  obtains ds where "list_all (mount_wf home) (sc_mounts scan)" "list_all (\<lambda>d. cd_id d \<in> parse_ids) ds"
    "sc_diagnostics scan = ds @ concat (map (mount_diagnostics io) (sc_mounts scan))
       @ concat (map duplicate_diagnostics (targets_by_service (sc_mounts scan)))"
  using assms by (auto simp: scanned_def validate_compose_scan_def coalesce_compose_services_def)

section \<open>Bind sources\<close>


text \<open>
  A bind source outside the directory of its Compose file is never reported as a traversal: the
  resolved source is normalised before it is tested for parent steps, so none is left, and no scan
  has the diagnostic.
\<close>

lemma traversal_never_reported:
  assumes "scan_compose_files y io root files = Inr scan"
  shows "\<not> (\<exists>d \<in> set (sc_diagnostics scan). cd_id d = ''compose_parent_traversal'')"
proof (cases "files = []")
  case True
  then show ?thesis using assms by (auto simp: scan_compose_files_def push_diagnostic_scan_def compose_diag_def empty_scan_def)
next
  case False
  obtain ds where wf: "list_all (mount_wf (io_home io)) (sc_mounts scan)"
    and ds: "list_all (\<lambda>d. cd_id d \<in> parse_ids) ds"
    and diags: "sc_diagnostics scan = ds @ concat (map (mount_diagnostics io) (sc_mounts scan))
       @ concat (map duplicate_diagnostics (targets_by_service (sc_mounts scan)))"
    using scanned_parts [OF scan_compose_scanned [OF assms False]] by metis
  have "cd_id d \<noteq> ''compose_parent_traversal''" if "m \<in> set (sc_mounts scan)" "d \<in> set (mount_diagnostics io m)" for m d
  proof -
    have "mount_wf (io_home io) m" using wf that(1) by (simp add: list_all_iff)
    then have "\<not> has_parent_traversal r" if "mt_resolved_source m = Some r" for r
      using that resolved_source(3) by (cases "mt_source m") (auto simp: mount_wf_def resolve_source_def)
    then show ?thesis using that(2)
      by (auto simp: mount_diagnostics_def target_diagnostics_def kind_diagnostics_def source_diagnostics_def
          bind_diagnostics_def symlink_diagnostics_def compose_diag_def
          split: if_splits option.splits compose_mount_kind.splits bool.splits)
  qed
  moreover have "cd_id d \<noteq> ''compose_parent_traversal''" if "d \<in> set (duplicate_diagnostics e)" for d e
    using that by (auto simp: duplicate_diagnostics_def compose_diag_def split: prod.splits if_splits)
  moreover have "cd_id d \<noteq> ''compose_parent_traversal''" if "d \<in> set ds" for d
    using that ds by (auto simp: list_all_iff parse_ids_def)
  ultimately show ?thesis unfolding diags by fastforce
qed

section \<open>Merging services\<close>

definition declared :: "compose_service list \<Rightarrow> string \<Rightarrow> compose_service list" where
  "declared ss n = filter (\<lambda>s. cs_name s = n) ss"

lemma declared_mem: "declared ss n \<noteq> [] \<longleftrightarrow> n \<in> set (map cs_name ss)"
  by (auto simp: declared_def filter_empty_conv)

text \<open>The last value that is present.\<close>

definition last_some :: "'a option list \<Rightarrow> 'a option" where
  "last_some os = (case rev (List.map_filter id os) of [] \<Rightarrow> None | v # _ \<Rightarrow> Some v)"

lemma last_some_snoc: "last_some (os @ [v]) = (case v of None \<Rightarrow> last_some os | Some x \<Rightarrow> Some x)"
  by (cases v) (simp_all add: last_some_def List.map_filter_def)

lemma last_some_Nil [simp]: "last_some [] = None"
  by (simp add: last_some_def List.map_filter_def)

lemma insert_all_wf: "bt_wf m \<Longrightarrow> bt_wf (foldl (\<lambda>m (k, v). bt_insert k v m) m es)"
  by (induction es arbitrary: m) (auto simp: bt_wf_insert)

lemma insert_all_get:
  "bt_wf m \<Longrightarrow> bt_get (foldl (\<lambda>m (k, v). bt_insert k v m) m es) k =
     (case map_of (rev es) k of None \<Rightarrow> bt_get m k | Some v \<Rightarrow> Some v)"
  by (induction es arbitrary: m rule: rev_induct) (auto simp: bt_get_insert insert_all_wf split: option.split)

lemma wf_map_of_rev:
  assumes "bt_wf m"
  shows "map_of (rev m) k = bt_get m k"
proof -
  have "distinct (map fst m)" using assms by (simp add: bt_wf_def strict_sorted_iff)
  then have "map_of (rev m) = map_of m" by (subst map_of_inject_set) (simp_all add: rev_map [symmetric])
  then show ?thesis by (simp add: bt_get_def)
qed

lemma append_new_set: "set (foldl (\<lambda>ds d. if d \<in> set ds then ds else ds @ [d]) ds es) = set ds \<union> set es"
  by (induction es arbitrary: ds) auto

definition merged :: "compose_service list \<Rightarrow> compose_service \<Rightarrow> bool" where
  "merged ss s \<longleftrightarrow> cs_image s = last_some (map cs_image ss)
     \<and> (\<forall>k. bt_get (cs_environment s) k = last_some (map (\<lambda>d. bt_get (cs_environment d) k) ss))
     \<and> set (cs_depends_on s) = (\<Union>d \<in> set ss. set (cs_depends_on d))"

lemma last_some_one [simp]: "last_some [v] = v"
  using last_some_snoc [of "[]" v] by (cases v) simp_all

lemma merged_one: "merged [s] s"
  by (simp add: merged_def)

lemma merged_step:
  assumes "merged ss e" and "bt_wf (cs_environment s)" and "bt_wf (cs_environment e)"
  shows "merged (ss @ [s]) (merge_service s e)" "bt_wf (cs_environment (merge_service s e))"
  using assms
  by (auto simp: merged_def merge_service_def last_some_snoc insert_all_get insert_all_wf wf_map_of_rev append_new_set
      split: option.split)

lemma coalesce_get:
  assumes "list_all (\<lambda>s. bt_wf (cs_environment s)) ss"
  shows "bt_wf (foldl coalesce_step [] ss)
    \<and> (case bt_get (foldl coalesce_step [] ss) n of
         None \<Rightarrow> declared ss n = []
       | Some s \<Rightarrow> declared ss n \<noteq> [] \<and> cs_name s = n \<and> bt_wf (cs_environment s) \<and> merged (declared ss n) s)"
  using assms
proof (induction ss arbitrary: n rule: rev_induct)
  case Nil
  then show ?case by (simp add: bt_wf_def bt_get_def declared_def)
next
  case (snoc x ss)
  define m where "m = foldl coalesce_step [] ss"
  have wf: "bt_wf m" and ih: "case bt_get m n of None \<Rightarrow> declared ss n = []
      | Some s \<Rightarrow> declared ss n \<noteq> [] \<and> cs_name s = n \<and> bt_wf (cs_environment s) \<and> merged (declared ss n) s" for n
    using snoc by (simp_all add: m_def)
  have x: "bt_wf (cs_environment x)" using snoc.prems by simp
  have snoc': "declared (ss @ [x]) n = declared ss n @ (if cs_name x = n then [x] else [])" for n
    by (simp add: declared_def)
  have step: "foldl coalesce_step [] (ss @ [x]) = coalesce_step m x" by (simp add: m_def)
  have "bt_wf (coalesce_step m x)" using wf by (auto simp: coalesce_step_def bt_wf_insert split: option.split)
  moreover have "case bt_get (coalesce_step m x) n of None \<Rightarrow> declared (ss @ [x]) n = []
      | Some s \<Rightarrow> declared (ss @ [x]) n \<noteq> [] \<and> cs_name s = n \<and> bt_wf (cs_environment s) \<and> merged (declared (ss @ [x]) n) s"
  proof (cases "cs_name x = n")
    case False
    then have "bt_get (coalesce_step m x) n = bt_get m n"
      using wf by (auto simp: coalesce_step_def bt_get_insert split: option.split)
    moreover have "declared (ss @ [x]) n = declared ss n" using False snoc' [of n] by simp
    ultimately show ?thesis using ih [of n] by (simp only:)
  next
    case True
    show ?thesis
    proof (cases "bt_get m n")
      case None
      then show ?thesis using ih [of n] wf True merged_one x
        by (simp add: coalesce_step_def bt_get_insert snoc')
    next
      case (Some e)
      then have "bt_get (coalesce_step m x) n = Some (merge_service x e)"
        using wf True by (simp add: coalesce_step_def bt_get_insert)
      moreover have "cs_name (merge_service x e) = n" using ih [of n] Some by (simp add: merge_service_def)
      ultimately show ?thesis using ih [of n] Some True merged_step [of "declared ss n" e x] x by (simp add: snoc')
    qed
  qed
  ultimately show ?case unfolding step by blast
qed

text \<open>
  Services of several files are merged as Compose does: the scan has one service for each
  declared name, in the order of the names; its image is the last one declared, each variable of
  its environment has the last value declared for it, and it depends on everything that some
  declaration of it depends on.
\<close>

lemma services_merged:
  assumes "list_all (\<lambda>s. bt_wf (cs_environment s)) (sc_services scan)"
    and "services = sc_services (coalesce_compose_services scan)"
  shows "sorted_wrt (<) (map cs_name services)
    \<and> set (map cs_name services) = set (map cs_name (sc_services scan))
    \<and> (\<forall>s \<in> set services. merged (declared (sc_services scan) (cs_name s)) s)"
proof -
  let ?m = "foldl coalesce_step [] (sc_services scan)"
  note get = coalesce_get [OF assms(1)]
  have wf: "bt_wf ?m" using get by blast
  have entry: "cs_name s = k \<and> declared (sc_services scan) k \<noteq> [] \<and> merged (declared (sc_services scan) k) s"
    if "(k, s) \<in> set ?m" for k s
  proof -
    have "bt_get ?m k = Some s" using wf that by (simp add: bt_get_def bt_wf_def strict_sorted_iff)
    then show ?thesis using get [of k] by simp
  qed
  have services: "services = map snd ?m" by (simp add: assms(2) coalesce_compose_services_def)
  have names: "map cs_name services = map fst ?m" using entry by (force simp: services)
  have "n \<in> set (map fst ?m) \<longleftrightarrow> declared (sc_services scan) n \<noteq> []" for n
  proof -
    have "n \<in> set (map fst ?m) \<longleftrightarrow> bt_get ?m n \<noteq> None" by (simp add: bt_get_def map_of_eq_None_iff)
    then show ?thesis using get [of n] by (cases "bt_get ?m n") simp_all
  qed
  then have "set (map fst ?m) = set (map cs_name (sc_services scan))"
    unfolding declared_mem by blast
  moreover have "sorted_wrt (<) (map fst ?m)" using wf by (simp add: bt_wf_def)
  moreover have "merged (declared (sc_services scan) (cs_name s)) s" if "s \<in> set services" for s
    using that entry by (auto simp: services)
  ultimately show ?thesis unfolding names by blast
qed

section \<open>Duplicate targets\<close>

definition same_target :: "compose_mount list \<Rightarrow> string \<times> string \<Rightarrow> compose_mount list" where
  "same_target ms key = filter (\<lambda>m. (mt_service m, mt_target m) = key) ms"

lemma targets_get:
  "bt_wf (targets_by_service ms) \<and> bt_get (targets_by_service ms) key
     = (if same_target ms key = [] then None else Some (map mt_origin (same_target ms key)))"
proof (induction ms arbitrary: key rule: rev_induct)
  case Nil
  then show ?case by (simp add: targets_by_service_def same_target_def bt_wf_def bt_get_def)
next
  case (snoc x ms)
  have step: "targets_by_service (ms @ [x]) = bt_insert (mt_service x, mt_target x)
      ((case bt_get (targets_by_service ms) (mt_service x, mt_target x) of None \<Rightarrow> [] | Some os \<Rightarrow> os) @ [mt_origin x])
      (targets_by_service ms)"
    by (simp add: targets_by_service_def)
  have snoc': "same_target (ms @ [x]) key = same_target ms key @ (if (mt_service x, mt_target x) = key then [x] else [])" for key
    by (simp add: same_target_def)
  show ?case unfolding step using snoc by (auto simp: bt_wf_insert bt_get_insert snoc')
qed

definition duplicate_of :: "compose_mount \<Rightarrow> compose_diagnostic" where
  "duplicate_of m = compose_diag ''compose_duplicate_target'' DS_Error
     (''Service `'' @ mt_service m @ ''` declares multiple mounts for `'' @ mt_target m @ ''`.'') (mt_origin m)"

text \<open>
  Two mounts of one service at one target are always reported, each at its own place, and
  nothing else is: the duplicate diagnostics of a scan are those of the mounts whose target another
  mount of the same service has too.
\<close>

lemma duplicate_targets_exact:
  assumes "scan_compose_files y io root files = Inr scan"
  shows "{d \<in> set (sc_diagnostics scan). cd_id d = ''compose_duplicate_target''}
    = duplicate_of ` {m \<in> set (sc_mounts scan).
        1 < length (same_target (sc_mounts scan) (mt_service m, mt_target m))}"
proof (cases "files = []")
  case True
  then show ?thesis using assms by (auto simp: scan_compose_files_def push_diagnostic_scan_def compose_diag_def empty_scan_def)
next
  case False
  let ?ms = "sc_mounts scan"
  obtain ds where ds: "list_all (\<lambda>d. cd_id d \<in> parse_ids) ds"
    and diags: "sc_diagnostics scan = ds @ concat (map (mount_diagnostics io) ?ms)
       @ concat (map duplicate_diagnostics (targets_by_service ?ms))"
    using scanned_parts [OF scan_compose_scanned [OF assms False]] by metis
  have not_mount: "cd_id d \<noteq> ''compose_duplicate_target''" if "d \<in> set (mount_diagnostics io m)" for m d
    using that
    by (auto simp: mount_diagnostics_def target_diagnostics_def kind_diagnostics_def source_diagnostics_def
        bind_diagnostics_def symlink_diagnostics_def compose_diag_def
        split: if_splits option.splits compose_mount_kind.splits bool.splits)
  have entries: "(key, os) \<in> set (targets_by_service ?ms) \<longleftrightarrow> same_target ?ms key \<noteq> [] \<and> os = map mt_origin (same_target ?ms key)"
    for key os
    using targets_get [of ?ms key] by (auto simp: bt_get_def bt_wf_def strict_sorted_iff split: if_splits)
  have "{d \<in> set (sc_diagnostics scan). cd_id d = ''compose_duplicate_target''}
      = (\<Union>e \<in> set (targets_by_service ?ms). set (duplicate_diagnostics e))"
  proof -
    have "cd_id d \<noteq> ''compose_duplicate_target''" if "d \<in> set ds" for d
      using that ds by (auto simp: list_all_iff parse_ids_def)
    moreover have "cd_id d = ''compose_duplicate_target''" if "d \<in> set (duplicate_diagnostics e)" for d e
      using that by (auto simp: duplicate_diagnostics_def compose_diag_def split: prod.splits if_splits)
    ultimately show ?thesis using not_mount unfolding diags set_append set_concat set_map by blast
  qed
  also have "\<dots> = duplicate_of ` {m \<in> set ?ms. 1 < length (same_target ?ms (mt_service m, mt_target m))}"
  proof (intro set_eqI iffI)
    fix d assume "d \<in> (\<Union>e \<in> set (targets_by_service ?ms). set (duplicate_diagnostics e))"
    then obtain service target os where e: "((service, target), os) \<in> set (targets_by_service ?ms)"
      and d: "d \<in> set (duplicate_diagnostics ((service, target), os))" by auto
    have os: "os = map mt_origin (same_target ?ms (service, target))" using e entries by simp
    then obtain m where "m \<in> set (same_target ?ms (service, target))" "d = duplicate_of m"
      "1 < length (same_target ?ms (service, target))"
      using d by (auto simp: duplicate_diagnostics_def duplicate_of_def same_target_def split: if_splits)
    then show "d \<in> duplicate_of ` {m \<in> set ?ms. 1 < length (same_target ?ms (mt_service m, mt_target m))}"
      by (auto simp: same_target_def)
  next
    fix d assume "d \<in> duplicate_of ` {m \<in> set ?ms. 1 < length (same_target ?ms (mt_service m, mt_target m))}"
    then obtain m where m: "m \<in> set ?ms" "d = duplicate_of m"
      "1 < length (same_target ?ms (mt_service m, mt_target m))" by blast
    let ?e = "((mt_service m, mt_target m), map mt_origin (same_target ?ms (mt_service m, mt_target m)))"
    have "?e \<in> set (targets_by_service ?ms)" using entries m(3) by auto
    moreover have "m \<in> set (same_target ?ms (mt_service m, mt_target m))" using m(1) by (simp add: same_target_def)
    then have "d \<in> set (duplicate_diagnostics ?e)"
      using m(2,3) by (auto simp: duplicate_diagnostics_def duplicate_of_def)
    ultimately show "d \<in> (\<Union>e \<in> set (targets_by_service ?ms). set (duplicate_diagnostics e))" by blast
  qed
  finally show ?thesis .
qed

section \<open>The snapshot a binding is made from\<close>

lemma captured_bounds:
  assumes "captured io root file = Some content"
  shows "within_root root file \<and> length content \<le> MAX_COMPOSE_FILE_BYTES \<and> valid_utf8 content
    \<and> (\<exists>handle opened. io_open io file = Some handle \<and> of_canonical handle = Some opened \<and> path_starts_with opened root)"
  using assms
  by (auto simp: captured_def read_compose_file_bounded_under_root_def Let_def split: sum.splits option.splits if_splits)

lemma fingerprint_known: "fingerprint_bytes content files = Some bytes \<Longrightarrow> f \<in> set files \<Longrightarrow> content f \<noteq> None"
  by (induction files arbitrary: bytes) (auto split: option.splits)

lemma fold_parse_extends:
  "extends home a (foldl (\<lambda>scan file. parse_compose_file home y file (content file) scan) a files)"
  by (rule extends_foldl) (rule parse_extends)

text \<open>
  A binding is never made from a mixture of file generations or from outside the project: when
  the snapshot succeeds, every file was captured within the byte limit, as UTF-8, through a handle
  that resolves below the root, has the same bytes when it is read again, all documents that name a
  project name this one, and scan and fingerprint are those of the captured bytes.
\<close>

lemma binding_snapshot_coherent:
  assumes "scan_compose_binding_snapshot sha256 y io later root files = Some (scan, project, fingerprint)"
  shows "(\<forall>f \<in> set files. \<exists>content. captured io root f = Some content \<and> captured later root f = Some content
      \<and> within_root root f \<and> length content \<le> MAX_COMPOSE_FILE_BYTES \<and> valid_utf8 content
      \<and> (\<exists>handle opened. io_open io f = Some handle \<and> of_canonical handle = Some opened \<and> path_starts_with opened root))
    \<and> (\<exists>names. document_names y (captured io root) files = Some names \<and> set names = {project})
    \<and> (\<exists>bytes. fingerprint_bytes (captured io root) files = Some bytes \<and> fingerprint = hex_digest sha256 bytes)
    \<and> scanned (io_home io) later scan"
proof -
  obtain names bytes where n: "document_names y (captured io root) files = Some names"
    and b: "fingerprint_bytes (captured io root) files = Some bytes" and "fingerprint = hex_digest sha256 bytes"
    and same: "\<not> list_ex (\<lambda>f. captured later root f \<noteq> captured io root f) files"
    and p: "single_name names = Some project"
    and scan: "scan = validate_compose_scan later (coalesce_compose_services
      (foldl (\<lambda>scan f. parse_compose_file (io_home io) y f (the (captured io root f)) scan) (empty_scan root files) files))"
    using assms by (auto simp: scan_compose_binding_snapshot_def Let_def split: option.splits if_splits)
  have "set names = {project}"
    using p set_bs_collect [of names] by (auto simp: single_name_def split: list.splits simp del: set_bs_collect)
  moreover have "scanned (io_home io) later scan"
  proof -
    have "extends (io_home io) (empty_scan root files)
        (foldl (\<lambda>scan f. parse_compose_file (io_home io) y f (the (captured io root f)) scan) (empty_scan root files) files)"
      by (rule fold_parse_extends)
    from extends_empty [OF this] show ?thesis unfolding scanned_def scan by blast
  qed
  moreover have "\<exists>content. captured io root f = Some content \<and> captured later root f = Some content
      \<and> within_root root f \<and> length content \<le> MAX_COMPOSE_FILE_BYTES \<and> valid_utf8 content
      \<and> (\<exists>handle opened. io_open io f = Some handle \<and> of_canonical handle = Some opened \<and> path_starts_with opened root)"
    if f: "f \<in> set files" for f
  proof -
    obtain content where "captured io root f = Some content" using fingerprint_known [OF b f] by blast
    moreover have "captured later root f = captured io root f" using same f by (auto simp: list_ex_iff)
    ultimately show ?thesis using captured_bounds by auto
  qed
  ultimately show ?thesis using n b \<open>fingerprint = _\<close> by blast
qed

section \<open>A small project\<close>

datatype small_yaml = SY_String string | SY_Sequence "small_yaml list" | SY_Mapping "(small_yaml \<times> small_yaml) list"

definition small_api :: "small_yaml \<Rightarrow> small_yaml yaml_api" where
  "small_api document = \<lparr>ya_from_str = \<lambda>_. Inr document,
     ya_shape = \<lambda>v. (case v of SY_String s \<Rightarrow> Y_String s | SY_Sequence vs \<Rightarrow> Y_Sequence vs | SY_Mapping m \<Rightarrow> Y_Mapping m),
     ya_as_str = \<lambda>v. (case v of SY_String s \<Rightarrow> Some s | _ \<Rightarrow> None), ya_as_bool = \<lambda>_. None,
     ya_as_sequence = \<lambda>v. (case v of SY_Sequence vs \<Rightarrow> Some vs | _ \<Rightarrow> None),
     ya_as_mapping = \<lambda>v. (case v of SY_Mapping m \<Rightarrow> Some m | _ \<Rightarrow> None),
     ya_get = \<lambda>m key. map_of m (SY_String key)\<rparr>"

definition small_io :: compose_io where
  "small_io = \<lparr>io_home = None, io_is_file = \<lambda>_. True, io_read = \<lambda>_. Inr ''x'', io_utf8_error = \<lambda>_. [],
     io_symlink = \<lambda>_. Some False,
     io_open = \<lambda>f. Some \<lparr>of_regular = Some True, of_canonical = Some f, of_bytes = Some ''x''\<rparr>\<rparr>"

definition small_document :: small_yaml where
  "small_document = SY_Mapping [(SY_String ''name'', SY_String ''demo''), (SY_String ''services'',
     SY_Mapping [(SY_String ''web'', SY_Mapping [(SY_String ''volumes'',
       SY_Sequence [SY_String ''/run/docker.sock:/s'', SY_String ''cache:/s''])])])]"

definition small_mounts :: "string \<Rightarrow> compose_mount list" where
  "small_mounts file = [new_mount None file (base_dir_of file) ''web'' 0 CMK_Bind (Some ''/run/docker.sock'') ''/s'' False,
     new_mount None file (base_dir_of file) ''web'' 1 CMK_NamedVolume (Some ''cache'') ''/s'' False]"

lemma small_parse:
  "parse_compose_file None (small_api small_document) file content (empty_scan root files) = (empty_scan root files)
     \<lparr>sc_services := [\<lparr>cs_name = ''web'', cs_image = None, cs_environment = [], cs_depends_on = []\<rparr>],
      sc_mounts := small_mounts file\<rparr>"
  by (simp add: parse_compose_file_def parse_service_def parse_volumes_def parse_mount_def parse_short_mount_def
      push_parsed_mount_def small_mounts_def small_api_def small_document_def mapping_get_def empty_scan_def Let_def
      parse_environment_def parse_depends_on_def split_short_volume_def is_ascii_alphabetic_def byte_def
      classify_short_source_def looks_like_host_path_def starts_with_def is_windows_absolute_path_def)

lemma small_read: "read_compose_file_bounded small_io file = Inr ''x''"
  "read_compose_file_bounded_under_root small_io root file
     = (if within_root root file then Inr ''x'' else Inl ''Compose binding file is outside the configured root'')"
proof -
  have "valid_utf8 ''x''" by code_simp
  then show "read_compose_file_bounded small_io file = Inr ''x''"
    by (simp add: read_compose_file_bounded_def small_io_def MAX_COMPOSE_FILE_BYTES_def Let_def)
  from \<open>valid_utf8 ''x''\<close> show "read_compose_file_bounded_under_root small_io root file
     = (if within_root root file then Inr ''x'' else Inl ''Compose binding file is outside the configured root'')"
    by (simp add: read_compose_file_bounded_under_root_def small_io_def MAX_COMPOSE_FILE_BYTES_def within_root_def Let_def)
qed

lemma small_scan:
  "\<exists>scan. scan_compose_files (small_api small_document) small_io ''/p'' [''/p/f''] = Inr scan
    \<and> sc_mounts scan = small_mounts ''/p/f''"
proof -
  have "io_home small_io = None" by (simp add: small_io_def)
  then show ?thesis
    by (simp add: scan_compose_files_def small_read small_parse coalesce_compose_services_def validate_compose_scan_def)
qed


definition small_services :: compose_scan where
  "small_services = (empty_scan ''/p'' [])\<lparr>sc_services :=
     [\<lparr>cs_name = ''web'', cs_image = Some ''a'', cs_environment = [(''K'', ''1'')], cs_depends_on = [''db'']\<rparr>,
      \<lparr>cs_name = ''web'', cs_image = None, cs_environment = [(''K'', ''2'')], cs_depends_on = []\<rparr>]\<rparr>"

end
