(* ===== verification/Api_Props.thy ===== *)
theory Api_Props
  imports Daemon_Api Docker_Props Query_Props Cache_Props Compose_Scan_Props
begin

text \<open>
  What the HTTP interface guarantees, over every state and in every cache the daemon can reach: who may
  read, whether sample data may be served, that logs say where they come from, that errors are fit to
  show, and that a Compose request stays below the project root.
\<close>

section \<open>The sample\<close>

lemma gate_closed:
  "\<not> as_allow_mock st \<Longrightarrow> hr_mode (dc_health (as_cache st)) = Mode_Mock \<Longrightarrow> publication_cache st = Inl mock_disabled"
  by (simp add: publication_cache_def)

lemma redact_compose_no_correlations:
  "sc_correlations scan = [] \<Longrightarrow> sc_correlations (redact_compose_scan scan) = []"
  by (simp add: redact_compose_scan_def Let_def)

lemma map_sum_Inr: "map_sum f g x = Inr y \<longleftrightarrow> (\<exists>z. x = Inr z \<and> y = g z)"
  by (cases x) auto

text \<open>The models of a route that come from the inventory.\<close>

fun from_inventory :: "reply \<Rightarrow> bool" where
  "from_inventory (Compose_Scan scan) = (sc_correlations scan \<noteq> [])"
| "from_inventory (Compose_Graph _) = False"
| "from_inventory (Compose_Edit_Plan _) = False"
| "from_inventory _ = True"

text \<open>
  C3. No sample data without permission. While the daemon runs on its sample and the operator has not
  allowed that, no route serves anything derived from it: not the inventory, the map, findings, history
  or logs, and the Compose scan carries no correlation with containers; the state is unchanged.
\<close>

theorem no_mock_without_permission:
  assumes "\<not> as_allow_mock st" and "hr_mode (dc_health (as_cache st)) = Mode_Mock"
  shows "(\<forall>reply. fst (dispatch env st route) = Inr reply \<longrightarrow> \<not> from_inventory reply) \<and> snd (dispatch env st route) = st"
proof -
  note closed = gate_closed [OF assms]
  note cache_routes = reading_def get_health_def get_snapshot_def get_graph_def get_runtime_map_def get_findings_def
    get_observed_history_def get_containers_def get_container_def get_images_def get_networks_def get_volumes_def
  show ?thesis
  proof (cases route)
    case (R_Logs raw)
    then show ?thesis using closed by (auto simp: get_logs_def as_reply_def split: sum.splits prod.splits)
  next
    case (R_Compose_Scan raw)
    then show ?thesis using assms
      by (auto simp: get_compose_scan_def as_reply_def apply_runtime_correlations_def redact_compose_no_correlations
          split: sum.splits)
  qed (use closed in \<open>auto simp: cache_routes as_reply_def map_sum_Inr split: sum.splits\<close>)
qed

definition example_request_io :: request_io where
  "example_request_io = \<lparr>rq_env = (\<lambda>_. Not_Present), rq_canonicalize = (\<lambda>p. Inr (if p = ''.'' then ''/p'' else p)),
     rq_symlink_metadata = (\<lambda>_. Inr False), rq_read_to_string = (\<lambda>_. Inr ''x''), rq_files = small_io\<rparr>"

definition example_server :: "small_yaml server_env" where
  "example_server = \<lparr>se_sha256 = ce_sha256 example_env, se_yaml = small_api small_document, se_form_parse = form_pairs,
     se_io = example_request_io, se_connect = (\<lambda>_. Inl ''refused''), se_json_node = gn_id, se_json_edge = ge_source,
     se_debug = concat, se_now = 9\<rparr>"

theorem no_mock_without_permission_witness:
  "\<exists>st. \<not> as_allow_mock st \<and> snd (dispatch example_server st R_Snapshot) = st
     \<and> \<not> (\<exists>reply. fst (dispatch example_server st R_Snapshot) = Inr reply \<and> from_inventory reply)"
proof -
  obtain c :: daemon_cache where "hr_mode (dc_health c) = Mode_Mock" using example_start by metis
  then have st: "\<not> as_allow_mock \<lparr>as_cache = c, as_docker = None, as_allow_mock = False\<rparr>"
    "hr_mode (dc_health (as_cache \<lparr>as_cache = c, as_docker = None, as_allow_mock = False\<rparr>)) = Mode_Mock" by simp_all
  then show ?thesis using no_mock_without_permission [OF st] by blast
qed

section \<open>Logs\<close>

text \<open>
  C7. Logs say where they come from. In every cache the daemon can reach, logs stamped as Docker's are
  entries that the Docker client streamed for a container of the inventory, or none, and logs stamped
  as sample are sample entries, served with permission; a refresh between the request and the answer
  changes neither.
\<close>

theorem logs_source_truthful:
  assumes "cache_run cenv (as_cache st)" and "cache_env_ok cenv" and "get_logs env st raw = (Inr r, st')"
  shows "(lr_source r = Some Mode_Docker \<and> (lr_entries r = []
        \<or> (\<exists>collector service q cursor limit live. fst (docker_collector env st) = Inr collector
             \<and> service \<in> ct_name ` set (sn_containers (dc_snapshot (as_cache st)))
             \<and> collect_logs (dk_client collector) service q cursor limit = Inr live \<and> lr_entries r = lr_entries live)))
    \<or> (lr_source r = Some Mode_Mock \<and> as_allow_mock st
        \<and> (\<exists>service. set (lr_entries r) \<subseteq> redact_log_entry ` set (mock_log_entries (se_debug env) (se_now env)
             (dc_snapshot (as_cache st)) service)))"
proof -
  let ?c = "as_cache st"
  have reachable: "hr_docker_reachable (dc_health ?c) \<longleftrightarrow> hr_mode (dc_health ?c) = Mode_Docker"
    using cache_run_inv [OF assms(1,2)] by (simp add: cache_inv_def health_inv_def)
  obtain service q cursor limit where arguments: "log_arguments (se_form_parse env) raw = Inr (service, q, cursor, limit)"
    using assms(3) by (auto simp: get_logs_def split: sum.splits)
  have gate: "publication_cache st = Inr ?c"
    using assms(3) arguments by (auto simp: get_logs_def publication_cache_def split: if_splits)
  show ?thesis
  proof (cases "hr_mode (dc_health ?c)")
    case Mode_Docker
    then have up: "hr_docker_reachable (dc_health ?c)" using reachable by simp
    show ?thesis
    proof (cases service)
      case None
      then show ?thesis using assms(3) arguments gate up Mode_Docker by (auto simp: get_logs_def no_logs_def)
    next
      case (Some name)
      then have known: "name \<in> ct_name ` set (sn_containers (dc_snapshot ?c))"
        and live: "stamp_logs Mode_Docker (live_logs env st name q cursor limit) = (Inr r, st')"
        using assms(3) arguments gate up Mode_Docker by (auto simp: get_logs_def Let_def split: if_splits)
      obtain collector r0 where "fst (docker_collector env st) = Inr collector"
        "collect_logs (dk_client collector) name q cursor limit = Inr r0" "r = r0\<lparr>lr_source := Some Mode_Docker\<rparr>"
        using live by (cases "docker_collector env st")
          (auto simp: stamp_logs_def live_logs_def split: sum.splits)
      then have "lr_source r = Some Mode_Docker \<and> (\<exists>collector service q cursor limit live.
            fst (docker_collector env st) = Inr collector
             \<and> service \<in> ct_name ` set (sn_containers (dc_snapshot ?c))
             \<and> collect_logs (dk_client collector) service q cursor limit = Inr live \<and> lr_entries r = lr_entries live)"
        using known by (intro conjI exI [of _ collector] exI [of _ name] exI [of _ q] exI [of _ cursor]
            exI [of _ limit] exI [of _ r0]) simp_all
      then show ?thesis by blast
    qed
  next
    case Mode_Mock
    then have down: "\<not> hr_docker_reachable (dc_health ?c)" using reachable by simp
    have allowed: "as_allow_mock st" using gate Mode_Mock by (auto simp: publication_cache_def split: if_splits)
    let ?sample = "mock_log_entries (se_debug env) (se_now env) (dc_snapshot ?c) service"
    have r: "r = (publish_log_response service ?sample q cursor limit)\<lparr>lr_source := Some Mode_Mock\<rparr>"
      using assms(3) arguments gate down Mode_Mock by (auto simp: get_logs_def Let_def stamp_logs_def split: if_splits)
    have "set (lr_entries r) \<subseteq> redact_log_entry ` set ?sample"
      using page_subset [of "map redact_log_entry ?sample" q cursor limit]
      by (simp add: r publish_log_response_def case_prod_beta)
    then show ?thesis using r allowed by auto
  qed
qed

theorem logs_source_truthful_witness:
  "\<exists>c r. cache_run example_env c
     \<and> get_logs example_server \<lparr>as_cache = c, as_docker = None, as_allow_mock = True\<rparr> None
         = (Inr r, \<lparr>as_cache = c, as_docker = None, as_allow_mock = True\<rparr>)
     \<and> lr_source r = Some Mode_Mock"
proof -
  obtain c where c: "cache_run example_env c" "hr_mode (dc_health c) = Mode_Mock" using example_start by metis
  let ?st = "\<lparr>as_cache = c, as_docker = None, as_allow_mock = True\<rparr>"
  have gate: "publication_cache ?st = Inr c" by (simp add: publication_cache_def)
  have down: "\<not> hr_docker_reachable (dc_health c)"
    using cache_run_inv [OF c(1) example_ok(1)] c(2) by (simp add: cache_inv_def health_inv_def)
  obtain r where r: "get_logs example_server ?st None = (Inr r, ?st)" "lr_source r = Some Mode_Mock"
    using gate down c(2) by (simp add: get_logs_def example_server_def default_arguments stamp_logs_def)
  have run: "cache_run example_env (as_cache ?st)" using c(1) by simp
  show ?thesis using logs_source_truthful [OF run example_ok(1) r(1)] c(1) r by blast
qed

section \<open>Access\<close>

text \<open>
  The token guards every route. With a token configured, a request whose header does not carry it
  gets the same refusal on every path, known or not; it reaches no handler, reads no cache and opens no
  connection to Docker. With the token, the answer is the one of the route.
\<close>

lemma router_requires_token:
  "daemon_router env (Some token) headers st route =
     (if received_token headers = Some token then map_prod (case_sum api_error_response Ok_Json) id (dispatch env st route)
      else (unauthorized_response, st))"
proof -
  have "require_daemon_bearer_token (Some token) headers
      = (if received_token headers = Some token then Run_Next else Unauthorized)"
    by (auto simp: require_daemon_bearer_token_def daemon_token_matches_eq split: option.splits)
  then show ?thesis by (simp add: daemon_router_def)
qed

section \<open>Compose requests\<close>

lemma scanned_files: "scan_compose_files y io root files = Inr scan \<Longrightarrow> sc_files scan = files"
proof (cases "files = []")
  case False
  assume "scan_compose_files y io root files = Inr scan"
  then obtain raw where "scan_files y io files (empty_scan root files) = Inr raw"
    "scan = validate_compose_scan io (coalesce_compose_services raw)"
    using False by (cases "scan_files y io files (empty_scan root files)") (auto simp: scan_compose_files_def)
  then show ?thesis using scan_files_extends
    by (fastforce simp: extends_def empty_scan_def validate_compose_scan_def coalesce_compose_services_def)
qed (auto simp: scan_compose_files_def push_diagnostic_scan_def empty_scan_def)

lemma collected: "collect_results f xs = Inr ys \<Longrightarrow> y \<in> set ys \<Longrightarrow> \<exists>x \<in> set xs. f x = Inr y"
  by (induction xs arbitrary: ys) (auto split: sum.splits)

text \<open>What the resolution of a requested file has checked.\<close>

definition confined :: "request_io \<Rightarrow> string \<Rightarrow> string \<Rightarrow> bool" where
  "confined io root path \<longleftrightarrow> path_starts_with path root \<and> io_is_file (rq_files io) path
     \<and> (\<exists>candidate relative. rq_canonicalize io candidate = Inr path \<and> path_strip_prefix candidate root = Some relative
          \<and> (\<forall>i < length relative. rq_symlink_metadata io
               (foldl (\<lambda>p c. path_join p (as_os_str c)) root (take (Suc i) relative)) = Inr False))"

lemma resolved_confined: "resolve_scannable_file io root requested = Inr path \<Longrightarrow> confined io root path"
  using resolved_file rejected_symlinks_clear unfolding confined_def by meson



text \<open>The answers a Compose route gives when it fails do not depend on what the file system says.\<close>

definition compose_request_errors :: "form_parser \<Rightarrow> string option \<Rightarrow> api_error set" where
  "compose_request_errors form_parse raw = {compose_file_unavailable, compose_inspection_unavailable, compose_scan_unavailable}
     \<union> {e. parse_compose_scan_query form_parse raw = Inl e \<or> parse_compose_edit_plan_query form_parse raw = Inl e}
     \<union> (case parse_compose_edit_plan_query form_parse raw of
          Inl _ \<Rightarrow> {}
        | Inr q \<Rightarrow> {e. validate_required_value (eq_service q) ''service'' MAX_COMPOSE_SERVICE_CHARS = Inl e
                \<or> validate_optional_query (eq_source q) ''source'' MAX_COMPOSE_FILE_CHARS = Inl e
                \<or> validate_optional_query (eq_target q) ''target'' MAX_COMPOSE_FILE_CHARS = Inl e}
            \<union> {mount_not_found (trim (eq_service q)) (eq_mount q)})"

text \<open>
  Failures of the Compose routes tell nothing about the host. Every error of the three routes is one
  of a set that the request alone determines: neither the text of an operating-system error, nor a path,
  nor a parser message of a file reaches the client.
\<close>

lemma compose_errors_opaque:
  "get_compose_scan y form_parse io allow_mock cache raw = Inl e \<or> get_compose_graph sha256 y form_parse io raw = Inl e
     \<or> get_compose_edit_plan y form_parse io raw = Inl e \<Longrightarrow> e \<in> compose_request_errors form_parse raw"
proof (elim disjE)
  have "scan_compose_query y io q = Inl e \<Longrightarrow> e \<in> {compose_file_unavailable, compose_inspection_unavailable, compose_scan_unavailable}"
    for q e by (auto simp: scan_compose_query_def split: sum.splits if_splits)
  then have scan: "scan_compose_query y io q = Inl e \<Longrightarrow> e \<in> compose_request_errors form_parse raw" for q e
    unfolding compose_request_errors_def by blast
  have query: "parse_compose_scan_query form_parse raw = Inl e \<Longrightarrow> e \<in> compose_request_errors form_parse raw" for e
    unfolding compose_request_errors_def by blast
  show "get_compose_scan y form_parse io allow_mock cache raw = Inl e \<Longrightarrow> e \<in> compose_request_errors form_parse raw"
    "get_compose_graph sha256 y form_parse io raw = Inl e \<Longrightarrow> e \<in> compose_request_errors form_parse raw"
    using scan query by (auto simp: get_compose_scan_def get_compose_graph_def split: sum.splits)
  assume plan: "get_compose_edit_plan y form_parse io raw = Inl e"
  show "e \<in> compose_request_errors form_parse raw"
  proof (cases "parse_compose_edit_plan_query form_parse raw")
    case (Inl e')
    then show ?thesis using plan by (auto simp: get_compose_edit_plan_def compose_request_errors_def)
  next
    case (Inr q)
    have "validate_required_value (eq_service q) ''service'' n = Inr service \<Longrightarrow> service = trim (eq_service q)" for n service
      by (auto simp: validate_required_value_def validate_optional_query_def Let_def split: if_splits)
    then show ?thesis using plan Inr
      by (auto simp: get_compose_edit_plan_def compose_request_errors_def split: sum.splits option.splits)
  qed
qed

end
