(* ===== verification/Provider_Text.thy ===== *)
theory Provider_Text
  imports Utf8 Redaction Access
begin

text \<open>
  Text operations that the host providers (\<open>providers/*.rs\<close>) share: the walk over a line that finds
  each of the first tokens in turn and keeps the rest of the line verbatim, and what it returns; the
  complete lines of an output that was cut off; and how lossy decoding and splitting into lines act
  on the two parts of a text around a line feed.
\<close>

section \<open>The operations\<close>

text \<open>
  The loop \<open>offset += trimmed[offset..].find(token)? + token.len()\<close>: the rest of the text after the
  tokens, if each is found.
\<close>

fun skip_tokens :: "'a list \<Rightarrow> 'a list list \<Rightarrow> 'a list option" where
  "skip_tokens s [] = Some s"
| "skip_tokens s (t # ts) =
     (case find_split s t of None \<Rightarrow> None | Some (_, r) \<Rightarrow> skip_tokens r ts)"

definition trim_end_colons :: "string \<Rightarrow> string" where
  "trim_end_colons s = rev (dropWhile (\<lambda>c. c = CHR '':'') (rev s))"

definition path_basename :: "string \<Rightarrow> string" where
  "path_basename s = last (split_char (CHR ''/'') s)"

definition contains_control_character :: "string \<Rightarrow> bool" where
  "contains_control_character s = list_ex is_control (chars s)"

definition complete_provider_lines :: "string \<Rightarrow> bool \<Rightarrow> string" where
  "complete_provider_lines bytes output_truncated =
     (if \<not> output_truncated \<or> (bytes \<noteq> [] \<and> last bytes = LF) then bytes
      else rev (dropWhile (\<lambda>b. b \<noteq> LF) (rev bytes)))"

section \<open>Tokens\<close>

definition rest_after :: "nat list \<Rightarrow> nat list" where
  "rest_after cs = dropWhile (\<lambda>c. \<not> is_whitespace c) (dropWhile is_whitespace cs)"

lemma split_ws_unfold:
  "split_ws cs = (if dropWhile is_whitespace cs = [] then []
     else takeWhile (\<lambda>c. \<not> is_whitespace c) (dropWhile is_whitespace cs) # split_ws (rest_after cs))"
  by (induction cs) (auto simp: rest_after_def)

lemma rest_after_prefix:
  "cs = takeWhile is_whitespace cs @ takeWhile (\<lambda>c. \<not> is_whitespace c) (dropWhile is_whitespace cs) @ rest_after cs"
  by (simp add: rest_after_def)

lemma skip_tokens_split_ws:
  "n \<le> length (split_ws cs) \<Longrightarrow>
     skip_tokens cs (take n (split_ws cs)) = Some ((rest_after ^^ n) cs)"
proof (induction n arbitrary: cs)
  case (Suc n)
  let ?t = "takeWhile (\<lambda>c. \<not> is_whitespace c) (dropWhile is_whitespace cs)"
  have ne: "dropWhile is_whitespace cs \<noteq> []"
    using Suc.prems by (subst (asm) split_ws_unfold) (auto split: if_splits)
  have tokens: "split_ws cs = ?t # split_ws (rest_after cs)" using ne by (subst split_ws_unfold) simp
  have t: "?t \<noteq> []" "\<not> is_whitespace (hd ?t)"
    using ne hd_dropWhile [OF ne] by (cases "dropWhile is_whitespace cs"; simp)+
  have "hd ?t \<notin> set (takeWhile is_whitespace cs)" using t(2) by (auto dest: set_takeWhileD)
  then have "find_split (takeWhile is_whitespace cs @ ?t @ rest_after cs) ?t
      = Some (takeWhile is_whitespace cs, rest_after cs)"
    by (simp add: find_split_skip [OF t(1)] find_split_prefix)
  then have "find_split cs ?t = Some (takeWhile is_whitespace cs, rest_after cs)"
    using rest_after_prefix [of cs] by metis
  then show ?case using Suc.IH [of "rest_after cs"] Suc.prems
    by (simp add: tokens funpow_swap1)
qed simp

lemma split_ws_rest_after: "split_ws ((rest_after ^^ n) cs) = drop n (split_ws cs)"
proof (induction n arbitrary: cs)
  case (Suc n)
  have "split_ws (rest_after cs) = drop 1 (split_ws cs)"
  proof (cases "dropWhile is_whitespace cs = []")
    case True
    have "rest_after cs = []" unfolding rest_after_def True by simp
    moreover have "split_ws cs = []" by (subst split_ws_unfold) (simp only: True if_True simp_thms)
    ultimately show ?thesis by simp
  next
    case False
    then have "split_ws cs = takeWhile (\<lambda>c. \<not> is_whitespace c) (dropWhile is_whitespace cs) # split_ws (rest_after cs)"
      by (subst split_ws_unfold) (simp only: if_False)
    then show ?thesis by simp
  qed
  then show ?case using Suc.IH [of "rest_after cs"] by (simp add: funpow_swap1)
qed simp

lemma rest_after_suffix: "\<exists>p. cs = p @ (rest_after ^^ n) cs"
proof (induction n)
  case (Suc n)
  then obtain p where "cs = p @ (rest_after ^^ n) cs" by blast
  moreover have "\<exists>q. (rest_after ^^ n) cs = q @ (rest_after ^^ Suc n) cs"
    using rest_after_prefix [of "(rest_after ^^ n) cs"] by (metis append.assoc funpow.simps(2) comp_apply)
  ultimately show ?case by (metis append.assoc)
qed simp

section \<open>Tokens in the bytes of a text\<close>

lemma encoding_shape:
  assumes "is_scalar c"
  shows "\<exists>x ks. of_chars [c] = x # ks \<and> \<not> is_continuation (byte x) \<and> (\<forall>k \<in> set ks. is_continuation (byte k))"
proof -
  have tail: "byte (char_of (128 + n mod 64 :: nat)) = 128 + n mod 64" "is_continuation (128 + n mod 64)" for n
    using byte_char_of_small [of "128 + n mod 64"] by (simp_all add: is_continuation_def)
  have c: "c < 1114112" using assms by (auto simp: is_scalar_def)
  consider "c < 128" | "128 \<le> c" "c < 2048" | "2048 \<le> c" "c < 65536" | "65536 \<le> c" by linarith
  then show ?thesis
  proof cases
    case 1
    then show ?thesis by (simp add: of_chars_def is_continuation_def byte_char_of)
  next
    case 2
    then have "byte (char_of (192 + c div 64)) = 192 + c div 64"
      by (intro byte_char_of_small) (simp add: less_mult_imp_div_less)
    then show ?thesis using 2 tail [of c] by (simp add: of_chars_def) (simp add: is_continuation_def)
  next
    case 3
    then have "byte (char_of (224 + c div 4096)) = 224 + c div 4096"
      by (intro byte_char_of_small) (simp add: less_mult_imp_div_less)
    then show ?thesis using 3 tail [of c] tail [of "c div 64"]
      by (simp add: of_chars_def) (simp add: is_continuation_def)
  next
    case 4
    then have "byte (char_of (240 + c div 262144)) = 240 + c div 262144"
      using c by (intro byte_char_of_small) (simp add: less_mult_imp_div_less)
    then show ?thesis using 4 tail [of c] tail [of "c div 64"] tail [of "c div 4096"]
      by (simp add: of_chars_def) (simp add: is_continuation_def)
  qed
qed

lemma of_chars_head_eq:
  assumes "is_scalar c" and "is_scalar p" and "of_chars [c] @ r = of_chars [p] @ z"
  shows "c = p" "r = z"
proof -
  have "length (of_chars [c]) = length (of_chars [p])"
    using step_of_encoding [OF assms(1), of r] step_of_encoding [OF assms(2), of z]
    unfolding assms(3) by (metis prod.inject)
  then have eq: "of_chars [c] = of_chars [p]" "r = z"
    using assms(3) append_eq_append_conv by blast+
  then have "chars (of_chars [c]) = chars (of_chars [p])" by metis
  then show "c = p" using chars_of_chars_scalar [of "[c]"] chars_of_chars_scalar [of "[p]"] assms(1,2)
    by (metis list.inject list.pred_inject)
  show "r = z" by (rule eq(2))
qed

lemma of_chars_prefix_iff:
  "list_all is_scalar ps \<Longrightarrow> list_all is_scalar cs \<Longrightarrow> prefix (of_chars ps) (of_chars cs) \<longleftrightarrow> prefix ps cs"
proof (induction ps arbitrary: cs)
  case (Cons p ps)
  have cons: "of_chars (x # xs) = of_chars [x] @ of_chars xs" for x xs
    using of_chars_append [of "[x]" xs] by simp
  show ?case
  proof (cases cs)
    case Nil
    then show ?thesis using of_chars_singleton_nonempty [of p] cons [of p ps] by simp
  next
    case (Cons c ds)
    have scalar: "is_scalar p" "is_scalar c" "list_all is_scalar ps" "list_all is_scalar ds"
      using Cons.prems Cons by auto
    have "p = c \<and> prefix ps ds" if pre: "prefix (of_chars (p # ps)) (of_chars (c # ds))"
    proof -
      obtain z where "of_chars [c] @ of_chars ds = of_chars [p] @ (of_chars ps @ z)"
        using pre unfolding prefix_def cons [of p ps] cons [of c ds] by (metis append.assoc)
      then have "c = p" "of_chars ds = of_chars ps @ z"
        using of_chars_head_eq [OF scalar(2,1)] by blast+
      then show ?thesis using Cons.IH [OF scalar(3,4)] by (auto simp: prefix_def)
    qed
    moreover have "prefix (of_chars (p # ps)) (of_chars (c # ds))" if "p = c" "prefix ps ds"
      using that Cons.IH [OF scalar(3,4)] unfolding cons [of p ps] cons [of c ds] by simp
    ultimately show ?thesis using Cons by auto
  qed
qed simp

lemma find_split_encoded:
  assumes "list_all is_scalar ps" and "ps \<noteq> []"
  shows "list_all is_scalar cs \<Longrightarrow>
    find_split (of_chars cs) (of_chars ps) = map_option (\<lambda>(a, b). (of_chars a, of_chars b)) (find_split cs ps)"
proof (induction cs)
  case Nil
  obtain p qs where "ps = p # qs" using assms(2) by (cases ps) auto
  then have "of_chars ps \<noteq> []" using of_chars_append [of "[p]" qs] of_chars_singleton_nonempty [of p] by simp
  then show ?case using assms(2) by simp
next
  case (Cons c cs)
  have cons: "of_chars (c # xs) = of_chars [c] @ of_chars xs" for xs using of_chars_append [of "[c]" xs] by simp
  obtain p qs where ps: "ps = p # qs" using assms(2) by (cases ps) auto
  obtain x ks where x: "of_chars [c] = x # ks" "\<forall>k \<in> set ks. is_continuation (byte k)"
    using encoding_shape [of c] Cons.prems by auto
  obtain y ls where y: "of_chars [p] = y # ls" "\<not> is_continuation (byte y)"
    using encoding_shape [of p] assms(1) ps by auto
  have hd: "of_chars ps \<noteq> []" "hd (of_chars ps) = y"
    using of_chars_append [of "[p]" qs] y(1) ps by simp_all
  show ?case
  proof (cases "prefix ps (c # cs)")
    case True
    then obtain r where r: "c # cs = ps @ r" by (auto simp: prefix_def)
    then have "find_split (c # cs) ps = Some ([], r)" by (metis find_split_prefix)
    moreover have "find_split (of_chars (c # cs)) (of_chars ps) = Some ([], of_chars r)"
      by (simp add: r of_chars_append find_split_prefix)
    ultimately show ?thesis by simp
  next
    case False
    then have not: "\<not> prefix (of_chars ps) (x # (ks @ of_chars cs))"
      using of_chars_prefix_iff [OF assms(1) Cons.prems] cons [of cs] x(1) by simp
    have "y \<notin> set ks" using x(2) y(2) by auto
    then have "find_split (ks @ of_chars cs) (of_chars ps)
        = map_option (\<lambda>(a, b). (ks @ a, b)) (find_split (of_chars cs) (of_chars ps))"
      using hd by (intro find_split_skip) auto
    then have "find_split (of_chars (c # cs)) (of_chars ps)
        = map_option (\<lambda>(a, b). (x # ks @ a, b)) (find_split (of_chars cs) (of_chars ps))"
      using not cons [of cs] x(1) by (cases "find_split (of_chars cs) (of_chars ps)") auto
    moreover have "find_split (of_chars cs) (of_chars ps)
        = map_option (\<lambda>(a, b). (of_chars a, of_chars b)) (find_split cs ps)"
      using Cons.IH Cons.prems by simp
    moreover have "find_split (c # cs) ps = map_option (\<lambda>(a, b). (c # a, b)) (find_split cs ps)"
      using False by simp
    moreover have "of_chars (c # xs) = x # ks @ of_chars xs" for xs using cons [of xs] x(1) by simp
    ultimately show ?thesis by (simp only: option.map_comp comp_def case_prod_beta fst_conv snd_conv)
  qed
qed

lemma skip_tokens_of_chars:
  "\<forall>t \<in> set ts. list_all is_scalar t \<and> t \<noteq> [] \<Longrightarrow> list_all is_scalar cs \<Longrightarrow>
     skip_tokens (of_chars cs) (map of_chars ts) = map_option of_chars (skip_tokens cs ts)"
proof (induction ts arbitrary: cs)
  case (Cons t ts)
  show ?case
  proof (cases "find_split cs t")
    case None
    then show ?thesis using Cons.prems find_split_encoded [of t cs] by simp
  next
    case (Some ab)
    obtain a b where ab: "ab = (a, b)" by (cases ab)
    have "cs = a @ t @ b" using find_split_Some Some ab by blast
    then have "list_all is_scalar b" using Cons.prems(2) by simp
    then show ?thesis using Cons Some ab find_split_encoded [of t cs] by simp
  qed
qed simp

text \<open>
  What the walk keeps: after the first \<open>n\<close> tokens of a text it stands at the end of the \<open>n\<close>th, and
  the tokens of the rest are the remaining ones.
\<close>

lemma skip_tokens_exact:
  assumes "valid_utf8 s" and "n \<le> length (split_whitespace s)"
  shows "\<exists>r. skip_tokens s (take n (split_whitespace s)) = Some r \<and> valid_utf8 r \<and> suffix r s
    \<and> split_whitespace r = drop n (split_whitespace s)"
proof -
  let ?cs = "chars s" let ?r = "(rest_after ^^ n) (chars s)"
  have s: "list_all is_scalar ?cs" "of_chars ?cs = s" using assms(1) by (auto simp: valid_utf8_def)
  obtain p where p: "?cs = p @ ?r" using rest_after_suffix by blast
  then have r: "list_all is_scalar ?r" using s(1) by (metis list_all_append)
  have n: "n \<le> length (split_ws ?cs)" using assms(2) by (simp add: split_whitespace_def)
  have "\<forall>t \<in> set (take n (split_ws ?cs)). list_all is_scalar t \<and> t \<noteq> []"
    using split_ws_scalar [OF s(1)] split_ws_tokens set_take_subset by (metis subsetD)
  then have "skip_tokens s (take n (split_whitespace s)) = Some (of_chars ?r)"
    using skip_tokens_of_chars [OF _ s(1)] skip_tokens_split_ws [OF n] s(2)
    by (simp add: split_whitespace_def take_map)
  moreover have "suffix (of_chars ?r) s"
    using p s(2) of_chars_append by (metis suffix_def)
  moreover have "split_whitespace (of_chars ?r) = drop n (split_whitespace s)"
    using chars_of_chars_scalar [OF r] split_ws_rest_after [of n ?cs] by (simp add: split_whitespace_def drop_map)
  ultimately show ?thesis using valid_of_chars [OF r] by blast
qed

lemma split_whitespace_ascii:
  assumes "\<forall>c \<in> set s. byte c < 128"
  shows "split_whitespace s = map (map char_of) (split_ws (map byte s))" "valid_utf8 s"
proof -
  have s: "chars s = map byte s" using assms by (rule chars_ascii)
  have scalar: "list_all is_scalar (map byte s)" using assms by (auto simp: list_all_iff is_scalar_def)
  have "of_chars t = map char_of t" if "t \<in> set (split_ws (map byte s))" for t
  proof -
    have "set t \<subseteq> set (map byte s)" using split_ws_subset that by blast
    then have "\<forall>c \<in> set t. c < 128" using assms by auto
    then show ?thesis by (induction t) (auto simp: of_chars_def)
  qed
  then show "split_whitespace s = map (map char_of) (split_ws (map byte s))"
    by (simp add: split_whitespace_def s)
  show "valid_utf8 s" using valid_of_chars [OF scalar] of_chars_ascii [OF assms] by simp
qed

section \<open>Around a line feed\<close>

lemma LF_byte [simp]: "byte LF = 10"
  by (simp add: LF_def byte_def)

text \<open>A broken character before a line feed ends there: decoding restarts after every line feed.\<close>

lemma step_stops:
  assumes "a \<noteq> []"
  shows "utf8_step (a @ LF # b) = utf8_step a" "fst (utf8_step a) \<le> length a"
proof -
  have num: "(1::nat) = Suc 0" "(2::nat) = Suc (Suc 0)" "(3::nat) = Suc (Suc (Suc 0))" by simp_all
  have zero [simp]: "byte_or_zero [] i = 0" for i by (simp add: byte_or_zero_def)
  have stop [simp]: "\<not> is_continuation 0" "\<not> is_continuation 10" "\<not> second_of_three k 0" "\<not> second_of_three k 10"
    "\<not> second_of_four k 0" "\<not> second_of_four k 10" for k
    by (auto simp: is_continuation_def second_of_three_def second_of_four_def)
  consider x where "a = [x]" | x y where "a = [x, y]" | x y z where "a = [x, y, z]"
    | x y z w r where "a = x # y # z # w # r"
    using assms by (metis list.exhaust)
  then have "utf8_step (a @ LF # b) = utf8_step a \<and> fst (utf8_step a) \<le> length a"
    by cases (simp_all add: utf8_step_def Let_def num)
  then show "utf8_step (a @ LF # b) = utf8_step a" "fst (utf8_step a) \<le> length a" by auto
qed

lemma lossy_line_feed: "from_utf8_lossy (a @ LF # b) = from_utf8_lossy a @ LF # from_utf8_lossy b"
proof (induction a rule: from_utf8_lossy.induct)
  case (1 a)
  show ?case
  proof (cases "a = []")
    case True
    have "utf8_step (LF # b) = (1, True)" by (simp add: utf8_step_def Let_def)
    then show ?thesis using True by (subst from_utf8_lossy.simps) simp
  next
    case False
    let ?n = "fst (utf8_step a)"
    have n: "utf8_step (a @ LF # b) = utf8_step a" "?n \<le> length a" using step_stops [OF False] by blast+
    have "from_utf8_lossy (a @ LF # b) = (if snd (utf8_step a) then take ?n a else REPLACEMENT)
        @ from_utf8_lossy (drop ?n a @ LF # b)"
      using n False by (subst from_utf8_lossy.simps) simp
    also have "\<dots> = (if snd (utf8_step a) then take ?n a else REPLACEMENT)
        @ from_utf8_lossy (drop ?n a) @ LF # from_utf8_lossy b"
      using 1 [OF False] by simp
    also have "\<dots> = from_utf8_lossy a @ LF # from_utf8_lossy b"
      using False by (subst (3) from_utf8_lossy.simps) simp
    finally show ?thesis .
  qed
qed

lemma split_char_append: "split_char d (a @ d # b) = split_char d a @ split_char d b"
  by (induction a) auto

lemma str_lines_append: "str_lines (a @ LF # b) = str_lines (a @ [LF]) @ str_lines b"
proof -
  have "split_char LF (a @ [LF]) = split_char LF a @ [[]]" using split_char_append [of LF a "[]"] by simp
  moreover have "butlast (split_char LF (a @ LF # b)) = split_char LF a @ butlast (split_char LF b)"
    "last (split_char LF (a @ LF # b)) = last (split_char LF b)"
    by (simp_all add: split_char_append butlast_append)
  ultimately show ?thesis by (simp add: str_lines_def Let_def)
qed

text \<open>The lines of the complete part of an output are the first lines of the output.\<close>

lemma complete_lines_prefix:
  assumes "prefix kept full"
  shows "prefix (str_lines (from_utf8_lossy (complete_provider_lines kept True))) (str_lines (from_utf8_lossy full))"
proof -
  let ?c = "complete_provider_lines kept True"
  have "?c = [] \<or> (\<exists>a. ?c = a @ [LF])"
  proof (cases "kept \<noteq> [] \<and> last kept = LF")
    case True
    then show ?thesis by (cases kept rule: rev_cases) (auto simp: complete_provider_lines_def)
  next
    case False
    let ?d = "dropWhile (\<lambda>b. b \<noteq> LF) (rev kept)"
    have "?d = [] \<or> hd ?d = LF" using hd_dropWhile [of "\<lambda>b. b \<noteq> LF" "rev kept"] by blast
    then show ?thesis using False by (cases ?d) (auto simp: complete_provider_lines_def)
  qed
  moreover have "prefix ?c full"
  proof -
    have "prefix (rev (dropWhile (\<lambda>b. b \<noteq> LF) (rev kept))) kept"
      using suffix_dropWhile [of "\<lambda>b. b \<noteq> LF" "rev kept"] by (simp add: suffix_to_prefix)
    then show ?thesis using assms prefix_order.trans by (auto simp: complete_provider_lines_def)
  qed
  ultimately show ?thesis
  proof (elim disjE exE)
    fix a assume a: "?c = a @ [LF]"
    then obtain b where b: "full = a @ LF # b" using \<open>prefix ?c full\<close> by (auto simp: prefix_def)
    show ?thesis unfolding a b using lossy_line_feed [of a "[]"] lossy_line_feed [of a b]
        str_lines_append [of "from_utf8_lossy a" "from_utf8_lossy b"] by simp
  qed (simp add: str_lines_def)
qed

section \<open>ASCII texts\<close>

lemma trim_id:
  assumes "\<forall>c \<in> set s. byte c < 128" and "s \<noteq> []"
    and "\<not> is_whitespace (byte (hd s))" and "\<not> is_whitespace (byte (last s))"
  shows "trim s = s"
proof -
  have "dropWhile is_whitespace (map byte s) = map byte s" using assms(2,3) by (cases s) auto
  moreover have "dropWhile is_whitespace (rev (map byte s)) = rev (map byte s)"
    using assms(2,4) by (cases s rule: rev_cases) auto
  ultimately show ?thesis using chars_ascii [OF assms(1)] of_chars_ascii [OF assms(1)] by (simp add: trim_def)
qed

lemma trim_Cons: "byte c < 128 \<Longrightarrow> is_whitespace (byte c) \<Longrightarrow> trim (c # s) = trim s"
  by (simp add: trim_def chars_def)

lemma str_lines_single: "LF \<notin> set s \<Longrightarrow> s \<noteq> [] \<Longrightarrow> str_lines s = [s]"
proof -
  assume "LF \<notin> set s" "s \<noteq> []"
  moreover have "LF \<notin> set t \<Longrightarrow> split_char LF t = [t]" for t by (induction t) auto
  ultimately show ?thesis by (simp add: str_lines_def)
qed

lemma lossy_ascii: "\<forall>c \<in> set s. byte c < 128 \<Longrightarrow> from_utf8_lossy s = s"
  by (intro lossy_valid_id split_whitespace_ascii(2))

end
