(* ===== verification/Process_Table.thy ===== *)
theory Process_Table
  imports Provider_Text Collection
begin

text \<open>
  The host process providers (\<open>providers/processes.rs\<close>) and what every provider sees of a command
  (\<open>process_runner.rs\<close>): the rows of \<open>ps\<close>, the executable behind the wrappers of a command line,
  which rows the Python view and the native view own, and the nodes they publish. The results of
  the fixed \<open>ps\<close> command, of \<open>/proc/<pid>/cgroup\<close> and of \<open>/proc/<pid>/comm\<close> are arguments.
\<close>

section \<open>Command results\<close>

record provider_command_output =
  co_code :: "int option"
  co_stdout :: string
  co_stdout_truncated :: bool
  co_stderr :: string
  co_stderr_truncated :: bool

type_synonym command_result = "provider_command_error + provider_command_output"

definition MAX_PROVIDER_OUTPUT_BYTES :: nat where
  "MAX_PROVIDER_OUTPUT_BYTES = 2 ^ 20"

definition command_success :: "provider_command_output \<Rightarrow> bool" where
  "command_success result \<longleftrightarrow> co_code result = Some 0"

definition is_spawn :: "provider_command_error \<Rightarrow> bool" where
  "is_spawn e \<longleftrightarrow> e = PCE_Spawn"

primrec command_error_text :: "provider_command_error \<Rightarrow> string" where
  "command_error_text PCE_Spawn = ''provider command unavailable''"
| "command_error_text PCE_Wait = ''provider command wait failed''"
| "command_error_text PCE_Reader = ''provider command output reader failed''"
| "command_error_text (PCE_TimedOut timeout) =
     ''provider command timed out after '' @ show_nat (timeout div 10 ^ 9) @ ''s''"

section \<open>The rows of the process table\<close>

definition MAX_PYTHON_PROCESSES :: nat where "MAX_PYTHON_PROCESSES = 64"
definition MAX_NATIVE_PROCESSES :: nat where "MAX_NATIVE_PROCESSES = 256"

record process_record =
  pr_pid :: nat
  pr_user :: string
  pr_comm :: string
  pr_args :: string

definition parse_ps_line :: "string \<Rightarrow> process_record option" where
  "parse_ps_line line =
     (let trimmed = trim line; fields = split_whitespace trimmed
      in if trimmed = [] \<or> length fields < 4 then None
         else case parse_uint 32 (fields ! 0) of
           None \<Rightarrow> None
         | Some pid \<Rightarrow>
             (case skip_tokens trimmed (take 3 fields) of
                None \<Rightarrow> None
              | Some rest \<Rightarrow>
                  if rest = [] \<or> trim rest = [] then None
                  else Some \<lparr>pr_pid = pid, pr_user = fields ! 1, pr_comm = fields ! 2, pr_args = trim rest\<rparr>))"

definition parse_ps_table :: "string \<Rightarrow> process_record list" where
  "parse_ps_table value = List.map_filter parse_ps_line (str_lines value)"

section \<open>The executable of a command line\<close>

definition is_duration_like :: "string \<Rightarrow> bool" where
  "is_duration_like token =
     (let digits = length (takeWhile is_ascii_digit token)
      in 0 < digits \<and> (digits = length token
           \<or> (digits + 1 = length token \<and> token ! digits \<in> set ''smhd'')))"

definition wrapper_option_arguments :: "string \<Rightarrow> string list" where
  "wrapper_option_arguments wrapper =
     (if wrapper = ''sudo'' then [''-u'', ''--user'']
      else if wrapper = ''timeout'' then [''-s'', ''--signal'', ''-k'', ''--kill-after'']
      else if wrapper = ''env'' then [''-u'', ''--unset'', ''-C'', ''--chdir'']
      else [])"

definition wrapper_names :: "string list" where
  "wrapper_names = [''env'', ''sudo'', ''nice'', ''nohup'', ''timeout'', ''dumb-init'', ''tini'']"

fun executable_scan :: "bool \<Rightarrow> string option \<Rightarrow> string list \<Rightarrow> string option" where
  "executable_scan skip wrapper [] = None"
| "executable_scan skip wrapper (token # tokens) =
     (if skip then executable_scan False wrapper tokens
      else if starts_with token ''['' then Some token
      else let basename = path_basename token
      in if basename \<in> set wrapper_names then executable_scan False (Some basename) tokens
         else if starts_with token ''-'' then
           executable_scan (case wrapper of Some active \<Rightarrow> token \<in> set (wrapper_option_arguments active) | None \<Rightarrow> False)
             wrapper tokens
         else if CHR ''='' \<in> set token \<or> is_duration_like token then executable_scan False wrapper tokens
         else Some basename)"

definition effective_executable :: "string \<Rightarrow> string option" where
  "effective_executable args = executable_scan False None (split_whitespace args)"

definition python_frameworks :: "string list" where
  "python_frameworks = [''uvicorn'', ''gunicorn'', ''celery'', ''flower'', ''daphne'']"

definition is_python_owned :: "string \<Rightarrow> bool" where
  "is_python_owned name =
     (let executable = trim_end_colons name
      in executable \<in> set python_frameworks \<or> str_contains executable ''python''
         \<or> executable = ''pypy'' \<or> executable = ''pypy2'' \<or> executable = ''pypy3''
         \<or> starts_with executable ''pypy3.'')"

definition is_python_process :: "string \<Rightarrow> bool" where
  "is_python_process args =
     (case effective_executable args of Some e \<Rightarrow> is_python_owned e | None \<Rightarrow> False)"

definition is_native_process :: "string \<Rightarrow> bool" where
  "is_native_process args =
     (case effective_executable args of
        None \<Rightarrow> False
      | Some comm \<Rightarrow> \<not> starts_with comm ''['' \<and> \<not> is_python_owned comm
          \<and> comm \<noteq> ''dockermap-daemon'' \<and> comm \<noteq> ''ps'' \<and> \<not> starts_with comm ''containerd-shim'')"

definition unless_control :: "string \<Rightarrow> string \<Rightarrow> string option" where
  "unless_control field result = (if contains_control_character field then None else Some result)"

fun python_entry_scan :: "string list \<Rightarrow> string option" where
  "python_entry_scan [] = None"
| "python_entry_scan (field # rest) =
     (let trimmed = trim_end_colons (path_basename field)
      in if field = ''-m'' then
           (case rest of [] \<Rightarrow> None | m # _ \<Rightarrow> unless_control m (''module:'' @ m))
         else if field = ''-c'' then Some ''inline:-c''
         else if ends_with field ''.py'' then unless_control field field
         else if trimmed \<in> set python_frameworks then Some trimmed
         else if CHR '':'' \<in> set field \<and> \<not> starts_with field ''--'' then unless_control field trimmed
         else python_entry_scan rest)"

definition python_entry :: "string \<Rightarrow> string option" where
  "python_entry args =
     (case split_whitespace args of
        [] \<Rightarrow> None
      | field # rest \<Rightarrow> python_entry_scan (if str_contains field ''python'' then rest else field # rest))"

definition process_comm :: "string \<Rightarrow> string option" where
  "process_comm args = map_option
     (\<lambda>executable. if starts_with executable ''['' then executable else trim_end_colons executable)
     (effective_executable args)"

definition safe_kernel_comm :: "string \<Rightarrow> string option" where
  "safe_kernel_comm comm =
     (let c = trim comm
      in if c \<noteq> [] \<and> \<not> contains_control_character c then Some (of_chars (take 16 (chars c))) else None)"

definition real_comm :: "(nat \<Rightarrow> string option) \<Rightarrow> nat \<Rightarrow> string \<Rightarrow> string" where
  "real_comm proc_comm pid fallback =
     (case Option.bind (proc_comm pid) safe_kernel_comm of
        Some comm \<Rightarrow> comm
      | None \<Rightarrow> (case safe_kernel_comm fallback of Some comm \<Rightarrow> comm | None \<Rightarrow> ''unknown''))"

section \<open>The two views\<close>

record proc_reads =
  proc_cgroup :: "nat \<Rightarrow> string option"
  proc_comm :: "nat \<Rightarrow> string option"
  proc_self :: nat

definition is_container_owned :: "proc_reads \<Rightarrow> nat \<Rightarrow> bool" where
  "is_container_owned proc pid = cgroup_result_is_container_owned (proc_cgroup proc pid)"

definition python_node :: "process_record \<Rightarrow> runtime_map_node" where
  "python_node r =
     (let entry = (case python_entry (pr_args r) of Some e \<Rightarrow> redact_sensitive_text e | None \<Rightarrow> ''python'')
      in \<lparr>rn_id = ''python_process_'' @ show_nat (pr_pid r), rn_provider = RPK_Python,
          rn_kind = RNK_PythonApplication, rn_label = entry, rn_status = Some ''running'',
          rn_layer = Some RNL_Process,
          rn_metadata = bt_collect [(''pid'', show_nat (pr_pid r)), (''user'', pr_user r), (''entry'', entry),
            (''serviceEntityKind'', service_entity_kind_name SEK_PythonApplication)],
          rn_service = None, rn_package = None\<rparr>)"

definition native_node :: "proc_reads \<Rightarrow> process_record \<Rightarrow> runtime_map_node" where
  "native_node proc r =
     (let ps_comm = (case Option.bind (process_comm (pr_comm r)) safe_kernel_comm of
            Some c \<Rightarrow> c | None \<Rightarrow> ''unknown'');
          comm = real_comm (proc_comm proc) (pr_pid r) ps_comm
      in \<lparr>rn_id = ''native_process_'' @ show_nat (pr_pid r), rn_provider = RPK_Process,
          rn_kind = RNK_Process, rn_label = comm, rn_status = Some ''running'',
          rn_layer = Some RNL_Process,
          rn_metadata = bt_collect [(''pid'', show_nat (pr_pid r)), (''user'', pr_user r), (''comm'', comm)],
          rn_service = None, rn_package = None\<rparr>)"

definition python_nodes_from_ps_output :: "proc_reads \<Rightarrow> string \<Rightarrow> runtime_map_node list \<times> bool" where
  "python_nodes_from_ps_output proc value =
     (let filtered = filter (\<lambda>r. is_python_process (pr_args r) \<and> \<not> is_container_owned proc (pr_pid r))
            (parse_ps_table value)
      in (map python_node (take MAX_PYTHON_PROCESSES filtered), MAX_PYTHON_PROCESSES < length filtered))"

definition native_process_nodes_from_ps_output :: "proc_reads \<Rightarrow> string \<Rightarrow> runtime_map_node list \<times> bool" where
  "native_process_nodes_from_ps_output proc value =
     (let filtered = filter (\<lambda>r. is_native_process (pr_args r) \<and> \<not> is_container_owned proc (pr_pid r)
              \<and> pr_pid r \<noteq> proc_self proc) (parse_ps_table value)
      in (map (native_node proc) (take MAX_NATIVE_PROCESSES filtered), MAX_NATIVE_PROCESSES < length filtered))"

type_synonym process_view = "runtime_map_node list \<times> runtime_map_diagnostic list"

definition output_truncation :: "runtime_provider_kind \<Rightarrow> bool \<Rightarrow> runtime_map_diagnostic list" where
  "output_truncation provider truncated =
     (if truncated then push_provider_diagnostic [] provider DS_Info
        (''Provider output exceeded '' @ show_nat MAX_PROVIDER_OUTPUT_BYTES @ '' bytes; truncated'') else [])"

definition collect_python_processes_from_output :: "proc_reads \<Rightarrow> string \<Rightarrow> bool \<Rightarrow> process_view" where
  "collect_python_processes_from_output proc bytes truncated =
     (case python_nodes_from_ps_output proc (from_utf8_lossy (complete_provider_lines bytes truncated)) of
        (found, capped) \<Rightarrow>
          let ds = output_truncation RPK_Python truncated
          in (found, if capped then push_provider_diagnostic ds RPK_Python DS_Info
                (''Python process discovery capped at '' @ show_nat MAX_PYTHON_PROCESSES @ '' processes'') else ds))"

definition collect_native_processes_from_output :: "proc_reads \<Rightarrow> string \<Rightarrow> bool \<Rightarrow> process_view" where
  "collect_native_processes_from_output proc bytes truncated =
     (case native_process_nodes_from_ps_output proc (from_utf8_lossy (complete_provider_lines bytes truncated)) of
        (found, capped) \<Rightarrow>
          let ds = output_truncation RPK_Process truncated
          in (found, if capped then push_provider_diagnostic ds RPK_Process DS_Info
                (''Native process discovery capped at '' @ show_nat MAX_NATIVE_PROCESSES @ '' processes'') else ds))"

definition collect_with_command :: "command_result \<Rightarrow> bool \<Rightarrow> runtime_provider_kind \<Rightarrow> string
    \<Rightarrow> (string \<Rightarrow> bool \<Rightarrow> process_view) \<Rightarrow> process_view" where
  "collect_with_command command restricted provider name collect =
     (if restricted then ([], push_provider_diagnostic [] provider DS_Info
        (name @ '' process discovery omitted because the daemon runs in a restricted PID namespace; only the container's own processes would be visible''))
      else case command of
        Inl e \<Rightarrow> ([], push_provider_diagnostic [] provider DS_Warning
          (if is_spawn e then name @ '' process discovery command unavailable''
           else name @ '' process discovery skipped: '' @ command_error_text e))
      | Inr result \<Rightarrow>
          if \<not> command_success result then ([], push_provider_diagnostic [] provider DS_Warning
            (name @ '' process discovery command failed''))
          else collect (co_stdout result) (co_stdout_truncated result))"

definition collect_python_processes :: "proc_reads \<Rightarrow> command_result \<Rightarrow> bool \<Rightarrow> process_view" where
  "collect_python_processes proc command restricted =
     collect_with_command command restricted RPK_Python ''Python'' (collect_python_processes_from_output proc)"

definition collect_native_processes_with_scope :: "proc_reads \<Rightarrow> command_result \<Rightarrow> bool \<Rightarrow> process_view" where
  "collect_native_processes_with_scope proc command restricted =
     collect_with_command command restricted RPK_Process ''Native'' (collect_native_processes_from_output proc)"

end
