(* ===== verification/Cron_Tmux.thy ===== *)
theory Cron_Tmux
  imports Process_Table Slot_Evidence
begin

text \<open>
  Scheduled jobs (\<open>providers/cron.rs\<close>) and tmux sessions (\<open>providers/tmux.rs\<close>). What the host
  answers is an argument: for cron the fixed files, the entries of \<open>/etc/cron.d\<close> and the result of
  \<open>crontab -l\<close>, for tmux the result of \<open>tmux list-sessions\<close>.
\<close>

section \<open>One line of a crontab\<close>

definition cron_command :: "string \<Rightarrow> bool \<Rightarrow> string option" where
  "cron_command line user_crontab =
     (let trimmed = trim line; fields = split_whitespace trimmed
      in if trimmed = [] \<or> starts_with trimmed ''#'' then None
         else if starts_with trimmed ''@'' then
           (let command_start = (if user_crontab then 1 else 2)
            in if length fields \<le> command_start then None
               else case skip_tokens trimmed (take command_start fields) of
                 None \<Rightarrow> None
               | Some rest \<Rightarrow> let command = trim rest in if command = [] then None else Some command)
         else (let command_start = (if user_crontab then 5 else 6)
            in if length fields \<le> command_start then None
               else Some (str_join '' '' (drop command_start fields))))"

section \<open>Files\<close>

definition MAX_CRON_D_ENTRIES :: nat where "MAX_CRON_D_ENTRIES = 64"
definition MAX_CRON_FILE_BYTES :: nat where "MAX_CRON_FILE_BYTES = 64 * 1024"

text \<open>
  An opened file: whether its metadata can be read, is of a regular file and its size, and the bytes
  a read to the end returns, or its failure. Directory entries are the names, or a failure.
\<close>

record cron_file =
  cf_metadata :: "(bool \<times> nat) option"
  cf_bytes :: "string option"

record cron_reads =
  cr_regular :: "string \<Rightarrow> bool"
  cr_open :: "string \<Rightarrow> cron_file option"
  cr_cron_d :: "string option list option"
  cr_crontab :: command_result

type_synonym cron_job = "string \<times> nat \<times> string"
type_synonym cron_state = "cron_job list \<times> runtime_map_diagnostic list"

definition cron_info :: "string \<Rightarrow> cron_state \<Rightarrow> cron_state" where
  "cron_info message st =
     (fst st, push_provider_diagnostic (snd st) RPK_ScheduledJob DS_Info message)"

definition cron_file_too_large :: "cron_state \<Rightarrow> cron_state" where
  "cron_file_too_large = cron_info (''cron file skipped because it exceeds '' @ show_nat MAX_CRON_FILE_BYTES @ '' bytes'')"

definition jobs_of_lines :: "string \<Rightarrow> bool \<Rightarrow> string list \<Rightarrow> cron_job list" where
  "jobs_of_lines source user_crontab lines = List.map_filter
     (\<lambda>(index, line). map_option (\<lambda>command. (source, index + 1, command)) (cron_command line user_crontab))
     (enumerate 0 lines)"

definition checked_open_cron_file :: "cron_file \<Rightarrow> cron_state \<Rightarrow> cron_state + cron_file" where
  "checked_open_cron_file f st =
     (case cf_metadata f of
        None \<Rightarrow> Inl st
      | Some (is_file, len) \<Rightarrow>
          if \<not> is_file then Inl st
          else if MAX_CRON_FILE_BYTES < len then Inl (cron_file_too_large st)
          else Inr f)"

definition read_checked_cron_file :: "cron_file \<Rightarrow> string \<Rightarrow> cron_state \<Rightarrow> cron_state" where
  "read_checked_cron_file f path st =
     (case map_option (take (MAX_CRON_FILE_BYTES + 1)) (cf_bytes f) of
        None \<Rightarrow> st
      | Some content \<Rightarrow>
          if \<not> valid_utf8 content then st
          else if MAX_CRON_FILE_BYTES < length content then cron_file_too_large st
          else (fst st @ jobs_of_lines (from_utf8_lossy path) False (str_lines content), snd st))"

definition read_open_cron_file :: "cron_file \<Rightarrow> string \<Rightarrow> cron_state \<Rightarrow> cron_state" where
  "read_open_cron_file f path st =
     (case checked_open_cron_file f st of
        Inl st' \<Rightarrow> st'
      | Inr f' \<Rightarrow> read_checked_cron_file f' path st)"

definition read_cron_file :: "cron_reads \<Rightarrow> string \<Rightarrow> cron_state \<Rightarrow> cron_state" where
  "read_cron_file reads path st =
     (if \<not> cr_regular reads path then st
      else case cr_open reads path of
        None \<Rightarrow> st
      | Some f \<Rightarrow> read_open_cron_file f path st)"

text \<open>\<open>bounded_cron_d_paths\<close>: the set is kept in the order of insertion and ordered at the end.\<close>

definition cron_d_path :: "string \<Rightarrow> string" where
  "cron_d_path name = ''/etc/cron.d/'' @ name"

fun cron_d_paths :: "(string \<Rightarrow> bool) \<Rightarrow> nat \<Rightarrow> string list \<Rightarrow> string option list \<Rightarrow> string list \<times> bool" where
  "cron_d_paths regular index selected [] = (bs_collect selected, False)"
| "cron_d_paths regular index selected (entry # entries) =
     (if index = MAX_CRON_D_ENTRIES then ([], True)
      else case entry of
        None \<Rightarrow> cron_d_paths regular (index + 1) selected entries
      | Some name \<Rightarrow>
          cron_d_paths regular (index + 1)
            (if regular (cron_d_path name) then cron_d_path name # selected else selected) entries)"

definition bounded_cron_d_paths :: "(string \<Rightarrow> bool) \<Rightarrow> string option list \<Rightarrow> string list \<times> bool" where
  "bounded_cron_d_paths regular entries = cron_d_paths regular 0 [] entries"

definition collect_cron_d_files :: "cron_reads \<Rightarrow> cron_state \<Rightarrow> cron_state" where
  "collect_cron_d_files reads st =
     (case cr_cron_d reads of
        None \<Rightarrow> cron_info ''cron.d discovery skipped because its fixed directory is unavailable'' st
      | Some entries \<Rightarrow>
          (case bounded_cron_d_paths (cr_regular reads) entries of
             (paths, was_capped) \<Rightarrow>
               let st = (if was_capped then cron_info
                     (''cron.d discovery capped at '' @ show_nat MAX_CRON_D_ENTRIES @ '' entries'') st else st)
               in fold (read_cron_file reads) paths st))"

section \<open>The provider\<close>

definition job_id :: "digest \<Rightarrow> cron_job \<Rightarrow> string" where
  "job_id sha256 job = (case job of (source, line, command) \<Rightarrow>
     ''scheduled_job_'' @ safe_runtime_id_component sha256 source ''source'' @ ''_''
       @ safe_runtime_id_component sha256 (show_nat line @ ''_'' @ redact_sensitive_text command) ''command'')"

definition job_node :: "digest \<Rightarrow> cron_job \<Rightarrow> runtime_map_node" where
  "job_node sha256 job = (case job of (source, line, command) \<Rightarrow>
     (let safe_command = redact_sensitive_text command
      in \<lparr>rn_id = job_id sha256 job, rn_provider = RPK_ScheduledJob, rn_kind = RNK_ScheduledJob,
          rn_label = safe_command, rn_status = Some ''scheduled'', rn_layer = Some RNL_Process,
          rn_metadata = bt_collect [(''source'', source), (''line'', show_nat line), (''command'', safe_command)],
          rn_service = None, rn_package = None\<rparr>))"

definition job_edge :: "digest \<Rightarrow> cron_job \<Rightarrow> runtime_map_edge" where
  "job_edge sha256 job = \<lparr>re_source = job_id sha256 job, re_target = ''host_local'', re_relationship = RRK_RunsOn,
     re_metadata = [(CRON_EVIDENCE_SCHEDULE_MARKER, ''declared'')], re_evidence_refs = []\<rparr>"

definition job_sources :: "cron_reads \<Rightarrow> cron_state" where
  "job_sources reads =
     (let st = collect_cron_d_files reads (read_cron_file reads ''/etc/crontab'' ([], []))
      in case cr_crontab reads of
           Inl e \<Rightarrow> cron_info (''user crontab discovery skipped: '' @ command_error_text e) st
         | Inr result \<Rightarrow>
             if command_success result
             then (fst st @ jobs_of_lines ''user crontab'' True (str_lines (from_utf8_lossy (co_stdout result))), snd st)
             else st)"

definition collect_scheduled_jobs :: "digest \<Rightarrow> cron_reads \<Rightarrow> observation" where
  "collect_scheduled_jobs sha256 reads =
     (case job_sources reads of
        (jobs, diagnostics) \<Rightarrow> (map (job_node sha256) jobs, map (job_edge sha256) jobs, diagnostics))"

section \<open>Tmux sessions\<close>

definition MAX_TMUX_SESSIONS :: nat where "MAX_TMUX_SESSIONS = 64"

definition is_tmux_no_server_diagnostic :: "string \<Rightarrow> bool \<Rightarrow> bool" where
  "is_tmux_no_server_diagnostic stderr truncated \<longleftrightarrow>
     \<not> truncated \<and> valid_utf8 stderr \<and>
     (let diagnostic = (case strip_suffix stderr [LF] of Some d \<Rightarrow> d | None \<Rightarrow> stderr)
      in case strip_prefix diagnostic ''no server running on '' of
           None \<Rightarrow> False
         | Some location \<Rightarrow> location \<noteq> [] \<and> LF \<notin> set location \<and> CR \<notin> set location)"

definition tmux_session_node :: "digest \<Rightarrow> 8 word list \<Rightarrow> string \<Rightarrow> runtime_map_node" where
  "tmux_session_node sha256 key session_id =
     \<lparr>rn_id = ''tmux_session_'' @ opaque_runtime_id_component sha256 key session_id ''session'',
      rn_provider = RPK_Tmux, rn_kind = RNK_TmuxSession, rn_label = ''tmux session'', rn_status = None,
      rn_layer = Some RNL_Session,
      rn_metadata = [(''serviceEntityKind'', service_entity_kind_name SEK_Session)],
      rn_service = None, rn_package = None\<rparr>"

definition TAB :: char where "TAB = CHR 0x09"

fun tmux_session_scan :: "digest \<Rightarrow> 8 word list \<Rightarrow> runtime_map_node list \<Rightarrow> string list \<Rightarrow> runtime_map_node list" where
  "tmux_session_scan sha256 key nodes [] = nodes"
| "tmux_session_scan sha256 key nodes (line # lines) =
     (let parts = split_char TAB line
      in if length parts < 4 then tmux_session_scan sha256 key nodes lines
         else let nodes = nodes @ [tmux_session_node sha256 key (hd parts)]
         in if length nodes = MAX_TMUX_SESSIONS then nodes else tmux_session_scan sha256 key nodes lines)"

definition tmux_session_nodes_from_output :: "digest \<Rightarrow> 8 word list \<Rightarrow> string \<Rightarrow> runtime_map_node list" where
  "tmux_session_nodes_from_output sha256 key value = tmux_session_scan sha256 key [] (str_lines value)"

definition tmux_session_listing_edges :: "runtime_map_node list \<Rightarrow> runtime_map_edge list" where
  "tmux_session_listing_edges sessions =
     map (\<lambda>s. \<lparr>re_source = rn_id s, re_target = ''host_local'', re_relationship = RRK_RunsOn,
           re_metadata = [(TMUX_EVIDENCE_SESSION_LISTING_MARKER, ''observed'')], re_evidence_refs = []\<rparr>)
       (filter (\<lambda>s. rn_provider s = RPK_Tmux \<and> rn_kind s = RNK_TmuxSession
            \<and> starts_with (rn_id s) ''tmux_session_'') sessions)"

definition collect_tmux_sessions_with_runner ::
  "digest \<Rightarrow> 8 word list \<Rightarrow> command_result \<Rightarrow> provider_command_error + observation"
where
  "collect_tmux_sessions_with_runner sha256 key command =
     (case command of
        Inl e \<Rightarrow> Inl e
      | Inr result \<Rightarrow>
          if co_code result = Some 1 \<and> is_tmux_no_server_diagnostic (co_stderr result) (co_stderr_truncated result)
          then Inr ([], [], [])
          else if \<not> command_success result then Inl PCE_Wait
          else let sessions = tmux_session_nodes_from_output sha256 key (from_utf8_lossy (co_stdout result))
            in Inr (sessions, tmux_session_listing_edges sessions, []))"

end
