(* ===== verification/Systemd.thy ===== *)
theory Systemd
  imports Cron_Tmux "HOL-Library.Product_Lexorder"
begin

text \<open>
  Systemd services (\<open>providers/systemd.rs\<close>, and the helpers of \<open>providers/mod.rs\<close>): the units that
  \<open>systemctl list-units\<close> lists, their details from \<open>systemctl show\<close>, the nodes of both, and the
  declared dependencies between services. The two command results are arguments, and so is the
  floating-point computation of an uptime from \<open>/proc/uptime\<close>.
\<close>

section \<open>Shared classification helpers\<close>

definition looks_like_ai_agent :: "string \<Rightarrow> bool" where
  "looks_like_ai_agent value \<longleftrightarrow> list_ex (str_contains value)
     [''openai'', ''anthropic'', ''langchain'', ''llamaindex'', ''autogen'', ''crewai'', ''agent'',
      ''@modelcontextprotocol/sdk'']"

definition non_empty_string :: "string \<Rightarrow> string option" where
  "non_empty_string value = (if trim value = [] then None else Some (trim value))"

section \<open>Data\<close>

definition MAX_SYSTEMD_UNITS :: nat where "MAX_SYSTEMD_UNITS = 128"

datatype systemd_dependency_kind = Dep_Requires | Dep_Wants | Dep_PartOf

primrec dependency_rank :: "systemd_dependency_kind \<Rightarrow> nat" where
  "dependency_rank Dep_Requires = 0"
| "dependency_rank Dep_Wants = 1"
| "dependency_rank Dep_PartOf = 2"

lemma dependency_rank_inj [simp]: "dependency_rank a = dependency_rank b \<longleftrightarrow> a = b"
  by (cases a; cases b) auto

text \<open>The derived \<open>Ord\<close>: by the position of the variant.\<close>

instantiation systemd_dependency_kind :: linorder
begin

definition less_eq_systemd_dependency_kind :: "systemd_dependency_kind \<Rightarrow> systemd_dependency_kind \<Rightarrow> bool" where
  "less_eq_systemd_dependency_kind a b \<longleftrightarrow> dependency_rank a \<le> dependency_rank b"

definition less_systemd_dependency_kind :: "systemd_dependency_kind \<Rightarrow> systemd_dependency_kind \<Rightarrow> bool" where
  "less_systemd_dependency_kind a b \<longleftrightarrow> dependency_rank a < dependency_rank b"

instance
  by standard (auto simp: less_eq_systemd_dependency_kind_def less_systemd_dependency_kind_def)

end

primrec dependency_marker :: "systemd_dependency_kind \<Rightarrow> string" where
  "dependency_marker Dep_Requires = ''requires''"
| "dependency_marker Dep_Wants = ''wants''"
| "dependency_marker Dep_PartOf = ''part_of''"

primrec dependency_relationship :: "systemd_dependency_kind \<Rightarrow> runtime_relationship_kind" where
  "dependency_relationship Dep_Requires = RRK_Requires"
| "dependency_relationship Dep_Wants = RRK_Wants"
| "dependency_relationship Dep_PartOf = RRK_PartOf"

record systemd_unit_summary =
  su_unit :: string
  su_active_state :: string
  su_sub_state :: string
  su_description :: string

record systemd_unit_details =
  sd_id :: string
  sd_active_state :: "string option"
  sd_sub_state :: "string option"
  sd_description :: "string option"
  sd_fragment_path :: "string option"
  sd_load_state :: "string option"
  sd_exec_start :: "string option"
  sd_restart :: "string option"
  sd_active_enter_timestamp :: "string option"
  sd_active_enter_monotonic_us :: "nat option"
  sd_requires :: "string list"
  sd_wants :: "string list"
  sd_part_of :: "string list"

definition empty_details :: systemd_unit_details where
  "empty_details = \<lparr>sd_id = [], sd_active_state = None, sd_sub_state = None, sd_description = None,
     sd_fragment_path = None, sd_load_state = None, sd_exec_start = None, sd_restart = None,
     sd_active_enter_timestamp = None, sd_active_enter_monotonic_us = None,
     sd_requires = [], sd_wants = [], sd_part_of = []\<rparr>"

section \<open>Parsing\<close>

definition parse_list_units_line :: "string \<Rightarrow> systemd_unit_summary option" where
  "parse_list_units_line line =
     (let parts = split_whitespace line
      in if length parts < 4 \<or> \<not> ends_with (parts ! 0) ''.service'' then None
         else Some \<lparr>su_unit = parts ! 0, su_active_state = parts ! 2, su_sub_state = parts ! 3,
           su_description = str_join '' '' (drop 4 parts)\<rparr>)"

definition parse_systemd_list_units :: "string \<Rightarrow> systemd_unit_summary list" where
  "parse_systemd_list_units value = List.map_filter parse_list_units_line (str_lines value)"

definition parse_systemd_unit_list :: "string \<Rightarrow> string list" where
  "parse_systemd_unit_list value =
     bs_collect (filter (\<lambda>unit. ends_with unit ''.service'') (split_whitespace value))"

definition set_property :: "string \<Rightarrow> string \<Rightarrow> systemd_unit_details \<Rightarrow> systemd_unit_details" where
  "set_property key value d =
     (if key = ''Id'' then d\<lparr>sd_id := value\<rparr>
      else if key = ''ActiveState'' then d\<lparr>sd_active_state := non_empty_string value\<rparr>
      else if key = ''SubState'' then d\<lparr>sd_sub_state := non_empty_string value\<rparr>
      else if key = ''Description'' then d\<lparr>sd_description := non_empty_string value\<rparr>
      else if key = ''FragmentPath'' then d\<lparr>sd_fragment_path := non_empty_string value\<rparr>
      else if key = ''LoadState'' then d\<lparr>sd_load_state := non_empty_string value\<rparr>
      else if key = ''ExecStart'' then d\<lparr>sd_exec_start := non_empty_string value\<rparr>
      else if key = ''Restart'' then d\<lparr>sd_restart := non_empty_string value\<rparr>
      else if key = ''ActiveEnterTimestamp'' then d\<lparr>sd_active_enter_timestamp := non_empty_string value\<rparr>
      else if key = ''ActiveEnterTimestampMonotonic'' then d\<lparr>sd_active_enter_monotonic_us := parse_uint 64 value\<rparr>
      else if key = ''Requires'' then d\<lparr>sd_requires := parse_systemd_unit_list value\<rparr>
      else if key = ''Wants'' then d\<lparr>sd_wants := parse_systemd_unit_list value\<rparr>
      else if key = ''PartOf'' then d\<lparr>sd_part_of := parse_systemd_unit_list value\<rparr>
      else d)"

definition finished_record :: "systemd_unit_details \<Rightarrow> systemd_unit_details list" where
  "finished_record d = (if sd_id d = [] then [] else [d])"

fun show_records_loop :: "systemd_unit_details list \<Rightarrow> systemd_unit_details \<Rightarrow> string list
    \<Rightarrow> systemd_unit_details list" where
  "show_records_loop records d [] = records @ finished_record d"
| "show_records_loop records d (line # lines) =
     (if trim line = [] then show_records_loop (records @ finished_record d) empty_details lines
      else case split_once line (CHR ''='') of
        None \<Rightarrow> show_records_loop records d lines
      | Some (key, raw_value) \<Rightarrow> show_records_loop records (set_property (trim key) (trim raw_value) d) lines)"

definition parse_systemd_show_records :: "string \<Rightarrow> systemd_unit_details list" where
  "parse_systemd_show_records value = show_records_loop [] empty_details (str_lines value)"

definition systemd_dependency_pairs :: "systemd_unit_details \<Rightarrow> (systemd_dependency_kind \<times> string) list" where
  "systemd_dependency_pairs d = map (Pair Dep_Requires) (sd_requires d)
     @ map (Pair Dep_Wants) (sd_wants d) @ map (Pair Dep_PartOf) (sd_part_of d)"

section \<open>Nodes\<close>

definition systemd_node_id :: "digest \<Rightarrow> string \<Rightarrow> string" where
  "systemd_node_id sha256 unit = ''systemd_service_'' @ safe_runtime_id_component sha256 unit ''redacted''"

definition classify_systemd_service_entity :: "systemd_unit_details option \<Rightarrow> service_entity_kind" where
  "classify_systemd_service_entity detail =
     (case Option.bind detail sd_exec_start of
        None \<Rightarrow> SEK_Service
      | Some exec_start \<Rightarrow>
          let haystack = to_ascii_lowercase exec_start
          in if looks_like_ai_agent haystack then SEK_AiAgent
             else if list_ex (str_contains haystack) [''python'', ''.py'', ''uvicorn'', ''gunicorn'', ''celery'']
             then SEK_PythonApplication
             else if list_ex (str_contains haystack) [''node'', ''npm'', ''npx'', ''.js'', ''.mjs'']
             then SEK_NodeApplication
             else SEK_Service)"

text \<open>
  The uptime of the host as a function: the whole seconds it has been up beyond a number of
  microseconds, not less than zero, in the rounding of 64-bit floating-point numbers.
\<close>

definition systemd_uptime_seconds :: "systemd_unit_details \<Rightarrow> (nat \<Rightarrow> nat) option \<Rightarrow> nat option" where
  "systemd_uptime_seconds d uptime =
     (if sd_active_state d \<noteq> Some ''active'' then None
      else Option.bind (sd_active_enter_monotonic_us d) (\<lambda>us. map_option (\<lambda>seconds. seconds us) uptime))"

function trim_end_string :: "string \<Rightarrow> string \<Rightarrow> string" where
  "trim_end_string s p =
     (if p \<noteq> [] \<and> suffix p s then trim_end_string (take (length s - length p) s) p else s)"
  by auto
termination
  by (relation "measure (\<lambda>(s, p). length s)") (auto simp: suffix_def)

declare trim_end_string.simps [simp del]

definition field_entry :: "string \<Rightarrow> string option \<Rightarrow> (string \<times> string) list" where
  "field_entry key value = (case value of None \<Rightarrow> [] | Some v \<Rightarrow> [(key, v)])"

definition or_else :: "'a option \<Rightarrow> 'a option \<Rightarrow> 'a option" where
  "or_else a b = (case a of None \<Rightarrow> b | Some x \<Rightarrow> Some x)"

definition filter_option :: "('a \<Rightarrow> bool) \<Rightarrow> 'a option \<Rightarrow> 'a option" where
  "filter_option P a = (case a of Some x \<Rightarrow> if P x then Some x else None | None \<Rightarrow> None)"

definition systemd_runtime_node :: "digest \<Rightarrow> string \<Rightarrow> systemd_unit_summary option
    \<Rightarrow> systemd_unit_details option \<Rightarrow> (nat \<Rightarrow> nat) option \<Rightarrow> runtime_map_node" where
  "systemd_runtime_node sha256 unit summary detail uptime =
     \<lparr>rn_id = systemd_node_id sha256 unit, rn_provider = RPK_Systemd, rn_kind = RNK_SystemdService,
      rn_label = trim_end_string unit ''.service'',
      rn_status = or_else (Option.bind detail sd_active_state) (map_option su_active_state summary),
      rn_layer = Some RNL_Service,
      rn_metadata = bt_collect ([(''unit'', unit),
          (''serviceEntityKind'', service_entity_kind_name (classify_systemd_service_entity detail))]
        @ field_entry ''subState'' (or_else (Option.bind detail sd_sub_state) (map_option su_sub_state summary))
        @ field_entry ''description'' (filter_option (\<lambda>v. v \<noteq> [])
            (or_else (Option.bind detail sd_description) (map_option su_description summary)))
        @ field_entry ''fragmentPath'' (Option.bind detail sd_fragment_path)
        @ field_entry ''loadState'' (Option.bind detail sd_load_state)
        @ field_entry ''restartPolicy'' (filter_option (\<lambda>v. v \<noteq> [] \<and> v \<noteq> ''no'') (Option.bind detail sd_restart))
        @ field_entry ''activeEnter'' (Option.bind detail sd_active_enter_timestamp)
        @ field_entry ''uptimeSeconds'' (map_option show_nat
            (Option.bind detail (\<lambda>d. systemd_uptime_seconds d uptime)))),
      rn_service = None, rn_package = None\<rparr>"

section \<open>The provider\<close>

type_synonym dependency = "string \<times> string \<times> systemd_dependency_kind"

definition dependencies_of :: "digest \<Rightarrow> systemd_unit_details \<Rightarrow> dependency list" where
  "dependencies_of sha256 d =
     filter (\<lambda>(source, target, _). source \<noteq> target)
       (map (\<lambda>(kind, dependency). (systemd_node_id sha256 (sd_id d), systemd_node_id sha256 dependency, kind))
         (systemd_dependency_pairs d))"

text \<open>The dependencies that get a node of their own: one for each pair that names an unlisted unit.\<close>

definition unlisted_dependencies :: "digest \<Rightarrow> string list \<Rightarrow> systemd_unit_details \<Rightarrow> string list" where
  "unlisted_dependencies sha256 listed d =
     filter (\<lambda>u. systemd_node_id sha256 (sd_id d) \<noteq> systemd_node_id sha256 u \<and> u \<notin> set listed)
       (map snd (systemd_dependency_pairs d))"

definition dependency_edge :: "dependency \<Rightarrow> runtime_map_edge" where
  "dependency_edge dep = (case dep of (source, target, kind) \<Rightarrow>
     \<lparr>re_source = source, re_target = target, re_relationship = dependency_relationship kind,
      re_metadata = [(SYSTEMD_EVIDENCE_KIND_MARKER, dependency_marker kind)], re_evidence_refs = []\<rparr>)"

definition systemd_inventory :: "digest \<Rightarrow> (nat \<Rightarrow> nat) option \<Rightarrow> systemd_unit_summary list
    \<Rightarrow> (string, systemd_unit_details) btree_map \<Rightarrow> runtime_map_node list \<times> runtime_map_edge list" where
  "systemd_inventory sha256 uptime summaries details_by_unit =
     (let details = map snd details_by_unit
      in (map (\<lambda>s. systemd_runtime_node sha256 (su_unit s) (Some s) (bt_get details_by_unit (su_unit s)) uptime) summaries
            @ map (\<lambda>u. systemd_runtime_node sha256 u None None uptime)
                (concat (map (unlisted_dependencies sha256 (map su_unit summaries)) details)),
          map dependency_edge (bs_collect (concat (map (dependencies_of sha256) details)))))"

definition details_by_id :: "systemd_unit_details list \<Rightarrow> (string, systemd_unit_details) btree_map" where
  "details_by_id records = bt_collect (map (\<lambda>d. (sd_id d, d)) (filter (\<lambda>d. sd_id d \<noteq> []) records))"

definition collect_systemd_services_with_runner :: "digest \<Rightarrow> (nat \<Rightarrow> nat) option \<Rightarrow> command_result
    \<Rightarrow> (string list \<Rightarrow> command_result) \<Rightarrow> provider_command_error + observation" where
  "collect_systemd_services_with_runner sha256 uptime list_units show_units =
     (case list_units of
        Inl e \<Rightarrow> Inl e
      | Inr result \<Rightarrow>
          if \<not> command_success result then Inl PCE_Wait
          else
            (let all_units = parse_systemd_list_units (from_utf8_lossy (co_stdout result));
                 capped = MAX_SYSTEMD_UNITS < length all_units;
                 summaries = take MAX_SYSTEMD_UNITS all_units;
                 ds = (if capped then push_provider_diagnostic [] RPK_Systemd DS_Info
                         (''systemd discovery capped at '' @ show_nat MAX_SYSTEMD_UNITS @ '' services'') else [])
             in if summaries = [] then Inr ([], [], ds)
                else case show_units (map su_unit summaries) of
                  Inl e \<Rightarrow> Inl e
                | Inr shown \<Rightarrow>
                    if \<not> command_success shown then Inl PCE_Wait
                    else (case systemd_inventory sha256 uptime summaries
                            (details_by_id (parse_systemd_show_records (from_utf8_lossy (co_stdout shown)))) of
                       (nodes, edges) \<Rightarrow> Inr (nodes, edges, ds))))"

end
