(* ===== verification/Npm.thy ===== *)
theory Npm
  imports Systemd Rust_Path
begin

text \<open>
  npm projects (\<open>providers/npm.rs\<close>): the bounded walk over the project root, the manifest that is
  opened component by component without following links, what is kept of it, and the nodes and edges
  of projects and their dependencies. The file system is the argument \<open>npm_io\<close>; the JSON library,
  with the structure of a manifest, is the argument \<open>parse\<close>.
\<close>

section \<open>Data\<close>

definition MAX_DISCOVERY_DIRS :: nat where "MAX_DISCOVERY_DIRS = 4096"
definition MAX_NPM_PROJECTS :: nat where "MAX_NPM_PROJECTS = 64"
definition MAX_NPM_DEPENDENCIES_PER_PROJECT :: nat where "MAX_NPM_DEPENDENCIES_PER_PROJECT = 64"
definition MAX_PACKAGE_JSON_BYTES :: nat where "MAX_PACKAGE_JSON_BYTES = 262144"
definition MAX_NPM_SCRIPTS :: nat where "MAX_NPM_SCRIPTS = 16"
definition MAX_SCRIPT_CHARS :: nat where "MAX_SCRIPT_CHARS = 200"

record package_dependency_record =
  pd_name :: string
  pd_version :: string
  pd_scope :: string

record package_manifest_document =
  pm_name :: "string option"
  pm_private :: bool
  pm_package_manager :: "string option"
  pm_scripts :: "(string, string) btree_map"
  pm_dependencies :: "(string, string) btree_map"
  pm_optional_dependencies :: "(string, string) btree_map"
  pm_peer_dependencies :: "(string, string) btree_map"
  pm_dev_dependencies :: "(string, string) btree_map"

record npm_project_summary =
  np_directory :: string
  np_package_name :: "string option"
  np_display_name :: string
  np_kind :: runtime_node_kind
  np_service_entity_kind :: service_entity_kind
  np_package_manager :: "string option"
  np_lockfiles :: "string list"
  np_dependencies :: "package_dependency_record list"
  np_scripts :: "(string, string) btree_map"
  np_framework_hints :: "string list"
  np_private :: bool

text \<open>
  The file system: the entries of a directory, the canonical root, and \<open>openat\<close> without following
  links, on descriptors. An entry has its name and its own type, when that can be read.
\<close>

datatype npm_file_type = Entry_Dir | Entry_File | Entry_Other

datatype open_error = Open_Not_Found | Open_Error string

record npm_file =
  pf_metadata :: "string + bool \<times> nat"
  pf_bytes :: "string + string"

record npm_io =
  ni_read_dir :: "string \<Rightarrow> string + (string \<times> npm_file_type option) list"
  ni_canonicalize :: "string \<Rightarrow> string + string"
  ni_slash :: "string + nat"
  ni_open_directory :: "nat \<Rightarrow> string \<Rightarrow> string + nat"
  ni_open_file :: "nat \<Rightarrow> string \<Rightarrow> open_error + npm_file"

section \<open>The manifest\<close>

definition open_directory_at_no_follow :: "npm_io \<Rightarrow> nat \<Rightarrow> string \<Rightarrow> string + nat" where
  "open_directory_at_no_follow io parent name =
     (if CHR 0x00 \<in> set name then Inl ''npm project path contains NUL''
      else map_sum (\<lambda>e. ''cannot open npm project directory: '' @ e) id (ni_open_directory io parent name))"

fun open_absolute :: "npm_io \<Rightarrow> nat \<Rightarrow> path_component list \<Rightarrow> string + nat" where
  "open_absolute io current [] = Inr current"
| "open_absolute io current (RootDir # cs) = open_absolute io current cs"
| "open_absolute io current (Normal name # cs) =
     (case open_directory_at_no_follow io current name of
        Inl e \<Rightarrow> Inl e
      | Inr next \<Rightarrow> open_absolute io next cs)"
| "open_absolute io current (CurDir # cs) = Inl ''configured project root is ambiguous''"
| "open_absolute io current (ParentDir # cs) = Inl ''configured project root is ambiguous''"

definition open_canonical_directory_no_follow :: "npm_io \<Rightarrow> string \<Rightarrow> string + nat" where
  "open_canonical_directory_no_follow io path =
     (if \<not> has_root path then Inl ''configured project root is not absolute''
      else case ni_slash io of
        Inl e \<Rightarrow> Inl (''cannot open filesystem root: '' @ e)
      | Inr slash \<Rightarrow> open_absolute io slash (components path))"

fun open_relative :: "npm_io \<Rightarrow> nat \<Rightarrow> path_component list \<Rightarrow> string + nat" where
  "open_relative io parent [] = Inr parent"
| "open_relative io parent (c # cs) =
     (case c of
        Normal name \<Rightarrow>
          (case open_directory_at_no_follow io parent name of
             Inl e \<Rightarrow> Inl e
           | Inr next \<Rightarrow> open_relative io next cs)
      | _ \<Rightarrow> Inl ''npm project path is ambiguous'')"

definition manifest_too_large :: string where
  "manifest_too_large = ''package manifest exceeds '' @ show_nat MAX_PACKAGE_JSON_BYTES @ '' bytes''"

definition read_manifest_file :: "(string \<Rightarrow> string + package_manifest_document) \<Rightarrow> npm_file
    \<Rightarrow> string + package_manifest_document" where
  "read_manifest_file parse f =
     (case pf_metadata f of
        Inl e \<Rightarrow> Inl (''cannot inspect package manifest: '' @ e)
      | Inr (is_file, len) \<Rightarrow>
          if \<not> is_file then Inl ''package manifest is not a regular file''
          else if MAX_PACKAGE_JSON_BYTES < len then Inl manifest_too_large
          else case pf_bytes f of
            Inl e \<Rightarrow> Inl (''cannot read package manifest: '' @ e)
          | Inr bytes \<Rightarrow>
              let content = take (MAX_PACKAGE_JSON_BYTES + 1) bytes
              in if \<not> valid_utf8 content
                 then Inl ''cannot read package manifest: stream did not contain valid UTF-8''
                 else if MAX_PACKAGE_JSON_BYTES < length content then Inl manifest_too_large
                 else map_sum (\<lambda>e. ''invalid package manifest JSON: '' @ e) id (parse content))"

definition read_package_manifest_beneath :: "npm_io \<Rightarrow> (string \<Rightarrow> string + package_manifest_document)
    \<Rightarrow> string \<Rightarrow> string \<Rightarrow> string + package_manifest_document option" where
  "read_package_manifest_beneath io parse root directory =
     (case path_strip_prefix directory root of
        None \<Rightarrow> Inl (''npm project `'' @ from_utf8_lossy directory @ ''` is outside configured project root'')
      | Some relative_directory \<Rightarrow>
          (case ni_canonicalize io root of
             Inl e \<Rightarrow> Inl (''cannot resolve configured project root: '' @ e)
           | Inr canonical_root \<Rightarrow>
               (case open_canonical_directory_no_follow io canonical_root of
                  Inl e \<Rightarrow> Inl e
                | Inr root \<Rightarrow>
                    (case open_relative io root relative_directory of
                       Inl e \<Rightarrow> Inl e
                     | Inr parent \<Rightarrow>
                         (case ni_open_file io parent ''package.json'' of
                            Inl Open_Not_Found \<Rightarrow> Inr None
                          | Inl (Open_Error e) \<Rightarrow> Inl (''cannot open package manifest: '' @ e)
                          | Inr f \<Rightarrow> map_sum id Some (read_manifest_file parse f))))))"

section \<open>What is kept of a manifest\<close>

definition scope_dependencies :: "string \<Rightarrow> (string, string) btree_map \<Rightarrow> package_dependency_record list" where
  "scope_dependencies scope entries = map (\<lambda>(name, version).
     \<lparr>pd_name = redact_sensitive_text name, pd_version = redact_sensitive_text version, pd_scope = scope\<rparr>) entries"

definition package_manifest_dependencies :: "package_manifest_document \<Rightarrow> package_dependency_record list" where
  "package_manifest_dependencies m = take MAX_NPM_DEPENDENCIES_PER_PROJECT
     (scope_dependencies ''dependencies'' (pm_dependencies m)
      @ scope_dependencies ''optional_dependencies'' (pm_optional_dependencies m)
      @ scope_dependencies ''peer_dependencies'' (pm_peer_dependencies m)
      @ scope_dependencies ''dev_dependencies'' (pm_dev_dependencies m))"

definition bounded_package_scripts :: "(string, string) btree_map \<Rightarrow> (string, string) btree_map" where
  "bounded_package_scripts scripts = bt_collect (map (\<lambda>(name, script).
     (redact_sensitive_text name, truncate_chars (redact_sensitive_text script) MAX_SCRIPT_CHARS))
     (take MAX_NPM_SCRIPTS scripts))"

definition FRAMEWORK_MARKERS :: "(string \<times> string) list" where
  "FRAMEWORK_MARKERS =
     [(''@nestjs/core'', ''NestJS''), (''@remix-run/react'', ''Remix''), (''@sveltejs/kit'', ''SvelteKit''),
      (''@vitejs/plugin-react'', ''Vite''), (''angular/core'', ''Angular''), (''astro'', ''Astro''),
      (''docusaurus'', ''Docusaurus''), (''electron'', ''Electron''), (''expo'', ''Expo''),
      (''express'', ''Express''), (''fastify'', ''Fastify''), (''gatsby'', ''Gatsby''), (''hono'', ''Hono''),
      (''next'', ''Next.js''), (''nuxt'', ''Nuxt''), (''react'', ''React''), (''solid-js'', ''Solid''),
      (''svelte'', ''Svelte''), (''tauri'', ''Tauri''), (''vite'', ''Vite''), (''vue'', ''Vue'')]"

fun framework_hints :: "string list \<Rightarrow> string list \<Rightarrow> (string \<times> string) list \<Rightarrow> string list" where
  "framework_hints haystacks hints [] = hints"
| "framework_hints haystacks hints ((marker, name) # markers) =
     (if 4 \<le> length hints then hints
      else framework_hints haystacks
        (if list_ex (\<lambda>value. str_contains value marker) haystacks \<and> name \<notin> set hints then hints @ [name] else hints)
        markers)"

definition classify_package_frameworks :: "package_manifest_document \<Rightarrow> string list" where
  "classify_package_frameworks m = framework_hints
     (bt_keys (pm_scripts m) @ bt_keys (pm_dependencies m) @ bt_keys (pm_dev_dependencies m)
        @ bt_keys (pm_optional_dependencies m) @ bt_keys (pm_peer_dependencies m)) [] FRAMEWORK_MARKERS"

definition classify_package_manifest :: "package_manifest_document \<Rightarrow> runtime_node_kind \<times> service_entity_kind" where
  "classify_package_manifest m =
     (let haystack = map to_ascii_lowercase ((case pm_name m of Some n \<Rightarrow> [n] | None \<Rightarrow> [])
            @ bt_keys (pm_scripts m) @ map snd (pm_scripts m) @ bt_keys (pm_dependencies m)
            @ bt_keys (pm_optional_dependencies m) @ bt_keys (pm_peer_dependencies m) @ bt_keys (pm_dev_dependencies m))
      in if list_ex looks_like_ai_agent haystack then (RNK_AiAgent, SEK_AiAgent)
         else (RNK_NodeApplication, SEK_NodeApplication))"

definition relative_path :: "string \<Rightarrow> string \<Rightarrow> string" where
  "relative_path root directory = from_utf8_lossy
     (case path_strip_prefix directory root of
        Some cs \<Rightarrow> str_join ''/'' (map as_os_str cs)
      | None \<Rightarrow> directory)"

definition summarize_npm_project :: "npm_io \<Rightarrow> (string \<Rightarrow> string + package_manifest_document)
    \<Rightarrow> string \<Rightarrow> string \<Rightarrow> string list \<Rightarrow> string + npm_project_summary option" where
  "summarize_npm_project io parse root directory lockfiles =
     (case read_package_manifest_beneath io parse root directory of
        Inl e \<Rightarrow> Inl e
      | Inr manifest \<Rightarrow>
          if manifest = None \<and> lockfiles = [] then Inr None
          else
            (let relative = relative_path root directory;
                 display_name =
                   (case filter_option (\<lambda>n. n \<noteq> []) (or_else (Option.bind manifest pm_name)
                            (filter_option valid_utf8 (path_file_name directory))) of
                      Some n \<Rightarrow> n
                    | None \<Rightarrow> if relative = [] then ''project-root'' else relative);
                 (kind, entity_kind) = (case manifest of
                     Some m \<Rightarrow> classify_package_manifest m
                   | None \<Rightarrow> (RNK_NodeApplication, SEK_NodeApplication))
             in Inr (Some \<lparr>np_directory = directory,
                  np_package_name = map_option redact_sensitive_text (Option.bind manifest pm_name),
                  np_display_name = redact_sensitive_text display_name,
                  np_kind = kind, np_service_entity_kind = entity_kind,
                  np_package_manager = map_option redact_sensitive_text (Option.bind manifest pm_package_manager),
                  np_lockfiles = lockfiles,
                  np_dependencies = (case manifest of Some m \<Rightarrow> package_manifest_dependencies m | None \<Rightarrow> []),
                  np_scripts = (case manifest of Some m \<Rightarrow> bounded_package_scripts (pm_scripts m) | None \<Rightarrow> []),
                  np_framework_hints = (case manifest of Some m \<Rightarrow> classify_package_frameworks m | None \<Rightarrow> []),
                  np_private = (case manifest of Some m \<Rightarrow> pm_private m | None \<Rightarrow> False)\<rparr>)))"

section \<open>The walk\<close>

definition should_skip_discovery_dir :: "string \<Rightarrow> bool" where
  "should_skip_discovery_dir name \<longleftrightarrow> name \<in> set [''.git'', ''.hg'', ''.svn'', ''node_modules'', ''dist'', ''build'',
     ''target'', ''coverage'', ''.next'', ''.turbo'', ''.yarn'', ''.pnpm-store'', ''.venv'', ''venv'', ''__pycache__'']"

definition is_node_lockfile :: "string \<Rightarrow> bool" where
  "is_node_lockfile name \<longleftrightarrow> name \<in> set [''package-lock.json'', ''npm-shrinkwrap.json'', ''pnpm-lock.yaml'', ''yarn.lock'']"

type_synonym npm_entries = "(string \<times> npm_file_type option) list"

definition child_directories :: "string \<Rightarrow> npm_entries \<Rightarrow> string list" where
  "child_directories directory entries = sort (map (\<lambda>(name, _). path_join directory name)
     (filter (\<lambda>(name, t). t = Some Entry_Dir \<and> \<not> should_skip_discovery_dir (from_utf8_lossy name)) entries))"

definition file_names :: "npm_entries \<Rightarrow> string list" where
  "file_names entries = map (\<lambda>(name, _). from_utf8_lossy name) (filter (\<lambda>(_, t). t = Some Entry_File) entries)"

definition npm_diagnostic :: "diagnostic_severity \<Rightarrow> string \<Rightarrow> runtime_map_diagnostic list \<Rightarrow> runtime_map_diagnostic list" where
  "npm_diagnostic severity message ds = push_provider_diagnostic ds RPK_Npm severity message"

text \<open>The stack \<open>pending\<close> has its top first.\<close>

function discover_loop :: "npm_io \<Rightarrow> (string \<Rightarrow> string + package_manifest_document) \<Rightarrow> string
    \<Rightarrow> string list \<Rightarrow> nat \<Rightarrow> npm_project_summary list \<Rightarrow> runtime_map_diagnostic list
    \<Rightarrow> npm_project_summary list \<times> runtime_map_diagnostic list" where
  "discover_loop io parse root [] visited_dirs projects ds = (projects, ds)"
| "discover_loop io parse root (directory # pending) visited_dirs projects ds =
     (if MAX_DISCOVERY_DIRS < visited_dirs + 1 then
        (projects, npm_diagnostic DS_Info
          (''npm discovery capped at '' @ show_nat MAX_DISCOVERY_DIRS @ '' directories'') ds)
      else case ni_read_dir io directory of
        Inl e \<Rightarrow> discover_loop io parse root pending (visited_dirs + 1) projects
          (npm_diagnostic DS_Info (''npm discovery skipped `'' @ from_utf8_lossy directory @ ''`: '' @ e) ds)
      | Inr entries \<Rightarrow>
          let pending = child_directories directory entries @ pending;
              lockfiles = filter is_node_lockfile (file_names entries)
          in if ''package.json'' \<notin> set (file_names entries) \<and> lockfiles = []
             then discover_loop io parse root pending (visited_dirs + 1) projects ds
             else if MAX_NPM_PROJECTS \<le> length projects then
               (projects, npm_diagnostic DS_Info
                 (''npm discovery capped at '' @ show_nat MAX_NPM_PROJECTS @ '' projects'') ds)
             else case summarize_npm_project io parse root directory lockfiles of
               Inr (Some project) \<Rightarrow>
                 discover_loop io parse root pending (visited_dirs + 1) (projects @ [project]) ds
             | Inr None \<Rightarrow> discover_loop io parse root pending (visited_dirs + 1) projects ds
             | Inl e \<Rightarrow> discover_loop io parse root pending (visited_dirs + 1) projects
                 (npm_diagnostic DS_Warning
                   (''npm project `'' @ from_utf8_lossy directory @ ''` skipped: '' @ e) ds))"
  by pat_completeness auto
termination
  by (relation "measure (\<lambda>(io, parse, root, pending, visited_dirs, projects, ds). MAX_DISCOVERY_DIRS - visited_dirs)") auto

declare discover_loop.simps [simp del]

definition path_order_key :: "string \<Rightarrow> string list" where
  "path_order_key p = map as_os_str (components p)"

definition discover_npm_projects :: "npm_io \<Rightarrow> (string \<Rightarrow> string + package_manifest_document) \<Rightarrow> string
    \<Rightarrow> npm_project_summary list \<times> runtime_map_diagnostic list" where
  "discover_npm_projects io parse root =
     (case discover_loop io parse root [root] 0 [] [] of
        (projects, ds) \<Rightarrow> (sort_key (\<lambda>p. path_order_key (np_directory p)) projects, ds))"

section \<open>Nodes and edges\<close>

definition show_bool :: "bool \<Rightarrow> string" where
  "show_bool b = (if b then ''true'' else ''false'')"

definition project_id :: "digest \<Rightarrow> string \<Rightarrow> nat \<Rightarrow> npm_project_summary \<Rightarrow> string" where
  "project_id sha256 root project_index p = ''npm_project_'' @ safe_runtime_id_component sha256
     (relative_path root (np_directory p)) (''project_'' @ show_nat project_index)"

definition project_node :: "digest \<Rightarrow> string \<Rightarrow> nat \<Rightarrow> npm_project_summary \<Rightarrow> runtime_map_node" where
  "project_node sha256 root project_index p =
     \<lparr>rn_id = project_id sha256 root project_index p, rn_provider = RPK_Npm, rn_kind = np_kind p,
      rn_label = np_display_name p, rn_status = Some ''discovered'', rn_layer = Some RNL_Package,
      rn_metadata = bt_collect ([(''path'', relative_path root (np_directory p)),
          (''serviceEntityKind'', service_entity_kind_name (np_service_entity_kind p)),
          (''private'', show_bool (np_private p))]
        @ field_entry ''packageName'' (np_package_name p)
        @ field_entry ''packageManager'' (np_package_manager p)
        @ (if np_lockfiles p = [] then [] else [(''lockfiles'', str_join '','' (np_lockfiles p))])
        @ (if np_framework_hints p = [] then [] else [(''frameworks'', str_join '','' (np_framework_hints p))])
        @ (if np_scripts p = [] then [] else [(''scripts'', truncate_chars
            (str_join '' | '' (map (\<lambda>(name, script). name @ ''='' @ script) (np_scripts p))) 1600)])),
      rn_service = None, rn_package = None\<rparr>"

definition package_id :: "digest \<Rightarrow> nat \<Rightarrow> package_dependency_record \<Rightarrow> string" where
  "package_id sha256 index d =
     (let safe_version = redact_sensitive_text (pd_version d)
      in ''npm_package_'' @ safe_runtime_id_component sha256 (redact_sensitive_text (pd_name d)) ''package'' @ ''_''
         @ (if safe_version = REDACTED_VALUE then ''redacted_'' @ show_nat index
            else safe_runtime_id_component sha256 safe_version ''version''))"

definition package_node :: "digest \<Rightarrow> nat \<Rightarrow> package_dependency_record \<Rightarrow> runtime_map_node" where
  "package_node sha256 index d =
     (let safe_package_name = redact_sensitive_text (pd_name d); safe_version = redact_sensitive_text (pd_version d)
      in \<lparr>rn_id = package_id sha256 index d, rn_provider = RPK_Npm, rn_kind = RNK_PackageDependency,
          rn_label = safe_package_name, rn_status = None, rn_layer = Some RNL_Package,
          rn_metadata = bt_collect [(''package'', safe_package_name), (''version'', safe_version),
            (''scope'', redact_sensitive_text (pd_scope d)),
            (''serviceEntityKind'', service_entity_kind_name SEK_PackageDependency)],
          rn_service = None, rn_package = Some (package_entity_minimal safe_package_name safe_version)\<rparr>)"

definition package_edge :: "digest \<Rightarrow> string \<Rightarrow> nat \<Rightarrow> package_dependency_record \<Rightarrow> runtime_map_edge" where
  "package_edge sha256 project index d =
     \<lparr>re_source = project, re_target = package_id sha256 index d, re_relationship = RRK_DependsOn,
      re_metadata = bt_collect [(''version'', redact_sensitive_text (pd_version d)),
        (''scope'', redact_sensitive_text (pd_scope d)), (NPM_EVIDENCE_DEPENDENCY_MARKER, ''declared'')],
      re_evidence_refs = []\<rparr>"

definition project_nodes :: "digest \<Rightarrow> string \<Rightarrow> nat \<times> npm_project_summary \<Rightarrow> runtime_map_node list" where
  "project_nodes sha256 root ip = (case ip of (i, p) \<Rightarrow>
     project_node sha256 root i p
       # map (\<lambda>(j, d). package_node sha256 j d) (enumerate 0 (np_dependencies p)))"

definition project_edges :: "digest \<Rightarrow> string \<Rightarrow> pid_namespace_scope \<Rightarrow> nat \<times> npm_project_summary \<Rightarrow> runtime_map_edge list" where
  "project_edges sha256 root scope ip = (case ip of (i, p) \<Rightarrow>
     (if is_restricted scope then []
      else [\<lparr>re_source = project_id sha256 root i p, re_target = ''host_local'',
             re_relationship = RRK_RunsOn, re_metadata = [], re_evidence_refs = []\<rparr>])
     @ map (\<lambda>(j, d). package_edge sha256 (project_id sha256 root i p) j d) (enumerate 0 (np_dependencies p)))"

definition collect_npm_projects :: "digest \<Rightarrow> npm_io \<Rightarrow> (string \<Rightarrow> string + package_manifest_document)
    \<Rightarrow> string \<Rightarrow> pid_namespace_scope \<Rightarrow> observation" where
  "collect_npm_projects sha256 io parse root scope =
     (case discover_npm_projects io parse root of
        (projects, ds) \<Rightarrow>
          (concat (map (project_nodes sha256 root) (enumerate 0 projects)),
           concat (map (project_edges sha256 root scope) (enumerate 0 projects)), ds))"

end
