(* ===== verification/Network_Providers.thy ===== *)
theory Network_Providers
  imports Process_Table Access
begin

text \<open>
  Network infrastructure (\<open>providers/network_infrastructure.rs\<close>), overlay networks
  (\<open>providers/overlay_network.rs\<close>) and PM2 (\<open>providers/pm2.rs\<close>). The results of the fixed commands, the
  JSON parser of the library, the environment and the existence of the fixed marker paths are
  arguments; JSON values are the data type of the library.
\<close>

section \<open>JSON values\<close>

text \<open>A number has its text and its value where that is an \<open>i64\<close>; an object has its entries in key order.\<close>

datatype json =
    JNull
  | JBool bool
  | JNumber string "int option"
  | JString string
  | JArray "json list"
  | JObject "(string \<times> json) list"

definition json_get :: "json \<Rightarrow> string \<Rightarrow> json option" where
  "json_get v key = (case v of JObject m \<Rightarrow> map_of m key | _ \<Rightarrow> None)"

definition as_str :: "json \<Rightarrow> string option" where
  "as_str v = (case v of JString s \<Rightarrow> Some s | _ \<Rightarrow> None)"

definition as_bool :: "json \<Rightarrow> bool option" where
  "as_bool v = (case v of JBool b \<Rightarrow> Some b | _ \<Rightarrow> None)"

definition as_i64 :: "json \<Rightarrow> int option" where
  "as_i64 v = (case v of JNumber _ n \<Rightarrow> n | _ \<Rightarrow> None)"

definition as_array :: "json \<Rightarrow> json list option" where
  "as_array v = (case v of JArray vs \<Rightarrow> Some vs | _ \<Rightarrow> None)"

definition show_int :: "int \<Rightarrow> string" where
  "show_int n = (if n < 0 then ''-'' @ show_nat (nat (- n)) else show_nat (nat n))"

text \<open>The first of several fields that has the wanted type: \<open>get(..).and_then(..).or_else(..)\<close>.\<close>

fun first_field :: "(json \<Rightarrow> 'a option) \<Rightarrow> json \<Rightarrow> string list \<Rightarrow> 'a option" where
  "first_field cast v [] = None"
| "first_field cast v (key # keys) =
     (case Option.bind (json_get v key) cast of Some x \<Rightarrow> Some x | None \<Rightarrow> first_field cast v keys)"

section \<open>Overlay networks\<close>

definition provider_opt_in :: "(string \<Rightarrow> env_var) \<Rightarrow> string \<Rightarrow> bool" where
  "provider_opt_in env name \<longleftrightarrow> env_ok (env name) = Some ''true''"

definition trim_end_dots :: "string \<Rightarrow> string" where
  "trim_end_dots s = rev (dropWhile (\<lambda>c. c = CHR ''.'') (rev s))"

definition tailnet_node :: "digest \<Rightarrow> runtime_provider_kind \<Rightarrow> string \<Rightarrow> json \<Rightarrow> runtime_map_node" where
  "tailnet_node sha256 provider fallback_id value =
     (let label = trim_end_dots (case first_field as_str value [''DNSName'', ''HostName'', ''givenName'', ''name''] of
            Some l \<Rightarrow> l | None \<Rightarrow> fallback_id);
          online = first_field as_bool value [''Online'', ''online''];
          ips = (case first_field as_array value [''TailscaleIPs'', ''ipAddresses''] of
              Some addresses \<Rightarrow> List.map_filter as_str addresses | None \<Rightarrow> []);
          provider_id = (if provider = RPK_Tailscale then ''tailscale''
            else if provider = RPK_Headscale then ''headscale'' else ''tailnet'')
      in \<lparr>rn_id = provider_id @ ''_node_'' @ safe_runtime_id_component sha256 label fallback_id,
          rn_provider = provider, rn_kind = RNK_TailnetNode, rn_label = label,
          rn_status = map_option (\<lambda>b. if b then ''online'' else ''offline'') online,
          rn_layer = Some RNL_Edge,
          rn_metadata = bt_collect ((if ips = [] then [] else [(''ips'', str_join '','' ips)])
            @ (case first_field as_str value [''User'', ''user''] of Some user \<Rightarrow> [(''user'', user)] | None \<Rightarrow> [])),
          rn_service = None, rn_package = None\<rparr>)"

definition overlay_failure :: "runtime_provider_kind \<Rightarrow> diagnostic_severity \<Rightarrow> string \<Rightarrow> process_view" where
  "overlay_failure provider severity message = ([], push_provider_diagnostic [] provider severity message)"

definition indexed_nodes :: "digest \<Rightarrow> runtime_provider_kind \<Rightarrow> string \<Rightarrow> json list \<Rightarrow> runtime_map_node list" where
  "indexed_nodes sha256 provider id_prefix values =
     map (\<lambda>(index, v). tailnet_node sha256 provider (id_prefix @ show_nat index) v) (enumerate 0 values)"

definition collect_tailscale :: "digest \<Rightarrow> (string \<Rightarrow> json option) \<Rightarrow> command_result \<Rightarrow> process_view" where
  "collect_tailscale sha256 parse command =
     (case command of
        Inl e \<Rightarrow> overlay_failure RPK_Tailscale DS_Info (''Tailscale discovery skipped: '' @ command_error_text e)
      | Inr result \<Rightarrow>
          if \<not> command_success result then overlay_failure RPK_Tailscale DS_Warning ''Tailscale status command failed''
          else case parse (co_stdout result) of
            None \<Rightarrow> overlay_failure RPK_Tailscale DS_Warning ''Tailscale status returned invalid JSON''
          | Some status \<Rightarrow>
              ((case json_get status ''Self'' of
                  Some self_node \<Rightarrow> [tailnet_node sha256 RPK_Tailscale ''self'' self_node] | None \<Rightarrow> [])
                @ (case json_get status ''Peer'' of
                     Some (JObject peers) \<Rightarrow> indexed_nodes sha256 RPK_Tailscale ''peer_'' (map snd peers)
                   | _ \<Rightarrow> []), []))"

definition collect_headscale :: "digest \<Rightarrow> (string \<Rightarrow> json option) \<Rightarrow> command_result \<Rightarrow> process_view" where
  "collect_headscale sha256 parse command =
     (case command of
        Inl e \<Rightarrow> overlay_failure RPK_Headscale DS_Info (''Headscale discovery skipped: '' @ command_error_text e)
      | Inr result \<Rightarrow>
          if \<not> command_success result then overlay_failure RPK_Headscale DS_Warning ''Headscale nodes command failed''
          else case parse (co_stdout result) of
            None \<Rightarrow> overlay_failure RPK_Headscale DS_Warning ''Headscale nodes command returned invalid JSON''
          | Some v \<Rightarrow>
              (indexed_nodes sha256 RPK_Headscale ''node_''
                (case as_array v of Some vs \<Rightarrow> vs
                 | None \<Rightarrow> (case Option.bind (json_get v ''nodes'') as_array of Some vs \<Rightarrow> vs | None \<Rightarrow> [])), []))"

section \<open>Network infrastructure\<close>

record network_marker =
  nm_product :: string
  nm_path :: string

definition reverse_proxy_markers :: "network_marker list" where
  "reverse_proxy_markers =
     [\<lparr>nm_product = ''nginx'', nm_path = ''/etc/nginx/nginx.conf''\<rparr>,
      \<lparr>nm_product = ''Caddy'', nm_path = ''/etc/caddy/Caddyfile''\<rparr>,
      \<lparr>nm_product = ''Traefik'', nm_path = ''/etc/traefik/traefik.yml''\<rparr>,
      \<lparr>nm_product = ''HAProxy'', nm_path = ''/etc/haproxy/haproxy.cfg''\<rparr>,
      \<lparr>nm_product = ''Envoy'', nm_path = ''/etc/envoy/envoy.yaml''\<rparr>,
      \<lparr>nm_product = ''Apache httpd'', nm_path = ''/etc/apache2/apache2.conf''\<rparr>]"

definition local_dns_markers :: "network_marker list" where
  "local_dns_markers =
     [\<lparr>nm_product = ''Pi-hole'', nm_path = ''/etc/pihole/setupVars.conf''\<rparr>,
      \<lparr>nm_product = ''dnsmasq'', nm_path = ''/etc/dnsmasq.d''\<rparr>,
      \<lparr>nm_product = ''Unbound'', nm_path = ''/etc/unbound''\<rparr>,
      \<lparr>nm_product = ''CoreDNS'', nm_path = ''/etc/coredns/Corefile''\<rparr>,
      \<lparr>nm_product = ''AdGuard Home'', nm_path = ''/opt/adguardhome/conf/AdGuardHome.yaml''\<rparr>]"

definition first_needle :: "(string \<times> string) list \<Rightarrow> string \<Rightarrow> string option" where
  "first_needle table value = map_option snd (List.find (\<lambda>(needle, _). str_contains value needle) table)"

definition classify_reverse_proxy :: "string \<Rightarrow> string option" where
  "classify_reverse_proxy = first_needle
     [(''nginx-proxy-manager'', ''Nginx Proxy Manager''), (''jc21/nginx-proxy-manager'', ''Nginx Proxy Manager''),
      (''traefik'', ''Traefik''), (''caddy'', ''Caddy''), (''haproxy'', ''HAProxy''), (''envoy'', ''Envoy''),
      (''nginx'', ''nginx''), (''apache'', ''Apache httpd''), (''httpd'', ''Apache httpd''),
      (''cloudflared'', ''Cloudflare Tunnel''), (''frps'', ''frp''), (''frpc'', ''frp'')]"

definition classify_local_dns :: "string \<Rightarrow> string option" where
  "classify_local_dns = first_needle
     [(''pihole'', ''Pi-hole''), (''pi-hole'', ''Pi-hole''), (''adguard'', ''AdGuard Home''),
      (''dnsmasq'', ''dnsmasq''), (''unbound'', ''Unbound''), (''coredns'', ''CoreDNS''),
      (''technitium'', ''Technitium DNS'')]"

definition network_marker_node :: "digest \<Rightarrow> runtime_provider_kind \<Rightarrow> runtime_node_kind \<Rightarrow> service_entity_kind
    \<Rightarrow> string \<Rightarrow> network_marker \<Rightarrow> runtime_map_node" where
  "network_marker_node sha256 provider kind service_entity_kind id_prefix marker =
     \<lparr>rn_id = id_prefix @ ''_'' @ safe_runtime_id_component sha256 (nm_product marker) ''product'' @ ''_''
        @ safe_runtime_id_component sha256 (nm_path marker) ''path'',
      rn_provider = provider, rn_kind = kind, rn_label = nm_product marker, rn_status = Some ''configured'',
      rn_layer = Some RNL_Network,
      rn_metadata = bt_collect [(''source'', nm_path marker), (''product'', nm_product marker),
        (''serviceEntityKind'', service_entity_kind_name service_entity_kind)],
      rn_service = None, rn_package = None\<rparr>"

definition collect_network_config_markers :: "digest \<Rightarrow> (string \<Rightarrow> bool) \<Rightarrow> runtime_map_node list" where
  "collect_network_config_markers sha256 path_exists =
     map (network_marker_node sha256 RPK_ReverseProxy RNK_ReverseProxy SEK_ReverseProxy ''reverse_proxy_config'')
       (filter (\<lambda>m. path_exists (nm_path m)) reverse_proxy_markers)
     @ map (network_marker_node sha256 RPK_LocalDns RNK_LocalDnsResolver SEK_DnsProvider ''local_dns_config'')
       (filter (\<lambda>m. path_exists (nm_path m)) local_dns_markers)"

type_synonym network_role = "runtime_provider_kind \<times> runtime_node_kind \<times> string"

text \<open>The roles of a container, in the order in which their nodes are pushed.\<close>

definition network_roles :: "container_record \<Rightarrow> network_role list" where
  "network_roles c =
     (let haystack = to_ascii_lowercase (ct_name c) @ '' '' @ to_ascii_lowercase (ct_image c) @ '' ''
            @ to_ascii_lowercase (ct_role c)
      in (case classify_reverse_proxy haystack of Some p \<Rightarrow> [(RPK_ReverseProxy, RNK_ReverseProxy, p)] | None \<Rightarrow> [])
         @ (case classify_local_dns haystack of Some p \<Rightarrow> [(RPK_LocalDns, RNK_LocalDnsResolver, p)] | None \<Rightarrow> [])
         @ (if str_contains haystack ''tailscale'' \<or> str_contains haystack ''tailscaled''
            then [(RPK_Tailscale, RNK_TailnetNode, ''Tailscale'')] else [])
         @ (if str_contains haystack ''headscale'' then [(RPK_Headscale, RNK_TailnetNode, ''Headscale'')] else []))"

definition network_container_id :: "digest \<Rightarrow> string \<Rightarrow> string \<Rightarrow> string" where
  "network_container_id sha256 product container_id =
     collision_resistant_id_component sha256 product @ ''_container_''
       @ collision_resistant_id_component sha256 container_id"

definition network_container_node :: "digest \<Rightarrow> container_record \<Rightarrow> network_role \<Rightarrow> runtime_map_node" where
  "network_container_node sha256 c role = (case role of (provider, kind, product) \<Rightarrow>
     \<lparr>rn_id = network_container_id sha256 product (ct_id c), rn_provider = provider, rn_kind = kind,
      rn_label = product @ '': '' @ ct_name c, rn_status = Some (ct_status c), rn_layer = Some RNL_Container,
      rn_metadata = bt_collect [(''product'', product), (''container'', ct_name c), (''image'', ct_image c),
        (''serviceEntityKind'', service_entity_kind_name
          (if kind = RNK_ReverseProxy then SEK_ReverseProxy
           else if kind = RNK_LocalDnsResolver \<or> kind = RNK_DnsProvider then SEK_DnsProvider
           else SEK_Service))],
      rn_service = Some (service_entity_minimal (ct_name c) (from_status_text (ct_status c))),
      rn_package = None\<rparr>)"

definition network_container_edge :: "digest \<Rightarrow> container_record \<Rightarrow> network_role \<Rightarrow> runtime_map_edge" where
  "network_container_edge sha256 c role = (case role of (provider, kind, product) \<Rightarrow>
     \<lparr>re_source = network_container_id sha256 product (ct_id c),
      re_target = ''docker_container_'' @ collision_resistant_id_component sha256 (ct_id c),
      re_relationship = RRK_RelatedTo, re_metadata = [], re_evidence_refs = []\<rparr>)"

definition collect_network_containers :: "digest \<Rightarrow> docker_snapshot \<Rightarrow> runtime_map_node list \<times> runtime_map_edge list" where
  "collect_network_containers sha256 snapshot =
     (let found = concat (map (\<lambda>c. map (Pair c) (network_roles c)) (sn_containers snapshot))
      in (map (\<lambda>(c, role). network_container_node sha256 c role) found,
          map (\<lambda>(c, role). network_container_edge sha256 c role) found))"

record network_reads =
  nr_env :: "string \<Rightarrow> env_var"
  nr_tailscale :: command_result
  nr_headscale :: command_result
  nr_path_exists :: "string \<Rightarrow> bool"

definition restricted_skips :: "(runtime_provider_kind \<times> string) list" where
  "restricted_skips =
     [(RPK_Tailscale, ''Tailscale discovery skipped in restricted PID namespace''),
      (RPK_Headscale, ''Headscale discovery skipped in restricted PID namespace''),
      (RPK_ReverseProxy, ''Reverse-proxy configuration marker discovery skipped in restricted PID namespace''),
      (RPK_LocalDns, ''Local DNS configuration marker discovery skipped in restricted PID namespace'')]"

definition collect_network_infrastructure :: "digest \<Rightarrow> (string \<Rightarrow> json option) \<Rightarrow> network_reads
    \<Rightarrow> pid_namespace_scope \<Rightarrow> docker_snapshot \<Rightarrow> observation" where
  "collect_network_infrastructure sha256 parse reads scope snapshot =
     (case collect_network_containers sha256 snapshot of
        (container_nodes, container_edges) \<Rightarrow>
          if is_restricted scope then
            (container_nodes, container_edges,
             fold (\<lambda>(provider, message) ds. push_provider_diagnostic ds provider DS_Info message) restricted_skips [])
          else
            (let (tailscale_nodes, tailscale_ds) =
                   (if provider_opt_in (nr_env reads) ''DOCKERMAP_ENABLE_TAILSCALE''
                    then collect_tailscale sha256 parse (nr_tailscale reads)
                    else overlay_failure RPK_Tailscale DS_Info
                      ''Tailscale discovery disabled; set DOCKERMAP_ENABLE_TAILSCALE=true to opt in'');
                 (headscale_nodes, headscale_ds) =
                   (if provider_opt_in (nr_env reads) ''DOCKERMAP_ENABLE_HEADSCALE''
                    then collect_headscale sha256 parse (nr_headscale reads)
                    else overlay_failure RPK_Headscale DS_Info
                      ''Headscale discovery disabled; set DOCKERMAP_ENABLE_HEADSCALE=true to opt in'')
             in (tailscale_nodes @ headscale_nodes
                   @ collect_network_config_markers sha256 (nr_path_exists reads) @ container_nodes,
                 container_edges, tailscale_ds @ headscale_ds)))"

section \<open>PM2\<close>

definition value_to_string :: "json option \<Rightarrow> string option" where
  "value_to_string v =
     (case v of Some (JString s) \<Rightarrow> Some s | Some (JNumber s _) \<Rightarrow> Some s | _ \<Rightarrow> None)"

definition pm2_node :: "digest \<Rightarrow> json \<Rightarrow> runtime_map_node" where
  "pm2_node sha256 app =
     (let id_text = (case value_to_string (json_get app ''pm_id'') of Some s \<Rightarrow> s | None \<Rightarrow> ''unknown'');
          env = (case json_get app ''pm2_env'' of Some e \<Rightarrow> e | None \<Rightarrow> JNull);
          name = (case Option.bind (json_get env ''name'') as_str of
              Some n \<Rightarrow> n
            | None \<Rightarrow> (case Option.bind (json_get app ''name'') as_str of Some n \<Rightarrow> n | None \<Rightarrow> ''pm2-app''));
          entry = (\<lambda>key value. case value of Some v \<Rightarrow> [(key, v)] | None \<Rightarrow> [])
      in \<lparr>rn_id = ''pm2_app_'' @ collision_resistant_id_component sha256 id_text, rn_provider = RPK_Pm2,
          rn_kind = RNK_Pm2App, rn_label = name, rn_status = Option.bind (json_get env ''status'') as_str,
          rn_layer = Some RNL_Process,
          rn_metadata = bt_collect (entry ''cwd'' (Option.bind (json_get env ''pm_cwd'') as_str)
            @ entry ''script'' (Option.bind (json_get env ''pm_exec_path'') as_str)
            @ entry ''restartCount'' (map_option show_int (Option.bind (json_get env ''restart_time'') as_i64))
            @ [(''serviceEntityKind'', service_entity_kind_name SEK_NodeApplication)]),
          rn_service = None, rn_package = None\<rparr>)"

definition pm2_app_nodes_from_jlist :: "digest \<Rightarrow> (string \<Rightarrow> json option) \<Rightarrow> string \<Rightarrow> runtime_map_node list option" where
  "pm2_app_nodes_from_jlist sha256 parse value =
     (case Option.bind (parse value) as_array of None \<Rightarrow> None | Some apps \<Rightarrow> Some (map (pm2_node sha256) apps))"

definition collect_pm2_apps :: "digest \<Rightarrow> (string \<Rightarrow> json option) \<Rightarrow> command_result \<Rightarrow> process_view" where
  "collect_pm2_apps sha256 parse command =
     (case command of
        Inl e \<Rightarrow> overlay_failure RPK_Pm2 DS_Info (''PM2 discovery skipped: '' @ command_error_text e)
      | Inr result \<Rightarrow>
          if \<not> command_success result then overlay_failure RPK_Pm2 DS_Warning ''PM2 discovery command failed''
          else case pm2_app_nodes_from_jlist sha256 parse (from_utf8_lossy (co_stdout result)) of
            Some nodes \<Rightarrow> (nodes, [])
          | None \<Rightarrow> overlay_failure RPK_Pm2 DS_Warning ''PM2 discovery returned invalid JSON'')"

end
