(* ===== verification/Process_Props.thy ===== *)
theory Process_Props
  imports Process_Table
begin

text \<open>
  Properties of the process providers: what a row of the process table becomes, that a truncated
  output yields only rows of the whole output, that the two views share no process, and which parts
  of a command line reach the map.
\<close>

section \<open>Rows\<close>

lemma split_ws_whitespace: "\<forall>c \<in> set w. is_whitespace c \<Longrightarrow> split_ws w = []"
  by (induction w) auto

lemma split_ws_append_whitespace: "\<forall>c \<in> set w. is_whitespace c \<Longrightarrow> split_ws (cs @ w) = split_ws cs"
proof (induction cs rule: split_ws.induct)
  case (2 c cs)
  show ?case
  proof (cases "is_whitespace c \<or> (\<exists>x \<in> set cs. is_whitespace x)")
    case True
    then show ?thesis using 2
      by (auto simp: takeWhile_append dropWhile_append)
  next
    case False
    have w: "takeWhile (\<lambda>x. \<not> is_whitespace x) w = []" "dropWhile (\<lambda>x. \<not> is_whitespace x) w = w"
      using "2.prems" by (cases w; simp)+
    have all: "\<not> is_whitespace x" if "x \<in> set cs" for x using that False by blast
    have "takeWhile (\<lambda>x. \<not> is_whitespace x) cs = cs" "dropWhile (\<lambda>x. \<not> is_whitespace x) cs = []"
      using all by (auto simp: takeWhile_eq_all_conv)
    moreover have "takeWhile (\<lambda>x. \<not> is_whitespace x) (cs @ w) = cs" "dropWhile (\<lambda>x. \<not> is_whitespace x) (cs @ w) = w"
      using takeWhile_append2 [of cs "\<lambda>x. \<not> is_whitespace x" w] dropWhile_append2 [of cs "\<lambda>x. \<not> is_whitespace x" w] all w
      by auto
    moreover have "\<not> is_whitespace c" using False by blast
    ultimately have "split_ws ((c # cs) @ w) = [c # cs]" "split_ws (c # cs) = [c # cs]"
      using split_ws_whitespace [OF "2.prems"] unfolding append_Cons split_ws.simps(2)
      by (simp_all only: if_False split_ws.simps(1) simp_thms)
    then show ?thesis by simp
  qed
qed (simp add: split_ws_whitespace)

lemma split_ws_strip: "split_ws (rev (dropWhile is_whitespace (rev (dropWhile is_whitespace cs)))) = split_ws cs"
proof -
  let ?d = "dropWhile is_whitespace cs" let ?w = "rev (takeWhile is_whitespace (rev ?d))"
  have "rev (dropWhile is_whitespace (rev ?d)) @ ?w = ?d"
    by (metis rev_append rev_rev_ident takeWhile_dropWhile_id)
  moreover have "\<forall>c \<in> set ?w. is_whitespace c" by (auto dest: set_takeWhileD)
  ultimately have "split_ws (rev (dropWhile is_whitespace (rev ?d))) = split_ws ?d"
    using split_ws_append_whitespace by metis
  moreover have "split_ws ?d = split_ws cs"
    by (subst (1 2) split_ws_unfold) (simp add: rest_after_def)
  ultimately show ?thesis by simp
qed

lemma split_whitespace_trim: "valid_utf8 s \<Longrightarrow> split_whitespace (trim s) = split_whitespace s"
  unfolding split_whitespace_def by (simp add: chars_trim split_ws_strip)

lemma valid_trim: "valid_utf8 s \<Longrightarrow> valid_utf8 (trim s)"
  unfolding trim_def by (intro valid_of_chars) (auto simp: valid_utf8_def list_all_iff dest!: set_dropWhileD)

lemma split_whitespace_Nil [simp]: "split_whitespace [] = []"
  by (simp add: split_whitespace_def)

text \<open>
  A row of the process table. A line gives a row exactly if it has at least four fields and the
  first is a number below 2 to the 32; the user and the kernel command name are its second and third
  field, and the command line is everything after the third field, without the surrounding blanks
  and otherwise verbatim. Whatever is in the command line, it cannot move into the trusted fields.
\<close>

lemma ps_line_exact:
  assumes "valid_utf8 line" and "fs = split_whitespace line"
  shows "if 4 \<le> length fs \<and> parse_uint 32 (fs ! 0) \<noteq> None
    then \<exists>rest. suffix rest (trim line) \<and> split_whitespace rest = drop 3 fs
      \<and> parse_ps_line line = Some \<lparr>pr_pid = the (parse_uint 32 (fs ! 0)), pr_user = fs ! 1,
           pr_comm = fs ! 2, pr_args = trim rest\<rparr>
    else parse_ps_line line = None"
proof -
  let ?t = "trim line"
  have t: "valid_utf8 ?t" "split_whitespace ?t = fs"
    using assms split_whitespace_trim valid_trim by simp_all
  show ?thesis
  proof (cases "4 \<le> length fs \<and> parse_uint 32 (fs ! 0) \<noteq> None")
    case True
    then obtain rest where rest: "skip_tokens ?t (take 3 fs) = Some rest" "valid_utf8 rest"
      "suffix rest ?t" "split_whitespace rest = drop 3 fs"
      using skip_tokens_exact [OF t(1), of 3] t(2) by auto
    have "split_whitespace (trim rest) \<noteq> []" using rest split_whitespace_trim True by simp
    then have "trim rest \<noteq> []" "rest \<noteq> []" using rest(4) True by auto
    moreover have "?t \<noteq> []" using t(2) True by auto
    ultimately have "parse_ps_line line = Some \<lparr>pr_pid = the (parse_uint 32 (fs ! 0)), pr_user = fs ! 1,
           pr_comm = fs ! 2, pr_args = trim rest\<rparr>"
      using True rest(1) t(2) by (auto simp: parse_ps_line_def Let_def)
    then show ?thesis using True rest by auto
  next
    case False
    then have "parse_ps_line line = None"
      using t(2) by (auto simp: parse_ps_line_def Let_def split: option.splits)
    then show ?thesis using False by auto
  qed
qed

section \<open>Truncated output\<close>

lemma read_chunks_take:
  "[] \<notin> set chunks \<Longrightarrow> length buffer \<le> cap \<Longrightarrow>
     read_chunks cap buffer truncated chunks
       = (take cap (buffer @ concat chunks), truncated \<or> cap < length (buffer @ concat chunks))"
proof (induction chunks arbitrary: buffer truncated)
  case (Cons chunk chunks)
  let ?k = "min (length chunk) (cap - length buffer)"
  have "read_chunks cap buffer truncated (chunk # chunks)
      = (take cap ((buffer @ take ?k chunk) @ concat chunks),
         (truncated \<or> cap - length buffer < length chunk) \<or> cap < length ((buffer @ take ?k chunk) @ concat chunks))"
    using Cons.prems Cons.IH [of "buffer @ take ?k chunk"] by (auto simp: Let_def)
  moreover have "take cap ((buffer @ take ?k chunk) @ concat chunks) = take cap (buffer @ concat (chunk # chunks))"
    using Cons.prems(2) by (cases "length chunk \<le> cap - length buffer") auto
  moreover have "(truncated \<or> cap - length buffer < length chunk) \<or> cap < length ((buffer @ take ?k chunk) @ concat chunks)
      \<longleftrightarrow> truncated \<or> cap < length (buffer @ concat (chunk # chunks))"
    using Cons.prems(2) by (cases "length chunk \<le> cap - length buffer") auto
  ultimately show ?case by simp
qed simp

text \<open>
  C9. Noisy commands. Of the output of a command the daemon keeps at most its cap; the rows it reads
  from what it kept are the first rows of the table in the whole output, and all of them when nothing
  was cut. A row is never read from a line that was cut, nor from bytes that a cut made undecodable.
\<close>

theorem truncation_keeps_whole_rows:
  assumes "read_bounded cap chunks = (bytes, truncated)" and "[] \<notin> set chunks"
  shows "length bytes \<le> cap
    \<and> prefix (parse_ps_table (from_utf8_lossy (complete_provider_lines bytes truncated)))
        (parse_ps_table (from_utf8_lossy (concat chunks)))
    \<and> (\<not> truncated \<longrightarrow> bytes = concat chunks)"
proof -
  have b: "bytes = take cap (concat chunks)" "truncated \<longleftrightarrow> cap < length (concat chunks)"
    using assms read_chunks_take [OF assms(2), of "[]" cap False] by (auto simp: read_bounded_def)
  have "prefix (str_lines (from_utf8_lossy (complete_provider_lines bytes truncated)))
      (str_lines (from_utf8_lossy (concat chunks)))"
  proof (cases truncated)
    case True
    then show ?thesis using complete_lines_prefix take_is_prefix b(1) by metis
  next
    case False
    then show ?thesis using b by (simp add: complete_provider_lines_def)
  qed
  then have "prefix (parse_ps_table (from_utf8_lossy (complete_provider_lines bytes truncated)))
      (parse_ps_table (from_utf8_lossy (concat chunks)))"
    by (auto simp: parse_ps_table_def prefix_def map_filter_def)
  then show ?thesis using b by auto
qed

theorem truncation_keeps_whole_rows_witness:
  "prefix (parse_ps_table (from_utf8_lossy (complete_provider_lines ''1 r s '' True)))
     (parse_ps_table (from_utf8_lossy (concat [''1 r s s'', [LF]])))"
proof -
  have "read_bounded 6 [''1 r s s'', [LF]] = (''1 r s '', True)" by (simp add: read_bounded_def Let_def)
  then show ?thesis using truncation_keeps_whole_rows [of 6 "[''1 r s s'', [LF]]"] by simp
qed

section \<open>Ownership\<close>

lemma native_not_python: "is_native_process args \<Longrightarrow> \<not> is_python_process args"
  by (auto simp: is_native_process_def is_python_process_def split: option.splits)

lemma show_nat_inj: "show_nat m = show_nat n \<longleftrightarrow> m = n"
  using dec_value_show_nat by (metis option.inject)

lemma python_node_simps [simp]:
  "rn_id (python_node r) = ''python_process_'' @ show_nat (pr_pid r)"
  "bt_get (rn_metadata (python_node r)) ''pid'' = Some (show_nat (pr_pid r))"
  by (simp_all add: python_node_def Let_def bt_get_collect)

lemma native_node_simps [simp]:
  "rn_id (native_node proc r) = ''native_process_'' @ show_nat (pr_pid r)"
  "bt_get (rn_metadata (native_node proc r)) ''pid'' = Some (show_nat (pr_pid r))"
  by (simp_all add: native_node_def Let_def bt_get_collect)

definition claims_pid :: "runtime_map_node \<Rightarrow> nat \<Rightarrow> bool" where
  "claims_pid n pid \<longleftrightarrow> bt_get (rn_metadata n) ''pid'' = Some (show_nat pid)"

lemma distinct_map_take_filter: "distinct (map f xs) \<Longrightarrow> distinct (map f (take k (filter P xs)))"
  by (metis distinct_map_filter distinct_take take_map)

lemma distinct_map_inj: "inj f \<Longrightarrow> distinct xs \<Longrightarrow> distinct (map f xs)"
  by (metis distinct_map inj_on_subset subset_UNIV)

text \<open>
  C14. The two process views. From one process table, in which process numbers do not repeat, the
  Python view publishes at most 64 and the native view at most 256 nodes; no process is claimed by
  two nodes of either or of both, each claimed process is one of the table, and none belongs to a
  container or is the daemon itself in the native view.
\<close>

theorem process_views_disjoint:
  assumes "distinct (map pr_pid (parse_ps_table table))"
    and "python = fst (python_nodes_from_ps_output proc table)"
    and "native = fst (native_process_nodes_from_ps_output proc table)"
  shows "length python \<le> 64 \<and> length native \<le> 256 \<and> distinct (map rn_id (python @ native))
    \<and> (\<forall>pid. \<not> (\<exists>p \<in> set python. \<exists>n \<in> set native. claims_pid p pid \<and> claims_pid n pid))
    \<and> (\<forall>n \<in> set (python @ native). \<exists>pid \<in> pr_pid ` set (parse_ps_table table).
         claims_pid n pid \<and> \<not> is_container_owned proc pid)
    \<and> \<not> (\<exists>n \<in> set native. claims_pid n (proc_self proc))"
proof -
  let ?rows = "parse_ps_table table"
  let ?P = "\<lambda>r. is_python_process (pr_args r) \<and> \<not> is_container_owned proc (pr_pid r)"
  let ?N = "\<lambda>r. is_native_process (pr_args r) \<and> \<not> is_container_owned proc (pr_pid r) \<and> pr_pid r \<noteq> proc_self proc"
  have python: "python = map python_node (take 64 (filter ?P ?rows))"
    by (simp add: assms(2) python_nodes_from_ps_output_def Let_def MAX_PYTHON_PROCESSES_def)
  have native: "native = map (native_node proc) (take 256 (filter ?N ?rows))"
    by (simp add: assms(3) native_process_nodes_from_ps_output_def Let_def MAX_NATIVE_PROCESSES_def)
  have pyids: "map rn_id python = map (\<lambda>pid. ''python_process_'' @ show_nat pid) (map pr_pid (take 64 (filter ?P ?rows)))"
    "map rn_id native = map (\<lambda>pid. ''native_process_'' @ show_nat pid) (map pr_pid (take 256 (filter ?N ?rows)))"
    by (simp_all add: python native)
  have dist: "distinct (map rn_id python)" "distinct (map rn_id native)"
    unfolding pyids
    by (intro distinct_map_inj distinct_map_take_filter [OF assms(1)] injI; simp add: show_nat_inj)+
  have row: "\<exists>r \<in> set ?rows. ?P r \<and> p = python_node r" if "p \<in> set python" for p
    using that set_take_subset by (fastforce simp: python)
  have row': "\<exists>r \<in> set ?rows. ?N r \<and> n = native_node proc r" if "n \<in> set native" for n
    using that set_take_subset by (fastforce simp: native)
  have unique: "r = r'" if "r \<in> set ?rows" "r' \<in> set ?rows" "pr_pid r = pr_pid r'" for r r'
    using that assms(1) by (auto simp: distinct_map inj_on_def)
  have "set (map rn_id python) \<inter> set (map rn_id native) = {}"
    unfolding pyids by auto
  moreover have "\<not> (\<exists>p \<in> set python. \<exists>n \<in> set native. claims_pid p pid \<and> claims_pid n pid)" for pid
  proof (intro notI, elim bexE conjE)
    fix p n assume pn: "p \<in> set python" "n \<in> set native" "claims_pid p pid" "claims_pid n pid"
    obtain r where r: "r \<in> set ?rows" "?P r" "p = python_node r" using row [OF pn(1)] by blast
    obtain r' where r': "r' \<in> set ?rows" "?N r'" "n = native_node proc r'" using row' [OF pn(2)] by blast
    have "pr_pid r = pr_pid r'" using pn(3,4) r(3) r'(3) by (simp add: claims_pid_def show_nat_inj)
    then show False using unique r r' native_not_python by metis
  qed
  moreover have "\<exists>pid \<in> pr_pid ` set ?rows. claims_pid n pid \<and> \<not> is_container_owned proc pid"
    if "n \<in> set (python @ native)" for n
  proof (cases "n \<in> set python")
    case True
    then obtain r where "r \<in> set ?rows" "?P r" "n = python_node r" using row by blast
    then show ?thesis by (intro bexI [of _ "pr_pid r"]) (auto simp: claims_pid_def)
  next
    case False
    then obtain r where "r \<in> set ?rows" "?N r" "n = native_node proc r" using row' \<open>n \<in> set (python @ native)\<close> by auto
    then show ?thesis by (intro bexI [of _ "pr_pid r"]) (auto simp: claims_pid_def)
  qed
  moreover have "\<not> (\<exists>n \<in> set native. claims_pid n (proc_self proc))"
    using row' by (metis claims_pid_def native_node_simps(2) option.inject show_nat_inj)
  moreover have "length python \<le> 64" "length native \<le> 256" by (simp_all add: python native)
  ultimately show ?thesis using dist by simp
qed

definition example_table :: "string \<Rightarrow> string" where
  "example_table code = ''7 u python3 python3 -c '' @ code"

lemma example_row:
  assumes "code = ''a'' \<or> code = ''b''"
  shows "parse_ps_table (example_table code)
      = [\<lparr>pr_pid = 7, pr_user = ''u'', pr_comm = ''python3'', pr_args = ''python3 -c '' @ code\<rparr>]"
    "split_whitespace (''python3 -c '' @ code) = [''python3'', ''-c'', code]"
proof -
  let ?line = "example_table code"
  have a: "\<forall>c \<in> set ?line. byte c < 128" "\<forall>c \<in> set (''python3 -c '' @ code). byte c < 128"
    using assms by (auto simp: example_table_def byte_def)
  have h: "split_ws (map byte ?line) = [map byte ''7'', map byte ''u'', map byte ''python3'', map byte ''python3'',
      map byte ''-c'', map byte code]"
    "split_ws (map byte (''python3 -c '' @ code)) = [map byte ''python3'', map byte ''-c'', map byte code]"
    using assms by (auto simp: example_table_def byte_def is_whitespace_def)
  have inv: "map char_of (map byte s) = s" for s by (induction s) simp_all
  have f: "split_whitespace ?line = [''7'', ''u'', ''python3'', ''python3'', ''-c'', code]"
    unfolding split_whitespace_ascii(1) [OF a(1)] h by (simp only: list.map inv char_of_byte)
  show "split_whitespace (''python3 -c '' @ code) = [''python3'', ''-c'', code]"
    unfolding split_whitespace_ascii(1) [OF a(2)] h by (simp only: list.map inv char_of_byte)
  have p: "parse_uint 32 ''7'' = Some 7" by (simp add: parse_uint_def is_ascii_digit_def digit_val_def byte_def)
  have t: "trim ?line = ?line"
    by (rule trim_id [OF a(1)]) (use assms in \<open>auto simp: example_table_def byte_def is_whitespace_def\<close>)
  have "trim ('' python3 -c '' @ code) = trim (''python3 -c '' @ code)"
    by (simp add: trim_Cons byte_def is_whitespace_def)
  also have "\<dots> = ''python3 -c '' @ code"
    by (rule trim_id [OF a(2)]) (use assms in \<open>auto simp: byte_def is_whitespace_def\<close>)
  finally have rest: "trim ('' python3 -c '' @ code) = ''python3 -c '' @ code" .
  have skip: "skip_tokens ?line [''7'', ''u'', ''python3''] = Some ('' python3 -c '' @ code)"
    by (simp add: example_table_def)
  have "parse_ps_line ?line = Some \<lparr>pr_pid = 7, pr_user = ''u'', pr_comm = ''python3'', pr_args = ''python3 -c '' @ code\<rparr>"
    unfolding parse_ps_line_def Let_def t f using p skip rest by (simp add: example_table_def)
  moreover have "str_lines ?line = [?line]"
    using assms by (intro str_lines_single) (auto simp: example_table_def LF_def)
  ultimately show "parse_ps_table ?line
      = [\<lparr>pr_pid = 7, pr_user = ''u'', pr_comm = ''python3'', pr_args = ''python3 -c '' @ code\<rparr>]"
    by (simp add: parse_ps_table_def)
qed

theorem process_views_disjoint_witness:
  "length (fst (python_nodes_from_ps_output \<lparr>proc_cgroup = (\<lambda>_. None), proc_comm = (\<lambda>_. None), proc_self = 1\<rparr>
     (example_table ''a''))) \<le> 64"
  using process_views_disjoint [OF _ refl refl, of "example_table ''a''"] by (simp add: example_row)

section \<open>What a command line shows\<close>

text \<open>
  Two rows that differ only in what is not to be shown: the command line of a process that is not
  Python's, as long as the same program is run, and the program text after \<open>-c\<close>.
\<close>

definition same_public :: "process_record \<Rightarrow> process_record \<Rightarrow> bool" where
  "same_public r r' \<longleftrightarrow> pr_pid r = pr_pid r' \<and> pr_user r = pr_user r' \<and> pr_comm r = pr_comm r'
     \<and> effective_executable (pr_args r) = effective_executable (pr_args r')
     \<and> (pr_args r = pr_args r' \<or> \<not> is_python_process (pr_args r)
        \<or> (\<exists>pre post post'. split_whitespace (pr_args r) = pre @ ''-c'' # post
             \<and> split_whitespace (pr_args r') = pre @ ''-c'' # post'))"

lemma python_entry_scan_inline: "python_entry_scan (pre @ ''-c'' # post) = python_entry_scan (pre @ ''-c'' # post')"
proof (induction pre)
  case (Cons field pre)
  have a: "(case pre @ ''-c'' # post of [] \<Rightarrow> None | m # _ \<Rightarrow> f m) = (case pre @ ''-c'' # post' of [] \<Rightarrow> None | m # _ \<Rightarrow> f m)"
    for f :: "string \<Rightarrow> string option" by (cases pre) simp_all
  show ?case by (simp only: append_Cons python_entry_scan.simps(2) [of field] a Cons.IH)
qed simp

lemma python_entry_inline:
  assumes "split_whitespace args = pre @ ''-c'' # post" and "split_whitespace args' = pre @ ''-c'' # post'"
  shows "python_entry args = python_entry args'"
proof (cases pre)
  case Nil
  then show ?thesis using assms by (simp add: python_entry_def)
next
  case (Cons field pre')
  then show ?thesis
    using assms python_entry_scan_inline [of pre' post post'] python_entry_scan_inline [of "field # pre'" post post']
    by (simp add: python_entry_def del: python_entry_scan.simps)
qed

lemma same_public_views:
  assumes "same_public r r'"
  shows "is_python_process (pr_args r) = is_python_process (pr_args r')"
    "is_native_process (pr_args r) = is_native_process (pr_args r')" "native_node proc r = native_node proc r'"
    "is_python_process (pr_args r) \<Longrightarrow> python_node r = python_node r'"
proof -
  show "is_python_process (pr_args r) = is_python_process (pr_args r')"
    "is_native_process (pr_args r) = is_native_process (pr_args r')" "native_node proc r = native_node proc r'"
    using assms by (simp_all add: same_public_def is_python_process_def is_native_process_def native_node_def)
  assume "is_python_process (pr_args r)"
  then have "python_entry (pr_args r) = python_entry (pr_args r')"
    using assms python_entry_inline unfolding same_public_def by metis
  then show "python_node r = python_node r'" using assms by (simp add: same_public_def python_node_def)
qed

lemma list_all2_filter_map:
  assumes "list_all2 R xs ys" and "\<And>x y. R x y \<Longrightarrow> P x = P y" and "\<And>x y. R x y \<Longrightarrow> P x \<Longrightarrow> f x = f y"
  shows "length (filter P xs) = length (filter P ys) \<and> map f (take k (filter P xs)) = map f (take k (filter P ys))"
  using assms(1)
proof (induction arbitrary: k rule: list_all2_induct)
  case (Cons x xs y ys)
  then show ?case using assms(2,3) [OF Cons.hyps(1)] by (cases k) auto
qed simp

text \<open>
  C25. Command lines stay private. Whatever the arguments of a native process, and whatever the
  program text a Python process was given after \<open>-c\<close>, both views of the process table are the same:
  only the number, the user and the kernel's name of a process, and its program, tell them apart.
\<close>

theorem process_arguments_private:
  assumes "list_all2 same_public (parse_ps_table table) (parse_ps_table table')"
  shows "python_nodes_from_ps_output proc table = python_nodes_from_ps_output proc table'
    \<and> native_process_nodes_from_ps_output proc table = native_process_nodes_from_ps_output proc table'"
proof -
  have pid: "same_public r r' \<Longrightarrow> pr_pid r = pr_pid r'" for r r' by (simp add: same_public_def)
  have "length (filter (\<lambda>r. is_python_process (pr_args r) \<and> \<not> is_container_owned proc (pr_pid r)) (parse_ps_table table))
      = length (filter (\<lambda>r. is_python_process (pr_args r) \<and> \<not> is_container_owned proc (pr_pid r)) (parse_ps_table table'))
    \<and> map python_node (take 64 (filter (\<lambda>r. is_python_process (pr_args r) \<and> \<not> is_container_owned proc (pr_pid r)) (parse_ps_table table)))
      = map python_node (take 64 (filter (\<lambda>r. is_python_process (pr_args r) \<and> \<not> is_container_owned proc (pr_pid r)) (parse_ps_table table')))"
    by (rule list_all2_filter_map [OF assms]) (use same_public_views pid in metis)+
  moreover have "length (filter (\<lambda>r. is_native_process (pr_args r) \<and> \<not> is_container_owned proc (pr_pid r) \<and> pr_pid r \<noteq> proc_self proc) (parse_ps_table table))
      = length (filter (\<lambda>r. is_native_process (pr_args r) \<and> \<not> is_container_owned proc (pr_pid r) \<and> pr_pid r \<noteq> proc_self proc) (parse_ps_table table'))
    \<and> map (native_node proc) (take 256 (filter (\<lambda>r. is_native_process (pr_args r) \<and> \<not> is_container_owned proc (pr_pid r) \<and> pr_pid r \<noteq> proc_self proc) (parse_ps_table table)))
      = map (native_node proc) (take 256 (filter (\<lambda>r. is_native_process (pr_args r) \<and> \<not> is_container_owned proc (pr_pid r) \<and> pr_pid r \<noteq> proc_self proc) (parse_ps_table table')))"
    by (rule list_all2_filter_map [OF assms]) (use same_public_views pid in metis)+
  ultimately show ?thesis
    by (simp add: python_nodes_from_ps_output_def native_process_nodes_from_ps_output_def Let_def
        MAX_PYTHON_PROCESSES_def MAX_NATIVE_PROCESSES_def)
qed

theorem process_arguments_private_witness:
  "python_nodes_from_ps_output \<lparr>proc_cgroup = (\<lambda>_. Some []), proc_comm = (\<lambda>_. None), proc_self = 1\<rparr> (example_table ''a'')
   = python_nodes_from_ps_output \<lparr>proc_cgroup = (\<lambda>_. Some []), proc_comm = (\<lambda>_. None), proc_self = 1\<rparr> (example_table ''b'')"
proof -
  have "effective_executable (''python3 -c '' @ code) = Some ''python3''" if "code = ''a'' \<or> code = ''b''" for code
    using example_row(2) [OF that]
    by (simp add: effective_executable_def starts_with_def path_basename_def wrapper_names_def is_duration_like_def
        is_ascii_digit_def byte_def)
  moreover have "\<exists>pre post post'. split_whitespace (''python3 -c '' @ ''a'') = pre @ ''-c'' # post
      \<and> split_whitespace (''python3 -c '' @ ''b'') = pre @ ''-c'' # post'"
    using example_row(2) [of "''a''"] example_row(2) [of "''b''"]
    by (intro exI [of _ "[''python3'']"] exI [of _ "[''a'']"] exI [of _ "[''b'']"]) simp
  ultimately have "same_public \<lparr>pr_pid = 7, pr_user = ''u'', pr_comm = ''python3'', pr_args = ''python3 -c '' @ ''a''\<rparr>
      \<lparr>pr_pid = 7, pr_user = ''u'', pr_comm = ''python3'', pr_args = ''python3 -c '' @ ''b''\<rparr>"
    unfolding same_public_def by (metis process_record.select_convs)
  then have "list_all2 same_public (parse_ps_table (example_table ''a'')) (parse_ps_table (example_table ''b''))"
    using example_row(1) [of "''a''"] example_row(1) [of "''b''"] by simp
  then show ?thesis using process_arguments_private by blast
qed

end
