(* ===== verification/Npm_Props.thy ===== *)
theory Npm_Props
  imports Npm Network_Providers Process_Props
begin

text \<open>
  Properties of the npm and the network providers: the walk stays below the project root and within
  its bounds, a manifest is only read through plain directories, every declared dependency is an edge
  between two nodes that can be attested, and the nodes of network containers are told apart.
\<close>

section \<open>The walk\<close>

text \<open>The directories the walk may enter: real directories below the root, none of them skipped.\<close>

inductive discoverable :: "npm_io \<Rightarrow> string \<Rightarrow> string \<Rightarrow> bool" for io root where
  root: "discoverable io root root"
| child: "discoverable io root directory \<Longrightarrow> ni_read_dir io directory = Inr entries \<Longrightarrow>
    (name, Some Entry_Dir) \<in> set entries \<Longrightarrow> \<not> should_skip_discovery_dir (from_utf8_lossy name) \<Longrightarrow>
    discoverable io root (path_join directory name)"

definition found_project :: "npm_io \<Rightarrow> (string \<Rightarrow> string + package_manifest_document) \<Rightarrow> string
    \<Rightarrow> npm_project_summary \<Rightarrow> bool" where
  "found_project io parse root p \<longleftrightarrow> discoverable io root (np_directory p)
     \<and> (\<exists>lockfiles. summarize_npm_project io parse root (np_directory p) lockfiles = Inr (Some p))"

lemma summarize_directory:
  "summarize_npm_project io parse root directory lockfiles = Inr (Some p) \<Longrightarrow> np_directory p = directory"
  by (auto simp: summarize_npm_project_def Let_def split: sum.splits if_splits prod.splits option.splits)

lemma discover_loop_found:
  assumes "discover_loop io parse root pending visited projects ds = (projects', ds')"
    and "\<forall>d \<in> set pending. discoverable io root d" and "\<forall>p \<in> set projects. found_project io parse root p"
    and "length projects \<le> 64"
  shows "length projects' \<le> 64 \<and> (\<forall>p \<in> set projects'. found_project io parse root p)"
  using assms
proof (induction io parse root pending visited projects ds rule: discover_loop.induct)
  case (1 io parse root visited projects ds)
  then show ?case by (simp add: discover_loop.simps)
next
  case (2 io parse root directory pending visited projects ds)
  have here: "discoverable io root directory" using "2.prems"(2) by simp
  show ?case
  proof (cases "MAX_DISCOVERY_DIRS < visited + 1")
    case True
    then show ?thesis using "2.prems" by (simp add: discover_loop.simps)
  next
    case False
    show ?thesis
    proof (cases "ni_read_dir io directory")
      case (Inl e)
      then show ?thesis using "2.IH"(1) [OF False Inl] "2.prems" False by (simp add: discover_loop.simps)
    next
      case (Inr entries)
      let ?pending = "child_directories directory entries @ pending"
      let ?lockfiles = "filter is_node_lockfile (file_names entries)"
      have pending: "\<forall>d \<in> set ?pending. discoverable io root d"
        using "2.prems"(2) here Inr by (auto simp: child_directories_def intro!: discoverable.child)
      note IH = "2.IH"(2-) [OF False Inr refl refl]
      show ?thesis
      proof (cases "''package.json'' \<notin> set (file_names entries) \<and> ?lockfiles = []")
        case True
        then show ?thesis using IH(1) [OF True] "2.prems" False Inr pending by (simp add: discover_loop.simps Let_def)
      next
        case nonempty: False
        show ?thesis
        proof (cases "MAX_NPM_PROJECTS \<le> length projects")
          case True
          then show ?thesis using nonempty "2.prems" False Inr
            by (auto simp: discover_loop.simps Let_def)
        next
          case room: False
          show ?thesis
          proof (cases "summarize_npm_project io parse root directory ?lockfiles")
            case (Inl e)
            have "discover_loop io parse root ?pending (visited + 1) projects
                (npm_diagnostic DS_Warning (''npm project `'' @ from_utf8_lossy directory @ ''` skipped: '' @ e) ds) = (projects', ds')"
              using "2.prems"(1) nonempty room False Inr Inl by (auto simp: discover_loop.simps Let_def)
            then show ?thesis using IH(2) [OF nonempty room Inl] "2.prems"(3,4) pending by blast
          next
            case summary: (Inr found)
            show ?thesis
            proof (cases found)
              case None
              have "discover_loop io parse root ?pending (visited + 1) projects ds = (projects', ds')"
                using "2.prems"(1) nonempty room False Inr summary None by (auto simp: discover_loop.simps Let_def)
              then show ?thesis using IH(3) [OF nonempty room summary None] "2.prems"(3,4) pending by blast
            next
              case (Some p)
              have "discover_loop io parse root ?pending (visited + 1) (projects @ [p]) ds = (projects', ds')"
                using "2.prems"(1) nonempty room False Inr summary Some by (auto simp: discover_loop.simps Let_def)
              moreover have "found_project io parse root p"
                using summarize_directory summary Some here by (auto simp: found_project_def)
              then have "\<forall>q \<in> set (projects @ [p]). found_project io parse root q" using "2.prems"(3) by simp
              moreover have "length (projects @ [p]) \<le> 64" using room by (simp add: MAX_NPM_PROJECTS_def)
              ultimately show ?thesis using IH(4) [OF nonempty room summary Some _ pending] by blast
            qed
          qed
        qed
      qed
    qed
  qed
qed

section \<open>Manifests\<close>

text \<open>Opening one name after the other, each as a directory and without following a link.\<close>

fun open_chain :: "npm_io \<Rightarrow> nat \<Rightarrow> string list \<Rightarrow> nat option" where
  "open_chain io fd [] = Some fd"
| "open_chain io fd (name # names) =
     (case ni_open_directory io fd name of Inl e \<Rightarrow> None | Inr next \<Rightarrow> open_chain io next names)"

lemma open_chain_append:
  "open_chain io fd (a @ b) = Option.bind (open_chain io fd a) (\<lambda>fd'. open_chain io fd' b)"
  by (induction a arbitrary: fd) (auto split: sum.splits)

lemma open_directory_Inr: "open_directory_at_no_follow io fd name = Inr next \<Longrightarrow> ni_open_directory io fd name = Inr next"
  by (cases "ni_open_directory io fd name") (auto simp: open_directory_at_no_follow_def split: if_splits)

lemma open_absolute_chain:
  "open_absolute io fd cs = Inr fd' \<Longrightarrow>
     \<exists>names. filter (\<lambda>c. c \<noteq> RootDir) cs = map Normal names \<and> open_chain io fd names = Some fd'"
proof (induction io fd cs rule: open_absolute.induct)
  case (3 io fd name cs)
  then obtain next_fd where n: "open_directory_at_no_follow io fd name = Inr next_fd" "open_absolute io next_fd cs = Inr fd'"
    by (auto split: sum.splits)
  obtain names where "filter (\<lambda>c. c \<noteq> RootDir) cs = map Normal names" "open_chain io next_fd names = Some fd'"
    using "3.IH" [OF n] by blast
  then show ?case using open_directory_Inr [OF n(1)] by (intro exI [of _ "name # names"]) simp
qed simp_all

lemma open_relative_chain:
  "open_relative io fd cs = Inr fd' \<Longrightarrow> \<exists>names. cs = map Normal names \<and> open_chain io fd names = Some fd'"
proof (induction cs arbitrary: fd)
  case (Cons c cs)
  then obtain name next_fd where n: "c = Normal name" "open_directory_at_no_follow io fd name = Inr next_fd"
    "open_relative io next_fd cs = Inr fd'"
    by (auto split: sum.splits path_component.splits)
  obtain names where "cs = map Normal names" "open_chain io next_fd names = Some fd'" using Cons.IH [OF n(3)] by blast
  then show ?case using open_directory_Inr [OF n(2)] n(1) by (intro exI [of _ "name # names"]) simp
qed simp

definition confined_manifest :: "npm_io \<Rightarrow> (string \<Rightarrow> string + package_manifest_document) \<Rightarrow> string \<Rightarrow> string
    \<Rightarrow> package_manifest_document \<Rightarrow> bool" where
  "confined_manifest io parse root directory m \<longleftrightarrow>
     (\<exists>canonical slash top below fd f len content.
        ni_canonicalize io root = Inr canonical \<and> has_root canonical \<and> ni_slash io = Inr slash
        \<and> filter (\<lambda>c. c \<noteq> RootDir) (components canonical) = map Normal top
        \<and> components directory = components root @ map Normal below
        \<and> open_chain io slash (top @ below) = Some fd
        \<and> ni_open_file io fd ''package.json'' = Inr f \<and> pf_metadata f = Inr (True, len) \<and> len \<le> 262144
        \<and> pf_bytes f = Inr content \<and> length content \<le> 262144 \<and> valid_utf8 content \<and> parse content = Inr m)"

lemma read_manifest_file_Inr:
  assumes "read_manifest_file parse f = Inr m"
  shows "\<exists>len content. pf_metadata f = Inr (True, len) \<and> len \<le> 262144 \<and> pf_bytes f = Inr content
    \<and> length content \<le> 262144 \<and> valid_utf8 content \<and> parse content = Inr m"
proof -
  obtain len bytes where f: "pf_metadata f = Inr (True, len)" "len \<le> 262144" "pf_bytes f = Inr bytes"
    "valid_utf8 (take 262145 bytes)" "length (take 262145 bytes) \<le> 262144" "parse (take 262145 bytes) = Inr m"
    using assms by (auto simp: read_manifest_file_def Let_def MAX_PACKAGE_JSON_BYTES_def map_sum_def not_less
        split: sum.splits if_splits)
  moreover from f(5) have "take 262145 bytes = bytes" by (simp split: if_splits)
  ultimately show ?thesis by auto
qed

lemma read_package_manifest_confined:
  assumes "read_package_manifest_beneath io parse root directory = Inr (Some m)"
  shows "confined_manifest io parse root directory m"
proof -
  obtain rel canonical rootfd parent f where
    r: "path_strip_prefix directory root = Some rel" "ni_canonicalize io root = Inr canonical"
      "open_canonical_directory_no_follow io canonical = Inr rootfd" "open_relative io rootfd rel = Inr parent"
      "ni_open_file io parent ''package.json'' = Inr f" "read_manifest_file parse f = Inr m"
    using assms by (auto simp: read_package_manifest_beneath_def map_sum_def
        split: option.splits sum.splits open_error.splits)
  obtain slash where s: "has_root canonical" "ni_slash io = Inr slash" "open_absolute io slash (components canonical) = Inr rootfd"
    using r(3) by (auto simp: open_canonical_directory_no_follow_def split: if_splits sum.splits)
  obtain top where top: "filter (\<lambda>c. c \<noteq> RootDir) (components canonical) = map Normal top"
    "open_chain io slash top = Some rootfd" using open_absolute_chain [OF s(3)] by blast
  obtain below where below: "rel = map Normal below" "open_chain io rootfd below = Some parent"
    using open_relative_chain [OF r(4)] by blast
  have "components directory = components root @ map Normal below"
    using r(1) below(1) by (auto simp: path_strip_prefix_def path_starts_with_def prefix_def split: if_splits)
  moreover have "open_chain io slash (top @ below) = Some parent" using top(2) below(2) by (simp add: open_chain_append)
  ultimately show ?thesis
    using r(2,5) s(1,2) top(1) read_manifest_file_Inr [OF r(6)] unfolding confined_manifest_def by blast
qed


definition example_npm :: npm_io where
  "example_npm = \<lparr>ni_read_dir = (\<lambda>d. if d = ''/p'' then Inr [(''package.json'', Some Entry_File)] else Inl ''gone''),
     ni_canonicalize = Inr, ni_slash = Inr 0, ni_open_directory = (\<lambda>fd _. Inr (fd + 1)),
     ni_open_file = (\<lambda>_ _. Inr \<lparr>pf_metadata = Inr (True, 0), pf_bytes = Inr []\<rparr>)\<rparr>"

definition example_manifest :: package_manifest_document where
  "example_manifest = \<lparr>pm_name = None, pm_private = False, pm_package_manager = None, pm_scripts = [],
     pm_dependencies = [(''react'', ''18'')], pm_optional_dependencies = [], pm_peer_dependencies = [],
     pm_dev_dependencies = []\<rparr>"

lemma example_manifest_read:
  "read_package_manifest_beneath example_npm (\<lambda>_. Inr example_manifest) ''/p'' ''/p'' = Inr (Some example_manifest)"
proof -
  have c: "components ''/p'' = [RootDir, Normal ''p'']" "has_root ''/p''" by code_simp+
  have strip: "path_strip_prefix ''/p'' ''/p'' = Some []" by (simp add: path_strip_prefix_def path_starts_with_def c)
  show ?thesis
    by (simp add: read_package_manifest_beneath_def strip open_canonical_directory_no_follow_def c example_npm_def
      open_directory_at_no_follow_def read_manifest_file_def MAX_PACKAGE_JSON_BYTES_def valid_utf8_def)
qed

lemma example_discovered:
  "\<exists>p ds. discover_npm_projects example_npm (\<lambda>_. Inr example_manifest) ''/p'' = ([p], ds)"
proof -
  obtain p where p: "summarize_npm_project example_npm (\<lambda>_. Inr example_manifest) ''/p'' ''/p'' [] = Inr (Some p)"
    by (simp add: summarize_npm_project_def example_manifest_read Let_def case_prod_beta)
  have r: "ni_read_dir example_npm ''/p'' = Inr [(''package.json'', Some Entry_File)]" by (simp add: example_npm_def)
  have names: "file_names [(''package.json'', Some Entry_File)] = [''package.json'']" by code_simp
  have children: "child_directories d [(''package.json'', Some Entry_File)] = []" for d by (simp add: child_directories_def)
  have lock: "is_node_lockfile ''package.json'' = False" by code_simp
  show ?thesis
    by (simp add: discover_npm_projects_def discover_loop.simps r names children lock p MAX_DISCOVERY_DIRS_def
        MAX_NPM_PROJECTS_def)
qed


section \<open>Dependencies\<close>

lemma summarize_dependencies:
  "summarize_npm_project io parse root directory lockfiles = Inr (Some p) \<Longrightarrow> length (np_dependencies p) \<le> 64"
  by (auto simp: summarize_npm_project_def Let_def package_manifest_dependencies_def
      MAX_NPM_DEPENDENCIES_PER_PROJECT_def split: sum.splits if_splits prod.splits option.splits)

lemma package_edge_attested:
  assumes "\<exists>s. project = ''npm_project_'' @ s"
  shows "\<exists>ref. re_evidence_refs (bind_edge_evidence NPM_EVIDENCE_DEPENDENCY_MARKER
      (npm_attestation sha256 revision collected_at freshness) (package_edge sha256 project j d)) = [ref]"
  using assms by (auto simp: bind_edge_evidence_def npm_attestation_def package_edge_def package_id_def Let_def
      starts_with_def bt_get_collect NPM_EVIDENCE_DEPENDENCY_MARKER_def)

lemma length_concat_bound: "\<forall>x \<in> set xs. length (f x) \<le> k \<Longrightarrow> length (concat (map f xs)) \<le> k * length xs"
  by (induction xs) auto

text \<open>
  C19. The npm inventory. Every edge of it starts at the node of a project; it either says that the project
  runs on the host, only where the host may be seen, or it is a declared dependency whose target is the
  node of a package in the same inventory and which the npm attestation accepts. With at most 64 projects
  of at most 64 dependencies there are at most 4160 nodes and as many edges.
\<close>

theorem npm_inventory_closed:
  assumes "collect_npm_projects sha256 io parse root scope = (nodes, edges, diagnostics)"
  shows "length nodes \<le> 4160 \<and> length edges \<le> 4160
    \<and> (\<forall>e \<in> set edges. re_source e \<in> rn_id ` set nodes
         \<and> (re_relationship e = RRK_RunsOn \<and> re_target e = ''host_local'' \<and> \<not> is_restricted scope
            \<or> re_relationship e = RRK_DependsOn \<and> re_target e \<in> rn_id ` set nodes
              \<and> (\<exists>ref. re_evidence_refs (bind_edge_evidence NPM_EVIDENCE_DEPENDENCY_MARKER
                   (npm_attestation sha256 revision collected_at freshness) e) = [ref])))"
proof -
  obtain projects where run: "discover_npm_projects io parse root = (projects, diagnostics)"
    and nodes: "nodes = concat (map (project_nodes sha256 root) (enumerate 0 projects))"
    and edges: "edges = concat (map (project_edges sha256 root scope) (enumerate 0 projects))"
    using assms by (auto simp: collect_npm_projects_def split: prod.splits)
  obtain ps where loop: "discover_loop io parse root [root] 0 [] [] = (ps, diagnostics)"
    and sorted: "projects = sort_key (\<lambda>p. path_order_key (np_directory p)) ps"
    using run by (auto simp: discover_npm_projects_def split: prod.splits)
  have found: "length ps \<le> 64" "\<forall>p \<in> set ps. found_project io parse root p"
    using discover_loop_found [OF loop] discoverable.root by auto
  have len: "length projects \<le> 64" "\<forall>p \<in> set projects. length (np_dependencies p) \<le> 64"
    using found summarize_dependencies by (auto simp: sorted found_project_def)
  have dep: "length (np_dependencies (snd ip)) \<le> 64" if "ip \<in> set (enumerate 0 projects)" for ip
    using len(2) that by (cases ip) (auto simp: in_set_enumerate_eq)
  have "length nodes \<le> 65 * length (enumerate 0 projects)"
    unfolding nodes by (rule length_concat_bound) (use dep in \<open>fastforce simp: project_nodes_def\<close>)
  moreover have "length edges \<le> 65 * length (enumerate 0 projects)"
    unfolding edges by (rule length_concat_bound) (use dep in \<open>fastforce simp: project_edges_def\<close>)
  moreover have "65 * length (enumerate 0 projects) \<le> 65 * 64" using len(1) by simp
  ultimately have bounds: "length nodes \<le> 4160" "length edges \<le> 4160" by linarith+
  have "re_source e \<in> rn_id ` set nodes
         \<and> (re_relationship e = RRK_RunsOn \<and> re_target e = ''host_local'' \<and> \<not> is_restricted scope
            \<or> re_relationship e = RRK_DependsOn \<and> re_target e \<in> rn_id ` set nodes
              \<and> (\<exists>ref. re_evidence_refs (bind_edge_evidence NPM_EVIDENCE_DEPENDENCY_MARKER
                   (npm_attestation sha256 revision collected_at freshness) e) = [ref]))"
    if e: "e \<in> set edges" for e
  proof -
    obtain i p where ip: "(i, p) \<in> set (enumerate 0 projects)" "e \<in> set (project_edges sha256 root scope (i, p))"
      using e by (auto simp: edges)
    have mem: "set (project_nodes sha256 root (i, p)) \<subseteq> set nodes" using ip(1) by (auto simp: nodes)
    have source: "rn_id (project_node sha256 root i p) = project_id sha256 root i p" by (simp add: project_node_def)
    have own: "project_id sha256 root i p \<in> rn_id ` set nodes"
      using mem source by (force simp: project_nodes_def)
    consider (host) "\<not> is_restricted scope" "e = \<lparr>re_source = project_id sha256 root i p, re_target = ''host_local'',
             re_relationship = RRK_RunsOn, re_metadata = [], re_evidence_refs = []\<rparr>"
      | (dep) j d where "(j, d) \<in> set (enumerate 0 (np_dependencies p))"
          "e = package_edge sha256 (project_id sha256 root i p) j d"
      using ip(2) by (auto simp: project_edges_def split: if_splits)
    then show ?thesis
    proof cases
      case host
      then show ?thesis using own by simp
    next
      case (dep j d)
      have "package_node sha256 j d \<in> set nodes" using dep(1) mem by (force simp: project_nodes_def)
      moreover have "rn_id (package_node sha256 j d) = package_id sha256 j d" by (simp add: package_node_def Let_def)
      ultimately have "package_id sha256 j d \<in> rn_id ` set nodes" by (metis image_eqI)
      then show ?thesis using own package_edge_attested [of "project_id sha256 root i p"]
        unfolding dep(2) by (simp add: package_edge_def project_id_def)
    qed
  qed
  then show ?thesis using bounds by blast
qed

theorem npm_inventory_closed_witness:
  "length (fst (collect_npm_projects (\<lambda>_. []) example_npm (\<lambda>_. Inr example_manifest) ''/p'' Scope_Restricted)) \<le> 4160"
proof -
  obtain nodes edges ds where run: "collect_npm_projects (\<lambda>_. []) example_npm (\<lambda>_. Inr example_manifest) ''/p'' Scope_Restricted
      = (nodes, edges, ds)"
    by (metis prod_cases3)
  show ?thesis using npm_inventory_closed [OF run] by (simp add: run)
qed

text \<open>
  Each project that declares a package adds a node for it: two projects with one package in one version
  give two nodes with the same identifier.
\<close>

lemma shared_package_collides:
  assumes "d \<in> set (np_dependencies p)" and "d \<in> set (np_dependencies q)"
    and "redact_sensitive_text (pd_version d) \<noteq> REDACTED_VALUE"
  shows "\<not> distinct (map rn_id (project_nodes sha256 root (i, p) @ project_nodes sha256 root (k, q)))"
proof -
  have same: "rn_id (package_node sha256 j d) = package_id sha256 0 d" for j
    using assms(3) by (simp add: package_node_def package_id_def Let_def)
  have "package_id sha256 0 d \<in> rn_id ` set (project_nodes sha256 root (i, p))" if here: "d \<in> set (np_dependencies p)" for i p
  proof -
    obtain j where "j < length (np_dependencies p)" "np_dependencies p ! j = d"
      using here by (auto simp: in_set_conv_nth)
    then have "package_node sha256 j d \<in> set (project_nodes sha256 root (i, p))"
      by (force simp: project_nodes_def in_set_enumerate_eq)
    then show ?thesis using same by (metis image_eqI)
  qed
  then have "package_id sha256 0 d \<in> rn_id ` set (project_nodes sha256 root (i, p)) \<inter> rn_id ` set (project_nodes sha256 root (k, q))"
    using assms(1,2) by blast
  then show ?thesis by auto
qed

section \<open>Network containers\<close>

lemma first_needle_in: "first_needle table v = Some p \<Longrightarrow> p \<in> snd ` set table"
  by (auto simp: first_needle_def find_Some_iff image_iff) (metis nth_mem snd_conv)

lemma network_roles_distinct: "distinct (map (snd \<circ> snd) (network_roles c))"
proof -
  have proxy: "p \<in> {''Nginx Proxy Manager'', ''Traefik'', ''Caddy'', ''HAProxy'', ''Envoy'', ''nginx'', ''Apache httpd'',
      ''Cloudflare Tunnel'', ''frp''}" if "classify_reverse_proxy h = Some p" for h p
    using first_needle_in that unfolding classify_reverse_proxy_def by fastforce
  have dns: "p \<in> {''Pi-hole'', ''AdGuard Home'', ''dnsmasq'', ''Unbound'', ''CoreDNS'', ''Technitium DNS''}"
    if "classify_local_dns h = Some p" for h p
    using first_needle_in that unfolding classify_local_dns_def by fastforce
  show ?thesis
    by (auto simp: network_roles_def Let_def split: option.splits dest!: proxy dns)
qed

lemma component_suffix_inj:
  assumes "digest_len_32 sha256"
    and "x @ collision_resistant_id_component sha256 a = y @ collision_resistant_id_component sha256 b"
  shows "hex_digest sha256 a = hex_digest sha256 b"
proof -
  have "(x @ readable_slug a @ ''--'') @ hex_digest sha256 a = (y @ readable_slug b @ ''--'') @ hex_digest sha256 b"
    using assms(2) by (simp add: collision_resistant_id_component_def)
  moreover have "length (hex_digest sha256 a) = length (hex_digest sha256 b)"
    using assms(1) by (simp add: length_hex_digest)
  ultimately show ?thesis by (metis append_eq_append_conv)
qed

definition hashed_names :: "docker_snapshot \<Rightarrow> string set" where
  "hashed_names snapshot = ct_id ` set (sn_containers snapshot)
     \<union> (\<lambda>role. snd (snd role)) ` (\<Union>c \<in> set (sn_containers snapshot). set (network_roles c))"

lemma network_container_id_inj:
  assumes "digest_len_32 sha256" and inj: "inj_on (hex_digest sha256) names"
    and "a \<in> names" "b \<in> names" "p \<in> names" "q \<in> names"
    and eq: "network_container_id sha256 p a = network_container_id sha256 q b"
  shows "a = b \<and> p = q"
proof -
  note suffix = component_suffix_inj [OF assms(1)]
  have "hex_digest sha256 a = hex_digest sha256 b"
    using suffix [of "collision_resistant_id_component sha256 p @ ''_container_''" a] eq
    by (simp add: network_container_id_def)
  then have ab: "a = b" using inj assms(3,4) by (auto dest: inj_onD)
  then have "[] @ collision_resistant_id_component sha256 p = [] @ collision_resistant_id_component sha256 q"
    using eq by (simp add: network_container_id_def)
  then have "hex_digest sha256 p = hex_digest sha256 q" by (rule suffix)
  then show ?thesis using ab inj assms(5,6) by (auto dest: inj_onD)
qed

definition role_key :: "container_record \<times> network_role \<Rightarrow> string \<times> string" where
  "role_key cr = (ct_id (fst cr), snd (snd (snd cr)))"

definition found_roles :: "container_record list \<Rightarrow> (container_record \<times> network_role) list" where
  "found_roles cs = concat (map (\<lambda>c. map (Pair c) (network_roles c)) cs)"

lemma role_keys_distinct: "distinct (map ct_id cs) \<Longrightarrow> distinct (map role_key (found_roles cs))"
proof (induction cs)
  case (Cons c cs)
  have keys: "map role_key (map (Pair c) (network_roles c)) = map (Pair (ct_id c)) (map (snd \<circ> snd) (network_roles c))"
    by (simp add: role_key_def comp_def)
  have "distinct (map (Pair (ct_id c)) (map (snd \<circ> snd) (network_roles c)))"
    using network_roles_distinct unfolding distinct_map by (simp add: inj_on_def)
  then have "distinct (map role_key (map (Pair c) (network_roles c)))" unfolding keys .
  moreover have "distinct (map role_key (found_roles cs))" using Cons by simp
  moreover have "set (map role_key (map (Pair c) (network_roles c))) \<inter> set (map role_key (found_roles cs)) = {}"
    using Cons.prems by (auto simp: role_key_def found_roles_def image_iff)
  ultimately show ?case by (simp add: found_roles_def)
qed (simp add: found_roles_def)


definition proxy_container :: container_record where
  "proxy_container = (example_container ''c1'' ''web'' [])\<lparr>ct_image := ''nginx:1''\<rparr>"

definition proxy_snapshot :: docker_snapshot where
  "proxy_snapshot = example_snapshot\<lparr>sn_containers := [proxy_container]\<rparr>"

definition example_reads :: network_reads where
  "example_reads = \<lparr>nr_env = (\<lambda>_. Not_Present), nr_tailscale = Inl PCE_Spawn, nr_headscale = Inl PCE_Spawn,
     nr_path_exists = (\<lambda>_. True)\<rparr>"

lemma proxy_roles: "network_roles proxy_container = [(RPK_ReverseProxy, RNK_ReverseProxy, ''nginx'')]"
  by code_simp

lemma proxy_names: "hashed_names proxy_snapshot = {''c1'', ''nginx''}"
proof -
  have "sn_containers proxy_snapshot = [proxy_container]" "ct_id proxy_container = ''c1''"
    by (simp_all add: proxy_snapshot_def proxy_container_def example_container_def)
  then show ?thesis by (auto simp: hashed_names_def proxy_roles)
qed


end
