(* ===== verification/Listeners.thy ===== *)
theory Listeners
  imports Collection Provider_Text
begin

text \<open>
  TCP listeners (\<open>providers/listeners.rs\<close>) from the texts of \<open>/proc/net/tcp\<close> and \<open>/proc/net/tcp6\<close>,
  which are arguments. Slicing a text inside a character panics in Rust; a panic is \<open>None\<close> here.
\<close>

definition hex_nibble :: "char \<Rightarrow> nat option" where
  "hex_nibble c =
     (if is_ascii_digit c then Some (byte c - 48)
      else if 97 \<le> byte c \<and> byte c \<le> 102 then Some (byte c - 87)
      else if 65 \<le> byte c \<and> byte c \<le> 70 then Some (byte c - 55)
      else None)"

fun hex_digits_value :: "nat \<Rightarrow> string \<Rightarrow> nat option" where
  "hex_digits_value acc [] = Some acc"
| "hex_digits_value acc (c # cs) =
     (case hex_nibble c of None \<Rightarrow> None | Some d \<Rightarrow> hex_digits_value (acc * 16 + d) cs)"

text \<open>\<open>uN::from_str_radix(s, 16)\<close>: one leading plus sign is accepted when digits follow.\<close>

definition from_str_radix16 :: "nat \<Rightarrow> string \<Rightarrow> nat option" where
  "from_str_radix16 w s =
     (case s of [] \<Rightarrow> None
      | c # cs \<Rightarrow>
          (case hex_digits_value 0 (if c = CHR ''+'' \<and> cs \<noteq> [] then cs else s) of
             None \<Rightarrow> None
           | Some n \<Rightarrow> if n < 2 ^ w then Some n else None))"

text \<open>The byte offset \<open>i\<close> of a text is a character boundary.\<close>

definition char_boundary :: "string \<Rightarrow> nat \<Rightarrow> bool" where
  "char_boundary s i \<longleftrightarrow> i = length s \<or> (i < length s \<and> \<not> is_continuation (byte (s ! i)))"

definition parse_ipv4_hex :: "string \<Rightarrow> nat list option" where
  "parse_ipv4_hex raw =
     (if list_all (\<lambda>index. char_boundary raw (index * 2) \<and> char_boundary raw (index * 2 + 2)) [0..<4]
      then Some (List.map_filter (\<lambda>index. from_str_radix16 8 (take 2 (drop (index * 2) raw))) [0..<4])
      else None)"

definition dotted :: "nat \<Rightarrow> nat \<Rightarrow> nat \<Rightarrow> nat \<Rightarrow> string" where
  "dotted a b c d = show_nat a @ ''.'' @ show_nat b @ ''.'' @ show_nat c @ ''.'' @ show_nat d"

definition parse_proc_net_local_address :: "string \<Rightarrow> (string \<times> nat) option option" where
  "parse_proc_net_local_address value =
     (case split_once value (CHR '':'') of
        None \<Rightarrow> Some None
      | Some (raw_address, raw_port) \<Rightarrow>
          (case from_str_radix16 16 raw_port of
             None \<Rightarrow> Some None
           | Some port \<Rightarrow>
               if length raw_address = 8 then
                 (case parse_ipv4_hex raw_address of
                    None \<Rightarrow> None
                  | Some bytes \<Rightarrow>
                      if length bytes \<noteq> 4 then Some None
                      else Some (Some (dotted (bytes ! 3) (bytes ! 2) (bytes ! 1) (bytes ! 0), port)))
               else Some (Some (to_ascii_lowercase raw_address, port))))"

definition parse_proc_net_listener_line :: "string \<Rightarrow> (string \<times> nat \<times> string) option option" where
  "parse_proc_net_listener_line line =
     (let fields = split_whitespace line
      in if length fields < 10 \<or> fields ! 3 \<noteq> ''0A'' then Some None
         else map_option (map_option (\<lambda>(address, port). (address, port, fields ! 9)))
                (parse_proc_net_local_address (fields ! 1)))"

definition listener_node :: "digest \<Rightarrow> string \<times> nat \<times> string \<Rightarrow> runtime_map_node" where
  "listener_node sha256 l = (case l of (address, port, socket_inode) \<Rightarrow>
     \<lparr>rn_id = ''network_listener_'' @ collision_resistant_id_component sha256 address @ ''_'' @ show_nat port,
      rn_provider = RPK_Network, rn_kind = RNK_NetworkListener,
      rn_label = address @ '':'' @ show_nat port, rn_status = Some ''listening'', rn_layer = Some RNL_Host,
      rn_metadata = bt_collect [(''address'', address), (''port'', show_nat port), (''socketInode'', socket_inode)],
      rn_service = None, rn_package = None\<rparr>)"

definition PROC_TCP_TABLES :: "string list" where
  "PROC_TCP_TABLES = [''/proc/net/tcp'', ''/proc/net/tcp6'']"

fun listener_lines :: "digest \<Rightarrow> string list \<Rightarrow> runtime_map_node list option" where
  "listener_lines sha256 [] = Some []"
| "listener_lines sha256 (line # lines) =
     (case parse_proc_net_listener_line line of
        None \<Rightarrow> None
      | Some None \<Rightarrow> listener_lines sha256 lines
      | Some (Some l) \<Rightarrow> map_option ((#) (listener_node sha256 l)) (listener_lines sha256 lines))"

fun collect_listener_tables :: "digest \<Rightarrow> (string \<Rightarrow> string option) \<Rightarrow> string list
    \<Rightarrow> runtime_map_node list \<times> runtime_map_diagnostic list
    \<Rightarrow> (runtime_map_node list \<times> runtime_map_diagnostic list) option" where
  "collect_listener_tables sha256 tables [] acc = Some acc"
| "collect_listener_tables sha256 tables (path # paths) acc =
     (case tables path of
        None \<Rightarrow> collect_listener_tables sha256 tables paths
          (fst acc, push_provider_diagnostic (snd acc) RPK_Network DS_Info
             (''network listener discovery skipped for '' @ path))
      | Some content \<Rightarrow>
          (case listener_lines sha256 (drop 1 (str_lines content)) of
             None \<Rightarrow> None
           | Some nodes \<Rightarrow> collect_listener_tables sha256 tables paths (fst acc @ nodes, snd acc)))"

definition collect_network_listeners :: "digest \<Rightarrow> (string \<Rightarrow> string option)
    \<Rightarrow> (runtime_map_node list \<times> runtime_map_diagnostic list) option" where
  "collect_network_listeners sha256 tables = collect_listener_tables sha256 tables PROC_TCP_TABLES ([], [])"

end
