(* ===== verification/Provider_Props.thy ===== *)
theory Provider_Props
  imports Process_Props Cron_Tmux Listeners
begin

text \<open>
  Properties of the cron, tmux and listener providers: where the jobs come from, that the order in
  which a directory is read does not show, which results of tmux are answers, that what they declare
  can be attested, and that the addresses of listeners are read back as the kernel wrote them.
\<close>

section \<open>Scheduled jobs\<close>

lemma set_map_filter: "set (List.map_filter f xs) = {y. \<exists>x \<in> set xs. f x = Some y}"
  by (induction xs) (auto simp: map_filter_simps split: option.splits)

lemma cron_d_paths_exact:
  "index \<le> 64 \<Longrightarrow> cron_d_paths regular index selected entries
     = (if 64 < index + length entries then ([], True)
        else (bs_collect (rev (filter regular (map cron_d_path (List.map_filter (\<lambda>e. e) entries))) @ selected), False))"
proof (induction entries arbitrary: index selected)
  case (Cons entry entries)
  show ?case
  proof (cases "index = 64")
    case False
    then show ?thesis using Cons.IH [of "index + 1"] Cons.prems
      by (cases entry) (simp_all add: MAX_CRON_D_ENTRIES_def map_filter_simps)
  qed (simp add: MAX_CRON_D_ENTRIES_def)
qed (simp add: map_filter_simps)

lemma bounded_cron_d_paths_exact:
  "bounded_cron_d_paths regular entries
     = (if 64 < length entries then ([], True)
        else (bs_collect (filter regular (map cron_d_path (List.map_filter (\<lambda>e. e) entries))), False))"
  by (auto simp: bounded_cron_d_paths_def cron_d_paths_exact intro!: bs_collect_cong)

text \<open>
  C24. Reading \<open>/etc/cron.d\<close>. The jobs, their order and the diagnostics are the same in whatever order
  the file system returns the entries of the directory; and a directory with more than 64 entries
  contributes no job at all rather than some 64 of them.
\<close>

theorem cron_directory_order:
  assumes "mset entries = mset entries'"
  shows "collect_scheduled_jobs sha256 (reads\<lparr>cr_cron_d := Some entries\<rparr>)
      = collect_scheduled_jobs sha256 (reads\<lparr>cr_cron_d := Some entries'\<rparr>)
    \<and> (64 < length entries \<longrightarrow>
         fst (collect_scheduled_jobs sha256 (reads\<lparr>cr_cron_d := Some entries\<rparr>))
         = fst (collect_scheduled_jobs sha256 (reads\<lparr>cr_cron_d := Some []\<rparr>)))"
proof -
  let ?paths = "\<lambda>es. bounded_cron_d_paths (cr_regular reads) es"
  have read: "read_cron_file (reads\<lparr>cr_cron_d := d\<rparr>) = read_cron_file reads" for d
    by (intro ext) (simp add: read_cron_file_def)
  have same: "?paths entries = ?paths entries'"
    using mset_eq_length [OF assms] mset_eq_setD [OF assms] set_map_filter
    by (auto simp: bounded_cron_d_paths_exact map_filter_def intro!: bs_collect_cong)
  have "collect_cron_d_files (reads\<lparr>cr_cron_d := Some entries\<rparr>) st
      = collect_cron_d_files (reads\<lparr>cr_cron_d := Some entries'\<rparr>) st" for st
    using same by (simp add: collect_cron_d_files_def read)
  then have first: "job_sources (reads\<lparr>cr_cron_d := Some entries\<rparr>) = job_sources (reads\<lparr>cr_cron_d := Some entries'\<rparr>)"
    by (simp add: job_sources_def read)
  have "fst (job_sources (reads\<lparr>cr_cron_d := Some entries\<rparr>)) = fst (job_sources (reads\<lparr>cr_cron_d := Some []\<rparr>))"
    if "64 < length entries"
  proof -
    have "fst (collect_cron_d_files (reads\<lparr>cr_cron_d := Some entries\<rparr>) st)
        = fst (collect_cron_d_files (reads\<lparr>cr_cron_d := Some []\<rparr>) st)" for st
      using that by (simp add: collect_cron_d_files_def bounded_cron_d_paths_exact read cron_info_def bs_collect_def)
    then show ?thesis by (simp add: job_sources_def read Let_def cron_info_def split: sum.splits)
  qed
  then show ?thesis using first by (simp add: collect_scheduled_jobs_def case_prod_beta)
qed

definition example_cron :: cron_reads where
  "example_cron = \<lparr>cr_regular = (\<lambda>_. False), cr_open = (\<lambda>_. None), cr_cron_d = None,
     cr_crontab = Inr \<lparr>co_code = Some 0, co_stdout = ''@daily run'', co_stdout_truncated = False,
       co_stderr = [], co_stderr_truncated = False\<rparr>\<rparr>"

theorem cron_directory_order_witness:
  "collect_scheduled_jobs (\<lambda>_. []) (example_cron\<lparr>cr_cron_d := Some [Some ''a'', None, Some ''b'']\<rparr>)
   = collect_scheduled_jobs (\<lambda>_. []) (example_cron\<lparr>cr_cron_d := Some [Some ''b'', Some ''a'', None]\<rparr>)"
  using cron_directory_order [of "[Some ''a'', None, Some ''b'']" "[Some ''b'', Some ''a'', None]"]
  by (simp add: add_mset_commute)

text \<open>The file a job may come from: a regular file of at most 64 KiB, read in full.\<close>

definition cron_source :: "cron_reads \<Rightarrow> string \<Rightarrow> string \<Rightarrow> bool" where
  "cron_source reads path content \<longleftrightarrow>
     cr_regular reads path \<and> valid_utf8 content \<and> length content \<le> 65536
     \<and> (\<exists>f len. cr_open reads path = Some f \<and> cf_metadata f = Some (True, len) \<and> len \<le> 65536
          \<and> cf_bytes f = Some content)"

definition job_in :: "string \<Rightarrow> bool \<Rightarrow> string \<Rightarrow> cron_job \<Rightarrow> bool" where
  "job_in source user_crontab content job \<longleftrightarrow>
     (\<exists>index command. job = (source, index + 1, command) \<and> index < length (str_lines content)
        \<and> cron_command (str_lines content ! index) user_crontab = Some command)"

lemma jobs_of_lines_iff:
  "job \<in> set (jobs_of_lines source user (str_lines content)) \<longleftrightarrow> job_in source user content job"
proof
  assume "job \<in> set (jobs_of_lines source user (str_lines content))"
  then show "job_in source user content job"
    by (auto simp: jobs_of_lines_def set_map_filter job_in_def in_set_enumerate_eq)
next
  assume "job_in source user content job"
  then obtain i c where i: "job = (source, i + 1, c)" "i < length (str_lines content)"
    "cron_command (str_lines content ! i) user = Some c"
    by (auto simp: job_in_def)
  then have "(i, str_lines content ! i) \<in> set (enumerate 0 (str_lines content))"
    by (simp add: in_set_enumerate_eq)
  then show "job \<in> set (jobs_of_lines source user (str_lines content))"
    unfolding jobs_of_lines_def set_map_filter using i by force
qed

lemma read_cron_file_jobs:
  assumes "job \<in> set (fst (read_cron_file reads path st))"
  shows "job \<in> set (fst st) \<or> (\<exists>content. cron_source reads path content
    \<and> job_in (from_utf8_lossy path) False content job)"
proof -
  have take: "take 65537 bytes = bytes" if "length (take 65537 bytes) \<le> 65536" for bytes :: string
    using that by (simp split: if_splits)
  show ?thesis using assms take
    by (auto simp: read_cron_file_def read_open_cron_file_def checked_open_cron_file_def
        read_checked_cron_file_def cron_file_too_large_def cron_info_def MAX_CRON_FILE_BYTES_def
        jobs_of_lines_iff cron_source_def not_less split: if_splits option.splits)
qed

lemma fold_read_jobs:
  "job \<in> set (fst (fold (read_cron_file reads) paths st)) \<Longrightarrow>
     job \<in> set (fst st) \<or> (\<exists>path \<in> set paths. \<exists>content. cron_source reads path content
       \<and> job_in (from_utf8_lossy path) False content job)"
proof (induction paths arbitrary: st)
  case (Cons path paths)
  then show ?case using read_cron_file_jobs [of job reads path st] by fastforce
qed simp

text \<open>
  C21. Where scheduled jobs come from. Every job in the map is a line of \<open>/etc/crontab\<close>, of a file
  in \<open>/etc/cron.d\<close>, or of what a successful \<open>crontab -l\<close> printed; each file is a regular one, not
  larger than 64 KiB by its open descriptor and by what was read, and a text. The node shows the
  command with secrets redacted, and each job is declared to run on the host by exactly one edge.
\<close>

theorem scheduled_jobs_sources:
  assumes "collect_scheduled_jobs sha256 reads = (nodes, edges, diagnostics)"
  shows "\<exists>jobs. nodes = map (job_node sha256) jobs \<and> edges = map (job_edge sha256) jobs
    \<and> (\<forall>job \<in> set jobs.
         (\<exists>path content. (path = ''/etc/crontab'' \<or> (\<exists>entries name. cr_cron_d reads = Some entries
              \<and> length entries \<le> 64 \<and> Some name \<in> set entries \<and> path = ''/etc/cron.d/'' @ name))
            \<and> cron_source reads path content \<and> job_in (from_utf8_lossy path) False content job)
         \<or> (\<exists>out. cr_crontab reads = Inr out \<and> co_code out = Some 0
            \<and> job_in ''user crontab'' True (from_utf8_lossy (co_stdout out)) job))"
proof -
  let ?st = "collect_cron_d_files reads (read_cron_file reads ''/etc/crontab'' ([], []))"
  let ?file = "\<lambda>job. \<exists>path content. (path = ''/etc/crontab'' \<or> (\<exists>entries name. cr_cron_d reads = Some entries
              \<and> length entries \<le> 64 \<and> Some name \<in> set entries \<and> path = ''/etc/cron.d/'' @ name))
            \<and> cron_source reads path content \<and> job_in (from_utf8_lossy path) False content job"
  have crontab: "?file job" if "job \<in> set (fst (read_cron_file reads ''/etc/crontab'' ([], [])))" for job
    using read_cron_file_jobs [OF that] by auto
  have files: "?file job" if job: "job \<in> set (fst ?st)" for job
  proof (cases "cr_cron_d reads")
    case None
    then show ?thesis using job crontab by (simp add: collect_cron_d_files_def cron_info_def)
  next
    case (Some entries)
    let ?paths = "fst (bounded_cron_d_paths (cr_regular reads) entries)"
    obtain st' where st': "?st = fold (read_cron_file reads) ?paths st'"
      "fst st' = fst (read_cron_file reads ''/etc/crontab'' ([], []))"
      using that by (cases "snd (bounded_cron_d_paths (cr_regular reads) entries)")
        (auto simp: collect_cron_d_files_def Some cron_info_def Let_def case_prod_beta)
    have "job \<in> set (fst (read_cron_file reads ''/etc/crontab'' ([], [])))
        \<or> (\<exists>path \<in> set ?paths. \<exists>content. cron_source reads path content \<and> job_in (from_utf8_lossy path) False content job)"
      using fold_read_jobs [of job reads ?paths st'] job unfolding st' by simp
    then consider "job \<in> set (fst (read_cron_file reads ''/etc/crontab'' ([], [])))"
      | path content where "path \<in> set ?paths" "cron_source reads path content"
        "job_in (from_utf8_lossy path) False content job"
      by blast
    moreover have entry: "(\<exists>name. Some name \<in> set entries \<and> path = ''/etc/cron.d/'' @ name) \<and> length entries \<le> 64"
      if "path \<in> set ?paths" for path
      using that by (auto simp: bounded_cron_d_paths_exact set_map_filter cron_d_path_def split: if_splits)
    ultimately show ?thesis
    proof cases
      case 1
      then show ?thesis by (rule crontab)
    next
      case (2 path content)
      then obtain name where "Some name \<in> set entries" "path = ''/etc/cron.d/'' @ name" "length entries \<le> 64"
        using entry by blast
      then show ?thesis using 2(2,3) Some
        by (intro exI [of _ path] exI [of _ content] conjI disjI2 exI [of _ entries] exI [of _ name])
    qed
  qed
  have jobs: "nodes = map (job_node sha256) (fst (job_sources reads))" "edges = map (job_edge sha256) (fst (job_sources reads))"
    using assms by (auto simp: collect_scheduled_jobs_def case_prod_beta)
  have "?file job \<or> (\<exists>out. cr_crontab reads = Inr out \<and> co_code out = Some 0
            \<and> job_in ''user crontab'' True (from_utf8_lossy (co_stdout out)) job)"
    if job: "job \<in> set (fst (job_sources reads))" for job
  proof (cases "job \<in> set (fst ?st)")
    case True
    then show ?thesis using files by blast
  next
    case False
    then obtain out where "cr_crontab reads = Inr out" "command_success out"
      "job \<in> set (jobs_of_lines ''user crontab'' True (str_lines (from_utf8_lossy (co_stdout out))))"
      using job by (auto simp: job_sources_def Let_def cron_info_def split: sum.splits if_splits)
    then show ?thesis by (auto simp: jobs_of_lines_iff command_success_def)
  qed
  then show ?thesis using jobs by blast
qed

lemma example_command: "cron_command ''@daily run'' True = Some ''run''"
proof -
  let ?line = "''@daily run''"
  have a: "\<forall>c \<in> set ?line. byte c < 128" by (simp add: byte_def)
  have h: "split_ws (map byte ?line) = [map byte ''@daily'', map byte ''run'']"
    by (simp add: byte_def is_whitespace_def)
  have f: "split_whitespace ?line = [''@daily'', ''run'']"
    unfolding split_whitespace_ascii(1) [OF a] h by (simp only: list.map char_of_byte)
  have t: "trim ?line = ?line" by (rule trim_id [OF a]) (simp_all add: byte_def is_whitespace_def)
  have r: "trim '' run'' = ''run''"
    by (subst trim_Cons) (simp_all add: byte_def is_whitespace_def trim_id)
  have "skip_tokens ?line [''@daily''] = Some '' run''" by simp
  then show ?thesis unfolding cron_command_def Let_def t f by (simp add: r starts_with_def)
qed

theorem scheduled_jobs_sources_witness:
  "\<exists>job. job_node (\<lambda>_. []) job \<in> set (fst (collect_scheduled_jobs (\<lambda>_. []) example_cron))
     \<and> job_in ''user crontab'' True (from_utf8_lossy ''@daily run'') job"
proof -
  let ?text = "''@daily run''"
  have one_line: "str_lines (from_utf8_lossy ?text) = [?text]"
    by (subst lossy_ascii) (simp_all add: byte_def str_lines_single LF_def)
  obtain nodes edges ds where run: "collect_scheduled_jobs (\<lambda>_. []) example_cron = (nodes, edges, ds)"
    by (metis prod_cases3)
  obtain jobs where jobs: "nodes = map (job_node (\<lambda>_. [])) jobs"
    "\<forall>job \<in> set jobs. job_in ''user crontab'' True (from_utf8_lossy ?text) job"
    using scheduled_jobs_sources [OF run] by (auto simp: example_cron_def cron_source_def)
  have "nodes \<noteq> []"
    using run by (auto simp: collect_scheduled_jobs_def job_sources_def example_cron_def command_success_def
        one_line jobs_of_lines_def example_command Let_def case_prod_beta)
  then obtain job where "job \<in> set jobs" using jobs(1) by (cases jobs) auto
  then show ?thesis using jobs run by (intro exI [of _ job]) auto
qed

section \<open>Tmux\<close>

text \<open>What tmux prints when there is no server, with or without a final line feed.\<close>

definition no_server_text :: "string \<Rightarrow> bool" where
  "no_server_text stderr \<longleftrightarrow> valid_utf8 stderr \<and>
     (\<exists>location. (stderr = ''no server running on '' @ location \<or> stderr = ''no server running on '' @ location @ [LF])
        \<and> location \<noteq> [] \<and> LF \<notin> set location \<and> CR \<notin> set location)"

lemma strip_prefix_case:
  "(case strip_prefix d p of None \<Rightarrow> False | Some l \<Rightarrow> P l) \<longleftrightarrow> (\<exists>l. d = p @ l \<and> P l)"
proof (cases "strip_prefix d p")
  case None
  then have "d \<noteq> p @ l" for l using strip_prefix_Some [of d p l] by auto
  then show ?thesis using None by simp
next
  case (Some l)
  then have "d = p @ l" by (simp add: strip_prefix_Some)
  then show ?thesis using Some by auto
qed

lemma no_server_iff: "is_tmux_no_server_diagnostic stderr truncated \<longleftrightarrow> \<not> truncated \<and> no_server_text stderr"
proof -
  let ?p = "''no server running on ''"
  let ?ok = "\<lambda>d. \<exists>l. d = ?p @ l \<and> l \<noteq> [] \<and> LF \<notin> set l \<and> CR \<notin> set l"
  have step: "(case strip_prefix d ?p of None \<Rightarrow> False | Some l \<Rightarrow> l \<noteq> [] \<and> LF \<notin> set l \<and> CR \<notin> set l) \<longleftrightarrow> ?ok d" for d
    by (rule strip_prefix_case)
  have "?ok (case strip_suffix stderr [LF] of Some d \<Rightarrow> d | None \<Rightarrow> stderr)
      \<longleftrightarrow> (\<exists>l. (stderr = ?p @ l \<or> stderr = ?p @ l @ [LF]) \<and> l \<noteq> [] \<and> LF \<notin> set l \<and> CR \<notin> set l)"
  proof (cases "strip_suffix stderr [LF]")
    case None
    have "stderr \<noteq> ?p @ l @ [LF]" for l
      using None by (auto simp: strip_suffix_def suffix_def split: if_splits)
    then show ?thesis using None by auto
  next
    case (Some d)
    then have d: "stderr = d @ [LF]" by (simp add: strip_suffix_Some)
    have "stderr \<noteq> ?p @ l" if "LF \<notin> set l" "l \<noteq> []" for l
      using that d by (cases l rule: rev_cases) auto
    then show ?thesis using Some d by auto
  qed
  then show ?thesis unfolding is_tmux_no_server_diagnostic_def no_server_text_def Let_def step by blast
qed

lemma tmux_scan_exact:
  "length nodes < 64 \<Longrightarrow> tmux_session_scan sha256 key nodes lines
     = take 64 (nodes @ map (\<lambda>l. tmux_session_node sha256 key (hd (split_char TAB l)))
         (filter (\<lambda>l. 4 \<le> length (split_char TAB l)) lines))"
proof (induction lines arbitrary: nodes)
  case (Cons line lines)
  show ?case
  proof (cases "length nodes = 63")
    case True
    then show ?thesis using Cons by (auto simp: Let_def MAX_TMUX_SESSIONS_def)
  next
    case False
    then show ?thesis using Cons.IH [of "nodes @ [tmux_session_node sha256 key (hd (split_char TAB line))]"]
        Cons.IH [of nodes] Cons.prems by (auto simp: Let_def MAX_TMUX_SESSIONS_def)
  qed
qed simp

definition session_edge :: "runtime_map_node \<Rightarrow> runtime_map_edge" where
  "session_edge n = \<lparr>re_source = rn_id n, re_target = ''host_local'', re_relationship = RRK_RunsOn,
     re_metadata = [(TMUX_EVIDENCE_SESSION_LISTING_MARKER, ''observed'')], re_evidence_refs = []\<rparr>"


section \<open>Attestation\<close>

text \<open>
  What a provider declares can be attested. Each edge that the cron and the tmux provider hand
  over is accepted by the attestation of its slot: bound to a revision it carries exactly one
  reference, and the private marker is gone. No scheduled job and no session is left without evidence.
\<close>

lemma declared_edges_attested:
  "(\<forall>edge \<in> set (fst (snd (collect_scheduled_jobs sha256 reads))).
      \<exists>ref bound. bound = bind_edge_evidence CRON_EVIDENCE_SCHEDULE_MARKER
          (cron_attestation sha256 revision collected_at freshness) edge
        \<and> re_evidence_refs bound = [ref] \<and> ev_subject_ref ref = re_source edge \<and> re_metadata bound = [])
   \<and> (\<forall>edge \<in> session_edge ` tmux_session_node sha256 key ` ids.
      \<exists>ref bound. bound = bind_edge_evidence TMUX_EVIDENCE_SESSION_LISTING_MARKER
          (tmux_attestation sha256 revision collected_at freshness) edge
        \<and> re_evidence_refs bound = [ref] \<and> ev_subject_ref ref = re_source edge \<and> re_metadata bound = [])"
proof (intro conjI ballI)
  fix edge assume "edge \<in> set (fst (snd (collect_scheduled_jobs sha256 reads)))"
  then obtain job where "edge = job_edge sha256 job"
    by (auto simp: collect_scheduled_jobs_def case_prod_beta)
  then show "\<exists>ref bound. bound = bind_edge_evidence CRON_EVIDENCE_SCHEDULE_MARKER
          (cron_attestation sha256 revision collected_at freshness) edge
        \<and> re_evidence_refs bound = [ref] \<and> ev_subject_ref ref = re_source edge \<and> re_metadata bound = []"
    by (cases job) (auto simp: bind_edge_evidence_def job_edge_def job_id_def cron_attestation_def Let_def
        starts_with_def bt_get_def bt_remove_def)
next
  fix edge assume "edge \<in> session_edge ` tmux_session_node sha256 key ` ids"
  then show "\<exists>ref bound. bound = bind_edge_evidence TMUX_EVIDENCE_SESSION_LISTING_MARKER
          (tmux_attestation sha256 revision collected_at freshness) edge
        \<and> re_evidence_refs bound = [ref] \<and> ev_subject_ref ref = re_source edge \<and> re_metadata bound = []"
    by (auto simp: bind_edge_evidence_def session_edge_def tmux_session_node_def tmux_attestation_def Let_def
        starts_with_def bt_get_def bt_remove_def)
qed

section \<open>Listeners\<close>

text \<open>
  How the kernel writes a listening IPv4 socket on a little-endian machine: the four bytes of the
  address in memory order and the port, in upper-case hexadecimal.
\<close>

definition hex_upper :: "nat \<Rightarrow> char" where
  "hex_upper n = (if n < 10 then char_of (48 + n) else char_of (55 + n))"

definition kernel_byte :: "nat \<Rightarrow> string" where
  "kernel_byte n = [hex_upper (n div 16), hex_upper (n mod 16)]"

definition kernel_address :: "nat \<Rightarrow> nat \<Rightarrow> nat \<Rightarrow> nat \<Rightarrow> nat \<Rightarrow> string" where
  "kernel_address a b c d port = kernel_byte d @ kernel_byte c @ kernel_byte b @ kernel_byte a @ '':''
     @ kernel_byte (port div 256) @ kernel_byte (port mod 256)"

lemma hex_upper_facts:
  assumes "n < 16"
  shows "hex_nibble (hex_upper n) = Some n" "hex_upper n \<noteq> CHR ''+''" "hex_upper n \<noteq> CHR '':''"
    "\<not> is_continuation (byte (hex_upper n))"
proof -
  have b: "byte (hex_upper n) = (if n < 10 then 48 + n else 55 + n)"
    using assms by (simp add: hex_upper_def)
  then show "hex_nibble (hex_upper n) = Some n" using assms by (simp add: hex_nibble_def is_ascii_digit_def)
  have "byte (hex_upper n) \<noteq> byte (CHR ''+'')" "byte (hex_upper n) \<noteq> byte (CHR '':'')"
    using assms b by (auto simp: byte_def [of "CHR ''+''"] byte_def [of "CHR '':''"])
  then show "hex_upper n \<noteq> CHR ''+''" "hex_upper n \<noteq> CHR '':''" by metis+
  show "\<not> is_continuation (byte (hex_upper n))" using assms b by (auto simp: is_continuation_def)
qed

lemma kernel_byte_value:
  assumes "n < 256"
  shows "hex_digits_value acc (kernel_byte n @ s) = hex_digits_value (acc * 256 + n) s"
    "from_str_radix16 8 (kernel_byte n) = Some n"
proof -
  have lt: "n div 16 < 16" "n mod 16 < 16" using assms by auto
  have "(acc * 16 + n div 16) * 16 + n mod 16 = acc * 256 + n" for acc :: nat by simp
  moreover have "hex_digits_value acc (kernel_byte n @ s) = hex_digits_value ((acc * 16 + n div 16) * 16 + n mod 16) s" for acc s
    by (simp add: kernel_byte_def hex_upper_facts(1) [OF lt(1)] hex_upper_facts(1) [OF lt(2)] del: div_mult_mod_eq)
  ultimately show v: "hex_digits_value acc (kernel_byte n @ s) = hex_digits_value (acc * 256 + n) s" for acc s
    by metis
  show "from_str_radix16 8 (kernel_byte n) = Some n"
    using v [of 0 "[]"] assms hex_upper_facts(2) [OF lt(1)] by (simp add: from_str_radix16_def kernel_byte_def)
qed

text \<open>
  Listening sockets. A line of the kernel's table for a listening IPv4 socket gives back the
  address in dotted form, the port and the inode, for every address and port.
\<close>

lemma listener_line_roundtrip:
  assumes "a < 256" "b < 256" "c < 256" "d < 256" and "port < 65536"
    and "fs = split_whitespace line" and "10 \<le> length fs"
    and "fs ! 1 = kernel_address a b c d port" and "fs ! 3 = ''0A''"
  shows "parse_proc_net_listener_line line = Some (Some (dotted a b c d, port, fs ! 9))"
proof -
  let ?raw = "kernel_byte d @ kernel_byte c @ kernel_byte b @ kernel_byte a"
  let ?port = "kernel_byte (port div 256) @ kernel_byte (port mod 256)"
  have p: "port div 256 < 256" "port mod 256 < 256" using assms(5) by auto
  have nib: "n div 16 < 16" "n mod 16 < 16" if "n < 256" for n :: nat using that by auto
  have "CHR '':'' \<notin> set (kernel_byte n)" if "n < 256" for n
    using hex_upper_facts(3) [OF nib(1) [OF that]] hex_upper_facts(3) [OF nib(2) [OF that]] by (auto simp: kernel_byte_def)
  then have split: "split_once (kernel_address a b c d port) (CHR '':'') = Some (?raw, ?port)"
    using assms(1-4) by (subst split_once_Some) (simp add: kernel_address_def)
  have "from_str_radix16 16 ?port = Some port"
  proof -
    have "hex_digits_value 0 ?port = Some port"
      using kernel_byte_value(1) [OF p(1), of 0] kernel_byte_value(1) [OF p(2), of _ "[]"] by simp
    then show ?thesis using assms(5) hex_upper_facts(2) [OF nib(1) [OF p(1)]]
      by (simp add: from_str_radix16_def kernel_byte_def)
  qed
  moreover have "parse_ipv4_hex ?raw = Some [d, c, b, a]"
  proof -
    have k: "length (kernel_byte n) = 2" for n by (simp add: kernel_byte_def)
    have upt: "[0..<4] = [0, 1, 2, 3::nat]" by (simp add: upt_rec)
    have cont: "\<not> is_continuation (byte (?raw ! i))" if "i < 8" for i
    proof -
      have "?raw ! i \<in> set ?raw" using that by (intro nth_mem) (simp add: k)
      then show ?thesis using hex_upper_facts(4) nib assms(1-4) by (auto simp: kernel_byte_def)
    qed
    have "list_all (\<lambda>index. char_boundary ?raw (index * 2) \<and> char_boundary ?raw (index * 2 + 2)) [0..<4]"
      using cont by (auto simp: list_all_iff char_boundary_def k)
    moreover have "take 2 ?raw = kernel_byte d" "take 2 (drop 2 ?raw) = kernel_byte c"
      "take 2 (drop 4 ?raw) = kernel_byte b" "take 2 (drop 6 ?raw) = kernel_byte a"
      by (simp_all add: k)
    ultimately show ?thesis using kernel_byte_value(2) assms(1-4)
      by (simp add: parse_ipv4_hex_def upt del: append_assoc)
  qed
  ultimately have "parse_proc_net_local_address (kernel_address a b c d port) = Some (Some (dotted a b c d, port))"
    by (simp add: parse_proc_net_local_address_def split) (simp add: kernel_byte_def)
  then show ?thesis using assms(6-9) by (simp add: parse_proc_net_listener_line_def Let_def)
qed

end
