(* ===== verification/Systemd_Props.thy ===== *)
theory Systemd_Props
  imports Systemd
begin

text \<open>
  Properties of the systemd provider: which dependencies are declared and that both of their ends are
  nodes, and what the cap on units does to a service that several units depend on.
\<close>

lemma set_dependencies_of:
  "set (dependencies_of sha256 d) = {(systemd_node_id sha256 (sd_id d), systemd_node_id sha256 u, kind) | kind u.
     (kind, u) \<in> set (systemd_dependency_pairs d) \<and> systemd_node_id sha256 (sd_id d) \<noteq> systemd_node_id sha256 u}"
  by (auto simp: dependencies_of_def)

lemma dependency_edge_inj: "inj dependency_edge"
proof (rule injI)
  fix x y assume "dependency_edge x = dependency_edge y"
  moreover have "dependency_relationship k = dependency_relationship k' \<Longrightarrow> k = k'" for k k'
    by (cases k; cases k') auto
  ultimately show "x = y" by (cases x; cases y) (auto simp: dependency_edge_def)
qed

lemma distinct_bs_collect: "distinct (bs_collect xs)"
  by (simp add: bs_collect_def)

lemma node_id [simp]: "rn_id (systemd_runtime_node sha256 unit s d uptime) = systemd_node_id sha256 unit"
  by (simp add: systemd_runtime_node_def)

definition declares :: "systemd_unit_details \<Rightarrow> systemd_dependency_kind \<Rightarrow> string \<Rightarrow> bool" where
  "declares d kind u \<longleftrightarrow> u \<in> set (case kind of Dep_Requires \<Rightarrow> sd_requires d | Dep_Wants \<Rightarrow> sd_wants d
     | Dep_PartOf \<Rightarrow> sd_part_of d)"

lemma declares_iff: "(kind, u) \<in> set (systemd_dependency_pairs d) \<longleftrightarrow> declares d kind u"
  by (cases kind) (auto simp: declares_def systemd_dependency_pairs_def)

text \<open>
  C28. Declared dependencies of systemd services. The inventory has an edge exactly for each unit whose
  details were shown, each kind and each service it names by that kind, other than itself; no edge
  twice. If the details are of listed units, both ends of every edge are nodes of the inventory, so
  that no dependency dangles, whether or not the service it names was listed.
\<close>

theorem systemd_dependencies_exact:
  assumes "systemd_inventory sha256 uptime summaries details = (nodes, edges)"
    and "\<forall>d \<in> snd ` set details. sd_id d \<in> su_unit ` set summaries"
  shows "distinct edges
    \<and> set edges = {dependency_edge (systemd_node_id sha256 (sd_id d), systemd_node_id sha256 u, kind) | d kind u.
         d \<in> snd ` set details \<and> declares d kind u
         \<and> systemd_node_id sha256 (sd_id d) \<noteq> systemd_node_id sha256 u}
    \<and> (\<forall>e \<in> set edges. re_source e \<in> rn_id ` set nodes \<and> re_target e \<in> rn_id ` set nodes)"
proof -
  let ?ds = "map snd details"
  have "map rn_id nodes = map (systemd_node_id sha256)
      (map su_unit summaries @ concat (map (unlisted_dependencies sha256 (map su_unit summaries)) ?ds))"
    using assms(1) by (auto simp: systemd_inventory_def Let_def comp_def)
  then have "set (map rn_id nodes) = set (map (systemd_node_id sha256)
      (map su_unit summaries @ concat (map (unlisted_dependencies sha256 (map su_unit summaries)) ?ds)))"
    by (rule arg_cong)
  then have nodes: "rn_id ` set nodes = systemd_node_id sha256 ` (su_unit ` set summaries)
      \<union> systemd_node_id sha256 ` (\<Union>d \<in> set ?ds. set (unlisted_dependencies sha256 (map su_unit summaries) d))"
    by (simp add: image_Un image_UN image_image)
  have edges: "edges = map dependency_edge (bs_collect (concat (map (dependencies_of sha256) ?ds)))"
    using assms(1) by (auto simp: systemd_inventory_def Let_def)
  have set_edges: "set edges = dependency_edge ` (\<Union>d \<in> set ?ds. set (dependencies_of sha256 d))"
    by (simp add: edges)
  have "set edges = {dependency_edge (systemd_node_id sha256 (sd_id d), systemd_node_id sha256 u, kind) | d kind u.
         d \<in> snd ` set details \<and> declares d kind u
         \<and> systemd_node_id sha256 (sd_id d) \<noteq> systemd_node_id sha256 u}"
    unfolding set_edges set_dependencies_of by (auto simp: declares_iff)
  moreover have "distinct edges"
    unfolding edges by (metis dependency_edge_inj distinct_bs_collect distinct_map inj_on_subset subset_UNIV)
  moreover have "re_source e \<in> rn_id ` set nodes \<and> re_target e \<in> rn_id ` set nodes" if "e \<in> set edges" for e
  proof -
    obtain d kind u where d: "d \<in> set ?ds" "(kind, u) \<in> set (systemd_dependency_pairs d)"
      "systemd_node_id sha256 (sd_id d) \<noteq> systemd_node_id sha256 u"
      "e = dependency_edge (systemd_node_id sha256 (sd_id d), systemd_node_id sha256 u, kind)"
      using \<open>e \<in> set edges\<close> unfolding set_edges set_dependencies_of by auto
    have "sd_id d \<in> su_unit ` set summaries" using assms(2) d(1) by auto
    moreover have "u \<in> su_unit ` set summaries \<or> u \<in> set (unlisted_dependencies sha256 (map su_unit summaries) d)"
      using d(2,3) by (force simp: unlisted_dependencies_def)
    ultimately show ?thesis using d(1) unfolding nodes by (auto simp: d(4) dependency_edge_def)
  qed
  ultimately show ?thesis by blast
qed

definition example_details :: "string \<Rightarrow> string list \<Rightarrow> systemd_unit_details" where
  "example_details unit wants = empty_details\<lparr>sd_id := unit, sd_wants := wants\<rparr>"

definition example_unit :: systemd_unit_summary where
  "example_unit = \<lparr>su_unit = ''a.service'', su_active_state = ''active'', su_sub_state = ''running'', su_description = []\<rparr>"

theorem systemd_dependencies_exact_witness:
  "\<exists>nodes edges. systemd_inventory (\<lambda>_. []) None [example_unit]
       [(''a.service'', example_details ''a.service'' [''b.service''])] = (nodes, edges) \<and> distinct edges"
proof -
  obtain nodes edges where run: "systemd_inventory (\<lambda>_. []) None [example_unit]
      [(''a.service'', example_details ''a.service'' [''b.service''])] = (nodes, edges)"
    by (metis surj_pair)
  have "\<forall>d \<in> snd ` set [(''a.service'', example_details ''a.service'' [''b.service''])].
      sd_id d \<in> su_unit ` set [example_unit]"
    by (simp add: example_details_def example_unit_def)
  from systemd_dependencies_exact [OF run this] show ?thesis using run by blast
qed

section \<open>Services outside the list\<close>

text \<open>
  Each unit that names a service outside the list adds a node for it: two units with one such
  dependency give two nodes with the same identifier.
\<close>

lemma shared_unlisted_dependency_collides:
  assumes "systemd_inventory sha256 uptime summaries [(k, d), (k', d')] = (nodes, edges)"
    and "u \<notin> su_unit ` set summaries" and "declares d kind u" and "declares d' kind' u"
    and "systemd_node_id sha256 (sd_id d) \<noteq> systemd_node_id sha256 u"
    and "systemd_node_id sha256 (sd_id d') \<noteq> systemd_node_id sha256 u"
  shows "\<not> distinct (map rn_id nodes)"
proof -
  have "u \<in> set (unlisted_dependencies sha256 (map su_unit summaries) d)"
    "u \<in> set (unlisted_dependencies sha256 (map su_unit summaries) d')"
    using assms(2-6) by (force simp: unlisted_dependencies_def declares_iff [symmetric])+
  moreover have "nodes = map (\<lambda>s. systemd_runtime_node sha256 (su_unit s) (Some s)
        (bt_get [(k, d), (k', d')] (su_unit s)) uptime) summaries
      @ map (\<lambda>u. systemd_runtime_node sha256 u None None uptime)
          (unlisted_dependencies sha256 (map su_unit summaries) d @ unlisted_dependencies sha256 (map su_unit summaries) d')"
    using assms(1) by (simp add: systemd_inventory_def Let_def)
  ultimately show ?thesis by (auto simp: comp_def)
qed

end
