(* ===== verification/Provider_Slots.thy ===== *)
theory Provider_Slots
  imports Npm_Props Provider_Props Systemd_Props
begin

text \<open>
  The slots over the providers (\<open>runtime_collection.rs\<close>): the observations that
  \<open>collect_provider_slot\<close> combines are those of the provider models, over one record with
  everything the daemon can read of its host.
\<close>

section \<open>The readings of the host\<close>

record host_system =
  hs_project_root :: "string option"
  hs_hostname :: string
  hs_network :: network_reads
  hs_json :: "string \<Rightarrow> json option"
  hs_tcp_tables :: "string \<Rightarrow> string option"
  hs_pm2 :: command_result
  hs_tmux :: command_result
  hs_tmux_key :: "8 word list"
  hs_cron :: cron_reads
  hs_uptime :: "(nat \<Rightarrow> nat) option"
  hs_list_units :: command_result
  hs_show_units :: "string list \<Rightarrow> command_result"
  hs_proc :: proc_reads
  hs_python_table :: command_result
  hs_native_table :: command_result
  hs_npm :: npm_io
  hs_manifest :: "string \<Rightarrow> string + package_manifest_document"

definition without_edges :: "process_view \<Rightarrow> observation" where
  "without_edges view = (fst view, [], snd view)"

text \<open>The listeners are an argument: a malformed line of their table can end the pass.\<close>

definition observe :: "digest \<Rightarrow> host_system \<Rightarrow> process_view \<Rightarrow> host_observations" where
  "observe sha256 sys listeners =
     \<lparr>ho_project_root = hs_project_root sys, ho_hostname = hs_hostname sys,
      ho_network = collect_network_infrastructure sha256 (hs_json sys) (hs_network sys),
      ho_listeners = without_edges listeners,
      ho_pm2 = without_edges (collect_pm2_apps sha256 (hs_json sys) (hs_pm2 sys)),
      ho_tmux = collect_tmux_sessions_with_runner sha256 (hs_tmux_key sys) (hs_tmux sys),
      ho_cron = collect_scheduled_jobs sha256 (hs_cron sys),
      ho_systemd = collect_systemd_services_with_runner sha256 (hs_uptime sys) (hs_list_units sys) (hs_show_units sys),
      ho_python = (\<lambda>restricted. without_edges (collect_python_processes (hs_proc sys) (hs_python_table sys) restricted)),
      ho_native = (\<lambda>restricted. without_edges
        (collect_native_processes_with_scope (hs_proc sys) (hs_native_table sys) restricted)),
      ho_npm = collect_npm_projects sha256 (hs_npm sys) (hs_manifest sys)\<rparr>"

text \<open>One pass over a slot; \<open>None\<close> is a pass that panics.\<close>

definition collect_slot :: "digest \<Rightarrow> host_system \<Rightarrow> pid_namespace_scope \<Rightarrow> docker_snapshot \<Rightarrow> provider_slot
    \<Rightarrow> (provider_collection_error + provider_collection) option" where
  "collect_slot sha256 sys scope snapshot slot =
     map_option (\<lambda>listeners. collect_provider_slot (observe sha256 sys listeners) scope snapshot slot)
       (if slot = Slot_HostScoped \<and> \<not> is_restricted scope then collect_network_listeners sha256 (hs_tcp_tables sys)
        else Some ([], []))"

section \<open>Failed commands\<close>

text \<open>The providers that parse JSON report either their nodes or one diagnostic, never both.\<close>

definition all_or_nothing :: "command_result \<Rightarrow> process_view \<Rightarrow> bool" where
  "all_or_nothing command view \<longleftrightarrow> snd view = [] \<and> (\<exists>output. command = Inr output \<and> command_success output)
     \<or> fst view = [] \<and> length (snd view) = 1"

lemma overlay_failure_nothing: "all_or_nothing command (overlay_failure provider severity message)"
  by (simp add: all_or_nothing_def overlay_failure_def push_provider_diagnostic_def)

lemma json_providers_all_or_nothing:
  "all_or_nothing command (collect_pm2_apps sha256 parse command)"
  "all_or_nothing command (collect_tailscale sha256 parse command)"
  "all_or_nothing command (collect_headscale sha256 parse command)"
  unfolding collect_pm2_apps_def collect_tailscale_def collect_headscale_def
  by (cases command; simp add: overlay_failure_nothing split: option.split; simp add: all_or_nothing_def)+

section \<open>A restricted namespace\<close>

lemma network_restricted:
  "collect_network_infrastructure sha256 parse reads Scope_Restricted snapshot
     = collect_network_infrastructure sha256 parse' reads' Scope_Restricted snapshot"
  by (simp add: collect_network_infrastructure_def)

lemma processes_restricted:
  "collect_python_processes proc command True = collect_python_processes proc' command' True"
  "collect_native_processes_with_scope proc command True = collect_native_processes_with_scope proc' command' True"
  by (simp_all add: collect_python_processes_def collect_native_processes_with_scope_def collect_with_command_def)

lemma processes_restricted_nodes [simp]:
  "fst (collect_python_processes proc command True) = []"
  "fst (collect_native_processes_with_scope proc command True) = []"
  by (simp_all add: collect_python_processes_def collect_native_processes_with_scope_def collect_with_command_def)

text \<open>
  C10. Nothing of the host is collected without an explicit request. Unless the environment says exactly
  \<open>host\<close>, no slot fails or panics, and what it collects is a function of the Docker inventory
  and of the project alone: two systems with one project give the same collection whatever their
  files, sockets, process tables, commands, unit lists and host names are. Only the slots of the
  network and of npm collect nodes and edges at all.
\<close>

theorem restricted_collection_isolated:
  assumes "env \<noteq> Some ''host''"
    and "scope = pid_namespace_scope_from_evidence (from_env_value env) cgroup dockerenv systemd_marker podman_marker"
    and "hs_project_root sys' = hs_project_root sys" and "hs_npm sys' = hs_npm sys" and "hs_manifest sys' = hs_manifest sys"
  shows "\<exists>c. collect_slot sha256 sys scope snapshot slot = Some (Inr c)
    \<and> collect_slot sha256 sys' scope snapshot slot = Some (Inr c)
    \<and> (slot = Slot_NetworkInfrastructure \<or> slot = Slot_ProjectNpm \<or> pc_nodes c = [] \<and> pc_edges c = [])"
proof -
  have "is_restricted scope" using assms(1,2) scope_from_env by simp
  then have scope: "scope = Scope_Restricted" by (cases scope) auto
  note [simp] = scope collect_slot_def collect_provider_slot_def observe_def without_edges_def add_observation_def
  show ?thesis
  proof (cases slot)
    case Slot_NetworkInfrastructure
    then show ?thesis using network_restricted [of sha256 "hs_json sys" "hs_network sys" snapshot "hs_json sys'" "hs_network sys'"]
      by simp
  next
    case Slot_PythonProcesses
    then show ?thesis using processes_restricted(1) [of "hs_proc sys" "hs_python_table sys" "hs_proc sys'" "hs_python_table sys'"]
      by (simp add: case_prod_beta)
  next
    case Slot_NativeProcesses
    then show ?thesis using processes_restricted(2) [of "hs_proc sys" "hs_native_table sys" "hs_proc sys'" "hs_native_table sys'"]
      by (simp add: case_prod_beta)
  next
    case Slot_ProjectNpm
    then show ?thesis using assms(3-5) by (simp split: option.splits)
  qed (simp_all add: collect_host_slot_def collect_host_scoped_runtime_providers_def
      collect_tmux_runtime_provider_def collect_cron_runtime_provider_def collect_systemd_runtime_provider_def)
qed

definition example_system :: "string \<Rightarrow> command_result \<Rightarrow> host_system" where
  "example_system hostname command =
     \<lparr>hs_project_root = Some ''/p'', hs_hostname = hostname, hs_network = example_reads, hs_json = (\<lambda>_. None),
      hs_tcp_tables = (\<lambda>_. None), hs_pm2 = command, hs_tmux = command, hs_tmux_key = [], hs_cron = example_cron,
      hs_uptime = None, hs_list_units = command, hs_show_units = (\<lambda>_. command),
      hs_proc = \<lparr>proc_cgroup = (\<lambda>_. None), proc_comm = (\<lambda>_. None), proc_self = 1\<rparr>,
      hs_python_table = command, hs_native_table = command, hs_npm = example_npm, hs_manifest = (\<lambda>_. Inr example_manifest)\<rparr>"

theorem restricted_collection_isolated_witness:
  "\<exists>c. collect_slot toy_digest (example_system ''a'' (Inl PCE_Spawn)) Scope_Restricted example_snapshot Slot_Systemd = Some (Inr c)
    \<and> collect_slot toy_digest (example_system ''b'' (Inl PCE_Wait)) Scope_Restricted example_snapshot Slot_Systemd = Some (Inr c)
    \<and> pc_nodes c = []"
proof -
  have "Scope_Restricted = pid_namespace_scope_from_evidence (from_env_value (Some ''restricted'')) [] False False False"
    by (simp add: pid_namespace_scope_from_evidence_def from_env_value_def)
  then show ?thesis
    using restricted_collection_isolated [of "Some ''restricted''" Scope_Restricted "[]" False False False
        "example_system ''b'' (Inl PCE_Wait)" "example_system ''a'' (Inl PCE_Spawn)" toy_digest example_snapshot Slot_Systemd]
    by (auto simp: example_system_def)
qed

end
