(* ===== verification/Command_Runner.thy ===== *)
theory Command_Runner
  imports Process_Table
begin

text \<open>
  Running a provider command (\<open>process_runner.rs\<close>): the deadline, the poll of the child, the two
  bounded readers, and the kill of the process group. What the operating system does in one run is
  the argument \<open>command_run\<close>; times are nanoseconds since the start of the run.
\<close>

section \<open>A run\<close>

datatype child_poll = Poll_Failed | Poll_Exited "int option" | Poll_Running

text \<open>
  \<open>cn_poll i\<close> is the \<open>i\<close>-th answer of \<open>try_wait\<close> and \<open>cn_elapsed i\<close> the time that is read after it. A
  stream has the chunks that \<open>read\<close> returns, or \<open>None\<close> when its reader delivers nothing before the deadline.
\<close>

record command_run =
  cn_spawned :: bool
  cn_spawn_elapsed :: nat
  cn_poll :: "nat \<Rightarrow> child_poll"
  cn_elapsed :: "nat \<Rightarrow> nat"
  cn_stdout :: "string list option"
  cn_stderr :: "string list option"

datatype wait_end = Wait_Error | Wait_Exited "int option" | Wait_Deadline

definition POLL_INTERVAL :: nat where "POLL_INTERVAL = 25000000"

text \<open>The loop over \<open>try_wait\<close>: nothing but the clock of the run makes it end.\<close>

partial_function (option) wait_child :: "command_run \<Rightarrow> nat \<Rightarrow> nat \<Rightarrow> wait_end option" where
  "wait_child run timeout i =
     (case cn_poll run i of
        Poll_Failed \<Rightarrow> Some Wait_Error
      | Poll_Exited status \<Rightarrow> Some (Wait_Exited status)
      | Poll_Running \<Rightarrow>
          if timeout \<le> cn_elapsed run i then Some Wait_Deadline else wait_child run timeout (i + 1))"

text \<open>What a run comes to: the result, and whether the process group was killed.\<close>

type_synonym run_result = "command_result \<times> bool"

definition collect_streams :: "command_run \<Rightarrow> nat \<Rightarrow> int option option \<Rightarrow> bool \<Rightarrow> run_result" where
  "collect_streams run timeout status killed =
     (let stdout = map_option (read_bounded MAX_PROVIDER_OUTPUT_BYTES) (cn_stdout run);
          stderr = map_option (read_bounded MAX_PROVIDER_OUTPUT_BYTES) (cn_stderr run);
          reader_timed_out = (stdout = None \<or> stderr = None);
          killed = (killed \<or> reader_timed_out \<and> status \<noteq> None)
      in case (stdout, stderr) of
           (Some (out, out_truncated), Some (err, err_truncated)) \<Rightarrow>
             ((case status of
                 Some code \<Rightarrow> Inr \<lparr>co_code = code, co_stdout = out, co_stdout_truncated = out_truncated,
                   co_stderr = err, co_stderr_truncated = err_truncated\<rparr>
               | None \<Rightarrow> Inl (PCE_TimedOut timeout)), killed)
         | _ \<Rightarrow> (Inl (if reader_timed_out then PCE_TimedOut timeout else PCE_Reader), killed))"

definition run_command_with_timeout :: "command_run \<Rightarrow> nat \<Rightarrow> run_result option" where
  "run_command_with_timeout run timeout =
     (if \<not> cn_spawned run then Some (Inl PCE_Spawn, False)
      else if timeout \<le> cn_spawn_elapsed run then Some (Inl (PCE_TimedOut timeout), True)
      else map_option (\<lambda>waited. case waited of
               Wait_Error \<Rightarrow> (Inl PCE_Wait, True)
             | Wait_Deadline \<Rightarrow> collect_streams run timeout None True
             | Wait_Exited code \<Rightarrow> collect_streams run timeout (Some code) False)
             (wait_child run timeout 0))"

definition PROVIDER_COMMAND_TIMEOUT :: nat where "PROVIDER_COMMAND_TIMEOUT = from_secs 3"

section \<open>The loop ends\<close>

text \<open>The clock is monotonic and the thread sleeps between two polls.\<close>

definition sleeps_between_polls :: "command_run \<Rightarrow> bool" where
  "sleeps_between_polls run \<longleftrightarrow> (\<forall>i. cn_elapsed run i + POLL_INTERVAL \<le> cn_elapsed run (i + 1))"

lemma elapsed_after_polls: "sleeps_between_polls run \<Longrightarrow> POLL_INTERVAL * i \<le> cn_elapsed run i"
proof (induction i)
  case (Suc i)
  then have "cn_elapsed run i + POLL_INTERVAL \<le> cn_elapsed run (Suc i)" by (simp add: sleeps_between_polls_def)
  then show ?case using Suc by simp
qed simp

text \<open>The poll at which the loop stops: the first that is not a running child before the deadline.\<close>

definition still_waiting :: "command_run \<Rightarrow> nat \<Rightarrow> nat \<Rightarrow> bool" where
  "still_waiting run timeout i \<longleftrightarrow> cn_poll run i = Poll_Running \<and> cn_elapsed run i < timeout"

definition poll_end :: "child_poll \<Rightarrow> wait_end" where
  "poll_end p = (case p of Poll_Failed \<Rightarrow> Wait_Error | Poll_Exited status \<Rightarrow> Wait_Exited status | Poll_Running \<Rightarrow> Wait_Deadline)"

lemma wait_child_stop: "\<not> still_waiting run timeout i \<Longrightarrow> wait_child run timeout i = Some (poll_end (cn_poll run i))"
  by (subst wait_child.simps) (auto simp: still_waiting_def poll_end_def split: child_poll.split)

lemma wait_child_next: "still_waiting run timeout i \<Longrightarrow> wait_child run timeout i = wait_child run timeout (i + 1)"
  by (subst wait_child.simps) (simp add: still_waiting_def)

lemma wait_child_from:
  "(\<And>j. i \<le> j \<Longrightarrow> j < i + n \<Longrightarrow> still_waiting run timeout j) \<Longrightarrow>
     wait_child run timeout i = wait_child run timeout (i + n)"
proof (induction n)
  case (Suc n)
  then have "wait_child run timeout i = wait_child run timeout (i + n)" by simp
  then show ?case using wait_child_next [of run timeout "i + n"] Suc.prems [of "i + n"] by simp
qed simp

lemma wait_child_least:
  assumes "\<not> still_waiting run timeout k" and "\<And>j. j < k \<Longrightarrow> still_waiting run timeout j"
  shows "wait_child run timeout 0 = Some (poll_end (cn_poll run k))"
  using wait_child_from [of 0 k run timeout] assms wait_child_stop by simp

lemma wait_child_returns:
  assumes "sleeps_between_polls run"
  shows "\<exists>k. k \<le> timeout div POLL_INTERVAL + 1 \<and> \<not> still_waiting run timeout k
    \<and> wait_child run timeout 0 = Some (poll_end (cn_poll run k))"
proof -
  let ?n = "timeout div POLL_INTERVAL + 1"
  have "timeout < POLL_INTERVAL * ?n"
    using dividend_less_times_div [of POLL_INTERVAL timeout] by (simp add: POLL_INTERVAL_def)
  then have stop: "\<not> still_waiting run timeout ?n"
    using elapsed_after_polls [OF assms, of ?n] by (simp add: still_waiting_def)
  let ?k = "LEAST k. \<not> still_waiting run timeout k"
  have "\<not> still_waiting run timeout ?k" using stop by (rule LeastI)
  moreover have "?k \<le> ?n" using stop by (rule Least_le)
  moreover have "still_waiting run timeout j" if "j < ?k" for j using not_less_Least [OF that] by simp
  ultimately show ?thesis using wait_child_least by blast
qed

section \<open>Results\<close>

lemma read_bounded_length: "length (fst (read_bounded cap chunks)) \<le> cap"
  by (simp add: read_bounded_exact Let_def)

lemma collect_streams_cases:
  "(case collect_streams run timeout status killed of
      (Inr output, k) \<Rightarrow> status = Some (co_code output) \<and> k = killed \<and> cn_stdout run \<noteq> None \<and> cn_stderr run \<noteq> None
        \<and> length (co_stdout output) \<le> MAX_PROVIDER_OUTPUT_BYTES \<and> length (co_stderr output) \<le> MAX_PROVIDER_OUTPUT_BYTES
    | (Inl e, k) \<Rightarrow> e = PCE_TimedOut timeout \<and> (k \<longleftrightarrow> killed \<or> status \<noteq> None)
        \<and> (status = None \<or> cn_stdout run = None \<or> cn_stderr run = None))"
proof (cases "cn_stdout run")
  case (Some out)
  note out = Some
  show ?thesis
  proof (cases "cn_stderr run")
    case (Some err)
    obtain o1 o2 e1 e2 where r: "read_bounded MAX_PROVIDER_OUTPUT_BYTES out = (o1, o2)"
      "read_bounded MAX_PROVIDER_OUTPUT_BYTES err = (e1, e2)" by (metis surj_pair)
    then have "length o1 \<le> MAX_PROVIDER_OUTPUT_BYTES" "length e1 \<le> MAX_PROVIDER_OUTPUT_BYTES"
      by (metis read_bounded_length fst_conv)+
    then show ?thesis using out Some r by (cases status) (simp_all add: collect_streams_def)
  qed (use out in \<open>cases status; simp add: collect_streams_def split: prod.split\<close>)
qed (cases status; simp add: collect_streams_def split: option.split)


definition hanging_run :: command_run where
  "hanging_run = \<lparr>cn_spawned = True, cn_spawn_elapsed = 1, cn_poll = (\<lambda>_. Poll_Running), cn_elapsed = (\<lambda>i. 25000000 * i),
     cn_stdout = Some [], cn_stderr = None\<rparr>"


end
