(* ===== verification/Docker_Refresh.thy ===== *)
theory Docker_Refresh
  imports Daemon_Api Cache_Props Compose_Scan_Props
begin

text \<open>
  One tick of the refresh loop up to the publication (\<open>cache_refresh.rs\<close>): the client of the Docker
  gateway, the observation within its time limit, the Compose projection that runs beside it at most
  once at a time, and the candidate that results. Which time limits are met is the argument
  \<open>refresh_reads\<close>.
\<close>

section \<open>The Compose projection\<close>

text \<open>
  \<open>bounded_compose_runtime_binding\<close>; \<open>later\<close> is the file system when the captured files are read again.
\<close>

definition not_a_symlink :: "request_io \<Rightarrow> string \<Rightarrow> bool" where
  "not_a_symlink io path \<longleftrightarrow> rq_symlink_metadata io path = Inr False"

definition canonical_path :: "request_io \<Rightarrow> string \<Rightarrow> string option" where
  "canonical_path io path = (case rq_canonicalize io path of Inl _ \<Rightarrow> None | Inr p \<Rightarrow> Some p)"

definition bounded_compose_runtime_binding :: "digest \<Rightarrow> 'y yaml_api \<Rightarrow> request_io \<Rightarrow> compose_io
    \<Rightarrow> compose_runtime_container list option \<Rightarrow> u64 \<Rightarrow> (compose_scan \<times> compose_runtime_binding) option" where
  "bounded_compose_runtime_binding sha256 y io later containers collected_at =
     (case (containers, request_root io) of
        (Some containers, Inr root) \<Rightarrow>
          let files = discover_compose_files (rq_files io) root in
          if files = [] \<or> \<not> list_all (not_a_symlink io) files then None
          else (case (those (map (canonical_path io) files), canonical_path io root) of
            (Some canonical_files, Some root) \<Rightarrow>
              if \<not> list_all (\<lambda>file. path_starts_with file root) canonical_files then None
              else map_option (\<lambda>(scan, project, fingerprint). (scan,
                     \<lparr>cb_project = project, cb_config_files = bs_collect (map from_utf8_lossy canonical_files),
                      cb_containers = containers, cb_collected_at = collected_at, cb_provider_revision = [],
                      cb_fresh = True\<rparr>))
                   (scan_compose_binding_snapshot sha256 y (rq_files io) later root canonical_files)
          | _ \<Rightarrow> None)
      | _ \<Rightarrow> None)"

text \<open>
  The flight of the projection: whether it is claimed, and how many projections run. A projection
  that misses its time limit goes on running and keeps the claim until it exits.
\<close>

record projection_flight =
  pj_claimed :: bool
  pj_running :: nat

definition idle_flight :: projection_flight where
  "idle_flight = \<lparr>pj_claimed = False, pj_running = 0\<rparr>"

datatype projection_end = Projection_Done | Projection_Panicked | Projection_Late

definition projection_start :: "projection_flight \<Rightarrow> projection_flight" where
  "projection_start fl = \<lparr>pj_claimed = True, pj_running = pj_running fl + 1\<rparr>"

definition projection_exit :: "projection_flight \<Rightarrow> projection_flight" where
  "projection_exit fl = \<lparr>pj_claimed = False, pj_running = pj_running fl - 1\<rparr>"

section \<open>The Docker read\<close>

text \<open>Whether the observation was in time, time is left for the projection, and how it ended.\<close>

record refresh_reads =
  rr_in_time :: bool
  rr_time_left :: bool
  rr_projection :: projection_end

definition project_compose :: "(u64 \<Rightarrow> (compose_scan \<times> compose_runtime_binding) option) \<Rightarrow> refresh_reads
    \<Rightarrow> u64 \<Rightarrow> projection_flight \<Rightarrow> (compose_scan \<times> compose_runtime_binding) option \<times> projection_flight" where
  "project_compose projection reads collected_at fl =
     (if pj_claimed fl then (None, fl)
      else if \<not> rr_time_left reads then (None, fl\<lparr>pj_claimed := False\<rparr>)
      else case rr_projection reads of
        Projection_Done \<Rightarrow> (projection collected_at, projection_exit (projection_start fl))
      | Projection_Panicked \<Rightarrow> (None, projection_exit (projection_start fl))
      | Projection_Late \<Rightarrow> (None, projection_start fl))"

definition collect_docker_snapshot_candidate :: "'y server_env \<Rightarrow> compose_io \<Rightarrow> refresh_reads \<Rightarrow> docker_connection
    \<Rightarrow> projection_flight \<Rightarrow> docker_read \<times> projection_flight" where
  "collect_docker_snapshot_candidate env later reads collector fl =
     (if \<not> rr_in_time reads then (Read_TimedOut, fl)
      else case collect_observation (dk_client collector) (se_now env) (dk_label_filter collector) of
        Inl err \<Rightarrow> (Read_Failed err, fl)
      | Inr observation \<Rightarrow>
          let snapshot = do_snapshot observation;
              (binding, fl) = project_compose (bounded_compose_runtime_binding (se_sha256 env) (se_yaml env)
                (se_io env) later (do_compose_containers observation)) reads (sn_last_updated snapshot) fl
          in (Read snapshot binding, fl))"

definition invalidate_docker_collector :: "app_state \<Rightarrow> app_state" where
  "invalidate_docker_collector st = st\<lparr>as_docker := None\<rparr>"

definition after_read :: "docker_read \<Rightarrow> app_state \<Rightarrow> app_state" where
  "after_read read st = (case read of Read _ _ \<Rightarrow> st | _ \<Rightarrow> invalidate_docker_collector st)"

definition mock_forced :: "environment \<Rightarrow> bool" where
  "mock_forced env \<longleftrightarrow> env ''DOCKERMAP_FORCE_MOCK'' = Present ''true''"

definition collect_snapshot_read :: "'y server_env \<Rightarrow> compose_io \<Rightarrow> refresh_reads
    \<Rightarrow> app_state \<times> projection_flight \<Rightarrow> docker_read \<times> app_state \<times> projection_flight" where
  "collect_snapshot_read env later reads s =
     (case s of (st, fl) \<Rightarrow>
      if mock_forced (rq_env (se_io env)) then (Forced_Mock, st, fl)
      else case docker_collector env st of
        (Inl err, st) \<Rightarrow> (Not_Connected err, st, fl)
      | (Inr collector, st) \<Rightarrow>
          (case collect_docker_snapshot_candidate env later reads collector fl of
             (read, fl) \<Rightarrow> (read, after_read read st, fl)))"

text \<open>The tick: the read, the candidate, its publication and the slots that are claimed.\<close>

definition refresh_tick :: "cache_env \<Rightarrow> fresh_entropy \<Rightarrow> 'y server_env \<Rightarrow> compose_io \<Rightarrow> refresh_reads
    \<Rightarrow> (provider_slot \<Rightarrow> u64 option) \<Rightarrow> nat \<Rightarrow> nat \<Rightarrow> app_state \<times> projection_flight
    \<Rightarrow> (provider_slot list \<times> app_state \<times> projection_flight) option" where
  "refresh_tick cenv entropy env later reads clock tick active s =
     (case collect_snapshot_read env later reads s of
        (read, st, fl) \<Rightarrow>
          map_option (\<lambda>(slots, cache). (slots, st\<lparr>as_cache := cache\<rparr>, fl))
            (refresh_cache cenv entropy (se_now env) read clock tick active (as_cache st)))"

section \<open>One projection at a time\<close>

definition flight_ok :: "projection_flight \<Rightarrow> bool" where
  "flight_ok fl \<longleftrightarrow> pj_running fl = (if pj_claimed fl then 1 else 0)"

lemma project_compose_flight:
  "flight_ok fl \<Longrightarrow> flight_ok (snd (project_compose projection reads collected_at fl))"
  by (simp add: project_compose_def flight_ok_def projection_exit_def projection_start_def split: projection_end.split)

lemma candidate_flight:
  "flight_ok fl \<Longrightarrow> flight_ok (snd (collect_docker_snapshot_candidate env later reads collector fl))"
  using project_compose_flight
  by (auto simp: collect_docker_snapshot_candidate_def Let_def case_prod_beta split: sum.split)

lemma read_flight:
  assumes "flight_ok fl"
  shows "flight_ok (snd (snd (collect_snapshot_read env later reads (st, fl))))"
  using assms candidate_flight by (auto simp: collect_snapshot_read_def case_prod_beta split: sum.split)

text \<open>The ticks of a daemon and the projections that exit late, in any order.\<close>

inductive refresh_run :: "cache_env \<Rightarrow> 'y yaml_api \<Rightarrow> app_state \<times> projection_flight \<Rightarrow> bool" for cenv yaml where
  start: "refresh_run cenv yaml (st, idle_flight)"
| tick: "refresh_run cenv yaml s \<Longrightarrow> se_yaml env = yaml \<Longrightarrow> refresh_tick cenv entropy env later reads clock tick active s = Some (slots, s')
    \<Longrightarrow> refresh_run cenv yaml s'"
| exit: "refresh_run cenv yaml (st, fl) \<Longrightarrow> 0 < pj_running fl \<Longrightarrow> refresh_run cenv yaml (st, projection_exit fl)"

lemma single_projection: "refresh_run cenv yaml s \<Longrightarrow> flight_ok (snd s)"
proof (induction rule: refresh_run.induct)
  case (tick s env entropy later reads clock tick active slots s')
  obtain st fl where s: "s = (st, fl)" by (cases s)
  have "snd s' = snd (snd (collect_snapshot_read env later reads (st, fl)))"
    using tick.hyps unfolding s by (auto simp: refresh_tick_def split: prod.splits)
  then show ?case using read_flight tick.IH s by simp
qed (auto simp: flight_ok_def idle_flight_def projection_exit_def split: if_splits)

section \<open>What a tick reads\<close>

text \<open>What the Docker gateway answers in time.\<close>

definition observed :: "'y server_env \<Rightarrow> refresh_reads \<Rightarrow> app_state \<Rightarrow> docker_observation option" where
  "observed env reads st =
     (case fst (docker_collector env st) of
        Inl _ \<Rightarrow> None
      | Inr collector \<Rightarrow>
          if mock_forced (rq_env (se_io env)) \<or> \<not> rr_in_time reads then None
          else case collect_observation (dk_client collector) (se_now env) (dk_label_filter collector) of
            Inl _ \<Rightarrow> None | Inr observation \<Rightarrow> Some observation)"

definition observed_projection :: "'y server_env \<Rightarrow> compose_io \<Rightarrow> docker_observation \<Rightarrow> u64
    \<Rightarrow> (compose_scan \<times> compose_runtime_binding) option" where
  "observed_projection env later observation = bounded_compose_runtime_binding (se_sha256 env) (se_yaml env) (se_io env) later
     (do_compose_containers observation)"

lemma read_of_observed:
  "(case observed env reads st of
      Some obs \<Rightarrow> fst (collect_snapshot_read env later reads (st, fl)) = Read (do_snapshot obs)
        (fst (project_compose (observed_projection env later obs) reads (sn_last_updated (do_snapshot obs)) fl))
    | None \<Rightarrow> \<nexists>snapshot binding. fst (collect_snapshot_read env later reads (st, fl)) = Read snapshot binding)"
  by (cases "docker_collector env st"; cases "fst (docker_collector env st)")
    (auto simp: observed_def observed_projection_def collect_snapshot_read_def collect_docker_snapshot_candidate_def
      Let_def case_prod_beta split: sum.splits)

lemma read_client:
  "mock_forced (rq_env (se_io env)) \<or> as_docker (fst (snd (collect_snapshot_read env later reads (st, fl))))
     = (if observed env reads st = None then None else as_docker (snd (docker_collector env st)))"
  by (cases "docker_collector env st"; cases "fst (docker_collector env st)")
    (auto simp: observed_def collect_snapshot_read_def collect_docker_snapshot_candidate_def invalidate_docker_collector_def
      after_read_def docker_collector_def Let_def case_prod_beta split: sum.splits option.splits)

lemma read_cache: "as_cache (fst (snd (collect_snapshot_read env later reads (st, fl)))) = as_cache st"
  by (cases "docker_collector env st"; cases "fst (docker_collector env st)")
    (auto simp: collect_snapshot_read_def invalidate_docker_collector_def after_read_def docker_collector_def
      case_prod_beta split: sum.splits option.splits docker_read.splits)

lemma collector_connected: "fst (docker_collector env st) = Inr collector \<Longrightarrow> as_docker (snd (docker_collector env st)) \<noteq> None"
  by (auto simp: docker_collector_def split: option.splits sum.splits)

lemma mock_binding: "mock_cache cenv entropy now = Some c \<Longrightarrow> dc_compose_runtime_binding c = None"
  by (auto simp: mock_cache_def new_cache_def assign_revision_def assign_docker_observation_revision_def with_findings_def
      Let_def bind_eq_Some_conv)

text \<open>
  C8. When the daemon shows live data. The candidate of a tick is in Docker mode exactly when the sample
  is not forced, a client of the gateway is there or can be connected, and its answer comes within the
  time limit without an error; then it has that inventory, whatever happens to the Compose projection,
  which may be late, panic, still run from an earlier tick or find no project. Otherwise it is the
  sample without any Compose binding, and the client is dropped, so the next tick connects anew. The
  published cache is left alone until the candidate is published.
\<close>

theorem refresh_read_exact:
  assumes "collect_snapshot_read env later reads (st, fl) = (read, st', fl')"
    and "collect_snapshot cenv entropy (se_now env) read = Some c" and "fresh_ok entropy" and "cache_env_ok cenv"
  shows "as_cache st' = as_cache st \<and> (case observed env reads st of
      Some obs \<Rightarrow> hr_mode (dc_health c) = Mode_Docker \<and> as_docker st' \<noteq> None
        \<and> dc_snapshot c = (do_snapshot obs)\<lparr>sn_images := derive_images (do_snapshot obs)\<rparr>
    | None \<Rightarrow> hr_mode (dc_health c) = Mode_Mock \<and> dc_compose_runtime_binding c = None
        \<and> (mock_forced (rq_env (se_io env)) \<or> as_docker st' = None))"
proof -
  have mode: "hr_mode (dc_health c) = read_mode read" by (rule collected_mode [OF assms(2-4)])
  have cache: "as_cache st' = as_cache st" using read_cache [of env later reads st fl] assms(1) by simp
  have client: "mock_forced (rq_env (se_io env)) \<or> as_docker st'
      = (if observed env reads st = None then None else as_docker (snd (docker_collector env st)))"
    using read_client [where env = env and reads = reads and st = st and later = later and fl = fl] assms(1) by simp
  show ?thesis
  proof (cases "observed env reads st")
    case None
    then have read: "\<nexists>snapshot binding. read = Read snapshot binding"
      using read_of_observed [where env = env and reads = reads and st = st and later = later and fl = fl] assms(1) by simp
    then have "read_mode read = Mode_Mock" by (cases read) (auto simp: read_mode_def)
    moreover have "dc_compose_runtime_binding c = None"
      using assms(2) read mock_binding by (cases read) (auto simp: collect_snapshot_def with_message_def)
    ultimately show ?thesis using None mode cache client by simp
  next
    case (Some obs)
    then obtain binding where read: "read = Read (do_snapshot obs) binding"
      using read_of_observed [where env = env and reads = reads and st = st and later = later and fl = fl] assms(1) by simp
    have "\<not> mock_forced (rq_env (se_io env))" "\<exists>collector. fst (docker_collector env st) = Inr collector"
      using Some by (auto simp: observed_def split: sum.splits if_splits)
    then have "as_docker st' \<noteq> None" using client Some collector_connected by auto
    moreover have "dc_snapshot c = (do_snapshot obs)\<lparr>sn_images := derive_images (do_snapshot obs)\<rparr>"
      using assms(2) read by (auto simp: collect_snapshot_def docker_candidate_def new_cache_def Let_def)
    ultimately show ?thesis using Some mode cache read by (simp add: read_mode_def)
  qed
qed

section \<open>Where a binding comes from\<close>

lemma those_Some: "those xs = Some ys \<Longrightarrow> xs = map Some ys"
  by (induction xs arbitrary: ys) (auto split: option.splits)

lemma bound_projection:
  assumes "bounded_compose_runtime_binding sha256 y io later containers collected_at = Some (scan, b)"
  shows "\<exists>project root files fingerprint. request_root io = Inr project \<and> rq_canonicalize io project = Inr root
    \<and> containers = Some (cb_containers b) \<and> cb_collected_at b = collected_at \<and> cb_fresh b
    \<and> map Some files = map (canonical_path io) (discover_compose_files (rq_files io) project)
    \<and> files \<noteq> [] \<and> (\<forall>d \<in> set (discover_compose_files (rq_files io) project). rq_symlink_metadata io d = Inr False)
    \<and> (\<forall>f \<in> set files. path_starts_with f root) \<and> cb_config_files b = bs_collect (map from_utf8_lossy files)
    \<and> scan_compose_binding_snapshot sha256 y (rq_files io) later root files = Some (scan, cb_project b, fingerprint)"
proof -
  obtain cs project files root where e: "containers = Some cs" "request_root io = Inr project"
    "discover_compose_files (rq_files io) project \<noteq> []" "list_all (not_a_symlink io) (discover_compose_files (rq_files io) project)"
    "those (map (canonical_path io) (discover_compose_files (rq_files io) project)) = Some files"
    "canonical_path io project = Some root" "list_all (\<lambda>f. path_starts_with f root) files"
    and bound: "map_option (\<lambda>(scan, project, fingerprint). (scan,
                     \<lparr>cb_project = project, cb_config_files = bs_collect (map from_utf8_lossy files),
                      cb_containers = cs, cb_collected_at = collected_at, cb_provider_revision = [],
                      cb_fresh = True\<rparr>))
                   (scan_compose_binding_snapshot sha256 y (rq_files io) later root files) = Some (scan, b)"
    using assms by (auto simp: bounded_compose_runtime_binding_def Let_def split: option.splits sum.splits if_splits)
  have files: "map (canonical_path io) (discover_compose_files (rq_files io) project) = map Some files"
    by (rule those_Some [OF e(5)])
  then have "files \<noteq> []" using e(3) by (metis list.map_disc_iff)
  moreover have "rq_canonicalize io project = Inr root"
    using e(6) by (auto simp: canonical_path_def split: sum.splits)
  ultimately show ?thesis using e(1,2,4,7) files bound
    by (auto simp: list_all_iff not_a_symlink_def)
qed


section \<open>Examples\<close>

lemma fst_triple: "fst x = a \<Longrightarrow> \<exists>s t. x = (a, s, t)"
  by (cases x) auto

definition one_file_io :: compose_io where
  "one_file_io = small_io\<lparr>io_is_file := \<lambda>f. f = ''/p/compose.yaml''\<rparr>"

definition refresh_server :: "small_yaml server_env" where
  "refresh_server = \<lparr>se_sha256 = toy_digest, se_yaml = small_api small_document, se_form_parse = (\<lambda>_. []),
     se_io = \<lparr>rq_env = (\<lambda>_. Not_Present), rq_canonicalize = (\<lambda>p. Inr (if p = ''.'' then ''/p'' else p)),
       rq_symlink_metadata = (\<lambda>_. Inr False), rq_read_to_string = (\<lambda>_. Inr ''x''), rq_files = one_file_io\<rparr>,
     se_connect = (\<lambda>_. Inl ''refused''), se_json_node = gn_id, se_json_edge = ge_source, se_debug = concat, se_now = 9\<rparr>"

definition quiet_api :: docker_api where
  "quiet_api = \<lparr>da_list_containers = (\<lambda>_ _. Inr []), da_list_networks = (\<lambda>_. Inr []), da_list_volumes = (\<lambda>_. Inr None),
     da_logs = (\<lambda>_ _. []), da_port_type_debug = (\<lambda>_. ''TCP'')\<rparr>"

definition connected_state :: "daemon_cache \<Rightarrow> app_state" where
  "connected_state c = \<lparr>as_cache = c, as_docker = Some \<lparr>dk_client = quiet_api, dk_label_filter = None\<rparr>, as_allow_mock = False\<rparr>"

definition timely_reads :: "projection_end \<Rightarrow> refresh_reads" where
  "timely_reads e = \<lparr>rr_in_time = True, rr_time_left = True, rr_projection = e\<rparr>"

lemma refresh_discovered: "discover_compose_files one_file_io ''/p'' = [''/p/compose.yaml'']"
  by code_simp

lemma refresh_scan:
  "\<exists>scan fingerprint. scan_compose_binding_snapshot toy_digest (small_api small_document) one_file_io one_file_io ''/p''
     [''/p/compose.yaml''] = Some (scan, ''demo'', fingerprint)"
proof -
  have within: "within_root ''/p'' ''/p/compose.yaml''" by code_simp
  have "captured one_file_io root f = captured small_io root f" for root f
    by (simp add: captured_def read_compose_file_bounded_under_root_def one_file_io_def small_io_def)
  then have captured: "captured one_file_io ''/p'' ''/p/compose.yaml'' = Some ''x''"
    using within by (simp add: captured_def small_read)
  have trimmed: "trim ''demo'' = ''demo''" by code_simp
  have "document_names (small_api small_document) (captured one_file_io ''/p'') [''/p/compose.yaml''] = Some [''demo'']"
    by (simp add: captured document_name_def mapping_get_def small_api_def small_document_def trimmed)
  then show ?thesis
    by (simp add: scan_compose_binding_snapshot_def captured single_name_def bs_collect_def Let_def)
qed

lemma refresh_observed:
  "\<exists>obs. observed refresh_server (timely_reads e) (connected_state c) = Some obs \<and> do_compose_containers obs = Some []"
  by (simp add: observed_def docker_collector_def connected_state_def mock_forced_def refresh_server_def timely_reads_def
      collect_observation_def quiet_api_def Let_def)

theorem refresh_read_exact_witness:
  "\<exists>c read st' fl' candidate. collect_snapshot_read refresh_server one_file_io (timely_reads Projection_Late)
       (connected_state c, idle_flight) = (read, st', fl')
     \<and> collect_snapshot example_env example_entropy 9 read = Some candidate \<and> hr_mode (dc_health candidate) = Mode_Docker"
proof -
  fix c
  obtain read st' fl' where run: "collect_snapshot_read refresh_server one_file_io (timely_reads Projection_Late)
      (connected_state c, idle_flight) = (read, st', fl')" by (metis prod_cases3)
  obtain candidate where c: "collect_snapshot example_env example_entropy (se_now refresh_server) read = Some candidate"
    using collect_returns by blast
  obtain obs where "observed refresh_server (timely_reads Projection_Late) (connected_state c) = Some obs"
    using refresh_observed by blast
  then have "hr_mode (dc_health candidate) = Mode_Docker" using refresh_read_exact [OF run c example_ok(2,1)] by simp
  then show ?thesis using run c by (auto simp: refresh_server_def)
qed


end
