(* ===== verification/History_Journal.thy ===== *)
theory History_Journal
  imports History
begin

text \<open>
  The abstract specification of the change history: an unbounded journal of an epoch, and the proof
  that the daemon's cache of at most 64 events with running sequence numbers refines it.
\<close>

section \<open>The journal\<close>

text \<open>
  A journal knows its epoch, the last snapshot of it, the time of that snapshot if it was usable, and
  every change of the epoch in order. A snapshot whose time cannot be used begins a new epoch.
\<close>

record journal =
  jo_epoch :: string
  jo_clock :: "u64 option"
  jo_last :: "docker_snapshot option"
  jo_entries :: "(u64 \<times> observed_change) list"

definition journal_start :: "string \<Rightarrow> journal" where
  "journal_start epoch = \<lparr>jo_epoch = epoch, jo_clock = None, jo_last = None, jo_entries = []\<rparr>"

definition time_usable :: "u64 \<Rightarrow> journal \<Rightarrow> bool" where
  "time_usable now j \<longleftrightarrow> now \<le> 9007199254740991 \<and> (case jo_clock j of None \<Rightarrow> True | Some t \<Rightarrow> t \<le> now)"

definition changes_since :: "digest \<Rightarrow> docker_snapshot option \<Rightarrow> docker_snapshot \<Rightarrow> observed_change list" where
  "changes_since sha256 before s =
     (case before of
        None \<Rightarrow> []
      | Some p \<Rightarrow> inventory_changes (observed_container_inventory sha256 p) (observed_container_inventory sha256 s))"

definition journal_observe :: "digest \<Rightarrow> string \<Rightarrow> docker_snapshot \<Rightarrow> journal \<Rightarrow> journal" where
  "journal_observe sha256 epoch s j =
     (let now = sn_last_updated s
      in if time_usable now j
         then j\<lparr>jo_clock := Some now, jo_last := Some s,
           jo_entries := jo_entries j @ map (Pair now) (changes_since sha256 (jo_last j) s)\<rparr>
         else (journal_start epoch)\<lparr>jo_last := Some s\<rparr>)"

fun run_journal :: "digest \<Rightarrow> journal \<Rightarrow> (8 word list \<times> docker_snapshot) list \<Rightarrow> journal" where
  "run_journal sha256 j [] = j"
| "run_journal sha256 j ((entropy, s) # observations) =
     run_journal sha256 (journal_observe sha256 (opaque_revision_boot_component entropy) s j) observations"

fun run_history :: "digest \<Rightarrow> observed_history_cache \<Rightarrow> (8 word list \<times> docker_snapshot) list
    \<Rightarrow> observed_history_cache option" where
  "run_history sha256 h [] = Some h"
| "run_history sha256 h ((entropy, s) # observations) =
     (case observe_published_snapshot sha256 entropy s h of
        None \<Rightarrow> None
      | Some h' \<Rightarrow> run_history sha256 h' observations)"

section \<open>What the cache shows of a journal\<close>

definition journal_event :: "string \<Rightarrow> nat \<times> u64 \<times> observed_change \<Rightarrow> observed_change_event" where
  "journal_event epoch e = (case e of (n, t, c) \<Rightarrow>
     \<lparr>oe_id = event_id epoch n, oe_kind = och_kind c, oe_observed_at_ms = t,
      oe_container_id = och_container_id c, oe_previous_status = och_previous c,
      oe_current_status = och_current c\<rparr>)"

definition journal_events :: "journal \<Rightarrow> observed_change_event list" where
  "journal_events j = map (journal_event (jo_epoch j)) (enumerate 1 (jo_entries j))"

definition last_64 :: "'a list \<Rightarrow> 'a list" where
  "last_64 xs = drop (length xs - 64) xs"

definition presents :: "digest \<Rightarrow> observed_history_cache \<Rightarrow> journal \<Rightarrow> bool" where
  "presents sha256 h j \<longleftrightarrow> hc_boot h = jo_epoch j \<and> hc_last_observed_at_ms h = jo_clock j
     \<and> hc_baseline h = map_option (observed_container_inventory sha256) (jo_last j)
     \<and> hc_next_sequence h = length (jo_entries j) \<and> hc_events h = last_64 (journal_events j)"

section \<open>The refinement\<close>

lemma last_64_append: "last_64 (last_64 xs @ ys) = last_64 (xs @ ys)"
proof (cases "length xs \<le> 64")
  case False
  then have "length xs - 64 + (64 + length ys - 64) = length xs + length ys - 64" by simp
  then show ?thesis using False by (simp add: last_64_def add.commute)
qed (simp add: last_64_def)

lemma rev_last_64: "rev (last_64 xs) = take 64 (rev xs)"
  by (cases "length xs \<le> 64") (simp_all add: last_64_def rev_drop)

lemma history_push_all_exact:
  "hc_next_sequence h + length cs < 2 ^ 64 \<Longrightarrow> hc_events h = last_64 es \<Longrightarrow>
     history_push_all t cs h = Some (h\<lparr>hc_next_sequence := hc_next_sequence h + length cs,
       hc_events := last_64 (es @ map (journal_event (hc_boot h)) (enumerate (Suc (hc_next_sequence h)) (map (Pair t) cs)))\<rparr>)"
proof (induction cs arbitrary: h es)
  case (Cons c cs)
  let ?e = "journal_event (hc_boot h) (Suc (hc_next_sequence h), t, c)"
  let ?h = "h\<lparr>hc_next_sequence := Suc (hc_next_sequence h), hc_events := last_64 (es @ [?e])\<rparr>"
  have "trim_events (hc_events h @ [?e]) = last_64 (es @ [?e])"
    using Cons.prems(2) last_64_append [of es "[?e]"] by (simp add: trim_events_drop last_64_def)
  then have "history_push t c h = Some ?h"
    using Cons.prems(1) by (simp add: history_push_def checked_add1_def journal_event_def)
  moreover have "history_push_all t cs ?h = Some (?h\<lparr>hc_next_sequence := hc_next_sequence ?h + length cs,
       hc_events := last_64 ((es @ [?e]) @ map (journal_event (hc_boot ?h))
         (enumerate (Suc (hc_next_sequence ?h)) (map (Pair t) cs)))\<rparr>)"
    by (rule Cons.IH) (use Cons.prems in simp_all)
  ultimately show ?case by simp
qed simp

lemma observe_presents:
  assumes "presents sha256 h j"
    and "length (jo_entries (journal_observe sha256 (opaque_revision_boot_component entropy) s j)) < 2 ^ 64"
  shows "\<exists>h'. observe_published_snapshot sha256 entropy s h = Some h'
    \<and> presents sha256 h' (journal_observe sha256 (opaque_revision_boot_component entropy) s j)"
proof -
  let ?now = "sn_last_updated s"
  have clock: "clock_unusable h ?now \<longleftrightarrow> \<not> time_usable ?now j"
    using assms(1) by (auto simp: clock_unusable_def time_usable_def presents_def MAX_SAFE_JS_INTEGER_def
        not_less split: option.splits)
  show ?thesis
  proof (cases "time_usable ?now j")
    case False
    then show ?thesis using clock
      by (simp add: observe_published_snapshot_def journal_observe_def Let_def presents_def journal_start_def
          journal_events_def last_64_def)
  next
    case True
    let ?cs = "changes_since sha256 (jo_last j) s"
    let ?h = "h\<lparr>hc_last_observed_at_ms := Some ?now,
        hc_baseline := Some (observed_container_inventory sha256 s)\<rparr>"
    have len: "hc_next_sequence ?h + length ?cs < 2 ^ 64"
      using assms True by (simp add: journal_observe_def Let_def presents_def)
    have "observe_published_snapshot sha256 entropy s h = history_push_all ?now ?cs ?h"
      using clock True assms(1)
      by (cases "jo_last j") (simp_all add: observe_published_snapshot_def Let_def presents_def changes_since_def)
    also have "\<dots> = Some (?h\<lparr>hc_next_sequence := hc_next_sequence ?h + length ?cs,
       hc_events := last_64 (journal_events j @ map (journal_event (hc_boot ?h))
         (enumerate (Suc (hc_next_sequence ?h)) (map (Pair ?now) ?cs)))\<rparr>)"
      by (rule history_push_all_exact [OF len]) (use assms(1) in \<open>simp add: presents_def\<close>)
    finally show ?thesis using True assms(1)
      by (simp add: presents_def journal_observe_def Let_def journal_events_def enumerate_append_eq)
  qed
qed

lemma run_history_presents:
  "presents sha256 h j \<Longrightarrow> \<forall>k \<le> length observations. length (jo_entries (run_journal sha256 j (take k observations))) < 2 ^ 64 \<Longrightarrow>
     \<exists>h'. run_history sha256 h observations = Some h' \<and> presents sha256 h' (run_journal sha256 j observations)"
proof (induction observations arbitrary: h j)
  case (Cons ob observations)
  obtain entropy s where ob: "ob = (entropy, s)" by (cases ob)
  let ?j = "journal_observe sha256 (opaque_revision_boot_component entropy) s j"
  have "length (jo_entries ?j) < 2 ^ 64" using Cons.prems(2) [rule_format, of 1] by (simp add: ob)
  then obtain h' where h': "observe_published_snapshot sha256 entropy s h = Some h'" "presents sha256 h' ?j"
    using observe_presents [OF Cons.prems(1)] by blast
  have "\<forall>k \<le> length observations. length (jo_entries (run_journal sha256 ?j (take k observations))) < 2 ^ 64"
    using Cons.prems(2) [rule_format, of "Suc k" for k] by (simp add: ob)
  then show ?case using Cons.IH [OF h'(2)] h'(1) by (simp add: ob)
qed simp

text \<open>
  C4. The change history refines a journal. From the start of the daemon, for every sequence of
  published snapshots in which no epoch collects 2 to the 64 changes, the cache never panics, and
  what it answers in Docker mode is the newest 64 entries of the unbounded journal of the epoch,
  newest first, each under its position in the journal: the bound on the memory is the only
  difference, and no entry is lost, repeated or renumbered by trimming.
\<close>

theorem history_refines_journal:
  assumes "observations \<noteq> []"
    and "j = run_journal sha256 (journal_start (opaque_revision_boot_component entropy)) observations"
    and "\<forall>k \<le> length observations. length (jo_entries (run_journal sha256
      (journal_start (opaque_revision_boot_component entropy)) (take k observations))) < 2 ^ 64"
  shows "\<exists>h. run_history sha256 (history_new entropy) observations = Some h
    \<and> hc_next_sequence h = length (jo_entries j)
    \<and> oh_events (history_response h Mode_Docker model_revision observed_revision)
        = take 64 (rev (map (journal_event (jo_epoch j)) (enumerate 1 (jo_entries j))))"
proof -
  have "presents sha256 (history_new entropy) (journal_start (opaque_revision_boot_component entropy))"
    by (simp add: presents_def history_new_def journal_start_def journal_events_def last_64_def)
  then obtain h where h: "run_history sha256 (history_new entropy) observations = Some h" "presents sha256 h j"
    using run_history_presents assms(2,3) by blast
  have last: "jo_last (run_journal sha256 j obs) \<noteq> None" if "jo_last j \<noteq> None \<or> obs \<noteq> []" for j obs
    using that
  proof (induction obs arbitrary: j)
    case (Cons ob obs)
    then show ?case by (cases ob) (simp add: journal_observe_def Let_def)
  qed simp
  have "hc_baseline h \<noteq> None" using h(2) last assms(1,2) by (simp add: presents_def)
  then show ?thesis using h
    by (auto simp: presents_def history_response_def journal_events_def rev_last_64)
qed

theorem history_refines_journal_witness:
  "\<exists>h. run_history (\<lambda>_. []) (history_new []) [([], example_observed), ([], example_gone)] = Some h"
proof -
  let ?j = "journal_start []"
  let ?iv = "observed_container_inventory (\<lambda>_. [])"
  have iv: "iv_containers (?iv example_observed) =
      [(observed_container_identity (\<lambda>_. []) ''c1'', observed_status_class ''Up 3 hours'')]"
    by (simp add: observed_container_inventory_def inventory_candidates_def push_candidate_def
        bt_get_def inventory_step_def example_observed_def)
  have gone: "?iv example_gone = \<lparr>iv_containers = [], iv_ambiguous_ids = []\<rparr>"
    by (simp add: observed_container_inventory_def inventory_candidates_def example_gone_def)
  have changes: "length (changes_since (\<lambda>_. []) (Some example_observed) example_gone) = 1"
    by (simp add: changes_since_def inventory_changes_def disappearances_def iv gone bt_get_def)
  have e: "opaque_revision_boot_component [] = []" by (simp add: opaque_revision_boot_component_def hex_string_def)
  have first: "journal_observe (\<lambda>_. []) [] example_observed ?j
      = \<lparr>jo_epoch = [], jo_clock = Some 5, jo_last = Some example_observed, jo_entries = []\<rparr>"
    by (simp add: journal_observe_def journal_start_def time_usable_def changes_since_def example_observed_def Let_def)
  have "length (jo_entries (run_journal (\<lambda>_. []) ?j (take k [([], example_observed), ([], example_gone)]))) \<le> 1" for k
  proof -
    consider "k = 0" | "k = 1" | n where "k = Suc (Suc n)" by (metis One_nat_def nat.exhaust)
    then show ?thesis
      using changes changes_since_def [of "\<lambda>_. []" None]
      by cases (simp_all add: e journal_observe_def journal_start_def Let_def)
  qed
  then have "length (jo_entries (run_journal (\<lambda>_. []) ?j (take k [([], example_observed), ([], example_gone)]))) < 2 ^ 64" for k
    by (rule le_less_trans) simp
  then show ?thesis
    using history_refines_journal [of "[([], example_observed), ([], example_gone)]" _ "\<lambda>_. []" "[]", OF _ refl, unfolded e]
    by blast
qed

end
